(* ===== verification/Nlgcp_Prelude.thy ===== *)
theory Nlgcp_Prelude
  imports Main "HOL-Library.Word" "HOL-Library.Char_ord" "HOL-Library.List_Lexorder"
begin

text \<open>
  Shared vocabulary of the development: the exceptions the Python code raises, results that are
  either an exception or a value, the text helpers behind the f-strings (decimal and hexadecimal
  numbers), and the generic list and option lemmas that the component theories use.

  Python \<open>bytes\<close> are lists of 8-bit words, Python \<open>str\<close> is a character list (ASCII text), Python
  \<open>int\<close> is \<open>int\<close> (or \<open>nat\<close> where the code can only produce a count or an offset).
\<close>

unbundle bit_operations_syntax

section \<open>Exceptions and results\<close>

text \<open>
  The exception classes raised under \<open>src/\<close>, each with the message it carries. \<open>ReadTimeout\<close> is the
  \<open>TimeoutError\<close> of a socket and \<open>ConnectionLost\<close> any other \<open>OSError\<close> of one.
\<close>

datatype py_error =
    ValueError string
  | AdmissionBlocked string
  | DecisionBlocked string
  | ConsumerStalled string
  | BufferError string
  | OverflowError string
  | ZeroDivisionError string
  | KeyError string
  | TypeError string
  | IndexError string
  | AttributeError string
  | PermissionError string
  | FileExistsError string
  | FileNotFoundError string
  | ConnectionLost string
  | ReadTimeout string
  | CaptureLimitExceeded string
  | UnsupportedEncoderError string
  | ProfileError string
  | RinexParseError string
  | DatasetError string
  | QCExecutionError string
  | ConversionError string
  | NetworkBlocked string
  | Phase2DatasetError string
  | IsADirectoryError string

text \<open>\<open>str(exc)\<close>, as the handlers that wrap an exception print it.\<close>

fun error_text :: "py_error \<Rightarrow> string" where
  "error_text (ValueError s) = s"
| "error_text (AdmissionBlocked s) = s"
| "error_text (DecisionBlocked s) = s"
| "error_text (ConsumerStalled s) = s"
| "error_text (BufferError s) = s"
| "error_text (OverflowError s) = s"
| "error_text (ZeroDivisionError s) = s"
| "error_text (KeyError s) = s"
| "error_text (TypeError s) = s"
| "error_text (IndexError s) = s"
| "error_text (AttributeError s) = s"
| "error_text (PermissionError s) = s"
| "error_text (FileExistsError s) = s"
| "error_text (FileNotFoundError s) = s"
| "error_text (ConnectionLost s) = s"
| "error_text (ReadTimeout s) = s"
| "error_text (CaptureLimitExceeded s) = s"
| "error_text (UnsupportedEncoderError s) = s"
| "error_text (ProfileError s) = s"
| "error_text (RinexParseError s) = s"
| "error_text (DatasetError s) = s"
| "error_text (QCExecutionError s) = s"
| "error_text (ConversionError s) = s"
| "error_text (NetworkBlocked s) = s"
| "error_text (Phase2DatasetError s) = s"
| "error_text (IsADirectoryError s) = s"

type_synonym 'a result = "py_error + 'a"

definition bind_result :: "'a result \<Rightarrow> ('a \<Rightarrow> 'b result) \<Rightarrow> 'b result" where
  "bind_result r f = (case r of Inl e \<Rightarrow> Inl e | Inr x \<Rightarrow> f x)"

lemma bind_result_simps [simp]:
  "bind_result (Inl e) f = Inl e"
  "bind_result (Inr x) f = f x"
  by (simp_all add: bind_result_def)

lemma bind_result_eq_Inr [simp]:
  "bind_result r f = Inr y \<longleftrightarrow> (\<exists>x. r = Inr x \<and> f x = Inr y)"
  by (cases r) auto

lemma bind_result_eq_Inl:
  "bind_result r f = Inl e \<longleftrightarrow> r = Inl e \<or> (\<exists>x. r = Inr x \<and> f x = Inl e)"
  by (cases r) auto

text \<open>A list comprehension whose body can raise: the first exception ends it.\<close>

fun map_result :: "('a \<Rightarrow> 'b result) \<Rightarrow> 'a list \<Rightarrow> 'b list result" where
  "map_result f [] = Inr []"
| "map_result f (x # xs) = bind_result (f x) (\<lambda>y. bind_result (map_result f xs) (\<lambda>ys. Inr (y # ys)))"

lemma map_result_Inr_iff:
  "map_result f xs = Inr ys \<longleftrightarrow> list_all2 (\<lambda>x y. f x = Inr y) xs ys"
  by (induction xs arbitrary: ys) (auto simp: list_all2_Cons1)

lemma map_result_total: "(\<And>x. x \<in> set xs \<Longrightarrow> f x = Inr (g x)) \<Longrightarrow> map_result f xs = Inr (map g xs)"
  by (induction xs) auto

lemma map_result_Inl: "map_result f xs = Inl e \<Longrightarrow> \<exists>x \<in> set xs. f x = Inl e"
  by (induction xs) (auto simp: bind_result_eq_Inl)

section \<open>Bytes and text\<close>

type_synonym byte = "8 word"
type_synonym bytes = "byte list"

text \<open>Decimal and hexadecimal digits, as \<open>str(n)\<close> and the format \<open>06x\<close> print them.\<close>

definition digit_char :: "nat \<Rightarrow> char" where
  "digit_char d = (if d < 10 then char_of (48 + d) else char_of (87 + d))"

fun nat_digits :: "nat \<Rightarrow> nat \<Rightarrow> string" where
  "nat_digits base n =
     (if base < 2 \<or> n < base then [digit_char n]
      else nat_digits base (n div base) @ [digit_char (n mod base)])"

declare nat_digits.simps [simp del]

definition str_nat :: "nat \<Rightarrow> string" where
  "str_nat n = nat_digits 10 n"

definition str_int :: "int \<Rightarrow> string" where
  "str_int i = (if i < 0 then CHR ''-'' # str_nat (nat (- i)) else str_nat (nat i))"

definition hex6 :: "nat \<Rightarrow> string" where
  "hex6 n = (let s = nat_digits 16 n in replicate (6 - length s) (CHR ''0'') @ s)"

text \<open>\<open>sep.join(parts)\<close>\<close>

fun str_join :: "string \<Rightarrow> string list \<Rightarrow> string" where
  "str_join sep [] = []"
| "str_join sep [s] = s"
| "str_join sep (s # t # ss) = s @ sep @ str_join sep (t # ss)"

text \<open>\<open>x or y\<close> on an optional string: absent and empty both fall through.\<close>

definition str_or :: "string option \<Rightarrow> string \<Rightarrow> string" where
  "str_or x y = (case x of None \<Rightarrow> y | Some s \<Rightarrow> if s = [] then y else s)"

text \<open>\<open>s.upper()\<close>, \<open>s.strip()\<close> and \<open>t in s\<close> on ASCII text.\<close>

definition ascii_upper :: "char \<Rightarrow> char" where
  "ascii_upper c = (let n = of_char c :: nat in if 97 \<le> n \<and> n \<le> 122 then char_of (n - 32) else c)"

definition str_upper :: "string \<Rightarrow> string" where
  "str_upper = map ascii_upper"

definition is_space :: "char \<Rightarrow> bool" where
  "is_space c =
     (let n = of_char c :: nat
      in n = 32 \<or> (9 \<le> n \<and> n \<le> 13) \<or> (28 \<le> n \<and> n \<le> 31) \<or> n = 133 \<or> n = 160)"

definition str_strip :: "string \<Rightarrow> string" where
  "str_strip s = rev (dropWhile is_space (rev (dropWhile is_space s)))"

fun starts_with :: "string \<Rightarrow> string \<Rightarrow> bool" where
  "starts_with [] s = True"
| "starts_with (p # ps) [] = False"
| "starts_with (p # ps) (c # cs) = (p = c \<and> starts_with ps cs)"

fun str_contains :: "string \<Rightarrow> string \<Rightarrow> bool" where
  "str_contains t [] = (t = [])"
| "str_contains t (c # cs) = (starts_with t (c # cs) \<or> str_contains t cs)"

lemma starts_with_append [simp]: "starts_with p (p @ s)"
  by (induction p) auto

lemma starts_with_refl [simp]: "starts_with p p"
  using starts_with_append [of p "[]"] by simp

lemma starts_with_iff: "starts_with p s \<longleftrightarrow> (\<exists>t. s = p @ t)"
  by (induction p s rule: starts_with.induct) auto

lemma str_contains_iff: "str_contains t s \<longleftrightarrow> (\<exists>u v. s = u @ t @ v)"
proof (induction t s rule: str_contains.induct)
  case (2 t c cs)
  have "(\<exists>u v. c # cs = u @ t @ v) \<longleftrightarrow> (\<exists>v. c # cs = t @ v) \<or> (\<exists>u v. cs = u @ t @ v)"
    by (metis Cons_eq_append_conv append_Cons append_self_conv2)
  with 2 show ?case by (simp add: starts_with_iff)
qed simp

section \<open>Generic lemmas\<close>

lemma take_drop_Cons: "i < length xs \<Longrightarrow> drop i xs = xs ! i # drop (Suc i) xs"
  by (rule Cons_nth_drop_Suc [symmetric])

lemma filter_all: "(\<And>x. x \<in> set xs \<Longrightarrow> P x) \<Longrightarrow> filter P xs = xs"
  by (induction xs) auto

lemma list_all2_rows:
  assumes "list_all2 P xs ys"
  shows "x \<in> set xs \<Longrightarrow> \<exists>y \<in> set ys. P x y" and "y \<in> set ys \<Longrightarrow> \<exists>x \<in> set xs. P x y"
  using assms by (induction) auto

lemma funpow_8: "(f ^^ 8) x = f (f (f (f (f (f (f (f x)))))))"
  by (simp add: eval_nat_numeral)

lemma sum_list_replicate_nat [simp]: "sum_list (replicate n (k::nat)) = n * k"
  by (induction n) auto

section \<open>Stable sorting by a comparison\<close>

text \<open>
  \<open>sorted(xs, key=...)\<close>: each element is put behind the earlier ones it is not smaller than. On
  elements that the comparison orders weakly the result is the stable sort, whatever the algorithm.
\<close>

fun insert_by :: "('a \<Rightarrow> 'a \<Rightarrow> bool) \<Rightarrow> 'a \<Rightarrow> 'a list \<Rightarrow> 'a list" where
  "insert_by lt x [] = [x]"
| "insert_by lt x (y # ys) = (if lt x y then x # y # ys else y # insert_by lt x ys)"

definition sort_by :: "('a \<Rightarrow> 'a \<Rightarrow> bool) \<Rightarrow> 'a list \<Rightarrow> 'a list" where
  "sort_by lt xs = foldl (\<lambda>acc x. insert_by lt x acc) [] xs"

lemma set_insert_by [simp]: "set (insert_by lt x ys) = insert x (set ys)"
  by (induction ys) auto

lemma length_insert_by [simp]: "length (insert_by lt x ys) = Suc (length ys)"
  by (induction ys) auto

lemma set_sort_by [simp]: "set (sort_by lt xs) = set xs"
proof -
  have "set (foldl (\<lambda>acc x. insert_by lt x acc) acc xs) = set acc \<union> set xs" for acc
    by (induction xs arbitrary: acc) auto
  then show ?thesis by (simp add: sort_by_def)
qed

lemma length_sort_by [simp]: "length (sort_by lt xs) = length xs"
proof -
  have "length (foldl (\<lambda>acc x. insert_by lt x acc) acc xs) = length acc + length xs" for acc
    by (induction xs arbitrary: acc) auto
  then show ?thesis by (simp add: sort_by_def)
qed

lemma sort_by_Nil [simp]: "sort_by lt xs = [] \<longleftrightarrow> xs = []"
  using length_sort_by [of lt xs] by (metis length_0_conv)

text \<open>A comparison that orders the elements satisfying \<open>ok\<close> weakly.\<close>

locale weak_order =
  fixes lt :: "'a \<Rightarrow> 'a \<Rightarrow> bool" and ok :: "'a \<Rightarrow> bool"
  assumes lt_irrefl: "\<not> lt x x"
    and lt_trans: "lt x y \<Longrightarrow> lt y z \<Longrightarrow> lt x z"
    and lt_split: "ok x \<Longrightarrow> ok y \<Longrightarrow> ok z \<Longrightarrow> lt x z \<Longrightarrow> lt x y \<or> lt y z"
begin

lemma sorted_insert_by:
  assumes "ok x" and "\<forall>y \<in> set ys. ok y" and "sorted_wrt (\<lambda>a b. \<not> lt b a) ys"
  shows "sorted_wrt (\<lambda>a b. \<not> lt b a) (insert_by lt x ys)"
  using assms
proof (induction ys)
  case (Cons y ys)
  show ?case
  proof (cases "lt x y")
    case True
    then have "\<not> lt z x" if "z \<in> set (y # ys)" for z
      using that Cons.prems lt_trans lt_irrefl by auto
    with True Cons.prems show ?thesis by auto
  next
    case False
    with Cons show ?thesis by auto
  qed
qed simp

lemma sorted_sort_by:
  assumes "\<forall>x \<in> set xs. ok x"
  shows "sorted_wrt (\<lambda>a b. \<not> lt b a) (sort_by lt xs)"
proof -
  have "sorted_wrt (\<lambda>a b. \<not> lt b a) (foldl (\<lambda>acc x. insert_by lt x acc) acc xs)"
    if "sorted_wrt (\<lambda>a b. \<not> lt b a) acc" "\<forall>x \<in> set acc \<union> set xs. ok x" for acc
    using that by (induction xs arbitrary: acc) (auto simp: sorted_insert_by)
  then show ?thesis using assms by (simp add: sort_by_def)
qed

lemma hd_sort_by_least:
  assumes "\<forall>x \<in> set xs. ok x" and "y \<in> set xs"
  shows "\<not> lt y (hd (sort_by lt xs))"
proof -
  have "y \<in> set (sort_by lt xs)" using assms(2) by simp
  then obtain a as where "sort_by lt xs = a # as" "y = a \<or> y \<in> set as"
    by (cases "sort_by lt xs") auto
  with sorted_sort_by [OF assms(1)] lt_irrefl show ?thesis by auto
qed

end

end
