(* ===== verification/Crc24q.thy ===== *)
theory Crc24q
  imports Nlgcp_Prelude
begin

text \<open>
  The checksum of the transport frame (\<open>rtcm_replay/crc.py\<close>): CRC-24Q, computed bit by bit over
  unbounded Python integers. The lemmas show that the register stays below \<open>2 ^ 24\<close> (so that the
  final mask is the identity), that the step is injective and linear for XOR, and that therefore
  a change of a single byte anywhere in the data changes the checksum. The locale \<open>checksum24\<close>
  collects what the framing layer relies on.
\<close>

section \<open>The computation\<close>

definition CRC24Q_POLY :: int where
  "CRC24Q_POLY = 0x1864CFB"

definition CRC24Q_MASK :: int where
  "CRC24Q_MASK = 0xFFFFFF"

text \<open>One round of the inner loop: shift, then reduce when bit 24 is set.\<close>

definition crc_step :: "int \<Rightarrow> int" where
  "crc_step crc =
     (let crc1 = push_bit 1 crc
      in if crc1 AND 0x1000000 \<noteq> 0 then crc1 XOR CRC24Q_POLY else crc1)"

definition crc_byte :: "int \<Rightarrow> byte \<Rightarrow> int" where
  "crc_byte crc byte = (crc_step ^^ 8) (crc XOR push_bit 16 (uint byte))"

definition crc24q :: "bytes \<Rightarrow> int" where
  "crc24q data = foldl crc_byte 0 data AND CRC24Q_MASK"

definition crc_of_bytes :: "byte \<Rightarrow> byte \<Rightarrow> byte \<Rightarrow> int" where
  "crc_of_bytes b0 b1 b2 = push_bit 16 (uint b0) OR push_bit 8 (uint b1) OR uint b2"

definition crc24q_verify :: "bytes \<Rightarrow> bytes \<Rightarrow> bool" where
  "crc24q_verify frame_without_crc crc_bytes =
     (if length crc_bytes \<noteq> 3 then False
      else crc24q frame_without_crc = crc_of_bytes (crc_bytes ! 0) (crc_bytes ! 1) (crc_bytes ! 2))"

section \<open>Range\<close>

abbreviation reg24 :: "int \<Rightarrow> bool" where
  "reg24 c \<equiv> 0 \<le> c \<and> c < 0x1000000"

lemma reg24_take_bit: "reg24 c \<longleftrightarrow> take_bit 24 c = c"
  by (simp add: take_bit_int_eq_self_iff)

lemma reg24_bit: "reg24 c \<Longrightarrow> bit c n \<Longrightarrow> n < 24"
  unfolding reg24_take_bit by (metis bit_take_bit_iff)

lemma reg24_bitI: "(\<And>n. 24 \<le> n \<Longrightarrow> \<not> bit c n) \<Longrightarrow> reg24 c"
  unfolding reg24_take_bit by (rule bit_eqI) (metis bit_take_bit_iff not_le)

lemma bit24_double: "push_bit 1 c AND 0x1000000 \<noteq> 0 \<longleftrightarrow> bit (c::int) 23"
proof -
  have "push_bit 1 c AND (2::int) ^ 24 = 0 \<longleftrightarrow> \<not> bit (push_bit 1 c) 24"
    by (rule and_exp_eq_0_iff_not_bit)
  moreover have "bit (push_bit 1 c) 24 = bit c 23"
    unfolding bit_push_bit_iff by simp
  ultimately show ?thesis by simp
qed

lemma crc_step_bit:
  "crc_step c = (if bit c 23 then push_bit 1 c XOR CRC24Q_POLY else push_bit 1 c)"
  by (simp only: crc_step_def Let_def bit24_double)

lemma poly_bit_24: "bit CRC24Q_POLY 24"
  by (simp add: CRC24Q_POLY_def)

lemma poly_bit_high:
  assumes "24 < n"
  shows "\<not> bit CRC24Q_POLY n"
proof -
  have "take_bit 25 CRC24Q_POLY = CRC24Q_POLY" by (simp add: CRC24Q_POLY_def)
  then have "bit CRC24Q_POLY n \<Longrightarrow> n < 25" by (metis bit_take_bit_iff)
  with assms show ?thesis by auto
qed

lemma crc_step_reg24:
  assumes c: "reg24 c"
  shows "reg24 (crc_step c)"
proof (rule reg24_bitI)
  fix n :: nat
  assume n: "24 \<le> n"
  have push: "bit (push_bit 1 c) n \<longleftrightarrow> n = 24 \<and> bit c 23"
    unfolding bit_push_bit_iff using n reg24_bit [OF c, of "n - 1"]
    by (cases "n = 24") auto
  show "\<not> bit (crc_step c) n"
    using n poly_bit_24 poly_bit_high [of n] push
    by (cases "n = 24") (auto simp only: crc_step_bit bit_xor_iff split: if_splits)
qed

lemma crc_step_xor: "crc_step (a XOR b) = crc_step a XOR crc_step b"
  by (rule bit_eqI) (auto simp: crc_step_bit bit_xor_iff push_bit_xor)

lemma crc_step_0 [simp]: "crc_step 0 = 0"
  by (simp add: crc_step_def)

lemma crc_step_eq_0: "crc_step c = 0 \<longleftrightarrow> c = 0"
proof
  assume "crc_step c = 0"
  moreover have "odd (push_bit 1 c XOR CRC24Q_POLY)"
    by (simp add: CRC24Q_POLY_def even_xor_iff push_bit_eq_mult)
  ultimately show "c = 0"
    by (auto simp: crc_step_bit push_bit_eq_mult split: if_splits)
qed simp

lemma xor_eq_0_int: "a XOR b = 0 \<longleftrightarrow> a = (b::int)"
  by (auto simp: bit_eq_iff bit_xor_iff)

lemma crc_step_inj: "crc_step a = crc_step b \<longleftrightarrow> a = b"
proof -
  have "crc_step a = crc_step b \<longleftrightarrow> crc_step (a XOR b) = 0"
    unfolding crc_step_xor xor_eq_0_int ..
  also have "\<dots> \<longleftrightarrow> a = b"
    unfolding crc_step_eq_0 xor_eq_0_int ..
  finally show ?thesis .
qed

section \<open>Rounds\<close>

lemma crc_steps_0 [simp]: "(crc_step ^^ n) 0 = 0"
  by (induction n) auto

lemma crc_steps_xor: "(crc_step ^^ n) (a XOR b) = (crc_step ^^ n) a XOR (crc_step ^^ n) b"
  by (induction n) (auto simp: crc_step_xor)

lemma crc_steps_inj: "(crc_step ^^ n) a = (crc_step ^^ n) b \<longleftrightarrow> a = b"
  by (induction n) (simp_all only: funpow.simps comp_apply id_apply crc_step_inj)

lemma crc_steps_reg24: "reg24 c \<Longrightarrow> reg24 ((crc_step ^^ n) c)"
proof (induction n)
  case (Suc n)
  then show ?case using crc_step_reg24 [of "(crc_step ^^ n) c"] by simp
qed simp

lemma reg24_xor: "reg24 a \<Longrightarrow> reg24 b \<Longrightarrow> reg24 (a XOR b)"
  unfolding reg24_take_bit take_bit_xor by simp

lemma reg24_byte: "reg24 (push_bit 16 (uint (b::byte)))"
  using uint_lt2p [of b] by (simp add: push_bit_eq_mult)

lemma crc_byte_reg24: "reg24 c \<Longrightarrow> reg24 (crc_byte c b)"
  unfolding crc_byte_def by (intro crc_steps_reg24 reg24_xor reg24_byte)

lemma crc_fold_reg24: "reg24 c \<Longrightarrow> reg24 (foldl crc_byte c bs)"
proof (induction bs arbitrary: c)
  case (Cons b bs)
  from crc_byte_reg24 [OF Cons.prems] show ?case using Cons.IH [of "crc_byte c b"] by simp
qed simp

lemma crc_fold_inj: "foldl crc_byte a bs = foldl crc_byte b bs \<longleftrightarrow> a = b"
proof (induction bs arbitrary: a b)
  case (Cons x xs)
  have "crc_byte a x = crc_byte b x \<longleftrightarrow> a = b"
    unfolding crc_byte_def crc_steps_inj by (metis xor.right_neutral xor_self_eq xor.assoc)
  with Cons.IH show ?case by simp
qed simp

text \<open>The final mask of the code is the identity on the register.\<close>

lemma crc24q_fold: "crc24q bs = foldl crc_byte 0 bs"
proof -
  have "CRC24Q_MASK = mask 24" by (simp add: CRC24Q_MASK_def mask_eq_exp_minus_1)
  moreover have "reg24 (foldl crc_byte 0 bs)" by (rule crc_fold_reg24) simp
  ultimately show ?thesis
    unfolding crc24q_def reg24_take_bit by (simp only: take_bit_eq_mask)
qed

lemma crc24q_reg24: "reg24 (crc24q bs)"
  unfolding crc24q_fold by (rule crc_fold_reg24) simp

section \<open>Bursts\<close>

text \<open>
  Up to three consecutive bytes enter the register as one 24-bit value: \<open>crc_pack 16 bs\<close> is the
  bytes side by side, the first in the highest place.
\<close>

fun crc_pack :: "nat \<Rightarrow> bytes \<Rightarrow> int" where
  "crc_pack k [] = 0"
| "crc_pack k (b # bs) = push_bit k (uint b) XOR crc_pack (k - 8) bs"

lemma crc_step_double: "\<not> bit c 23 \<Longrightarrow> crc_step c = 2 * c"
  by (simp add: crc_step_bit push_bit_eq_mult)

lemma crc_steps_shift:
  assumes c: "take_bit m c = c" and "m + n \<le> 24"
  shows "(crc_step ^^ n) c = push_bit n c"
  using assms(2)
proof (induction n)
  case (Suc n)
  have "bit c k \<Longrightarrow> k < m" for k
    using c by (metis bit_take_bit_iff)
  with Suc.prems have "\<not> bit (push_bit n c) 23"
    unfolding bit_push_bit_iff by fastforce
  with Suc show ?case by (simp add: crc_step_double push_bit_eq_mult)
qed simp

lemma take_bit_byte: "8 \<le> n \<Longrightarrow> take_bit n (uint (b::byte)) = uint b"
proof -
  assume "8 \<le> n"
  then have "(2::int) ^ 8 \<le> 2 ^ n" by (rule power_increasing) simp
  with uint_lt2p [of b] show "take_bit n (uint b) = uint b"
    by (simp add: take_bit_int_eq_self_iff)
qed

lemma crc_pack_fits: "8 * length bs \<le> k \<Longrightarrow> take_bit k (crc_pack (k - 8) bs) = crc_pack (k - 8) bs"
proof (induction bs arbitrary: k)
  case (Cons b bs)
  then have k: "8 \<le> k" and "take_bit (k - 8) (crc_pack (k - 8 - 8) bs) = crc_pack (k - 8 - 8) bs"
    by (simp_all del: diff_diff_left)
  then have "take_bit k (crc_pack (k - 8 - 8) bs) = crc_pack (k - 8 - 8) bs"
    by (metis diff_le_self min.absorb2 take_bit_take_bit)
  moreover have "take_bit k (push_bit (k - 8) (uint b)) = push_bit (k - 8) (uint b)"
    using k by (simp add: take_bit_push_bit take_bit_byte)
  ultimately show ?case by (simp add: take_bit_xor del: diff_diff_left)
qed simp

lemma crc_pack_shift:
  "8 * length bs \<le> k + 8 \<Longrightarrow> crc_pack (8 + k) bs = push_bit 8 (crc_pack k bs)"
proof (induction bs arbitrary: k)
  case (Cons b bs)
  show ?case
  proof (cases "8 \<le> k")
    case True
    with Cons show ?thesis
      using Cons.IH [of "k - 8"] by (simp add: push_bit_xor push_bit_push_bit)
  next
    case False
    with Cons.prems have "bs = []" by (cases bs) auto
    then show ?thesis by (simp add: push_bit_push_bit)
  qed
qed simp

lemma crc_fold_pack:
  "length bs \<le> 3 \<Longrightarrow> foldl crc_byte c bs = (crc_step ^^ (8 * length bs)) (c XOR crc_pack 16 bs)"
proof (induction bs arbitrary: c)
  case (Cons b bs)
  let ?d = "(crc_step ^^ 8) (c XOR push_bit 16 (uint b))"
  from Cons.prems have len: "length bs \<le> 2" by simp
  have tail: "(crc_step ^^ 8) (crc_pack 8 bs) = crc_pack 16 bs"
    using crc_steps_shift [OF crc_pack_fits [of bs 16], of 8] crc_pack_shift [of bs 8] len by simp
  have "foldl crc_byte c (b # bs) = (crc_step ^^ (8 * length bs)) (?d XOR crc_pack 16 bs)"
    using Cons.IH [of "crc_byte c b"] len by (simp flip: crc_byte_def)
  also have "?d XOR crc_pack 16 bs = (crc_step ^^ 8) (c XOR crc_pack 16 (b # bs))"
    by (simp add: crc_steps_xor xor.assoc flip: tail)
  also have "(crc_step ^^ (8 * length bs)) \<dots> = (crc_step ^^ (8 * length (b # bs))) (c XOR crc_pack 16 (b # bs))"
    using funpow_add [of "8 * length bs" 8 crc_step] by (simp add: add.commute)
  finally show ?case .
qed simp

lemma uint_inj_byte: "uint a = uint b \<longleftrightarrow> a = (b::byte)"
  by (rule word_uint_eq_iff [symmetric])

lemma crc_pack_Cons_eq:
  assumes "take_bit k (crc_pack (k - 8) bs) = crc_pack (k - 8) bs"
    and "take_bit k (crc_pack (k - 8) cs) = crc_pack (k - 8) cs"
    and eq: "crc_pack k (b # bs) = crc_pack k (c # cs)"
  shows "b = c \<and> crc_pack (k - 8) bs = crc_pack (k - 8) cs"
proof
  have low: "take_bit k (crc_pack k (x # xs)) = crc_pack (k - 8) xs"
    if "take_bit k (crc_pack (k - 8) xs) = crc_pack (k - 8) xs" for x xs
    using that by (simp add: take_bit_xor take_bit_push_bit)
  show tails: "crc_pack (k - 8) bs = crc_pack (k - 8) cs"
    using assms low by metis
  from eq tails have "push_bit k (uint b) = push_bit k (uint c)"
    by (metis crc_pack.simps(2) xor.assoc xor.right_neutral xor_self_eq)
  then show "b = c"
    by (simp add: push_bit_eq_mult uint_inj_byte)
qed

lemma crc_pack_inj:
  "length bs = length cs \<Longrightarrow> 8 * length bs \<le> k + 8 \<Longrightarrow> crc_pack k bs = crc_pack k cs \<Longrightarrow> bs = cs"
proof (induction bs cs arbitrary: k rule: list_induct2)
  case (Cons b bs c cs)
  have "b = c \<and> crc_pack (k - 8) bs = crc_pack (k - 8) cs"
    using Cons by (intro crc_pack_Cons_eq crc_pack_fits) auto
  then show ?case
    using Cons.IH [of "k - 8"] Cons.prems Cons.hyps by (cases "8 \<le> k") auto
qed simp

lemma crc_fold_burst:
  assumes "length bs = length cs" and "length bs \<le> 3"
  shows "foldl crc_byte c bs = foldl crc_byte c cs \<longleftrightarrow> bs = cs"
proof
  assume "foldl crc_byte c bs = foldl crc_byte c cs"
  then have "c XOR crc_pack 16 bs = c XOR crc_pack 16 cs"
    using assms by (simp add: crc_fold_pack crc_steps_inj)
  then have "crc_pack 16 bs = crc_pack 16 cs"
    by (metis xor.assoc xor.left_neutral xor_self_eq)
  then show "bs = cs" using assms by (intro crc_pack_inj [of bs cs 16]) auto
qed simp

lemma crc24q_burst:
  assumes "length bs = length cs" and "length bs \<le> 3"
  shows "crc24q (p @ bs @ s) = crc24q (p @ cs @ s) \<longleftrightarrow> bs = cs"
  by (simp add: crc24q_fold crc_fold_inj crc_fold_burst [OF assms])

section \<open>The trailing three bytes\<close>

lemma crc_of_bytes_pack: "crc_of_bytes b0 b1 b2 = crc_pack 16 [b0, b1, b2]"
proof -
  have "push_bit 16 (uint b0) OR (push_bit 8 (uint b1) OR uint b2)
      = push_bit 16 (uint b0) XOR (push_bit 8 (uint b1) XOR uint b2)"
    by (rule bit_eqI) (auto simp: bit_or_iff bit_xor_iff bit_push_bit_iff bit_uint_iff)
  then show ?thesis by (simp add: crc_of_bytes_def or.assoc)
qed

lemma crc_of_bytes_reg24: "reg24 (crc_of_bytes b0 b1 b2)"
  using crc_pack_fits [of "[b0, b1, b2]" 24] by (simp only: reg24_take_bit crc_of_bytes_pack) simp

lemma crc24q_residue: "crc24q (d @ [b0, b1, b2]) = 0 \<longleftrightarrow> crc24q d = crc_of_bytes b0 b1 b2"
proof -
  have "crc24q (d @ [b0, b1, b2]) = (crc_step ^^ 24) (crc24q d XOR crc_of_bytes b0 b1 b2)"
    using crc_fold_pack [of "[b0, b1, b2]" "crc24q d"]
    by (simp add: crc24q_fold crc_of_bytes_pack)
  also have "\<dots> = 0 \<longleftrightarrow> crc24q d XOR crc_of_bytes b0 b1 b2 = 0"
    using crc_steps_inj [of 24 _ 0] by simp
  finally show ?thesis by (simp only: xor_eq_0_int)
qed

section \<open>The interface\<close>

text \<open>
  What the framing layer may assume of a 24-bit frame checksum: the range that makes three bytes
  enough to carry it, the residue law that lets the receiver check data and trailer in one pass,
  and the detection of a change of up to three neighbouring bytes.
\<close>

locale checksum24 =
  fixes crc :: "bytes \<Rightarrow> int"
  assumes crc_range: "0 \<le> crc d \<and> crc d < 0x1000000"
    and crc_residue: "crc (d @ [b0, b1, b2]) = 0 \<longleftrightarrow> crc d = crc_of_bytes b0 b1 b2"
    and crc_burst: "length bs = length cs \<Longrightarrow> length bs \<le> 3 \<Longrightarrow>
      crc (p @ bs @ s) = crc (p @ cs @ s) \<longleftrightarrow> bs = cs"
begin

definition trailer_ok :: "bytes \<Rightarrow> bool" where
  "trailer_ok raw = (crc raw = 0)"

lemma trailer_ok_append: "trailer_ok (d @ [b0, b1, b2]) \<longleftrightarrow> crc d = crc_of_bytes b0 b1 b2"
  by (simp add: trailer_ok_def crc_residue)

lemma burst_breaks_trailer:
  assumes "trailer_ok (p @ bs @ s)" and "length bs = length cs" and "length bs \<le> 3" and "bs \<noteq> cs"
  shows "\<not> trailer_ok (p @ cs @ s)"
  using assms crc_burst [of bs cs p s] by (simp add: trailer_ok_def)

end

interpretation crcq: checksum24 crc24q
  by unfold_locales (use crc24q_reg24 crc24q_residue crc24q_burst in auto)

end
