(* ===== verification/Py_Float.thy ===== *)
theory Py_Float
  imports Nlgcp_Prelude Complex_Main "HOL-Library.Log_Nat"
begin

text \<open>
  Python's \<open>float\<close>: IEEE binary64 with round-to-nearest-even. A finite value is kept as the rational
  it denotes, so comparisons are exact and every arithmetic result goes through \<open>round64\<close>. Negative
  zero is identified with zero (no comparison or branch of the modelled code tells them apart).
  The text forms \<open>repr\<close> and \<open>.1f\<close> are there for the messages that print a float.
\<close>

section \<open>Values and comparisons\<close>

datatype pyfloat = PFin rat | PInf | PNegInf | PNan

fun f_lt :: "pyfloat \<Rightarrow> pyfloat \<Rightarrow> bool" where
  "f_lt PNan y = False"
| "f_lt x PNan = False"
| "f_lt (PFin a) (PFin b) = (a < b)"
| "f_lt (PFin a) PInf = True"
| "f_lt (PFin a) PNegInf = False"
| "f_lt PInf y = False"
| "f_lt PNegInf y = (y \<noteq> PNegInf)"

definition f_eq :: "pyfloat \<Rightarrow> pyfloat \<Rightarrow> bool" where
  "f_eq x y = (x \<noteq> PNan \<and> x = y)"

definition f_le :: "pyfloat \<Rightarrow> pyfloat \<Rightarrow> bool" where
  "f_le x y = (f_lt x y \<or> f_eq x y)"

abbreviation f_zero :: pyfloat where "f_zero \<equiv> PFin 0"

lemma f_lt_irrefl [simp]: "\<not> f_lt x x"
  by (cases x) auto

lemma f_lt_trans: "f_lt x y \<Longrightarrow> f_lt y z \<Longrightarrow> f_lt x z"
  by (cases x; cases y; cases z) auto

lemma f_le_PFin [simp]: "f_le (PFin a) (PFin b) \<longleftrightarrow> a \<le> b"
  by (auto simp: f_le_def f_eq_def)

lemma f_lt_not_le: "x \<noteq> PNan \<Longrightarrow> y \<noteq> PNan \<Longrightarrow> f_lt x y \<longleftrightarrow> \<not> f_le y x"
  by (cases x; cases y) (auto simp: f_le_def f_eq_def)

lemma f_le_trans: "f_le x y \<Longrightarrow> f_le y z \<Longrightarrow> f_le x z"
  unfolding f_le_def f_eq_def by (auto dest: f_lt_trans)

lemma f_le_PNan [simp]: "\<not> f_le PNan x" "\<not> f_le x PNan"
  by (cases x; simp add: f_le_def f_eq_def)+

section \<open>Rounding\<close>

definition pow2 :: "int \<Rightarrow> rat" where
  "pow2 e = (if 0 \<le> e then 2 ^ nat e else 1 / 2 ^ nat (- e))"

text \<open>\<open>floor(log2 r)\<close> of a positive rational, from the bit lengths of numerator and denominator.\<close>

definition ilog2 :: "rat \<Rightarrow> int" where
  "ilog2 r =
     (case quotient_of r of (p, q) \<Rightarrow>
        let e = bitlen p - bitlen q in if pow2 e \<le> r then e else e - 1)"

definition round_half_even :: "rat \<Rightarrow> int" where
  "round_half_even r =
     (let f = \<lfloor>r\<rfloor>; d = r - of_int f
      in if d < 1 / 2 then f else if 1 / 2 < d then f + 1 else if even f then f else f + 1)"

definition round64 :: "rat \<Rightarrow> pyfloat" where
  "round64 r =
     (if r = 0 then PFin 0
      else let u = max (ilog2 \<bar>r\<bar> - 52) (-1074);
               v = of_int (round_half_even (\<bar>r\<bar> / pow2 u)) * pow2 u
           in if 2 ^ 1024 \<le> v then (if 0 < r then PInf else PNegInf) else PFin (sgn r * v))"

lemma pow2_pos [simp]: "0 < pow2 e"
  by (simp add: pow2_def)

lemma pow2_nonneg [simp]: "0 \<le> pow2 e"
  by (rule less_imp_le) simp

lemma pow2_nat: "pow2 (int n) = 2 ^ n"
  by (simp add: pow2_def)

lemma round_half_even_of_int [simp]: "round_half_even (of_int i) = i"
  by (simp add: round_half_even_def)

lemma round_half_even_nonneg: "0 \<le> r \<Longrightarrow> 0 \<le> round_half_even r"
  by (auto simp: round_half_even_def Let_def)

text \<open>An integer below \<open>2 ^ 53\<close> in magnitude is a float: rounding leaves it as it is.\<close>

lemma ilog2_of_int:
  assumes "0 < i" and "i < 2 ^ n"
  shows "ilog2 (of_int i) < int n"
proof -
  have "bitlen i \<le> int n"
    using assms by (simp add: bitlen_le_iff_power)
  then show ?thesis
    by (auto simp: ilog2_def quotient_of_int bitlen_def Let_def compute_floorlog)
qed

lemma round64_of_int:
  assumes "\<bar>i\<bar> < 2 ^ 53"
  shows "round64 (of_int i) = PFin (of_int i)"
proof (cases "i = 0")
  case False
  define u where "u = max (ilog2 \<bar>of_int i\<bar> - 52) (- 1074)"
  have "ilog2 (of_int \<bar>i\<bar>) < int 53"
    using assms False by (intro ilog2_of_int) auto
  then have u: "u \<le> 0" by (simp add: u_def)
  then have "\<bar>of_int i\<bar> / pow2 u = of_int (\<bar>i\<bar> * 2 ^ nat (- u))"
    by (simp add: pow2_def field_simps)
  then have v: "of_int (round_half_even (\<bar>of_int i\<bar> / pow2 u)) * pow2 u = (of_int \<bar>i\<bar> :: rat)"
    using u by (simp only: round_half_even_of_int) (simp add: pow2_def field_simps)
  have "(2::int) ^ 53 \<le> 2 ^ 1024" by (rule power_increasing) auto
  with assms have "of_int \<bar>i\<bar> < (of_int (2 ^ 1024) :: rat)" by (subst of_int_less_iff) linarith
  then have small: "\<not> 2 ^ 1024 \<le> (of_int \<bar>i\<bar> :: rat)" by simp
  show ?thesis
    using False v small unfolding round64_def Let_def u_def [symmetric]
    by (simp add: sgn_if)
qed (simp add: round64_def)

section \<open>Arithmetic that can raise\<close>

definition int_to_float :: "int \<Rightarrow> pyfloat result" where
  "int_to_float i =
     (case round64 (of_int i) of
        PFin r \<Rightarrow> Inr (PFin r)
      | _ \<Rightarrow> Inl (OverflowError ''int too large to convert to float''))"

fun f_neg :: "pyfloat \<Rightarrow> pyfloat" where
  "f_neg (PFin a) = PFin (- a)"
| "f_neg PInf = PNegInf"
| "f_neg PNegInf = PInf"
| "f_neg PNan = PNan"

fun f_mul :: "pyfloat \<Rightarrow> pyfloat \<Rightarrow> pyfloat" where
  "f_mul (PFin a) (PFin b) = round64 (a * b)"
| "f_mul PNan y = PNan"
| "f_mul x PNan = PNan"
| "f_mul x y =
     (if x = f_zero \<or> y = f_zero then PNan
      else if f_lt x f_zero = f_lt y f_zero then PInf else PNegInf)"

fun f_add :: "pyfloat \<Rightarrow> pyfloat \<Rightarrow> pyfloat" where
  "f_add (PFin a) (PFin b) = round64 (a + b)"
| "f_add PNan y = PNan"
| "f_add x PNan = PNan"
| "f_add PInf PNegInf = PNan"
| "f_add PNegInf PInf = PNan"
| "f_add (PFin a) y = y"
| "f_add x y = x"

text \<open>\<open>x / y\<close>: the quotient by a divisor that is not zero, and the division, which raises on zero.\<close>

definition f_quot :: "pyfloat \<Rightarrow> pyfloat \<Rightarrow> pyfloat" where
  "f_quot x y =
     (case (x, y) of
        (PFin a, PFin b) \<Rightarrow> round64 (a / b)
      | (PNan, _) \<Rightarrow> PNan
      | (_, PNan) \<Rightarrow> PNan
      | (PFin a, _) \<Rightarrow> f_zero
      | (_, PFin b) \<Rightarrow> (if 0 < b then x else f_neg x)
      | _ \<Rightarrow> PNan)"

definition f_div :: "pyfloat \<Rightarrow> pyfloat \<Rightarrow> pyfloat result" where
  "f_div x y =
     (if y = f_zero then Inl (ZeroDivisionError ''float division by zero'') else Inr (f_quot x y))"

fun f_abs :: "pyfloat \<Rightarrow> pyfloat" where
  "f_abs (PFin a) = PFin \<bar>a\<bar>"
| "f_abs PNan = PNan"
| "f_abs _ = PInf"

definition f_sub :: "pyfloat \<Rightarrow> pyfloat \<Rightarrow> pyfloat" where
  "f_sub x y = f_add x (f_neg y)"

text \<open>\<open>x ** 2\<close> raises when a finite square overflows.\<close>

definition f_square :: "pyfloat \<Rightarrow> pyfloat result" where
  "f_square x =
     (case (x, f_mul x x) of
        (PFin _, PInf) \<Rightarrow> Inl (OverflowError ''(34, Numerical result out of range)'')
      | (_, y) \<Rightarrow> Inr y)"

text \<open>
  \<open>math.sqrt\<close>: the integer square root of the radicand scaled to 54 bits, rounded half to even with the
  remainder as a sticky half; a negative argument raises.
\<close>

fun isqrt :: "nat \<Rightarrow> nat" where
  "isqrt n =
     (if n = 0 then 0
      else let r = 2 * isqrt (n div 4) in if (r + 1) * (r + 1) \<le> n then r + 1 else r)"

declare isqrt.simps [simp del]

lemma isqrt_correct: "isqrt n * isqrt n \<le> n \<and> n < (isqrt n + 1) * (isqrt n + 1)"
proof (induction n rule: isqrt.induct)
  case (1 n)
  show ?case
  proof (cases "n = 0")
    case False
    define r where "r = isqrt (n div 4)"
    have r: "r * r \<le> n div 4" "n div 4 < (r + 1) * (r + 1)"
      using 1 [OF False] by (simp_all add: r_def)
    have n: "n = 4 * (n div 4) + n mod 4" "n mod 4 < 4" by simp_all
    have "(2 * r) * (2 * r) \<le> n" using r(1) n by simp
    moreover have "4 * (n div 4) + 4 \<le> 4 * ((r + 1) * (r + 1))" using r(2) by simp
    then have "n < (2 * r + 2) * (2 * r + 2)" using n by simp
    ultimately show ?thesis
      by (subst (1 2 3 4) isqrt.simps) (simp add: False Let_def r_def [symmetric])
  qed (simp add: isqrt.simps)
qed

definition sqrt_rat :: "rat \<Rightarrow> pyfloat" where
  "sqrt_rat r =
     (if r = 0 then PFin 0
      else let u = ilog2 r div 2 - 53;
               scaled = r / pow2 (2 * u);
               m = isqrt (nat \<lfloor>scaled\<rfloor>);
               half = (if of_nat (m * m) = scaled then 0 else 1 / 2 :: rat)
           in PFin (of_int (round_half_even ((of_nat m + half) / 2)) * pow2 (u + 1)))"

definition f_root :: "pyfloat \<Rightarrow> pyfloat" where
  "f_root x = (case x of PFin r \<Rightarrow> sqrt_rat r | y \<Rightarrow> y)"

definition f_sqrt :: "pyfloat \<Rightarrow> pyfloat result" where
  "f_sqrt x = (if f_lt x f_zero then Inl (ValueError ''math domain error'') else Inr (f_root x))"

text \<open>\<open>sum(xs)\<close> of floats: the compensated summation of the interpreter, whose correction is added at the end when it is finite and not zero.\<close>

fun sum_step :: "pyfloat \<Rightarrow> pyfloat \<Rightarrow> pyfloat list \<Rightarrow> pyfloat" where
  "sum_step acc c [] =
     (case c of PFin r \<Rightarrow> if r = 0 then acc else f_add acc c | _ \<Rightarrow> acc)"
| "sum_step acc c (x # xs) =
     (let t = f_add acc x;
          d = (if f_le (f_abs x) (f_abs acc) then f_add (f_sub acc t) x else f_add (f_sub x t) acc)
      in sum_step t (f_add c d) xs)"

fun f_sum :: "pyfloat list \<Rightarrow> pyfloat" where
  "f_sum [] = f_zero"
| "f_sum (x # xs) = sum_step x f_zero xs"

text \<open>\<open>max(xs)\<close> and \<open>min(xs)\<close> keep the first of equal elements and replace only by a strictly better one.\<close>

definition f_max :: "pyfloat list \<Rightarrow> pyfloat" where
  "f_max xs = foldl (\<lambda>m x. if f_lt m x then x else m) (hd xs) (tl xs)"

definition f_min :: "pyfloat list \<Rightarrow> pyfloat" where
  "f_min xs = foldl (\<lambda>m x. if f_lt x m then x else m) (hd xs) (tl xs)"

text \<open>\<open>int(x)\<close> truncates towards zero.\<close>

definition rat_trunc :: "rat \<Rightarrow> int" where
  "rat_trunc r = (if 0 \<le> r then \<lfloor>r\<rfloor> else \<lceil>r\<rceil>)"

fun f_to_int :: "pyfloat \<Rightarrow> int result" where
  "f_to_int (PFin r) = Inr (rat_trunc r)"
| "f_to_int PNan = Inl (ValueError ''cannot convert float NaN to integer'')"
| "f_to_int _ = Inl (OverflowError ''cannot convert float infinity to integer'')"

lemma int_to_float_exact: "\<bar>i\<bar> < 2 ^ 53 \<Longrightarrow> int_to_float i = Inr (PFin (of_int i))"
  by (simp add: int_to_float_def round64_of_int)

lemma ilog2_power: "ilog2 (2 ^ n) = int n"
proof -
  have "quotient_of (2 ^ n) = (2 ^ n, 1)"
    using quotient_of_int [of "2 ^ n"] by (simp add: Rat.of_int_def)
  moreover have one: "floorlog 2 (Suc 0) = 1" by (simp add: compute_floorlog)
  moreover have "bitlen (2 ^ n) = int n + 1"
    using floorlog_power [of 1 2 n] one by (simp add: bitlen_def nat_power_eq)
  moreover have "bitlen 1 = 1" using one by (simp add: bitlen_def)
  ultimately show ?thesis by (simp add: ilog2_def Let_def pow2_nat)
qed

lemma int_to_float_power:
  assumes "1024 \<le> n"
  shows "int_to_float (2 ^ n) = Inl (OverflowError ''int too large to convert to float'')"
proof -
  have u: "max (ilog2 \<bar>2 ^ n\<bar> - 52) (- 1074) = int (n - 52)"
    using assms by (simp add: ilog2_power)
  have split: "(2 :: rat) ^ n = 2 ^ 52 * 2 ^ (n - 52)"
  proof -
    have "52 + (n - 52) = n" using assms by arith
    then show ?thesis using power_add [of "2 :: rat" 52 "n - 52"] by (rule subst)
  qed
  have "round_half_even (\<bar>2 ^ n\<bar> / pow2 (int (n - 52))) = round_half_even (of_int (2 ^ 52))"
    by (simp add: pow2_nat split)
  then have v: "of_int (round_half_even (\<bar>2 ^ n\<bar> / pow2 (int (n - 52)))) * pow2 (int (n - 52)) = (2 ^ n :: rat)"
    by (simp only: round_half_even_of_int) (simp add: pow2_nat split)
  have "(2 :: rat) ^ 1024 \<le> 2 ^ n" using assms by (intro power_increasing) simp_all
  with v have "round64 (2 ^ n) = PInf"
    unfolding round64_def Let_def u by simp
  then show ?thesis by (simp add: int_to_float_def)
qed

lemma round64_nonneg:
  assumes "0 \<le> r"
  shows "round64 r = PInf \<or> (\<exists>v \<ge> 0. round64 r = PFin v)"
  using assms by (auto simp: round64_def Let_def round_half_even_nonneg)

lemma rat_trunc_nonneg [simp]: "0 \<le> r \<Longrightarrow> 0 \<le> rat_trunc r"
  by (simp add: rat_trunc_def)

lemma rat_trunc_of_int [simp]: "rat_trunc (of_int i) = i"
  by (simp add: rat_trunc_def)

section \<open>Text\<close>

text \<open>
  \<open>repr\<close>: the shortest decimal that rounds back to the same float (at most 17 digits are needed),
  with an exponent when the decimal point would be far away.
\<close>

definition pow10 :: "int \<Rightarrow> rat" where
  "pow10 e = (if 0 \<le> e then 10 ^ nat e else 1 / 10 ^ nat (- e))"

definition ilog10 :: "rat \<Rightarrow> int" where
  "ilog10 r =
     (if 1 \<le> r then int (length (str_nat (nat \<lfloor>r\<rfloor>))) - 1
      else - int (length (str_nat (nat (\<lceil>1 / r\<rceil> - 1)))))"

fun shortest_digits :: "nat list \<Rightarrow> rat \<Rightarrow> int \<times> int" where
  "shortest_digits [] r = (0, 0)"
| "shortest_digits (p # ps) r =
     (let e = ilog10 r - int p + 1; m = round_half_even (r / pow10 e)
      in if ps = [] \<or> round64 (of_int m * pow10 e) = PFin r then (m, e) else shortest_digits ps r)"

definition strip_zeros :: "string \<Rightarrow> string" where
  "strip_zeros s = (let t = rev (dropWhile (\<lambda>c. c = CHR ''0'') (rev s)) in if t = [] then ''0'' else t)"

definition repr_pos :: "rat \<Rightarrow> string" where
  "repr_pos r =
     (let (m, e) = shortest_digits [1..<18] r;
          ds = str_nat (nat m);
          pt = int (length ds) + e;
          ss = strip_zeros ds
      in if - 4 < pt \<and> pt \<le> 0 then ''0.'' @ replicate (nat (- pt)) (CHR ''0'') @ ss
         else if 0 < pt \<and> pt \<le> 16 then
           (if int (length ss) \<le> pt then ss @ replicate (nat pt - length ss) (CHR ''0'') @ ''.0''
            else take (nat pt) ss @ ''.'' @ drop (nat pt) ss)
         else
           (let x = pt - 1; a = str_nat (nat \<bar>x\<bar>)
            in take 1 ss @ (if length ss = 1 then [] else CHR ''.'' # drop 1 ss) @ ''e'' @
               (if x < 0 then ''-'' else ''+'') @ (if length a < 2 then ''0'' else []) @ a))"

fun repr_float :: "pyfloat \<Rightarrow> string" where
  "repr_float PNan = ''nan''"
| "repr_float PInf = ''inf''"
| "repr_float PNegInf = ''-inf''"
| "repr_float (PFin r) =
     (if r = 0 then ''0.0'' else if r < 0 then CHR ''-'' # repr_pos (- r) else repr_pos r)"

text \<open>The fixed-point formats \<open>.nf\<close>: the exact value rounded half to even at \<open>n\<close> decimals.\<close>

definition fixed_pos :: "nat \<Rightarrow> rat \<Rightarrow> string" where
  "fixed_pos n r =
     (let m = nat (round_half_even (r * 10 ^ n));
          ip = str_nat (m div 10 ^ n); fp = str_nat (m mod 10 ^ n)
      in if n = 0 then ip else ip @ ''.'' @ replicate (n - length fp) (CHR ''0'') @ fp)"

fun format_fixed :: "nat \<Rightarrow> pyfloat \<Rightarrow> string" where
  "format_fixed n PNan = ''nan''"
| "format_fixed n PInf = ''inf''"
| "format_fixed n PNegInf = ''-inf''"
| "format_fixed n (PFin r) = (if r < 0 then CHR ''-'' # fixed_pos n (- r) else fixed_pos n r)"

section \<open>Comparison as an order\<close>

lemma f_lt_split: "x \<noteq> PNan \<Longrightarrow> y \<noteq> PNan \<Longrightarrow> z \<noteq> PNan \<Longrightarrow> f_lt x z \<Longrightarrow> f_lt x y \<or> f_lt y z"
  by (cases x; cases y; cases z) auto

lemma f_lt_linear: "x \<noteq> PNan \<Longrightarrow> y \<noteq> PNan \<Longrightarrow> x \<noteq> y \<Longrightarrow> f_lt x y \<or> f_lt y x"
  by (cases x; cases y) auto

interpretation fl: weak_order f_lt "\<lambda>x. x \<noteq> PNan"
  by unfold_locales (simp_all add: f_lt_split, blast intro: f_lt_trans)

section \<open>Rounding error\<close>

lemma quotient_pos:
  assumes "0 < r"
  obtains p q where "quotient_of r = (p, q)" "0 < p" "0 < q" "r = of_int p / of_int q"
proof -
  obtain p q where pq: "quotient_of r = (p, q)" by (cases "quotient_of r")
  have "0 < q" using quotient_of_denom_pos [OF pq] .
  moreover have r: "r = of_int p / of_int q" using quotient_of_div [OF pq] .
  moreover have "0 < p" using assms calculation by (simp add: zero_less_divide_iff)
  ultimately show thesis using that pq by blast
qed

lemma bitlen_bounds':
  assumes "0 < i"
  obtains k where "bitlen i = int k + 1" "2 ^ k \<le> i" "i < 2 ^ Suc k"
proof -
  have "bitlen i \<noteq> 0" using bitlen_bounds [OF assms] assms by auto
  then have "0 < bitlen i" using bitlen_nonneg [of i] by linarith
  then have k: "bitlen i = int (nat (bitlen i - 1)) + 1" "nat (bitlen i) = Suc (nat (bitlen i - 1))"
    by simp_all
  show thesis using bitlen_bounds [OF assms] by (intro that [OF k(1)]) (simp_all only: k(2) [symmetric] conjunct1 conjunct2)
qed

lemma pow2_diff: "pow2 (int a - int b) = 2 ^ a / 2 ^ b"
  by (auto simp: pow2_def power_diff nat_diff_distrib' divide_simps simp flip: power_add)

lemma ilog2_le:
  assumes "0 < r"
  shows "pow2 (ilog2 r) \<le> r"
proof -
  from assms obtain p q where q: "quotient_of r = (p, q)" "0 < p" "0 < q" "r = of_int p / of_int q"
    by (rule quotient_pos)
  obtain a where a: "bitlen p = int a + 1" "2 ^ a \<le> p" using bitlen_bounds' [OF q(2)] .
  obtain b where b: "bitlen q = int b + 1" "q < 2 ^ Suc b" using bitlen_bounds' [OF q(3)] .
  have "(2 :: rat) ^ a / 2 ^ Suc b \<le> of_int p / of_int q"
  proof (rule frac_le)
    show "(2 :: rat) ^ a \<le> of_int p" using a(2) by (metis of_int_le_iff of_int_numeral of_int_power)
    show "of_int q \<le> (2 :: rat) ^ Suc b" using b(2) by (metis less_imp_le of_int_le_iff of_int_numeral of_int_power)
  qed (use q in auto)
  moreover have "pow2 (int a - int b - 1) = 2 ^ a / 2 ^ Suc b"
    using pow2_diff [of a "Suc b"] by (simp add: algebra_simps)
  ultimately show ?thesis using q a b by (simp add: ilog2_def Let_def)
qed

lemma pow2_mono: "pow2 e \<le> pow2 f \<longleftrightarrow> e \<le> f"
proof -
  have "pow2 e < pow2 f" if "e < f" for e f
  proof -
    have "pow2 e = pow2 (int (nat e) - int (nat (- e)))" "pow2 f = pow2 (int (nat f) - int (nat (- f)))" by simp_all
    then have "pow2 e = 2 ^ nat e / 2 ^ nat (- e)" "pow2 f = 2 ^ nat f / 2 ^ nat (- f)" by (simp_all only: pow2_diff)
    moreover have "(2 :: rat) ^ (nat e + nat (- f)) < 2 ^ (nat f + nat (- e))"
      using that by (intro power_strict_increasing) auto
    ultimately show ?thesis by (simp only:) (simp add: divide_simps power_add)
  qed
  then show ?thesis by (metis less_le_not_le linorder_cases order.refl order_le_less)
qed

lemma ilog2_less:
  assumes "0 < r" and "r < 2 ^ n"
  shows "ilog2 r < int n"
proof -
  have "pow2 (ilog2 r) < pow2 (int n)" using ilog2_le [OF assms(1)] assms(2) by (simp add: pow2_nat)
  then show ?thesis by (metis not_le pow2_mono)
qed

lemma round_half_even_error: "\<bar>of_int (round_half_even y) - y\<bar> \<le> (1 / 2 :: rat)"
proof -
  have f: "of_int \<lfloor>y\<rfloor> \<le> y" "y < of_int \<lfloor>y\<rfloor> + 1" by linarith+
  consider "y - of_int \<lfloor>y\<rfloor> < 1 / 2" | "y - of_int \<lfloor>y\<rfloor> = 1 / 2" | "1 / 2 < y - of_int \<lfloor>y\<rfloor>" by linarith
  then show ?thesis using f by cases (auto simp: round_half_even_def Let_def abs_le_iff)
qed

lemma round_half_even_near:
  assumes "\<bar>y - of_int i\<bar> < 1 / 2"
  shows "round_half_even y = i"
proof -
  have "\<bar>of_int (round_half_even y) - of_int i\<bar> < (1 :: rat)"
    using assms round_half_even_error [of y] by linarith
  then have "\<bar>round_half_even y - i\<bar> < 1" by linarith
  then show ?thesis by linarith
qed

text \<open>Below \<open>2 ^ n\<close>, rounding is off by at most half a unit of the 53rd bit.\<close>

lemma round64_error:
  assumes "0 \<le> x" and "x < 2 ^ n" and "n \<le> 53"
  obtains v where "round64 x = PFin v" "\<bar>v - x\<bar> \<le> 1 / 2 ^ (54 - n)" 
proof (cases "x = 0")
  case True
  then show thesis using that [of 0] by (simp add: round64_def)
next
  case False
  define u where "u = max (ilog2 \<bar>x\<bar> - 52) (- 1074)"
  define v where "v = of_int (round_half_even (\<bar>x\<bar> / pow2 u)) * pow2 u"
  have x: "0 < x" using assms False by simp
  have "u \<le> int n - int 53" using ilog2_less [of x n] x assms by (simp add: u_def)
  then have "pow2 u \<le> 2 ^ n / 2 ^ 53" using pow2_mono pow2_diff by metis
  also have "\<dots> = 2 / 2 ^ (54 - n)" using assms(3) by (simp add: divide_simps flip: power_add power_Suc)
  finally have u: "pow2 u \<le> 2 / 2 ^ (54 - n)" .
  have "v - x = (of_int (round_half_even (x / pow2 u)) - x / pow2 u) * pow2 u"
    using x less_imp_neq [OF pow2_pos [of u]] by (simp add: v_def left_diff_distrib)
  then have "\<bar>v - x\<bar> = \<bar>of_int (round_half_even (x / pow2 u)) - x / pow2 u\<bar> * pow2 u"
    by (simp add: abs_mult)
  also have "\<dots> \<le> 1 / 2 * pow2 u" by (intro mult_right_mono round_half_even_error) simp
  finally have err: "\<bar>v - x\<bar> \<le> 1 / 2 ^ (54 - n)" using u by simp
  have "\<bar>v - x\<bar> \<le> 1" by (rule order_trans [OF err]) simp
  moreover have "x < 2 ^ 53" using assms(2,3) power_increasing [of n 53 "2 :: rat"] by simp
  ultimately have "v < 2 ^ 54" by simp
  moreover have "(2 :: rat) ^ 54 \<le> 2 ^ 1024" by (rule power_increasing) simp_all
  ultimately have "\<not> 2 ^ 1024 \<le> v" by linarith
  then have "round64 x = PFin v"
    using x unfolding round64_def Let_def u_def [symmetric] v_def [symmetric] by simp
  then show thesis using err by (rule that)
qed

end
