(* ===== verification/Py_Json.thy ===== *)
theory Py_Json
  imports Py_Float
begin

text \<open>
  JSON values as Python decodes them, and the conversions \<open>str(v)\<close>, \<open>bool(v)\<close> and \<open>d.get(k)\<close> that
  the parsers of untrusted payloads apply to them. An object keeps its members in insertion order
  and has no two members of the same key.
\<close>

datatype json =
    JNull
  | JBool bool
  | JInt int
  | JFloat pyfloat
  | JStr string
  | JArr "json list"
  | JObj "(string \<times> json) list"

text \<open>
  \<open>repr\<close> of a string, the characters that are not printable as two hexadecimal digits; \<open>repr\<close> and
  \<open>str\<close> of the other values.
\<close>

definition is_printable :: "char \<Rightarrow> bool" where
  "is_printable c = (let n = of_char c :: nat in (32 \<le> n \<and> n < 127) \<or> (160 < n \<and> n \<noteq> 173))"

definition hex2 :: "nat \<Rightarrow> string" where
  "hex2 n = [digit_char (n div 16), digit_char (n mod 16)]"

definition repr_str :: "string \<Rightarrow> string" where
  "repr_str s =
     (let q = (if CHR 0x27 \<in> set s \<and> CHR 0x22 \<notin> set s then CHR 0x22 else CHR 0x27);
          esc = (\<lambda>c. if c = q \<or> c = CHR 0x5C then [CHR 0x5C, c]
                     else if c = CHR 0x0A then [CHR 0x5C, CHR ''n'']
                     else if c = CHR 0x0D then [CHR 0x5C, CHR ''r'']
                     else if c = CHR 0x09 then [CHR 0x5C, CHR ''t'']
                     else if \<not> is_printable c then CHR 0x5C # CHR ''x'' # hex2 (of_char c)
                     else [c])
      in q # concat (map esc s) @ [q])"

text \<open>\<open>raw.hex()\<close>, and an optional value in a dictionary.\<close>

definition bytes_hex :: "bytes \<Rightarrow> string" where
  "bytes_hex bs = concat (map (\<lambda>b. hex2 (unat b)) bs)"

definition opt_json :: "('a \<Rightarrow> json) \<Rightarrow> 'a option \<Rightarrow> json" where
  "opt_json f x = (case x of None \<Rightarrow> JNull | Some v \<Rightarrow> f v)"

fun py_repr :: "json \<Rightarrow> string" where
  "py_repr JNull = ''None''"
| "py_repr (JBool b) = (if b then ''True'' else ''False'')"
| "py_repr (JInt i) = str_int i"
| "py_repr (JFloat x) = repr_float x"
| "py_repr (JStr s) = repr_str s"
| "py_repr (JArr vs) = ''['' @ str_join '', '' (map py_repr vs) @ '']''"
| "py_repr (JObj ms) =
     ''{'' @ str_join '', '' (map (\<lambda>m. case m of (k, v) \<Rightarrow> repr_str k @ '': '' @ py_repr v) ms) @ ''}''"

fun py_str :: "json \<Rightarrow> string" where
  "py_str (JStr s) = s"
| "py_str v = py_repr v"

fun py_bool :: "json \<Rightarrow> bool" where
  "py_bool JNull = False"
| "py_bool (JBool b) = b"
| "py_bool (JInt i) = (i \<noteq> 0)"
| "py_bool (JFloat x) = (x \<noteq> f_zero)"
| "py_bool (JStr s) = (s \<noteq> [])"
| "py_bool (JArr vs) = (vs \<noteq> [])"
| "py_bool (JObj ms) = (ms \<noteq> [])"

text \<open>\<open>d[k]\<close> raises \<open>KeyError\<close>; \<open>d.get(k, default)\<close> does not. \<open>d[k] = v\<close> keeps the position of a known key.\<close>

definition obj_index :: "(string \<times> 'v) list \<Rightarrow> string \<Rightarrow> 'v result" where
  "obj_index d k = (case map_of d k of None \<Rightarrow> Inl (KeyError (repr_str k)) | Some v \<Rightarrow> Inr v)"

definition obj_get :: "(string \<times> 'v) list \<Rightarrow> string \<Rightarrow> 'v \<Rightarrow> 'v" where
  "obj_get d k dflt = (case map_of d k of None \<Rightarrow> dflt | Some v \<Rightarrow> v)"

fun obj_set :: "(string \<times> 'v) list \<Rightarrow> string \<Rightarrow> 'v \<Rightarrow> (string \<times> 'v) list" where
  "obj_set [] k v = [(k, v)]"
| "obj_set ((k', v') # d) k v = (if k' = k then (k, v) # d else (k', v') # obj_set d k v)"

lemma map_of_obj_set: "map_of (obj_set d k v) = (map_of d)(k \<mapsto> v)"
  by (induction d k v rule: obj_set.induct) (auto simp: fun_eq_iff)

lemma obj_get_set: "obj_get (obj_set d k v) k' dflt = (if k' = k then v else obj_get d k' dflt)"
  by (simp add: obj_get_def map_of_obj_set)

lemma dom_obj_set: "fst ` set (obj_set d k v) = insert k (fst ` set d)"
  by (induction d k v rule: obj_set.induct) auto

lemma distinct_obj_set: "distinct (map fst d) \<Longrightarrow> distinct (map fst (obj_set d k v))"
proof (induction d k v rule: obj_set.induct)
  case (2 k' v' d k v)
  then show ?case using dom_obj_set [of d k v] by (auto simp: image_iff)
qed simp

end
