(* ===== verification/Rtcm_Models.thy ===== *)
theory Rtcm_Models
  imports Py_Json
begin

text \<open>
  The typed models of the recorded-replay package (\<open>rtcm_replay/models.py\<close>): the enumerations, the
  source, frame, event, frame-delivery, configuration, checkpoint, admission and metric records,
  and the validation of a source and of a configuration, which collect problems and raise
  \<open>AdmissionBlocked\<close> when there is one.
\<close>

section \<open>Enumerations\<close>

datatype source_type = RECORDED_RTCM | NTRIP_CAPTURE | SYNTHETIC_TEST_FIXTURE | ST_UNKNOWN

datatype timing_quality =
  EXACT_CAPTURE_TIMING | MESSAGE_EPOCH_DERIVED | TQ_APPROXIMATE | TQ_UNAVAILABLE

datatype admission_verdict = AV_ACCEPT | AV_WARN | AV_REJECT | AV_BLOCKED

datatype backpressure_policy = BP_BLOCK | BP_BACKPRESSURE | BP_DROP_NEWEST_EXPLICIT

datatype crc_status = CRC_PASS | CRC_FAIL | CRC_UNCHECKED

fun source_type_str :: "source_type \<Rightarrow> string" where
  "source_type_str RECORDED_RTCM = ''RECORDED_RTCM''"
| "source_type_str NTRIP_CAPTURE = ''NTRIP_CAPTURE''"
| "source_type_str SYNTHETIC_TEST_FIXTURE = ''SYNTHETIC_TEST_FIXTURE''"
| "source_type_str ST_UNKNOWN = ''UNKNOWN''"

definition BLOCKED_MESSAGE :: string where
  "BLOCKED_MESSAGE = ''RTCM REPLAY BLOCKED - SOURCE ADMISSION REQUIREMENTS NOT MET''"

definition KNOWN_STATIONS :: "string list" where
  "KNOWN_STATIONS =
     [''ABFC00NGA'', ''BKFP00NGA'', ''EKAK00NGA'', ''FUTY00NGA'', ''MGBO00NGA'', ''PHRI00NGA'',
      ''ULAG00NGA'', ''UNEC00NGA'']"

definition SYNTHETIC_STATION_PREFIXES :: "string list" where
  "SYNTHETIC_STATION_PREFIXES = [''SYN'', ''TEST'']"

definition SELECTED_CORRECTION_SOURCE_UNAVAILABLE :: string where
  "SELECTED_CORRECTION_SOURCE_UNAVAILABLE = ''SELECTED_CORRECTION_SOURCE_UNAVAILABLE''"

section \<open>The replay source\<close>

record rtcm_source =
  src_source_id :: string
  src_source_type :: source_type
  src_source_path :: string
  src_station_id :: string
  src_mountpoint :: string
  src_start_time :: string
  src_end_time :: string
  src_byte_size :: int
  src_sha256 :: string
  src_capture_method :: string
  src_capture_provenance :: string
  src_rtcm_version :: string
  src_message_types :: "string list"
  src_timestamp_source :: string
  src_verified :: bool

text \<open>The last test of the code, membership of the type in the enumeration, holds of every value.\<close>

definition source_validate :: "rtcm_source \<Rightarrow> string list" where
  "source_validate s =
     (if src_source_id s = [] then [''source_id must be non-empty''] else []) @
     (if src_source_path s = [] then [''source_path must be non-empty''] else []) @
     (if src_station_id s = [] then [''station_id must be non-empty''] else []) @
     (if src_byte_size s < 0
      then [''byte_size must be non-negative: '' @ str_int (src_byte_size s)] else [])"

definition blocked_with :: "string list \<Rightarrow> py_error" where
  "blocked_with problems = AdmissionBlocked (BLOCKED_MESSAGE @ '': '' @ str_join ''; '' problems)"

definition source_assert_valid :: "rtcm_source \<Rightarrow> unit result" where
  "source_assert_valid s =
     (let problems = source_validate s in if problems \<noteq> [] then Inl (blocked_with problems) else Inr ())"

section \<open>Frames and events\<close>

record frame_record =
  fr_offset :: nat
  fr_frame_length :: nat
  fr_message_number :: "nat option"
  fr_crc_status :: crc_status
  fr_raw_hash :: string

record replay_event =
  ev_sequence :: nat
  ev_source_offset :: nat
  ev_message_number :: "nat option"
  ev_frame_length :: nat
  ev_original_timestamp :: "string option"
  ev_relative_time_ms :: int
  ev_raw_hash :: string

record correction_frame =
  cf_sequence :: nat
  cf_cycle :: nat
  cf_source_id :: string
  cf_station_id :: string
  cf_mountpoint :: string
  cf_message_number :: "nat option"
  cf_raw_bytes :: bytes
  cf_source_timestamp :: "string option"
  cf_replay_timestamp :: string
  cf_provenance :: "(string \<times> json) list"

section \<open>The replay configuration\<close>

record replay_config =
  rc_speed :: pyfloat
  rc_start_sequence :: "int option"
  rc_end_sequence :: "int option"
  rc_start_time :: "string option"
  rc_end_time :: "string option"
  rc_message_filter :: "int list"
  rc_loop_cycles :: int
  rc_buffer_capacity :: int
  rc_backpressure_policy :: backpressure_policy
  rc_max_frame_length :: int
  rc_max_events :: int

definition default_replay_config :: replay_config where
  "default_replay_config =
     \<lparr>rc_speed = PFin 1, rc_start_sequence = None, rc_end_sequence = None, rc_start_time = None,
      rc_end_time = None, rc_message_filter = [], rc_loop_cycles = 1, rc_buffer_capacity = 16,
      rc_backpressure_policy = BP_BLOCK, rc_max_frame_length = 1023, rc_max_events = 100000\<rparr>"

definition config_validate :: "replay_config \<Rightarrow> string list" where
  "config_validate c =
     (if f_lt (rc_speed c) f_zero
      then [''speed must be >= 0 (0 = max throughput): '' @ repr_float (rc_speed c)] else []) @
     (if rc_loop_cycles c < 1
      then [''loop_cycles must be >= 1: '' @ str_int (rc_loop_cycles c)] else []) @
     (if rc_buffer_capacity c < 1
      then [''buffer_capacity must be >= 1: '' @ str_int (rc_buffer_capacity c)] else []) @
     (if rc_max_frame_length c < 1 \<or> 1023 < rc_max_frame_length c
      then [''max_frame_length must be within 1..1023: '' @ str_int (rc_max_frame_length c)] else []) @
     (if rc_max_events c < 1
      then [''max_events must be >= 1: '' @ str_int (rc_max_events c)] else []) @
     (case (rc_start_sequence c, rc_end_sequence c) of
        (Some a, Some b) \<Rightarrow> if b < a then [''start_sequence must not exceed end_sequence''] else []
      | _ \<Rightarrow> [])"

definition config_assert_valid :: "replay_config \<Rightarrow> unit result" where
  "config_assert_valid c =
     (let problems = config_validate c in if problems \<noteq> [] then Inl (blocked_with problems) else Inr ())"

lemma config_assert_valid_Inr:
  "config_assert_valid c = Inr () \<longleftrightarrow> config_validate c = []"
  by (simp add: config_assert_valid_def Let_def)

lemma config_valid_bounds:
  assumes "config_validate c = []"
  shows "1 \<le> rc_loop_cycles c" "1 \<le> rc_buffer_capacity c" "1 \<le> rc_max_events c"
    "1 \<le> rc_max_frame_length c \<and> rc_max_frame_length c \<le> 1023" "\<not> f_lt (rc_speed c) f_zero"
  using assms by (auto simp: config_validate_def split: if_splits)

section \<open>Checkpoints, admission and metrics\<close>

record checkpoint =
  cp_source_fingerprint :: string
  cp_config_fingerprint :: string
  cp_last_emitted_sequence :: int
  cp_source_byte_offset :: int
  cp_last_replay_timestamp :: string
  cp_cycle :: int

record admission_result =
  ar_verdict :: admission_verdict
  ar_findings :: "string list"
  ar_source_fingerprint :: string
  ar_frames_discovered :: nat
  ar_frames_valid :: nat

record replay_metrics =
  rm_frames_discovered :: nat
  rm_frames_valid :: nat
  rm_frames_invalid :: nat
  rm_crc_failures :: nat
  rm_bytes_processed :: nat
  rm_message_type_counts :: "(string \<times> nat) list"
  rm_replay_duration_ms :: int
  rm_source_duration_ms :: int
  rm_effective_speed :: pyfloat
  rm_frames_emitted :: nat
  rm_frames_dropped :: nat
  rm_duplicates :: nat
  rm_sequence_gaps :: nat
  rm_checkpoint_resumes :: nat
  rm_producer_frames :: nat
  rm_consumer_frames :: nat
  rm_buffer_waits :: nat
  rm_maximum_queue_depth :: nat
  rm_scheduled_replay_delays_ms :: "int list"
  rm_consumer_processing_delays_ms :: "int list"

text \<open>\<open>counts[key] = counts.get(key, 0) + 1\<close>\<close>

definition count_key :: "(string \<times> nat) list \<Rightarrow> string \<Rightarrow> (string \<times> nat) list" where
  "count_key counts key = obj_set counts key (obj_get counts key 0 + 1)"

lemma count_key_get:
  "obj_get (count_key cs k) k' 0 = obj_get cs k' 0 + (if k' = k then 1 else 0)"
  by (simp add: count_key_def obj_get_set)

lemma count_keys_get:
  "obj_get (foldl count_key cs ks) k 0 = obj_get cs k 0 + count_list ks k"
  by (induction ks arbitrary: cs) (auto simp: count_key_get)

end
