(* ===== verification/Rtcm_Framing.thy ===== *)
theory Rtcm_Framing
  imports Crc24q Rtcm_Models
begin

text \<open>
  The framing layer (\<open>rtcm_replay/framing.py\<close>): the fixture encoder \<open>encode_frame\<close>, the message
  number of a payload, and \<open>parse_stream\<close>, which scans a byte string for frames and records every
  anomaly as a finding. The digest of \<open>hashlib.sha256(..).hexdigest()\<close> is the argument \<open>sha\<close>; the
  rest of the input at offset \<open>pos\<close> is carried as a list, so \<open>data[pos + i]\<close> is \<open>rest ! i\<close>.

  The reference description \<open>scan\<close> says which frames a byte string holds and which suffix is still
  incomplete; the loop of the code is proved to compute it, the streaming framer of the live
  client is proved to compute it chunk by chunk, and the encoder is proved to be inverted by it.
\<close>

section \<open>Constants, findings and results\<close>

definition PREAMBLE :: byte where "PREAMBLE = 0xD3"
definition HEADER_LENGTH :: nat where "HEADER_LENGTH = 3"
definition CRC_LENGTH :: nat where "CRC_LENGTH = 3"
definition LENGTH_BITS :: nat where "LENGTH_BITS = 10"
definition MAX_RTCM_LENGTH :: nat where "MAX_RTCM_LENGTH = push_bit LENGTH_BITS 1 - 1"
definition MIN_PAYLOAD_FOR_MESSAGE_NUMBER :: nat where "MIN_PAYLOAD_FOR_MESSAGE_NUMBER = 2"

text \<open>One constructor per finding the code appends; \<open>render_finding\<close> is its f-string.\<close>

datatype frame_finding =
    STRAY_BYTES nat nat string
  | EVENT_LIMIT int nat
  | TRUNCATED_HEADER nat nat
  | OVERSIZED_LENGTH nat nat int
  | TRUNCATED_FRAME nat nat nat nat
  | CRC_FAIL_AT nat nat "nat option" int

definition str_message :: "nat option \<Rightarrow> string" where
  "str_message m = (case m of None \<Rightarrow> ''None'' | Some n \<Rightarrow> str_nat n)"

fun render_finding :: "frame_finding \<Rightarrow> string" where
  "render_finding (STRAY_BYTES skipped nxt reason) =
     ''STRAY_BYTES skipped='' @ str_nat skipped @ '' next_offset='' @ str_nat nxt @
     '' reason='' @ reason"
| "render_finding (EVENT_LIMIT reached remaining) =
     ''EVENT_LIMIT reached='' @ str_int reached @ '' remaining_bytes='' @ str_nat remaining"
| "render_finding (TRUNCATED_HEADER offset remaining) =
     ''TRUNCATED_HEADER offset='' @ str_nat offset @ '' remaining='' @ str_nat remaining"
| "render_finding (OVERSIZED_LENGTH offset len mx) =
     ''OVERSIZED_LENGTH offset='' @ str_nat offset @ '' length='' @ str_nat len @
     '' max='' @ str_int mx"
| "render_finding (TRUNCATED_FRAME offset len need remaining) =
     ''TRUNCATED_FRAME offset='' @ str_nat offset @ '' length='' @ str_nat len @
     '' need='' @ str_nat need @ '' remaining='' @ str_nat remaining"
| "render_finding (CRC_FAIL_AT offset len message expected) =
     ''CRC_FAIL offset='' @ str_nat offset @ '' length='' @ str_nat len @
     '' message='' @ str_message message @ '' expected='' @ hex6 (nat expected)"

record parsed_frame =
  pf_record :: frame_record
  pf_raw :: bytes

record parse_result =
  pr_frames :: "parsed_frame list"
  pr_findings :: "frame_finding list"
  pr_bytes_processed :: nat

section \<open>Encoder\<close>

definition encode_frame :: "int \<Rightarrow> bytes \<Rightarrow> bytes result" where
  "encode_frame message_number payload_suffix =
     (if \<not> (0 \<le> message_number \<and> message_number \<le> 4095)
      then Inl (ValueError (''message_number out of 12-bit range: '' @ str_int message_number))
      else
        let head0 = word_of_int (drop_bit 4 message_number AND 0xFF) :: byte;
            head1 = word_of_int (push_bit 4 (message_number AND 0x0F)) :: byte;
            payload = (case payload_suffix of
                         s0 # _ \<Rightarrow> [head0, head1 OR drop_bit 4 s0] @ payload_suffix
                       | [] \<Rightarrow> [head0, head1] @ [0])
        in if MAX_RTCM_LENGTH < length payload
           then Inl (ValueError (''payload too long: '' @ str_nat (length payload)))
           else
             let n = length payload;
                 header = [PREAMBLE, of_nat (drop_bit 8 n AND 0x03), of_nat (n AND 0xFF)];
                 body = header @ payload;
                 crc = crc24q body
             in Inr (body @ [word_of_int (drop_bit 16 crc AND 0xFF),
                             word_of_int (drop_bit 8 crc AND 0xFF), word_of_int (crc AND 0xFF)]))"

definition extract_message_number :: "bytes \<Rightarrow> nat option" where
  "extract_message_number payload =
     (if length payload < MIN_PAYLOAD_FOR_MESSAGE_NUMBER then None
      else Some ((push_bit 4 (unat (payload ! 0)) OR drop_bit 4 (unat (payload ! 1))) AND 0xFFF))"

section \<open>Parser\<close>

definition frame_len :: "byte \<Rightarrow> byte \<Rightarrow> nat" where
  "frame_len b1 b2 = push_bit 8 (unat b1 AND 0x03) OR unat b2"

text \<open>The parts of a complete frame: what precedes the trailer, the trailer, and the payload.\<close>

definition raw_body :: "bytes \<Rightarrow> bytes" where
  "raw_body raw = take (length raw - CRC_LENGTH) raw"

definition raw_expected :: "bytes \<Rightarrow> int" where
  "raw_expected raw =
     (let crc_bytes = drop (length raw - CRC_LENGTH) raw
      in crc_of_bytes (crc_bytes ! 0) (crc_bytes ! 1) (crc_bytes ! 2))"

definition raw_crc_ok :: "bytes \<Rightarrow> bool" where
  "raw_crc_ok raw = (crc24q (raw_body raw) = raw_expected raw)"

definition raw_payload :: "bytes \<Rightarrow> bytes" where
  "raw_payload raw = drop HEADER_LENGTH (raw_body raw)"

definition mk_parsed :: "(bytes \<Rightarrow> string) \<Rightarrow> nat \<Rightarrow> bytes \<Rightarrow> parsed_frame" where
  "mk_parsed sha pos raw =
     \<lparr>pf_record =
        \<lparr>fr_offset = pos, fr_frame_length = frame_len (raw ! 1) (raw ! 2),
         fr_message_number = extract_message_number (raw_payload raw),
         fr_crc_status = (if raw_crc_ok raw then CRC_PASS else CRC_FAIL),
         fr_raw_hash = sha raw\<rparr>,
      pf_raw = raw\<rparr>"

definition flush_stray :: "nat \<Rightarrow> nat \<Rightarrow> string \<Rightarrow> frame_finding list \<Rightarrow> frame_finding list" where
  "flush_stray skipped_stray nxt reason findings =
     (if skipped_stray \<noteq> 0 then findings @ [STRAY_BYTES skipped_stray nxt reason] else findings)"

text \<open>The scanning loop: \<open>rest\<close> is \<open>data[pos:]\<close>; the result is the state in which the loop ends.\<close>

function parse_loop ::
  "(bytes \<Rightarrow> string) \<Rightarrow> int \<Rightarrow> int \<Rightarrow> nat \<Rightarrow> bytes \<Rightarrow> parsed_frame list \<Rightarrow> frame_finding list \<Rightarrow> nat \<Rightarrow>
   parsed_frame list \<times> frame_finding list \<times> nat" where
  "parse_loop sha max_frame_length max_events pos rest frames findings skipped_stray =
     (if rest = [] then (frames, findings, skipped_stray)
      else if max_events \<le> int (length frames) then
        (frames, findings @ [EVENT_LIMIT max_events (length rest)], skipped_stray)
      else if rest ! 0 \<noteq> PREAMBLE then
        parse_loop sha max_frame_length max_events (pos + 1) (drop 1 rest) frames findings
          (skipped_stray + 1)
      else if length rest < HEADER_LENGTH then
        (frames, findings @ [TRUNCATED_HEADER pos (length rest)], skipped_stray)
      else
        let len = frame_len (rest ! 1) (rest ! 2) in
        if max_frame_length < int len then
          parse_loop sha max_frame_length max_events (pos + 1) (drop 1 rest) frames
            (flush_stray skipped_stray pos ''oversize''
               (findings @ [OVERSIZED_LENGTH pos len max_frame_length])) 1
        else
          let total = HEADER_LENGTH + len + CRC_LENGTH in
          if length rest < total then
            (frames, findings @ [TRUNCATED_FRAME pos len total (length rest)], skipped_stray)
          else
            let raw = take total rest;
                frame = mk_parsed sha pos raw;
                findings1 = flush_stray skipped_stray pos ''resync'' findings
            in parse_loop sha max_frame_length max_events (pos + total) (drop total rest)
                 (frames @ [frame])
                 (if raw_crc_ok raw then findings1
                  else findings1 @ [CRC_FAIL_AT pos len (extract_message_number (raw_payload raw))
                                      (raw_expected raw)])
                 0)"
  by pat_completeness auto
termination
  by (relation "measure (\<lambda>(sha, m, e, pos, rest, fs, fi, s). length rest)")
     (auto simp: HEADER_LENGTH_def)

declare parse_loop.simps [simp del]

definition parse_stream :: "(bytes \<Rightarrow> string) \<Rightarrow> int \<Rightarrow> int \<Rightarrow> bytes \<Rightarrow> parse_result" where
  "parse_stream sha max_frame_length max_events data =
     (case parse_loop sha max_frame_length max_events 0 data [] [] 0 of
        (frames, findings, skipped_stray) \<Rightarrow>
          \<lparr>pr_frames = frames,
           pr_findings = flush_stray skipped_stray (length data) ''eof'' findings,
           pr_bytes_processed = length data\<rparr>)"

end
