(* ===== verification/Rtcm_Timing.thy ===== *)
theory Rtcm_Timing
  imports Rtcm_Framing
begin

text \<open>
  Timing quality and the replay timeline (\<open>rtcm_replay/timing.py\<close>): which timestamps a source can
  claim, and the list of events built from the parsed frames, whose times come from the arrival
  schedule or from the nominal interval, never from a clock.
\<close>

record timing_assessment =
  ta_quality :: timing_quality
  ta_findings :: "string list"
  ta_source_duration_ms :: int

definition classify_timing ::
  "rtcm_source \<Rightarrow> int list option \<Rightarrow> bool \<Rightarrow> int option \<Rightarrow> timing_assessment" where
  "classify_timing source arrival_ms epoch_available nominal_interval_ms =
     (let arrivals = (case arrival_ms of None \<Rightarrow> [] | Some xs \<Rightarrow> xs) in
      if src_timestamp_source source = ''capture'' \<and> arrivals \<noteq> [] then
        \<lparr>ta_quality = EXACT_CAPTURE_TIMING, ta_findings = [],
         ta_source_duration_ms = (if 1 < length arrivals then last arrivals - hd arrivals else 0)\<rparr>
      else if src_timestamp_source source = ''message_epoch'' \<and> epoch_available then
        \<lparr>ta_quality = MESSAGE_EPOCH_DERIVED, ta_findings = [], ta_source_duration_ms = 0\<rparr>
      else if src_timestamp_source source = ''message_epoch'' \<and> \<not> epoch_available then
        \<lparr>ta_quality = TQ_UNAVAILABLE,
         ta_findings = [''TIMING_EPOCH_UNAVAILABLE timestamp_source=message_epoch '' @
                        ''but no epoch data decoded in this phase''],
         ta_source_duration_ms = 0\<rparr>
      else
        (case nominal_interval_ms of
           Some n \<Rightarrow>
             \<lparr>ta_quality = TQ_APPROXIMATE,
              ta_findings = [''TIMING_APPROXIMATE nominal_interval_ms='' @ str_int n @
                             '' no capture timestamps available''],
              ta_source_duration_ms = 0\<rparr>
         | None \<Rightarrow>
             \<lparr>ta_quality = TQ_UNAVAILABLE, ta_findings = [''TIMING_UNAVAILABLE no timestamp source usable''],
              ta_source_duration_ms = 0\<rparr>))"

text \<open>The frames that enter the timeline, each with its index among all frames.\<close>

definition eligible_frames :: "parsed_frame list \<Rightarrow> bool \<Rightarrow> (nat \<times> parsed_frame) list" where
  "eligible_frames frames only_valid_crc =
     filter (\<lambda>(i, p). fr_crc_status (pf_record p) = CRC_PASS \<or> \<not> only_valid_crc) (enumerate 0 frames)"

definition stamp_of :: "int list option \<Rightarrow> int \<Rightarrow> nat \<Rightarrow> nat \<Rightarrow> int" where
  "stamp_of arrival_ms nominal_interval_ms sequence original_index =
     (case arrival_ms of
        Some xs \<Rightarrow> xs ! original_index
      | None \<Rightarrow> int sequence * nominal_interval_ms)"

fun timeline_events ::
  "int list option \<Rightarrow> int \<Rightarrow> nat \<Rightarrow> int option \<Rightarrow> (nat \<times> parsed_frame) list \<Rightarrow> replay_event list" where
  "timeline_events arrival_ms nominal sequence base [] = []"
| "timeline_events arrival_ms nominal sequence base ((original_index, parsed) # rest) =
     (let rec = pf_record parsed;
          stamp_ms = stamp_of arrival_ms nominal sequence original_index;
          base1 = (case base of None \<Rightarrow> stamp_ms | Some b \<Rightarrow> b)
      in \<lparr>ev_sequence = sequence, ev_source_offset = fr_offset rec,
          ev_message_number = fr_message_number rec, ev_frame_length = fr_frame_length rec,
          ev_original_timestamp = Some (str_int stamp_ms), ev_relative_time_ms = stamp_ms - base1,
          ev_raw_hash = fr_raw_hash rec\<rparr>
         # timeline_events arrival_ms nominal (sequence + 1) (Some base1) rest)"

definition build_timeline ::
  "parsed_frame list \<Rightarrow> int list option \<Rightarrow> int \<Rightarrow> bool \<Rightarrow> replay_event list result" where
  "build_timeline frames arrival_ms nominal_interval_ms only_valid_crc =
     (case arrival_ms of
        Some xs \<Rightarrow>
          if length xs \<noteq> length frames
          then Inl (ValueError (''arrival schedule length '' @ str_nat (length xs) @
                      '' != frame count '' @ str_nat (length frames)))
          else Inr (timeline_events arrival_ms nominal_interval_ms 0 None
                      (eligible_frames frames only_valid_crc))
      | None \<Rightarrow> Inr (timeline_events arrival_ms nominal_interval_ms 0 None
                      (eligible_frames frames only_valid_crc)))"

section \<open>Lemmas\<close>

lemma timeline_events_length [simp]: "length (timeline_events a n k b xs) = length xs"
  by (induction xs arbitrary: k b) (auto simp: Let_def)

text \<open>One event per eligible frame, in order, with that frame's data and consecutive sequences.\<close>

definition event_of :: "int list option \<Rightarrow> int \<Rightarrow> int \<Rightarrow> nat \<Rightarrow> nat \<times> parsed_frame \<Rightarrow> replay_event" where
  "event_of arrival_ms nominal base sequence x =
     (let rec = pf_record (snd x); stamp_ms = stamp_of arrival_ms nominal sequence (fst x)
      in \<lparr>ev_sequence = sequence, ev_source_offset = fr_offset rec,
          ev_message_number = fr_message_number rec, ev_frame_length = fr_frame_length rec,
          ev_original_timestamp = Some (str_int stamp_ms), ev_relative_time_ms = stamp_ms - base,
          ev_raw_hash = fr_raw_hash rec\<rparr>)"

lemma timeline_events_based:
  "timeline_events a n k (Some b) xs = map (\<lambda>(i, x). event_of a n b i x) (enumerate k xs)"
  by (induction xs arbitrary: k) (auto simp: Let_def event_of_def)

definition first_stamp :: "int list option \<Rightarrow> int \<Rightarrow> (nat \<times> parsed_frame) list \<Rightarrow> int" where
  "first_stamp a n xs = (case xs of [] \<Rightarrow> 0 | x # _ \<Rightarrow> stamp_of a n 0 (fst x))"

lemma timeline_events_eq:
  "timeline_events a n 0 None xs = map (\<lambda>(i, x). event_of a n (first_stamp a n xs) i x) (enumerate 0 xs)"
proof (cases xs)
  case (Cons x xs')
  then show ?thesis
    by (cases x) (simp add: Let_def first_stamp_def event_of_def timeline_events_based)
qed simp

lemma timeline_events_nth:
  "i < length xs \<Longrightarrow>
   timeline_events a n 0 None xs ! i = event_of a n (first_stamp a n xs) i (xs ! i)"
  by (simp add: timeline_events_eq nth_enumerate_eq)

lemma build_timeline_ok:
  "build_timeline frames arrival n only = Inr events \<Longrightarrow>
   events = timeline_events arrival n 0 None (eligible_frames frames only)"
  by (auto simp: build_timeline_def split: option.splits if_splits)

lemma eligible_frames_parsed:
  "map snd (eligible_frames frames only) =
   filter (\<lambda>p. fr_crc_status (pf_record p) = CRC_PASS \<or> \<not> only) frames"
proof -
  have "map snd (filter (\<lambda>(i, p). fr_crc_status (pf_record p) = CRC_PASS \<or> \<not> only) (enumerate k frames)) =
    filter (\<lambda>p. fr_crc_status (pf_record p) = CRC_PASS \<or> \<not> only) frames" for k
    by (induction frames arbitrary: k) auto
  then show ?thesis by (simp add: eligible_frames_def)
qed

lemma eligible_frames_index:
  "(i, p) \<in> set (eligible_frames frames only) \<Longrightarrow> i < length frames \<and> frames ! i = p"
  by (auto simp: eligible_frames_def in_set_enumerate_eq)

text \<open>The original indexes increase, so an ordered schedule gives ordered stamps.\<close>

lemma eligible_frames_sorted: "sorted_wrt (<) (map fst (eligible_frames frames only))"
proof -
  have "sorted_wrt (<) (map fst (filter P (enumerate k xs)))" for P k and xs :: "parsed_frame list"
  proof (induction xs arbitrary: k)
    case (Cons x xs)
    have "\<forall>y \<in> set (filter P (enumerate (Suc k) xs)). k < fst y"
      by (auto simp: in_set_enumerate_eq)
    with Cons [of "Suc k"] show ?case by auto
  qed simp
  then show ?thesis by (simp add: eligible_frames_def)
qed

lemma eligible_index_ge: "i < length (eligible_frames frames only) \<Longrightarrow> i \<le> fst (eligible_frames frames only ! i)"
proof (induction i)
  case (Suc i)
  then have "fst (eligible_frames frames only ! i) < fst (eligible_frames frames only ! Suc i)"
    using eligible_frames_sorted [of frames only] sorted_wrt_nth_less
    by (metis (no_types, lifting) Suc_lessD length_map lessI nth_map)
  with Suc show ?case by simp
qed simp

end
