(* ===== verification/Rtcm_Checkpoint.thy ===== *)
theory Rtcm_Checkpoint
  imports Rtcm_Models
begin

text \<open>
  Checkpoints (\<open>rtcm_replay/checkpoint.py\<close>): reading one from an untrusted mapping, and the check that
  the source and configuration it was taken for are the present ones.
\<close>

record checkpoint_check =
  ck_valid :: bool
  ck_reason :: string

definition as_int :: "json \<Rightarrow> string \<Rightarrow> int result" where
  "as_int v name =
     (case v of
        JInt i \<Rightarrow> Inr i
      | _ \<Rightarrow> Inl (ValueError (''malformed checkpoint: '' @ name @ '' must be an integer'')))"

definition checkpoint_from_dict :: "(string \<times> json) list \<Rightarrow> checkpoint result" where
  "checkpoint_from_dict payload =
     (case bind_result (obj_index payload ''source_fingerprint'') (\<lambda>sf.
           bind_result (obj_index payload ''config_fingerprint'') (\<lambda>cf.
           bind_result (obj_index payload ''last_emitted_sequence'') (\<lambda>ls.
           bind_result (as_int ls ''last_emitted_sequence'') (\<lambda>last.
           bind_result (obj_index payload ''source_byte_offset'') (\<lambda>so.
           bind_result (as_int so ''source_byte_offset'') (\<lambda>offset.
           bind_result (obj_index payload ''last_replay_timestamp'') (\<lambda>ts.
           bind_result (as_int (obj_get payload ''cycle'' (JInt 0)) ''cycle'') (\<lambda>cyc.
             Inr \<lparr>cp_source_fingerprint = py_str sf, cp_config_fingerprint = py_str cf,
                  cp_last_emitted_sequence = last, cp_source_byte_offset = offset,
                  cp_last_replay_timestamp = py_str ts, cp_cycle = cyc\<rparr>)))))))) of
        Inr cp \<Rightarrow> Inr cp
      | Inl e \<Rightarrow> Inl (ValueError (''malformed checkpoint: '' @ error_text e)))"

text \<open>\<open>Checkpoint.as_dict\<close>\<close>

definition checkpoint_as_dict :: "checkpoint \<Rightarrow> (string \<times> json) list" where
  "checkpoint_as_dict cp =
     [(''source_fingerprint'', JStr (cp_source_fingerprint cp)),
      (''config_fingerprint'', JStr (cp_config_fingerprint cp)),
      (''last_emitted_sequence'', JInt (cp_last_emitted_sequence cp)),
      (''source_byte_offset'', JInt (cp_source_byte_offset cp)),
      (''last_replay_timestamp'', JStr (cp_last_replay_timestamp cp)),
      (''cycle'', JInt (cp_cycle cp))]"

definition validate_checkpoint :: "checkpoint \<Rightarrow> string \<Rightarrow> string \<Rightarrow> checkpoint_check" where
  "validate_checkpoint cp source_fingerprint config_fingerprint =
     (if cp_source_fingerprint cp \<noteq> source_fingerprint then
        \<lparr>ck_valid = False,
         ck_reason = ''CHECKPOINT_SOURCE_MISMATCH expected='' @ source_fingerprint @
                     '' found='' @ cp_source_fingerprint cp\<rparr>
      else if cp_config_fingerprint cp \<noteq> config_fingerprint then
        \<lparr>ck_valid = False,
         ck_reason = ''CHECKPOINT_CONFIG_MISMATCH expected='' @ config_fingerprint @
                     '' found='' @ cp_config_fingerprint cp\<rparr>
      else \<lparr>ck_valid = True, ck_reason = ''CHECKPOINT_VALID''\<rparr>)"

lemma validate_checkpoint_valid:
  "ck_valid (validate_checkpoint cp sf cf) \<longleftrightarrow>
   cp_source_fingerprint cp = sf \<and> cp_config_fingerprint cp = cf"
  by (simp add: validate_checkpoint_def)

text \<open>
  A checkpoint survives serialisation: \<open>checkpoint_from_dict\<close> reads back what \<open>as_dict\<close> wrote,
  also when further members follow, and the only error it can raise is a \<open>ValueError\<close> whose text
  begins with \<open>malformed checkpoint:\<close>, whatever the payload is.
\<close>

theorem checkpoint_roundtrip:
  "checkpoint_from_dict (checkpoint_as_dict cp @ other) = Inr cp \<and>
   (\<forall>payload. (\<exists>cp'. checkpoint_from_dict payload = Inr cp') \<or>
      (\<exists>s. checkpoint_from_dict payload = Inl (ValueError (''malformed checkpoint: '' @ s))))"
proof
  show "checkpoint_from_dict (checkpoint_as_dict cp @ other) = Inr cp"
    by (simp add: checkpoint_from_dict_def checkpoint_as_dict_def obj_index_def obj_get_def as_int_def)
  show "\<forall>payload. (\<exists>cp'. checkpoint_from_dict payload = Inr cp') \<or>
      (\<exists>s. checkpoint_from_dict payload = Inl (ValueError (''malformed checkpoint: '' @ s)))"
    unfolding checkpoint_from_dict_def by (intro allI) (simp split: sum.split)
qed

end
