(* ===== verification/Bounded_Buffer.thy ===== *)
theory Bounded_Buffer
  imports Rtcm_Models
begin

text \<open>
  The bounded buffer between producer and consumer (\<open>rtcm_replay/buffer.py\<close>), shared by the replay
  controller and the live client: a deque with a capacity, a backpressure policy and four counters.
  The locale \<open>bounded_queue\<close> is what its two users rely on.
\<close>

section \<open>State and operations\<close>

record 'a bounded_buffer =
  bb_capacity :: int
  bb_policy :: backpressure_policy
  bb_queue :: "'a list"
  bb_high_water_mark :: nat
  bb_dropped_frames :: nat
  bb_buffer_waits :: nat
  bb_maximum_queue_depth :: nat

definition new_buffer :: "int \<Rightarrow> backpressure_policy \<Rightarrow> 'a bounded_buffer result" where
  "new_buffer capacity policy =
     (if capacity < 1 then Inl (ValueError (''capacity must be >= 1: '' @ str_int capacity))
      else Inr \<lparr>bb_capacity = capacity, bb_policy = policy, bb_queue = [], bb_high_water_mark = 0,
                bb_dropped_frames = 0, bb_buffer_waits = 0, bb_maximum_queue_depth = 0\<rparr>)"

definition occupancy :: "'a bounded_buffer \<Rightarrow> nat" where
  "occupancy b = length (bb_queue b)"

text \<open>\<open>append\<close>, then the two marks are raised if the queue got longer than them.\<close>

definition push_item :: "'a \<Rightarrow> 'a bounded_buffer \<Rightarrow> 'a bounded_buffer" where
  "push_item item b =
     (let q = bb_queue b @ [item];
          b1 = b\<lparr>bb_queue := q\<rparr>;
          b2 = (if bb_high_water_mark b1 < length q then b1\<lparr>bb_high_water_mark := length q\<rparr> else b1)
      in if bb_maximum_queue_depth b2 < length q then b2\<lparr>bb_maximum_queue_depth := length q\<rparr> else b2)"

definition try_put :: "'a \<Rightarrow> 'a bounded_buffer \<Rightarrow> bool \<times> 'a bounded_buffer" where
  "try_put item b =
     (if bb_capacity b \<le> int (length (bb_queue b)) then
        (if bb_policy b = BP_DROP_NEWEST_EXPLICIT
         then (False, b\<lparr>bb_dropped_frames := bb_dropped_frames b + 1\<rparr>)
         else (False, b\<lparr>bb_buffer_waits := bb_buffer_waits b + 1\<rparr>))
      else (True, push_item item b))"

definition force_put :: "'a \<Rightarrow> 'a bounded_buffer \<Rightarrow> 'a bounded_buffer result" where
  "force_put item b =
     (if bb_capacity b \<le> int (length (bb_queue b))
      then Inl (BufferError ''buffer full: force_put requires occupancy < capacity'')
      else Inr (push_item item b))"

definition take_item :: "'a bounded_buffer \<Rightarrow> 'a option \<times> 'a bounded_buffer" where
  "take_item b =
     (case bb_queue b of [] \<Rightarrow> (None, b) | x # q \<Rightarrow> (Some x, b\<lparr>bb_queue := q\<rparr>))"

definition drain :: "'a bounded_buffer \<Rightarrow> 'a list \<times> 'a bounded_buffer" where
  "drain b = (bb_queue b, b\<lparr>bb_queue := []\<rparr>)"

section \<open>Invariant\<close>

text \<open>The queue never exceeds the capacity, and the marks bound it from above and never exceed it.\<close>

definition buffer_inv :: "'a bounded_buffer \<Rightarrow> bool" where
  "buffer_inv b \<longleftrightarrow>
     1 \<le> bb_capacity b \<and> length (bb_queue b) \<le> bb_high_water_mark b \<and>
     int (bb_high_water_mark b) \<le> bb_capacity b \<and> bb_maximum_queue_depth b = bb_high_water_mark b"

lemma push_item_simps [simp]:
  "bb_queue (push_item x b) = bb_queue b @ [x]"
  "bb_capacity (push_item x b) = bb_capacity b"
  "bb_policy (push_item x b) = bb_policy b"
  "bb_dropped_frames (push_item x b) = bb_dropped_frames b"
  "bb_buffer_waits (push_item x b) = bb_buffer_waits b"
  "bb_high_water_mark (push_item x b) = max (bb_high_water_mark b) (Suc (length (bb_queue b)))"
  "bb_maximum_queue_depth (push_item x b) = max (bb_maximum_queue_depth b) (Suc (length (bb_queue b)))"
  by (simp_all add: push_item_def Let_def)

lemma new_buffer_inv: "new_buffer c p = Inr b \<Longrightarrow> buffer_inv b \<and> bb_queue b = []"
  by (auto simp: new_buffer_def buffer_inv_def split: if_splits)

lemma push_item_inv:
  "buffer_inv b \<Longrightarrow> int (length (bb_queue b)) < bb_capacity b \<Longrightarrow> buffer_inv (push_item x b)"
  by (auto simp: buffer_inv_def)

lemma try_put_inv: "buffer_inv b \<Longrightarrow> buffer_inv (snd (try_put x b))"
  using push_item_inv [of b x] by (auto simp: try_put_def buffer_inv_def)

lemma try_put_counts:
  "bb_dropped_frames (snd (try_put x b)) + bb_buffer_waits (snd (try_put x b)) =
   bb_dropped_frames b + bb_buffer_waits b + (if fst (try_put x b) then 0 else 1)"
  by (simp add: try_put_def)

lemma force_put_inv: "buffer_inv b \<Longrightarrow> force_put x b = Inr b' \<Longrightarrow> buffer_inv b'"
  using push_item_inv [of b x] by (auto simp: force_put_def split: if_splits)

lemma take_item_inv: "buffer_inv b \<Longrightarrow> buffer_inv (snd (take_item b))"
  by (auto simp: take_item_def buffer_inv_def split: list.split)

lemma drain_inv: "buffer_inv b \<Longrightarrow> buffer_inv (snd (drain b))"
  by (simp add: drain_def buffer_inv_def)

lemmas buffer_op_inv = try_put_inv take_item_inv drain_inv

section \<open>The interface of its users\<close>

text \<open>
  A queue that refuses an item exactly when it holds \<open>cap\<close> of them, hands items out in the order
  they came, and never loses an accepted one.
\<close>

locale bounded_queue =
  fixes items :: "'q \<Rightarrow> 'a list" and cap :: "'q \<Rightarrow> int" and ok :: "'q \<Rightarrow> bool"
    and put :: "'a \<Rightarrow> 'q \<Rightarrow> bool \<times> 'q" and get :: "'q \<Rightarrow> 'a option \<times> 'q" and clear :: "'q \<Rightarrow> 'a list \<times> 'q"
  assumes cap_pos: "ok q \<Longrightarrow> 1 \<le> cap q"
    and put_law: "ok q \<Longrightarrow> put x q = (acc, q') \<Longrightarrow>
      ok q' \<and> cap q' = cap q \<and> acc = (int (length (items q)) < cap q) \<and>
      items q' = (if acc then items q @ [x] else items q)"
    and get_law: "ok q \<Longrightarrow> get q = (r, q') \<Longrightarrow>
      ok q' \<and> cap q' = cap q \<and>
      (case items q of [] \<Rightarrow> r = None \<and> items q' = [] | y # ys \<Rightarrow> r = Some y \<and> items q' = ys)"
    and clear_law: "ok q \<Longrightarrow> clear q = (xs, q') \<Longrightarrow>
      ok q' \<and> cap q' = cap q \<and> xs = items q \<and> items q' = []"
begin

fun put_all :: "'a list \<Rightarrow> 'q \<Rightarrow> bool list \<times> 'q" where
  "put_all [] q = ([], q)"
| "put_all (x # xs) q =
     (case put x q of (acc, q1) \<Rightarrow> case put_all xs q1 of (accs, q2) \<Rightarrow> (acc # accs, q2))"

lemma put_all_law:
  "ok q \<Longrightarrow> put_all xs q = (accs, q') \<Longrightarrow>
   ok q' \<and> cap q' = cap q \<and> length accs = length xs \<and>
   items q' = items q @ take (nat (cap q) - length (items q)) xs \<and>
   (\<forall>i < length xs. accs ! i = (int (length (items q) + i) < cap q))"
proof (induction xs arbitrary: q accs)
  case (Cons x xs)
  obtain acc q1 where P: "put x q = (acc, q1)" by (cases "put x q") auto
  obtain accs1 where R: "put_all xs q1 = (accs1, q')" and accs: "accs = acc # accs1"
    using Cons.prems(2) P by (auto split: prod.splits)
  note p = put_law [OF Cons.prems(1) P]
  have q1: "ok q1" using p by simp
  note r = Cons.IH [OF q1 R]
  show ?case
  proof (cases acc)
    case True
    with p have "nat (cap q) - length (items q) = Suc (nat (cap q) - Suc (length (items q)))" by auto
    with True p r show ?thesis by (auto simp: accs nth_Cons split: nat.split)
  next
    case False
    with p have "nat (cap q) - length (items q) = 0" by auto
    with False p r show ?thesis by (auto simp: accs nth_Cons split: nat.split)
  qed
qed simp

lemma put_into_empty:
  assumes "ok q" and "items q = []" and "put x q = (acc, q')"
  shows "acc" "ok q'" "items q' = [x]" "cap q' = cap q"
  using put_law [OF assms(1,3)] cap_pos [OF assms(1)] assms(2) by auto

text \<open>Put into an empty queue and drain at once: exactly the item comes out and the queue is empty.\<close>

lemma put_then_clear:
  assumes "ok q" and "items q = []" and "put x q = (acc, q1)" and "clear q1 = (xs, q2)"
  shows "acc \<and> xs = [x] \<and> ok q2 \<and> items q2 = [] \<and> cap q2 = cap q"
  using put_into_empty [OF assms(1-3)] clear_law [OF _ assms(4)] by auto

end

interpretation bb: bounded_queue bb_queue bb_capacity buffer_inv try_put take_item drain
proof
  fix q :: "'a bounded_buffer" and x acc q'
  assume q: "buffer_inv q" and p: "try_put x q = (acc, q')"
  have "buffer_inv q'" using try_put_inv [OF q, of x] p by simp
  then show "buffer_inv q' \<and> bb_capacity q' = bb_capacity q \<and>
      acc = (int (length (bb_queue q)) < bb_capacity q) \<and>
      bb_queue q' = (if acc then bb_queue q @ [x] else bb_queue q)"
    using p by (auto simp: try_put_def split: if_splits)
next
  fix q :: "'a bounded_buffer" and r q'
  assume q: "buffer_inv q" and p: "take_item q = (r, q')"
  have "buffer_inv q'" using take_item_inv [OF q] p by simp
  then show "buffer_inv q' \<and> bb_capacity q' = bb_capacity q \<and>
      (case bb_queue q of [] \<Rightarrow> r = None \<and> bb_queue q' = [] | y # ys \<Rightarrow> r = Some y \<and> bb_queue q' = ys)"
    using p by (auto simp: take_item_def split: list.splits)
qed (auto simp: buffer_inv_def drain_def)

section \<open>Sequences of operations\<close>

text \<open>
  Any sequence of the four operations with the answer that the caller of each gets; \<open>Raised\<close> is the
  \<open>BufferError\<close> of \<open>force_put\<close>.
\<close>

datatype 'a buffer_op = Put 'a | Force 'a | Take | Drain

datatype 'a answer = Accepted | Refused | Raised | Item "'a option" | Items "'a list"

fun apply_op :: "'a buffer_op \<Rightarrow> 'a bounded_buffer \<Rightarrow> 'a answer \<times> 'a bounded_buffer" where
  "apply_op (Put x) b = (case try_put x b of (acc, b1) \<Rightarrow> (if acc then Accepted else Refused, b1))"
| "apply_op (Force x) b = (case force_put x b of Inl e \<Rightarrow> (Raised, b) | Inr b1 \<Rightarrow> (Accepted, b1))"
| "apply_op Take b = (case take_item b of (r, b1) \<Rightarrow> (Item r, b1))"
| "apply_op Drain b = (case drain b of (xs, b1) \<Rightarrow> (Items xs, b1))"

fun run_ops :: "'a buffer_op list \<Rightarrow> 'a bounded_buffer \<Rightarrow> 'a answer list \<times> 'a bounded_buffer" where
  "run_ops [] b = ([], b)"
| "run_ops (p # ops) b =
     (case apply_op p b of (a, b1) \<Rightarrow> case run_ops ops b1 of (as, b2) \<Rightarrow> (a # as, b2))"

text \<open>What it promises: a list with a limit, without marks, counters and policy.\<close>

fun queue_op :: "nat \<Rightarrow> 'a buffer_op \<Rightarrow> 'a list \<Rightarrow> 'a answer \<times> 'a list" where
  "queue_op cap (Put x) q = (if length q < cap then (Accepted, q @ [x]) else (Refused, q))"
| "queue_op cap (Force x) q = (if length q < cap then (Accepted, q @ [x]) else (Raised, q))"
| "queue_op cap Take q = (case q of [] \<Rightarrow> (Item None, []) | x # xs \<Rightarrow> (Item (Some x), xs))"
| "queue_op cap Drain q = (Items q, [])"

text \<open>The answers, the last queue and its greatest length.\<close>

fun queue_ops :: "nat \<Rightarrow> 'a buffer_op list \<Rightarrow> 'a list \<Rightarrow> 'a answer list \<times> 'a list \<times> nat" where
  "queue_ops cap [] q = ([], q, length q)"
| "queue_ops cap (p # ops) q =
     (case queue_op cap p q of (a, q1) \<Rightarrow> case queue_ops cap ops q1 of (as, q2, peak) \<Rightarrow>
        (a # as, q2, max (length q) peak))"

fun accepted_items :: "'a buffer_op list \<Rightarrow> 'a answer list \<Rightarrow> 'a list" where
  "accepted_items (Put x # ops) (Accepted # as) = x # accepted_items ops as"
| "accepted_items (Force x # ops) (Accepted # as) = x # accepted_items ops as"
| "accepted_items (p # ops) (a # as) = accepted_items ops as"
| "accepted_items ops as = []"

fun delivered_items :: "'a answer list \<Rightarrow> 'a list" where
  "delivered_items [] = []"
| "delivered_items (Item (Some x) # as) = x # delivered_items as"
| "delivered_items (Items xs # as) = xs @ delivered_items as"
| "delivered_items (a # as) = delivered_items as"

text \<open>One operation, and the counter that a refusal raises.\<close>

definition refusals :: "'a answer list \<Rightarrow> nat" where
  "refusals as = length (filter (\<lambda>a. case a of Refused \<Rightarrow> True | _ \<Rightarrow> False) as)"

lemma apply_op_law:
  assumes "buffer_inv b" and "apply_op p b = (a, b')"
  shows "buffer_inv b'" "bb_capacity b' = bb_capacity b" "bb_policy b' = bb_policy b"
    "queue_op (nat (bb_capacity b)) p (bb_queue b) = (a, bb_queue b')"
    "bb_high_water_mark b' = max (bb_high_water_mark b) (length (bb_queue b'))"
    "bb_dropped_frames b' = bb_dropped_frames b + (if bb_policy b = BP_DROP_NEWEST_EXPLICIT then refusals [a] else 0)"
    "bb_buffer_waits b' = bb_buffer_waits b + (if bb_policy b = BP_DROP_NEWEST_EXPLICIT then 0 else refusals [a])"
proof -
  have le: "length (bb_queue b) \<le> bb_high_water_mark b" using assms(1) by (simp add: buffer_inv_def)
  show "buffer_inv b'"
  proof (cases p)
    case (Put x)
    then show ?thesis using try_put_inv [OF assms(1), of x] assms(2) by (auto split: prod.splits)
  next
    case (Force x)
    then show ?thesis using force_put_inv [OF assms(1), of x] assms by (auto split: sum.splits)
  next
    case Take
    then show ?thesis using take_item_inv [OF assms(1)] assms(2) by (auto split: prod.splits)
  next
    case Drain
    then show ?thesis using drain_inv [OF assms(1)] assms(2) by (auto split: prod.splits)
  qed
  show "bb_capacity b' = bb_capacity b" "bb_policy b' = bb_policy b"
    "queue_op (nat (bb_capacity b)) p (bb_queue b) = (a, bb_queue b')"
    "bb_high_water_mark b' = max (bb_high_water_mark b) (length (bb_queue b'))"
    "bb_dropped_frames b' = bb_dropped_frames b + (if bb_policy b = BP_DROP_NEWEST_EXPLICIT then refusals [a] else 0)"
    "bb_buffer_waits b' = bb_buffer_waits b + (if bb_policy b = BP_DROP_NEWEST_EXPLICIT then 0 else refusals [a])"
    using assms(2) le
    by (cases p; auto simp: try_put_def force_put_def take_item_def drain_def refusals_def
        split: if_splits list.splits)+
qed

lemma queue_op_fifo:
  "queue_op cap p q = (a, q') \<Longrightarrow>
     q @ accepted_items (p # ops) (a # as) @ xs = delivered_items [a] @ q' @ accepted_items ops as @ xs"
  by (cases p) (auto split: if_splits list.splits)

lemma delivered_Cons: "delivered_items (a # as) = delivered_items [a] @ delivered_items as"
proof (cases a)
  case (Item r)
  then show ?thesis by (cases r) simp_all
qed simp_all

section \<open>Properties\<close>

text \<open>
  C36. The buffer is a first-in first-out queue with exactly the given capacity, and no refusal is
  silent. Over any sequence of puts, forced puts, takes and drains, every answer and the queue at the
  end are those of a list with that limit: a put is refused, and a forced put raises, exactly when the
  queue is full. The items put come out in order, each once, and the rest is in the queue. Each refused
  put adds one to the counter of its policy, the drops under \<open>DROP_NEWEST_EXPLICIT\<close> and the waits
  otherwise, and nothing else changes the counters; the high-water mark is the greatest length so far.
\<close>

theorem buffer_fifo_no_silent_loss:
  assumes "buffer_inv b"
  shows "case run_ops ops b of (as, b') \<Rightarrow>
    case queue_ops (nat (bb_capacity b)) ops (bb_queue b) of (as', q, peak) \<Rightarrow>
      as = as' \<and> bb_queue b' = q \<and> bb_queue b @ accepted_items ops as = delivered_items as @ q \<and>
      bb_high_water_mark b' = max (bb_high_water_mark b) peak \<and>
      bb_dropped_frames b' = bb_dropped_frames b +
        (if bb_policy b = BP_DROP_NEWEST_EXPLICIT then refusals as else 0) \<and>
      bb_buffer_waits b' = bb_buffer_waits b +
        (if bb_policy b = BP_DROP_NEWEST_EXPLICIT then 0 else refusals as) \<and>
      int (occupancy b') \<le> bb_capacity b' \<and> bb_capacity b' = bb_capacity b"
  using assms
proof (induction ops arbitrary: b)
  case Nil
  then show ?case by (auto simp: buffer_inv_def occupancy_def refusals_def)
next
  case (Cons p ops)
  obtain a b1 where a: "apply_op p b = (a, b1)" by (cases "apply_op p b")
  note law = apply_op_law [OF Cons.prems a]
  obtain as b2 where r: "run_ops ops b1 = (as, b2)" by (cases "run_ops ops b1")
  obtain as' q peak where s: "queue_ops (nat (bb_capacity b)) ops (bb_queue b1) = (as', q, peak)"
    by (cases "queue_ops (nat (bb_capacity b)) ops (bb_queue b1)")
  have peak: "length (bb_queue b1) \<le> peak" using s by (cases ops) (auto split: prod.splits)
  have ih: "as = as'" "bb_queue b2 = q" "bb_queue b1 @ accepted_items ops as = delivered_items as @ q"
    "bb_high_water_mark b2 = max (bb_high_water_mark b1) peak"
    "bb_dropped_frames b2 = bb_dropped_frames b1 + (if bb_policy b = BP_DROP_NEWEST_EXPLICIT then refusals as else 0)"
    "bb_buffer_waits b2 = bb_buffer_waits b1 + (if bb_policy b = BP_DROP_NEWEST_EXPLICIT then 0 else refusals as)"
    "int (occupancy b2) \<le> bb_capacity b2" "bb_capacity b2 = bb_capacity b"
    using Cons.IH [OF law(1)] r s law(2,3) by auto
  have fifo: "bb_queue b @ accepted_items (p # ops) (a # as) = delivered_items (a # as) @ q"
    using queue_op_fifo [OF law(4), of ops as "[]"] ih(3) by (simp add: delivered_Cons [of a as])
  have "length (bb_queue b) \<le> bb_high_water_mark b" using Cons.prems by (simp add: buffer_inv_def)
  with fifo ih law peak show ?case by (auto simp: a r s refusals_def)
qed

lemma buffer_fifo_no_silent_loss_witness:
  "case run_ops [Put 1, Put 2, Put (3::nat), Force 4, Take, Force 5, Drain]
      \<lparr>bb_capacity = 2, bb_policy = BP_BLOCK, bb_queue = [], bb_high_water_mark = 0,
       bb_dropped_frames = 0, bb_buffer_waits = 0, bb_maximum_queue_depth = 0\<rparr> of (as, b') \<Rightarrow>
     as = [Accepted, Accepted, Refused, Raised, Item (Some 1), Accepted, Items [2, 5]] \<and>
     bb_buffer_waits b' = 1 \<and> bb_dropped_frames b' = 0"
proof -
  let ?b = "\<lparr>bb_capacity = 2, bb_policy = BP_BLOCK, bb_queue = [], bb_high_water_mark = 0,
       bb_dropped_frames = 0, bb_buffer_waits = 0, bb_maximum_queue_depth = 0\<rparr> :: nat bounded_buffer"
  let ?ops = "[Put 1, Put 2, Put (3::nat), Force 4, Take, Force 5, Drain]"
  obtain as b' where R: "run_ops ?ops ?b = (as, b')" by (cases "run_ops ?ops ?b")
  have "buffer_inv ?b" by (simp add: buffer_inv_def)
  from buffer_fifo_no_silent_loss [OF this, of ?ops] show ?thesis
    unfolding R prod.case by (simp add: refusals_def)
qed

end
