(* ===== verification/Rtcm_Replay.thy ===== *)
theory Rtcm_Replay
  imports Rtcm_Timing Rtcm_Checkpoint Bounded_Buffer
begin

text \<open>
  The replay controller (\<open>rtcm_replay/replay.py\<close>, with \<open>FakeClock\<close> of \<open>clock.py\<close>): planning, pacing,
  the emission of one event through the bounded buffer, \<open>run\<close>, checkpoints and metrics. The
  controller object is the record \<open>controller\<close>; a method takes it and returns it updated, together
  with the exception it raised, if any: what was assigned before the exception stays assigned.

  The consumer is the caller's: a function from a frame and the caller's own state to an optional
  exception and a new state. It can neither reach the controller nor its clock.
\<close>

section \<open>The clock\<close>

definition clock_advance :: "int \<Rightarrow> int \<Rightarrow> int result" where
  "clock_advance now delta_ms =
     (if delta_ms < 0 then Inl (ValueError (''clock cannot go backwards: '' @ str_int delta_ms))
      else Inr (now + delta_ms))"

section \<open>The plan\<close>

record planned_replay =
  pl_events :: "replay_event list"
  pl_findings :: "string list"
  pl_config_fingerprint :: string

definition repr_int_list :: "int list \<Rightarrow> string" where
  "repr_int_list xs = ''['' @ str_join '', '' (map str_int xs) @ '']''"

definition slice_sequence :: "replay_config \<Rightarrow> replay_event list \<Rightarrow> replay_event list" where
  "slice_sequence config timeline =
     (let s1 = (case rc_start_sequence config of None \<Rightarrow> timeline
                | Some a \<Rightarrow> filter (\<lambda>e. a \<le> int (ev_sequence e)) timeline)
      in case rc_end_sequence config of None \<Rightarrow> s1 | Some b \<Rightarrow> filter (\<lambda>e. int (ev_sequence e) \<le> b) s1)"

definition stamp_text :: "replay_event \<Rightarrow> string" where
  "stamp_text e = (case ev_original_timestamp e of None \<Rightarrow> [] | Some s \<Rightarrow> s)"

text \<open>The bounds are compared with the timestamps as text.\<close>

definition slice_time :: "replay_config \<Rightarrow> replay_event list \<Rightarrow> replay_event list result" where
  "slice_time config selected =
     (if rc_start_time config = None \<and> rc_end_time config = None then Inr selected
      else
        let timed = filter (\<lambda>e. ev_original_timestamp e \<noteq> None) selected in
        if length timed \<noteq> length selected then
          Inl (AdmissionBlocked (BLOCKED_MESSAGE @
                '': time-based slicing requires original timestamps for every event''))
        else
          let t1 = (case rc_start_time config of None \<Rightarrow> timed
                    | Some a \<Rightarrow> filter (\<lambda>e. a \<le> stamp_text e) timed)
          in Inr (case rc_end_time config of None \<Rightarrow> t1 | Some b \<Rightarrow> filter (\<lambda>e. stamp_text e \<le> b) t1))"

definition wanted_message :: "int list \<Rightarrow> replay_event \<Rightarrow> bool" where
  "wanted_message message_filter e =
     (case ev_message_number e of None \<Rightarrow> False | Some n \<Rightarrow> int n \<in> set message_filter)"

definition filter_messages :: "replay_config \<Rightarrow> replay_event list \<Rightarrow> replay_event list \<times> string list" where
  "filter_messages config selected =
     (if rc_message_filter config = [] then (selected, [])
      else
        let kept = filter (wanted_message (rc_message_filter config)) selected
        in (kept, [''FILTER retained='' @ str_nat (length kept) @ '' removed='' @
                   str_nat (length selected - length kept) @ '' types='' @
                   repr_int_list (sorted_list_of_set (set (rc_message_filter config)))]))"

definition apply_plan :: "replay_event list \<Rightarrow> replay_config \<Rightarrow> string \<Rightarrow> planned_replay result" where
  "apply_plan timeline config config_fingerprint =
     bind_result (config_assert_valid config) (\<lambda>_.
     bind_result (slice_time config (slice_sequence config timeline)) (\<lambda>timed.
       case filter_messages config timed of (selected, findings) \<Rightarrow>
         if rc_max_events config < int (length selected) then
           Inl (AdmissionBlocked (BLOCKED_MESSAGE @ '': planned events '' @ str_nat (length selected) @
                  '' exceed max_events '' @ str_int (rc_max_events config)))
         else
           Inr \<lparr>pl_events = concat (replicate (nat (rc_loop_cycles config)) selected),
                pl_findings = findings @
                  (if 1 < rc_loop_cycles config
                   then [''LOOP cycles='' @ str_int (rc_loop_cycles config) @
                         '' base_events='' @ str_nat (length selected)] else []),
                pl_config_fingerprint = config_fingerprint\<rparr>))"

section \<open>Pacing\<close>

definition scheduled_delay_ms :: "replay_event \<Rightarrow> replay_event option \<Rightarrow> pyfloat \<Rightarrow> int result" where
  "scheduled_delay_ms event previous speed =
     (if speed = f_zero then Inr 0
      else case previous of
        None \<Rightarrow> Inr 0
      | Some p \<Rightarrow>
          let delta = max 0 (ev_relative_time_ms event - ev_relative_time_ms p)
          in bind_result (int_to_float delta) (\<lambda>d. bind_result (f_div d speed) f_to_int))"

section \<open>The controller\<close>

record fault_plan =
  fp_corrupt_sequence :: "int option"
  fp_truncate_after_sequence :: "int option"
  fp_stall_consumer_after :: "int option"

record controller =
  ct_plan :: planned_replay
  ct_config :: replay_config
  ct_source_id :: string
  ct_station_id :: string
  ct_mountpoint :: string
  ct_source_bytes :: bytes
  ct_clock :: int
  ct_faults :: fault_plan
  ct_provenance :: "(string \<times> json) list"
  ct_buffer :: "correction_frame bounded_buffer"
  ct_position :: nat
  ct_cycle_of :: "nat list"
  ct_paused :: bool
  ct_stopped :: bool
  ct_previous :: "replay_event option"
  ct_emitted_hashes :: "string list"
  ct_emitted_keys :: "(nat \<times> nat \<times> string) list"
  ct_scheduled_delays :: "int list"
  ct_consumer_delays :: "int list"
  ct_consumer_frames :: nat
  ct_checkpoint_resumes :: nat
  ct_frames_dropped :: nat
  ct_findings :: "string list"

definition assign_cycles :: "nat \<Rightarrow> int \<Rightarrow> nat list" where
  "assign_cycles count loop_cycles =
     (if loop_cycles \<le> 1 \<or> count = 0 then replicate count 0
      else
        let base = count div nat loop_cycles;
            cycles = concat (map (replicate base) [0..<nat loop_cycles])
        in cycles @ replicate (count - length cycles) (nat loop_cycles - 1))"

definition new_controller ::
  "planned_replay \<Rightarrow> replay_config \<Rightarrow> string \<Rightarrow> string \<Rightarrow> string \<Rightarrow> bytes \<Rightarrow> int \<Rightarrow> fault_plan \<Rightarrow>
   (string \<times> json) list \<Rightarrow> controller result" where
  "new_controller plan config source_id station_id mountpoint source_bytes start_ms faults provenance =
     bind_result (new_buffer (rc_buffer_capacity config) (rc_backpressure_policy config)) (\<lambda>buf.
       Inr \<lparr>ct_plan = plan, ct_config = config, ct_source_id = source_id, ct_station_id = station_id,
            ct_mountpoint = mountpoint, ct_source_bytes = source_bytes, ct_clock = start_ms,
            ct_faults = faults, ct_provenance = provenance, ct_buffer = buf, ct_position = 0,
            ct_cycle_of = assign_cycles (length (pl_events plan)) (rc_loop_cycles config),
            ct_paused = False, ct_stopped = False, ct_previous = None, ct_emitted_hashes = [],
            ct_emitted_keys = [], ct_scheduled_delays = [], ct_consumer_delays = [],
            ct_consumer_frames = 0, ct_checkpoint_resumes = 0, ct_frames_dropped = 0,
            ct_findings = pl_findings plan\<rparr>)"

abbreviation ct_events :: "controller \<Rightarrow> replay_event list" where
  "ct_events c \<equiv> pl_events (ct_plan c)"

definition start :: "controller \<Rightarrow> controller" where
  "start c = c\<lparr>ct_paused := False, ct_stopped := False\<rparr>"

definition pause :: "controller \<Rightarrow> controller" where
  "pause c = c\<lparr>ct_paused := True\<rparr>"

definition resume :: "controller \<Rightarrow> controller" where
  "resume c = c\<lparr>ct_paused := False\<rparr>"

definition stop :: "controller \<Rightarrow> controller" where
  "stop c = c\<lparr>ct_stopped := True\<rparr>"

definition add_note :: "string \<Rightarrow> controller \<Rightarrow> controller" where
  "add_note f c = c\<lparr>ct_findings := ct_findings c @ [f]\<rparr>"

definition resume_from_checkpoint ::
  "checkpoint \<Rightarrow> string \<Rightarrow> string \<Rightarrow> controller \<Rightarrow> bool \<times> controller" where
  "resume_from_checkpoint cp source_fingerprint config_fingerprint c =
     (let check = validate_checkpoint cp source_fingerprint config_fingerprint in
      if \<not> ck_valid check then (False, add_note (ck_reason check) c)
      else
        let target = cp_last_emitted_sequence cp + 1 in
        if target < 0 \<or> int (length (ct_events c)) < target then
          (False, add_note (''CHECKPOINT_POSITION_INVALID last='' @
                              str_int (cp_last_emitted_sequence cp)) c)
        else
          (True, c\<lparr>ct_position := nat target, ct_checkpoint_resumes := ct_checkpoint_resumes c + 1,
                   ct_paused := False, ct_stopped := False\<rparr>))"

definition make_checkpoint :: "string \<Rightarrow> string \<Rightarrow> controller \<Rightarrow> checkpoint" where
  "make_checkpoint source_fingerprint config_fingerprint c =
     \<lparr>cp_source_fingerprint = source_fingerprint, cp_config_fingerprint = config_fingerprint,
      cp_last_emitted_sequence = int (ct_position c) - 1,
      cp_source_byte_offset =
        (if 0 < ct_position c then int (ev_source_offset (ct_events c ! (ct_position c - 1))) else 0),
      cp_last_replay_timestamp = str_int (ct_clock c),
      cp_cycle = (if 0 < ct_position c then int (ct_cycle_of c ! (ct_position c - 1)) else 0)\<rparr>"

section \<open>Emission\<close>

type_synonym 'w consumer = "correction_frame \<Rightarrow> 'w \<Rightarrow> py_error option \<times> 'w"

definition event_bytes :: "bytes \<Rightarrow> replay_event \<Rightarrow> bytes" where
  "event_bytes source_bytes event =
     take (3 + ev_frame_length event + 3) (drop (ev_source_offset event) source_bytes)"

definition read_raw :: "controller \<Rightarrow> replay_event \<Rightarrow> bytes result" where
  "read_raw c event =
     (let raw = event_bytes (ct_source_bytes c) event in
      if length raw \<noteq> 3 + ev_frame_length event + 3 then
        Inl (AdmissionBlocked (BLOCKED_MESSAGE @ '': source truncation at offset '' @
               str_nat (ev_source_offset event)))
      else Inr raw)"

definition corrupt_raw :: "bytes \<Rightarrow> bytes" where
  "corrupt_raw raw =
     (if 6 < length raw then take 5 raw @ [raw ! 5 XOR 0x01] @ drop 6 raw else raw)"

definition make_frame :: "controller \<Rightarrow> replay_event \<Rightarrow> nat \<Rightarrow> bytes \<Rightarrow> int \<Rightarrow> correction_frame" where
  "make_frame c event cycle raw now =
     \<lparr>cf_sequence = ev_sequence event, cf_cycle = cycle, cf_source_id = ct_source_id c,
      cf_station_id = ct_station_id c, cf_mountpoint = ct_mountpoint c,
      cf_message_number = ev_message_number event, cf_raw_bytes = raw,
      cf_source_timestamp = ev_original_timestamp event, cf_replay_timestamp = str_int now,
      cf_provenance = ct_provenance c\<rparr>"

text \<open>The loop over the drained frames.\<close>

fun deliver ::
  "'w consumer \<Rightarrow> correction_frame list \<Rightarrow> controller \<Rightarrow> 'w \<Rightarrow> unit result \<times> controller \<times> 'w" where
  "deliver consumer [] c w = (Inr (), c, w)"
| "deliver consumer (item # items) c w =
     (let before = ct_clock c in
      if (case fp_stall_consumer_after (ct_faults c) of None \<Rightarrow> False
          | Some k \<Rightarrow> k \<le> int (ct_consumer_frames c)) then
        (Inl (ConsumerStalled (''synthetic consumer stall after '' @ str_nat (ct_consumer_frames c))),
         add_note (''FAULT_CONSUMER_STALL after='' @ str_nat (ct_consumer_frames c)) c, w)
      else
        case consumer item w of
          (Some e, w1) \<Rightarrow> (Inl e, c, w1)
        | (None, w1) \<Rightarrow>
            deliver consumer items
              (c\<lparr>ct_consumer_frames := ct_consumer_frames c + 1,
                 ct_consumer_delays := ct_consumer_delays c @ [ct_clock c - before]\<rparr>) w1)"

text \<open>The part of \<open>_emit_one\<close> after the frame has been built and the pacing delay has passed.\<close>

definition put_and_deliver ::
  "'w consumer \<Rightarrow> replay_event \<Rightarrow> nat \<Rightarrow> correction_frame \<Rightarrow> controller \<Rightarrow> 'w \<Rightarrow>
   bool result \<times> controller \<times> 'w" where
  "put_and_deliver consumer event cycle frame c w =
     (case try_put frame (ct_buffer c) of (accepted, buf) \<Rightarrow>
        let c1 = c\<lparr>ct_buffer := buf\<rparr> in
        if \<not> accepted then
          (if rc_backpressure_policy (ct_config c1) = BP_DROP_NEWEST_EXPLICIT then
             (Inr True,
              (add_note (''DROP sequence='' @ str_nat (ev_sequence event) @ '' policy=explicit'')
                 (c1\<lparr>ct_frames_dropped := ct_frames_dropped c1 + 1\<rparr>))
              \<lparr>ct_previous := Some event, ct_position := ct_position c1 + 1\<rparr>, w)
           else
             (case clock_advance (ct_clock c1) 1 of
                Inl e \<Rightarrow> (Inl e, c1, w)
              | Inr now \<Rightarrow> (Inr False, c1\<lparr>ct_clock := now\<rparr>, w)))
        else
          case drain (ct_buffer c1) of (pending, buf1) \<Rightarrow>
            (case deliver consumer pending (c1\<lparr>ct_buffer := buf1\<rparr>) w of
               (Inl e, c2, w1) \<Rightarrow> (Inl e, c2, w1)
             | (Inr _, c2, w1) \<Rightarrow>
                 (Inr True,
                  c2\<lparr>ct_emitted_hashes := ct_emitted_hashes c2 @ [ev_raw_hash event],
                     ct_emitted_keys := ct_emitted_keys c2 @ [(cycle, ev_sequence event, ev_raw_hash event)],
                     ct_previous := Some event, ct_position := ct_position c2 + 1\<rparr>, w1)))"

definition emit_one ::
  "'w consumer \<Rightarrow> replay_event \<Rightarrow> nat \<Rightarrow> controller \<Rightarrow> 'w \<Rightarrow> bool result \<times> controller \<times> 'w" where
  "emit_one consumer event cycle c w =
     (if (case fp_truncate_after_sequence (ct_faults c) of None \<Rightarrow> False
          | Some t \<Rightarrow> t < int (ev_sequence event)) then
        (Inr True,
         (add_note (''FAULT_TRUNCATION stopped_before_sequence='' @ str_nat (ev_sequence event)) c)
           \<lparr>ct_stopped := True\<rparr>, w)
      else
        case read_raw c event of
          Inl e \<Rightarrow> (Inl e, c, w)
        | Inr raw0 \<Rightarrow>
            let hit = (fp_corrupt_sequence (ct_faults c) = Some (int (ev_sequence event)));
                raw = (if hit then corrupt_raw raw0 else raw0);
                c1 = (if hit then add_note (''FAULT_CORRUPT injected_sequence='' @
                                              str_nat (ev_sequence event)) c else c)
            in case scheduled_delay_ms event (ct_previous c1) (rc_speed (ct_config c1)) of
                 Inl e \<Rightarrow> (Inl e, c1, w)
               | Inr delay \<Rightarrow>
                   (case clock_advance (ct_clock c1) delay of
                      Inl e \<Rightarrow> (Inl e, c1, w)
                    | Inr now \<Rightarrow>
                        let c2 = c1\<lparr>ct_clock := now, ct_scheduled_delays := ct_scheduled_delays c1 @ [delay]\<rparr>
                        in put_and_deliver consumer event cycle (make_frame c2 event cycle raw now) c2 w))"

text \<open>
  The loop of \<open>run\<close>; each turn uses one unit of fuel, and \<open>None\<close> is the loop that has not ended.
\<close>

fun run_loop ::
  "nat \<Rightarrow> 'w consumer \<Rightarrow> int option \<Rightarrow> nat \<Rightarrow> controller \<Rightarrow> 'w \<Rightarrow>
   (unit result \<times> controller \<times> 'w) option" where
  "run_loop 0 consumer max_steps steps c w = None"
| "run_loop (Suc fuel) consumer max_steps steps c w =
     (if \<not> ct_position c < length (ct_events c) then Some (Inr (), c, w)
      else if ct_paused c \<or> ct_stopped c then Some (Inr (), c, w)
      else if (case max_steps of None \<Rightarrow> False | Some m \<Rightarrow> m \<le> int steps) then Some (Inr (), pause c, w)
      else
        case emit_one consumer (ct_events c ! ct_position c) (ct_cycle_of c ! ct_position c) c w of
          (Inl e, c1, w1) \<Rightarrow> Some (Inl e, c1, w1)
        | (Inr _, c1, w1) \<Rightarrow> run_loop fuel consumer max_steps (steps + 1) c1 w1)"

section \<open>Metrics\<close>

definition gap_between :: "replay_event \<Rightarrow> nat \<Rightarrow> replay_event \<Rightarrow> nat \<Rightarrow> bool" where
  "gap_between prev prev_cycle cur cur_cycle =
     (\<not> cur_cycle \<noteq> prev_cycle \<and>
      ev_sequence cur \<noteq> ev_sequence prev + 1 \<and> ev_sequence cur \<noteq> ev_sequence prev)"

definition count_gaps :: "replay_event list \<Rightarrow> nat list \<Rightarrow> nat" where
  "count_gaps emitted cycles =
     length (filter (\<lambda>i. gap_between (emitted ! (i - 1)) (cycles ! (i - 1)) (emitted ! i) (cycles ! i))
       [1..<length emitted])"

definition zero_metrics :: replay_metrics where
  "zero_metrics =
     \<lparr>rm_frames_discovered = 0, rm_frames_valid = 0, rm_frames_invalid = 0, rm_crc_failures = 0,
      rm_bytes_processed = 0, rm_message_type_counts = [], rm_replay_duration_ms = 0,
      rm_source_duration_ms = 0, rm_effective_speed = f_zero, rm_frames_emitted = 0,
      rm_frames_dropped = 0, rm_duplicates = 0, rm_sequence_gaps = 0, rm_checkpoint_resumes = 0,
      rm_producer_frames = 0, rm_consumer_frames = 0, rm_buffer_waits = 0,
      rm_maximum_queue_depth = 0, rm_scheduled_replay_delays_ms = [],
      rm_consumer_processing_delays_ms = []\<rparr>"

text \<open>True division of two integers is correctly rounded and overflows to an exception.\<close>

definition int_true_div :: "int \<Rightarrow> int \<Rightarrow> pyfloat result" where
  "int_true_div a b =
     (if b = 0 then Inl (ZeroDivisionError ''division by zero'')
      else case round64 (of_int a / of_int b) of
        PFin r \<Rightarrow> Inr (PFin r)
      | _ \<Rightarrow> Inl (OverflowError ''integer division result too large for a float''))"

definition metrics :: "controller \<Rightarrow> replay_metrics result" where
  "metrics c =
     (let emitted = take (ct_position c) (ct_events c);
          cycles = take (ct_position c) (ct_cycle_of c);
          source_duration = (if ct_events c \<noteq> [] then ev_relative_time_ms (last (ct_events c)) else 0);
          replay_duration = sum_list (ct_scheduled_delays c)
      in bind_result
           (if 0 < replay_duration then int_true_div source_duration replay_duration
            else if rc_speed (ct_config c) = f_zero \<and> 0 \<le> source_duration then
              Inr (if 0 < source_duration then PInf else f_zero)
            else Inr f_zero)
           (\<lambda>effective. Inr (zero_metrics
             \<lparr>rm_frames_emitted := ct_consumer_frames c,
              rm_frames_dropped := ct_frames_dropped c + bb_dropped_frames (ct_buffer c),
              rm_duplicates := length (ct_emitted_keys c) - length (remdups (ct_emitted_keys c)),
              rm_sequence_gaps := count_gaps emitted cycles,
              rm_checkpoint_resumes := ct_checkpoint_resumes c,
              rm_producer_frames := ct_position c,
              rm_consumer_frames := ct_consumer_frames c,
              rm_buffer_waits := bb_buffer_waits (ct_buffer c),
              rm_maximum_queue_depth := bb_maximum_queue_depth (ct_buffer c),
              rm_replay_duration_ms := replay_duration,
              rm_source_duration_ms := source_duration,
              rm_effective_speed := effective,
              rm_message_type_counts :=
                foldl count_key [] (map (\<lambda>e. str_message (ev_message_number e)) emitted),
              rm_scheduled_replay_delays_ms := ct_scheduled_delays c,
              rm_consumer_processing_delays_ms := ct_consumer_delays c\<rparr>)))"

text \<open>Enough fuel: a turn emits an event, or ends the loop at the next turn.\<close>

definition run_fuel :: "controller \<Rightarrow> nat" where
  "run_fuel c = length (ct_events c) - ct_position c + 2"

definition run ::
  "'w consumer \<Rightarrow> int option \<Rightarrow> controller \<Rightarrow> 'w \<Rightarrow> (replay_metrics result \<times> controller \<times> 'w) option" where
  "run consumer max_steps c w =
     (case run_loop (run_fuel c) consumer max_steps 0 (start c) w of
        None \<Rightarrow> None
      | Some (Inl e, c1, w1) \<Rightarrow> Some (Inl e, c1, w1)
      | Some (Inr _, c1, w1) \<Rightarrow> Some (metrics c1, c1, w1))"

end
