(* ===== verification/Rtcm_Replay_Run.thy ===== *)
theory Rtcm_Replay_Run
  imports Rtcm_Replay
begin

text \<open>
  The replay loop: its invariant, its termination, that pausing and resuming is invisible, what a
  run to completion hands to the consumer, and that a checkpoint continues where the run stopped.
\<close>

section \<open>The invariant\<close>

definition ctrl_inv :: "controller \<Rightarrow> bool" where
  "ctrl_inv c \<longleftrightarrow>
     buffer_inv (ct_buffer c) \<and> bb_queue (ct_buffer c) = [] \<and>
     length (ct_cycle_of c) = length (ct_events c) \<and> ct_position c \<le> length (ct_events c)"

text \<open>What a method never assigns.\<close>

definition same_job :: "controller \<Rightarrow> controller \<Rightarrow> bool" where
  "same_job c c' \<longleftrightarrow>
     ct_plan c' = ct_plan c \<and> ct_config c' = ct_config c \<and> ct_source_id c' = ct_source_id c \<and>
     ct_station_id c' = ct_station_id c \<and> ct_mountpoint c' = ct_mountpoint c \<and>
     ct_source_bytes c' = ct_source_bytes c \<and> ct_faults c' = ct_faults c \<and>
     ct_provenance c' = ct_provenance c \<and> ct_cycle_of c' = ct_cycle_of c"

lemma same_job_refl [simp]: "same_job c c"
  by (simp add: same_job_def)

lemma same_job_trans: "same_job a b \<Longrightarrow> same_job b c \<Longrightarrow> same_job a c"
  by (simp add: same_job_def)

lemma assign_cycles_length: "length (assign_cycles n k) = n"
proof (cases "k \<le> 1 \<or> n = 0")
  case False
  then have "0 < nat k" by simp
  then have "sum_list (map (\<lambda>_. n div nat k) [0..<nat k]) \<le> n"
    by (simp add: sum_list_triv)
  with False show ?thesis
    by (simp add: assign_cycles_def Let_def length_concat comp_def)
qed (simp add: assign_cycles_def)

lemma new_controller_inv:
  "new_controller plan config sid st mp bs t faults prov = Inr c \<Longrightarrow>
   ctrl_inv c \<and> ct_position c = 0 \<and> ct_previous c = None \<and> \<not> ct_paused c \<and> \<not> ct_stopped c \<and>
   ct_plan c = plan \<and> ct_config c = config \<and> ct_source_bytes c = bs \<and> ct_faults c = faults \<and>
   ct_clock c = t \<and> ct_cycle_of c = assign_cycles (length (pl_events plan)) (rc_loop_cycles config)"
  by (auto simp: new_controller_def ctrl_inv_def assign_cycles_length dest!: new_buffer_inv)

section \<open>One emission\<close>

text \<open>The buffer after a frame went through it.\<close>

definition passed :: "'a \<Rightarrow> 'a bounded_buffer \<Rightarrow> 'a bounded_buffer" where
  "passed x b = snd (drain (snd (try_put x b)))"

lemma passed_buffer:
  assumes "buffer_inv b" and "bb_queue b = []"
  shows "fst (try_put x b)" "drain (snd (try_put x b)) = ([x], passed x b)"
    "buffer_inv (passed x b)" "bb_queue (passed x b) = []"
    "bb_dropped_frames (passed x b) = bb_dropped_frames b"
    "bb_buffer_waits (passed x b) = bb_buffer_waits b"
proof -
  obtain acc b1 xs b2 where P: "try_put x b = (acc, b1)" and D: "drain b1 = (xs, b2)"
    by (metis surj_pair)
  note law = bb.put_then_clear [OF assms P D]
  show "fst (try_put x b)" "drain (snd (try_put x b)) = ([x], passed x b)"
    "buffer_inv (passed x b)" "bb_queue (passed x b) = []"
    using law P D by (simp_all add: passed_def)
  show "bb_dropped_frames (passed x b) = bb_dropped_frames b"
    "bb_buffer_waits (passed x b) = bb_buffer_waits b"
    using try_put_counts [of x b] law P
    by (auto simp: passed_def drain_def try_put_def split: if_splits)
qed

definition stalled :: "controller \<Rightarrow> bool" where
  "stalled c = (case fp_stall_consumer_after (ct_faults c) of None \<Rightarrow> False
                | Some k \<Rightarrow> k \<le> int (ct_consumer_frames c))"

text \<open>With the queue empty before, the frame goes through and the consumer is called once.\<close>

definition handed_over :: "replay_event \<Rightarrow> nat \<Rightarrow> correction_frame \<Rightarrow> controller \<Rightarrow> controller" where
  "handed_over event cycle frame c =
     c\<lparr>ct_buffer := passed frame (ct_buffer c),
       ct_consumer_frames := ct_consumer_frames c + 1,
       ct_consumer_delays := ct_consumer_delays c @ [0],
       ct_emitted_hashes := ct_emitted_hashes c @ [ev_raw_hash event],
       ct_emitted_keys := ct_emitted_keys c @ [(cycle, ev_sequence event, ev_raw_hash event)],
       ct_previous := Some event, ct_position := ct_position c + 1\<rparr>"

lemma put_and_deliver_eq:
  assumes "ctrl_inv c"
  shows "put_and_deliver consumer event cycle frame c w =
    (let c1 = c\<lparr>ct_buffer := passed frame (ct_buffer c)\<rparr> in
     if stalled c then
       (Inl (ConsumerStalled (''synthetic consumer stall after '' @ str_nat (ct_consumer_frames c))),
        add_note (''FAULT_CONSUMER_STALL after='' @ str_nat (ct_consumer_frames c)) c1, w)
     else case consumer frame w of
       (Some e, w1) \<Rightarrow> (Inl e, c1, w1)
     | (None, w1) \<Rightarrow> (Inr True, handed_over event cycle frame c, w1))"
proof -
  have b: "buffer_inv (ct_buffer c)" "bb_queue (ct_buffer c) = []"
    using assms by (simp_all add: ctrl_inv_def)
  obtain acc buf where P: "try_put frame (ct_buffer c) = (acc, buf)" by (cases "try_put frame (ct_buffer c)")
  from passed_buffer(1,2) [OF b, of frame] P have acc: acc
    and D: "drain buf = ([frame], passed frame (ct_buffer c))" by simp_all
  show ?thesis
    by (simp add: put_and_deliver_def P acc D stalled_def handed_over_def Let_def split: prod.split option.split)
qed

lemma handed_over_inv:
  "ctrl_inv c \<Longrightarrow> ct_position c < length (ct_events c) \<Longrightarrow> ctrl_inv (handed_over e cy f c)"
  by (simp add: ctrl_inv_def handed_over_def passed_buffer)

text \<open>What one emission can do to the controller.\<close>

definition emission_outcome :: "controller \<Rightarrow> bool result \<Rightarrow> controller \<Rightarrow> bool" where
  "emission_outcome c r c' \<longleftrightarrow>
     ctrl_inv c' \<and> same_job c c' \<and> ct_paused c' = ct_paused c \<and>
     (case r of
        Inl e \<Rightarrow> ct_position c' = ct_position c \<and> ct_stopped c' = ct_stopped c
      | Inr b \<Rightarrow> b \<and> (if ct_stopped c' \<and> \<not> ct_stopped c then ct_position c' = ct_position c
                     else ct_position c' = ct_position c + 1 \<and> ct_stopped c' = ct_stopped c))"

lemma put_and_deliver_outcome:
  assumes "ctrl_inv c" and "ct_position c < length (ct_events c)"
    and "put_and_deliver consumer event cycle frame c w = (r, c', w')"
  shows "emission_outcome c r c'"
proof (cases "stalled c")
  case True
  with assms show ?thesis
    by (auto simp: put_and_deliver_eq Let_def emission_outcome_def ctrl_inv_def same_job_def add_note_def
        passed_buffer)
next
  case False
  obtain eo w1 where C: "consumer frame w = (eo, w1)" by (cases "consumer frame w")
  show ?thesis
  proof (cases eo)
    case None
    with False C assms handed_over_inv [OF assms(1,2)] show ?thesis
      by (auto simp: put_and_deliver_eq Let_def emission_outcome_def same_job_def)
        (simp_all add: handed_over_def)
  next
    case (Some e)
    with False C assms show ?thesis
      by (auto simp: put_and_deliver_eq Let_def emission_outcome_def ctrl_inv_def same_job_def passed_buffer)
  qed
qed

lemma emission_outcome_start:
  "emission_outcome c1 r c' \<Longrightarrow> same_job c c1 \<Longrightarrow> ct_paused c1 = ct_paused c \<Longrightarrow>
   ct_stopped c1 = ct_stopped c \<Longrightarrow> ct_position c1 = ct_position c \<Longrightarrow> emission_outcome c r c'"
  by (auto simp: emission_outcome_def same_job_def split: sum.splits)

text \<open>The controller after the pacing delay of an event.\<close>

definition paced :: "controller \<Rightarrow> replay_event \<Rightarrow> int \<Rightarrow> controller" where
  "paced c event delay =
     (let c1 = (if fp_corrupt_sequence (ct_faults c) = Some (int (ev_sequence event))
                then add_note (''FAULT_CORRUPT injected_sequence='' @ str_nat (ev_sequence event)) c
                else c)
      in c1\<lparr>ct_clock := ct_clock c + delay, ct_scheduled_delays := ct_scheduled_delays c @ [delay]\<rparr>)"

lemma paced_same [simp]:
  "same_job c (paced c e d)" "ct_paused (paced c e d) = ct_paused c"
  "ct_stopped (paced c e d) = ct_stopped c" "ct_position (paced c e d) = ct_position c"
  "ctrl_inv (paced c e d) = ctrl_inv c" "ct_plan (paced c e d) = ct_plan c"
  "ct_clock (paced c e d) = ct_clock c + d"
  by (simp_all add: paced_def Let_def same_job_def add_note_def ctrl_inv_def)

lemma emit_one_cases:
  obtains (truncated) "emit_one consumer event cycle c w =
      (Inr True, (add_note (''FAULT_TRUNCATION stopped_before_sequence='' @ str_nat (ev_sequence event)) c)
         \<lparr>ct_stopped := True\<rparr>, w)"
    "fp_truncate_after_sequence (ct_faults c) \<noteq> None"
  | (failed) e c1 where "emit_one consumer event cycle c w = (Inl e, c1, w)"
      "c1 = c \<or> (\<exists>f. c1 = add_note f c)"
  | (put) raw delay where "emit_one consumer event cycle c w =
      put_and_deliver consumer event cycle
        (make_frame (paced c event delay) event cycle raw (ct_clock c + delay)) (paced c event delay) w"
      "scheduled_delay_ms event (ct_previous c) (rc_speed (ct_config c)) = Inr delay" "0 \<le> delay"
proof -
  let ?hit = "fp_corrupt_sequence (ct_faults c) = Some (int (ev_sequence event))"
  let ?c1 = "if ?hit then add_note (''FAULT_CORRUPT injected_sequence='' @ str_nat (ev_sequence event)) c else c"
  have c1: "ct_previous ?c1 = ct_previous c" "ct_config ?c1 = ct_config c" "ct_clock ?c1 = ct_clock c"
    "ct_scheduled_delays ?c1 = ct_scheduled_delays c"
    by (simp_all add: add_note_def)
  have noted: "?c1 = c \<or> (\<exists>f. ?c1 = add_note f c)"
    by (cases ?hit) auto
  show ?thesis
  proof (cases "(case fp_truncate_after_sequence (ct_faults c) of None \<Rightarrow> False
      | Some t \<Rightarrow> t < int (ev_sequence event))")
    case True
    then have "fp_truncate_after_sequence (ct_faults c) \<noteq> None" by (auto split: option.splits)
    with True show ?thesis by (intro truncated) (simp_all only: emit_one_def if_True simp_thms)
  next
    case trunc: False
    show ?thesis
    proof (cases "read_raw c event")
      case (Inl e)
      with trunc show ?thesis by (intro failed [of e c]) (simp_all only: emit_one_def if_False sum.case simp_thms)
    next
      case raw: (Inr raw0)
      show ?thesis
      proof (cases "scheduled_delay_ms event (ct_previous c) (rc_speed (ct_config c))")
        case (Inl e)
        with trunc raw c1 noted show ?thesis
          by (intro failed [of e ?c1]) (simp_all only: emit_one_def if_False sum.case Let_def)
      next
        case delay: (Inr d)
        show ?thesis
        proof (cases "d < 0")
          case True
          with trunc raw delay c1 noted show ?thesis
            by (intro failed [of "ValueError (''clock cannot go backwards: '' @ str_int d)" ?c1])
              (simp_all only: emit_one_def if_False sum.case Let_def clock_advance_def if_True)
        next
          case False
          with trunc raw delay c1 show ?thesis
            by (intro put [of d "if ?hit then corrupt_raw raw0 else raw0"])
              (simp_all only: emit_one_def if_False sum.case Let_def clock_advance_def paced_def)
        qed
      qed
    qed
  qed
qed

lemma emit_one_outcome:
  assumes "ctrl_inv c" and "ct_position c < length (ct_events c)" and "\<not> ct_stopped c"
    and "emit_one consumer event cycle c w = (r, c', w')"
  shows "emission_outcome c r c'"
proof (cases rule: emit_one_cases [of consumer event cycle c w])
  case truncated
  with assms show ?thesis
    by (auto simp: emission_outcome_def ctrl_inv_def same_job_def add_note_def)
next
  case (failed e c1)
  with assms show ?thesis
    by (auto simp: emission_outcome_def ctrl_inv_def same_job_def add_note_def)
next
  case (put raw delay)
  let ?c = "paced c event delay"
  have "put_and_deliver consumer event cycle (make_frame ?c event cycle raw (ct_clock c + delay)) ?c w =
      (r, c', w')"
    using put(1) assms(4) by simp
  from put_and_deliver_outcome [OF _ _ this] assms(1,2) have "emission_outcome ?c r c'" by simp
  then show ?thesis by (rule emission_outcome_start) simp_all
qed

section \<open>The loop\<close>

abbreviation emit_next ::
  "'w consumer \<Rightarrow> controller \<Rightarrow> 'w \<Rightarrow> bool result \<times> controller \<times> 'w" where
  "emit_next consumer c w \<equiv>
     emit_one consumer (ct_events c ! ct_position c) (ct_cycle_of c ! ct_position c) c w"

text \<open>A turn either raises, or advances by one event, or has stopped the controller.\<close>

lemma emit_next_cases:
  assumes "ctrl_inv c" and "ct_position c < length (ct_events c)" and "\<not> ct_stopped c"
  obtains (raised) e c1 w1 where "emit_next consumer c w = (Inl e, c1, w1)" "ctrl_inv c1"
      "ct_position c1 = ct_position c"
  | (advanced) c1 w1 where "emit_next consumer c w = (Inr True, c1, w1)" "ctrl_inv c1" "same_job c c1"
      "ct_position c1 = ct_position c + 1" "\<not> ct_stopped c1" "ct_paused c1 = ct_paused c"
  | (stopped) c1 w1 where "emit_next consumer c w = (Inr True, c1, w1)" "ctrl_inv c1" "ct_stopped c1"
      "same_job c c1" "ct_position c1 = ct_position c"
proof -
  obtain r c1 w1 where E: "emit_next consumer c w = (r, c1, w1)" by (metis prod_cases3)
  note out = emit_one_outcome [OF assms E, unfolded emission_outcome_def]
  show ?thesis
  proof (cases r)
    case (Inl e)
    with E out show ?thesis by (intro raised [of e c1 w1]) auto
  next
    case (Inr b)
    show ?thesis
    proof (cases "ct_stopped c1")
      case True
      with E out Inr assms(3) show ?thesis by (intro stopped [of c1 w1]) auto
    next
      case False
      with E out Inr show ?thesis by (intro advanced [of c1 w1]) auto
    qed
  qed
qed

lemma run_loop_halts:
  "\<not> ct_position c < length (ct_events c) \<or> ct_paused c \<or> ct_stopped c \<Longrightarrow> 0 < fuel \<Longrightarrow>
   run_loop fuel consumer ms steps c w = Some (Inr (), c, w)"
  by (cases fuel) auto

lemma run_loop_step:
  "ct_position c < length (ct_events c) \<Longrightarrow> \<not> ct_paused c \<Longrightarrow> \<not> ct_stopped c \<Longrightarrow>
   \<not> (case ms of None \<Rightarrow> False | Some m \<Rightarrow> m \<le> int steps) \<Longrightarrow>
   run_loop (Suc fuel) consumer ms steps c w =
   (case emit_next consumer c w of
      (Inl e, c1, w1) \<Rightarrow> Some (Inl e, c1, w1)
    | (Inr _, c1, w1) \<Rightarrow> run_loop fuel consumer ms (steps + 1) c1 w1)"
  by simp

lemma run_loop_limit:
  "ct_position c < length (ct_events c) \<Longrightarrow> \<not> ct_paused c \<Longrightarrow> \<not> ct_stopped c \<Longrightarrow>
   (case ms of None \<Rightarrow> False | Some m \<Rightarrow> m \<le> int steps) \<Longrightarrow>
   run_loop (Suc fuel) consumer ms steps c w = Some (Inr (), pause c, w)"
  by simp

text \<open>The loop ends with two units of fuel more than there are events left, and keeps the invariant.\<close>

lemma run_loop_terminates:
  "ctrl_inv c \<Longrightarrow> length (ct_events c) - ct_position c + 2 \<le> fuel \<Longrightarrow>
   \<exists>r c1 w1. run_loop fuel consumer ms steps c w = Some (r, c1, w1) \<and> ctrl_inv c1"
proof (induction fuel arbitrary: c steps w)
  case (Suc fuel)
  show ?case
  proof (cases "\<not> ct_position c < length (ct_events c) \<or> ct_paused c \<or> ct_stopped c")
    case True
    then have "run_loop (Suc fuel) consumer ms steps c w = Some (Inr (), c, w)"
      by (rule run_loop_halts) simp
    with Suc.prems(1) show ?thesis by blast
  next
    case False
    then have pos: "ct_position c < length (ct_events c)" "\<not> ct_paused c" "\<not> ct_stopped c" by auto
    show ?thesis
    proof (cases "case ms of None \<Rightarrow> False | Some m \<Rightarrow> m \<le> int steps")
      case True
      with run_loop_limit [OF pos True, of fuel consumer w] Suc.prems(1) show ?thesis
        by (auto simp: ctrl_inv_def pause_def)
    next
      case step: False
      note S = run_loop_step [OF pos step, of fuel consumer w]
      from Suc.prems(1) pos(1,3) show ?thesis
      proof (cases rule: emit_next_cases [where consumer = consumer and w = w])
        case (raised e c1 w1)
        with S show ?thesis by simp
      next
        case (advanced c1 w1)
        then have "length (ct_events c1) - ct_position c1 + 2 \<le> fuel"
          using Suc.prems(2) pos(1) by (simp add: same_job_def)
        from Suc.IH [OF advanced(2) this, of "steps + 1" w1] advanced(1) S show ?thesis by simp
      next
        case (stopped c1 w1)
        have "0 < fuel" using Suc.prems(2) by simp
        with stopped run_loop_halts [of c1 fuel consumer ms "steps + 1" w1] S show ?thesis by simp
      qed
    qed
  qed
qed simp

lemma run_loop_mono:
  "run_loop fuel consumer ms steps c w = Some r \<Longrightarrow> run_loop (fuel + k) consumer ms steps c w = Some r"
  by (induction fuel arbitrary: steps c w) (auto split: prod.splits sum.splits option.splits if_splits)

lemma run_loop_fuel:
  assumes "run_loop m consumer ms steps c w = Some r" and "run_loop n consumer ms steps c w = Some r'"
  shows "r = r'"
  using run_loop_mono [OF assms(1), of n] run_loop_mono [OF assms(2), of m] by (simp add: add.commute)

lemma run_loop_unlimited_steps: "run_loop fuel consumer None steps c w = run_loop fuel consumer None 0 c w"
proof (induction fuel arbitrary: steps c w)
  case (Suc fuel)
  have "run_loop fuel consumer None (Suc steps) c1 w1 = run_loop fuel consumer None (Suc 0) c1 w1" for c1 w1
    using Suc [of "Suc steps" c1 w1] Suc [of "Suc 0" c1 w1] by simp
  then show ?case by (auto split: prod.splits sum.splits)
qed simp

declare run_loop.simps(2) [simp del]

text \<open>A bounded run that was not stopped is a prefix of the unbounded one.\<close>

lemma run_loop_prefix:
  assumes "run_loop n consumer ms steps c w = Some (Inr (), c1, w1)" and "ctrl_inv c"
    and "\<not> ct_paused c" and "\<not> ct_stopped c" and "\<not> ct_stopped c1"
  shows "ctrl_inv c1 \<and> same_job c c1 \<and>
    (\<exists>j. \<forall>k. run_loop (j + Suc k) consumer None 0 c w = run_loop (Suc k) consumer None 0 (resume c1) w1)"
  using assms
proof (induction n arbitrary: c steps w)
  case (Suc n)
  show ?case
  proof (cases "\<not> ct_position c < length (ct_events c)")
    case True
    with Suc.prems(1) have "c1 = c" "w1 = w" by (auto simp: run_loop.simps)
    moreover have "resume c = c" using Suc.prems(3) by (simp add: resume_def)
    ultimately show ?thesis using Suc.prems(2)
      by (intro conjI exI [of _ 0]) (simp_all)
  next
    case False
    then have pos: "ct_position c < length (ct_events c)" "\<not> ct_paused c" "\<not> ct_stopped c"
      using Suc.prems by auto
    show ?thesis
    proof (cases "case ms of None \<Rightarrow> False | Some m \<Rightarrow> m \<le> int steps")
      case True
      with run_loop_limit [OF pos True, of n consumer w] Suc.prems(1) have "c1 = pause c" "w1 = w" by auto
      moreover have "resume (pause c) = c" using Suc.prems(3) by (simp add: resume_def pause_def)
      ultimately show ?thesis using Suc.prems(2)
        by (intro conjI exI [of _ 0])
          (simp_all add: ctrl_inv_def same_job_def pause_def resume_def)
    next
      case step: False
      note S = run_loop_step [OF pos step, of n consumer w]
      from Suc.prems(2) pos(1,3) show ?thesis
      proof (cases rule: emit_next_cases [where consumer = consumer and w = w])
        case (raised e c2 w2)
        with S Suc.prems(1) show ?thesis by simp
      next
        case (advanced c2 w2)
        with S Suc.prems(1) have "run_loop n consumer ms (steps + 1) c2 w2 = Some (Inr (), c1, w1)" by simp
        from Suc.IH [OF this advanced(2) _ advanced(5) Suc.prems(5)] advanced(6) pos(2) obtain j where
          c1: "ctrl_inv c1" "same_job c2 c1" and j: "\<And>k. run_loop (j + Suc k) consumer None 0 c2 w2 =
            run_loop (Suc k) consumer None 0 (resume c1) w1" by auto
        have "run_loop (Suc j + Suc k) consumer None 0 c w = run_loop (Suc k) consumer None 0 (resume c1) w1" for k
          using run_loop_step [OF pos, where ms = None and steps = 0 and fuel = "j + Suc k"
                and consumer = consumer and w = w] advanced(1) j [of k]
            run_loop_unlimited_steps [where fuel = "j + Suc k" and steps = 1 and c = c2 and w = w2]
          by simp
        with c1 same_job_trans [OF advanced(3) c1(2)] show ?thesis by blast
      next
        case (stopped c2 w2)
        with S Suc.prems(1) have "run_loop n consumer ms (steps + 1) c2 w2 = Some (Inr (), c1, w1)" by simp
        moreover from this have "0 < n" by (cases n) simp_all
        ultimately have "c1 = c2" using run_loop_halts [of c2 n consumer ms "steps + 1" w2] stopped(3) by simp
        with stopped(3) Suc.prems(5) show ?thesis by simp
      qed
    qed
  qed
qed simp

end
