(* ===== verification/Rtcm_Replay_Out.thy ===== *)
theory Rtcm_Replay_Out
  imports Rtcm_Replay_Run
begin

text \<open>
  What a replay hands to its consumer: one frame per planned event, in plan order, with the source
  bytes of that event; over an interruption by pause, or by a checkpoint and a new controller, the
  same frames.
\<close>

section \<open>The specification\<close>

definition no_faults :: fault_plan where
  "no_faults = \<lparr>fp_corrupt_sequence = None, fp_truncate_after_sequence = None,
                fp_stall_consumer_after = None\<rparr>"

text \<open>\<open>CollectedRun.consumer\<close>\<close>

definition collect :: "correction_frame list consumer" where
  "collect frame frames = (None, frames @ [frame])"

definition delay_of :: "pyfloat \<Rightarrow> replay_event \<Rightarrow> replay_event option \<Rightarrow> int" where
  "delay_of speed e previous = (case scheduled_delay_ms e previous speed of Inl _ \<Rightarrow> 0 | Inr d \<Rightarrow> d)"

fun emitted_frames ::
  "controller \<Rightarrow> replay_event option \<Rightarrow> int \<Rightarrow> (replay_event \<times> nat) list \<Rightarrow> correction_frame list" where
  "emitted_frames c previous now [] = []"
| "emitted_frames c previous now ((e, cycle) # rest) =
     (let now' = now + delay_of (rc_speed (ct_config c)) e previous
      in make_frame c e cycle (event_bytes (ct_source_bytes c) e) now' #
         emitted_frames c (Some e) now' rest)"

text \<open>Every pacing delay can be computed and none is negative.\<close>

fun schedulable :: "pyfloat \<Rightarrow> replay_event option \<Rightarrow> replay_event list \<Rightarrow> bool" where
  "schedulable speed previous [] = True"
| "schedulable speed previous (e # es) =
     ((case scheduled_delay_ms e previous speed of Inl _ \<Rightarrow> False | Inr d \<Rightarrow> 0 \<le> d) \<and>
      schedulable speed (Some e) es)"

definition readable :: "bytes \<Rightarrow> replay_event \<Rightarrow> bool" where
  "readable source_bytes e = (ev_source_offset e + ev_frame_length e + 6 \<le> length source_bytes)"

definition planned :: "controller \<Rightarrow> (replay_event \<times> nat) list" where
  "planned c = zip (ct_events c) (ct_cycle_of c)"

lemma emitted_frames_same_job:
  "same_job c c' \<Longrightarrow> emitted_frames c p t xs = emitted_frames c' p t xs"
  by (induction xs arbitrary: p t) (auto simp: Let_def same_job_def make_frame_def)

lemma emitted_frames_length [simp]: "length (emitted_frames c p t xs) = length xs"
  by (induction xs arbitrary: p t) (auto simp: Let_def)

lemma schedulable_first: "schedulable speed p (e # es) \<Longrightarrow> schedulable speed None (e # es)"
  by (simp add: scheduled_delay_ms_def)

lemma schedulable_drop: "schedulable speed p es \<Longrightarrow> schedulable speed None (drop k es)"
proof (induction es arbitrary: p k)
  case (Cons e es)
  then show ?case using schedulable_first [of speed p e es] by (cases k) auto
qed simp

lemma schedulable_unpaced: "schedulable f_zero p es"
  by (induction es arbitrary: p) (auto simp: scheduled_delay_ms_def)

text \<open>At the default speed the delays are the intervals of the source.\<close>

lemma delay_at_speed_1:
  assumes "\<bar>ev_relative_time_ms e - ev_relative_time_ms p\<bar> < 2 ^ 53"
  shows "scheduled_delay_ms e (Some p) (PFin 1) = Inr (max 0 (ev_relative_time_ms e - ev_relative_time_ms p))"
proof -
  define d where "d = max 0 (ev_relative_time_ms e - ev_relative_time_ms p)"
  have d: "\<bar>d\<bar> < 2 ^ 53" using assms by (auto simp: d_def)
  show ?thesis
    using round64_of_int [OF d] int_to_float_exact [OF d]
    by (simp add: scheduled_delay_ms_def f_div_def f_quot_def d_def)
qed

lemma event_bytes_length: "readable bs e \<Longrightarrow> length (event_bytes bs e) = 3 + ev_frame_length e + 3"
  by (simp add: event_bytes_def readable_def)

section \<open>Stepping without faults\<close>

lemma emit_one_ok:
  assumes inv: "ctrl_inv c" and faults: "ct_faults c = no_faults"
    and rd: "readable (ct_source_bytes c) e"
    and delay: "scheduled_delay_ms e (ct_previous c) (rc_speed (ct_config c)) = Inr d" "0 \<le> d"
  shows "emit_one collect e cycle c w =
    (let f = make_frame c e cycle (event_bytes (ct_source_bytes c) e) (ct_clock c + d)
     in (Inr True, handed_over e cycle f (paced c e d), w @ [f]))"
proof -
  have raw: "read_raw c e = Inr (event_bytes (ct_source_bytes c) e)"
    using event_bytes_length [OF rd] by (simp add: read_raw_def Let_def)
  have p: "paced c e d = c\<lparr>ct_clock := ct_clock c + d, ct_scheduled_delays := ct_scheduled_delays c @ [d]\<rparr>"
    by (simp add: paced_def faults no_faults_def)
  have f: "make_frame (paced c e d) e cycle raw now = make_frame c e cycle raw now" for raw now
    by (simp add: make_frame_def p)
  have "\<not> stalled (paced c e d)" by (simp add: stalled_def p faults no_faults_def)
  then have put: "put_and_deliver collect e cycle f (paced c e d) w = (Inr True, handed_over e cycle f (paced c e d), w @ [f])" for f
    using put_and_deliver_eq [of "paced c e d" collect e cycle f w] inv by (simp add: collect_def)
  have "emit_one collect e cycle c w = put_and_deliver collect e cycle
      (make_frame (paced c e d) e cycle (event_bytes (ct_source_bytes c) e) (ct_clock c + d)) (paced c e d) w"
    using delay by (simp add: emit_one_def faults no_faults_def raw clock_advance_def p Let_def)
  then show ?thesis by (simp add: put f Let_def)
qed

text \<open>The counters after a run that emitted \<open>xs\<close>.\<close>

definition advanced_by :: "(replay_event \<times> nat) list \<Rightarrow> controller \<Rightarrow> controller \<Rightarrow> bool" where
  "advanced_by xs c c' \<longleftrightarrow>
     same_job c c' \<and> ctrl_inv c' \<and> ct_position c' = ct_position c + length xs \<and>
     ct_consumer_frames c' = ct_consumer_frames c + length xs \<and>
     ct_emitted_keys c' = ct_emitted_keys c @ map (\<lambda>(e, cy). (cy, ev_sequence e, ev_raw_hash e)) xs \<and>
     ct_frames_dropped c' = ct_frames_dropped c \<and>
     bb_dropped_frames (ct_buffer c') = bb_dropped_frames (ct_buffer c) \<and>
     bb_buffer_waits (ct_buffer c') = bb_buffer_waits (ct_buffer c) \<and>
     ct_findings c' = ct_findings c"

lemma handed_over_advanced:
  assumes "ctrl_inv c" and "ct_position c < length (ct_events c)" and "ct_faults c = no_faults"
  shows "advanced_by [(e, cy)] c (handed_over e cy f (paced c e d))"
proof -
  have p: "paced c e d = c\<lparr>ct_clock := ct_clock c + d, ct_scheduled_delays := ct_scheduled_delays c @ [d]\<rparr>"
    by (simp add: paced_def assms(3) no_faults_def)
  have "ctrl_inv (handed_over e cy f (paced c e d))"
    using assms(1,2) by (intro handed_over_inv) simp_all
  then show ?thesis
    using assms(1) by (simp add: advanced_by_def handed_over_def p same_job_def passed_buffer ctrl_inv_def)
qed

lemma advanced_by_trans:
  "advanced_by xs c c1 \<Longrightarrow> advanced_by ys c1 c2 \<Longrightarrow> advanced_by (xs @ ys) c c2"
  by (auto simp: advanced_by_def intro: same_job_trans)

section \<open>Runs without faults\<close>

abbreviation remaining :: "controller \<Rightarrow> (replay_event \<times> nat) list" where
  "remaining c \<equiv> drop (ct_position c) (planned c)"

lemma planned_same_job: "same_job c c' \<Longrightarrow> planned c' = planned c"
  by (simp add: planned_def same_job_def)

lemma remaining_step:
  assumes "ctrl_inv c" and "ct_position c < length (ct_events c)"
  shows "remaining c = (ct_events c ! ct_position c, ct_cycle_of c ! ct_position c) #
    drop (Suc (ct_position c)) (planned c)"
  using assms by (subst take_drop_Cons) (auto simp: planned_def ctrl_inv_def)

lemma run_loop_collect:
  assumes "run_loop fuel collect ms steps c w = Some (r, c', w')"
    and "ctrl_inv c" and "\<not> ct_stopped c" and "\<not> ct_paused c" and "ct_faults c = no_faults"
    and "\<forall>e \<in> set (ct_events c). readable (ct_source_bytes c) e"
    and "schedulable (rc_speed (ct_config c)) (ct_previous c) (drop (ct_position c) (ct_events c))"
  shows "\<exists>n. n \<le> length (remaining c) \<and> (ms = None \<longrightarrow> n = length (remaining c)) \<and> r = Inr () \<and>
    \<not> ct_stopped c' \<and> advanced_by (take n (remaining c)) c c' \<and>
    w' = w @ emitted_frames c (ct_previous c) (ct_clock c) (take n (remaining c))"
  using assms
proof (induction fuel arbitrary: c steps w)
  case (Suc fuel)
  show ?case
  proof (cases "ct_position c < length (ct_events c)")
    case False
    with Suc.prems(2) have "remaining c = []" by (simp add: planned_def ctrl_inv_def)
    moreover have "c' = c" "w' = w" "r = Inr ()"
      using run_loop_halts [of c "Suc fuel" collect ms steps w] False Suc.prems(1) by auto
    ultimately show ?thesis using Suc.prems(2,3) by (simp add: advanced_by_def)
  next
    case pos: True
    show ?thesis
    proof (cases "case ms of None \<Rightarrow> False | Some m \<Rightarrow> m \<le> int steps")
      case True
      have "c' = pause c" "w' = w" "r = Inr ()" "ms \<noteq> None"
        using run_loop_limit [OF pos Suc.prems(4,3) True, of fuel collect w] Suc.prems(1) True by (auto split: option.splits)
      moreover have "advanced_by [] c (pause c)"
        using Suc.prems(2) by (simp add: advanced_by_def pause_def same_job_def ctrl_inv_def)
      ultimately show ?thesis using Suc.prems(3)
        by (intro exI [of _ 0]) (auto simp: pause_def)
    next
      case step: False
      let ?e = "ct_events c ! ct_position c" and ?cy = "ct_cycle_of c ! ct_position c"
      have es: "drop (ct_position c) (ct_events c) = ?e # drop (Suc (ct_position c)) (ct_events c)"
        by (rule take_drop_Cons [OF pos])
      then obtain d where d: "scheduled_delay_ms ?e (ct_previous c) (rc_speed (ct_config c)) = Inr d" "0 \<le> d"
        and sch: "schedulable (rc_speed (ct_config c)) (Some ?e) (drop (Suc (ct_position c)) (ct_events c))"
        using Suc.prems(7) by (auto split: sum.splits)
      have rd: "readable (ct_source_bytes c) ?e" using Suc.prems(6) pos by auto
      let ?f = "make_frame c ?e ?cy (event_bytes (ct_source_bytes c) ?e) (ct_clock c + d)"
      let ?c = "handed_over ?e ?cy ?f (paced c ?e d)"
      have adv: "advanced_by [(?e, ?cy)] c ?c"
        by (rule handed_over_advanced [OF Suc.prems(2) pos Suc.prems(5)])
      have c: "ctrl_inv ?c" "same_job c ?c" "ct_position ?c = Suc (ct_position c)"
        using adv by (simp_all add: advanced_by_def)
      have c': "\<not> ct_stopped ?c" "\<not> ct_paused ?c" "ct_previous ?c = Some ?e" "ct_clock ?c = ct_clock c + d"
        using Suc.prems(3,4) by (simp_all add: handed_over_def)
      have "run_loop fuel collect ms (steps + 1) ?c (w @ [?f]) = Some (r, c', w')"
        using run_loop_step [OF pos Suc.prems(4,3) step, of fuel collect w] Suc.prems(1)
          emit_one_ok [OF Suc.prems(2,5) rd d, of ?cy w] by (simp add: Let_def)
      from Suc.IH [OF this c(1) c'(1,2)] Suc.prems(5,6) sch c c' obtain n where
        n: "n \<le> length (remaining ?c)" "ms = None \<longrightarrow> n = length (remaining ?c)" "r = Inr ()"
          "\<not> ct_stopped c'" "advanced_by (take n (remaining ?c)) ?c c'"
          "w' = (w @ [?f]) @ emitted_frames ?c (Some ?e) (ct_clock c + d) (take n (remaining ?c))"
        by (auto simp: same_job_def)
      have rem: "remaining c = (?e, ?cy) # remaining ?c"
        using remaining_step [OF Suc.prems(2) pos] c(3) planned_same_job [OF c(2)] by simp
      have "advanced_by (take (Suc n) (remaining c)) c c'"
        using advanced_by_trans [OF adv n(5)] by (simp add: rem)
      moreover have "w' = w @ emitted_frames c (ct_previous c) (ct_clock c) (take (Suc n) (remaining c))"
        using n(6) d emitted_frames_same_job [OF c(2)] by (simp add: rem delay_of_def Let_def)
      ultimately show ?thesis
        using n(1-4) by (intro exI [of _ "Suc n"]) (simp add: rem)
    qed
  qed
qed simp

text \<open>The conditions under which a fresh controller replays.\<close>

definition replayable :: "planned_replay \<Rightarrow> replay_config \<Rightarrow> bytes \<Rightarrow> bool" where
  "replayable plan config source_bytes \<longleftrightarrow>
     list_all (readable source_bytes) (pl_events plan) \<and>
     schedulable (rc_speed config) None (pl_events plan)"

lemma run_collect:
  assumes "ctrl_inv c" and "ct_faults c = no_faults" and "ct_previous c = None"
    and "replayable (ct_plan c) (ct_config c) (ct_source_bytes c)"
  obtains n c' where
    "run collect ms c w = Some (metrics c', c',
       w @ emitted_frames c None (ct_clock c) (take n (remaining c)))"
    "n \<le> length (remaining c)" "ms = None \<longrightarrow> n = length (remaining c)"
    "advanced_by (take n (remaining c)) c c'" "\<not> ct_stopped c'"
proof -
  let ?c = "start c"
  have inv: "ctrl_inv ?c" using assms(1) by (simp add: ctrl_inv_def start_def)
  have job: "same_job c ?c" "planned ?c = planned c" "ct_position ?c = ct_position c"
    "ct_clock ?c = ct_clock c"
    by (simp_all add: start_def same_job_def planned_def)
  obtain r c' w' where R: "run_loop (run_fuel c) collect ms 0 ?c w = Some (r, c', w')"
    using run_loop_terminates [OF inv, of "run_fuel c" collect ms 0 w]
    by (auto simp: run_fuel_def start_def)
  have "schedulable (rc_speed (ct_config ?c)) (ct_previous ?c) (drop (ct_position ?c) (ct_events ?c))"
    using assms(3,4) schedulable_drop by (auto simp: start_def replayable_def)
  from run_loop_collect [OF R inv _ _ _ _ this] assms(2,4) obtain n where
    n: "n \<le> length (remaining ?c)" "ms = None \<longrightarrow> n = length (remaining ?c)" "r = Inr ()" "\<not> ct_stopped c'"
      "advanced_by (take n (remaining ?c)) ?c c'"
      "w' = w @ emitted_frames ?c (ct_previous ?c) (ct_clock ?c) (take n (remaining ?c))"
    by (auto simp: start_def replayable_def list_all_iff)
  have adv: "advanced_by (take n (remaining c)) c c'"
    using n(5) job by (simp add: advanced_by_def same_job_def start_def)
  have "run collect ms c w = Some (metrics c', c', w')"
    using R n(3) by (simp add: run_def)
  then show thesis
    using that [of c' n] n(1,2,4,6) adv job assms(3)
      emitted_frames_same_job [OF job(1), of None "ct_clock c" "take n (remaining c)"]
    by (simp add: start_def)
qed

lemma run_collect_ex:
  assumes "ctrl_inv c" and "ct_faults c = no_faults" and "ct_previous c = None"
    and "replayable (ct_plan c) (ct_config c) (ct_source_bytes c)"
  shows "\<exists>n c'. run collect ms c w = Some (metrics c', c',
       w @ emitted_frames c None (ct_clock c) (take n (remaining c))) \<and>
    n \<le> length (remaining c) \<and> (ms = None \<longrightarrow> n = length (remaining c)) \<and>
    advanced_by (take n (remaining c)) c c' \<and> \<not> ct_stopped c'"
  by (rule run_collect [OF assms, of ms w]) blast

section \<open>Properties\<close>

text \<open>A small replay for the witnesses: two events of six bytes each, one cycle, unpaced.\<close>

definition demo_config :: replay_config where
  "demo_config = default_replay_config\<lparr>rc_speed := f_zero\<rparr>"

definition demo_event :: "nat \<Rightarrow> replay_event" where
  "demo_event k =
     \<lparr>ev_sequence = k, ev_source_offset = 6 * k, ev_message_number = None, ev_frame_length = 0,
      ev_original_timestamp = None, ev_relative_time_ms = 1000 * int k, ev_raw_hash = []\<rparr>"

definition demo_plan :: planned_replay where
  "demo_plan = \<lparr>pl_events = [demo_event 0, demo_event 1], pl_findings = [], pl_config_fingerprint = []\<rparr>"

definition demo_controller :: controller where
  "demo_controller =
     projr (new_controller demo_plan demo_config ''s'' ''SYN1'' ''M'' (replicate 12 0) 0
              no_faults [])"

lemma demo_controller: "new_controller demo_plan demo_config ''s'' ''SYN1'' ''M''
    (replicate 12 0) 0 no_faults [] = Inr demo_controller"
  by (simp add: demo_controller_def new_controller_def new_buffer_def demo_config_def default_replay_config_def)

lemma demo_replayable: "replayable demo_plan demo_config (replicate 12 0)"
  by (simp add: replayable_def demo_plan_def demo_event_def readable_def demo_config_def
      scheduled_delay_ms_def)

lemma demo_facts: "ctrl_inv demo_controller" "ct_previous demo_controller = None"
  "ct_plan demo_controller = demo_plan" "ct_config demo_controller = demo_config"
  "ct_source_bytes demo_controller = replicate 12 0" "ct_faults demo_controller = no_faults"
  "ct_position demo_controller = 0"
  using new_controller_inv [OF demo_controller] by simp_all

text \<open>
  A replay is complete and faithful. A fresh controller without injected faults, over a plan
  whose events lie within the source and whose delays can be computed, ends; it hands the consumer
  exactly one frame per planned event, in plan order, carrying the event's bytes of the source, its
  cycle and the paced time; nothing is dropped, the producer never waits, and the recorded keys are
  those of the plan.
\<close>

theorem replay_emits_plan:
  assumes new: "new_controller plan config sid st mp bs t no_faults prov = Inr c"
    and ok: "replayable plan config bs"
  shows "\<exists>c'. run collect None c [] =
      Some (metrics c', c', emitted_frames c None t (zip (pl_events plan) (ct_cycle_of c))) \<and>
    ct_position c' = length (pl_events plan) \<and> ct_consumer_frames c' = length (pl_events plan) \<and>
    ct_frames_dropped c' = 0 \<and> bb_dropped_frames (ct_buffer c') = 0 \<and>
    bb_buffer_waits (ct_buffer c') = 0 \<and> ct_findings c' = pl_findings plan \<and>
    ct_emitted_keys c' =
      map (\<lambda>(e, cy). (cy, ev_sequence e, ev_raw_hash e)) (zip (pl_events plan) (ct_cycle_of c))"
proof -
  note inv = new_controller_inv [OF new]
  have zero: "ct_consumer_frames c = 0" "ct_frames_dropped c = 0" "bb_dropped_frames (ct_buffer c) = 0"
    "bb_buffer_waits (ct_buffer c) = 0" "ct_findings c = pl_findings plan" "ct_emitted_keys c = []"
    using new by (auto simp: new_controller_def new_buffer_def split: if_splits)
  have len: "length (planned c) = length (pl_events plan)"
    using inv by (simp add: planned_def assign_cycles_length)
  obtain n c' where R: "run collect None c [] = Some (metrics c', c',
      [] @ emitted_frames c None (ct_clock c) (take n (remaining c)))"
    and n: "n = length (remaining c)" and adv: "advanced_by (take n (remaining c)) c c'"
    using run_collect_ex [of c None "[]"] inv ok by auto
  have rem: "take n (remaining c) = zip (pl_events plan) (ct_cycle_of c)"
    using inv n by (simp add: planned_def)
  show ?thesis
    using R adv inv zero len unfolding rem
    by (intro exI [of _ c']) (simp add: advanced_by_def planned_def assign_cycles_length)
qed

lemma replay_emits_plan_witness:
  "\<exists>c'. run collect None demo_controller [] = Some (metrics c', c',
      emitted_frames demo_controller None 0 (zip (pl_events demo_plan) (ct_cycle_of demo_controller))) \<and>
    ct_consumer_frames c' = 2"
  using replay_emits_plan [OF demo_controller demo_replayable] by (auto simp: demo_plan_def)

text \<open>
  C9. Pausing is invisible. Whatever the consumer, the faults and the configuration, a run bounded
  to some number of steps that returned without stopping the controller, followed by an unbounded
  run, has the outcome of the unbounded run alone: the same metrics or exception, the same
  controller and the same consumer state, so no event is repeated and none is skipped. Both runs
  end.
\<close>

theorem pause_resume_transparent:
  assumes inv: "ctrl_inv c" and part: "run consumer (Some m) c w = Some (Inr mt, c1, w1)"
    and live: "\<not> ct_stopped c1"
  shows "run consumer None c1 w1 = run consumer None c w \<and> run consumer None c w \<noteq> None"
proof -
  have s: "ctrl_inv (start c)" "\<not> ct_paused (start c)" "\<not> ct_stopped (start c)"
    using inv by (simp_all add: ctrl_inv_def start_def)
  obtain L: "run_loop (run_fuel c) consumer (Some m) 0 (start c) w = Some (Inr (), c1, w1)"
    using part by (auto simp: run_def split: option.splits prod.splits sum.splits)
  from run_loop_prefix [OF L s live] obtain j where c1: "ctrl_inv c1" "same_job (start c) c1"
    and j: "\<And>k. run_loop (j + Suc k) consumer None 0 (start c) w =
      run_loop (Suc k) consumer None 0 (resume c1) w1" by auto
  have re: "resume c1 = start c1" "ctrl_inv (start c1)"
    using live c1(1) by (simp_all add: resume_def start_def ctrl_inv_def)
  obtain r2 where r2: "run_loop (run_fuel c1) consumer None 0 (start c1) w1 = Some r2"
    using run_loop_terminates [OF re(2), of "run_fuel c1" consumer None 0 w1]
    by (auto simp: run_fuel_def start_def)
  obtain r3 where r3: "run_loop (run_fuel c) consumer None 0 (start c) w = Some r3"
    using run_loop_terminates [OF s(1), of "run_fuel c" consumer None 0 w]
    by (auto simp: run_fuel_def start_def)
  have "run_loop (j + run_fuel c1) consumer None 0 (start c) w = Some r2"
    using j [of "run_fuel c1 - 1"] r2 re(1) by (simp add: run_fuel_def)
  with r3 have "r3 = r2" by (rule run_loop_fuel)
  with r2 r3 show ?thesis by (auto simp: run_def split: prod.splits sum.splits)
qed

lemma demo_partial:
  "\<exists>mt c1 w1. run collect (Some 1) demo_controller [] = Some (Inr mt, c1, w1) \<and> \<not> ct_stopped c1"
  by (simp add: run_def run_fuel_def run_loop.simps demo_controller_def new_controller_def new_buffer_def
      demo_config_def default_replay_config_def demo_plan_def demo_event_def no_faults_def start_def
      assign_cycles_def emit_one_def read_raw_def event_bytes_def scheduled_delay_ms_def Let_def
      clock_advance_def put_and_deliver_def try_put_def push_item_def drain_def collect_def
      pause_def metrics_def numeral_eq_Suc)

lemma pause_resume_transparent_witness:
  "\<exists>mt c1 w1. run collect (Some 1) demo_controller [] = Some (Inr mt, c1, w1) \<and>
    run collect None c1 w1 = run collect None demo_controller []"
  using demo_partial pause_resume_transparent [OF demo_facts(1), of collect 1 "[]"] by blast

text \<open>The part of a frame that does not depend on when it is replayed.\<close>

definition frame_key :: "correction_frame \<Rightarrow> nat \<times> nat \<times> nat option \<times> bytes \<times> string option" where
  "frame_key f = (cf_cycle f, cf_sequence f, cf_message_number f, cf_raw_bytes f, cf_source_timestamp f)"

definition planned_key :: "bytes \<Rightarrow> replay_event \<times> nat \<Rightarrow> nat \<times> nat \<times> nat option \<times> bytes \<times> string option" where
  "planned_key bs x =
     (snd x, ev_sequence (fst x), ev_message_number (fst x), event_bytes bs (fst x),
      ev_original_timestamp (fst x))"

lemma emitted_frames_keys:
  "map frame_key (emitted_frames c p t xs) = map (planned_key (ct_source_bytes c)) xs"
  by (induction xs arbitrary: p t) (auto simp: Let_def frame_key_def planned_key_def make_frame_def)

text \<open>
  C16. A checkpoint continues exactly. A first controller runs some number of steps and is
  checkpointed; a second controller over the same plan and source, started at any clock, accepts
  the checkpoint under the same fingerprints, and the frames of the two runs together are the
  frames of an uninterrupted replay: same cycles, sequences, message numbers, bytes and source
  timestamps, none twice and none missing. Under any other fingerprint the checkpoint is refused
  and the position stays.
\<close>

theorem checkpoint_resume_exact:
  assumes new1: "new_controller plan config sid st mp bs t no_faults prov = Inr c"
    and new2: "new_controller plan config sid st mp bs t2 no_faults prov = Inr c2"
    and ok: "replayable plan config bs"
    and part: "run collect (Some m) c [] = Some (r1, c1, w1)"
    and cp: "cp = make_checkpoint sf cf c1"
  shows "(\<exists>c3 c4 w2. resume_from_checkpoint cp sf cf c2 = (True, c3) \<and>
      run collect None c3 [] = Some (metrics c4, c4, w2) \<and>
      map frame_key (w1 @ w2) = map (planned_key bs) (zip (pl_events plan) (ct_cycle_of c))) \<and>
    (\<forall>sf' cf'. (sf', cf') \<noteq> (sf, cf) \<longrightarrow>
      fst (resume_from_checkpoint cp sf' cf' c2) = False \<and>
      ct_position (snd (resume_from_checkpoint cp sf' cf' c2)) = ct_position c2)"
proof
  note i1 = new_controller_inv [OF new1] and i2 = new_controller_inv [OF new2]
  obtain n where n: "n \<le> length (planned c)" "w1 = emitted_frames c None t (take n (planned c))"
    "advanced_by (take n (planned c)) c c1"
    using run_collect_ex [of c "Some m" "[]"] part i1 ok by auto
  then have pos: "ct_position c1 = n" using i1 by (simp add: advanced_by_def)
  have len: "length (planned c) = length (pl_events plan)"
    using i1 by (simp add: planned_def assign_cycles_length)
  define c3 where "c3 = c2\<lparr>ct_position := n, ct_checkpoint_resumes := ct_checkpoint_resumes c2 + 1,
      ct_paused := False, ct_stopped := False\<rparr>"
  have res: "resume_from_checkpoint cp sf cf c2 = (True, c3)"
    using n(1) len i2 by (simp add: resume_from_checkpoint_def cp make_checkpoint_def
        validate_checkpoint_def pos c3_def Let_def)
  have c3: "ctrl_inv c3" "ct_faults c3 = no_faults" "ct_previous c3 = None" "ct_plan c3 = plan"
    "ct_config c3 = config" "ct_source_bytes c3 = bs" "planned c3 = planned c" "ct_position c3 = n"
    using i1 i2 n(1) len by (simp_all add: c3_def ctrl_inv_def planned_def assign_cycles_length)
  obtain c4 where R: "run collect None c3 [] = Some (metrics c4, c4,
      [] @ emitted_frames c3 None (ct_clock c3) (drop n (planned c)))"
    using run_collect_ex [of c3 None "[]"] c3 ok by auto
  have "map frame_key (w1 @ emitted_frames c3 None (ct_clock c3) (drop n (planned c))) =
      map (planned_key bs) (planned c)"
    using i1 c3(6) by (simp add: n(2) emitted_frames_keys flip: take_map drop_map)
  with res R show "\<exists>c3 c4 w2. resume_from_checkpoint cp sf cf c2 = (True, c3) \<and>
      run collect None c3 [] = Some (metrics c4, c4, w2) \<and>
      map frame_key (w1 @ w2) = map (planned_key bs) (zip (pl_events plan) (ct_cycle_of c))"
    using i1 by (auto simp: planned_def)
  show "\<forall>sf' cf'. (sf', cf') \<noteq> (sf, cf) \<longrightarrow>
      fst (resume_from_checkpoint cp sf' cf' c2) = False \<and>
      ct_position (snd (resume_from_checkpoint cp sf' cf' c2)) = ct_position c2"
    by (auto simp: resume_from_checkpoint_def validate_checkpoint_valid cp make_checkpoint_def
        add_note_def Let_def)
qed

lemma checkpoint_resume_exact_witness:
  "\<exists>mt c1 w1 c3 c4 w2. run collect (Some 1) demo_controller [] = Some (Inr mt, c1, w1) \<and>
     resume_from_checkpoint (make_checkpoint [] [] c1) [] [] demo_controller = (True, c3) \<and>
     run collect None c3 [] = Some (metrics c4, c4, w2) \<and>
     map frame_key (w1 @ w2) = map (planned_key (replicate 12 0))
       (zip (pl_events demo_plan) (ct_cycle_of demo_controller))"
proof -
  obtain mt c1 w1 where R: "run collect (Some 1) demo_controller [] = Some (Inr mt, c1, w1)"
    using demo_partial by blast
  from checkpoint_resume_exact [OF demo_controller demo_controller demo_replayable R refl, of "[]" "[]"] R
  show ?thesis by blast
qed

end
