(* ===== verification/Rtcm_Scan.thy ===== *)
theory Rtcm_Scan
  imports Rtcm_Framing
begin

text \<open>
  The reference description of framing. \<open>scan_head\<close> classifies the front of the unread bytes,
  \<open>scan\<close> lists the frames with their offsets and returns the incomplete rest. Here the scanning
  loop of \<open>parse_stream\<close> is shown to find exactly these frames, and every byte is accounted for.
\<close>

section \<open>The front of the unread bytes\<close>

datatype scan_verdict = Wait | Skip | Frame nat

definition scan_head :: "int \<Rightarrow> bytes \<Rightarrow> scan_verdict" where
  "scan_head m rest =
     (if rest = [] then Wait
      else if rest ! 0 \<noteq> PREAMBLE then Skip
      else if length rest < 3 then Wait
      else if m < int (frame_len (rest ! 1) (rest ! 2)) then Skip
      else if length rest < frame_len (rest ! 1) (rest ! 2) + 6 then Wait
      else Frame (frame_len (rest ! 1) (rest ! 2) + 6))"

lemma scan_head_Nil [simp]: "scan_head m [] = Wait"
  by (simp add: scan_head_def)

lemma scan_head_Skip: "scan_head m rest = Skip \<Longrightarrow> rest \<noteq> []"
  by (auto simp: scan_head_def)

lemma scan_head_Frame:
  assumes "scan_head m rest = Frame n"
  shows "6 \<le> n" "n \<le> length rest" "rest \<noteq> []" "n = frame_len (rest ! 1) (rest ! 2) + 6"
    "rest ! 0 = PREAMBLE" "int (n - 6) \<le> m"
proof -
  let ?len = "frame_len (rest ! 1) (rest ! 2)"
  have "rest \<noteq> [] \<and> rest ! 0 = PREAMBLE \<and> \<not> m < int ?len \<and> \<not> length rest < ?len + 6 \<and> n = ?len + 6"
    using assms unfolding scan_head_def by (metis scan_verdict.distinct scan_verdict.inject)
  then show "6 \<le> n" "n \<le> length rest" "rest \<noteq> []" "n = frame_len (rest ! 1) (rest ! 2) + 6"
    "rest ! 0 = PREAMBLE" "int (n - 6) \<le> m"
    by auto
qed

lemma scan_head_FrameD: "scan_head m rest = Frame n \<Longrightarrow> 6 \<le> n \<and> n \<le> length rest \<and> rest \<noteq> []"
  using scan_head_Frame [of m rest n] by blast

text \<open>Once the front is decided, further bytes do not change the decision.\<close>

lemma scan_head_append:
  assumes "scan_head m rest \<noteq> Wait"
  shows "scan_head m (rest @ later) = scan_head m rest"
proof -
  have ne: "rest \<noteq> []" using assms by (auto simp: scan_head_def)
  then have hd: "(rest @ later) ! 0 = rest ! 0" by (simp add: nth_append)
  show ?thesis
  proof (cases "rest ! 0 \<noteq> PREAMBLE")
    case True
    with ne hd show ?thesis by (simp add: scan_head_def)
  next
    case False
    then have len: "3 \<le> length rest"
      using assms ne unfolding scan_head_def by (metis not_less)
    then have nth: "(rest @ later) ! 1 = rest ! 1" "(rest @ later) ! 2 = rest ! 2"
      by (simp_all add: nth_append)
    have long: "length rest < frame_len (rest ! 1) (rest ! 2) + 6 \<Longrightarrow>
        m < int (frame_len (rest ! 1) (rest ! 2))"
      using assms False ne len unfolding scan_head_def by (metis not_less)
    show ?thesis
      unfolding scan_head_def nth hd using ne False len long by simp
  qed
qed

section \<open>The frames of a byte string\<close>

function scan :: "int \<Rightarrow> nat \<Rightarrow> bytes \<Rightarrow> (nat \<times> bytes) list \<times> nat \<times> bytes" where
  "scan m off rest =
     (case scan_head m rest of
        Wait \<Rightarrow> ([], off, rest)
      | Skip \<Rightarrow> scan m (off + 1) (drop 1 rest)
      | Frame n \<Rightarrow>
          (case scan m (off + n) (drop n rest) of
             (frames, off', rest') \<Rightarrow> ((off, take n rest) # frames, off', rest')))"
  by pat_completeness auto
termination
  by (relation "measure (\<lambda>(m, off, rest). length rest)")
     (auto dest: scan_head_Skip scan_head_FrameD)

declare scan.simps [simp del]

abbreviation scan_frames :: "int \<Rightarrow> nat \<Rightarrow> bytes \<Rightarrow> (nat \<times> bytes) list" where
  "scan_frames m off rest \<equiv> fst (scan m off rest)"

lemma scan_Wait: "scan_head m rest = Wait \<Longrightarrow> scan m off rest = ([], off, rest)"
  by (simp add: scan.simps [of m off rest])

lemma scan_Skip: "scan_head m rest = Skip \<Longrightarrow> scan m off rest = scan m (off + 1) (drop 1 rest)"
  by (simp add: scan.simps [of m off rest])

lemma scan_Frame:
  "scan_head m rest = Frame n \<Longrightarrow>
   scan m off rest = ((off, take n rest) # fst (scan m (off + n) (drop n rest)),
     snd (scan m (off + n) (drop n rest)))"
  by (simp add: scan.simps [of m off rest] split: prod.split)

lemmas scan_steps = scan_Wait scan_Skip scan_Frame

lemma scan_stops: "scan_head m (snd (snd (scan m off rest))) = Wait"
proof (induction m off rest rule: scan.induct)
  case (1 m off rest)
  then show ?case
    by (cases "scan_head m rest") (simp_all add: scan_Wait scan_Skip scan_Frame)
qed

text \<open>The rest is a suffix of the input, and the offset points at it.\<close>

lemma scan_rest:
  "scan m off rest = (fs, off', rest') \<Longrightarrow>
   off \<le> off' \<and> off' - off \<le> length rest \<and> rest' = drop (off' - off) rest"
proof (induction m off rest arbitrary: fs off' rest' rule: scan.induct)
  case (1 m off rest)
  show ?case
  proof (cases "scan_head m rest")
    case Wait
    with "1.prems" show ?thesis by (simp add: scan_Wait)
  next
    case Skip
    with "1.prems" have "scan m (off + 1) (drop 1 rest) = (fs, off', rest')"
      by (simp add: scan_Skip)
    from "1.IH"(1) [OF Skip this] obtain k where "off' = Suc off + k" "k \<le> length (drop 1 rest)"
      "rest' = drop k (drop 1 rest)"
      by (metis Suc_eq_plus1 diff_add_inverse le_Suc_ex)
    with scan_head_Skip [OF Skip] show ?thesis
      by (cases rest) auto
  next
    case (Frame n)
    obtain gs where "scan m (off + n) (drop n rest) = (gs, off', rest')"
      using "1.prems" Frame by (cases "scan m (off + n) (drop n rest)") (auto simp: scan_Frame)
    from "1.IH"(2) [OF Frame this] scan_head_Frame(2) [OF Frame] show ?thesis
      by (auto simp: add.commute)
  qed
qed

text \<open>
  Scanning in two pieces: what the first piece leaves incomplete is put in front of the second.
  This is the law behind feeding a framer arbitrary chunks.
\<close>

lemma scan_append:
  "scan m off (a @ b) =
     (case scan m off a of
        (fs1, off1, rest1) \<Rightarrow>
          (case scan m off1 (rest1 @ b) of (fs2, off2, rest2) \<Rightarrow> (fs1 @ fs2, off2, rest2)))"
proof (induction m off a rule: scan.induct)
  case (1 m off a)
  show ?case
  proof (cases "scan_head m a")
    case Wait
    then show ?thesis by (simp add: scan_Wait split: prod.split)
  next
    case Skip
    then obtain x a' where a: "a = x # a'" using scan_head_Skip [OF Skip] by (cases a) auto
    with Skip have "scan_head m (x # a' @ b) = Skip" using scan_head_append [of m a b] by simp
    with a Skip "1.IH"(1) [OF Skip] show ?thesis by (simp add: scan_Skip)
  next
    case (Frame n)
    then have F: "scan_head m (a @ b) = Frame n" using scan_head_append [of m a b] by simp
    have n: "n \<le> length a" by (rule scan_head_Frame(2) [OF Frame])
    obtain fs1 off1 rest1 where R: "scan m (off + n) (drop n a) = (fs1, off1, rest1)"
      by (metis prod_cases3)
    then have "scan m (off + n) (drop n a @ b) =
        (case scan m off1 (rest1 @ b) of (fs2, off2, rest2) \<Rightarrow> (fs1 @ fs2, off2, rest2))"
      using "1.IH"(2) [OF Frame] by simp
    with Frame F n R show ?thesis by (simp add: scan_Frame split: prod.split)
  qed
qed

section \<open>The scanning loop finds the frames\<close>

text \<open>One turn of the loop, by the verdict on the front.\<close>

abbreviation mk_parsed_at :: "(bytes \<Rightarrow> string) \<Rightarrow> nat \<times> bytes \<Rightarrow> parsed_frame" where
  "mk_parsed_at sha \<equiv> \<lambda>(pos, raw). mk_parsed sha pos raw"

definition skip_findings :: "int \<Rightarrow> nat \<Rightarrow> bytes \<Rightarrow> frame_finding list \<Rightarrow> nat \<Rightarrow> frame_finding list" where
  "skip_findings m pos rest findings stray =
     (if rest ! 0 \<noteq> PREAMBLE then findings
      else flush_stray stray pos ''oversize''
             (findings @ [OVERSIZED_LENGTH pos (frame_len (rest ! 1) (rest ! 2)) m]))"

definition wait_finding :: "nat \<Rightarrow> bytes \<Rightarrow> frame_finding" where
  "wait_finding pos rest =
     (if length rest < 3 then TRUNCATED_HEADER pos (length rest)
      else TRUNCATED_FRAME pos (frame_len (rest ! 1) (rest ! 2))
             (frame_len (rest ! 1) (rest ! 2) + 6) (length rest))"

definition frame_findings :: "nat \<Rightarrow> bytes \<Rightarrow> frame_finding list \<Rightarrow> nat \<Rightarrow> frame_finding list" where
  "frame_findings pos raw findings stray =
     flush_stray stray pos ''resync'' findings @
     (if raw_crc_ok raw then []
      else [CRC_FAIL_AT pos (frame_len (raw ! 1) (raw ! 2))
              (extract_message_number (raw_payload raw)) (raw_expected raw)])"

lemma parse_loop_end: "parse_loop sha m ev pos [] frames findings stray = (frames, findings, stray)"
  by (simp add: parse_loop.simps)

lemma parse_loop_limit:
  "rest \<noteq> [] \<Longrightarrow> ev \<le> int (length frames) \<Longrightarrow>
   parse_loop sha m ev pos rest frames findings stray =
   (frames, findings @ [EVENT_LIMIT ev (length rest)], stray)"
  by (simp add: parse_loop.simps [of _ _ _ _ rest])

lemma parse_loop_Wait:
  "rest \<noteq> [] \<Longrightarrow> int (length frames) < ev \<Longrightarrow> scan_head m rest = Wait \<Longrightarrow>
   parse_loop sha m ev pos rest frames findings stray =
   (frames, findings @ [wait_finding pos rest], stray)"
  by (auto simp: parse_loop.simps [of _ _ _ _ rest] scan_head_def wait_finding_def Let_def
      HEADER_LENGTH_def CRC_LENGTH_def split: if_splits)

lemma parse_loop_Skip:
  "int (length frames) < ev \<Longrightarrow> scan_head m rest = Skip \<Longrightarrow>
   parse_loop sha m ev pos rest frames findings stray =
   parse_loop sha m ev (pos + 1) (drop 1 rest) frames (skip_findings m pos rest findings stray)
     (if rest ! 0 \<noteq> PREAMBLE then stray + 1 else 1)"
  by (auto simp: parse_loop.simps [of _ _ _ _ rest] scan_head_def skip_findings_def Let_def
      HEADER_LENGTH_def CRC_LENGTH_def split: if_splits)

lemma parse_loop_Frame:
  assumes "int (length frames) < ev" and "scan_head m rest = Frame n"
  shows "parse_loop sha m ev pos rest frames findings stray =
    parse_loop sha m ev (pos + n) (drop n rest) (frames @ [mk_parsed sha pos (take n rest)])
      (frame_findings pos (take n rest) findings stray) 0"
proof -
  note f = scan_head_Frame [OF assms(2)]
  define len where "len = frame_len (rest ! 1) (rest ! 2)"
  have n: "n = len + 6" and len: "int len \<le> m" using f(4,6) by (simp_all add: len_def)
  have hd: "take n rest ! 1 = rest ! 1" "take n rest ! 2 = rest ! 2" using n by simp_all
  have total: "HEADER_LENGTH + len + CRC_LENGTH = n"
    by (simp add: n HEADER_LENGTH_def CRC_LENGTH_def)
  have guards: "rest \<noteq> []" "\<not> ev \<le> int (length frames)" "\<not> rest ! 0 \<noteq> PREAMBLE"
    "\<not> length rest < HEADER_LENGTH" "\<not> m < int len" "\<not> length rest < n"
    using f assms(1) len by (simp_all add: HEADER_LENGTH_def)
  show ?thesis
    unfolding parse_loop.simps [of sha m ev pos rest frames findings stray] Let_def
      len_def [symmetric] total
    using guards by (simp add: frame_findings_def hd len_def [symmetric] del: One_nat_def)
qed

lemmas parse_loop_steps = parse_loop_Wait parse_loop_Skip parse_loop_Frame

lemma parse_loop_frames:
  "int (length frames) \<le> ev \<Longrightarrow>
   fst (parse_loop sha m ev pos rest frames findings stray) =
   frames @ map (mk_parsed_at sha) (take (nat ev - length frames) (scan_frames m pos rest))"
proof (induction m pos rest arbitrary: frames findings stray rule: scan.induct)
  case (1 m pos rest)
  show ?case
  proof (cases "rest = [] \<or> ev \<le> int (length frames)")
    case True
    with "1.prems" show ?thesis
      by (cases "rest = []") (auto simp: parse_loop_end parse_loop_limit scan_Wait)
  next
    case False
    then have ev: "rest \<noteq> []" "int (length frames) < ev" by auto
    show ?thesis
    proof (cases "scan_head m rest")
      case Wait
      with ev show ?thesis by (simp add: parse_loop_Wait scan_Wait)
    next
      case Skip
      with ev "1.prems" show ?thesis
        using "1.IH"(1) [OF Skip] by (simp add: parse_loop_Skip scan_Skip)
    next
      case (Frame n)
      from ev have "nat ev - length frames = Suc (nat ev - Suc (length frames))" by auto
      with Frame ev "1.IH"(2) [OF Frame, of "frames @ [mk_parsed sha pos (take n rest)]"]
      show ?thesis by (simp add: parse_loop_Frame scan_Frame)
    qed
  qed
qed

text \<open>
  \<open>parse_stream\<close> returns the first \<open>max_events\<close> frames of the description.
\<close>

lemma parse_stream_frames:
  "0 \<le> ev \<Longrightarrow>
   pr_frames (parse_stream sha m ev data) = map (mk_parsed_at sha) (take (nat ev) (scan_frames m 0 data))"
  using parse_loop_frames [of "[]" ev sha m 0 data "[]" 0]
  by (cases "parse_loop sha m ev 0 data [] [] 0") (simp add: parse_stream_def)

section \<open>Every byte is accounted for\<close>

text \<open>Bytes that a finding says were skipped, and bytes it says remain unread.\<close>

fun stray_of :: "frame_finding \<Rightarrow> nat" where
  "stray_of (STRAY_BYTES skipped _ _) = skipped"
| "stray_of _ = 0"

fun unread_of :: "frame_finding \<Rightarrow> nat" where
  "unread_of (EVENT_LIMIT _ remaining) = remaining"
| "unread_of (TRUNCATED_HEADER _ remaining) = remaining"
| "unread_of (TRUNCATED_FRAME _ _ _ remaining) = remaining"
| "unread_of _ = 0"

definition stray_total :: "frame_finding list \<Rightarrow> nat" where
  "stray_total fs = sum_list (map stray_of fs)"

definition unread_total :: "frame_finding list \<Rightarrow> nat" where
  "unread_total fs = sum_list (map unread_of fs)"

definition frame_bytes :: "parsed_frame list \<Rightarrow> nat" where
  "frame_bytes fs = sum_list (map (\<lambda>f. length (pf_raw f)) fs)"

lemma total_simps [simp]:
  "stray_total [] = 0" "stray_total (x # xs) = stray_of x + stray_total xs"
  "stray_total (xs @ ys) = stray_total xs + stray_total ys"
  "unread_total [] = 0" "unread_total (x # xs) = unread_of x + unread_total xs"
  "unread_total (xs @ ys) = unread_total xs + unread_total ys"
  "frame_bytes [] = 0" "frame_bytes (f # fs) = length (pf_raw f) + frame_bytes fs"
  "frame_bytes (fs @ gs) = frame_bytes fs + frame_bytes gs"
  by (simp_all add: stray_total_def unread_total_def frame_bytes_def)

lemma flush_stray_totals [simp]:
  "stray_total (flush_stray k upto' r fs) = k + stray_total fs"
  "unread_total (flush_stray k upto' r fs) = unread_total fs"
  by (simp_all add: flush_stray_def)

lemma skip_findings_totals:
  "stray_total (skip_findings m pos rest fs k) + (if rest ! 0 \<noteq> PREAMBLE then k + 1 else 1) =
   stray_total fs + k + 1"
  "unread_total (skip_findings m pos rest fs k) = unread_total fs"
  by (simp_all add: skip_findings_def)

lemma frame_findings_totals [simp]:
  "stray_total (frame_findings pos raw fs k) = k + stray_total fs"
  "unread_total (frame_findings pos raw fs k) = unread_total fs"
  by (simp_all add: frame_findings_def)

lemma wait_finding_totals [simp]:
  "stray_of (wait_finding pos rest) = 0" "unread_of (wait_finding pos rest) = length rest"
  by (simp_all add: wait_finding_def)

lemma parse_loop_accounts:
  "parse_loop sha m ev pos rest frames findings stray = (frames', findings', stray') \<Longrightarrow>
   frame_bytes frames' + stray_total findings' + stray' + unread_total findings' =
   frame_bytes frames + stray_total findings + stray + unread_total findings + length rest"
proof (induction m pos rest arbitrary: frames findings stray rule: scan.induct)
  case (1 m pos rest)
  show ?case
  proof (cases "rest = [] \<or> ev \<le> int (length frames)")
    case True
    with "1.prems" show ?thesis
      by (cases "rest = []") (auto simp: parse_loop_end parse_loop_limit)
  next
    case False
    then have ev: "rest \<noteq> []" "int (length frames) < ev" by auto
    show ?thesis
    proof (cases "scan_head m rest")
      case Wait
      with ev "1.prems" show ?thesis by (auto simp: parse_loop_Wait)
    next
      case Skip
      with ev "1.prems" have "parse_loop sha m ev (pos + 1) (drop 1 rest) frames
          (skip_findings m pos rest findings stray) (if rest ! 0 \<noteq> PREAMBLE then stray + 1 else 1) =
          (frames', findings', stray')"
        by (simp add: parse_loop_Skip)
      from "1.IH"(1) [OF Skip this] skip_findings_totals [of m pos rest findings stray] ev(1)
      show ?thesis by (cases rest) simp_all
    next
      case (Frame n)
      with ev "1.prems" have "parse_loop sha m ev (pos + n) (drop n rest)
          (frames @ [mk_parsed sha pos (take n rest)])
          (frame_findings pos (take n rest) findings stray) 0 = (frames', findings', stray')"
        by (simp add: parse_loop_Frame)
      from "1.IH"(2) [OF Frame this] scan_head_Frame(2) [OF Frame]
      show ?thesis by (simp add: mk_parsed_def)
    qed
  qed
qed

lemma parse_stream_accounts_all:
  "frame_bytes (pr_frames r) + stray_total (pr_findings r) + unread_total (pr_findings r) = length data"
  if "r = parse_stream sha m ev data"
  using that parse_loop_accounts [of sha m ev 0 data "[]" "[]" 0]
  by (cases "parse_loop sha m ev 0 data [] [] 0") (simp add: parse_stream_def)

end
