(* ===== verification/Rtcm_Encode.thy ===== *)
theory Rtcm_Encode
  imports Rtcm_Scan
begin

text \<open>
  The fixture encoder against the parser: the header of an encoded frame carries its length, the
  trailer its checksum, the payload its message number; a stream of encoded frames is read back
  frame by frame, and a damaged frame is reported as such.
\<close>

section \<open>The encoder is inverted\<close>

lemma mask_lits: "(0xFF::int) = mask 8" "(0x0F::int) = mask 4" "(0xFF::nat) = mask 8"
  "(0xFFF::nat) = mask 12" "(0x03::nat) = mask 2"
  by (simp_all add: mask_eq_exp_minus_1)

lemma frame_len_arith: "frame_len b1 b2 = 256 * (unat b1 mod 4) + unat b2"
proof -
  have "push_bit 8 x AND unat b2 = 0" for x
    by (rule bit_eqI) (auto simp: bit_and_iff bit_push_bit_iff bit_unsigned_iff dest: bit_imp_le_length)
  then have "frame_len b1 b2 = push_bit 8 (unat b1 AND 0x03) + unat b2"
    unfolding frame_len_def by (rule disjunctive_add_eq_or [symmetric])
  also have "unat b1 AND 0x03 = unat b1 mod 4"
    by (simp only: mask_lits take_bit_eq_mask [symmetric]) (simp add: take_bit_eq_mod)
  finally show ?thesis by (simp add: push_bit_eq_mult mult.commute)
qed

lemma frame_len_header:
  assumes "n < 1024"
  shows "frame_len (of_nat (drop_bit 8 n AND 0x03)) (of_nat (n AND 0xFF)) = n"
proof -
  have "unat (of_nat (drop_bit 8 n AND 0x03) :: byte) = n div 256"
    using assms
    by (simp only: mask_lits take_bit_eq_mask [symmetric])
      (simp add: take_bit_eq_mod drop_bit_eq_div unat_of_nat)
  moreover have "unat (of_nat (n AND 0xFF) :: byte) = n mod 256"
    by (simp only: mask_lits take_bit_eq_mask [symmetric])
      (simp add: take_bit_eq_mod unat_of_nat)
  ultimately show ?thesis using assms by (simp add: frame_len_arith)
qed

lemma crc_bytes_of:
  assumes "reg24 crc"
  shows "crc_of_bytes (word_of_int (drop_bit 16 crc AND 0xFF)) (word_of_int (drop_bit 8 crc AND 0xFF))
    (word_of_int (crc AND 0xFF)) = crc"
proof (rule bit_eqI)
  fix n :: nat
  have "n < 8 \<or> (8 \<le> n \<and> n < 16) \<or> (16 \<le> n \<and> n < 24) \<or> 24 \<le> n" by linarith
  then show "bit (crc_of_bytes (word_of_int (drop_bit 16 crc AND 0xFF))
      (word_of_int (drop_bit 8 crc AND 0xFF)) (word_of_int (crc AND 0xFF))) n = bit crc n"
    using reg24_bit [OF assms, of n]
    unfolding crc_of_bytes_def mask_lits
    by (auto simp: bit_or_iff bit_push_bit_iff bit_uint_iff bit_and_iff bit_drop_bit_eq bit_mask_iff
        bit_word_of_int_iff)
qed

lemma extract_message_number_encoded:
  assumes "0 \<le> m" and "m \<le> 4095"
  shows "extract_message_number
      (word_of_int (drop_bit 4 m AND 0xFF) # (word_of_int (push_bit 4 (m AND 0x0F)) OR drop_bit 4 s0) # ps)
    = Some (nat m)"
proof -
  have bits: "bit m n \<Longrightarrow> n < 12" for n
  proof -
    have "take_bit 12 m = m" using assms by (simp add: take_bit_int_eq_self_iff)
    then show "bit m n \<Longrightarrow> n < 12" by (metis bit_take_bit_iff)
  qed
  have "(push_bit 4 (unat (word_of_int (drop_bit 4 m AND 0xFF) :: byte)) OR
      drop_bit 4 (unat (word_of_int (push_bit 4 (m AND 0x0F)) OR drop_bit 4 s0 :: byte))) AND 0xFFF = nat m"
    (is "?l = _")
  proof (rule bit_eqI)
    fix n :: nat
    have "n < 4 \<or> (4 \<le> n \<and> n < 12) \<or> 12 \<le> n" by linarith
    then show "bit ?l n = bit (nat m) n"
      using bits [of n] assms unfolding mask_lits
      by (auto simp: bit_or_iff bit_push_bit_iff bit_unsigned_iff bit_and_iff bit_drop_bit_eq
          bit_mask_iff bit_word_of_int_iff bit_nat_iff dest: bit_imp_le_length)
  qed
  then show ?thesis by (simp add: extract_message_number_def MIN_PAYLOAD_FOR_MESSAGE_NUMBER_def)
qed

section \<open>Complete frames\<close>

text \<open>A byte string that is one frame the parser accepts as complete.\<close>

definition is_frame :: "int \<Rightarrow> bytes \<Rightarrow> bool" where
  "is_frame m raw = (scan_head m raw = Frame (length raw))"

lemma is_frame_head: "is_frame m raw \<Longrightarrow> scan_head m (raw @ rest) = Frame (length raw)"
  unfolding is_frame_def using scan_head_append [of m raw rest] by simp

lemma is_frame_length: "is_frame m raw \<Longrightarrow> 6 \<le> length raw"
  unfolding is_frame_def by (rule scan_head_Frame(1))

lemma is_frame_altdef:
  "is_frame m raw \<longleftrightarrow>
   6 \<le> length raw \<and> raw ! 0 = PREAMBLE \<and> int (length raw - 6) \<le> m \<and>
   frame_len (raw ! 1) (raw ! 2) = length raw - 6"
  by (auto simp: is_frame_def scan_head_def)

lemma is_frame_mono: "is_frame m raw \<Longrightarrow> m \<le> m' \<Longrightarrow> is_frame m' raw"
  by (auto simp: is_frame_altdef)

lemma scan_frame_append:
  "is_frame m raw \<Longrightarrow>
   scan m off (raw @ rest) =
   ((off, raw) # fst (scan m (off + length raw) rest), snd (scan m (off + length raw) rest))"
  by (simp add: is_frame_head scan_Frame)

text \<open>Bytes before a frame that hold no preamble are passed over.\<close>

lemma scan_junk:
  "PREAMBLE \<notin> set junk \<Longrightarrow> scan m off (junk @ rest) = scan m (off + length junk) rest"
proof (induction junk arbitrary: off)
  case (Cons b junk)
  then have "scan_head m ((b # junk) @ rest) = Skip" by (auto simp: scan_head_def)
  with Cons show ?case by (simp add: scan_Skip)
qed simp

text \<open>Checking the trailer is checking that the whole frame has checksum zero.\<close>

lemma last_three:
  assumes "3 \<le> length raw"
  obtains x y z where "raw = take (length raw - 3) raw @ [x, y, z]"
proof -
  define n where "n = length raw - 3"
  have "drop n raw = [raw ! n, raw ! Suc n, raw ! Suc (Suc n)]"
    using assms by (simp add: n_def take_drop_Cons)
  then show ?thesis
    using that [of "raw ! n" "raw ! Suc n" "raw ! Suc (Suc n)"] append_take_drop_id [of n raw]
    by (simp add: n_def)
qed

lemma raw_crc_ok_trailer:
  assumes "3 \<le> length raw"
  shows "raw_crc_ok raw \<longleftrightarrow> crcq.trailer_ok raw"
proof -
  obtain x y z where r: "raw = take (length raw - 3) raw @ [x, y, z]" using last_three [OF assms] .
  define d where "d = take (length raw - 3) raw"
  with r have raw: "raw = d @ [x, y, z]" by simp
  show ?thesis
    unfolding raw crcq.trailer_ok_append
    by (simp add: raw_crc_ok_def raw_body_def raw_expected_def CRC_LENGTH_def)
qed

section \<open>Encoded frames\<close>

text \<open>The payload that \<open>encode_frame\<close> builds.\<close>

definition encoded_payload :: "int \<Rightarrow> bytes \<Rightarrow> bytes" where
  "encoded_payload message_number payload_suffix =
     word_of_int (drop_bit 4 message_number AND 0xFF) #
     (case payload_suffix of
        [] \<Rightarrow> [word_of_int (push_bit 4 (message_number AND 0x0F)), 0]
      | s0 # _ \<Rightarrow> (word_of_int (push_bit 4 (message_number AND 0x0F)) OR drop_bit 4 s0) # payload_suffix)"

lemma encoded_payload_number:
  "0 \<le> m \<Longrightarrow> m \<le> 4095 \<Longrightarrow> extract_message_number (encoded_payload m suffix) = Some (nat m)"
  using extract_message_number_encoded [of m 0 "[0]"] extract_message_number_encoded [of m _ suffix]
  unfolding encoded_payload_def by (cases suffix) (simp_all only: list.case drop_bit_of_0 or.right_neutral)

lemma encoded_payload_length: "2 \<le> length (encoded_payload m suffix)"
  by (cases suffix) (auto simp: encoded_payload_def)

lemma encode_frame_ok_iff:
  "(\<exists>raw. encode_frame m suffix = Inr raw) \<longleftrightarrow>
   0 \<le> m \<and> m \<le> 4095 \<and> length (encoded_payload m suffix) \<le> MAX_RTCM_LENGTH"
  by (cases suffix) (auto simp: encode_frame_def encoded_payload_def Let_def)

lemma encode_frameD:
  assumes "encode_frame m suffix = Inr raw"
  shows "0 \<le> m" "m \<le> 4095" "length (encoded_payload m suffix) \<le> 1023"
    "raw = (let payload = encoded_payload m suffix;
                body = [PREAMBLE, of_nat (drop_bit 8 (length payload) AND 0x03),
                        of_nat (length payload AND 0xFF)] @ payload;
                crc = crc24q body
            in body @ [word_of_int (drop_bit 16 crc AND 0xFF),
                 word_of_int (drop_bit 8 crc AND 0xFF), word_of_int (crc AND 0xFF)])"
  using assms
  by (cases suffix; auto simp: encode_frame_def encoded_payload_def Let_def MAX_RTCM_LENGTH_def
      LENGTH_BITS_def split: if_splits)+

lemma encode_frame_shape:
  assumes "encode_frame m suffix = Inr raw"
  shows "length raw = length (encoded_payload m suffix) + 6"
    "raw ! 0 = PREAMBLE"
    "frame_len (raw ! 1) (raw ! 2) = length (encoded_payload m suffix)"
    "raw_payload raw = encoded_payload m suffix"
    "raw_crc_ok raw"
proof -
  let ?p = "encoded_payload m suffix"
  note raw = encode_frameD(4) [OF assms, unfolded Let_def]
  show len: "length raw = length ?p + 6" "raw ! 0 = PREAMBLE"
    by (simp_all add: raw)
  show "frame_len (raw ! 1) (raw ! 2) = length ?p"
    using frame_len_header [of "length ?p"] encode_frameD(3) [OF assms]
    by (simp add: raw del: One_nat_def)
  show "raw_payload raw = ?p"
    by (simp add: raw raw_payload_def raw_body_def CRC_LENGTH_def HEADER_LENGTH_def)
  show "raw_crc_ok raw"
    by (simp add: raw raw_crc_ok_def raw_body_def raw_expected_def CRC_LENGTH_def
        crc_bytes_of [OF crc24q_reg24])
qed

lemma encode_is_frame:
  assumes "encode_frame m suffix = Inr raw"
  shows "is_frame (int (length raw) - 6) raw"
  using encode_frame_shape [OF assms] by (simp add: is_frame_altdef)

section \<open>Streams of encoded frames\<close>

text \<open>
  A stream as a capture holds it: before each frame some bytes that cannot be mistaken for the
  start of one. \<open>expected_frames\<close> places the frames at their offsets.
\<close>

type_synonym gap_stream = "(bytes \<times> bytes) list"

definition stream_bytes :: "gap_stream \<Rightarrow> bytes" where
  "stream_bytes gs = concat (map (\<lambda>(junk, raw). junk @ raw) gs)"

fun expected_frames :: "nat \<Rightarrow> gap_stream \<Rightarrow> (nat \<times> bytes) list" where
  "expected_frames off [] = []"
| "expected_frames off ((junk, raw) # gs) =
     (off + length junk, raw) # expected_frames (off + length junk + length raw) gs"

definition clean_stream :: "int \<Rightarrow> gap_stream \<Rightarrow> bool" where
  "clean_stream m gs = list_all (\<lambda>(junk, raw). PREAMBLE \<notin> set junk \<and> is_frame m raw) gs"

lemma stream_bytes_simps [simp]:
  "stream_bytes [] = []" "stream_bytes ((junk, raw) # gs) = junk @ raw @ stream_bytes gs"
  by (simp_all add: stream_bytes_def)

lemma clean_stream_simps [simp]:
  "clean_stream m []"
  "clean_stream m ((junk, raw) # gs) \<longleftrightarrow> PREAMBLE \<notin> set junk \<and> is_frame m raw \<and> clean_stream m gs"
  by (simp_all add: clean_stream_def)

lemma scan_clean_stream:
  "clean_stream m gs \<Longrightarrow> PREAMBLE \<notin> set junk \<Longrightarrow>
   scan_frames m off (stream_bytes gs @ junk) = expected_frames off gs"
proof (induction gs arbitrary: off)
  case Nil
  have "scan m (off + length junk) [] = ([], off + length junk, [])" by (simp add: scan_Wait)
  with scan_junk [of junk m off "[]"] Nil show ?case by simp
next
  case (Cons g gs)
  then show ?case by (cases g) (simp add: scan_junk scan_frame_append add.assoc)
qed

lemma expected_frames_length [simp]: "length (expected_frames off gs) = length gs"
  by (induction off gs rule: expected_frames.induct) auto

lemma expected_frames_raw: "map snd (expected_frames off gs) = map snd gs"
  by (induction off gs rule: expected_frames.induct) auto

lemma mk_parsed_encoded:
  assumes "encode_frame m suffix = Inr raw"
  shows "fr_message_number (pf_record (mk_parsed sha off raw)) = Some (nat m)"
    "fr_crc_status (pf_record (mk_parsed sha off raw)) = CRC_PASS"
    "fr_frame_length (pf_record (mk_parsed sha off raw)) = length raw - 6"
    "pf_raw (mk_parsed sha off raw) = raw"
  using encode_frame_shape [OF assms] encode_frameD(1,2) [OF assms]
  by (simp_all add: mk_parsed_def encoded_payload_number)

lemma encoded_clean_stream:
  assumes "\<And>junk raw. (junk, raw) \<in> set gs \<Longrightarrow>
    PREAMBLE \<notin> set junk \<and> (\<exists>m suffix. encode_frame m suffix = Inr raw)"
  shows "clean_stream (int MAX_RTCM_LENGTH) gs"
proof -
  have "is_frame (int MAX_RTCM_LENGTH) raw" if "encode_frame m suffix = Inr raw" for m suffix raw
    using is_frame_mono [OF encode_is_frame [OF that]] encode_frame_shape(1) [OF that]
      encode_frameD(3) [OF that]
    by (simp add: MAX_RTCM_LENGTH_def LENGTH_BITS_def)
  with assms show ?thesis by (fastforce simp: clean_stream_def list_all_iff)
qed

section \<open>Damaged frames\<close>

lemma damaged_is_frame:
  assumes "is_frame m (p @ bs @ s)" and "3 \<le> length p" and "length bs = length cs"
  shows "is_frame m (p @ cs @ s)"
proof -
  have "(p @ cs @ s) ! i = (p @ bs @ s) ! i" if "i < 3" for i
    using that assms(2) by (simp add: nth_append)
  with assms(1,3) show ?thesis by (auto simp: is_frame_altdef)
qed

lemma damaged_crc:
  assumes "raw_crc_ok (p @ bs @ s)" and "3 \<le> length p" and "length bs = length cs"
    and "length bs \<le> 3" and "bs \<noteq> cs"
  shows "\<not> raw_crc_ok (p @ cs @ s)"
  using assms crcq.burst_breaks_trailer [of p bs s cs] by (simp add: raw_crc_ok_trailer)

lemma parse_stream_single:
  assumes "is_frame m raw" and "0 < ev"
  shows "parse_stream sha m ev raw =
    \<lparr>pr_frames = [mk_parsed sha 0 raw], pr_findings = frame_findings 0 raw [] 0,
     pr_bytes_processed = length raw\<rparr>"
proof -
  have "parse_loop sha m ev 0 raw [] [] 0 =
      ([mk_parsed sha 0 raw], frame_findings 0 raw [] 0, 0)"
    using parse_loop_Frame [of "[]" ev m raw "length raw" sha 0 "[]" 0] assms
    by (simp add: is_frame_def parse_loop_end)
  then show ?thesis by (simp add: parse_stream_def flush_stray_def)
qed

section \<open>Properties\<close>

lemma encoded_frames_pass:
  assumes "\<And>junk raw. (junk, raw) \<in> set gs \<Longrightarrow> \<exists>m suffix. encode_frame m suffix = Inr raw"
    and "x \<in> set (expected_frames off gs)"
  shows "fr_crc_status (pf_record (mk_parsed_at sha x)) = CRC_PASS"
  using assms
proof (induction off gs rule: expected_frames.induct)
  case (2 off junk raw gs)
  from 2(2) obtain m suffix where "encode_frame m suffix = Inr raw" by (metis list.set_intros(1))
  from mk_parsed_encoded(2) [OF this] 2(1) 2(2,3) show ?case by (auto; metis)
qed simp

text \<open>
  C7. Encoder and parser round trip. A stream of frames built by \<open>encode_frame\<close>, with arbitrary
  bytes other than the preamble before each of them and after the last, is parsed back into
  exactly those frames, in order and byte for byte, each with a passing checksum; and a frame
  encoded for message number \<open>m\<close> is reported with message number \<open>m\<close>.
\<close>

theorem encoded_stream_roundtrip:
  assumes enc: "\<And>junk raw. (junk, raw) \<in> set gs \<Longrightarrow>
      PREAMBLE \<notin> set junk \<and> (\<exists>m suffix. encode_frame m suffix = Inr raw)"
    and tail: "PREAMBLE \<notin> set junk" and room: "int (length gs) \<le> ev"
  shows "let frames = pr_frames (parse_stream sha (int MAX_RTCM_LENGTH) ev (stream_bytes gs @ junk)) in
      map pf_raw frames = map snd gs \<and>
      (\<forall>f \<in> set frames. fr_crc_status (pf_record f) = CRC_PASS) \<and>
      (\<forall>i m suffix. i < length gs \<and> encode_frame m suffix = Inr (snd (gs ! i)) \<longrightarrow>
         fr_message_number (pf_record (frames ! i)) = Some (nat m))"
proof -
  let ?fs = "expected_frames 0 gs"
  have frames: "pr_frames (parse_stream sha (int MAX_RTCM_LENGTH) ev (stream_bytes gs @ junk)) =
      map (mk_parsed_at sha) ?fs"
    using scan_clean_stream [OF encoded_clean_stream tail, of gs 0] enc room
    by (simp add: parse_stream_frames)
  have raws: "map pf_raw (map (mk_parsed_at sha) ?fs) = map snd gs"
    using expected_frames_raw [of 0 gs] by (simp add: mk_parsed_def case_prod_beta comp_def)
  have num: "fr_message_number (pf_record (mk_parsed_at sha (?fs ! i))) = Some (nat m)"
    if "i < length gs" "encode_frame m suffix = Inr (snd (gs ! i))" for i m suffix
  proof -
    have "snd (?fs ! i) = snd (gs ! i)"
      using that(1) nth_map [of i ?fs snd] nth_map [of i gs snd] by (simp add: expected_frames_raw)
    with mk_parsed_encoded(1) [OF that(2)] show ?thesis by (simp add: case_prod_beta)
  qed
  show ?thesis
    unfolding frames Let_def
    using raws num encoded_frames_pass [of gs _ 0 sha] enc by (simp add: Ball_def) blast
qed

lemma encode_1005: "encode_frame 1005 [] = Inr [0xD3, 0, 3, 0x3E, 0xD0, 0, 0x7A, 0x79, 0xFE]"
proof -
  have crc: "crc24q [0xD3, 0, 3, 0x3E, 0xD0, 0] = 0x7A79FE"
    by (simp add: crc24q_def crc_byte_def crc_step_def Let_def funpow_8 CRC24Q_POLY_def CRC24Q_MASK_def)
  show ?thesis
    by (simp add: encode_frame_def Let_def crc MAX_RTCM_LENGTH_def LENGTH_BITS_def PREAMBLE_def
        flip: numeral_3_eq_3)
qed

lemma encoded_stream_roundtrip_witness:
  "map pf_raw (pr_frames (parse_stream (\<lambda>_. []) (int MAX_RTCM_LENGTH) 10
      (stream_bytes [([7, 8], [0xD3, 0, 3, 0x3E, 0xD0, 0, 0x7A, 0x79, 0xFE])] @ [9]))) =
   [[0xD3, 0, 3, 0x3E, 0xD0, 0, 0x7A, 0x79, 0xFE]]"
  using encoded_stream_roundtrip
    [of "[([7, 8], [0xD3, 0, 3, 0x3E, 0xD0, 0, 0x7A, 0x79, 0xFE])]" "[9]" 10 "\<lambda>_. []"] encode_1005
  by (auto simp: Let_def PREAMBLE_def)

text \<open>
  C37. Damage is detected. Change up to three neighbouring bytes of an encoded frame anywhere after
  its header, trailer included: the parser still delimits the frame, marks it \<open>FAIL\<close>, and reports
  the one finding \<open>CRC_FAIL\<close>.
\<close>

theorem damaged_frame_reported:
  assumes enc: "encode_frame m suffix = Inr (p @ bs @ s)" and hdr: "3 \<le> length p"
    and len: "length bs = length cs" "length bs \<le> 3" and diff: "bs \<noteq> cs" and ev: "0 < ev"
  shows "\<exists>frame. parse_stream sha (int MAX_RTCM_LENGTH) ev (p @ cs @ s) =
    \<lparr>pr_frames = [frame],
     pr_findings = [CRC_FAIL_AT 0 (length (p @ bs @ s) - 6)
       (extract_message_number (raw_payload (p @ cs @ s))) (raw_expected (p @ cs @ s))],
     pr_bytes_processed = length (p @ bs @ s)\<rparr> \<and>
    pf_raw frame = p @ cs @ s \<and> fr_crc_status (pf_record frame) = CRC_FAIL"
proof -
  let ?raw = "p @ cs @ s"
  have "is_frame (int MAX_RTCM_LENGTH) (p @ bs @ s)"
    using encoded_clean_stream [of "[([], p @ bs @ s)]"] enc by auto
  from damaged_is_frame [OF this hdr len(1)] have frame: "is_frame (int MAX_RTCM_LENGTH) ?raw" .
  have bad: "\<not> raw_crc_ok ?raw"
    by (rule damaged_crc [OF encode_frame_shape(5) [OF enc] hdr len diff])
  have "frame_len (?raw ! 1) (?raw ! 2) = length ?raw - 6"
    using frame unfolding is_frame_altdef by blast
  with bad parse_stream_single [OF frame ev, of sha] len(1) show ?thesis
    by (intro exI [of _ "mk_parsed sha 0 ?raw"])
      (simp add: frame_findings_def flush_stray_def mk_parsed_def)
qed

lemma damaged_frame_reported_witness:
  "fr_crc_status (pf_record (pr_frames (parse_stream (\<lambda>_. []) (int MAX_RTCM_LENGTH) 10
      [0xD3, 0, 3, 0x3E, 0xD1, 0, 0x7A, 0x79, 0xFE]) ! 0)) = CRC_FAIL"
  using damaged_frame_reported [of 1005 "[]" "[0xD3, 0, 3, 0x3E]" "[0xD0]" "[0, 0x7A, 0x79, 0xFE]"
      "[0xD1]" 10 "\<lambda>_. []"] encode_1005
  by auto

end
