(* ===== verification/Rtcm_Streaming.thy ===== *)
theory Rtcm_Streaming
  imports Rtcm_Encode
begin

text \<open>
  The live framer (\<open>ntrip_ingestion/framing.py\<close>): \<open>StreamingFramer.feed\<close> consumes one TCP read and
  returns the complete frames. The locale \<open>chunk_consumer\<close> states what it means that the cutting of
  the wire into reads does not matter; the framer is an instance, with the reference description
  \<open>scan\<close> as its specification, so live framing and \<open>parse_stream\<close> find the same frames.
\<close>

section \<open>The framer\<close>

record streamed_frame =
  sfr_byte_offset :: nat
  sfr_raw :: bytes
  sfr_message_number :: "nat option"
  sfr_crc_ok :: bool
  sfr_frame_sha256 :: string

datatype stream_finding =
    SF_OVERSIZED_LENGTH nat nat
  | SF_STRAY_BYTES nat nat
  | SF_CRC_FAIL nat nat "nat option"

fun render_stream_finding :: "stream_finding \<Rightarrow> string" where
  "render_stream_finding (SF_OVERSIZED_LENGTH offset len) =
     ''OVERSIZED_LENGTH offset='' @ str_nat offset @ '' length='' @ str_nat len"
| "render_stream_finding (SF_STRAY_BYTES skipped nxt) =
     ''STRAY_BYTES skipped='' @ str_nat skipped @ '' next_offset='' @ str_nat nxt"
| "render_stream_finding (SF_CRC_FAIL offset len message) =
     ''CRC_FAIL offset='' @ str_nat offset @ '' length='' @ str_nat len @
     '' message='' @ str_message message"

record framer =
  sf_max_frame_length :: int
  sf_buffer :: bytes
  sf_byte_offset :: nat
  sf_findings :: "stream_finding list"
  sf_stray_bytes :: nat
  sf_pending_stray :: nat

definition framer_init :: "int \<Rightarrow> framer result" where
  "framer_init max_frame_length =
     (if \<not> (1 \<le> max_frame_length \<and> max_frame_length \<le> int MAX_RTCM_LENGTH)
      then Inl (ValueError (''max_frame_length must be within 1..1023: '' @ str_int max_frame_length))
      else Inr \<lparr>sf_max_frame_length = max_frame_length, sf_buffer = [], sf_byte_offset = 0,
                sf_findings = [], sf_stray_bytes = 0, sf_pending_stray = 0\<rparr>)"

definition pending_bytes :: "framer \<Rightarrow> nat" where
  "pending_bytes fr = length (sf_buffer fr)"

text \<open>\<open>self._buffer.pop(0)\<close> together with \<open>self._byte_offset += 1\<close>\<close>

definition pop_byte :: "framer \<Rightarrow> framer" where
  "pop_byte fr = fr\<lparr>sf_buffer := drop 1 (sf_buffer fr), sf_byte_offset := sf_byte_offset fr + 1\<rparr>"

definition add_finding :: "stream_finding \<Rightarrow> framer \<Rightarrow> framer" where
  "add_finding f fr = fr\<lparr>sf_findings := sf_findings fr @ [f]\<rparr>"

text \<open>\<open>self.stray_bytes += skipped\<close> with its finding, when something was skipped.\<close>

definition report_stray :: "nat \<Rightarrow> nat \<Rightarrow> framer \<Rightarrow> framer" where
  "report_stray skipped nxt fr =
     (if skipped \<noteq> 0
      then add_finding (SF_STRAY_BYTES skipped nxt) (fr\<lparr>sf_stray_bytes := sf_stray_bytes fr + skipped\<rparr>)
      else fr)"

definition mk_streamed :: "(bytes \<Rightarrow> string) \<Rightarrow> nat \<Rightarrow> bytes \<Rightarrow> streamed_frame" where
  "mk_streamed sha off raw =
     \<lparr>sfr_byte_offset = off, sfr_raw = raw,
      sfr_message_number =
        extract_message_number (if frame_len (raw ! 1) (raw ! 2) \<noteq> 0 then raw_payload raw else []),
      sfr_crc_ok = raw_crc_ok raw, sfr_frame_sha256 = sha raw\<rparr>"

text \<open>The body of the loop after a complete frame has been cut out.\<close>

definition accept_frame :: "nat \<Rightarrow> bytes \<Rightarrow> streamed_frame \<Rightarrow> framer \<Rightarrow> framer" where
  "accept_frame skipped raw frame fr =
     (let fr1 = report_stray skipped (sf_byte_offset fr) fr;
          fr2 = (if sfr_crc_ok frame then fr1
                 else add_finding (SF_CRC_FAIL (sf_byte_offset fr1) (frame_len (raw ! 1) (raw ! 2))
                        (sfr_message_number frame)) fr1)
      in fr2\<lparr>sf_buffer := drop (length raw) (sf_buffer fr2),
             sf_byte_offset := sf_byte_offset fr2 + length raw\<rparr>)"

lemma framer_update_simps [simp]:
  "sf_buffer (pop_byte fr) = drop 1 (sf_buffer fr)"
  "sf_byte_offset (pop_byte fr) = sf_byte_offset fr + 1"
  "sf_stray_bytes (pop_byte fr) = sf_stray_bytes fr"
  "sf_max_frame_length (pop_byte fr) = sf_max_frame_length fr"
  "sf_buffer (add_finding f fr) = sf_buffer fr"
  "sf_byte_offset (add_finding f fr) = sf_byte_offset fr"
  "sf_stray_bytes (add_finding f fr) = sf_stray_bytes fr"
  "sf_max_frame_length (add_finding f fr) = sf_max_frame_length fr"
  "sf_buffer (report_stray k n fr) = sf_buffer fr"
  "sf_byte_offset (report_stray k n fr) = sf_byte_offset fr"
  "sf_stray_bytes (report_stray k n fr) = sf_stray_bytes fr + k"
  "sf_max_frame_length (report_stray k n fr) = sf_max_frame_length fr"
  "sf_buffer (accept_frame k raw frame fr) = drop (length raw) (sf_buffer fr)"
  "sf_byte_offset (accept_frame k raw frame fr) = sf_byte_offset fr + length raw"
  "sf_stray_bytes (accept_frame k raw frame fr) = sf_stray_bytes fr + k"
  "sf_max_frame_length (accept_frame k raw frame fr) = sf_max_frame_length fr"
  "sf_pending_stray (pop_byte fr) = sf_pending_stray fr"
  "sf_pending_stray (add_finding f fr) = sf_pending_stray fr"
  "sf_pending_stray (report_stray k n fr) = sf_pending_stray fr"
  "sf_pending_stray (accept_frame k raw frame fr) = sf_pending_stray fr"
  by (simp_all add: pop_byte_def add_finding_def report_stray_def accept_frame_def Let_def)

function feed_loop ::
  "(bytes \<Rightarrow> string) \<Rightarrow> framer \<Rightarrow> nat \<Rightarrow> streamed_frame list \<Rightarrow> framer \<times> nat \<times> streamed_frame list" where
  "feed_loop sha fr skipped frames =
     (let buf = sf_buffer fr in
      if buf = [] then (fr, skipped, frames)
      else if buf ! 0 \<noteq> PREAMBLE then feed_loop sha (pop_byte fr) (skipped + 1) frames
      else if length buf < HEADER_LENGTH then (fr, skipped, frames)
      else
        let len = frame_len (buf ! 1) (buf ! 2) in
        if sf_max_frame_length fr < int len then
          feed_loop sha (pop_byte (add_finding (SF_OVERSIZED_LENGTH (sf_byte_offset fr) len) fr))
            (skipped + 1) frames
        else
          let need = HEADER_LENGTH + len + CRC_LENGTH in
          if length buf < need then (fr\<lparr>sf_pending_stray := skipped\<rparr>, skipped, frames)
          else
            let raw = take need buf;
                frame = mk_streamed sha (sf_byte_offset fr) raw
            in feed_loop sha (accept_frame skipped raw frame fr) 0 (frames @ [frame]))"
  by pat_completeness auto
termination
  by (relation "measure (\<lambda>(sha, fr, skipped, frames). length (sf_buffer fr))")
     (auto simp: HEADER_LENGTH_def Let_def)

declare feed_loop.simps [simp del]

definition feed :: "(bytes \<Rightarrow> string) \<Rightarrow> framer \<Rightarrow> bytes \<Rightarrow> streamed_frame list \<times> framer" where
  "feed sha fr chunk =
     (let fr1 = fr\<lparr>sf_buffer := sf_buffer fr @ chunk, sf_pending_stray := 0\<rparr>
      in case feed_loop sha fr1 (sf_pending_stray fr) [] of
           (fr2, skipped, frames) \<Rightarrow>
             (frames, report_stray skipped (sf_byte_offset fr2 + length (sf_buffer fr2)) fr2))"

definition flush_findings :: "framer \<Rightarrow> stream_finding list \<times> framer" where
  "flush_findings fr = (sf_findings fr, fr\<lparr>sf_findings := []\<rparr>)"

section \<open>The loop computes the description\<close>

abbreviation head_of :: "framer \<Rightarrow> scan_verdict" where
  "head_of fr \<equiv> scan_head (sf_max_frame_length fr) (sf_buffer fr)"

definition skip_one :: "framer \<Rightarrow> framer" where
  "skip_one fr =
     pop_byte (if sf_buffer fr ! 0 \<noteq> PREAMBLE then fr
               else add_finding (SF_OVERSIZED_LENGTH (sf_byte_offset fr)
                      (frame_len (sf_buffer fr ! 1) (sf_buffer fr ! 2))) fr)"

definition wait_state :: "framer \<Rightarrow> nat \<Rightarrow> framer" where
  "wait_state fr skipped =
     (if length (sf_buffer fr) < 3 then fr else fr\<lparr>sf_pending_stray := skipped\<rparr>)"

lemma skip_one_simps [simp]:
  "sf_buffer (skip_one fr) = drop 1 (sf_buffer fr)"
  "sf_byte_offset (skip_one fr) = sf_byte_offset fr + 1"
  "sf_stray_bytes (skip_one fr) = sf_stray_bytes fr"
  "sf_max_frame_length (skip_one fr) = sf_max_frame_length fr"
  by (simp_all add: skip_one_def)

lemma wait_state_simps [simp]:
  "sf_buffer (wait_state fr k) = sf_buffer fr"
  "sf_byte_offset (wait_state fr k) = sf_byte_offset fr"
  "sf_stray_bytes (wait_state fr k) = sf_stray_bytes fr"
  "sf_max_frame_length (wait_state fr k) = sf_max_frame_length fr"
  by (simp_all add: wait_state_def)

lemma feed_loop_Wait:
  "head_of fr = Wait \<Longrightarrow> feed_loop sha fr skipped frames = (wait_state fr skipped, skipped, frames)"
  by (auto simp: feed_loop.simps [of _ fr] scan_head_def wait_state_def Let_def
      HEADER_LENGTH_def CRC_LENGTH_def split: if_splits)

lemma feed_loop_Skip:
  "head_of fr = Skip \<Longrightarrow> feed_loop sha fr skipped frames = feed_loop sha (skip_one fr) (skipped + 1) frames"
  by (auto simp: feed_loop.simps [of _ fr] scan_head_def skip_one_def Let_def
      HEADER_LENGTH_def CRC_LENGTH_def split: if_splits)

lemma feed_loop_Frame:
  assumes "head_of fr = Frame n"
  shows "feed_loop sha fr skipped frames =
    (let raw = take n (sf_buffer fr); frame = mk_streamed sha (sf_byte_offset fr) raw
     in feed_loop sha (accept_frame skipped raw frame fr) 0 (frames @ [frame]))"
proof -
  note f = scan_head_Frame [OF assms]
  define len where "len = frame_len (sf_buffer fr ! 1) (sf_buffer fr ! 2)"
  have total: "HEADER_LENGTH + len + CRC_LENGTH = n"
    using f(4) by (simp add: len_def HEADER_LENGTH_def CRC_LENGTH_def)
  have guards: "sf_buffer fr \<noteq> []" "\<not> sf_buffer fr ! 0 \<noteq> PREAMBLE"
    "\<not> length (sf_buffer fr) < HEADER_LENGTH" "\<not> sf_max_frame_length fr < int len"
    "\<not> length (sf_buffer fr) < n"
    using f by (simp_all add: HEADER_LENGTH_def len_def)
  show ?thesis
    unfolding feed_loop.simps [of sha fr skipped frames] Let_def len_def [symmetric] total
    by (simp only: guards if_False if_True simp_thms)
qed

abbreviation mk_streamed_at :: "(bytes \<Rightarrow> string) \<Rightarrow> nat \<times> bytes \<Rightarrow> streamed_frame" where
  "mk_streamed_at sha \<equiv> \<lambda>(off, raw). mk_streamed sha off raw"

abbreviation scan_of :: "framer \<Rightarrow> (nat \<times> bytes) list \<times> nat \<times> bytes" where
  "scan_of fr \<equiv> scan (sf_max_frame_length fr) (sf_byte_offset fr) (sf_buffer fr)"

definition streamed_bytes :: "streamed_frame list \<Rightarrow> nat" where
  "streamed_bytes fs = sum_list (map (\<lambda>f. length (sfr_raw f)) fs)"

lemma streamed_bytes_simps [simp]:
  "streamed_bytes [] = 0" "streamed_bytes (f # fs) = length (sfr_raw f) + streamed_bytes fs"
  "streamed_bytes (fs @ gs) = streamed_bytes fs + streamed_bytes gs"
  by (simp_all add: streamed_bytes_def)

lemma feed_loop_scan:
  "feed_loop sha fr skipped frames = (fr', skipped', frames') \<Longrightarrow>
   frames' = frames @ map (mk_streamed_at sha) (fst (scan_of fr)) \<and>
   (sf_byte_offset fr', sf_buffer fr') = snd (scan_of fr) \<and>
   sf_max_frame_length fr' = sf_max_frame_length fr \<and>
   sf_stray_bytes fr' + skipped' + streamed_bytes frames' + length (sf_buffer fr') =
   sf_stray_bytes fr + skipped + streamed_bytes frames + length (sf_buffer fr)"
proof (induction "length (sf_buffer fr)" arbitrary: fr skipped frames rule: less_induct)
  case less
  show ?case
  proof (cases "head_of fr")
    case Wait
    with less.prems show ?thesis by (auto simp: feed_loop_Wait scan_Wait)
  next
    case Skip
    have len: "0 < length (sf_buffer fr)"
      using scan_head_Skip [OF Skip] by simp
    have "feed_loop sha (skip_one fr) (skipped + 1) frames = (fr', skipped', frames')"
      using less.prems by (simp only: feed_loop_Skip [OF Skip])
    note IH = less.hyps [OF _ this]
    have scan: "scan_of fr = scan_of (skip_one fr)"
      by (simp add: scan_Skip [OF Skip])
    show ?thesis
      unfolding scan using IH len by auto
  next
    case (Frame n)
    let ?raw = "take n (sf_buffer fr)"
    let ?frame = "mk_streamed sha (sf_byte_offset fr) ?raw"
    let ?fr = "accept_frame skipped ?raw ?frame fr"
    note f = scan_head_FrameD [OF Frame]
    have len: "0 < n" "n \<le> length (sf_buffer fr)" using f by simp_all
    have "feed_loop sha ?fr 0 (frames @ [?frame]) = (fr', skipped', frames')"
      using less.prems by (simp only: feed_loop_Frame [OF Frame] Let_def)
    moreover have "length (sf_buffer ?fr) < length (sf_buffer fr)" using len by simp
    ultimately have IH: "frames' = (frames @ [?frame]) @ map (mk_streamed_at sha) (fst (scan_of ?fr)) \<and>
        (sf_byte_offset fr', sf_buffer fr') = snd (scan_of ?fr) \<and>
        sf_max_frame_length fr' = sf_max_frame_length ?fr \<and>
        sf_stray_bytes fr' + skipped' + streamed_bytes frames' + length (sf_buffer fr') =
        sf_stray_bytes ?fr + 0 + streamed_bytes (frames @ [?frame]) + length (sf_buffer ?fr)"
      by (rule less.hyps [rotated])
    have scan: "scan_of fr = ((sf_byte_offset fr, ?raw) # fst (scan_of ?fr), snd (scan_of ?fr))"
      using f by (simp add: scan_Frame [OF Frame])
    have raw: "length (sfr_raw ?frame) = n" using f by (simp add: mk_streamed_def)
    show ?thesis
      unfolding scan using IH len raw by auto
  qed
qed

lemma feed_cases:
  obtains fr2 skipped frames where
    "feed_loop sha (fr\<lparr>sf_buffer := sf_buffer fr @ chunk, sf_pending_stray := 0\<rparr>) (sf_pending_stray fr) [] =
       (fr2, skipped, frames)"
    "feed sha fr chunk = (frames, report_stray skipped (sf_byte_offset fr2 + length (sf_buffer fr2)) fr2)"
  by (metis (no_types, lifting) case_prod_conv feed_def prod_cases3)

lemma feed_scan:
  assumes "feed sha fr chunk = (frames, fr')"
  shows "frames = map (mk_streamed_at sha)
      (scan_frames (sf_max_frame_length fr) (sf_byte_offset fr) (sf_buffer fr @ chunk))"
    "(sf_byte_offset fr', sf_buffer fr') =
      snd (scan (sf_max_frame_length fr) (sf_byte_offset fr) (sf_buffer fr @ chunk))"
    "sf_max_frame_length fr' = sf_max_frame_length fr"
    "sf_stray_bytes fr' + streamed_bytes frames + length (sf_buffer fr') =
      sf_stray_bytes fr + sf_pending_stray fr + length (sf_buffer fr) + length chunk"
proof -
  obtain fr2 skipped where
    L: "feed_loop sha (fr\<lparr>sf_buffer := sf_buffer fr @ chunk, sf_pending_stray := 0\<rparr>)
          (sf_pending_stray fr) [] = (fr2, skipped, frames)"
    and E: "fr' = report_stray skipped (sf_byte_offset fr2 + length (sf_buffer fr2)) fr2"
    using feed_cases [of sha fr chunk] assms by (metis Pair_inject)
  note l = feed_loop_scan [OF L, simplified]
  show "frames = map (mk_streamed_at sha)
      (scan_frames (sf_max_frame_length fr) (sf_byte_offset fr) (sf_buffer fr @ chunk))"
    "(sf_byte_offset fr', sf_buffer fr') =
      snd (scan (sf_max_frame_length fr) (sf_byte_offset fr) (sf_buffer fr @ chunk))"
    "sf_max_frame_length fr' = sf_max_frame_length fr"
    "sf_stray_bytes fr' + streamed_bytes frames + length (sf_buffer fr') =
      sf_stray_bytes fr + sf_pending_stray fr + length (sf_buffer fr) + length chunk"
    using l by (auto simp: E)
qed

section \<open>Cutting the wire into reads\<close>

text \<open>
  The interface between a consumer of chunks and its specification: \<open>obs\<close> is the part of the state
  that decides what comes next, \<open>spec\<close> says what a run of items yields from there, and running it on
  two pieces is running it on their concatenation. The client's lemma: for the outputs and the
  observable state only the concatenation of the chunks matters.
\<close>

locale chunk_consumer =
  fixes consume :: "'s \<Rightarrow> 'c list \<Rightarrow> 'o list \<times> 's"
    and obs :: "'s \<Rightarrow> 'b"
    and spec :: "'b \<Rightarrow> 'c list \<Rightarrow> 'o list \<times> 'b"
  assumes consume_spec: "consume s c = (out, s') \<Longrightarrow> spec (obs s) c = (out, obs s')"
    and spec_append: "spec b (x @ y) =
      (case spec b x of (o1, b1) \<Rightarrow> case spec b1 y of (o2, b2) \<Rightarrow> (o1 @ o2, b2))"
begin

fun consume_all :: "'s \<Rightarrow> 'c list list \<Rightarrow> 'o list \<times> 's" where
  "consume_all s [] = ([], s)"
| "consume_all s (c # cs) =
     (case consume s c of (o1, s1) \<Rightarrow> case consume_all s1 cs of (o2, s2) \<Rightarrow> (o1 @ o2, s2))"

lemma consume_all_spec:
  "consume_all s cs = (out, s') \<Longrightarrow> cs \<noteq> [] \<Longrightarrow> spec (obs s) (concat cs) = (out, obs s')"
proof (induction cs arbitrary: s out)
  case (Cons c cs)
  obtain o1 s1 where C: "consume s c = (o1, s1)" by (cases "consume s c") auto
  obtain o2 where R: "consume_all s1 cs = (o2, s')" and out: "out = o1 @ o2"
    using Cons.prems(1) C by (auto split: prod.splits)
  show ?case
  proof (cases "cs = []")
    case True
    with R out consume_spec [OF C] show ?thesis by simp
  next
    case False
    with Cons.IH [OF R] consume_spec [OF C] out show ?thesis by (simp add: spec_append)
  qed
qed simp

lemma chunking_irrelevant:
  assumes "consume_all s cs = (out, s1)" and "consume_all s ds = (out', s2)"
    and "cs \<noteq> []" and "ds \<noteq> []" and "concat cs = concat ds"
  shows "out = out' \<and> obs s1 = obs s2"
  using consume_all_spec [OF assms(1,3)] consume_all_spec [OF assms(2,4)] assms(5) by simp

end

text \<open>The framer: what decides the rest of the run is the length bound, the offset and the buffer.\<close>

definition framer_pos :: "framer \<Rightarrow> int \<times> nat \<times> bytes" where
  "framer_pos fr = (sf_max_frame_length fr, sf_byte_offset fr, sf_buffer fr)"

definition scan_spec ::
  "(bytes \<Rightarrow> string) \<Rightarrow> int \<times> nat \<times> bytes \<Rightarrow> bytes \<Rightarrow> streamed_frame list \<times> (int \<times> nat \<times> bytes)" where
  "scan_spec sha pos chunk =
     (case pos of (m, off, buf) \<Rightarrow>
        case scan m off (buf @ chunk) of (fs, off', rest) \<Rightarrow> (map (mk_streamed_at sha) fs, (m, off', rest)))"

lemma feed_scan_spec: "feed sha fr c = (out, fr') \<Longrightarrow> scan_spec sha (framer_pos fr) c = (out, framer_pos fr')"
  using feed_scan [of sha fr c out fr']
  by (cases "scan (sf_max_frame_length fr) (sf_byte_offset fr) (sf_buffer fr @ c)")
    (simp add: scan_spec_def framer_pos_def)

lemma scan_spec_append:
  "scan_spec sha b (x @ y) =
   (case scan_spec sha b x of (o1, b1) \<Rightarrow> case scan_spec sha b1 y of (o2, b2) \<Rightarrow> (o1 @ o2, b2))"
  using scan_append [of "fst b" "fst (snd b)" "snd (snd b) @ x" y]
  by (cases b) (simp add: scan_spec_def split: prod.splits)

interpretation live: chunk_consumer "feed sha" framer_pos "scan_spec sha" for sha
  by unfold_locales (rule feed_scan_spec scan_spec_append; assumption?)+

text \<open>\<open>for chunk in chunks: frames += framer.feed(chunk)\<close>\<close>

fun feed_all :: "(bytes \<Rightarrow> string) \<Rightarrow> framer \<Rightarrow> bytes list \<Rightarrow> streamed_frame list \<times> framer" where
  "feed_all sha fr [] = ([], fr)"
| "feed_all sha fr (c # cs) =
     (case feed sha fr c of (o1, fr1) \<Rightarrow> case feed_all sha fr1 cs of (o2, fr2) \<Rightarrow> (o1 @ o2, fr2))"

lemma feed_all_eq: "live.consume_all sha fr cs = feed_all sha fr cs"
  by (induction cs arbitrary: fr) (auto split: prod.split)

section \<open>Properties\<close>

lemma scan_frames_are_frames: "(pos, raw) \<in> set (scan_frames m off rest) \<Longrightarrow> is_frame m raw"
proof (induction m off rest rule: scan.induct)
  case (1 m off rest)
  show ?case
  proof (cases "scan_head m rest")
    case (Frame n)
    have "scan_head m (take n rest) = Frame n"
      using scan_head_Frame [OF Frame] by (simp add: scan_head_def)
    moreover have "length (take n rest) = n" using scan_head_Frame(2) [OF Frame] by simp
    ultimately have "is_frame m (take n rest)" by (simp add: is_frame_def)
    with Frame "1.prems" "1.IH"(2) [OF Frame] show ?thesis by (auto simp: scan_Frame)
  qed (use 1 in \<open>auto simp: scan_Wait scan_Skip\<close>)
qed

lemma empty_payload: "is_frame m raw \<Longrightarrow> frame_len (raw ! 1) (raw ! 2) = 0 \<Longrightarrow> raw_payload raw = []"
  by (auto simp: is_frame_altdef raw_payload_def raw_body_def HEADER_LENGTH_def CRC_LENGTH_def)

lemma mk_streamed_parsed:
  assumes "is_frame m raw"
  shows "mk_streamed sha off raw =
    \<lparr>sfr_byte_offset = fr_offset (pf_record (mk_parsed sha off raw)),
     sfr_raw = pf_raw (mk_parsed sha off raw),
     sfr_message_number = fr_message_number (pf_record (mk_parsed sha off raw)),
     sfr_crc_ok = (fr_crc_status (pf_record (mk_parsed sha off raw)) = CRC_PASS),
     sfr_frame_sha256 = fr_raw_hash (pf_record (mk_parsed sha off raw))\<rparr>"
  using empty_payload [OF assms] by (simp add: mk_streamed_def mk_parsed_def)

text \<open>The streamed frame that carries the same facts as a parsed one.\<close>

definition streamed_of :: "parsed_frame \<Rightarrow> streamed_frame" where
  "streamed_of p =
     \<lparr>sfr_byte_offset = fr_offset (pf_record p), sfr_raw = pf_raw p,
      sfr_message_number = fr_message_number (pf_record p),
      sfr_crc_ok = (fr_crc_status (pf_record p) = CRC_PASS),
      sfr_frame_sha256 = fr_raw_hash (pf_record p)\<rparr>"

lemma streamed_of_scan:
  "map (mk_streamed_at sha) (scan_frames m off rest) =
   map streamed_of (map (mk_parsed_at sha) (scan_frames m off rest))"
  by (simp only: map_map, rule map_cong [OF refl])
    (auto simp: streamed_of_def mk_streamed_parsed dest!: scan_frames_are_frames)

lemma feed_all_frames:
  assumes init: "framer_init m = Inr fr" and run: "feed_all sha fr chunks = (frames, fr')"
  shows "frames = map (mk_streamed_at sha) (scan_frames m 0 (concat chunks))"
proof -
  have pos: "framer_pos fr = (m, 0, [])"
    using init by (auto simp: framer_init_def framer_pos_def split: if_splits)
  show ?thesis
  proof (cases "chunks = []")
    case True
    with run show ?thesis by (simp add: scan_Wait)
  next
    case False
    with live.consume_all_spec [of sha fr chunks frames fr'] run show ?thesis
      by (auto simp: feed_all_eq pos scan_spec_def split: prod.splits)
  qed
qed

lemma feed_all_parsed:
  assumes "framer_init m = Inr fr" and "feed_all sha fr chunks = (frames, fr')"
    and "int (length frames) \<le> ev"
  shows "frames = map streamed_of (pr_frames (parse_stream sha m ev (concat chunks)))"
  using feed_all_frames [OF assms(1,2)] assms(3)
  by (simp only: streamed_of_scan) (simp add: parse_stream_frames)

lemma feed_all_append:
  "feed_all sha fr (cs @ ds) =
     (case feed_all sha fr cs of (o1, fr1) \<Rightarrow> case feed_all sha fr1 ds of (o2, fr2) \<Rightarrow> (o1 @ o2, fr2))"
  by (induction cs arbitrary: fr) (auto split: prod.split)

text \<open>
  C4. Live framing is chunk independent and agrees with the recorded-stream parser. However the
  wire is cut into reads, the frames that \<open>feed\<close> returns over all reads are the frames of
  \<open>parse_stream\<close> on the concatenated bytes: the same offsets, bytes, message numbers, checksum
  verdicts and digests, in the same order.
\<close>

theorem live_framing_is_parse_stream:
  assumes init: "framer_init m = Inr fr" and run: "feed_all sha fr chunks = (frames, fr')"
    and room: "int (length frames) \<le> ev"
  shows "frames = map streamed_of (pr_frames (parse_stream sha m ev (concat chunks)))"
  by (rule feed_all_parsed [OF assms])

lemma live_framing_is_parse_stream_witness:
  "fst (feed_all (\<lambda>_. []) \<lparr>sf_max_frame_length = 1023, sf_buffer = [], sf_byte_offset = 0,
      sf_findings = [], sf_stray_bytes = 0, sf_pending_stray = 0\<rparr> [[7, 0xD3], [0]]) =
   map streamed_of (pr_frames (parse_stream (\<lambda>_. []) 1023 5 (concat [[7, 0xD3], [0]])))"
proof -
  let ?fr = "\<lparr>sf_max_frame_length = 1023, sf_buffer = [], sf_byte_offset = 0,
      sf_findings = [], sf_stray_bytes = 0, sf_pending_stray = 0\<rparr> :: framer"
  obtain frames fr' where R: "feed_all (\<lambda>_. []) ?fr [[7, 0xD3], [0]] = (frames, fr')"
    by (cases "feed_all (\<lambda>_. []) ?fr [[7, 0xD3], [0]]")
  have "length frames = 0"
    using R by (auto simp: feed_def feed_loop.simps pop_byte_def PREAMBLE_def HEADER_LENGTH_def Let_def
        report_stray_def add_finding_def)
  moreover have "framer_init 1023 = Inr ?fr"
    by (simp add: framer_init_def MAX_RTCM_LENGTH_def LENGTH_BITS_def)
  ultimately show ?thesis
    using live_framing_is_parse_stream [of 1023 ?fr "\<lambda>_. []" "[[7, 0xD3], [0]]" frames fr' 5] R by simp
qed

text \<open>
  C38. Bounded buffering. After every \<open>feed\<close>, whatever the chunk, the framer holds back less than one
  maximal frame: at most \<open>max_frame_length + 5\<close> bytes.
\<close>

theorem feed_buffer_bounded:
  assumes "feed sha fr chunk = (frames, fr')" and "1 \<le> sf_max_frame_length fr"
  shows "int (pending_bytes fr') \<le> sf_max_frame_length fr + 5"
proof -
  have "scan_head (sf_max_frame_length fr) (sf_buffer fr') = Wait"
    using scan_stops feed_scan(2) [OF assms(1)] by (metis snd_conv)
  with assms(2) show ?thesis
    by (auto simp: scan_head_def pending_bytes_def split: if_splits)
qed

lemma feed_buffer_bounded_witness:
  "\<exists>frames fr'. feed (\<lambda>_. []) \<lparr>sf_max_frame_length = 4, sf_buffer = [], sf_byte_offset = 0,
      sf_findings = [], sf_stray_bytes = 0, sf_pending_stray = 0\<rparr> (replicate 100 0xD3) = (frames, fr') \<and>
    int (pending_bytes fr') \<le> 9"
  using feed_buffer_bounded [of "\<lambda>_. []" "\<lparr>sf_max_frame_length = 4, sf_buffer = [],
    sf_byte_offset = 0, sf_findings = [], sf_stray_bytes = 0, sf_pending_stray = 0\<rparr>" "replicate 100 0xD3"]
  by (cases "feed (\<lambda>_. []) \<lparr>sf_max_frame_length = 4, sf_buffer = [], sf_byte_offset = 0,
      sf_findings = [], sf_stray_bytes = 0, sf_pending_stray = 0\<rparr> (replicate 100 0xD3)") auto

text \<open>
  Byte accounting of a read, and its flaw. What \<open>feed\<close> reports as stray, returns in frames and
  keeps adds up to what it held and received plus the stray bytes left pending by the read before:
  those were already counted then, so every read that ends inside a frame makes the next one count
  the bytes before that frame a second time. One junk byte before a frame cut into two reads is
  reported as two stray bytes.
\<close>

theorem feed_accounts_stray_twice:
  "(\<forall>fr chunk. case feed sha fr chunk of (frames, fr') \<Rightarrow>
      sf_stray_bytes fr' + streamed_bytes frames + pending_bytes fr' =
      sf_stray_bytes fr + sf_pending_stray fr + pending_bytes fr + length chunk) \<and>
   (\<exists>fr chunks frames fr'. framer_init 1023 = Inr fr \<and> feed_all sha fr chunks = (frames, fr') \<and>
      concat chunks = [7, 0xD3, 0, 0, 1, 2, 3] \<and> map sfr_raw frames = [[0xD3, 0, 0, 1, 2, 3]] \<and>
      pending_bytes fr' = 0 \<and> sf_stray_bytes fr' = 2)"
proof (intro conjI allI)
  fix fr chunk
  show "case feed sha fr chunk of (frames, fr') \<Rightarrow>
      sf_stray_bytes fr' + streamed_bytes frames + pending_bytes fr' =
      sf_stray_bytes fr + sf_pending_stray fr + pending_bytes fr + length chunk"
    using feed_scan(4) [of sha fr chunk] by (simp add: pending_bytes_def split: prod.split)
next
  let ?fr = "\<lparr>sf_max_frame_length = 1023, sf_buffer = [], sf_byte_offset = 0,
      sf_findings = [], sf_stray_bytes = 0, sf_pending_stray = 0\<rparr> :: framer"
  let ?chunks = "[[7, 0xD3, 0, 0], [1, 2, 3]] :: bytes list"
  have init: "framer_init 1023 = Inr ?fr"
    by (simp add: framer_init_def MAX_RTCM_LENGTH_def LENGTH_BITS_def)
  obtain frames fr' where R: "feed_all sha ?fr ?chunks = (frames, fr')" by (cases "feed_all sha ?fr ?chunks")
  then have "map sfr_raw frames = [[0xD3, 0, 0, 1, 2, 3]]" "pending_bytes fr' = 0" "sf_stray_bytes fr' = 2"
    by (auto simp: feed_def feed_loop.simps pop_byte_def PREAMBLE_def HEADER_LENGTH_def CRC_LENGTH_def
        Let_def frame_len_def mk_streamed_def pending_bytes_def)
  with init R show "\<exists>fr chunks frames fr'. framer_init 1023 = Inr fr \<and> feed_all sha fr chunks = (frames, fr') \<and>
      concat chunks = [7, 0xD3, 0, 0, 1, 2, 3] \<and> map sfr_raw frames = [[0xD3, 0, 0, 1, 2, 3]] \<and>
      pending_bytes fr' = 0 \<and> sf_stray_bytes fr' = 2"
    by (intro exI [of _ ?fr] exI [of _ ?chunks] exI [of _ frames] exI [of _ fr']) simp
qed

end
