(* ===== verification/Rtcm_Pipeline.thy ===== *)
theory Rtcm_Pipeline
  imports Rtcm_Replay_Out Rtcm_Streaming
begin

text \<open>
  From bytes to replay: the timeline over the parsed frames, the plan over the timeline, the loop
  cycles of the plan, and the whole way from \<open>parse_stream\<close> through \<open>build_timeline\<close> and
  \<open>apply_plan\<close> to the frames the consumer receives.
\<close>

section \<open>Timeline events point at their frames\<close>

lemma scan_frames_slice:
  "(off', raw) \<in> set (scan_frames m off rest) \<Longrightarrow>
   off \<le> off' \<and> off' - off + length raw \<le> length rest \<and> take (length raw) (drop (off' - off) rest) = raw"
proof (induction m off rest rule: scan.induct)
  case (1 m off rest)
  show ?case
  proof (cases "scan_head m rest")
    case Wait
    with 1 show ?thesis by (simp add: scan_Wait)
  next
    case Skip
    from "1.IH"(1) [OF Skip] "1.prems" Skip obtain k where k: "off' = Suc off + k"
      "k + length raw \<le> length (drop 1 rest)" "take (length raw) (drop k (drop 1 rest)) = raw"
      using le_Suc_ex [of "Suc off" off'] by (auto simp: scan_Skip)
    with scan_head_Skip [OF Skip] show ?thesis by (cases rest) auto
  next
    case (Frame n)
    note n = scan_head_Frame(2) [OF Frame]
    show ?thesis
    proof (cases "(off', raw) = (off, take n rest)")
      case True
      with n show ?thesis by simp
    next
      case False
      with "1.prems" Frame have "(off', raw) \<in> set (scan_frames m (off + n) (drop n rest))"
        by (auto simp: scan_Frame)
      note ih = "1.IH"(2) [OF Frame this]
      define k where "k = off' - (off + n)"
      have off: "off' = off + n + k" using ih by (simp add: k_def)
      have k: "k + length raw \<le> length rest - n" "take (length raw) (drop k (drop n rest)) = raw"
        unfolding k_def using ih by (simp_all only: length_drop)
      show ?thesis using k n by (simp add: off add.commute)
    qed
  qed
qed

lemma parsed_frame_in_source:
  assumes "p \<in> set (pr_frames (parse_stream sha m ev data))" and "0 \<le> ev"
  shows "fr_offset (pf_record p) + fr_frame_length (pf_record p) + 6 \<le> length data"
    "take (3 + fr_frame_length (pf_record p) + 3) (drop (fr_offset (pf_record p)) data) = pf_raw p"
    "fr_crc_status (pf_record p) = CRC_PASS \<longleftrightarrow> raw_crc_ok (pf_raw p)"
proof -
  obtain off raw where x: "(off, raw) \<in> set (scan_frames m 0 data)" and p: "p = mk_parsed sha off raw"
    using assms by (auto simp: parse_stream_frames dest!: in_set_takeD)
  have f: "is_frame m raw" by (rule scan_frames_are_frames [OF x])
  have len: "frame_len (raw ! 1) (raw ! 2) + 6 = length raw"
    using f is_frame_length [OF f] by (simp add: is_frame_altdef)
  have s: "off + length raw \<le> length data" "take (length raw) (drop off data) = raw"
    using scan_frames_slice [OF x] by auto
  show "fr_offset (pf_record p) + fr_frame_length (pf_record p) + 6 \<le> length data"
    using s(1) len by (simp add: p mk_parsed_def)
  have "3 + frame_len (raw ! 1) (raw ! 2) + 3 = length raw" using len by simp
  then show "take (3 + fr_frame_length (pf_record p) + 3) (drop (fr_offset (pf_record p)) data) = pf_raw p"
    using s(2) by (simp add: p mk_parsed_def)
  show "fr_crc_status (pf_record p) = CRC_PASS \<longleftrightarrow> raw_crc_ok (pf_raw p)"
    by (simp add: p mk_parsed_def)
qed

text \<open>The events of a timeline that replays valid frames only.\<close>

lemma timeline_event_frame:
  assumes "build_timeline frames arrival n True = Inr events" and "e \<in> set events"
  obtains p where "p \<in> set frames" "fr_crc_status (pf_record p) = CRC_PASS"
    "ev_source_offset e = fr_offset (pf_record p)" "ev_frame_length e = fr_frame_length (pf_record p)"
    "ev_message_number e = fr_message_number (pf_record p)" "ev_raw_hash e = fr_raw_hash (pf_record p)"
proof -
  let ?xs = "eligible_frames frames True"
  have ev: "events = timeline_events arrival n 0 None ?xs" by (rule build_timeline_ok [OF assms(1)])
  then obtain i where i: "i < length ?xs" "e = event_of arrival n (first_stamp arrival n ?xs) i (?xs ! i)"
    using assms(2) timeline_events_nth by (metis in_set_conv_nth timeline_events_length)
  have "?xs ! i \<in> set ?xs" using i(1) by simp
  then have "snd (?xs ! i) \<in> set frames" "fr_crc_status (pf_record (snd (?xs ! i))) = CRC_PASS"
    by (auto simp: eligible_frames_def in_set_enumerate_eq)
  with that i(2) show thesis by (simp add: event_of_def Let_def)
qed

lemma timeline_sequences:
  assumes "build_timeline frames arrival n only = Inr events"
  shows "map ev_sequence events = [0..<length events]"
proof (rule nth_equalityI)
  fix i
  assume "i < length (map ev_sequence events)"
  then show "map ev_sequence events ! i = [0..<length events] ! i"
    using build_timeline_ok [OF assms] timeline_events_nth [of i "eligible_frames frames only" arrival n]
    by (simp add: event_of_def Let_def)
qed simp

section \<open>The timeline\<close>

definition schedule_ok :: "int list option \<Rightarrow> int \<Rightarrow> bool" where
  "schedule_ok arrival_ms nominal_interval_ms =
     (case arrival_ms of None \<Rightarrow> 0 \<le> nominal_interval_ms | Some xs \<Rightarrow> sorted xs)"

text \<open>
  The timeline. Over parsed frames with an ordered arrival schedule (or a non-negative nominal
  interval) \<open>build_timeline\<close> yields one event per frame that passed its checksum and none for the
  others, in stream order, numbered consecutively from 0; the relative times start at 0 and never
  decrease. A schedule of the wrong length is refused with \<open>ValueError\<close>.
\<close>

theorem timeline_well_formed:
  assumes ok: "schedule_ok arrival n"
  shows "case build_timeline frames arrival n True of
      Inl e \<Rightarrow> (\<exists>s xs. e = ValueError s \<and> arrival = Some xs \<and> length xs \<noteq> length frames)
    | Inr events \<Rightarrow>
        map ev_raw_hash events =
          map (\<lambda>p. fr_raw_hash (pf_record p)) (filter (\<lambda>p. fr_crc_status (pf_record p) = CRC_PASS) frames) \<and>
        map ev_sequence events = [0..<length events] \<and>
        (events \<noteq> [] \<longrightarrow> ev_relative_time_ms (hd events) = 0) \<and>
        sorted (map ev_relative_time_ms events)"
proof (cases "build_timeline frames arrival n True")
  case (Inl e)
  then show ?thesis by (auto simp: build_timeline_def split: option.splits if_splits)
next
  case (Inr events)
  let ?xs = "eligible_frames frames True"
  let ?b = "first_stamp arrival n ?xs"
  have ev: "events = timeline_events arrival n 0 None ?xs" by (rule build_timeline_ok [OF Inr])
  have nth: "i < length ?xs \<Longrightarrow> events ! i = event_of arrival n ?b i (?xs ! i)" for i
    by (simp add: ev timeline_events_nth)
  have len: "length events = length ?xs" by (simp add: ev)
  have hashes: "map ev_raw_hash events = map (\<lambda>p. fr_raw_hash (pf_record p)) (map snd ?xs)"
    using nth len by (intro nth_equalityI) (auto simp: event_of_def Let_def)
  have "stamp_of arrival n i (fst (?xs ! i)) \<le> stamp_of arrival n j (fst (?xs ! j))"
    if "i \<le> j" "j < length ?xs" for i j
  proof (cases arrival)
    case None
    with ok that(1) show ?thesis by (simp add: stamp_of_def schedule_ok_def mult_right_mono)
  next
    case (Some as)
    then have "length as = length frames" "sorted as"
      using ok Inr by (auto simp: schedule_ok_def build_timeline_def split: if_splits)
    moreover have "fst (?xs ! j) < length frames"
      using eligible_frames_index [of "fst (?xs ! j)" "snd (?xs ! j)" frames True] that(2) by simp
    moreover have "fst (?xs ! i) \<le> fst (?xs ! j)"
      using that sorted_wrt_nth_less [OF eligible_frames_sorted [of frames True], of i j]
      by (cases "i = j") auto
    ultimately show ?thesis using Some by (simp add: stamp_of_def sorted_nth_mono)
  qed
  then have "sorted (map ev_relative_time_ms events)"
    using nth len by (auto simp: sorted_iff_nth_mono event_of_def Let_def)
  moreover have "ev_relative_time_ms (hd events) = 0" if "events \<noteq> []"
  proof -
    from that len have "?xs \<noteq> []" by auto
    with nth [of 0] that show ?thesis
      by (cases ?xs) (simp_all add: hd_conv_nth event_of_def first_stamp_def Let_def)
  qed
  ultimately show ?thesis
    using Inr hashes timeline_sequences [OF Inr] eligible_frames_parsed [of frames True] by simp
qed

lemma timeline_well_formed_witness:
  "\<exists>events. build_timeline [] (Some []) 1000 True = Inr events \<and> map ev_sequence events = [0..<length events]"
  using timeline_well_formed [of "Some []" 1000 "[]"] by (simp add: schedule_ok_def build_timeline_def)

section \<open>The plan\<close>

text \<open>The events a configuration selects.\<close>

definition selects :: "replay_config \<Rightarrow> replay_event \<Rightarrow> bool" where
  "selects config e \<longleftrightarrow>
     (case rc_start_sequence config of None \<Rightarrow> True | Some a \<Rightarrow> a \<le> int (ev_sequence e)) \<and>
     (case rc_end_sequence config of None \<Rightarrow> True | Some b \<Rightarrow> int (ev_sequence e) \<le> b) \<and>
     (case rc_start_time config of None \<Rightarrow> True | Some a \<Rightarrow> a \<le> stamp_text e) \<and>
     (case rc_end_time config of None \<Rightarrow> True | Some b \<Rightarrow> stamp_text e \<le> b) \<and>
     (rc_message_filter config = [] \<or> wanted_message (rc_message_filter config) e)"

lemma slice_sequence_eq:
  "slice_sequence config evs = filter (\<lambda>e.
     (case rc_start_sequence config of None \<Rightarrow> True | Some a \<Rightarrow> a \<le> int (ev_sequence e)) \<and>
     (case rc_end_sequence config of None \<Rightarrow> True | Some b \<Rightarrow> int (ev_sequence e) \<le> b)) evs"
  by (auto simp: slice_sequence_def Let_def conj_commute split: option.split)

lemma slice_time_eq:
  assumes "slice_time config es = Inr ts"
  shows "ts = filter (\<lambda>e. (case rc_start_time config of None \<Rightarrow> True | Some a \<Rightarrow> a \<le> stamp_text e) \<and>
     (case rc_end_time config of None \<Rightarrow> True | Some b \<Rightarrow> stamp_text e \<le> b)) es"
proof (cases "rc_start_time config = None \<and> rc_end_time config = None")
  case True
  with assms show ?thesis by (simp add: slice_time_def)
next
  case False
  let ?timed = "filter (\<lambda>e. ev_original_timestamp e \<noteq> None) es"
  have "length ?timed = length es" using assms False by (auto simp: slice_time_def Let_def split: if_splits)
  then have "?timed = es" using filter_id_conv [of "\<lambda>e. ev_original_timestamp e \<noteq> None" es]
    by (metis length_filter_less less_irrefl filter_id_conv)
  with assms False show ?thesis
    by (auto simp: slice_time_def Let_def conj_commute split: option.splits if_splits)
qed

lemma plan_selects_events:
  assumes "apply_plan evs config fp = Inr plan"
  shows "pl_events plan = concat (replicate (nat (rc_loop_cycles config)) (filter (selects config) evs))"
    "config_validate config = []"
    "int (length (filter (selects config) evs)) \<le> rc_max_events config"
proof -
  have v: "config_assert_valid config = Inr ()"
    using assms by (auto simp: apply_plan_def)
  from v assms obtain ts where t: "slice_time config (slice_sequence config evs) = Inr ts"
    by (auto simp: apply_plan_def)
  then obtain selected findings where f: "filter_messages config ts = (selected, findings)"
    by (cases "filter_messages config ts")
  have p: "int (length selected) \<le> rc_max_events config"
    "pl_events plan = concat (replicate (nat (rc_loop_cycles config)) selected)"
    using assms v t f by (auto simp: apply_plan_def simp del: append_Cons split: if_splits)
  moreover have "fst (filter_messages config ts) = filter (selects config) evs"
    unfolding filter_messages_def slice_time_eq [OF t] slice_sequence_eq selects_def
    by (auto simp: Let_def conj_ac intro!: filter_cong)
  ultimately show "pl_events plan = concat (replicate (nat (rc_loop_cycles config)) (filter (selects config) evs))"
    "config_validate config = []"
    "int (length (filter (selects config) evs)) \<le> rc_max_events config"
    using p f v by (simp_all add: config_assert_valid_Inr)
qed

text \<open>
  The plan. When \<open>apply_plan\<close> succeeds, the configuration is valid and the planned events are the
  events of the timeline that satisfy every bound and the message filter, in timeline order,
  repeated once per loop cycle, at most \<open>max_events\<close> per cycle; a cycle that would be longer is
  refused, never cut short.
\<close>

theorem plan_selects:
  "case apply_plan evs config fp of
     Inl e \<Rightarrow> (\<exists>s. e = AdmissionBlocked s)
   | Inr plan \<Rightarrow>
       config_validate config = [] \<and>
       pl_events plan = concat (replicate (nat (rc_loop_cycles config)) (filter (selects config) evs)) \<and>
       int (length (filter (selects config) evs)) \<le> rc_max_events config"
proof (cases "apply_plan evs config fp")
  case (Inl e)
  then show ?thesis
    by (auto simp: apply_plan_def bind_result_def config_assert_valid_def blocked_with_def slice_time_def
        filter_messages_def Let_def split: sum.splits if_splits prod.splits)
next
  case (Inr plan)
  from plan_selects_events [OF Inr] Inr show ?thesis by simp
qed

text \<open>
  The time bounds compare text. With a start time of 10000 ms \<open>apply_plan\<close> keeps the event
  stamped 9000 ms, which lies before the bound, and with an end time of 9000 ms it drops nothing
  at 10000 ms: the stamps are decimal strings and the comparison is lexicographic.
\<close>

theorem time_slice_is_lexicographic:
  "slice_time (default_replay_config\<lparr>rc_start_time := Some (str_int 10000)\<rparr>)
     [demo_event 0\<lparr>ev_original_timestamp := Some (str_int 9000)\<rparr>] =
   Inr [demo_event 0\<lparr>ev_original_timestamp := Some (str_int 9000)\<rparr>] \<and>
   slice_time (default_replay_config\<lparr>rc_end_time := Some (str_int 9000)\<rparr>)
     [demo_event 0\<lparr>ev_original_timestamp := Some (str_int 10000)\<rparr>] =
   Inr [demo_event 0\<lparr>ev_original_timestamp := Some (str_int 10000)\<rparr>]"
proof -
  have "str_int 10000 \<le> str_int 9000"
    by (simp add: str_int_def str_nat_def nat_digits.simps digit_char_def less_char_def less_eq_char_def)
  then show ?thesis
    by (simp add: slice_time_def stamp_text_def default_replay_config_def Let_def)
qed

section \<open>Loop cycles\<close>

lemma enumerate_concat_replicate:
  "zip (concat (replicate k xs)) (concat (map (replicate (length xs)) [a..<a + k])) =
   concat (map (\<lambda>cy. map (\<lambda>e. (e, cy)) xs) [a..<a + k])"
proof (induction k arbitrary: a)
  case (Suc k)
  have "zip xs (replicate (length xs) a) = map (\<lambda>e. (e, a)) xs" by (induction xs) auto
  moreover have "[a..<a + Suc k] = a # [Suc a..<Suc a + k]" by (simp add: upt_conv_Cons del: upt_Suc)
  ultimately show ?case using Suc [of "Suc a"] by (simp del: upt_Suc)
qed simp

text \<open>
  Loop cycles. Over a plan of \<open>k\<close> repetitions of the selected events the controller labels the
  repetitions 0, 1, .., \<open>k - 1\<close> in order, so that no two planned events share cycle and sequence
  when the selected events have distinct sequences: a repetition is never a duplicate.
\<close>

theorem cycles_label_repetitions:
  assumes k: "1 \<le> k"
  shows "zip (concat (replicate (nat k) xs)) (assign_cycles (length (concat (replicate (nat k) xs))) k) =
      concat (map (\<lambda>cy. map (\<lambda>e. (e, cy)) xs) [0..<nat k]) \<and>
    (distinct (map ev_sequence xs) \<longrightarrow>
      distinct (map (\<lambda>(e, cy). (cy, ev_sequence e))
        (zip (concat (replicate (nat k) xs)) (assign_cycles (length (concat (replicate (nat k) xs))) k))))"
proof -
  let ?n = "nat k"
  have len: "length (concat (replicate ?n xs)) = ?n * length xs"
    by (simp add: length_concat)
  have eq: "zip (concat (replicate ?n xs)) (assign_cycles (length (concat (replicate ?n xs))) k) =
      concat (map (\<lambda>cy. map (\<lambda>e. (e, cy)) xs) [0..<?n])"
  proof (cases "k = 1 \<or> xs = []")
    case True
    have "zip xs (replicate (length xs) 0) = map (\<lambda>e. (e, 0)) xs" by (induction xs) auto
    with True show ?thesis by (auto simp: assign_cycles_def)
  next
    case False
    then have "0 < length xs" "1 < k" using k by auto
    then have "assign_cycles (?n * length xs) k = concat (map (replicate (length xs)) [0..<?n])"
      by (simp add: assign_cycles_def Let_def length_concat comp_def sum_list_triv)
    with enumerate_concat_replicate [of ?n xs 0] show ?thesis by (simp only: len add_0)
  qed
  have "distinct (map (\<lambda>(e, cy). (cy, ev_sequence e)) (concat (map (\<lambda>cy. map (\<lambda>e. (e, cy)) xs) [0..<n])))"
    if "distinct (map ev_sequence xs)" for n
  proof (induction n)
    case (Suc n)
    have "distinct (map ((\<lambda>(e, cy). (cy, ev_sequence e)) \<circ> (\<lambda>e. (e, n))) xs)"
      using that by (auto simp: distinct_map inj_on_def)
    with Suc show ?case by auto
  qed simp
  with eq show ?thesis by simp
qed

lemma cycles_label_repetitions_witness:
  "zip (concat (replicate (nat 2) [demo_event 0, demo_event 1]))
     (assign_cycles (length (concat (replicate (nat 2) [demo_event 0, demo_event 1]))) 2) =
   [(demo_event 0, 0), (demo_event 1, 0), (demo_event 0, 1), (demo_event 1, 1)]"
  using cycles_label_repetitions [of 2 "[demo_event 0, demo_event 1]"] by (simp add: numeral_2_eq_2)

section \<open>The whole way\<close>

lemma emitted_raw_bytes:
  "map cf_raw_bytes (emitted_frames c p t xs) = map (\<lambda>x. event_bytes (ct_source_bytes c) (fst x)) xs"
  by (induction xs arbitrary: p t) (auto simp: Let_def make_frame_def)

lemma timeline_event_in_source:
  assumes "build_timeline (pr_frames (parse_stream sha m ev data)) arrival n True = Inr events"
    and "0 \<le> ev" and "e \<in> set events"
  shows "readable data e" "raw_crc_ok (event_bytes data e)"
    "event_bytes data e \<in> pf_raw ` set (pr_frames (parse_stream sha m ev data))"
proof -
  obtain p where p: "p \<in> set (pr_frames (parse_stream sha m ev data))" "fr_crc_status (pf_record p) = CRC_PASS"
    "ev_source_offset e = fr_offset (pf_record p)" "ev_frame_length e = fr_frame_length (pf_record p)"
    by (rule timeline_event_frame [OF assms(1,3)])
  note s = parsed_frame_in_source [OF p(1) assms(2)]
  show "readable data e" using s(1) p by (simp add: readable_def)
  have "event_bytes data e = pf_raw p" using s(2) p by (simp add: event_bytes_def)
  with s(3) p show "raw_crc_ok (event_bytes data e)"
    "event_bytes data e \<in> pf_raw ` set (pr_frames (parse_stream sha m ev data))" by auto
qed

text \<open>
  C1. Only valid source frames reach the consumer. Parse a byte string, build the timeline, plan it
  and replay it unpaced and without injected faults: the replay completes, and every frame handed
  to the consumer is, byte for byte, one of the frames of the source, with a correct checksum, as
  often and in the order the plan says. No byte that failed its checksum and no byte outside a
  frame is replayed.
\<close>

theorem replay_delivers_valid_source_frames:
  assumes tl: "build_timeline (pr_frames (parse_stream sha m ev data)) arrival n True = Inr events"
    and ev: "0 \<le> ev" and plan: "apply_plan events config fp = Inr plan"
    and new: "new_controller plan config sid st mp data t no_faults prov = Inr c"
    and speed: "rc_speed config = f_zero"
  shows "\<exists>c' out. run collect None c [] = Some (metrics c', c', out) \<and>
    map cf_raw_bytes out =
      map (event_bytes data) (concat (replicate (nat (rc_loop_cycles config)) (filter (selects config) events))) \<and>
    (\<forall>f \<in> set out. raw_crc_ok (cf_raw_bytes f) \<and>
      cf_raw_bytes f \<in> pf_raw ` set (pr_frames (parse_stream sha m ev data)))"
proof -
  have pl: "pl_events plan = concat (replicate (nat (rc_loop_cycles config)) (filter (selects config) events))"
    by (rule plan_selects_events(1) [OF plan])
  then have sub: "set (pl_events plan) \<subseteq> set events" by auto
  note src = timeline_event_in_source [OF tl ev]
  have ok: "replayable plan config data"
    using sub src(1) speed by (auto simp: replayable_def list_all_iff schedulable_unpaced)
  note inv = new_controller_inv [OF new]
  obtain n' c' where R: "run collect None c [] = Some (metrics c', c',
      [] @ emitted_frames c None (ct_clock c) (take n' (remaining c)))" and n': "n' = length (remaining c)"
    using run_collect_ex [of c None "[]"] inv ok by auto
  let ?out = "emitted_frames c None (ct_clock c) (planned c)"
  have "map fst (planned c) = pl_events plan"
    using inv by (simp add: planned_def assign_cycles_length)
  then have raws: "map cf_raw_bytes ?out = map (event_bytes data) (pl_events plan)"
    using inv by (simp add: emitted_raw_bytes flip: map_map [unfolded comp_def])
  have "raw_crc_ok (cf_raw_bytes f) \<and> cf_raw_bytes f \<in> pf_raw ` set (pr_frames (parse_stream sha m ev data))"
    if "f \<in> set ?out" for f
  proof -
    have "cf_raw_bytes f \<in> set (map (event_bytes data) (pl_events plan))"
      using that unfolding raws [symmetric] by simp
    then obtain e where "e \<in> set events" "cf_raw_bytes f = event_bytes data e" using sub by auto
    with src(2,3) show ?thesis by simp
  qed
  with R n' inv raws pl show ?thesis by auto
qed

lemma replay_delivers_valid_source_frames_witness:
  "\<exists>events plan c c' out.
     build_timeline (pr_frames (parse_stream (\<lambda>_. []) (int MAX_RTCM_LENGTH) 5
       [0xD3, 0, 3, 0x3E, 0xD0, 0, 0x7A, 0x79, 0xFE])) None 1000 True = Inr events \<and>
     apply_plan events demo_config [] = Inr plan \<and>
     new_controller plan demo_config [] [] [] [0xD3, 0, 3, 0x3E, 0xD0, 0, 0x7A, 0x79, 0xFE] 0 no_faults [] = Inr c \<and>
     run collect None c [] = Some (metrics c', c', out) \<and>
     map cf_raw_bytes out = [[0xD3, 0, 3, 0x3E, 0xD0, 0, 0x7A, 0x79, 0xFE]]"
proof -
  let ?raw = "[0xD3, 0, 3, 0x3E, 0xD0, 0, 0x7A, 0x79, 0xFE] :: bytes"
  have "is_frame (int MAX_RTCM_LENGTH) ?raw"
    using encoded_clean_stream [of "[([], ?raw)]"] encode_1005 by auto
  from parse_stream_single [OF this, of 5 "\<lambda>_. []"]
  have fr: "pr_frames (parse_stream (\<lambda>_. []) (int MAX_RTCM_LENGTH) 5 ?raw) = [mk_parsed (\<lambda>_. []) 0 ?raw]"
    by simp
  have pass: "fr_crc_status (pf_record (mk_parsed (\<lambda>_. []) 0 ?raw)) = CRC_PASS"
    using encode_frame_shape(5) [OF encode_1005] by (simp add: mk_parsed_def)
  then obtain events where tl: "build_timeline (pr_frames (parse_stream (\<lambda>_. []) (int MAX_RTCM_LENGTH) 5 ?raw))
      None 1000 True = Inr events" and one: "length events = 1"
    by (simp add: fr build_timeline_def eligible_frames_def Let_def)
  have sel: "selects demo_config x" for x
    by (simp add: selects_def demo_config_def default_replay_config_def)
  obtain plan where plan: "apply_plan events demo_config [] = Inr plan"
    using one by (simp add: apply_plan_def demo_config_def default_replay_config_def config_assert_valid_def
        config_validate_def slice_time_def slice_sequence_def filter_messages_def Let_def)
  obtain c where new: "new_controller plan demo_config [] [] [] ?raw 0 no_faults [] = Inr c"
    by (simp add: new_controller_def new_buffer_def demo_config_def default_replay_config_def)
  have speed: "rc_speed demo_config = f_zero" by (simp add: demo_config_def)
  have cyc: "rc_loop_cycles demo_config = 1" by (simp add: demo_config_def default_replay_config_def)
  obtain e where e: "events = [e]" using one by (cases events) auto
  then have "e \<in> set events" by simp
  from timeline_event_in_source(3) [OF tl _ this] have "event_bytes ?raw e = ?raw"
    by (simp add: fr mk_parsed_def)
  with replay_delivers_valid_source_frames [OF tl _ plan new speed] tl plan new show ?thesis
    by (auto simp: sel cyc e)
qed

end
