(* ===== verification/Py_Convert.thy ===== *)
theory Py_Convert
  imports Py_Json
begin

text \<open>
  What the parsers of untrusted payloads apply to a decoded JSON value: the constructors \<open>float\<close>, \<open>int\<close>,
  \<open>dict\<close> and the enumerations, indexing, iteration, \<open>.get\<close> and \<open>.items\<close>, each with the exception it
  raises on the wrong type; and the other direction, the canonical text of \<open>json.dumps\<close> with sorted
  keys and compact separators that the fingerprints are taken of.
\<close>

section \<open>Types of values\<close>

fun type_name :: "json \<Rightarrow> string" where
  "type_name JNull = ''NoneType''"
| "type_name (JBool b) = ''bool''"
| "type_name (JInt i) = ''int''"
| "type_name (JFloat x) = ''float''"
| "type_name (JStr s) = ''str''"
| "type_name (JArr vs) = ''list''"
| "type_name (JObj ms) = ''dict''"

text \<open>\<open>payload.get(key, default)\<close> and \<open>payload.items()\<close> on a value that need not be a dict.\<close>

definition no_attribute :: "json \<Rightarrow> string \<Rightarrow> py_error" where
  "no_attribute v name =
     AttributeError (repr_str (type_name v) @ '' object has no attribute '' @ repr_str name)"

definition json_get :: "json \<Rightarrow> string \<Rightarrow> json \<Rightarrow> json result" where
  "json_get v k dflt = (case v of JObj ms \<Rightarrow> Inr (obj_get ms k dflt) | _ \<Rightarrow> Inl (no_attribute v ''get''))"

definition json_items :: "json \<Rightarrow> (string \<times> json) list result" where
  "json_items v = (case v of JObj ms \<Rightarrow> Inr ms | _ \<Rightarrow> Inl (no_attribute v ''items''))"

text \<open>\<open>v[key]\<close> with a string key, and \<open>v[i]\<close> with a small index.\<close>

definition json_key :: "json \<Rightarrow> string \<Rightarrow> json result" where
  "json_key v k =
     (case v of
        JObj ms \<Rightarrow> obj_index ms k
      | JArr _ \<Rightarrow> Inl (TypeError ''list indices must be integers or slices, not str'')
      | JStr _ \<Rightarrow> Inl (TypeError (''string indices must be integers, not '' @ repr_str ''str''))
      | _ \<Rightarrow> Inl (TypeError (repr_str (type_name v) @ '' object is not subscriptable'')))"

definition json_index :: "json \<Rightarrow> nat \<Rightarrow> json result" where
  "json_index v i =
     (case v of
        JArr vs \<Rightarrow> if i < length vs then Inr (vs ! i) else Inl (IndexError ''list index out of range'')
      | JStr s \<Rightarrow> if i < length s then Inr (JStr [s ! i]) else Inl (IndexError ''string index out of range'')
      | JObj _ \<Rightarrow> Inl (KeyError (str_nat i))
      | _ \<Rightarrow> Inl (TypeError (repr_str (type_name v) @ '' object is not subscriptable'')))"

definition json_iter :: "json \<Rightarrow> json list result" where
  "json_iter v =
     (case v of
        JArr vs \<Rightarrow> Inr vs
      | JStr s \<Rightarrow> Inr (map (\<lambda>c. JStr [c]) s)
      | JObj ms \<Rightarrow> Inr (map (\<lambda>m. JStr (fst m)) ms)
      | _ \<Rightarrow> Inl (TypeError (repr_str (type_name v) @ '' object is not iterable'')))"

text \<open>\<open>v or {}\<close>\<close>

definition or_empty :: "json \<Rightarrow> json" where
  "or_empty v = (if py_bool v then v else JObj [])"

section \<open>Numbers\<close>

definition is_digit :: "char \<Rightarrow> bool" where
  "is_digit c = (let n = of_char c :: nat in 48 \<le> n \<and> n \<le> 57)"

definition digit_value :: "char \<Rightarrow> nat" where
  "digit_value c = of_char c - 48"

definition digits_value :: "string \<Rightarrow> nat" where
  "digits_value ds = foldl (\<lambda>n d. 10 * n + digit_value d) 0 ds"

text \<open>Digits, single underscores between them; the digits and the rest of the text.\<close>

fun take_digits :: "string \<Rightarrow> string \<times> string" where
  "take_digits [] = ([], [])"
| "take_digits (c # cs) =
     (if \<not> is_digit c then ([], c # cs)
      else case cs of
        [] \<Rightarrow> ([c], [])
      | d # ds \<Rightarrow>
          if d = CHR ''_'' then
            (case ds of
               [] \<Rightarrow> ([c], d # ds)
             | e # es \<Rightarrow> if is_digit e then (case take_digits ds of (xs, r) \<Rightarrow> (c # xs, r)) else ([c], d # ds))
          else (case take_digits cs of (xs, r) \<Rightarrow> (c # xs, r)))"

fun split_sign :: "string \<Rightarrow> bool \<times> string" where
  "split_sign [] = (False, [])"
| "split_sign (c # cs) =
     (if c = CHR ''-'' then (True, cs) else if c = CHR ''+'' then (False, cs) else (False, c # cs))"

definition int_of_text :: "string \<Rightarrow> int result" where
  "int_of_text s =
     (case split_sign (str_strip s) of (neg, body) \<Rightarrow>
        (case take_digits body of (ds, rest) \<Rightarrow>
           if ds = [] \<or> rest \<noteq> [] then
             Inl (ValueError (''invalid literal for int() with base 10: '' @ repr_str s))
           else if 4300 < length ds then
             Inl (ValueError (''Exceeds the limit (4300 digits) for integer string conversion: value has '' @
               str_nat (length ds) @ '' digits; use sys.set_int_max_str_digits() to increase the limit''))
           else Inr (if neg then - int (digits_value ds) else int (digits_value ds))))"

text \<open>The value of a decimal mantissa and exponent.\<close>

definition decimal_value :: "string \<Rightarrow> string \<Rightarrow> int \<Rightarrow> pyfloat" where
  "decimal_value ip fp e =
     round64 (of_nat (digits_value (ip @ fp)) * pow10 (e - int (length fp)))"

definition exponent_part :: "string \<Rightarrow> int option" where
  "exponent_part s =
     (case s of
        [] \<Rightarrow> Some 0
      | c # cs \<Rightarrow>
          if c = CHR ''e'' \<or> c = CHR ''E'' then
            (case split_sign cs of (neg, body) \<Rightarrow>
               (case take_digits body of (ds, rest) \<Rightarrow>
                  if ds = [] \<or> rest \<noteq> [] then None
                  else Some (if neg then - int (digits_value ds) else int (digits_value ds))))
          else None)"

definition unsigned_float :: "string \<Rightarrow> pyfloat option" where
  "unsigned_float s =
     (if str_upper s \<in> {''INF'', ''INFINITY''} then Some PInf
      else if str_upper s = ''NAN'' then Some PNan
      else
        case take_digits s of (ip, r) \<Rightarrow>
          let (fp, r2) = (case r of
              [] \<Rightarrow> ([], [])
            | c # cs \<Rightarrow> if c = CHR ''.'' then take_digits cs else ([], r))
          in if ip = [] \<and> fp = [] then None
             else map_option (decimal_value ip fp) (exponent_part r2))"

definition float_of_text :: "string \<Rightarrow> pyfloat result" where
  "float_of_text s =
     (case split_sign (str_strip s) of (neg, body) \<Rightarrow>
        (case unsigned_float body of
           None \<Rightarrow> Inl (ValueError (''could not convert string to float: '' @ repr_str s))
         | Some x \<Rightarrow> Inr (if neg then f_neg x else x)))"

definition py_float :: "json \<Rightarrow> pyfloat result" where
  "py_float v =
     (case v of
        JBool b \<Rightarrow> Inr (if b then PFin 1 else PFin 0)
      | JInt i \<Rightarrow> int_to_float i
      | JFloat x \<Rightarrow> Inr x
      | JStr s \<Rightarrow> float_of_text s
      | _ \<Rightarrow> Inl (TypeError (''float() argument must be a string or a real number, not '' @
               repr_str (type_name v))))"

definition py_int :: "json \<Rightarrow> int result" where
  "py_int v =
     (case v of
        JBool b \<Rightarrow> Inr (if b then 1 else 0)
      | JInt i \<Rightarrow> Inr i
      | JFloat x \<Rightarrow> f_to_int x
      | JStr s \<Rightarrow> int_of_text s
      | _ \<Rightarrow> Inl (TypeError (''int() argument must be a string, a bytes-like object or a real number, not '' @
               repr_str (type_name v))))"

text \<open>\<open>None if v is None else float(v)\<close>, and the same for \<open>int\<close> and \<open>str\<close>.\<close>

definition optional :: "(json \<Rightarrow> 'a result) \<Rightarrow> json \<Rightarrow> 'a option result" where
  "optional f v = (if v = JNull then Inr None else bind_result (f v) (\<lambda>x. Inr (Some x)))"

section \<open>Dictionaries\<close>

text \<open>
  Equality of the values that can be keys: booleans, ints and floats compare as numbers. The \<open>NaN\<close> of
  a decoded text is one object, which a dict finds by identity.
\<close>

definition num_value :: "json \<Rightarrow> rat option" where
  "num_value v =
     (case v of
        JBool b \<Rightarrow> Some (if b then 1 else 0)
      | JInt i \<Rightarrow> Some (of_int i)
      | JFloat (PFin r) \<Rightarrow> Some r
      | _ \<Rightarrow> None)"

definition key_eq :: "json \<Rightarrow> json \<Rightarrow> bool" where
  "key_eq v w = (v = w \<or> num_value v \<noteq> None \<and> num_value v = num_value w)"

definition hashable :: "json \<Rightarrow> unit result" where
  "hashable v =
     (case v of
        JArr _ \<Rightarrow> Inl (TypeError (''unhashable type: '' @ repr_str ''list''))
      | JObj _ \<Rightarrow> Inl (TypeError (''unhashable type: '' @ repr_str ''dict''))
      | _ \<Rightarrow> Inr ())"

fun dict_set :: "(json \<times> json) list \<Rightarrow> json \<Rightarrow> json \<Rightarrow> (json \<times> json) list" where
  "dict_set [] k v = [(k, v)]"
| "dict_set ((k', v') # d) k v =
     (if key_eq k' k then (k', v) # d else (k', v') # dict_set d k v)"

text \<open>\<open>dict(v)\<close> of a mapping, or of a sequence of pairs.\<close>

fun dict_of_pairs :: "nat \<Rightarrow> json list \<Rightarrow> (json \<times> json) list \<Rightarrow> (json \<times> json) list result" where
  "dict_of_pairs i [] d = Inr d"
| "dict_of_pairs i (e # es) d =
     (case json_iter e of
        Inl _ \<Rightarrow> Inl (TypeError (''cannot convert dictionary update sequence element #'' @ str_nat i @
                     '' to a sequence''))
      | Inr [k, v] \<Rightarrow> bind_result (hashable k) (\<lambda>_. dict_of_pairs (Suc i) es (dict_set d k v))
      | Inr ws \<Rightarrow> Inl (ValueError (''dictionary update sequence element #'' @ str_nat i @
                     '' has length '' @ str_nat (length ws) @ ''; 2 is required'')))"

definition py_dict :: "json \<Rightarrow> (json \<times> json) list result" where
  "py_dict v =
     (case v of
        JObj ms \<Rightarrow> Inr (map (\<lambda>m. (JStr (fst m), snd m)) ms)
      | _ \<Rightarrow> bind_result (json_iter v) (\<lambda>es. dict_of_pairs 0 es []))"

section \<open>Enumerations\<close>

text \<open>\<open>Enum(text)\<close>: the member whose value is the text.\<close>

definition enum_parse :: "string \<Rightarrow> ('a \<Rightarrow> string) \<Rightarrow> 'a list \<Rightarrow> string \<Rightarrow> 'a result" where
  "enum_parse cls value members s =
     (case find (\<lambda>m. value m = s) members of
        None \<Rightarrow> Inl (ValueError (repr_str s @ '' is not a valid '' @ cls))
      | Some m \<Rightarrow> Inr m)"

lemma enum_parse_value:
  assumes "\<And>m. m \<in> set members" and "inj value"
  shows "enum_parse cls value members (value m) = Inr m"
proof -
  have "find (\<lambda>x. value x = value m) members = Some m" if "m \<in> set members" for members
    using that \<open>inj value\<close> by (induction members) (auto dest: injD)
  with assms(1) show ?thesis by (simp add: enum_parse_def)
qed

lemma enum_parse_error: "enum_parse cls value members s = Inl e \<Longrightarrow> \<exists>msg. e = ValueError msg"
  by (auto simp: enum_parse_def split: option.splits)

section \<open>Canonical text\<close>

text \<open>\<open>json.dumps(v, sort_keys=True, separators=(",", ":"))\<close>\<close>

definition hex4 :: "nat \<Rightarrow> string" where
  "hex4 n = (let s = nat_digits 16 n in replicate (4 - length s) (CHR ''0'') @ s)"

definition json_char :: "char \<Rightarrow> string" where
  "json_char c =
     (let n = of_char c :: nat in
      if n = 0x22 \<or> n = 0x5C then [CHR 0x5C, c]
      else if n = 0x0A then [CHR 0x5C, CHR ''n'']
      else if n = 0x0D then [CHR 0x5C, CHR ''r'']
      else if n = 0x09 then [CHR 0x5C, CHR ''t'']
      else if n = 0x08 then [CHR 0x5C, CHR ''b'']
      else if n = 0x0C then [CHR 0x5C, CHR ''f'']
      else if n < 32 \<or> 126 < n then [CHR 0x5C, CHR ''u''] @ hex4 n
      else [c])"

definition json_text :: "string \<Rightarrow> string" where
  "json_text s = [CHR 0x22] @ concat (map json_char s) @ [CHR 0x22]"

fun json_float :: "pyfloat \<Rightarrow> string" where
  "json_float PNan = ''NaN''"
| "json_float PInf = ''Infinity''"
| "json_float PNegInf = ''-Infinity''"
| "json_float x = repr_float x"

fun json_dumps :: "json \<Rightarrow> string" where
  "json_dumps JNull = ''null''"
| "json_dumps (JBool b) = (if b then ''true'' else ''false'')"
| "json_dumps (JInt i) = str_int i"
| "json_dumps (JFloat x) = json_float x"
| "json_dumps (JStr s) = json_text s"
| "json_dumps (JArr vs) = ''['' @ str_join '','' (map json_dumps vs) @ '']''"
| "json_dumps (JObj ms) =
     ''{'' @ str_join '','' (map (\<lambda>m. json_text (fst m) @ '':'' @ snd m)
       (sort_key fst (map (\<lambda>m. case m of (k, v) \<Rightarrow> (k, json_dumps v)) ms))) @ ''}''"

definition encode_text :: "string \<Rightarrow> bytes" where
  "encode_text s = map (\<lambda>c. of_nat (of_char c)) s"

definition json_digest :: "(bytes \<Rightarrow> string) \<Rightarrow> json \<Rightarrow> string" where
  "json_digest sha payload = sha (encode_text (json_dumps payload))"

section \<open>Lemmas\<close>

lemma py_float_JFloat [simp]: "py_float (JFloat x) = Inr x"
  by (simp add: py_float_def)

lemma py_int_JInt [simp]: "py_int (JInt i) = Inr i"
  by (simp add: py_int_def)

lemma optional_simps [simp]:
  "optional f JNull = Inr None"
  "v \<noteq> JNull \<Longrightarrow> optional f v = bind_result (f v) (\<lambda>x. Inr (Some x))"
  by (simp_all add: optional_def)

lemma json_iter_JArr [simp]: "json_iter (JArr vs) = Inr vs"
  by (simp add: json_iter_def)

lemma map_json_str [simp]: "map (py_str \<circ> JStr) ss = ss"
  by (induction ss) auto

text \<open>The exceptions each conversion can raise.\<close>

lemma int_to_float_error: "int_to_float i = Inl e \<Longrightarrow> \<exists>s. e = OverflowError s"
  by (auto simp: int_to_float_def split: pyfloat.splits)

lemma float_of_text_error: "float_of_text s = Inl e \<Longrightarrow> \<exists>t. e = ValueError t"
  by (auto simp: float_of_text_def split: prod.splits option.splits)

lemma int_of_text_error: "int_of_text s = Inl e \<Longrightarrow> \<exists>t. e = ValueError t"
  by (auto simp: int_of_text_def split: prod.splits if_splits)

lemma py_float_error:
  "py_float v = Inl e \<Longrightarrow> (\<exists>s. e = TypeError s) \<or> (\<exists>s. e = ValueError s) \<or> (\<exists>s. e = OverflowError s)"
  by (auto simp: py_float_def dest: int_to_float_error float_of_text_error split: json.splits)

lemma py_int_error:
  "py_int v = Inl e \<Longrightarrow> (\<exists>s. e = TypeError s) \<or> (\<exists>s. e = ValueError s) \<or> (\<exists>s. e = OverflowError s)"
proof (cases v)
  case (JFloat x)
  then show "py_int v = Inl e \<Longrightarrow> ?thesis" by (cases x) (auto simp: py_int_def)
qed (auto simp: py_int_def dest: int_of_text_error)

lemma optional_error: "optional f v = Inl e \<Longrightarrow> f v = Inl e"
  by (auto simp: optional_def bind_result_eq_Inl split: if_splits)

lemma json_iter_error: "json_iter v = Inl e \<Longrightarrow> \<exists>s. e = TypeError s"
  by (auto simp: json_iter_def split: json.splits)

lemma dict_of_pairs_error:
  "dict_of_pairs i es d = Inl e \<Longrightarrow> (\<exists>s. e = TypeError s) \<or> (\<exists>s. e = ValueError s)"
  by (induction i es d rule: dict_of_pairs.induct)
    (auto simp: bind_result_eq_Inl hashable_def split: sum.splits list.splits json.splits)

lemma py_dict_error: "py_dict v = Inl e \<Longrightarrow> (\<exists>s. e = TypeError s) \<or> (\<exists>s. e = ValueError s)"
  by (auto simp: py_dict_def bind_result_eq_Inl dest: json_iter_error dict_of_pairs_error
      split: json.splits)

end
