(* ===== verification/Rtcm_Admission.thy ===== *)
theory Rtcm_Admission
  imports Rtcm_Pipeline Py_Convert
begin

text \<open>
  Inventory (\<open>inventory.py\<close>), source admission (\<open>admission.py\<close>), the binding of a decision to a source
  (\<open>handoff.py\<close>), metric assembly (\<open>metrics.py\<close>), subjects (\<open>subjects.py\<close>) and the synthetic fixtures
  (\<open>fixtures.py\<close>) of the replay package. The file system is the argument \<open>files\<close>, the content of the
  regular file at a path; it does not change during an admission. \<open>sha\<close> is the SHA-256 hex digest.
\<close>

section \<open>Inventory\<close>

record inventory =
  iv_frames_valid :: nat
  iv_frames_invalid :: nat
  iv_crc_failures :: nat
  iv_message_type_counts :: "(string \<times> nat) list"
  iv_findings :: "string list"
  iv_inventory_fingerprint :: string

definition inventory_key :: "frame_record \<Rightarrow> string" where
  "inventory_key r = (case fr_message_number r of None \<Rightarrow> ''UNKNOWN'' | Some n \<Rightarrow> str_nat n)"

text \<open>The loop over the frames: valid frames, counts per message type, failed frames.\<close>

fun count_frames ::
  "parsed_frame list \<Rightarrow> nat \<Rightarrow> nat \<Rightarrow> (string \<times> nat) list \<Rightarrow> nat \<times> nat \<times> (string \<times> nat) list" where
  "count_frames [] valid invalid counts = (valid, invalid, counts)"
| "count_frames (p # ps) valid invalid counts =
     (if fr_crc_status (pf_record p) = CRC_PASS
      then count_frames ps (valid + 1) invalid (count_key counts (inventory_key (pf_record p)))
      else count_frames ps valid (invalid + 1) counts)"

definition build_inventory :: "(bytes \<Rightarrow> string) \<Rightarrow> parse_result \<Rightarrow> string \<Rightarrow> inventory" where
  "build_inventory sha result parser_version =
     (case count_frames (pr_frames result) 0 0 [] of
        (valid, invalid, counts) \<Rightarrow>
          \<lparr>iv_frames_valid = valid, iv_frames_invalid = invalid, iv_crc_failures = invalid,
           iv_message_type_counts = counts, iv_findings = map render_finding (pr_findings result),
           iv_inventory_fingerprint =
             sha (encode_text (str_join ''|'' (parser_version #
               sort (map (\<lambda>p. str_nat (fr_offset (pf_record p)) @ '':'' @ fr_raw_hash (pf_record p))
                 (pr_frames result)))))\<rparr>)"

section \<open>Admission\<close>

definition PARSER_VERSION :: string where "PARSER_VERSION = ''1.0''"

definition is_synthetic_station :: "string \<Rightarrow> bool" where
  "is_synthetic_station station_id = list_ex (\<lambda>p. starts_with p station_id) SYNTHETIC_STATION_PREFIXES"

definition source_fingerprint :: "(bytes \<Rightarrow> string) \<Rightarrow> rtcm_source \<Rightarrow> string \<Rightarrow> string" where
  "source_fingerprint sha source observed_sha256 =
     sha (encode_text (str_join ''|''
       [PARSER_VERSION, src_source_id source, source_type_str (src_source_type source),
        src_station_id source, src_mountpoint source, str_int (src_byte_size source), observed_sha256,
        src_capture_method source, src_capture_provenance source, src_rtcm_version source]))"

definition refused :: "admission_verdict \<Rightarrow> string \<Rightarrow> string \<Rightarrow> admission_result" where
  "refused verdict finding fingerprint =
     \<lparr>ar_verdict = verdict, ar_findings = [finding], ar_source_fingerprint = fingerprint,
      ar_frames_discovered = 0, ar_frames_valid = 0\<rparr>"

text \<open>The checks that depend on the source type: the notes and caveats, or the finding that rejects.\<close>

definition type_checks :: "rtcm_source \<Rightarrow> string list \<Rightarrow> string + (string list \<times> string list)" where
  "type_checks source known_stations =
     (if src_source_type source = ST_UNKNOWN then Inl ''REJECT unknown source_type presented as RTCM''
      else if src_source_type source = SYNTHETIC_TEST_FIXTURE then
        (if \<not> is_synthetic_station (src_station_id source)
         then Inl (''REJECT synthetic fixture must use a SYN/TEST station_id: '' @ src_station_id source)
         else Inr ([''SYNTHETIC fixture labelled test-only, not field data''], []))
      else if src_capture_provenance source = [] then
        Inl ''REJECT non-synthetic source lacks capture provenance''
      else
        let caveats1 = (if src_capture_method source = [] then [''WARN capture_method not recorded''] else [])
        in if src_station_id source \<notin> set known_stations then
             Inl (''REJECT unknown station/mountpoint: '' @ src_station_id source @ '' '' @ src_mountpoint source)
           else Inr ([], caveats1 @
             (if \<not> src_verified source then [''WARN source not marked verified''] else [])))"

text \<open>The verdict over a parsed source.\<close>

definition judge_source ::
  "(bytes \<Rightarrow> string) \<Rightarrow> string \<Rightarrow> string list \<Rightarrow> string list \<Rightarrow> int \<Rightarrow> bytes \<Rightarrow> admission_result" where
  "judge_source sha fingerprint notes caveats max_frame_length raw =
     (let parsed = parse_stream sha max_frame_length 100000 raw;
          inventory = build_inventory sha parsed PARSER_VERSION;
          caveats1 = caveats @ iv_findings inventory
      in if iv_frames_valid inventory = 0 then
           \<lparr>ar_verdict = AV_REJECT,
            ar_findings = [''REJECT no valid RTCM frames discovered''] @ notes @ caveats1,
            ar_source_fingerprint = fingerprint, ar_frames_discovered = length (pr_frames parsed),
            ar_frames_valid = 0\<rparr>
         else
           let verdict = (if caveats1 \<noteq> [] then AV_WARN else AV_ACCEPT);
               (verdict1, caveats2) =
                 (if iv_frames_invalid inventory \<noteq> 0
                  then (AV_WARN, caveats1 @ [''WARN '' @ str_nat (iv_frames_invalid inventory) @
                          '' invalid frame(s) quarantined, excluded from replay timeline''])
                  else (verdict, caveats1))
           in \<lparr>ar_verdict = verdict1, ar_findings = notes @ caveats2,
               ar_source_fingerprint = fingerprint, ar_frames_discovered = length (pr_frames parsed),
               ar_frames_valid = iv_frames_valid inventory\<rparr>)"

definition admit_source ::
  "(bytes \<Rightarrow> string) \<Rightarrow> (string \<Rightarrow> bytes option) \<Rightarrow> rtcm_source \<Rightarrow> string list \<Rightarrow> int \<Rightarrow> int \<Rightarrow> admission_result" where
  "admit_source sha files source known_stations max_source_bytes max_frame_length =
     (case files (src_source_path source) of
        None \<Rightarrow> refused AV_BLOCKED (''BLOCKED source file missing: '' @ src_source_path source) []
      | Some raw \<Rightarrow>
          if src_sha256 source = [] then refused AV_BLOCKED ''BLOCKED no expected SHA-256 recorded for source'' []
          else
            let observed = sha raw; fingerprint = source_fingerprint sha source observed in
            if observed \<noteq> src_sha256 source then
              refused AV_REJECT (''REJECT hash mismatch expected='' @ src_sha256 source @
                '' observed='' @ observed) fingerprint
            else
              case type_checks source known_stations of
                Inl finding \<Rightarrow> refused AV_REJECT finding fingerprint
              | Inr (notes, caveats) \<Rightarrow>
                  let size = int (length raw);
                      caveats1 = caveats @ (if size \<noteq> src_byte_size source
                        then [''WARN byte_size metadata='' @ str_int (src_byte_size source) @
                              '' observed='' @ str_int size] else [])
                  in if max_source_bytes < size then
                       refused AV_BLOCKED (''BLOCKED source size '' @ str_int size @ '' exceeds limit '' @
                         str_int max_source_bytes) fingerprint
                     else judge_source sha fingerprint notes caveats1 max_frame_length raw)"

section \<open>Handoff\<close>

record handoff_decision =
  hd_mode :: string
  hd_source :: string
  hd_reference_station :: "string option"
  hd_virtual_station :: "string option"
  hd_status :: string
  hd_decision_fingerprint :: string

record handoff_outcome =
  ho_admitted :: bool
  ho_reason :: string
  ho_selected_source_id :: "string option"

definition optional_str :: "(string \<times> json) list \<Rightarrow> string \<Rightarrow> string option" where
  "optional_str payload key =
     (case obj_get payload key JNull of JNull \<Rightarrow> None | v \<Rightarrow> Some (py_str v))"

definition handoff_fingerprint :: "(string \<times> json) list \<Rightarrow> string" where
  "handoff_fingerprint payload =
     (case obj_get payload ''provenance'' JNull of
        JObj provenance \<Rightarrow>
          (let s = py_str (obj_get provenance ''decision_fingerprint'' (JStr []))
           in if s \<noteq> [] then s else py_str (obj_get provenance ''phase8_decision_fingerprint'' (JStr [])))
      | _ \<Rightarrow> [])"

definition handoff_from_dict :: "(string \<times> json) list \<Rightarrow> handoff_decision result" where
  "handoff_from_dict payload =
     (case obj_index payload ''mode'' of
        Inl e \<Rightarrow> Inl (ValueError (''malformed Phase 8 handoff: '' @ error_text e))
      | Inr mode \<Rightarrow>
          Inr \<lparr>hd_mode = py_str mode, hd_source = py_str (obj_get payload ''source'' (JStr [])),
               hd_reference_station = optional_str payload ''reference_station'',
               hd_virtual_station = optional_str payload ''virtual_station'',
               hd_status = py_str (obj_get payload ''status'' (JStr [])),
               hd_decision_fingerprint = handoff_fingerprint payload\<rparr>)"

definition bound_to :: "string \<Rightarrow> rtcm_source option \<Rightarrow> string \<Rightarrow> handoff_outcome" where
  "bound_to reason_bound match reason_missing =
     (case match of
        None \<Rightarrow> \<lparr>ho_admitted = False, ho_reason = reason_missing, ho_selected_source_id = None\<rparr>
      | Some c \<Rightarrow> \<lparr>ho_admitted = True, ho_reason = reason_bound,
                   ho_selected_source_id = Some (src_source_id c)\<rparr>)"

definition resolve_handoff :: "handoff_decision \<Rightarrow> rtcm_source list \<Rightarrow> handoff_outcome" where
  "resolve_handoff decision candidates =
     (if hd_mode decision = ''NO_CORRECTION'' then
        \<lparr>ho_admitted = True,
         ho_reason = ''NO_CORRECTION: no correction stream emitted; '' @
           ''transport success != positioning success'',
         ho_selected_source_id = None\<rparr>
      else if hd_mode decision = ''VRS'' then
        let wanted = str_or (hd_virtual_station decision) (hd_source decision) in
        bound_to ''VRS artifact bound; transport success != positioning success''
          (find (\<lambda>c. src_source_id c = wanted \<or>
                     src_station_id c = str_or (hd_virtual_station decision) []) candidates)
          (''VRS_CORRECTION_ARTIFACT_UNAVAILABLE: operational VRS '' @
           ''remains BLOCKED; no approved VRS correction artifact exists'')
      else if hd_mode decision = ''SINGLE_BASE'' then
        let wanted = str_or (hd_reference_station decision) (hd_source decision) in
        bound_to ''SINGLE_BASE source bound; transport success != positioning success''
          (find (\<lambda>c. src_station_id c = wanted \<or> src_source_id c = wanted) candidates)
          (SELECTED_CORRECTION_SOURCE_UNAVAILABLE @ '': Phase 8 selected '' @ wanted @
           '' but no compatible replay source exists; no silent substitution performed'')
      else
        \<lparr>ho_admitted = False, ho_reason = ''UNKNOWN_DECISION_MODE: '' @ hd_mode decision,
         ho_selected_source_id = None\<rparr>)"

section \<open>Metrics, subjects and fixtures\<close>

definition assemble_metrics :: "inventory \<Rightarrow> replay_metrics \<Rightarrow> nat \<Rightarrow> replay_metrics" where
  "assemble_metrics observed executed bytes_processed =
     executed\<lparr>rm_frames_discovered := iv_frames_valid observed + iv_frames_invalid observed,
       rm_frames_valid := iv_frames_valid observed, rm_frames_invalid := iv_frames_invalid observed,
       rm_crc_failures := iv_crc_failures observed, rm_bytes_processed := bytes_processed,
       rm_message_type_counts := iv_message_type_counts observed\<rparr>"

definition REPLAY_SUBJECT_PREFIX :: string where "REPLAY_SUBJECT_PREFIX = ''correction.replay''"

definition subject_char :: "char \<Rightarrow> bool" where
  "subject_char c = (c \<in> set ''ABCDEFGHIJKLMNOPQRSTUVWXYZ0123456789-_'')"

definition replay_subject :: "string \<Rightarrow> string result" where
  "replay_subject station_id =
     (let station = str_upper (str_strip station_id) in
      if station = [] then Inl (ValueError ''station_id must be non-empty'')
      else if list_ex (\<lambda>c. \<not> subject_char c) station then
        Inl (ValueError (''unsafe station_id for subject: '' @ station_id))
      else Inr (REPLAY_SUBJECT_PREFIX @ ''.'' @ station))"

definition ordering_key :: "correction_frame \<Rightarrow> string \<times> nat \<times> nat" where
  "ordering_key frame = (cf_source_id frame, cf_cycle frame, cf_sequence frame)"

definition MESSAGE_PAYLOADS :: "(int \<times> bytes) list" where
  "MESSAGE_PAYLOADS =
     [(1005, [0x11, 0x22, 0x33, 0x44, 0x55]), (1006, [0x66, 0x77, 0x88, 0x99, 0xAA, 0xBB]),
      (1077, [0x01, 0x02, 0x03, 0x04]), (1087, [0x05, 0x06, 0x07, 0x08]), (1230, [0x0A, 0x0B, 0x0C])]"

definition payload_for :: "int \<Rightarrow> bytes" where
  "payload_for message_number =
     [word_of_int (drop_bit 4 message_number AND 0xFF), word_of_int (message_number AND 0xFF)] @
     (case map_of MESSAGE_PAYLOADS message_number of None \<Rightarrow> [0xDE, 0xAD] | Some base \<Rightarrow> base)"

fun build_stream :: "int list \<Rightarrow> bytes result" where
  "build_stream [] = Inr []"
| "build_stream (m # ms) =
     bind_result (encode_frame m (payload_for m)) (\<lambda>raw.
     bind_result (build_stream ms) (\<lambda>rest. Inr (raw @ rest)))"

definition valid_fixture_stream :: "(bytes \<times> int list) result" where
  "valid_fixture_stream =
     (let sequence = [1005, 1077, 1087, 1005, 1230, 1077, 1006, 1087]
      in map_sum id (\<lambda>s. (s, sequence)) (build_stream sequence))"

text \<open>\<open>bad[5] ^= 0x01\<close> raises when the frame is shorter; an encoded frame never is.\<close>

fun encode_all :: "int list \<Rightarrow> bytes list result" where
  "encode_all [] = Inr []"
| "encode_all (m # ms) =
     bind_result (encode_frame m (payload_for m)) (\<lambda>raw.
     bind_result (encode_all ms) (\<lambda>rest. Inr (raw # rest)))"

definition corrupt_fixture_stream :: "(bytes \<times> int list) result" where
  "corrupt_fixture_stream =
     bind_result valid_fixture_stream (\<lambda>(good, sequence).
     bind_result (encode_all sequence) (\<lambda>frames.
       let bad = frames ! 3; bad1 = bad[5 := bad ! 5 XOR 1]
       in Inr (concat (take 3 frames @ [bad1] @ drop 4 frames), sequence)))"

definition truncated_fixture_stream :: "bytes result" where
  "truncated_fixture_stream =
     bind_result valid_fixture_stream (\<lambda>(good, sequence). Inr (take (length good - 4) good))"

definition garbage_prefix_stream :: "(bytes \<times> int list) result" where
  "garbage_prefix_stream =
     bind_result valid_fixture_stream (\<lambda>(good, sequence). Inr ([0, 0xFF, 0x4E, 0x4C, 0x43] @ good, sequence))"

definition synthetic_schedule :: "nat \<Rightarrow> int \<Rightarrow> int list" where
  "synthetic_schedule count interval_ms = map (\<lambda>i. int i * interval_ms) [0..<count]"

section \<open>Lemmas\<close>

lemma count_frames_eq:
  "count_frames ps v i counts =
     (v + length (filter (\<lambda>p. fr_crc_status (pf_record p) = CRC_PASS) ps),
      i + length (filter (\<lambda>p. fr_crc_status (pf_record p) \<noteq> CRC_PASS) ps),
      foldl count_key counts (map (\<lambda>p. inventory_key (pf_record p))
        (filter (\<lambda>p. fr_crc_status (pf_record p) = CRC_PASS) ps)))"
  by (induction ps arbitrary: v i counts) auto

lemma build_inventory_simps:
  "iv_frames_valid (build_inventory sha r v) =
     length (filter (\<lambda>p. fr_crc_status (pf_record p) = CRC_PASS) (pr_frames r))"
  "iv_frames_invalid (build_inventory sha r v) =
     length (filter (\<lambda>p. fr_crc_status (pf_record p) \<noteq> CRC_PASS) (pr_frames r))"
  "iv_findings (build_inventory sha r v) = map render_finding (pr_findings r)"
  "iv_message_type_counts (build_inventory sha r v) =
     foldl count_key [] (map (\<lambda>p. inventory_key (pf_record p))
       (filter (\<lambda>p. fr_crc_status (pf_record p) = CRC_PASS) (pr_frames r)))"
  by (simp_all add: build_inventory_def count_frames_eq)

text \<open>When the frames and the rest make up the length, nothing was skipped.\<close>

lemma scan_no_skip:
  "sum_list (map (length \<circ> snd) (fst (scan m off rest))) + length (snd (snd (scan m off rest))) \<le> length rest \<and>
   (sum_list (map (length \<circ> snd) (fst (scan m off rest))) + length (snd (snd (scan m off rest))) = length rest \<longrightarrow>
    concat (map snd (fst (scan m off rest))) @ snd (snd (scan m off rest)) = rest)"
proof (induction m off rest rule: scan.induct)
  case (1 m off rest)
  show ?case
  proof (cases "scan_head m rest")
    case Wait
    then show ?thesis by (simp add: scan_Wait)
  next
    case Skip
    note ih = "1.IH"(1) [OF Skip]
    have "length (drop 1 rest) < length rest" using scan_head_Skip [OF Skip] by simp
    with ih show ?thesis unfolding scan_Skip [OF Skip] by linarith
  next
    case (Frame n)
    note ih = "1.IH"(2) [OF Frame]
    note n = scan_head_Frame(2) [OF Frame]
    have len: "length (take n rest) = n" "length (drop n rest) = length rest - n" using n by simp_all
    show ?thesis
      using ih n append_take_drop_id [of n rest] unfolding scan_Frame [OF Frame]
      by (auto simp: len simp del: append_take_drop_id length_take length_drop)
  qed
qed

lemma parse_stream_exact:
  assumes "pr_findings (parse_stream sha m ev data) = []" and "0 \<le> ev"
  shows "concat (map pf_raw (pr_frames (parse_stream sha m ev data))) = data"
proof -
  let ?fs = "scan_frames m 0 data" and ?rest = "snd (snd (scan m 0 data))"
  let ?taken = "take (nat ev) ?fs"
  have raws: "map pf_raw (pr_frames (parse_stream sha m ev data)) = map snd ?taken"
    using assms(2) by (simp add: parse_stream_frames mk_parsed_def case_prod_beta comp_def)
  have "frame_bytes (pr_frames (parse_stream sha m ev data)) = length data"
    using parse_stream_accounts_all [OF refl, of sha m ev data] assms(1)
    by (simp add: stray_total_def unread_total_def)
  moreover have "frame_bytes (pr_frames (parse_stream sha m ev data)) = sum_list (map (length \<circ> snd) ?taken)"
    using assms(2) by (simp add: frame_bytes_def parse_stream_frames mk_parsed_def case_prod_beta comp_def)
  ultimately have full: "sum_list (map (length \<circ> snd) ?taken) = length data" by simp
  have split: "sum_list (map (length \<circ> snd) ?fs) =
      sum_list (map (length \<circ> snd) ?taken) + sum_list (map (length \<circ> snd) (drop (nat ev) ?fs))"
    by (metis append_take_drop_id map_append sum_list_append)
  with full scan_no_skip [of m 0 data] have zero: "sum_list (map (length \<circ> snd) (drop (nat ev) ?fs)) = 0"
    and whole: "concat (map snd ?fs) = data" by auto
  have "drop (nat ev) ?fs = []"
  proof (rule ccontr)
    assume "drop (nat ev) ?fs \<noteq> []"
    then obtain x where x: "x \<in> set (drop (nat ev) ?fs)" by (cases "drop (nat ev) ?fs") auto
    with zero have "length (snd x) = 0" by (auto simp: sum_list_eq_0_iff)
    moreover have "is_frame m (snd x)"
      using in_set_dropD [OF x] scan_frames_are_frames [of "fst x" "snd x"] by simp
    ultimately show False using is_frame_length [of m "snd x"] by simp
  qed
  with whole show ?thesis unfolding raws by simp
qed

section \<open>Properties\<close>

text \<open>What a source must satisfy before its frames are looked at.\<close>

definition source_type_ok :: "rtcm_source \<Rightarrow> string list \<Rightarrow> bool" where
  "source_type_ok source known_stations \<longleftrightarrow>
     src_source_type source \<noteq> ST_UNKNOWN \<and>
     (if src_source_type source = SYNTHETIC_TEST_FIXTURE then is_synthetic_station (src_station_id source)
      else src_capture_provenance source \<noteq> [] \<and> src_station_id source \<in> set known_stations)"

lemma type_checks_ok: "(\<exists>x. type_checks source known = Inr x) \<longleftrightarrow> source_type_ok source known"
  by (auto simp: type_checks_def source_type_ok_def Let_def)

lemma judge_source_verdict:
  "ar_verdict (judge_source sha fp notes caveats m raw) \<in> {AV_ACCEPT, AV_WARN} \<longleftrightarrow>
   (\<exists>p \<in> set (pr_frames (parse_stream sha m 100000 raw)). fr_crc_status (pf_record p) = CRC_PASS)"
  by (auto simp: judge_source_def Let_def build_inventory_simps filter_empty_conv)

lemma judge_source_accept:
  assumes "ar_verdict (judge_source sha fp notes caveats m raw) = AV_ACCEPT"
  shows "caveats = []" "pr_findings (parse_stream sha m 100000 raw) = []"
    "\<forall>p \<in> set (pr_frames (parse_stream sha m 100000 raw)). fr_crc_status (pf_record p) = CRC_PASS"
  using assms by (auto simp: judge_source_def Let_def build_inventory_simps filter_empty_conv split: if_splits)

text \<open>
  C13. Admission fails closed. A source is admitted (ACCEPT or WARN) exactly when its file exists,
  a hash is recorded and equals the digest of the file, its type is known and carries the evidence
  the type requires (a SYN/TEST station for a fixture; provenance and a known station otherwise),
  the file is within the size limit, and at least one frame passes its checksum. Otherwise the
  verdict is REJECT or BLOCKED with a finding.
\<close>

theorem admission_fails_closed:
  "ar_verdict (admit_source sha files source known mx m) \<in> {AV_ACCEPT, AV_WARN} \<longleftrightarrow>
   (\<exists>raw. files (src_source_path source) = Some raw \<and> src_sha256 source \<noteq> [] \<and>
      sha raw = src_sha256 source \<and> source_type_ok source known \<and> int (length raw) \<le> mx \<and>
      (\<exists>p \<in> set (pr_frames (parse_stream sha m 100000 raw)). fr_crc_status (pf_record p) = CRC_PASS))"
proof (cases "files (src_source_path source)")
  case (Some raw)
  show ?thesis
  proof (cases "type_checks source known")
    case (Inl f)
    then have "\<not> source_type_ok source known" using type_checks_ok [of source known] by auto
    with Some Inl show ?thesis by (auto simp: admit_source_def refused_def Let_def)
  next
    case (Inr x)
    then have "source_type_ok source known" using type_checks_ok [of source known] by auto
    with Some Inr show ?thesis
      by (cases x) (simp add: admit_source_def refused_def Let_def judge_source_verdict [simplified])
  qed
qed (simp add: admit_source_def refused_def)

text \<open>
  C12. ACCEPT means nothing to object to. When the verdict is ACCEPT the whole file is the
  concatenation of its frames, byte for byte, each frame passes its checksum, and the recorded
  size is the size of the file.
\<close>

theorem accepted_source_is_all_frames:
  assumes acc: "ar_verdict (admit_source sha files source known mx m) = AV_ACCEPT"
  shows "\<exists>raw. files (src_source_path source) = Some raw \<and> src_byte_size source = int (length raw) \<and>
    concat (map pf_raw (pr_frames (parse_stream sha m 100000 raw))) = raw \<and>
    (\<forall>p \<in> set (pr_frames (parse_stream sha m 100000 raw)). raw_crc_ok (pf_raw p))"
proof -
  obtain raw where raw: "files (src_source_path source) = Some raw"
    using acc by (cases "files (src_source_path source)") (auto simp: admit_source_def refused_def)
  obtain ns caveats where "type_checks source known = Inr (ns, caveats)"
    using acc raw by (cases "type_checks source known") (auto simp: admit_source_def refused_def Let_def split: if_splits)
  with acc raw obtain cs where j: "ar_verdict (judge_source sha (source_fingerprint sha source (sha raw)) ns cs m raw) = AV_ACCEPT"
    and cs: "cs = caveats @ (if int (length raw) \<noteq> src_byte_size source
      then [''WARN byte_size metadata='' @ str_int (src_byte_size source) @ '' observed='' @ str_int (int (length raw))] else [])"
    by (auto simp: admit_source_def refused_def Let_def simp del: append_Cons split: if_splits)
  note a = judge_source_accept [OF j]
  have "src_byte_size source = int (length raw)" using a(1) cs by (auto split: if_splits)
  with raw parse_stream_exact [OF a(2)] a(3) parsed_frame_in_source(3) show ?thesis by auto
qed

text \<open>The demonstration file: the encoded frame for message 1005.\<close>

definition demo_raw :: bytes where
  "demo_raw = [0xD3, 0, 3, 0x3E, 0xD0, 0, 0x7A, 0x79, 0xFE]"

definition demo_source :: rtcm_source where
  "demo_source =
     \<lparr>src_source_id = ''s1'', src_source_type = SYNTHETIC_TEST_FIXTURE, src_source_path = ''f'',
      src_station_id = ''SYN1'', src_mountpoint = ''M'', src_start_time = [], src_end_time = [],
      src_byte_size = 9, src_sha256 = ''h'', src_capture_method = [], src_capture_provenance = [],
      src_rtcm_version = [], src_message_types = [], src_timestamp_source = [], src_verified = True\<rparr>"

lemma demo_parse: "parse_stream sha (int MAX_RTCM_LENGTH) 100000 demo_raw =
    \<lparr>pr_frames = [mk_parsed sha 0 demo_raw], pr_findings = [], pr_bytes_processed = 9\<rparr>"
proof -
  have "is_frame (int MAX_RTCM_LENGTH) demo_raw"
    using encoded_clean_stream [of "[([], demo_raw)]"] encode_1005 unfolding demo_raw_def by auto
  from parse_stream_single [OF this, of 100000 sha] show ?thesis
    using encode_frame_shape(5) [OF encode_1005]
    by (simp add: frame_findings_def flush_stray_def demo_raw_def)
qed

lemma demo_admitted:
  "ar_verdict (admit_source (\<lambda>_. ''h'') (\<lambda>_. Some demo_raw) demo_source [] 100 (int MAX_RTCM_LENGTH)) = AV_ACCEPT"
proof -
  have "raw_crc_ok demo_raw" "length demo_raw = 9"
    using encode_frame_shape(5) [OF encode_1005] by (simp_all add: demo_raw_def)
  then show ?thesis
    by (simp add: admit_source_def demo_source_def type_checks_def is_synthetic_station_def
        SYNTHETIC_STATION_PREFIXES_def judge_source_def demo_parse build_inventory_simps mk_parsed_def
        Let_def)
qed

lemma accepted_source_is_all_frames_witness:
  "concat (map pf_raw (pr_frames (parse_stream (\<lambda>_. ''h'') (int MAX_RTCM_LENGTH) 100000 demo_raw))) = demo_raw"
  using accepted_source_is_all_frames [OF demo_admitted] by auto

text \<open>
  No silent substitution. A SINGLE_BASE handoff is admitted exactly when some candidate has the
  decided station (or the decided source, when no station is named) as its station or source id,
  and then a candidate with that id is bound; NO_CORRECTION binds no source; any mode other than
  NO_CORRECTION, VRS and SINGLE_BASE is refused.
\<close>

theorem handoff_no_substitution:
  "let outcome = resolve_handoff d cs;
       wanted = str_or (hd_reference_station d) (hd_source d);
       matches = (\<lambda>c. src_station_id c = wanted \<or> src_source_id c = wanted) in
   (hd_mode d = ''SINGLE_BASE'' \<longrightarrow>
      ho_admitted outcome = list_ex matches cs \<and>
      ho_selected_source_id outcome = map_option src_source_id (find matches cs) \<and>
      (case find matches cs of None \<Rightarrow> True | Some c \<Rightarrow> c \<in> set cs \<and> matches c)) \<and>
   (hd_mode d = ''NO_CORRECTION'' \<longrightarrow> ho_admitted outcome \<and> ho_selected_source_id outcome = None) \<and>
   (hd_mode d \<notin> {''NO_CORRECTION'', ''VRS'', ''SINGLE_BASE''} \<longrightarrow>
      \<not> ho_admitted outcome \<and> ho_selected_source_id outcome = None)"
proof -
  have "list_ex P cs = (case find P cs of None \<Rightarrow> False | Some c \<Rightarrow> True)" for P
    by (induction cs) auto
  moreover have "case find P cs of None \<Rightarrow> True | Some c \<Rightarrow> c \<in> set cs \<and> P c" for P
    by (auto simp: find_Some_iff split: option.split)
  ultimately show ?thesis
    by (auto simp: resolve_handoff_def bound_to_def Let_def split: option.splits)
qed

lemma handoff_no_substitution_witness:
  "ho_selected_source_id (resolve_handoff \<lparr>hd_mode = ''SINGLE_BASE'', hd_source = [],
      hd_reference_station = Some ''SYN1'', hd_virtual_station = None, hd_status = [],
      hd_decision_fingerprint = []\<rparr> [demo_source]) = Some ''s1''"
  using handoff_no_substitution [of "\<lparr>hd_mode = ''SINGLE_BASE'', hd_source = [],
      hd_reference_station = Some ''SYN1'', hd_virtual_station = None, hd_status = [],
      hd_decision_fingerprint = []\<rparr>" "[demo_source]"]
  by (simp add: Let_def str_or_def demo_source_def)

section \<open>Fixtures and subjects\<close>

lemma payload_for_length: "length (payload_for m) \<le> 8"
  by (auto simp: payload_for_def MESSAGE_PAYLOADS_def split: option.split if_splits)

lemma encode_fixture: "(\<exists>raw. encode_frame m (payload_for m) = Inr raw) \<longleftrightarrow> 0 \<le> m \<and> m \<le> 4095"
proof -
  have "length (encoded_payload m (payload_for m)) \<le> 10"
    using payload_for_length [of m] by (auto simp: encoded_payload_def split: list.split)
  then show ?thesis unfolding encode_frame_ok_iff by (auto simp: MAX_RTCM_LENGTH_def LENGTH_BITS_def)
qed

lemma build_stream_frames:
  "build_stream ms = Inr bs \<Longrightarrow>
   \<exists>raws. bs = stream_bytes (map (Pair []) raws) \<and>
     list_all2 (\<lambda>m raw. encode_frame m (payload_for m) = Inr raw) ms raws"
proof (induction ms arbitrary: bs)
  case (Cons m ms)
  then obtain raw rest where r: "encode_frame m (payload_for m) = Inr raw" "build_stream ms = Inr rest"
    "bs = raw @ rest" by auto
  from Cons.IH [OF r(2)] obtain raws where "rest = stream_bytes (map (Pair []) raws)"
    "list_all2 (\<lambda>m raw. encode_frame m (payload_for m) = Inr raw) ms raws" by blast
  with r show ?case by (intro exI [of _ "raw # raws"]) simp
qed simp

lemma map_mk_parsed_numbers:
  "list_all2 (\<lambda>m raw. encode_frame m (payload_for m) = Inr raw) ms raws \<Longrightarrow>
   map (\<lambda>p. fr_message_number (pf_record p)) (map (mk_parsed_at sha) (expected_frames off (map (Pair []) raws))) =
   map (\<lambda>m. Some (nat m)) ms"
  by (induction ms raws arbitrary: off rule: list_all2_induct) (auto simp: mk_parsed_encoded(1))

text \<open>
  The synthetic fixtures. \<open>build_stream\<close> succeeds exactly when every message number fits 12 bits,
  and \<open>parse_stream\<close> then reads the stream back as one valid frame per number, with these numbers
  in this order and nothing left over to report.
\<close>

theorem fixture_stream_parses:
  assumes room: "int (length ms) \<le> ev"
  shows "(case build_stream ms of
      Inl e \<Rightarrow> list_ex (\<lambda>m. m < 0 \<or> 4095 < m) ms
    | Inr bs \<Rightarrow>
        list_all (\<lambda>m. 0 \<le> m \<and> m \<le> 4095) ms \<and>
        map (\<lambda>p. fr_message_number (pf_record p)) (pr_frames (parse_stream sha (int MAX_RTCM_LENGTH) ev bs)) =
          map (\<lambda>m. Some (nat m)) ms \<and>
        list_all (\<lambda>p. fr_crc_status (pf_record p) = CRC_PASS)
          (pr_frames (parse_stream sha (int MAX_RTCM_LENGTH) ev bs)) \<and>
        concat (map pf_raw (pr_frames (parse_stream sha (int MAX_RTCM_LENGTH) ev bs))) = bs)"
proof (cases "build_stream ms")
  case (Inl e)
  have "build_stream ms = Inl e \<Longrightarrow> list_ex (\<lambda>m. m < 0 \<or> 4095 < m) ms"
  proof (induction ms)
    case (Cons m ms)
    show ?case
    proof (cases "encode_frame m (payload_for m)")
      case (Inl e')
      then show ?thesis using encode_fixture [of m] by (auto simp: not_le)
    next
      case (Inr raw)
      with Cons show ?thesis by (cases "build_stream ms") auto
    qed
  qed simp
  with Inl show ?thesis by simp
next
  case (Inr bs)
  from build_stream_frames [OF this] obtain raws where bs: "bs = stream_bytes (map (Pair []) raws)"
    and enc: "list_all2 (\<lambda>m raw. encode_frame m (payload_for m) = Inr raw) ms raws" by blast
  let ?gs = "map (Pair []) raws" and ?r = "parse_stream sha (int MAX_RTCM_LENGTH) ev bs"
  have each: "\<exists>m suffix. encode_frame m suffix = Inr raw" if "raw \<in> set raws" for raw
    using enc that by (auto simp: list_all2_conv_all_nth in_set_conv_nth) metis
  have fs: "pr_frames ?r = map (mk_parsed_at sha) (expected_frames 0 ?gs)"
  proof -
    have "clean_stream (int MAX_RTCM_LENGTH) ?gs"
      by (rule encoded_clean_stream) (use each in auto)
    from scan_clean_stream [OF this, of "[]" 0] room list_all2_lengthD [OF enc] show ?thesis
      by (simp add: bs parse_stream_frames)
  qed
  have "map pf_raw (pr_frames ?r) = raws"
    using expected_frames_raw [of 0 ?gs] by (simp add: fs mk_parsed_def case_prod_beta comp_def)
  moreover have "concat raws = bs" by (simp add: bs stream_bytes_def comp_def)
  moreover have "list_all (\<lambda>p. fr_crc_status (pf_record p) = CRC_PASS) (pr_frames ?r)"
    using encoded_frames_pass [of ?gs _ 0 sha] each unfolding fs list_all_iff by fastforce
  moreover have "list_all (\<lambda>m. 0 \<le> m \<and> m \<le> 4095) ms"
    using enc encode_fixture by (fastforce simp: list_all2_conv_all_nth list_all_length)
  ultimately show ?thesis
    using Inr map_mk_parsed_numbers [OF enc] by (simp add: fs)
qed

lemma fixture_stream_parses_witness:
  "\<exists>bs. build_stream [1005, 1077] = Inr bs \<and>
     map (\<lambda>p. fr_message_number (pf_record p)) (pr_frames (parse_stream (\<lambda>_. []) (int MAX_RTCM_LENGTH) 5 bs)) =
     [Some 1005, Some 1077]"
  using fixture_stream_parses [of "[1005, 1077]" 5 "\<lambda>_. []"] by (auto split: sum.splits)

text \<open>
  Subjects are safe. A subject that \<open>replay_subject\<close> returns is the fixed prefix followed by a
  non-empty token of upper-case letters, digits, hyphen and underscore, so a station name can
  neither widen the subject hierarchy nor inject a wildcard.
\<close>

theorem replay_subject_safe:
  "case replay_subject s of
     Inl e \<Rightarrow> (\<exists>msg. e = ValueError msg)
   | Inr subject \<Rightarrow> (\<exists>token. subject = ''correction.replay.'' @ token \<and> token \<noteq> [] \<and>
       list_all subject_char token \<and> CHR ''.'' \<notin> set token \<and> CHR ''*'' \<notin> set token \<and> CHR ''>'' \<notin> set token)"
proof -
  have "\<not> subject_char (CHR ''.'')" "\<not> subject_char (CHR ''*'')" "\<not> subject_char (CHR ''>'')"
    by (simp_all add: subject_char_def)
  moreover have "list_all P xs \<longleftrightarrow> (\<forall>x \<in> set xs. P x)" for P and xs :: string by (rule list_all_iff)
  ultimately show ?thesis
    by (auto simp: replay_subject_def Let_def REPLAY_SUBJECT_PREFIX_def list_ex_iff
        intro!: exI [of _ "str_upper (str_strip s)"])
qed

end
