(* ===== verification/Rtcm_Parse.thy ===== *)
theory Rtcm_Parse
  imports Rtcm_Admission
begin

text \<open>
  Sources, configurations and delivered frames as dictionaries (the parsers and \<open>as_dict\<close> methods of
  \<open>rtcm_replay/models.py\<close>) and the replay fingerprints (\<open>rtcm_replay/provenance.py\<close>).
\<close>

section \<open>Shared pieces\<close>

definition text_field :: "(string \<times> json) list \<Rightarrow> string \<Rightarrow> string" where
  "text_field payload k = py_str (obj_get payload k (JStr []))"

text \<open>\<open>raise AdmissionBlocked(...) from exc\<close> for the exceptions a handler names.\<close>

definition malformed :: "string \<Rightarrow> string \<Rightarrow> py_error" where
  "malformed what msg = AdmissionBlocked (BLOCKED_MESSAGE @ '': '' @ what @ '': '' @ msg)"

fun blocked_value_error :: "string \<Rightarrow> 'a result \<Rightarrow> 'a result" where
  "blocked_value_error what (Inl (ValueError m)) = Inl (malformed what m)"
| "blocked_value_error what r = r"

fun blocked_malformed :: "string \<Rightarrow> 'a result \<Rightarrow> 'a result" where
  "blocked_malformed what (Inl (ValueError m)) = Inl (malformed what m)"
| "blocked_malformed what (Inl (TypeError m)) = Inl (malformed what m)"
| "blocked_malformed what (Inl (KeyError m)) = Inl (malformed what m)"
| "blocked_malformed what r = r"

lemma blocked_Inr [simp]:
  "blocked_value_error what (Inr x) = Inr x" "blocked_malformed what (Inr x) = Inr x"
  by simp_all

section \<open>Sources\<close>

definition SOURCE_TYPES :: "source_type list" where
  "SOURCE_TYPES = [RECORDED_RTCM, NTRIP_CAPTURE, SYNTHETIC_TEST_FIXTURE, ST_UNKNOWN]"

definition source_as_dict :: "rtcm_source \<Rightarrow> (string \<times> json) list" where
  "source_as_dict s =
     [(''source_id'', JStr (src_source_id s)),
      (''source_type'', JStr (source_type_str (src_source_type s))),
      (''source_path'', JStr (src_source_path s)),
      (''station_id'', JStr (src_station_id s)),
      (''mountpoint'', JStr (src_mountpoint s)),
      (''start_time'', JStr (src_start_time s)),
      (''end_time'', JStr (src_end_time s)),
      (''byte_size'', JInt (src_byte_size s)),
      (''sha256'', JStr (src_sha256 s)),
      (''capture_method'', JStr (src_capture_method s)),
      (''capture_provenance'', JStr (src_capture_provenance s)),
      (''rtcm_version'', JStr (src_rtcm_version s)),
      (''message_types'', JArr (map JStr (src_message_types s))),
      (''timestamp_source'', JStr (src_timestamp_source s)),
      (''verified'', JBool (src_verified s))]"

definition source_of_payload :: "source_type \<Rightarrow> (string \<times> json) list \<Rightarrow> rtcm_source result" where
  "source_of_payload st payload =
     bind_result (obj_index payload ''source_id'') (\<lambda>source_id.
     bind_result (obj_index payload ''source_path'') (\<lambda>source_path.
     bind_result (py_int (obj_get payload ''byte_size'' (JInt (- 1)))) (\<lambda>byte_size.
     bind_result (json_iter (obj_get payload ''message_types'' (JArr []))) (\<lambda>types.
       Inr \<lparr>src_source_id = py_str source_id, src_source_type = st,
            src_source_path = py_str source_path, src_station_id = text_field payload ''station_id'',
            src_mountpoint = text_field payload ''mountpoint'',
            src_start_time = text_field payload ''start_time'',
            src_end_time = text_field payload ''end_time'', src_byte_size = byte_size,
            src_sha256 = text_field payload ''sha256'',
            src_capture_method = text_field payload ''capture_method'',
            src_capture_provenance = text_field payload ''capture_provenance'',
            src_rtcm_version = text_field payload ''rtcm_version'',
            src_message_types = map py_str types,
            src_timestamp_source = text_field payload ''timestamp_source'',
            src_verified = py_bool (obj_get payload ''verified'' (JBool False))\<rparr>))))"

definition source_from_dict :: "(string \<times> json) list \<Rightarrow> rtcm_source result" where
  "source_from_dict payload =
     bind_result
       (blocked_value_error ''unknown source_type''
          (enum_parse ''SourceType'' source_type_str SOURCE_TYPES
             (py_str (obj_get payload ''source_type'' (JStr ''UNKNOWN'')))))
       (\<lambda>st. blocked_malformed ''malformed source definition'' (source_of_payload st payload))"

section \<open>Replay configurations\<close>

definition BACKPRESSURE_POLICIES :: "backpressure_policy list" where
  "BACKPRESSURE_POLICIES = [BP_BLOCK, BP_BACKPRESSURE, BP_DROP_NEWEST_EXPLICIT]"

fun backpressure_str :: "backpressure_policy \<Rightarrow> string" where
  "backpressure_str BP_BLOCK = ''BLOCK''"
| "backpressure_str BP_BACKPRESSURE = ''BACKPRESSURE''"
| "backpressure_str BP_DROP_NEWEST_EXPLICIT = ''DROP_NEWEST_EXPLICIT''"

definition config_as_dict :: "replay_config \<Rightarrow> (string \<times> json) list" where
  "config_as_dict c =
     [(''speed'', JFloat (rc_speed c)),
      (''start_sequence'', opt_json JInt (rc_start_sequence c)),
      (''end_sequence'', opt_json JInt (rc_end_sequence c)),
      (''start_time'', opt_json JStr (rc_start_time c)),
      (''end_time'', opt_json JStr (rc_end_time c)),
      (''message_filter'', JArr (map JInt (rc_message_filter c))),
      (''loop_cycles'', JInt (rc_loop_cycles c)),
      (''buffer_capacity'', JInt (rc_buffer_capacity c)),
      (''backpressure_policy'', JStr (backpressure_str (rc_backpressure_policy c))),
      (''max_frame_length'', JInt (rc_max_frame_length c)),
      (''max_events'', JInt (rc_max_events c))]"

text \<open>
  The four selection bounds are passed through as they are. \<open>None\<close> stands for a configuration in
  which one of them has another type than the record declares, which the parser does not notice.
\<close>

fun int_or_null :: "json \<Rightarrow> int option option" where
  "int_or_null JNull = Some None"
| "int_or_null (JInt i) = Some (Some i)"
| "int_or_null v = None"

fun str_or_null :: "json \<Rightarrow> string option option" where
  "str_or_null JNull = Some None"
| "str_or_null (JStr s) = Some (Some s)"
| "str_or_null v = None"

definition config_of_payload ::
  "backpressure_policy \<Rightarrow> (string \<times> json) list \<Rightarrow> replay_config option result"
where
  "config_of_payload policy payload =
     bind_result (py_float (obj_get payload ''speed'' (JFloat (PFin 1)))) (\<lambda>speed.
     bind_result (json_iter (obj_get payload ''message_filter'' (JArr []))) (\<lambda>ms.
     bind_result (map_result py_int ms) (\<lambda>filters.
     bind_result (py_int (obj_get payload ''loop_cycles'' (JInt 1))) (\<lambda>cycles.
     bind_result (py_int (obj_get payload ''buffer_capacity'' (JInt 16))) (\<lambda>capacity.
     bind_result (py_int (obj_get payload ''max_frame_length'' (JInt 1023))) (\<lambda>frame_length.
     bind_result (py_int (obj_get payload ''max_events'' (JInt 100000))) (\<lambda>events.
       Inr (case (int_or_null (obj_get payload ''start_sequence'' JNull),
                  int_or_null (obj_get payload ''end_sequence'' JNull),
                  str_or_null (obj_get payload ''start_time'' JNull),
                  str_or_null (obj_get payload ''end_time'' JNull)) of
              (Some ss, Some es, Some st, Some et) \<Rightarrow>
                Some \<lparr>rc_speed = speed, rc_start_sequence = ss, rc_end_sequence = es,
                      rc_start_time = st, rc_end_time = et, rc_message_filter = filters,
                      rc_loop_cycles = cycles, rc_buffer_capacity = capacity,
                      rc_backpressure_policy = policy, rc_max_frame_length = frame_length,
                      rc_max_events = events\<rparr>
            | _ \<Rightarrow> None))))))))"

definition config_from_dict :: "(string \<times> json) list \<Rightarrow> replay_config option result" where
  "config_from_dict payload =
     bind_result
       (blocked_value_error ''unknown backpressure_policy''
          (enum_parse ''BackpressurePolicy'' backpressure_str BACKPRESSURE_POLICIES
             (py_str (obj_get payload ''backpressure_policy'' (JStr ''BLOCK'')))))
       (\<lambda>policy. blocked_malformed ''malformed replay config'' (config_of_payload policy payload))"

section \<open>Frames, events, deliveries\<close>

fun crc_status_str :: "crc_status \<Rightarrow> string" where
  "crc_status_str CRC_PASS = ''PASS''"
| "crc_status_str CRC_FAIL = ''FAIL''"
| "crc_status_str CRC_UNCHECKED = ''UNCHECKED''"

abbreviation nat_value :: "nat \<Rightarrow> json" where "nat_value n \<equiv> JInt (int n)"

definition frame_record_as_dict :: "frame_record \<Rightarrow> (string \<times> json) list" where
  "frame_record_as_dict f =
     [(''offset'', nat_value (fr_offset f)), (''frame_length'', nat_value (fr_frame_length f)),
      (''message_number'', opt_json nat_value (fr_message_number f)),
      (''crc_status'', JStr (crc_status_str (fr_crc_status f))), (''raw_hash'', JStr (fr_raw_hash f))]"

definition event_as_dict :: "replay_event \<Rightarrow> (string \<times> json) list" where
  "event_as_dict e =
     [(''sequence'', nat_value (ev_sequence e)), (''source_offset'', nat_value (ev_source_offset e)),
      (''message_number'', opt_json nat_value (ev_message_number e)),
      (''frame_length'', nat_value (ev_frame_length e)),
      (''original_timestamp'', opt_json JStr (ev_original_timestamp e)),
      (''relative_time_ms'', JInt (ev_relative_time_ms e)), (''raw_hash'', JStr (ev_raw_hash e))]"

definition correction_frame_as_dict :: "correction_frame \<Rightarrow> (string \<times> json) list" where
  "correction_frame_as_dict f =
     [(''sequence'', nat_value (cf_sequence f)), (''cycle'', nat_value (cf_cycle f)),
      (''source_id'', JStr (cf_source_id f)), (''station_id'', JStr (cf_station_id f)),
      (''mountpoint'', JStr (cf_mountpoint f)),
      (''message_number'', opt_json nat_value (cf_message_number f)),
      (''raw_bytes'', JStr (bytes_hex (cf_raw_bytes f))),
      (''source_timestamp'', opt_json JStr (cf_source_timestamp f)),
      (''replay_timestamp'', JStr (cf_replay_timestamp f)),
      (''provenance'', JObj (cf_provenance f))]"

section \<open>Fingerprints\<close>

definition REPLAY_SCHEMA_VERSION :: string where "REPLAY_SCHEMA_VERSION = ''1.0''"

definition REPLAY_ENGINE_VERSION :: string where "REPLAY_ENGINE_VERSION = ''0.1.0''"

definition config_material :: "replay_config \<Rightarrow> (string \<times> json) list" where
  "config_material c =
     [(''schema_version'', JStr REPLAY_SCHEMA_VERSION), (''parser_version'', JStr PARSER_VERSION),
      (''speed'', JFloat (rc_speed c)),
      (''start_sequence'', opt_json JInt (rc_start_sequence c)),
      (''end_sequence'', opt_json JInt (rc_end_sequence c)),
      (''start_time'', opt_json JStr (rc_start_time c)),
      (''end_time'', opt_json JStr (rc_end_time c)),
      (''message_filter'', JArr (map JInt (sort (rc_message_filter c)))),
      (''loop_cycles'', JInt (rc_loop_cycles c)),
      (''buffer_capacity'', JInt (rc_buffer_capacity c)),
      (''backpressure_policy'', JStr (backpressure_str (rc_backpressure_policy c))),
      (''max_frame_length'', JInt (rc_max_frame_length c)),
      (''max_events'', JInt (rc_max_events c))]"

definition config_fingerprint :: "(bytes \<Rightarrow> string) \<Rightarrow> replay_config \<Rightarrow> string" where
  "config_fingerprint sha c = json_digest sha (JObj (config_material c))"

definition replay_provenance ::
  "string \<Rightarrow> (string \<times> json) list \<Rightarrow> string \<Rightarrow> string \<Rightarrow> string \<Rightarrow> string \<Rightarrow> string \<Rightarrow> string \<Rightarrow> bool \<Rightarrow>
     (string \<times> json) list"
where
  "replay_provenance source_sha256 source_metadata inventory_fingerprint decision_fingerprint
     selected_source config_fp timestamp git_commit clean =
     [(''source_sha256'', JStr source_sha256), (''source_metadata'', JObj source_metadata),
      (''frame_inventory_fingerprint'', JStr inventory_fingerprint),
      (''phase8_decision_fingerprint'', JStr decision_fingerprint),
      (''selected_correction_source'', JStr selected_source),
      (''replay_config_fingerprint'', JStr config_fp),
      (''software_version'', JStr REPLAY_ENGINE_VERSION),
      (''replay_schema_version'', JStr REPLAY_SCHEMA_VERSION),
      (''parser_version'', JStr PARSER_VERSION), (''git_commit'', JStr git_commit),
      (''working_tree_clean'', JBool clean), (''execution_timestamp'', JStr timestamp)]"

section \<open>Round trips\<close>

lemma source_type_parse [simp]:
  "enum_parse ''SourceType'' source_type_str SOURCE_TYPES (source_type_str t) = Inr t"
  by (cases t) (simp_all add: enum_parse_def SOURCE_TYPES_def)

lemma backpressure_parse [simp]:
  "enum_parse ''BackpressurePolicy'' backpressure_str BACKPRESSURE_POLICIES (backpressure_str p) = Inr p"
  by (cases p) (simp_all add: enum_parse_def BACKPRESSURE_POLICIES_def)

lemma map_py_str [simp]: "map (py_str \<circ> JStr) xs = xs"
  by (induction xs) auto

lemma map_result_py_int [simp]: "map_result py_int (map JInt xs) = Inr xs"
  by (induction xs) (auto simp: py_int_def)

lemma int_or_null_value [simp]: "int_or_null (opt_json JInt x) = Some x"
  by (cases x) (simp_all add: opt_json_def)

lemma str_or_null_value [simp]: "str_or_null (opt_json JStr x) = Some x"
  by (cases x) (simp_all add: opt_json_def)

lemma source_of_as_dict:
  "source_of_payload (src_source_type s) (source_as_dict s) = Inr s"
  by (simp add: source_of_payload_def source_as_dict_def obj_index_def obj_get_def text_field_def
      py_int_def json_iter_def)

lemma config_of_as_dict:
  "config_of_payload (rc_backpressure_policy c) (config_as_dict c) = Inr (Some c)"
  by (simp add: config_of_payload_def config_as_dict_def obj_get_def py_int_def py_float_def
      json_iter_def)

text \<open>What the fingerprint material keeps of a configuration: all of it but the order of the filter.\<close>

lemma opt_json_eq [simp]:
  "opt_json JInt x = opt_json JInt y \<longleftrightarrow> x = y" "opt_json JStr u = opt_json JStr v \<longleftrightarrow> u = v"
  by (cases x; cases y; simp add: opt_json_def) (cases u; cases v; simp add: opt_json_def)

lemma backpressure_str_eq [simp]: "backpressure_str p = backpressure_str q \<longleftrightarrow> p = q"
  by (cases p; cases q) simp_all

lemma map_JInt_eq [simp]: "map JInt xs = map JInt ys \<longleftrightarrow> xs = ys"
  by (simp add: inj_map_eq_map inj_def)

lemma config_material_eq:
  "config_material c = config_material d \<longleftrightarrow>
     c\<lparr>rc_message_filter := sort (rc_message_filter c)\<rparr> = d\<lparr>rc_message_filter := sort (rc_message_filter d)\<rparr>"
  by (cases c; cases d) (auto simp: config_material_def)

text \<open>
  Payloads identify what they describe (\<open>source_from_dict\<close>, \<open>config_from_dict\<close>, \<open>config_material\<close>).
  A source and a configuration are read back from their \<open>as_dict\<close> payloads unchanged, and two
  configurations have the same fingerprint material exactly when they agree on every setting, up to
  the order of the message filter, which the plan does not look at.
\<close>

theorem payloads_identify:
  "source_from_dict (source_as_dict s) = Inr s \<and>
   config_from_dict (config_as_dict c) = Inr (Some c) \<and>
   (config_material c = config_material d \<longleftrightarrow>
      c\<lparr>rc_message_filter := sort (rc_message_filter c)\<rparr> = d\<lparr>rc_message_filter := sort (rc_message_filter d)\<rparr>)"
proof (intro conjI)
  have "obj_get (source_as_dict s) ''source_type'' (JStr ''UNKNOWN'') = JStr (source_type_str (src_source_type s))"
    by (simp add: source_as_dict_def obj_get_def)
  then show "source_from_dict (source_as_dict s) = Inr s"
    by (simp add: source_from_dict_def source_of_as_dict)
  have "obj_get (config_as_dict c) ''backpressure_policy'' (JStr ''BLOCK'') =
      JStr (backpressure_str (rc_backpressure_policy c))"
    by (simp add: config_as_dict_def obj_get_def)
  then show "config_from_dict (config_as_dict c) = Inr (Some c)"
    by (simp add: config_from_dict_def config_of_as_dict)
qed (rule config_material_eq)

end
