(* ===== verification/Hybrid_Models.thy ===== *)
theory Hybrid_Models
  imports Py_Convert
begin

text \<open>
  The typed models of the decision engine (\<open>hybrid_decision_engine/models.py\<close>): the enumerations with
  their texts, the decision request with its validation and parser, the assessments consumed from
  the upstream phases, the station candidate, the decision, and the record handed to the replay
  phase. A Python \<open>tuple\<close> or \<open>list\<close> of texts is a list; a field annotated \<open>str | None\<close> that the code
  fills with an unchecked JSON value is a JSON value.
\<close>

section \<open>Enumerations\<close>

datatype correction_mode = CM_VRS | CM_SINGLE_BASE | CM_NO_CORRECTION

fun correction_mode_str :: "correction_mode \<Rightarrow> string" where
  "correction_mode_str CM_VRS = ''VRS''"
| "correction_mode_str CM_SINGLE_BASE = ''SINGLE_BASE''"
| "correction_mode_str CM_NO_CORRECTION = ''NO_CORRECTION''"

datatype decision_status = DS_OK | DS_DEGRADED | DS_BLOCKED | DS_DIAGNOSTIC_ONLY

fun decision_status_str :: "decision_status \<Rightarrow> string" where
  "decision_status_str DS_OK = ''OK''"
| "decision_status_str DS_DEGRADED = ''DEGRADED''"
| "decision_status_str DS_BLOCKED = ''BLOCKED''"
| "decision_status_str DS_DIAGNOSTIC_ONLY = ''DIAGNOSTIC_ONLY''"

datatype desired_mode = DM_AUTO | DM_VRS_ONLY | DM_SINGLE_BASE_ONLY

fun desired_mode_str :: "desired_mode \<Rightarrow> string" where
  "desired_mode_str DM_AUTO = ''AUTO''"
| "desired_mode_str DM_VRS_ONLY = ''VRS_ONLY''"
| "desired_mode_str DM_SINGLE_BASE_ONLY = ''SINGLE_BASE_ONLY''"

datatype vrs_status = VS_APPROVED | VS_PROVISIONAL | VS_NOT_VALIDATED | VS_BLOCKED | VS_UNAVAILABLE

fun vrs_status_str :: "vrs_status \<Rightarrow> string" where
  "vrs_status_str VS_APPROVED = ''APPROVED''"
| "vrs_status_str VS_PROVISIONAL = ''PROVISIONAL''"
| "vrs_status_str VS_NOT_VALIDATED = ''NOT_VALIDATED''"
| "vrs_status_str VS_BLOCKED = ''BLOCKED''"
| "vrs_status_str VS_UNAVAILABLE = ''UNAVAILABLE''"

datatype spatial_model_status = SM_APPROVED | SM_PROVISIONAL | SM_REJECTED | SM_BLOCKED | SM_UNAVAILABLE

fun spatial_model_status_str :: "spatial_model_status \<Rightarrow> string" where
  "spatial_model_status_str SM_APPROVED = ''APPROVED''"
| "spatial_model_status_str SM_PROVISIONAL = ''PROVISIONAL''"
| "spatial_model_status_str SM_REJECTED = ''REJECTED''"
| "spatial_model_status_str SM_BLOCKED = ''BLOCKED''"
| "spatial_model_status_str SM_UNAVAILABLE = ''UNAVAILABLE''"

datatype integrity_status = IS_PASS | IS_DEGRADED | IS_BLOCKED

fun integrity_status_str :: "integrity_status \<Rightarrow> string" where
  "integrity_status_str IS_PASS = ''PASS''"
| "integrity_status_str IS_DEGRADED = ''DEGRADED''"
| "integrity_status_str IS_BLOCKED = ''BLOCKED''"

datatype network_geometry_status = NG_PASS | NG_INSUFFICIENT | NG_EXTRAPOLATION | NG_UNASSESSED

fun network_geometry_status_str :: "network_geometry_status \<Rightarrow> string" where
  "network_geometry_status_str NG_PASS = ''PASS''"
| "network_geometry_status_str NG_INSUFFICIENT = ''INSUFFICIENT''"
| "network_geometry_status_str NG_EXTRAPOLATION = ''EXTRAPOLATION''"
| "network_geometry_status_str NG_UNASSESSED = ''UNASSESSED''"

datatype qc_status = QC_ACCEPT | QC_WARN | QC_REJECT | QC_BLOCKED | QC_MISSING

fun qc_status_str :: "qc_status \<Rightarrow> string" where
  "qc_status_str QC_ACCEPT = ''ACCEPT''"
| "qc_status_str QC_WARN = ''WARN''"
| "qc_status_str QC_REJECT = ''REJECT''"
| "qc_status_str QC_BLOCKED = ''BLOCKED''"
| "qc_status_str QC_MISSING = ''MISSING''"

datatype reason_code =
    VRS_APPROVED
  | VRS_MODEL_NOT_VALIDATED
  | VRS_GEOMETRY_INSUFFICIENT
  | VRS_UPSTREAM_REVIEW_PENDING
  | VRS_TARGET_LEAKAGE
  | VRS_PROVENANCE_INVALID
  | VRS_NOT_REQUESTED
  | VRS_MODE_NOT_PERMITTED
  | SINGLE_BASE_SELECTED
  | SINGLE_BASE_TOO_DISTANT
  | SINGLE_BASE_QC_REJECTED
  | SINGLE_BASE_NAVIGATION_MISSING
  | SINGLE_BASE_NOT_PERMITTED
  | SINGLE_BASE_FALLBACK_DISABLED
  | NO_ACCEPTABLE_CORRECTION_SOURCE
  | NO_NAVIGATION_PRODUCT
  | NO_QC_ADMITTED_STATIONS
  | INVALID_TARGET_COORDINATE
  | STALE_PROVENANCE
  | DIAGNOSTIC_PREVIEW

fun reason_code_str :: "reason_code \<Rightarrow> string" where
  "reason_code_str VRS_APPROVED = ''VRS_APPROVED''"
| "reason_code_str VRS_MODEL_NOT_VALIDATED = ''VRS_MODEL_NOT_VALIDATED''"
| "reason_code_str VRS_GEOMETRY_INSUFFICIENT = ''VRS_GEOMETRY_INSUFFICIENT''"
| "reason_code_str VRS_UPSTREAM_REVIEW_PENDING = ''VRS_UPSTREAM_REVIEW_PENDING''"
| "reason_code_str VRS_TARGET_LEAKAGE = ''VRS_TARGET_LEAKAGE''"
| "reason_code_str VRS_PROVENANCE_INVALID = ''VRS_PROVENANCE_INVALID''"
| "reason_code_str VRS_NOT_REQUESTED = ''VRS_NOT_REQUESTED''"
| "reason_code_str VRS_MODE_NOT_PERMITTED = ''VRS_MODE_NOT_PERMITTED''"
| "reason_code_str SINGLE_BASE_SELECTED = ''SINGLE_BASE_SELECTED''"
| "reason_code_str SINGLE_BASE_TOO_DISTANT = ''SINGLE_BASE_TOO_DISTANT''"
| "reason_code_str SINGLE_BASE_QC_REJECTED = ''SINGLE_BASE_QC_REJECTED''"
| "reason_code_str SINGLE_BASE_NAVIGATION_MISSING = ''SINGLE_BASE_NAVIGATION_MISSING''"
| "reason_code_str SINGLE_BASE_NOT_PERMITTED = ''SINGLE_BASE_NOT_PERMITTED''"
| "reason_code_str SINGLE_BASE_FALLBACK_DISABLED = ''SINGLE_BASE_FALLBACK_DISABLED''"
| "reason_code_str NO_ACCEPTABLE_CORRECTION_SOURCE = ''NO_ACCEPTABLE_CORRECTION_SOURCE''"
| "reason_code_str NO_NAVIGATION_PRODUCT = ''NO_NAVIGATION_PRODUCT''"
| "reason_code_str NO_QC_ADMITTED_STATIONS = ''NO_QC_ADMITTED_STATIONS''"
| "reason_code_str INVALID_TARGET_COORDINATE = ''INVALID_TARGET_COORDINATE''"
| "reason_code_str STALE_PROVENANCE = ''STALE_PROVENANCE''"
| "reason_code_str DIAGNOSTIC_PREVIEW = ''DIAGNOSTIC_PREVIEW''"

text \<open>The parsers \<open>DesiredMode(text)\<close>, \<open>VRSStatus(text)\<close>, \<open>SpatialModelStatus(text)\<close> and \<open>QCStatus(text)\<close>.\<close>

definition parse_desired_mode :: "string \<Rightarrow> desired_mode result" where
  "parse_desired_mode = enum_parse ''DesiredMode'' desired_mode_str [DM_AUTO, DM_VRS_ONLY, DM_SINGLE_BASE_ONLY]"

definition parse_vrs_status :: "string \<Rightarrow> vrs_status result" where
  "parse_vrs_status = enum_parse ''VRSStatus'' vrs_status_str
     [VS_APPROVED, VS_PROVISIONAL, VS_NOT_VALIDATED, VS_BLOCKED, VS_UNAVAILABLE]"

definition parse_spatial_status :: "string \<Rightarrow> spatial_model_status result" where
  "parse_spatial_status = enum_parse ''SpatialModelStatus'' spatial_model_status_str
     [SM_APPROVED, SM_PROVISIONAL, SM_REJECTED, SM_BLOCKED, SM_UNAVAILABLE]"

definition parse_qc_status :: "string \<Rightarrow> qc_status result" where
  "parse_qc_status = enum_parse ''QCStatus'' qc_status_str
     [QC_ACCEPT, QC_WARN, QC_REJECT, QC_BLOCKED, QC_MISSING]"

lemma parse_desired_mode_str [simp]: "parse_desired_mode (desired_mode_str m) = Inr m"
  by (cases m) (simp_all add: parse_desired_mode_def enum_parse_def)

lemma parse_vrs_status_str [simp]: "parse_vrs_status (vrs_status_str m) = Inr m"
  by (cases m) (simp_all add: parse_vrs_status_def enum_parse_def)

lemma parse_spatial_status_str [simp]: "parse_spatial_status (spatial_model_status_str m) = Inr m"
  by (cases m) (simp_all add: parse_spatial_status_def enum_parse_def)

lemma parse_qc_status_str [simp]: "parse_qc_status (qc_status_str m) = Inr m"
  by (cases m) (simp_all add: parse_qc_status_def enum_parse_def)

definition DECISION_BLOCKED_MESSAGE :: string where
  "DECISION_BLOCKED_MESSAGE = ''SCIENTIFIC DECISION BLOCKED - PHASE 8 ADMISSION REQUIREMENTS NOT MET''"

section \<open>The decision request\<close>

type_synonym ecef = "pyfloat \<times> pyfloat \<times> pyfloat"

record decision_request =
  dr_request_id :: string
  dr_request_time :: string
  dr_target_latitude :: "pyfloat option"
  dr_target_longitude :: "pyfloat option"
  dr_target_height :: "pyfloat option"
  dr_target_ecef :: "ecef option"
  dr_target_station_id :: "string option"
  dr_requested_start_time :: string
  dr_requested_end_time :: string
  dr_desired_mode :: desired_mode
  dr_allow_fallback :: bool
  dr_diagnostic :: bool
  dr_year :: int
  dr_day_of_year :: int
  dr_receiver_capabilities :: "(json \<times> json) list"
  dr_constellations :: "string list"
  dr_supported_rtcm_messages :: "string list"
  dr_sampling_requirement_seconds :: "pyfloat option"
  dr_maximum_acceptable_latency_seconds :: "pyfloat option"

text \<open>
  The membership of the desired mode and the three components of the ECEF vector are tested in the
  code as well; both hold of every value of the types here.
\<close>

definition out_of_range :: "string \<Rightarrow> pyfloat option \<Rightarrow> rat \<Rightarrow> string list" where
  "out_of_range name v bound =
     (case v of
        None \<Rightarrow> []
      | Some x \<Rightarrow> if f_le (PFin (- bound)) x \<and> f_le x (PFin bound) then []
                  else [name @ '' out of range: '' @ repr_float x])"

definition request_validate :: "decision_request \<Rightarrow> string list" where
  "request_validate r =
     (if dr_request_id r = [] then [''request_id must be non-empty''] else []) @
     (if dr_request_time r = [] then [''request_time must be non-empty''] else []) @
     (if \<not> (1 \<le> dr_day_of_year r \<and> dr_day_of_year r \<le> 366)
      then [''day_of_year out of range: '' @ str_int (dr_day_of_year r)] else []) @
     (if dr_target_ecef r = None \<and> dr_target_station_id r = None \<and>
         (dr_target_latitude r = None \<or> dr_target_longitude r = None)
      then [''target coordinate required: supply target_ecef, target_station_id, or target_latitude/target_longitude'']
      else []) @
     out_of_range ''target_latitude'' (dr_target_latitude r) 90 @
     out_of_range ''target_longitude'' (dr_target_longitude r) 180"

definition decision_blocked :: "string \<Rightarrow> py_error" where
  "decision_blocked msg = DecisionBlocked (DECISION_BLOCKED_MESSAGE @ '': '' @ msg)"

definition request_assert_valid :: "decision_request \<Rightarrow> unit result" where
  "request_assert_valid r =
     (let problems = request_validate r in
      if problems \<noteq> [] then Inl (decision_blocked (str_join ''; '' problems)) else Inr ())"

text \<open>
  \<open>except (KeyError, TypeError, ValueError)\<close>: these become \<open>DecisionBlocked\<close>, every other exception
  passes through.
\<close>

definition wrap_blocked :: "string \<Rightarrow> 'a result \<Rightarrow> 'a result" where
  "wrap_blocked what r =
     (case r of
        Inr x \<Rightarrow> Inr x
      | Inl e \<Rightarrow>
          (case e of
             KeyError _ \<Rightarrow> Inl (decision_blocked (what @ '': '' @ error_text e))
           | TypeError _ \<Rightarrow> Inl (decision_blocked (what @ '': '' @ error_text e))
           | ValueError _ \<Rightarrow> Inl (decision_blocked (what @ '': '' @ error_text e))
           | _ \<Rightarrow> Inl e))"

lemma wrap_blocked_Inr [simp]: "wrap_blocked what (Inr x) = Inr x"
  by (simp add: wrap_blocked_def)

lemma wrap_blocked_eq_Inr [simp]: "wrap_blocked what r = Inr x \<longleftrightarrow> r = Inr x"
  by (auto simp: wrap_blocked_def split: sum.splits py_error.splits)

definition parse_ecef :: "json \<Rightarrow> ecef result" where
  "parse_ecef v =
     bind_result (json_index v 0) (\<lambda>a. bind_result (py_float a) (\<lambda>x.
     bind_result (json_index v 1) (\<lambda>b. bind_result (py_float b) (\<lambda>y.
     bind_result (json_index v 2) (\<lambda>c. bind_result (py_float c) (\<lambda>z.
       Inr (x, y, z)))))))"

definition str_list :: "json \<Rightarrow> string list result" where
  "str_list v = bind_result (json_iter v) (\<lambda>vs. Inr (map py_str vs))"

definition request_fields :: "(string \<times> json) list \<Rightarrow> desired_mode \<Rightarrow> decision_request result" where
  "request_fields p desired =
     bind_result (optional parse_ecef (obj_get p ''target_ecef'' JNull)) (\<lambda>ecef.
     bind_result (obj_index p ''request_id'') (\<lambda>rid.
     bind_result (obj_index p ''request_time'') (\<lambda>rtime.
     bind_result (optional py_float (obj_get p ''target_latitude'' JNull)) (\<lambda>lat.
     bind_result (optional py_float (obj_get p ''target_longitude'' JNull)) (\<lambda>lon.
     bind_result (optional py_float (obj_get p ''target_height'' JNull)) (\<lambda>h.
     bind_result (optional (\<lambda>v. Inr (py_str v)) (obj_get p ''target_station_id'' JNull)) (\<lambda>station.
     bind_result (py_int (obj_get p ''year'' (JInt 2024))) (\<lambda>year.
     bind_result (py_int (obj_get p ''day_of_year'' (JInt 26))) (\<lambda>day.
     bind_result (py_dict (obj_get p ''receiver_capabilities'' (JObj []))) (\<lambda>caps.
     bind_result (str_list (obj_get p ''constellations'' (JArr []))) (\<lambda>cons.
     bind_result (str_list (obj_get p ''supported_rtcm_messages'' (JArr []))) (\<lambda>msgs.
     bind_result (optional py_float (obj_get p ''sampling_requirement_seconds'' JNull)) (\<lambda>sampling.
     bind_result (optional py_float (obj_get p ''maximum_acceptable_latency_seconds'' JNull)) (\<lambda>latency.
       Inr \<lparr>dr_request_id = py_str rid, dr_request_time = py_str rtime, dr_target_latitude = lat,
            dr_target_longitude = lon, dr_target_height = h, dr_target_ecef = ecef,
            dr_target_station_id = station,
            dr_requested_start_time = py_str (obj_get p ''requested_start_time'' (JStr [])),
            dr_requested_end_time = py_str (obj_get p ''requested_end_time'' (JStr [])),
            dr_desired_mode = desired,
            dr_allow_fallback = py_bool (obj_get p ''allow_fallback'' (JBool True)),
            dr_diagnostic = py_bool (obj_get p ''diagnostic'' (JBool False)),
            dr_year = year, dr_day_of_year = day, dr_receiver_capabilities = caps,
            dr_constellations = cons, dr_supported_rtcm_messages = msgs,
            dr_sampling_requirement_seconds = sampling,
            dr_maximum_acceptable_latency_seconds = latency\<rparr>))))))))))))))"

definition request_from_dict :: "(string \<times> json) list \<Rightarrow> decision_request result" where
  "request_from_dict p =
     (case parse_desired_mode (py_str (obj_get p ''desired_mode'' (JStr ''AUTO''))) of
        Inl e \<Rightarrow> Inl (decision_blocked (''unknown desired_mode: '' @ error_text e))
      | Inr desired \<Rightarrow> wrap_blocked ''malformed decision request'' (request_fields p desired))"

section \<open>Assessments of the upstream phases\<close>

record spatial_assessment =
  sa_model_name :: string
  sa_validation_status :: spatial_model_status
  sa_validation_metric :: "pyfloat option"
  sa_control_metric :: "pyfloat option"
  sa_beats_zero_control :: json
  sa_beats_nearest_control :: json
  sa_sample_count :: "int option"
  sa_geometry_status :: string
  sa_extrapolation :: bool
  sa_fingerprint :: string
  sa_provenance :: string

record vrs_capability =
  vc_status :: vrs_status
  vc_experiment_id :: string
  vc_target :: string
  vc_reference_stations :: "string list"
  vc_anchor :: string
  vc_correction_mode :: string
  vc_model_status :: spatial_model_status
  vc_observation_coverage :: string
  vc_validation_status :: string
  vc_target_leakage_status :: string
  vc_fingerprint :: string
  vc_provenance :: string

definition of_option :: "('a \<Rightarrow> json) \<Rightarrow> 'a option \<Rightarrow> json" where
  "of_option f x = (case x of None \<Rightarrow> JNull | Some v \<Rightarrow> f v)"

definition spatial_as_dict :: "spatial_assessment \<Rightarrow> (string \<times> json) list" where
  "spatial_as_dict a =
     [(''model_name'', JStr (sa_model_name a)),
      (''validation_status'', JStr (spatial_model_status_str (sa_validation_status a))),
      (''validation_metric'', of_option JFloat (sa_validation_metric a)),
      (''control_metric'', of_option JFloat (sa_control_metric a)),
      (''beats_zero_control'', sa_beats_zero_control a),
      (''beats_nearest_control'', sa_beats_nearest_control a),
      (''sample_count'', of_option JInt (sa_sample_count a)),
      (''geometry_status'', JStr (sa_geometry_status a)),
      (''extrapolation'', JBool (sa_extrapolation a)),
      (''fingerprint'', JStr (sa_fingerprint a)),
      (''provenance'', JStr (sa_provenance a))]"

definition vrs_as_dict :: "vrs_capability \<Rightarrow> (string \<times> json) list" where
  "vrs_as_dict a =
     [(''status'', JStr (vrs_status_str (vc_status a))),
      (''experiment_id'', JStr (vc_experiment_id a)),
      (''target'', JStr (vc_target a)),
      (''reference_stations'', JArr (map JStr (vc_reference_stations a))),
      (''anchor'', JStr (vc_anchor a)),
      (''correction_mode'', JStr (vc_correction_mode a)),
      (''model_status'', JStr (spatial_model_status_str (vc_model_status a))),
      (''observation_coverage'', JStr (vc_observation_coverage a)),
      (''validation_status'', JStr (vc_validation_status a)),
      (''target_leakage_status'', JStr (vc_target_leakage_status a)),
      (''fingerprint'', JStr (vc_fingerprint a)),
      (''provenance'', JStr (vc_provenance a))]"

text \<open>These two parsers catch \<open>TypeError\<close> and \<open>ValueError\<close>; no \<open>KeyError\<close> can arise in them.\<close>

definition text_of :: "(string \<times> json) list \<Rightarrow> string \<Rightarrow> string \<Rightarrow> string" where
  "text_of p k dflt = py_str (obj_get p k (JStr dflt))"

definition spatial_assessment_from_dict :: "(string \<times> json) list \<Rightarrow> spatial_assessment result" where
  "spatial_assessment_from_dict p =
     wrap_blocked ''malformed Phase 6 assessment''
       (bind_result (parse_spatial_status (text_of p ''validation_status'' ''UNAVAILABLE'')) (\<lambda>status.
        bind_result (optional py_float (obj_get p ''validation_metric'' JNull)) (\<lambda>metric.
        bind_result (optional py_float (obj_get p ''control_metric'' JNull)) (\<lambda>control.
        bind_result (optional py_int (obj_get p ''sample_count'' JNull)) (\<lambda>count.
          Inr \<lparr>sa_model_name = text_of p ''model_name'' [], sa_validation_status = status,
               sa_validation_metric = metric, sa_control_metric = control,
               sa_beats_zero_control = obj_get p ''beats_zero_control'' JNull,
               sa_beats_nearest_control = obj_get p ''beats_nearest_control'' JNull,
               sa_sample_count = count, sa_geometry_status = text_of p ''geometry_status'' ''UNASSESSED'',
               sa_extrapolation = py_bool (obj_get p ''extrapolation'' (JBool False)),
               sa_fingerprint = text_of p ''fingerprint'' [],
               sa_provenance = text_of p ''provenance'' []\<rparr>)))))"

definition vrs_assessment_from_dict :: "(string \<times> json) list \<Rightarrow> vrs_capability result" where
  "vrs_assessment_from_dict p =
     wrap_blocked ''malformed Phase 7 assessment''
       (bind_result (parse_vrs_status (text_of p ''status'' ''UNAVAILABLE'')) (\<lambda>status.
        bind_result (str_list (obj_get p ''reference_stations'' (JArr []))) (\<lambda>refs.
        bind_result (parse_spatial_status (text_of p ''model_status'' ''UNAVAILABLE'')) (\<lambda>model.
          Inr \<lparr>vc_status = status, vc_experiment_id = text_of p ''experiment_id'' [],
               vc_target = text_of p ''target'' [], vc_reference_stations = refs,
               vc_anchor = text_of p ''anchor'' [], vc_correction_mode = text_of p ''correction_mode'' [],
               vc_model_status = model,
               vc_observation_coverage = text_of p ''observation_coverage'' [],
               vc_validation_status = text_of p ''validation_status'' [],
               vc_target_leakage_status = text_of p ''target_leakage_status'' [],
               vc_fingerprint = text_of p ''fingerprint'' [],
               vc_provenance = text_of p ''provenance'' []\<rparr>))))"

section \<open>Candidates and decisions\<close>

record station_candidate =
  sc_station_id :: string
  sc_distance_m :: "pyfloat option"
  sc_qc_status :: qc_status
  sc_navigation_available :: bool
  sc_navigation_sha256 :: json
  sc_coordinate_verified :: bool
  sc_coordinate_frame :: json
  sc_coordinate_epoch :: json
  sc_observation_coverage :: json
  sc_common_interval :: json
  sc_equipment_metadata :: "(json \<times> json) list"
  sc_phase4_fingerprint :: string
  sc_eligible :: bool
  sc_ineligibility_reasons :: "string list"

record correction_decision =
  cd_decision_id :: string
  cd_request_id :: string
  cd_timestamp :: string
  cd_mode :: correction_mode
  cd_status :: decision_status
  cd_reason_code :: reason_code
  cd_reason_text :: string
  cd_selected_reference :: "string option"
  cd_selected_network :: "string list"
  cd_selected_vrs_experiment :: "string option"
  cd_candidate_references :: "string list"
  cd_distance_to_selected_reference_m :: "pyfloat option"
  cd_network_station_count :: nat
  cd_network_geometry_status :: network_geometry_status
  cd_qc_status :: string
  cd_spatial_model_status :: spatial_model_status
  cd_vrs_status :: vrs_status
  cd_integrity_status :: integrity_status
  cd_provenance :: "(string \<times> json) list"
  cd_fallback_used :: bool
  cd_warnings :: "string list"
  cd_blockers :: "string list"
  cd_decision_fingerprint :: string
  cd_diagnostic :: bool

definition decision_as_dict :: "correction_decision \<Rightarrow> (string \<times> json) list" where
  "decision_as_dict d =
     [(''decision_id'', JStr (cd_decision_id d)), (''request_id'', JStr (cd_request_id d)),
      (''timestamp'', JStr (cd_timestamp d)), (''mode'', JStr (correction_mode_str (cd_mode d))),
      (''status'', JStr (decision_status_str (cd_status d))),
      (''reason_code'', JStr (reason_code_str (cd_reason_code d))),
      (''reason_text'', JStr (cd_reason_text d)),
      (''selected_reference'', of_option JStr (cd_selected_reference d)),
      (''selected_network'', JArr (map JStr (cd_selected_network d))),
      (''selected_vrs_experiment'', of_option JStr (cd_selected_vrs_experiment d)),
      (''candidate_references'', JArr (map JStr (cd_candidate_references d))),
      (''distance_to_selected_reference_m'', of_option JFloat (cd_distance_to_selected_reference_m d)),
      (''network_station_count'', JInt (int (cd_network_station_count d))),
      (''network_geometry_status'', JStr (network_geometry_status_str (cd_network_geometry_status d))),
      (''qc_status'', JStr (cd_qc_status d)),
      (''spatial_model_status'', JStr (spatial_model_status_str (cd_spatial_model_status d))),
      (''vrs_status'', JStr (vrs_status_str (cd_vrs_status d))),
      (''integrity_status'', JStr (integrity_status_str (cd_integrity_status d))),
      (''provenance'', JObj (cd_provenance d)), (''fallback_used'', JBool (cd_fallback_used d)),
      (''warnings'', JArr (map JStr (cd_warnings d))), (''blockers'', JArr (map JStr (cd_blockers d))),
      (''decision_fingerprint'', JStr (cd_decision_fingerprint d)),
      (''diagnostic'', JBool (cd_diagnostic d))]"

section \<open>The handoff record\<close>

record phase9_decision =
  p9_mode :: correction_mode
  p9_source :: string
  p9_reference_station :: "string option"
  p9_virtual_station :: "string option"
  p9_correction_artifact :: "string option"
  p9_status :: decision_status
  p9_valid_from :: string
  p9_valid_until :: string
  p9_provenance :: "(string \<times> json) list"

definition phase9_view :: "correction_decision \<Rightarrow> decision_request \<Rightarrow> phase9_decision" where
  "phase9_view d r =
     \<lparr>p9_mode = cd_mode d,
      p9_source =
        (if cd_mode d = CM_VRS then str_or (cd_selected_vrs_experiment d) ''VRS''
         else if cd_mode d = CM_SINGLE_BASE then str_or (cd_selected_reference d) ''SINGLE_BASE''
         else ''NO_CORRECTION''),
      p9_reference_station = cd_selected_reference d,
      p9_virtual_station = (if cd_mode d = CM_VRS then cd_selected_vrs_experiment d else None),
      p9_correction_artifact = None,
      p9_status = cd_status d,
      p9_valid_from = dr_requested_start_time r,
      p9_valid_until = dr_requested_end_time r,
      p9_provenance = cd_provenance d\<rparr>"

definition phase9_as_dict :: "phase9_decision \<Rightarrow> (string \<times> json) list" where
  "phase9_as_dict p =
     [(''mode'', JStr (correction_mode_str (p9_mode p))), (''source'', JStr (p9_source p)),
      (''reference_station'', of_option JStr (p9_reference_station p)),
      (''virtual_station'', of_option JStr (p9_virtual_station p)),
      (''correction_artifact'', of_option JStr (p9_correction_artifact p)),
      (''status'', JStr (decision_status_str (p9_status p))),
      (''valid_from'', JStr (p9_valid_from p)), (''valid_until'', JStr (p9_valid_until p)),
      (''provenance'', JObj (p9_provenance p))]"

section \<open>Lemmas\<close>

lemma optional_of_option [simp]:
  assumes "\<And>x. f (j x) = Inr x" and "\<And>x. j x \<noteq> JNull"
  shows "optional f (of_option j v) = Inr v"
  using assms by (cases v) (simp_all add: of_option_def)

lemma str_list_JArr [simp]: "str_list (JArr (map JStr ss)) = Inr ss"
  by (simp add: str_list_def)

lemma wrap_blocked_error:
  assumes "wrap_blocked what r = Inl e"
  shows "(\<exists>m. e = decision_blocked m) \<or>
    (r = Inl e \<and> (\<forall>m. e \<noteq> KeyError m \<and> e \<noteq> TypeError m \<and> e \<noteq> ValueError m))"
  using assms by (auto simp: wrap_blocked_def split: sum.splits py_error.splits)

text \<open>The exceptions of the parser that its handler does not catch.\<close>

definition escaping :: "py_error \<Rightarrow> bool" where
  "escaping e = (case e of OverflowError _ \<Rightarrow> True | IndexError _ \<Rightarrow> True | _ \<Rightarrow> False)"

definition parser_error :: "py_error \<Rightarrow> bool" where
  "parser_error e =
     (case e of KeyError _ \<Rightarrow> True | TypeError _ \<Rightarrow> True | ValueError _ \<Rightarrow> True | _ \<Rightarrow> escaping e)"

lemma parser_errors:
  "py_float v = Inl e \<Longrightarrow> parser_error e"
  "py_int v = Inl e \<Longrightarrow> parser_error e"
  "json_iter v = Inl e \<Longrightarrow> parser_error e"
  "py_dict v = Inl e \<Longrightarrow> parser_error e"
  "json_index v i = Inl e \<Longrightarrow> parser_error e"
  "obj_index ms k = Inl e \<Longrightarrow> parser_error e"
  "str_list v = Inl e \<Longrightarrow> parser_error e"
  by (auto simp: parser_error_def escaping_def json_index_def obj_index_def str_list_def bind_result_eq_Inl
      dest!: py_float_error py_int_error json_iter_error py_dict_error split: json.splits if_splits option.splits)

lemma parse_ecef_error: "parse_ecef v = Inl e \<Longrightarrow> parser_error e"
  by (auto simp: parse_ecef_def bind_result_eq_Inl dest: parser_errors)

lemma request_fields_error: "request_fields p desired = Inl e \<Longrightarrow> parser_error e"
  by (auto simp: request_fields_def bind_result_eq_Inl dest!: optional_error dest: parser_errors parse_ecef_error)

text \<open>
  C39. The request parser fails closed, up to two exceptions. On any payload it returns a request or
  raises \<open>DecisionBlocked\<close>, an \<open>OverflowError\<close> or an \<open>IndexError\<close>. The last two are not turned into
  \<open>DecisionBlocked\<close>: an ECEF vector of two components raises a bare \<open>IndexError\<close>, and a latitude given as
  an integer beyond the range of a float raises a bare \<open>OverflowError\<close>.
\<close>

theorem request_parser_fails_closed:
  "(case request_from_dict p of
      Inr r \<Rightarrow> True
    | Inl e \<Rightarrow> (\<exists>m. e = decision_blocked m) \<or> (\<exists>m. e = OverflowError m) \<or> (\<exists>m. e = IndexError m)) \<and>
   request_from_dict [(''target_ecef'', JArr [JInt 1, JInt 2])] = Inl (IndexError ''list index out of range'') \<and>
   request_from_dict [(''request_id'', JStr ''r''), (''request_time'', JStr ''t''),
     (''target_latitude'', JInt (2 ^ 1024))] = Inl (OverflowError ''int too large to convert to float'')"
proof (intro conjI)
  show "case request_from_dict p of Inr r \<Rightarrow> True
    | Inl e \<Rightarrow> (\<exists>m. e = decision_blocked m) \<or> (\<exists>m. e = OverflowError m) \<or> (\<exists>m. e = IndexError m)"
    by (fastforce simp: request_from_dict_def parser_error_def escaping_def split: sum.split py_error.splits
        dest!: wrap_blocked_error dest: request_fields_error)
  show "request_from_dict [(''target_ecef'', JArr [JInt 1, JInt 2])] = Inl (IndexError ''list index out of range'')"
    by (simp add: request_from_dict_def parse_desired_mode_def enum_parse_def obj_get_def request_fields_def
        optional_def parse_ecef_def json_index_def wrap_blocked_def py_float_def int_to_float_exact
        int_to_float_exact [of 1, simplified] int_to_float_exact [of 2, simplified])
  have "request_from_dict [(''request_id'', JStr ''r''), (''request_time'', JStr ''t''),
     (''target_latitude'', JInt i)] = Inl (OverflowError m)" if "int_to_float i = Inl (OverflowError m)" for i m
    using that
    by (simp add: request_from_dict_def parse_desired_mode_def enum_parse_def obj_get_def obj_index_def
        request_fields_def optional_def wrap_blocked_def py_float_def)
  from this [OF int_to_float_power [OF order_refl]]
  show "request_from_dict [(''request_id'', JStr ''r''), (''request_time'', JStr ''t''),
     (''target_latitude'', JInt (2 ^ 1024))] = Inl (OverflowError ''int too large to convert to float'')" .
qed

lemma enum_parse_Inr:
  "enum_parse cls val members s = Inr m \<Longrightarrow> val m = s"
  by (cases "find (\<lambda>m. val m = s) members") (auto simp: enum_parse_def find_Some_iff)

lemma status_text:
  "parse_spatial_status s = Inr m \<Longrightarrow> spatial_model_status_str m = s"
  "parse_vrs_status s = Inr w \<Longrightarrow> vrs_status_str w = s"
  unfolding parse_spatial_status_def parse_vrs_status_def by (erule enum_parse_Inr)+

lemma approved_text:
  "spatial_model_status_str m = ''APPROVED'' \<longleftrightarrow> m = SM_APPROVED"
  "vrs_status_str w = ''APPROVED'' \<longleftrightarrow> w = VS_APPROVED"
  by (cases m; simp) (cases w; simp)

text \<open>
  The upstream assessments survive serialisation: each parser reads back what \<open>as_dict\<close> wrote.
  On any payload the status is \<open>APPROVED\<close> only if the payload says so in this very word (a missing
  status is read as unavailable), and a text outside the enumeration is refused.
\<close>

theorem assessments_roundtrip:
  "spatial_assessment_from_dict (spatial_as_dict a) = Inr a \<and>
   vrs_assessment_from_dict (vrs_as_dict v) = Inr v \<and>
   (case spatial_assessment_from_dict p of
      Inr b \<Rightarrow> sa_validation_status b = SM_APPROVED \<longleftrightarrow> text_of p ''validation_status'' [] = ''APPROVED''
    | Inl e \<Rightarrow> (\<exists>m. e = decision_blocked m) \<or> (\<exists>m. e = OverflowError m) \<or> (\<exists>m. e = IndexError m)) \<and>
   (case vrs_assessment_from_dict p of
      Inr b \<Rightarrow> vc_status b = VS_APPROVED \<longleftrightarrow> text_of p ''status'' [] = ''APPROVED''
    | Inl e \<Rightarrow> (\<exists>m. e = decision_blocked m))"
proof (intro conjI)
  show "spatial_assessment_from_dict (spatial_as_dict a) = Inr a"
    by (simp add: spatial_assessment_from_dict_def spatial_as_dict_def text_of_def obj_get_def)
  show "vrs_assessment_from_dict (vrs_as_dict v) = Inr v"
    by (simp add: vrs_assessment_from_dict_def vrs_as_dict_def text_of_def obj_get_def)
  have dflt: "text_of p k d = ''APPROVED'' \<longleftrightarrow> text_of p k [] = ''APPROVED''" if "d \<noteq> ''APPROVED''" for k d
    using that by (auto simp: text_of_def obj_get_def split: option.splits)
  have err: "parse_spatial_status s = Inl e \<Longrightarrow> parser_error e" "parse_vrs_status s = Inl e \<Longrightarrow> parser_error e" for s e
    by (auto simp: parse_spatial_status_def parse_vrs_status_def parser_error_def dest!: enum_parse_error)
  show "case spatial_assessment_from_dict p of
      Inr b \<Rightarrow> sa_validation_status b = SM_APPROVED \<longleftrightarrow> text_of p ''validation_status'' [] = ''APPROVED''
    | Inl e \<Rightarrow> (\<exists>m. e = decision_blocked m) \<or> (\<exists>m. e = OverflowError m) \<or> (\<exists>m. e = IndexError m)"
  proof (cases "spatial_assessment_from_dict p")
    case (Inl e)
    then show ?thesis
      by (fastforce simp: spatial_assessment_from_dict_def bind_result_eq_Inl parser_error_def escaping_def
          split: py_error.splits dest!: wrap_blocked_error optional_error dest: err parser_errors)
  next
    case (Inr b)
    then have "spatial_model_status_str (sa_validation_status b) = text_of p ''validation_status'' ''UNAVAILABLE''"
      by (auto simp: spatial_assessment_from_dict_def dest: status_text)
    with Inr dflt [of "''UNAVAILABLE''" "''validation_status''"] show ?thesis
      by (simp flip: approved_text)
  qed
  show "case vrs_assessment_from_dict p of
      Inr b \<Rightarrow> vc_status b = VS_APPROVED \<longleftrightarrow> text_of p ''status'' [] = ''APPROVED''
    | Inl e \<Rightarrow> (\<exists>m. e = decision_blocked m)"
  proof (cases "vrs_assessment_from_dict p")
    case (Inl e)
    then show ?thesis
      by (fastforce simp: vrs_assessment_from_dict_def bind_result_eq_Inl str_list_def parse_spatial_status_def
          parse_vrs_status_def dest!: wrap_blocked_error json_iter_error enum_parse_error)
  next
    case (Inr b)
    then have "vrs_status_str (vc_status b) = text_of p ''status'' ''UNAVAILABLE''"
      by (auto simp: vrs_assessment_from_dict_def dest: status_text)
    with Inr dflt [of "''UNAVAILABLE''" "''status''"] show ?thesis
      by (simp flip: approved_text)
  qed
qed

end
