(* ===== verification/Hybrid_Policy.thy ===== *)
theory Hybrid_Policy
  imports Hybrid_Models
begin

text \<open>
  The versioned decision policy (\<open>hybrid_decision_engine/policy.py\<close>): the distance bands, the policy
  record with its validation, its parser, loader and fingerprint, and the default policy.
\<close>

section \<open>Policies\<close>

definition POLICY_VERSION :: string where "POLICY_VERSION = ''v1.0''"
definition POLICY_SCHEMA_VERSION :: string where "POLICY_SCHEMA_VERSION = ''1.0''"
definition POLICY_STATUS_PROVISIONAL :: string where "POLICY_STATUS_PROVISIONAL = ''PROVISIONAL''"
definition POLICY_STATUS_VALIDATED :: string where
  "POLICY_STATUS_VALIDATED = ''SCIENTIFICALLY_VALIDATED''"
definition POLICY_STATUS_ENGINEERING :: string where
  "POLICY_STATUS_ENGINEERING = ''ENGINEERING_DEFAULT''"

record distance_policy =
  dp_preferred_max_m :: pyfloat
  dp_degraded_max_m :: pyfloat
  dp_maximum_allowed_m :: pyfloat
  dp_calibration :: string
  dp_note :: string

definition default_distance :: distance_policy where
  "default_distance =
     \<lparr>dp_preferred_max_m = PFin 150000, dp_degraded_max_m = PFin 500000,
      dp_maximum_allowed_m = PFin 1100000, dp_calibration = POLICY_STATUS_PROVISIONAL,
      dp_note = ''Distance bands are PROVISIONAL engineering defaults, not empirically '' @
        ''calibrated for Nigeria. Distance never overrides a failed science gate.''\<rparr>"

definition band :: "distance_policy \<Rightarrow> pyfloat option \<Rightarrow> string" where
  "band p distance =
     (case distance of
        None \<Rightarrow> ''unknown''
      | Some d \<Rightarrow>
          if f_le d (dp_preferred_max_m p) then ''preferred''
          else if f_le d (dp_degraded_max_m p) then ''degraded''
          else if f_le d (dp_maximum_allowed_m p) then ''maximum''
          else ''beyond_maximum'')"

definition distance_as_dict :: "distance_policy \<Rightarrow> (string \<times> json) list" where
  "distance_as_dict p =
     [(''preferred_max_m'', JFloat (dp_preferred_max_m p)),
      (''degraded_max_m'', JFloat (dp_degraded_max_m p)),
      (''maximum_allowed_m'', JFloat (dp_maximum_allowed_m p)),
      (''calibration'', JStr (dp_calibration p)), (''note'', JStr (dp_note p))]"

record decision_policy =
  pl_policy_version :: string
  pl_schema_version :: string
  pl_minimum_network_reference_count :: int
  pl_minimum_network_reference_count_calibration :: string
  pl_allow_extrapolation :: bool
  pl_single_base_fallback_enabled :: bool
  pl_require_approved_spatial_model_for_vrs :: bool
  pl_require_approved_vrs_for_vrs :: bool
  pl_warn_on_qc_warn :: bool
  pl_qc_warn_blocks_automatic :: bool
  pl_diagnostic_preview_enabled :: bool
  pl_minimum_common_interval_seconds :: pyfloat
  pl_minimum_common_interval_calibration :: string
  pl_distance :: distance_policy
  pl_notes :: "string list"

definition default_fields :: decision_policy where
  "default_fields =
     \<lparr>pl_policy_version = POLICY_VERSION, pl_schema_version = POLICY_SCHEMA_VERSION,
      pl_minimum_network_reference_count = 3,
      pl_minimum_network_reference_count_calibration = POLICY_STATUS_VALIDATED,
      pl_allow_extrapolation = False, pl_single_base_fallback_enabled = True,
      pl_require_approved_spatial_model_for_vrs = True, pl_require_approved_vrs_for_vrs = True,
      pl_warn_on_qc_warn = True, pl_qc_warn_blocks_automatic = True,
      pl_diagnostic_preview_enabled = True, pl_minimum_common_interval_seconds = PFin 3600,
      pl_minimum_common_interval_calibration = POLICY_STATUS_ENGINEERING,
      pl_distance = default_distance, pl_notes = []\<rparr>"

definition DEFAULT_POLICY :: decision_policy where
  "DEFAULT_POLICY = default_fields\<lparr>pl_notes :=
     [''VRS automatic selection requires Phase 6 APPROVED + Phase 7 APPROVED.'',
      ''Phase 4 WARN never auto-converts to ACCEPT.'',
      ''Distance bands PROVISIONAL: long Nigerian baselines may yield '' @
      ''FLOAT-only metre-level results; communicate degraded expectations.'']\<rparr>"

definition policy_as_dict :: "decision_policy \<Rightarrow> (string \<times> json) list" where
  "policy_as_dict p =
     [(''policy_version'', JStr (pl_policy_version p)),
      (''schema_version'', JStr (pl_schema_version p)),
      (''minimum_network_reference_count'', JInt (pl_minimum_network_reference_count p)),
      (''minimum_network_reference_count_calibration'',
        JStr (pl_minimum_network_reference_count_calibration p)),
      (''allow_extrapolation'', JBool (pl_allow_extrapolation p)),
      (''single_base_fallback_enabled'', JBool (pl_single_base_fallback_enabled p)),
      (''require_approved_spatial_model_for_vrs'', JBool (pl_require_approved_spatial_model_for_vrs p)),
      (''require_approved_vrs_for_vrs'', JBool (pl_require_approved_vrs_for_vrs p)),
      (''warn_on_qc_warn'', JBool (pl_warn_on_qc_warn p)),
      (''qc_warn_blocks_automatic'', JBool (pl_qc_warn_blocks_automatic p)),
      (''diagnostic_preview_enabled'', JBool (pl_diagnostic_preview_enabled p)),
      (''minimum_common_interval_seconds'', JFloat (pl_minimum_common_interval_seconds p)),
      (''minimum_common_interval_calibration'', JStr (pl_minimum_common_interval_calibration p)),
      (''distance'', JObj (distance_as_dict (pl_distance p))),
      (''notes'', JArr (map JStr (pl_notes p)))]"

definition policy_validate :: "decision_policy \<Rightarrow> string list" where
  "policy_validate p =
     (if pl_policy_version p = [] then [''policy_version must be non-empty''] else []) @
     (if pl_minimum_network_reference_count p < 3
      then [''minimum_network_reference_count below justified floor 3''] else []) @
     (if f_le (dp_preferred_max_m (pl_distance p)) f_zero
      then [''distance.preferred_max_m must be positive''] else []) @
     (if \<not> (f_le (dp_preferred_max_m (pl_distance p)) (dp_degraded_max_m (pl_distance p)) \<and>
            f_le (dp_degraded_max_m (pl_distance p)) (dp_maximum_allowed_m (pl_distance p)))
      then [''distance bands must satisfy preferred <= degraded <= maximum''] else []) @
     (if f_le (pl_minimum_common_interval_seconds p) f_zero
      then [''minimum_common_interval_seconds must be positive''] else [])"

section \<open>Reading a policy\<close>

definition float_of :: "(string \<times> json) list \<Rightarrow> string \<Rightarrow> rat \<Rightarrow> pyfloat result" where
  "float_of p k dflt = py_float (obj_get p k (JFloat (PFin dflt)))"

definition bool_of :: "(string \<times> json) list \<Rightarrow> string \<Rightarrow> bool \<Rightarrow> bool" where
  "bool_of p k dflt = py_bool (obj_get p k (JBool dflt))"

definition distance_from_dict :: "(string \<times> json) list \<Rightarrow> distance_policy result" where
  "distance_from_dict d =
     bind_result (float_of d ''preferred_max_m'' 150000) (\<lambda>preferred.
     bind_result (float_of d ''degraded_max_m'' 500000) (\<lambda>degraded.
     bind_result (float_of d ''maximum_allowed_m'' 1100000) (\<lambda>maximum.
       Inr \<lparr>dp_preferred_max_m = preferred, dp_degraded_max_m = degraded,
            dp_maximum_allowed_m = maximum,
            dp_calibration = text_of d ''calibration'' POLICY_STATUS_PROVISIONAL,
            dp_note = text_of d ''note'' (dp_note default_distance)\<rparr>)))"

definition policy_fields :: "(string \<times> json) list \<Rightarrow> decision_policy result" where
  "policy_fields p =
     bind_result
       (case obj_get p ''distance'' (JObj []) of
          JObj d \<Rightarrow> distance_from_dict d
        | _ \<Rightarrow> Inl (ValueError ''distance must be a mapping'')) (\<lambda>distance.
     bind_result (py_int (obj_get p ''minimum_network_reference_count'' (JInt 3))) (\<lambda>count.
     bind_result (float_of p ''minimum_common_interval_seconds'' 3600) (\<lambda>interval.
     bind_result (str_list (obj_get p ''notes'' (JArr []))) (\<lambda>notes.
       Inr \<lparr>pl_policy_version = text_of p ''policy_version'' POLICY_VERSION,
            pl_schema_version = text_of p ''schema_version'' POLICY_SCHEMA_VERSION,
            pl_minimum_network_reference_count = count,
            pl_minimum_network_reference_count_calibration =
              text_of p ''minimum_network_reference_count_calibration'' POLICY_STATUS_VALIDATED,
            pl_allow_extrapolation = bool_of p ''allow_extrapolation'' False,
            pl_single_base_fallback_enabled = bool_of p ''single_base_fallback_enabled'' True,
            pl_require_approved_spatial_model_for_vrs =
              bool_of p ''require_approved_spatial_model_for_vrs'' True,
            pl_require_approved_vrs_for_vrs = bool_of p ''require_approved_vrs_for_vrs'' True,
            pl_warn_on_qc_warn = bool_of p ''warn_on_qc_warn'' True,
            pl_qc_warn_blocks_automatic = bool_of p ''qc_warn_blocks_automatic'' True,
            pl_diagnostic_preview_enabled = bool_of p ''diagnostic_preview_enabled'' True,
            pl_minimum_common_interval_seconds = interval,
            pl_minimum_common_interval_calibration =
              text_of p ''minimum_common_interval_calibration'' POLICY_STATUS_ENGINEERING,
            pl_distance = distance, pl_notes = notes\<rparr>))))"

definition policy_from_dict :: "(string \<times> json) list \<Rightarrow> decision_policy result" where
  "policy_from_dict p =
     (case policy_fields p of
        Inr pol \<Rightarrow> Inr pol
      | Inl e \<Rightarrow>
          (case e of
             TypeError m \<Rightarrow> Inl (ValueError (''malformed decision policy: '' @ m))
           | ValueError m \<Rightarrow> Inl (ValueError (''malformed decision policy: '' @ m))
           | _ \<Rightarrow> Inl e))"

text \<open>The decoded content of the policy file is the argument; a file that cannot be read or decoded raises before.\<close>

definition load_policy :: "string \<Rightarrow> json \<Rightarrow> decision_policy result" where
  "load_policy path content =
     bind_result
       (case content of JObj p \<Rightarrow> policy_from_dict p | v \<Rightarrow> Inl (no_attribute v ''get'')) (\<lambda>policy.
       let problems = policy_validate policy in
       if problems \<noteq> [] then
         Inl (ValueError (''invalid decision policy '' @ path @ '': '' @ str_join ''; '' problems))
       else Inr policy)"

definition policy_fingerprint :: "(bytes \<Rightarrow> string) \<Rightarrow> decision_policy \<Rightarrow> string" where
  "policy_fingerprint sha p = json_digest sha (JObj (policy_as_dict p))"

section \<open>Lemmas\<close>

lemma policy_valid_facts:
  assumes "policy_validate p = []"
  shows "3 \<le> pl_minimum_network_reference_count p"
    "f_le (dp_preferred_max_m (pl_distance p)) (dp_degraded_max_m (pl_distance p))"
    "f_le (dp_degraded_max_m (pl_distance p)) (dp_maximum_allowed_m (pl_distance p))"
  using assms by (auto simp: policy_validate_def split: if_splits)

text \<open>The quality of a band, best first; \<open>unknown\<close> is not graded.\<close>

definition band_rank :: "string \<Rightarrow> nat" where
  "band_rank b =
     (if b = ''preferred'' then 0 else if b = ''degraded'' then 1 else if b = ''maximum'' then 2 else 3)"

lemma band_rank_mono:
  assumes "f_le d d'"
  shows "band_rank (band p (Some d)) \<le> band_rank (band p (Some d'))"
proof -
  have "f_le d b" if "f_le d' b" for b using assms that by (rule f_le_trans)
  then show ?thesis by (auto simp: band_def band_rank_def)
qed

lemma policy_from_as_dict: "policy_from_dict (policy_as_dict p) = Inr p"
  by (simp add: policy_from_dict_def policy_fields_def policy_as_dict_def distance_as_dict_def
      distance_from_dict_def obj_get_def text_of_def bool_of_def float_of_def)

text \<open>
  A loaded policy is usable. The loader returns a policy only if its reference floor is at least 3
  and its bands are ordered; then, over growing distances, the band never improves, a distance beyond
  the maximum is exactly one in the band \<open>beyond_maximum\<close>, and a NaN distance is in that band as well.
  A policy survives \<open>as_dict\<close>, and the default policy is one that loads.
\<close>

theorem loaded_policy_usable:
  "(case load_policy path content of
      Inl e \<Rightarrow> True
    | Inr p \<Rightarrow>
        3 \<le> pl_minimum_network_reference_count p \<and>
        (\<forall>d d'. if f_le d d' then band_rank (band (pl_distance p) (Some d)) \<le> band_rank (band (pl_distance p) (Some d')) else True) \<and>
        (\<forall>d. band (pl_distance p) (Some d) = ''beyond_maximum'' \<longleftrightarrow> \<not> f_le d (dp_maximum_allowed_m (pl_distance p))) \<and>
        band (pl_distance p) (Some PNan) = ''beyond_maximum'') \<and>
   policy_from_dict (policy_as_dict q) = Inr q \<and>
   load_policy path (JObj (policy_as_dict DEFAULT_POLICY)) = Inr DEFAULT_POLICY"
proof (intro conjI)
  show "case load_policy path content of
      Inl e \<Rightarrow> True
    | Inr p \<Rightarrow>
        3 \<le> pl_minimum_network_reference_count p \<and>
        (\<forall>d d'. if f_le d d' then band_rank (band (pl_distance p) (Some d)) \<le> band_rank (band (pl_distance p) (Some d')) else True) \<and>
        (\<forall>d. band (pl_distance p) (Some d) = ''beyond_maximum'' \<longleftrightarrow> \<not> f_le d (dp_maximum_allowed_m (pl_distance p))) \<and>
        band (pl_distance p) (Some PNan) = ''beyond_maximum''"
  proof (cases "load_policy path content")
    case (Inr p)
    then have "policy_validate p = []"
      by (auto simp: load_policy_def Let_def split: if_splits)
    note facts = policy_valid_facts [OF this]
    have "f_le d (dp_maximum_allowed_m (pl_distance p))" if "f_le d (dp_degraded_max_m (pl_distance p))" for d
      using that facts(3) by (rule f_le_trans)
    moreover have "f_le d (dp_degraded_max_m (pl_distance p))" if "f_le d (dp_preferred_max_m (pl_distance p))" for d
      using that facts(2) by (rule f_le_trans)
    ultimately have "band (pl_distance p) (Some d) = ''beyond_maximum'' \<longleftrightarrow>
        \<not> f_le d (dp_maximum_allowed_m (pl_distance p))" for d
      by (auto simp: band_def)
    moreover have "if f_le d d' then band_rank (band (pl_distance p) (Some d)) \<le> band_rank (band (pl_distance p) (Some d')) else True"
      for d d' using band_rank_mono by simp
    ultimately show ?thesis using Inr facts(1) by simp
  qed simp
  show "policy_from_dict (policy_as_dict q) = Inr q" by (rule policy_from_as_dict)
  have "policy_validate DEFAULT_POLICY = []"
    by (simp add: policy_validate_def DEFAULT_POLICY_def default_fields_def POLICY_VERSION_def default_distance_def)
  then show "load_policy path (JObj (policy_as_dict DEFAULT_POLICY)) = Inr DEFAULT_POLICY"
    by (simp add: load_policy_def policy_from_as_dict)
qed

end
