(* ===== verification/Hybrid_Discovery.thy ===== *)
theory Hybrid_Discovery
  imports Hybrid_Policy
begin

text \<open>
  Station discovery (\<open>hybrid_decision_engine/discovery.py\<close>): verified coordinates, quality-control
  results, the resolution of the target and one candidate per station of the day. The data directory
  is a record of what the code reads of it: the names in a directory and the decoded content (or the
  reading error) of a file. It does not change during a discovery.
\<close>

section \<open>The data directory\<close>

datatype file_json = NoFile | Unreadable string | Content json

record data_root =
  dd_root :: string
  dd_entries :: "string \<Rightarrow> string list option"
  dd_file :: "string \<Rightarrow> file_json"
  dd_bytes :: "string \<Rightarrow> bytes option"

definition NETWORK_QC_PROFILE :: string where "NETWORK_QC_PROFILE = ''network_rtk''"
definition SINGLE_BASE_QC_PROFILE :: string where "SINGLE_BASE_QC_PROFILE = ''single_base_rtk''"

text \<open>The format \<open>03d\<close>.\<close>

definition format_03d :: "int \<Rightarrow> string" where
  "format_03d i =
     (let ds = str_nat (nat \<bar>i\<bar>); w = (if i < 0 then 2 else 3); z = replicate (w - length ds) (CHR ''0'')
      in (if i < 0 then ''-'' else []) @ z @ ds)"

definition coordinates_path :: "data_root \<Rightarrow> string" where
  "coordinates_path d = dd_root d @ ''/processed/single-base/derived-coordinates.json''"

definition sessions_path :: "data_root \<Rightarrow> string \<Rightarrow> int \<Rightarrow> string" where
  "sessions_path d profile year =
     dd_root d @ ''/processed/qc/profiles/'' @ profile @ ''/sessions/'' @ str_int year"

definition qc_result_path :: "data_root \<Rightarrow> string \<Rightarrow> string \<Rightarrow> int \<Rightarrow> int \<Rightarrow> string" where
  "qc_result_path d profile station year day =
     sessions_path d profile year @ ''/'' @ station @ ''/'' @ format_03d day @ ''/qc-result.json''"

definition is_file :: "data_root \<Rightarrow> string \<Rightarrow> bool" where
  "is_file d path = (dd_file d path \<noteq> NoFile)"

section \<open>Coordinates\<close>

record station_coord =
  co_x_m :: pyfloat
  co_y_m :: pyfloat
  co_z_m :: pyfloat
  co_reference_frame :: string
  co_coordinate_epoch :: string
  co_provenance :: string

type_synonym verified_coordinates = "(string \<times> station_coord) list"

definition baseline_length_m :: "ecef \<Rightarrow> ecef \<Rightarrow> pyfloat result" where
  "baseline_length_m a b =
     (case (a, b) of ((x, y, z), (u, v, w)) \<Rightarrow>
        bind_result (f_square (f_sub x u)) (\<lambda>p.
        bind_result (f_square (f_sub y v)) (\<lambda>q.
        bind_result (f_square (f_sub z w)) (\<lambda>r.
          f_sqrt (f_add (f_add p q) r)))))"

definition coord_of_row :: "(string \<times> json) list \<Rightarrow> station_coord result" where
  "coord_of_row row =
     (let ecef = or_empty (obj_get row ''ecef'' JNull) in
      bind_result (json_key ecef ''x_m'') (\<lambda>x. bind_result (py_float x) (\<lambda>x_m.
      bind_result (json_key ecef ''y_m'') (\<lambda>y. bind_result (py_float y) (\<lambda>y_m.
      bind_result (json_key ecef ''z_m'') (\<lambda>z. bind_result (py_float z) (\<lambda>z_m.
      bind_result (obj_index row ''reference_frame'') (\<lambda>frame.
      bind_result (obj_index row ''coordinate_epoch'') (\<lambda>epoch.
        Inr \<lparr>co_x_m = x_m, co_y_m = y_m, co_z_m = z_m, co_reference_frame = py_str frame,
             co_coordinate_epoch = py_str epoch,
             co_provenance = py_str (obj_get row ''pos_file_path''
               (JStr ''processed/single-base/derived-coordinates.json''))\<rparr>)))))))))"

text \<open>The loop over the stations: a row that is not valid or malformed is passed over.\<close>

fun collect_coords :: "(string \<times> json) list \<Rightarrow> verified_coordinates \<Rightarrow> verified_coordinates result" where
  "collect_coords [] acc = Inr acc"
| "collect_coords ((station, v) # rows) acc =
     (case v of
        JObj row \<Rightarrow>
          if obj_get row ''scientifically_valid'' JNull \<noteq> JBool True then collect_coords rows acc
          else
            (case coord_of_row row of
               Inr c \<Rightarrow> collect_coords rows (obj_set acc station c)
             | Inl (KeyError _) \<Rightarrow> collect_coords rows acc
             | Inl (TypeError _) \<Rightarrow> collect_coords rows acc
             | Inl (ValueError _) \<Rightarrow> collect_coords rows acc
             | Inl e \<Rightarrow> Inl e)
      | _ \<Rightarrow> collect_coords rows acc)"

definition load_verified_coordinates :: "data_root \<Rightarrow> verified_coordinates result" where
  "load_verified_coordinates d =
     (case dd_file d (coordinates_path d) of
        NoFile \<Rightarrow> Inl (decision_blocked (''verified coordinates unavailable: '' @ coordinates_path d))
      | Unreadable exc \<Rightarrow> Inl (decision_blocked (''unreadable verified coordinates: '' @ exc))
      | Content payload \<Rightarrow>
          bind_result (json_get payload ''stations'' (JObj [])) (\<lambda>stations.
          bind_result (json_items stations) (\<lambda>rows. collect_coords rows [])))"

definition resolve_target_ecef ::
  "ecef option \<Rightarrow> string option \<Rightarrow> verified_coordinates \<Rightarrow> ecef option \<times> string" where
  "resolve_target_ecef target_ecef target_station verified =
     (case target_ecef of
        Some e \<Rightarrow> (Some e, ''explicit_target_ecef'')
      | None \<Rightarrow>
          (case target_station of
             None \<Rightarrow> (None, ''no_target_coordinate'')
           | Some station \<Rightarrow>
               (case map_of verified station of
                  None \<Rightarrow> (None, ''unverified_target_station'')
                | Some c \<Rightarrow> (Some (co_x_m c, co_y_m c, co_z_m c), ''verified_station_coordinate''))))"

section \<open>Quality control\<close>

definition discover_stations_for_day :: "data_root \<Rightarrow> string \<Rightarrow> int \<Rightarrow> int \<Rightarrow> string list" where
  "discover_stations_for_day d profile year day =
     (case dd_entries d (sessions_path d profile year) of
        None \<Rightarrow> []
      | Some names \<Rightarrow>
          filter (\<lambda>name. dd_entries d (sessions_path d profile year @ ''/'' @ name) \<noteq> None \<and>
                         is_file d (qc_result_path d profile name year day)) (sort names))"

definition read_qc_result :: "data_root \<Rightarrow> string \<Rightarrow> json option" where
  "read_qc_result d path =
     (case dd_file d path of
        NoFile \<Rightarrow> None
      | Unreadable _ \<Rightarrow> None
      | Content v \<Rightarrow> if v = JNull then None else Some v)"

definition qc_status_of :: "json option \<Rightarrow> qc_status result" where
  "qc_status_of payload =
     (case payload of
        None \<Rightarrow> Inr QC_MISSING
      | Some v \<Rightarrow>
          bind_result (json_get v ''overall_classification'' (JStr ''BLOCKED'')) (\<lambda>c.
            case parse_qc_status (py_str c) of Inl _ \<Rightarrow> Inr QC_BLOCKED | Inr s \<Rightarrow> Inr s))"

fun qc_order :: "qc_status \<Rightarrow> nat" where
  "qc_order QC_ACCEPT = 0"
| "qc_order QC_WARN = 1"
| "qc_order QC_REJECT = 2"
| "qc_order QC_BLOCKED = 3"
| "qc_order QC_MISSING = 4"

definition better_status :: "qc_status \<Rightarrow> qc_status \<Rightarrow> qc_status" where
  "better_status first second = (if qc_order first \<le> qc_order second then first else second)"

text \<open>The order of the code as the order of the type: the better status is the minimum.\<close>

instantiation qc_status :: linorder
begin

definition less_eq_qc_status :: "qc_status \<Rightarrow> qc_status \<Rightarrow> bool" where
  "less_eq_qc_status a b = (qc_order a \<le> qc_order b)"

definition less_qc_status :: "qc_status \<Rightarrow> qc_status \<Rightarrow> bool" where
  "less_qc_status a b = (qc_order a < qc_order b)"

lemma qc_order_inject: "qc_order a = qc_order b \<Longrightarrow> a = b"
  by (cases a; cases b) simp_all

instance
  by standard (auto simp: less_eq_qc_status_def less_qc_status_def dest: qc_order_inject)

end

lemma better_status_min: "better_status a b = min a b"
  by (simp add: better_status_def min_def less_eq_qc_status_def)

lemma better_status_accept: "better_status a b = QC_ACCEPT \<longleftrightarrow> a = QC_ACCEPT \<or> b = QC_ACCEPT"
  by (cases a; cases b) (simp_all add: better_status_def)

section \<open>Candidates\<close>

text \<open>What the code takes of the primary result: hash, coverage, equipment and fingerprint.\<close>

record qc_evidence =
  qe_navigation_sha :: json
  qe_coverage :: json
  qe_equipment :: "(json \<times> json) list"
  qe_fingerprint :: string

definition read_evidence :: "json \<Rightarrow> qc_evidence result" where
  "read_evidence primary =
     bind_result (json_get primary ''navigation'' JNull) (\<lambda>nav.
     bind_result (json_get (or_empty nav) ''sha256'' JNull) (\<lambda>sha256.
     bind_result (json_get primary ''rinex'' JNull) (\<lambda>rx. let rinex = or_empty rx in
     bind_result (json_get rinex ''first_epoch'' JNull) (\<lambda>first.
     bind_result (json_get rinex ''last_epoch'' JNull) (\<lambda>last.
     bind_result (json_get rinex ''header'' JNull) (\<lambda>hd. let header = or_empty hd in
     bind_result (json_get header ''receiver_type'' JNull) (\<lambda>receiver.
     bind_result (json_get header ''antenna_type'' JNull) (\<lambda>antenna.
     bind_result (json_get header ''marker_name'' JNull) (\<lambda>marker.
     bind_result (json_get primary ''result_fingerprint'' (JStr [])) (\<lambda>fingerprint.
       Inr \<lparr>qe_navigation_sha = sha256,
            qe_coverage = (if py_bool first \<and> py_bool last
              then JStr (py_str first @ ''/'' @ py_str last) else JNull),
            qe_equipment = [(JStr ''receiver_type'', receiver), (JStr ''antenna_type'', antenna),
              (JStr ''marker_name'', marker)],
            qe_fingerprint = py_str fingerprint\<rparr>))))))))))"

definition no_evidence :: qc_evidence where
  "no_evidence = \<lparr>qe_navigation_sha = JNull, qe_coverage = JNull, qe_equipment = [], qe_fingerprint = []\<rparr>"

definition candidate_reasons ::
  "bool \<Rightarrow> bool \<Rightarrow> qc_status \<Rightarrow> bool \<Rightarrow> bool \<Rightarrow> string list" where
  "candidate_reasons has_result navigation effective verified target_known =
     (if \<not> has_result then [''NO_QC_RESULT'']
      else (if \<not> navigation then [''NO_NAVIGATION_PRODUCT''] else []) @
           (if effective \<in> {QC_REJECT, QC_BLOCKED, QC_MISSING} then [''QC_'' @ qc_status_str effective] else [])) @
     (if \<not> verified then [''UNVERIFIED_COORDINATE''] else []) @
     (if \<not> target_known then [''TARGET_UNRESOLVED_FOR_DISTANCE''] else [])"

definition candidate_distance ::
  "string \<Rightarrow> station_coord option \<Rightarrow> ecef option \<Rightarrow> string option \<Rightarrow> pyfloat option result" where
  "candidate_distance station coord target_ecef target_station =
     (case (target_ecef, coord) of
        (Some t, Some c) \<Rightarrow>
          bind_result (baseline_length_m t (co_x_m c, co_y_m c, co_z_m c)) (\<lambda>x. Inr (Some x))
      | (None, Some c) \<Rightarrow> Inr (if target_station = Some station then Some (PFin 0) else None)
      | _ \<Rightarrow> Inr None)"

text \<open>The reasons and the record at the end of \<open>_build_candidate\<close>.\<close>

definition assemble_candidate ::
  "string \<Rightarrow> qc_status \<Rightarrow> bool \<Rightarrow> qc_evidence \<Rightarrow> station_coord option \<Rightarrow> pyfloat option \<Rightarrow> bool \<Rightarrow>
   station_candidate" where
  "assemble_candidate station effective has_result ev coord distance target_known =
     (let navigation = py_bool (qe_navigation_sha ev);
          reasons = candidate_reasons has_result navigation effective (coord \<noteq> None) target_known
      in \<lparr>sc_station_id = station, sc_distance_m = distance, sc_qc_status = effective,
          sc_navigation_available = navigation, sc_navigation_sha256 = qe_navigation_sha ev,
          sc_coordinate_verified = (coord \<noteq> None),
          sc_coordinate_frame = of_option (\<lambda>c. JStr (co_reference_frame c)) coord,
          sc_coordinate_epoch = of_option (\<lambda>c. JStr (co_coordinate_epoch c)) coord,
          sc_observation_coverage = qe_coverage ev, sc_common_interval = qe_coverage ev,
          sc_equipment_metadata = qe_equipment ev, sc_phase4_fingerprint = qe_fingerprint ev,
          sc_eligible = (reasons = []), sc_ineligibility_reasons = reasons\<rparr>)"

definition is_target :: "string \<Rightarrow> string option \<Rightarrow> bool" where
  "is_target station target = (case target of None \<Rightarrow> False | Some t \<Rightarrow> t \<noteq> [] \<and> station = t)"

definition build_candidate ::
  "string \<Rightarrow> json option \<Rightarrow> json option \<Rightarrow> verified_coordinates \<Rightarrow> ecef option \<Rightarrow> string option \<Rightarrow>
   station_candidate result" where
  "build_candidate station network_payload single_payload verified target_ecef target_station =
     bind_result (qc_status_of network_payload) (\<lambda>network_status.
     bind_result (qc_status_of single_payload) (\<lambda>single_status.
       let effective = better_status network_status single_status;
           primary = (if network_payload \<noteq> None then network_payload else single_payload);
           coord = map_of verified station
       in bind_result (candidate_distance station coord target_ecef target_station) (\<lambda>distance.
          bind_result (case primary of None \<Rightarrow> Inr no_evidence | Some v \<Rightarrow> read_evidence v) (\<lambda>ev.
          Inr (assemble_candidate station effective (primary \<noteq> None) ev coord distance
                 (target_ecef \<noteq> None \<or> is_target station target_station))))))"

record discovery_result =
  ds_target_ecef_m :: "ecef option"
  ds_target_station_id :: "string option"
  ds_target_resolved_from :: string
  ds_candidates :: "station_candidate list"
  ds_verified_coordinates_fingerprint :: string
  ds_warnings :: "string list"

definition coordinates_fingerprint ::
  "(bytes \<Rightarrow> string) \<Rightarrow> data_root \<Rightarrow> verified_coordinates \<Rightarrow> string" where
  "coordinates_fingerprint sha d verified =
     json_digest sha (JObj
       [(''file_sha256'', JStr (case dd_bytes d (coordinates_path d) of None \<Rightarrow> [] | Some raw \<Rightarrow> sha raw)),
        (''verified_stations'', JArr (map JStr (sort (map fst verified))))])"

definition station_universe :: "data_root \<Rightarrow> int \<Rightarrow> int \<Rightarrow> string list option \<Rightarrow> string list" where
  "station_universe d year day chosen =
     (let universe = sort (remdups
        (discover_stations_for_day d NETWORK_QC_PROFILE year day @
         discover_stations_for_day d SINGLE_BASE_QC_PROFILE year day))
      in case chosen of None \<Rightarrow> universe | Some cs \<Rightarrow> filter (\<lambda>s. s \<in> set cs) universe)"

definition discover_candidates ::
  "(bytes \<Rightarrow> string) \<Rightarrow> data_root \<Rightarrow> int \<Rightarrow> int \<Rightarrow> ecef option \<Rightarrow> string option \<Rightarrow> string list option \<Rightarrow>
   discovery_result result" where
  "discover_candidates sha d year day target_ecef target_station chosen =
     bind_result (load_verified_coordinates d) (\<lambda>verified.
       case resolve_target_ecef target_ecef target_station verified of (resolved, resolved_from) \<Rightarrow>
       bind_result
         (map_result (\<lambda>station.
            build_candidate station
              (read_qc_result d (qc_result_path d NETWORK_QC_PROFILE station year day))
              (read_qc_result d (qc_result_path d SINGLE_BASE_QC_PROFILE station year day))
              verified resolved target_station)
           (station_universe d year day chosen)) (\<lambda>candidates.
       Inr \<lparr>ds_target_ecef_m = resolved, ds_target_station_id = target_station,
            ds_target_resolved_from = resolved_from,
            ds_candidates = sort_key sc_station_id candidates,
            ds_verified_coordinates_fingerprint = coordinates_fingerprint sha d verified,
            ds_warnings = (if resolved = None
              then [''target coordinate unresolved: '' @ resolved_from] else [])\<rparr>))"

definition REQUIRED_CANDIDATE_KEYS :: "string list" where
  "REQUIRED_CANDIDATE_KEYS =
     [''station_id'', ''qc_status'', ''phase4_fingerprint'', ''eligible'', ''navigation_available'',
      ''coordinate_verified'']"

definition candidate_from_dict :: "(string \<times> json) list \<Rightarrow> station_candidate result" where
  "candidate_from_dict p =
     (let missing = filter (\<lambda>k. map_of p k = None) REQUIRED_CANDIDATE_KEYS in
      if missing \<noteq> [] then
        Inl (decision_blocked (''malformed station candidate: missing keys '' @
          py_repr (JArr (map JStr missing))))
      else wrap_blocked ''malformed station candidate''
        (bind_result (obj_index p ''station_id'') (\<lambda>station.
         bind_result (optional py_float (obj_get p ''distance_m'' JNull)) (\<lambda>distance.
         bind_result (parse_qc_status (text_of p ''qc_status'' ''MISSING'')) (\<lambda>qc.
         bind_result (py_dict (obj_get p ''equipment_metadata'' (JObj []))) (\<lambda>equipment.
         bind_result (str_list (obj_get p ''ineligibility_reasons'' (JArr []))) (\<lambda>reasons.
           Inr \<lparr>sc_station_id = py_str station, sc_distance_m = distance, sc_qc_status = qc,
                sc_navigation_available = bool_of p ''navigation_available'' False,
                sc_navigation_sha256 = obj_get p ''navigation_sha256'' JNull,
                sc_coordinate_verified = bool_of p ''coordinate_verified'' False,
                sc_coordinate_frame = obj_get p ''coordinate_frame'' JNull,
                sc_coordinate_epoch = obj_get p ''coordinate_epoch'' JNull,
                sc_observation_coverage = obj_get p ''observation_coverage'' JNull,
                sc_common_interval = obj_get p ''common_interval'' JNull,
                sc_equipment_metadata = equipment,
                sc_phase4_fingerprint = text_of p ''phase4_fingerprint'' [],
                sc_eligible = bool_of p ''eligible'' False,
                sc_ineligibility_reasons = reasons\<rparr>)))))))"

section \<open>Lemmas\<close>

lemma candidate_reasons_Nil:
  "candidate_reasons has nav effective verified known = [] \<longleftrightarrow>
   has \<and> nav \<and> effective \<in> {QC_ACCEPT, QC_WARN} \<and> verified \<and> known"
  by (cases effective) (auto simp: candidate_reasons_def)

lemma candidate_distance_verified:
  "candidate_distance station coord t ts = Inr (Some x) \<Longrightarrow> coord \<noteq> None"
  by (auto simp: candidate_distance_def split: option.splits)

lemma build_candidate_fields:
  assumes "build_candidate station np sp verified target_ecef target_station = Inr c"
  shows "sc_station_id c = station"
    and "sc_coordinate_verified c \<longleftrightarrow> map_of verified station \<noteq> None"
    and "sc_distance_m c \<noteq> None \<Longrightarrow> map_of verified station \<noteq> None"
    and "sc_eligible c \<longleftrightarrow> sc_ineligibility_reasons c = []"
    and "sc_eligible c \<Longrightarrow> sc_qc_status c \<in> {QC_ACCEPT, QC_WARN} \<and> sc_navigation_available c \<and>
      sc_coordinate_verified c"
    and "\<exists>a b. qc_status_of np = Inr a \<and> qc_status_of sp = Inr b \<and> sc_qc_status c = min a b"
proof -
  from assms obtain a b dist ev has known where qc: "qc_status_of np = Inr a" "qc_status_of sp = Inr b"
    and dist: "candidate_distance station (map_of verified station) target_ecef target_station = Inr dist"
    and c: "c = assemble_candidate station (better_status a b) has ev (map_of verified station) dist known"
    unfolding build_candidate_def bind_result_eq_Inr Let_def by blast
  show "sc_station_id c = station" "sc_coordinate_verified c \<longleftrightarrow> map_of verified station \<noteq> None"
    "sc_eligible c \<longleftrightarrow> sc_ineligibility_reasons c = []"
    by (simp_all add: c assemble_candidate_def Let_def)
  show "sc_distance_m c \<noteq> None \<Longrightarrow> map_of verified station \<noteq> None"
    using dist candidate_distance_verified by (auto simp: c assemble_candidate_def Let_def)
  show "sc_eligible c \<Longrightarrow> sc_qc_status c \<in> {QC_ACCEPT, QC_WARN} \<and> sc_navigation_available c \<and>
      sc_coordinate_verified c"
    by (simp add: c assemble_candidate_def Let_def candidate_reasons_Nil)
  show "\<exists>a b. qc_status_of np = Inr a \<and> qc_status_of sp = Inr b \<and> sc_qc_status c = min a b"
    using qc by (simp add: c assemble_candidate_def Let_def better_status_min)
qed

text \<open>The rows of the coordinates file, and when the code trusts one.\<close>

definition station_rows :: "data_root \<Rightarrow> (string \<times> json) list" where
  "station_rows d =
     (case dd_file d (coordinates_path d) of
        Content (JObj payload) \<Rightarrow>
          (case obj_get payload ''stations'' (JObj []) of JObj rows \<Rightarrow> rows | _ \<Rightarrow> [])
      | _ \<Rightarrow> [])"

definition valid_row :: "json \<Rightarrow> bool" where
  "valid_row v =
     (case v of
        JObj row \<Rightarrow> obj_get row ''scientifically_valid'' JNull = JBool True \<and>
          (case coord_of_row row of Inr _ \<Rightarrow> True | Inl _ \<Rightarrow> False)
      | _ \<Rightarrow> False)"

lemma collect_coords_known:
  "collect_coords rows acc = Inr verified \<Longrightarrow>
   map_of verified s \<noteq> None \<longleftrightarrow> map_of acc s \<noteq> None \<or> list_ex (\<lambda>(t, v). t = s \<and> valid_row v) rows"
proof (induction rows arbitrary: acc)
  case (Cons entry rows)
  obtain station v where entry: "entry = (station, v)" by (cases entry)
  note ih = Cons.IH
  show ?case
  proof (cases v)
    case (JObj row)
    show ?thesis
    proof (cases "obj_get row ''scientifically_valid'' JNull = JBool True")
      case valid: True
      show ?thesis
      proof (cases "coord_of_row row")
        case (Inl e)
        then have "\<not> valid_row (JObj row)" by (simp add: valid_row_def)
        moreover have "collect_coords rows acc = Inr verified"
          using Cons.prems JObj valid Inl by (cases e) (simp_all add: entry)
        ultimately show ?thesis using ih [of acc] by (simp add: entry JObj)
      next
        case (Inr c)
        then show ?thesis
          using Cons.prems ih [of "obj_set acc station c"] JObj valid
          by (auto simp: entry valid_row_def map_of_obj_set split: if_splits)
      qed
    next
      case False
      with JObj Cons.prems ih [of acc] show ?thesis by (simp add: entry valid_row_def)
    qed
  qed (use Cons.prems ih [of acc] in \<open>simp_all add: entry valid_row_def\<close>)
qed simp

lemma loaded_coordinates_known:
  assumes "load_verified_coordinates d = Inr verified"
  shows "map_of verified s \<noteq> None \<longleftrightarrow> list_ex (\<lambda>(t, v). t = s \<and> valid_row v) (station_rows d)"
proof -
  obtain payload rows where "dd_file d (coordinates_path d) = Content (JObj payload)"
    "obj_get payload ''stations'' (JObj []) = JObj rows" "collect_coords rows [] = Inr verified"
    using assms by (auto simp: load_verified_coordinates_def json_get_def json_items_def
        split: file_json.splits json.splits)
  then show ?thesis
    using collect_coords_known [of rows "[]" verified s] by (simp add: station_rows_def)
qed

lemma resolve_target_verified:
  "resolve_target_ecef None (Some t) verified = (None, from) \<Longrightarrow> map_of verified t = None"
  by (auto simp: resolve_target_ecef_def split: option.splits)

lemma qc_missing_iff: "qc_status_of p = Inr QC_ACCEPT \<or> qc_status_of p = Inr QC_WARN \<Longrightarrow> p \<noteq> None"
  by (cases p) (auto simp: qc_status_of_def)

lemma build_candidate_exact:
  assumes res: "resolve_target_ecef te ts verified = (resolved, from)"
    and built: "build_candidate station np sp verified resolved ts = Inr c"
  shows "sc_eligible c \<longleftrightarrow> sc_qc_status c \<in> {QC_ACCEPT, QC_WARN} \<and> sc_navigation_available c \<and>
      sc_coordinate_verified c \<and> resolved \<noteq> None"
    and "sc_distance_m c \<noteq> None \<longleftrightarrow> sc_coordinate_verified c \<and> resolved \<noteq> None"
proof -
  let ?coord = "map_of verified station"
  from built obtain a b dist ev where qc: "qc_status_of np = Inr a" "qc_status_of sp = Inr b"
    and dist: "candidate_distance station ?coord resolved ts = Inr dist"
    and c: "c = assemble_candidate station (better_status a b) ((if np \<noteq> None then np else sp) \<noteq> None) ev
      ?coord dist (resolved \<noteq> None \<or> is_target station ts)"
    unfolding build_candidate_def bind_result_eq_Inr Let_def by blast
  have target: "?coord = None" if "resolved = None" "ts = Some station"
    using res that by (auto simp: resolve_target_ecef_def split: option.splits)
  have present: "np \<noteq> None \<or> sp \<noteq> None" if "better_status a b \<in> {QC_ACCEPT, QC_WARN}"
    using that qc by (auto simp: better_status_def qc_status_of_def split: if_splits)
  show "sc_eligible c \<longleftrightarrow> sc_qc_status c \<in> {QC_ACCEPT, QC_WARN} \<and> sc_navigation_available c \<and>
      sc_coordinate_verified c \<and> resolved \<noteq> None"
    using present target
    by (cases resolved) (auto simp: c assemble_candidate_def Let_def candidate_reasons_Nil is_target_def
        split: option.splits)
  show "sc_distance_m c \<noteq> None \<longleftrightarrow> sc_coordinate_verified c \<and> resolved \<noteq> None"
    using dist target
    by (cases resolved) (auto simp: c assemble_candidate_def Let_def candidate_distance_def split: option.splits if_splits)
qed

lemma station_universe_sorted:
  "sorted (station_universe d year day chosen) \<and> distinct (station_universe d year day chosen)"
  by (auto simp: station_universe_def Let_def sorted_filter [of "\<lambda>x. x", simplified] split: option.split)

text \<open>
  C14. Discovery trusts nothing it has not verified. The candidates are the stations of the day, each
  once and in order of their ids. A candidate's coordinate counts as verified exactly when the
  coordinates file has a well-formed row for it that is flagged scientifically valid; it has a distance
  exactly when it is verified and the target is resolved; and it is eligible exactly when its quality
  status is ACCEPT or WARN, it has a navigation hash, its coordinate is verified and the target is
  resolved.
\<close>

theorem discovered_candidates_sound:
  "case discover_candidates sha d year day te ts chosen of
     Inl e \<Rightarrow> True
   | Inr r \<Rightarrow>
       map sc_station_id (ds_candidates r) = station_universe d year day chosen \<and>
       sorted_wrt (<) (map sc_station_id (ds_candidates r)) \<and>
       list_all (\<lambda>c.
         (sc_coordinate_verified c \<longleftrightarrow> list_ex (\<lambda>(s, v). s = sc_station_id c \<and> valid_row v) (station_rows d)) \<and>
         (sc_distance_m c \<noteq> None \<longleftrightarrow> sc_coordinate_verified c \<and> ds_target_ecef_m r \<noteq> None) \<and>
         (sc_eligible c \<longleftrightarrow> sc_qc_status c \<in> {QC_ACCEPT, QC_WARN} \<and> sc_navigation_available c \<and>
            sc_coordinate_verified c \<and> ds_target_ecef_m r \<noteq> None)) (ds_candidates r)"
proof (cases "discover_candidates sha d year day te ts chosen")
  case (Inr r)
  obtain verified resolved how where ver: "load_verified_coordinates d = Inr verified"
    and res: "resolve_target_ecef te ts verified = (resolved, how)"
    using Inr by (auto simp: discover_candidates_def) (metis surj_pair)
  let ?build = "\<lambda>station. build_candidate station
      (read_qc_result d (qc_result_path d NETWORK_QC_PROFILE station year day))
      (read_qc_result d (qc_result_path d SINGLE_BASE_QC_PROFILE station year day)) verified resolved ts"
  obtain cs where cs: "list_all2 (\<lambda>s c. ?build s = Inr c) (station_universe d year day chosen) cs"
    and r: "ds_candidates r = sort_key sc_station_id cs" "ds_target_ecef_m r = resolved"
    using Inr by (auto simp: discover_candidates_def ver res map_result_Inr_iff)
  have built: "?build (sc_station_id c) = Inr c" if "c \<in> set cs" for c
    using cs that build_candidate_fields(1) by (auto simp: list_all2_conv_all_nth in_set_conv_nth)
  have ids: "map sc_station_id cs = station_universe d year day chosen"
    using cs by (induction rule: list_all2_induct) (auto dest: build_candidate_fields(1))
  then have same: "ds_candidates r = cs"
    using station_universe_sorted [of d year day chosen] r by (simp add: sort_key_id_if_sorted)
  show ?thesis
    using Inr station_universe_sorted [of d year day chosen] ids same r(2)
      built build_candidate_exact [OF res built] build_candidate_fields(2) [OF built]
      loaded_coordinates_known [OF ver]
    by (simp add: list_all_iff strict_sorted_iff)
qed simp

end
