(* ===== verification/Hybrid_Gates.thy ===== *)
theory Hybrid_Gates
  imports Hybrid_Discovery
begin

text \<open>
  The gates of the decision engine: network eligibility (\<open>network.py\<close>), single-base ranking
  (\<open>single_base.py\<close>), the conjunctive VRS rule (\<open>vrs.py\<close>) and the integrity status (\<open>integrity.py\<close>).
\<close>

section \<open>Network eligibility\<close>

record network_assessment =
  na_eligible :: bool
  na_admitted_references :: "string list"
  na_admitted_count :: nat
  na_geometry_status :: network_geometry_status
  na_triangle_area_m2 :: "pyfloat option"
  na_spatial_extent_m :: "pyfloat option"
  na_mean_reference_distance_m :: "pyfloat option"
  na_extrapolation :: bool
  na_target_contained :: "bool option"
  na_common_interval_seconds :: "pyfloat option"
  na_navigation_coverage :: string
  na_blockers :: "string list"
  na_warnings :: "string list"

text \<open>The pool without the rover itself.\<close>

definition without_target :: "string option \<Rightarrow> station_candidate list \<Rightarrow> station_candidate list" where
  "without_target target pool =
     (case target of None \<Rightarrow> pool | Some t \<Rightarrow> filter (\<lambda>c. sc_station_id c \<noteq> t) pool)"

definition qc_passed :: "bool \<Rightarrow> station_candidate \<Rightarrow> bool" where
  "qc_passed require_accept c =
     (if require_accept then sc_qc_status c = QC_ACCEPT
      else sc_qc_status c \<notin> {QC_REJECT, QC_BLOCKED, QC_MISSING})"

text \<open>The loop over the pool: blockers and admitted references, in order.\<close>

fun admit_references ::
  "bool \<Rightarrow> station_candidate list \<Rightarrow> string list \<times> station_candidate list" where
  "admit_references require_accept [] = ([], [])"
| "admit_references require_accept (c # cs) =
     (let (blockers, admitted) = admit_references require_accept cs in
      if \<not> qc_passed require_accept c then (blockers, admitted)
      else if \<not> sc_coordinate_verified c then
        ((sc_station_id c @ '':UNVERIFIED_COORDINATE'') # blockers, admitted)
      else if \<not> sc_navigation_available c then
        ((sc_station_id c @ '':NO_NAVIGATION_PRODUCT'') # blockers, admitted)
      else (blockers, c # admitted))"

definition fan_area :: "pyfloat list \<Rightarrow> pyfloat option" where
  "fan_area distances =
     (case sort_by f_lt distances of
        a # b # c # _ \<Rightarrow>
          let s = f_quot (f_add (f_add a b) c) (PFin 2);
              area_sq = f_mul (f_mul (f_mul s (f_sub s a)) (f_sub s b)) (f_sub s c)
          in Some (if f_lt f_zero area_sq then f_root area_sq else f_zero)
      | _ \<Rightarrow> None)"

definition known_distances :: "station_candidate list \<Rightarrow> pyfloat list" where
  "known_distances cs = List.map_filter sc_distance_m cs"

definition is_extrapolation :: "pyfloat list \<Rightarrow> bool" where
  "is_extrapolation distances =
     (f_lt (f_mul (PFin 2) (f_min distances)) (f_max distances) \<and> f_lt (PFin 500000) (f_max distances))"

definition geometry_quality ::
  "station_candidate list \<Rightarrow>
   network_geometry_status \<times> pyfloat option \<times> pyfloat option \<times> pyfloat option \<times> bool \<times> bool option" where
  "geometry_quality admitted =
     (let distances = known_distances admitted in
      if distances = [] then (NG_UNASSESSED, None, None, None, False, None)
      else
        let mean_dist = f_quot (f_sum distances) (PFin (of_nat (length distances)));
            extrapolation = is_extrapolation distances;
            status = (if extrapolation then NG_EXTRAPOLATION
                      else if 3 \<le> length admitted then NG_PASS else NG_INSUFFICIENT)
        in (status, Some (f_max distances), fan_area distances, Some mean_dist, extrapolation,
            Some (\<not> extrapolation)))"

definition common_interval_seconds :: "station_candidate list \<Rightarrow> pyfloat option" where
  "common_interval_seconds admitted =
     (if admitted = [] then None
      else if list_ex (\<lambda>c. sc_common_interval c = JNull) admitted then None
      else Some (PFin 86400))"

text \<open>
  The blockers and the geometry, each as the code computes it from the admitted references: the
  count, the geometry (assessed from three references on and a resolved target), the interval.
\<close>

definition enough_references :: "decision_policy \<Rightarrow> station_candidate list \<Rightarrow> bool" where
  "enough_references policy admitted =
     (pl_minimum_network_reference_count policy \<le> int (length admitted))"

definition count_blockers :: "decision_policy \<Rightarrow> station_candidate list \<Rightarrow> string list" where
  "count_blockers policy admitted =
     (if \<not> enough_references policy admitted
      then [''INSUFFICIENT_REFERENCES:'' @ str_nat (length admitted) @ ''<'' @
            str_int (pl_minimum_network_reference_count policy)] else [])"

definition geometry_assessed :: "discovery_result \<Rightarrow> station_candidate list \<Rightarrow> bool" where
  "geometry_assessed d admitted = (3 \<le> length admitted \<and> ds_target_ecef_m d \<noteq> None)"

definition network_geometry ::
  "discovery_result \<Rightarrow> decision_policy \<Rightarrow> station_candidate list \<Rightarrow>
   network_geometry_status \<times> pyfloat option \<times> pyfloat option \<times> pyfloat option \<times> bool \<times> bool option" where
  "network_geometry d policy admitted =
     (if geometry_assessed d admitted then geometry_quality admitted
      else (if enough_references policy admitted then NG_UNASSESSED else NG_INSUFFICIENT,
            None, None, None, False, None))"

definition geometry_blockers ::
  "discovery_result \<Rightarrow> decision_policy \<Rightarrow> station_candidate list \<Rightarrow> string list" where
  "geometry_blockers d policy admitted =
     (if geometry_assessed d admitted then
        case network_geometry d policy admitted of
          (geometry, extent, triangle, mean_dist, extrapolation, inside) \<Rightarrow>
            (if geometry = NG_INSUFFICIENT then [''GEOMETRY_INSUFFICIENT''] else []) @
            (if extrapolation \<and> \<not> pl_allow_extrapolation policy
             then [''EXTRAPOLATION_NOT_PERMITTED''] else [])
      else [])"

definition interval_blockers :: "decision_policy \<Rightarrow> station_candidate list \<Rightarrow> string list" where
  "interval_blockers policy admitted =
     (case common_interval_seconds admitted of
        None \<Rightarrow> []
      | Some s \<Rightarrow>
          if f_lt s (pl_minimum_common_interval_seconds policy)
          then [''NO_COMMON_INTERVAL:'' @ format_fixed 0 s @ ''s<'' @
                format_fixed 0 (pl_minimum_common_interval_seconds policy) @ ''s''] else [])"

definition navigation_coverage :: "station_candidate list \<Rightarrow> string" where
  "navigation_coverage admitted =
     (if admitted \<noteq> [] \<and> list_all sc_navigation_available admitted then ''complete''
      else if admitted \<noteq> [] then ''partial'' else ''none'')"

definition assess_network ::
  "discovery_result \<Rightarrow> decision_policy \<Rightarrow> station_candidate list option \<Rightarrow> bool \<Rightarrow> network_assessment" where
  "assess_network d policy reference_candidates require_accept =
     (let pool = without_target (ds_target_station_id d)
            (case reference_candidates of None \<Rightarrow> ds_candidates d | Some cs \<Rightarrow> cs);
          (blockers0, admitted) = admit_references require_accept pool;
          (geometry, extent, triangle, mean_dist, extrapolation, inside) = network_geometry d policy admitted;
          blockers = blockers0 @ count_blockers policy admitted @ geometry_blockers d policy admitted @
            interval_blockers policy admitted;
          warnings = (if \<not> geometry_assessed d admitted \<and> enough_references policy admitted
            then [''target unresolved: geometry unassessed''] else [])
      in \<lparr>na_eligible = (blockers = [] \<and> enough_references policy admitted),
          na_admitted_references = sort (map sc_station_id admitted),
          na_admitted_count = length admitted, na_geometry_status = geometry,
          na_triangle_area_m2 = triangle, na_spatial_extent_m = extent,
          na_mean_reference_distance_m = mean_dist, na_extrapolation = extrapolation,
          na_target_contained = inside,
          na_common_interval_seconds = common_interval_seconds admitted,
          na_navigation_coverage = navigation_coverage admitted,
          na_blockers = blockers, na_warnings = warnings\<rparr>)"

definition upstream_model_gates ::
  "spatial_model_status \<Rightarrow> vrs_status \<Rightarrow> decision_policy \<Rightarrow> bool \<times> string list" where
  "upstream_model_gates spatial vrs policy =
     (let blockers =
        (if pl_require_approved_spatial_model_for_vrs policy \<and> spatial \<noteq> SM_APPROVED
         then [''SPATIAL_MODEL_'' @ spatial_model_status_str spatial] else []) @
        (if pl_require_approved_vrs_for_vrs policy \<and> vrs \<noteq> VS_APPROVED
         then [''VRS_'' @ vrs_status_str vrs] else [])
      in (blockers = [], blockers))"

section \<open>Single-base ranking\<close>

text \<open>A rejected candidate is its id and the reason.\<close>

record single_base_assessment =
  sb_available :: bool
  sb_selected_reference :: "string option"
  sb_distance_m :: "pyfloat option"
  sb_distance_band :: string
  sb_ranked :: "string list"
  sb_rejected :: "(string \<times> string) list"
  sb_blockers :: "string list"
  sb_warnings :: "string list"

type_synonym single_qc = "(string \<times> qc_status) list"

definition single_status :: "single_qc option \<Rightarrow> station_candidate \<Rightarrow> qc_status" where
  "single_status single_qc c =
     (case single_qc of
        None \<Rightarrow> sc_qc_status c
      | Some m \<Rightarrow> obj_get m (sc_station_id c) (sc_qc_status c))"

text \<open>The first gate a candidate fails, if any.\<close>

definition single_rejection :: "single_qc option \<Rightarrow> station_candidate \<Rightarrow> string option" where
  "single_rejection single_qc c =
     (if single_status single_qc c \<noteq> QC_ACCEPT
      then Some (''SINGLE_BASE_QC_'' @ qc_status_str (single_status single_qc c))
      else if \<not> sc_navigation_available c then Some ''SINGLE_BASE_NAVIGATION_MISSING''
      else if \<not> sc_coordinate_verified c then Some ''UNVERIFIED_COORDINATE''
      else if sc_common_interval c = JNull then Some ''NO_COMMON_INTERVAL''
      else None)"

text \<open>The sort key: unknown distances last, then \<open>distance or inf\<close>, then the id.\<close>

definition rank_distance :: "station_candidate \<Rightarrow> pyfloat" where
  "rank_distance c = (case sc_distance_m c of None \<Rightarrow> PInf | Some d \<Rightarrow> if d = f_zero then PInf else d)"

definition rank_before :: "station_candidate \<Rightarrow> station_candidate \<Rightarrow> bool" where
  "rank_before a b =
     (if (sc_distance_m a = None) \<noteq> (sc_distance_m b = None) then sc_distance_m b = None
      else if rank_distance a \<noteq> rank_distance b then f_lt (rank_distance a) (rank_distance b)
      else sc_station_id a < sc_station_id b)"

definition distance_km :: "pyfloat option \<Rightarrow> pyfloat" where
  "distance_km d = f_quot (case d of None \<Rightarrow> f_zero | Some x \<Rightarrow> x) (PFin 1000)"

definition assess_single_base ::
  "discovery_result \<Rightarrow> decision_policy \<Rightarrow> single_qc option \<Rightarrow> single_base_assessment" where
  "assess_single_base d policy single_qc =
     (let pool = sort_key sc_station_id (without_target (ds_target_station_id d) (ds_candidates d));
          rejected = List.map_filter
            (\<lambda>c. map_option (Pair (sc_station_id c)) (single_rejection single_qc c)) pool;
          survivors = filter (\<lambda>c. single_rejection single_qc c = None) pool
      in case sort_by rank_before survivors of
           [] \<Rightarrow>
             \<lparr>sb_available = False, sb_selected_reference = None, sb_distance_m = None,
              sb_distance_band = ''unknown'', sb_ranked = [], sb_rejected = rejected,
              sb_blockers = [''NO_ACCEPTABLE_SINGLE_BASE_CANDIDATE''], sb_warnings = []\<rparr>
         | selected # others \<Rightarrow>
             let ranked = map sc_station_id (selected # others);
                 sid = sc_station_id selected;
                 b = band (pl_distance policy) (sc_distance_m selected);
                 km = format_fixed 1 (distance_km (sc_distance_m selected));
                 warnings =
                   (if b = ''unknown'' then [sid @ '': distance unknown; expectation ungraded'']
                    else if b = ''degraded'' then
                      [sid @ '': '' @ km @ '' km exceeds preferred band (PROVISIONAL); '' @
                       ''FLOAT-only metre-level performance must be assumed, no centimetre claim'']
                    else if b = ''maximum'' then
                      [sid @ '': '' @ km @ '' km in maximum-allowed band (PROVISIONAL); '' @
                       ''degraded expectations apply'']
                    else [])
             in if b = ''beyond_maximum'' then
                  \<lparr>sb_available = False, sb_selected_reference = None, sb_distance_m = None,
                   sb_distance_band = ''unknown'', sb_ranked = ranked,
                   sb_rejected = rejected @ [(sid, ''SINGLE_BASE_TOO_DISTANT'')],
                   sb_blockers = [''SINGLE_BASE_TOO_DISTANT:'' @ sid @ '':'' @ km @ ''km''],
                   sb_warnings = warnings\<rparr>
                else
                  \<lparr>sb_available = True, sb_selected_reference = Some sid,
                   sb_distance_m = sc_distance_m selected, sb_distance_band = b, sb_ranked = ranked,
                   sb_rejected = rejected, sb_blockers = [], sb_warnings = warnings\<rparr>)"

section \<open>The VRS gate\<close>

record vrs_assessment =
  va_selectable :: bool
  va_reason_code :: reason_code
  va_reason_text :: string
  va_experiment_id :: "string option"
  va_blockers :: "string list"
  va_warnings :: "string list"

definition resolve_leakage :: "vrs_capability \<Rightarrow> bool option \<Rightarrow> bool option" where
  "resolve_leakage vrs override =
     (case override of
        Some b \<Rightarrow> Some b
      | None \<Rightarrow>
          let status = str_upper (str_strip (vc_target_leakage_status vrs)) in
          if status \<in> {''PASS'', ''NO_LEAKAGE'', ''EXCLUDED''} then Some True
          else if status \<in> {''FAIL'', ''LEAKAGE'', ''LEAKED''} then Some False
          else None)"

definition blocked_code ::
  "spatial_assessment \<Rightarrow> vrs_capability \<Rightarrow> network_assessment \<Rightarrow> reason_code \<times> string" where
  "blocked_code spatial vrs network =
     (if vc_status vrs \<in> {VS_NOT_VALIDATED, VS_PROVISIONAL, VS_UNAVAILABLE} then
        (VRS_UPSTREAM_REVIEW_PENDING,
         ''VRS blocked: Phase 7 capability not approved ('' @ vrs_status_str (vc_status vrs) @
         ''); automatic VRS remains fail-closed pending review'')
      else if sa_validation_status spatial \<noteq> SM_APPROVED then
        (VRS_MODEL_NOT_VALIDATED,
         ''VRS blocked: Phase 6 spatial model not approved ('' @
         spatial_model_status_str (sa_validation_status spatial) @ '')'')
      else if vc_status vrs = VS_BLOCKED then
        (VRS_UPSTREAM_REVIEW_PENDING, ''VRS blocked: upstream Phase 7 assessment BLOCKED'')
      else if na_geometry_status network \<noteq> NG_PASS \<or> \<not> na_eligible network then
        (VRS_GEOMETRY_INSUFFICIENT, ''VRS blocked: network geometry insufficient or ineligible'')
      else
        (VRS_UPSTREAM_REVIEW_PENDING,
         ''VRS blocked: one or more approval gates failed; see blockers''))"

definition some_nonempty :: "string \<Rightarrow> string option" where
  "some_nonempty s = (if s = [] then None else Some s)"

definition assess_vrs ::
  "network_assessment \<Rightarrow> spatial_assessment \<Rightarrow> vrs_capability \<Rightarrow> decision_policy \<Rightarrow> bool option \<Rightarrow> bool \<Rightarrow>
   vrs_assessment" where
  "assess_vrs network spatial vrs policy target_leakage_pass provenance_pass =
     (let leakage = resolve_leakage vrs target_leakage_pass;
          blockers =
            na_blockers network @
            (if \<not> na_eligible network then [''NETWORK_NOT_ELIGIBLE''] else []) @
            (if na_geometry_status network \<noteq> NG_PASS
             then [''GEOMETRY_'' @ network_geometry_status_str (na_geometry_status network)] else []) @
            (if pl_require_approved_spatial_model_for_vrs policy \<and> sa_validation_status spatial \<noteq> SM_APPROVED
             then [''SPATIAL_MODEL_'' @ spatial_model_status_str (sa_validation_status spatial)] else []) @
            (if pl_require_approved_vrs_for_vrs policy \<and> vc_status vrs \<noteq> VS_APPROVED
             then [''VRS_'' @ vrs_status_str (vc_status vrs)] else []) @
            (case leakage of
               Some False \<Rightarrow> [''VRS_TARGET_LEAKAGE'']
             | None \<Rightarrow> [''VRS_TARGET_LEAKAGE_UNASSESSED'']
             | Some True \<Rightarrow> []) @
            (if \<not> provenance_pass then [''VRS_PROVENANCE_INVALID''] else []) @
            (if sa_fingerprint spatial = [] then [''SPATIAL_FINGERPRINT_MISSING''] else []) @
            (if vc_fingerprint vrs = [] then [''VRS_FINGERPRINT_MISSING''] else []);
          warnings =
            na_warnings network @
            (if sa_fingerprint spatial = []
             then [''Phase 6 assessment carries no fingerprint; provenance incomplete''] else []) @
            (if vc_fingerprint vrs = []
             then [''Phase 7 assessment carries no fingerprint; provenance incomplete''] else [])
      in if blockers \<noteq> [] then
           (case blocked_code spatial vrs network of
              (code, txt) \<Rightarrow>
                \<lparr>va_selectable = False, va_reason_code = code, va_reason_text = txt,
                 va_experiment_id = some_nonempty (vc_experiment_id vrs),
                 va_blockers = blockers, va_warnings = warnings\<rparr>)
         else
           \<lparr>va_selectable = True, va_reason_code = VRS_APPROVED,
            va_reason_text = ''VRS approved: network '' @ str_nat (na_admitted_count network) @
              '' refs, model '' @ sa_model_name spatial @ '' APPROVED, experiment '' @
              str_or (some_nonempty (vc_experiment_id vrs)) ''unnamed'' @ '' APPROVED'',
            va_experiment_id = some_nonempty (vc_experiment_id vrs),
            va_blockers = [], va_warnings = warnings\<rparr>)"

section \<open>Integrity\<close>

definition derive_integrity ::
  "correction_mode \<Rightarrow> decision_status \<Rightarrow> string list \<Rightarrow> string list \<Rightarrow> integrity_status" where
  "derive_integrity mode status warnings blockers =
     (if (mode = CM_NO_CORRECTION \<or> status = DS_BLOCKED \<or> blockers \<noteq> []) \<and>
         (mode = CM_NO_CORRECTION \<and> status = DS_DIAGNOSTIC_ONLY \<or> blockers \<noteq> []) then IS_BLOCKED
      else if status \<in> {DS_DEGRADED, DS_DIAGNOSTIC_ONLY} \<or> warnings \<noteq> [] then IS_DEGRADED
      else if mode = CM_SINGLE_BASE \<and> status = DS_OK \<and> warnings = [] then IS_PASS
      else if mode = CM_VRS \<and> status = DS_OK then IS_PASS
      else if mode = CM_NO_CORRECTION then IS_BLOCKED
      else IS_DEGRADED)"

section \<open>Lemmas\<close>

lemma admit_references_admitted:
  "snd (admit_references r cs) =
   filter (\<lambda>c. qc_passed r c \<and> sc_coordinate_verified c \<and> sc_navigation_available c) cs"
  by (induction cs) (auto simp: split_beta)

lemma admit_references_clear:
  "fst (admit_references r cs) = [] \<longleftrightarrow>
   list_all (\<lambda>c. sc_coordinate_verified c \<and> sc_navigation_available c) (filter (qc_passed r) cs)"
  by (induction cs) (auto simp: split_beta)

lemma admit_references_all:
  assumes "list_all (\<lambda>c. sc_coordinate_verified c \<and> sc_navigation_available c) (filter (qc_passed r) cs)"
  shows "snd (admit_references r cs) = filter (qc_passed r) cs"
  using assms unfolding admit_references_admitted by (induction cs) (auto split: if_splits)

lemma qc_passed_True: "qc_passed True = (\<lambda>c. sc_qc_status c = QC_ACCEPT)"
  by (rule ext) (simp add: qc_passed_def)

lemma network_geometry_pass:
  "fst (network_geometry d policy cs) = NG_PASS \<longleftrightarrow>
   geometry_assessed d cs \<and> known_distances cs \<noteq> [] \<and> \<not> is_extrapolation (known_distances cs)"
  by (auto simp: network_geometry_def geometry_assessed_def geometry_quality_def Let_def)

lemma geometry_pass_clear:
  "fst (network_geometry d policy cs) = NG_PASS \<Longrightarrow> geometry_blockers d policy cs = []"
  by (auto simp: network_geometry_def geometry_blockers_def geometry_quality_def Let_def split: if_splits)

lemma interval_blockers_clear:
  "cs \<noteq> [] \<Longrightarrow> interval_blockers policy cs = [] \<longleftrightarrow>
   (if list_ex (\<lambda>c. sc_common_interval c = JNull) cs then True
    else \<not> f_lt (PFin 86400) (pl_minimum_common_interval_seconds policy))"
  by (simp add: interval_blockers_def common_interval_seconds_def)

lemma assess_network_fields:
  assumes "admit_references r (without_target (ds_target_station_id d) (ds_candidates d)) = (bl, ad)"
  shows "na_blockers (assess_network d policy None r) =
      bl @ count_blockers policy ad @ geometry_blockers d policy ad @ interval_blockers policy ad"
    "na_eligible (assess_network d policy None r) \<longleftrightarrow>
      na_blockers (assess_network d policy None r) = [] \<and> enough_references policy ad"
    "na_geometry_status (assess_network d policy None r) = fst (network_geometry d policy ad)"
    "na_admitted_count (assess_network d policy None r) = length ad"
    "na_admitted_references (assess_network d policy None r) = sort (map sc_station_id ad)"
  using assms by (simp_all add: assess_network_def Let_def split_beta)

text \<open>The network that supports an automatic VRS selection.\<close>

definition usable_network :: "discovery_result \<Rightarrow> decision_policy \<Rightarrow> bool" where
  "usable_network d policy =
     (let refs = filter (\<lambda>c. sc_qc_status c = QC_ACCEPT)
            (without_target (ds_target_station_id d) (ds_candidates d))
      in list_all (\<lambda>c. sc_coordinate_verified c \<and> sc_navigation_available c) refs \<and>
         pl_minimum_network_reference_count policy \<le> int (length refs) \<and> 3 \<le> length refs \<and>
         ds_target_ecef_m d \<noteq> None \<and> known_distances refs \<noteq> [] \<and>
         \<not> is_extrapolation (known_distances refs) \<and>
         (if list_ex (\<lambda>c. sc_common_interval c = JNull) refs then True
          else \<not> f_lt (PFin 86400) (pl_minimum_common_interval_seconds policy)))"

lemma assess_network_usable:
  "na_blockers (assess_network d policy None True) = [] \<and> na_eligible (assess_network d policy None True) \<and>
   na_geometry_status (assess_network d policy None True) = NG_PASS \<longleftrightarrow> usable_network d policy"
proof -
  define pool where "pool = without_target (ds_target_station_id d) (ds_candidates d)"
  define refs where "refs = filter (\<lambda>c. sc_qc_status c = QC_ACCEPT) pool"
  obtain bl ad where ba: "admit_references True pool = (bl, ad)" by fastforce
  note fields = assess_network_fields [OF ba [unfolded pool_def], of policy]
  have bl: "bl = [] \<longleftrightarrow> list_all (\<lambda>c. sc_coordinate_verified c \<and> sc_navigation_available c) refs"
    using admit_references_clear [of True pool] ba by (simp add: refs_def qc_passed_True)
  have ad: "ad = refs" if "bl = []"
    using that admit_references_all [of True pool] ba bl by (simp add: refs_def qc_passed_True)
  have "usable_network d policy \<longleftrightarrow> bl = [] \<and> enough_references policy refs \<and>
      fst (network_geometry d policy refs) = NG_PASS \<and> interval_blockers policy refs = []"
    unfolding usable_network_def Let_def pool_def [symmetric] refs_def [symmetric] bl
      network_geometry_pass geometry_assessed_def enough_references_def
    using interval_blockers_clear [of refs policy] by (cases "refs = []") auto
  then show ?thesis
    unfolding fields using ad geometry_pass_clear [of d policy ad] by (auto simp: count_blockers_def)
qed

lemma assess_vrs_blockers:
  "va_selectable (assess_vrs n sp v policy leak prov) \<longleftrightarrow> va_blockers (assess_vrs n sp v policy leak prov) = []"
proof (cases "resolve_leakage v leak")
  case (Some b)
  then show ?thesis by (cases "blocked_code sp v n"; cases b) (auto simp: assess_vrs_def Let_def)
qed (cases "blocked_code sp v n"; simp add: assess_vrs_def Let_def)

lemma assess_vrs_selectable:
  "va_selectable (assess_vrs n sp v policy leak prov) \<longleftrightarrow>
     na_blockers n = [] \<and> na_eligible n \<and> na_geometry_status n = NG_PASS \<and>
     (if pl_require_approved_spatial_model_for_vrs policy then sa_validation_status sp = SM_APPROVED else True) \<and>
     (if pl_require_approved_vrs_for_vrs policy then vc_status v = VS_APPROVED else True) \<and>
     resolve_leakage v leak = Some True \<and> prov \<and> sa_fingerprint sp \<noteq> [] \<and> vc_fingerprint v \<noteq> []"
proof (cases "resolve_leakage v leak")
  case (Some b)
  then show ?thesis by (cases "blocked_code sp v n"; cases b) (auto simp: assess_vrs_def Let_def)
qed (cases "blocked_code sp v n"; simp add: assess_vrs_def Let_def)

lemma assess_vrs_experiment:
  "va_experiment_id (assess_vrs n sp v policy leak prov) = some_nonempty (vc_experiment_id v)"
  by (cases "blocked_code sp v n") (simp add: assess_vrs_def Let_def)

text \<open>
  C15. The VRS gate is conjunctive. VRS is selectable exactly when every non-target candidate of
  status ACCEPT has a verified coordinate and a navigation product, there are at least three of them
  and at least the policy's minimum, the target is resolved, their distances are known and do not
  extrapolate, the common interval (where known) meets the floor, the models are approved where the
  policy requires it, the target leakage is assessed as passed, the provenance is valid and both
  assessments carry a fingerprint. Otherwise there is a blocker.
\<close>

theorem vrs_gate_conjunctive:
  "(va_selectable (assess_vrs (assess_network d policy None True) sp v policy leak prov) \<longleftrightarrow>
     usable_network d policy \<and>
     (if pl_require_approved_spatial_model_for_vrs policy then sa_validation_status sp = SM_APPROVED else True) \<and>
     (if pl_require_approved_vrs_for_vrs policy then vc_status v = VS_APPROVED else True) \<and>
     resolve_leakage v leak = Some True \<and> prov \<and> sa_fingerprint sp \<noteq> [] \<and> vc_fingerprint v \<noteq> []) \<and>
   (va_selectable (assess_vrs (assess_network d policy None True) sp v policy leak prov) \<longleftrightarrow>
     va_blockers (assess_vrs (assess_network d policy None True) sp v policy leak prov) = [])"
  using assess_network_usable [of d policy] assess_vrs_selectable assess_vrs_blockers by metis

text \<open>
  The network gate takes the better of the two profiles. A candidate passes the ACCEPT-only test of
  the network exactly when its network or its single-base quality result is ACCEPT: a station that the
  network profile rejected is admitted as a network reference when the single-base profile accepted it.
\<close>

theorem network_gate_takes_best_profile:
  "case build_candidate station np sp verified target target_station of
     Inl e \<Rightarrow> True
   | Inr c \<Rightarrow> qc_passed True c \<longleftrightarrow> qc_status_of np = Inr QC_ACCEPT \<or> qc_status_of sp = Inr QC_ACCEPT"
proof (cases "build_candidate station np sp verified target target_station")
  case (Inr c)
  from build_candidate_fields(6) [OF this] obtain a b where ab: "qc_status_of np = Inr a" "qc_status_of sp = Inr b"
    "sc_qc_status c = better_status a b" by (auto simp: better_status_min)
  then show ?thesis using Inr better_status_accept [of a b] by (simp add: qc_passed_def)
qed simp

section \<open>The selected base\<close>

text \<open>Unless a distance is NaN the ranking is a weak order, so the head of the ranking is least.\<close>

interpretation rank: weak_order rank_before "\<lambda>c. sc_distance_m c \<noteq> Some PNan"
proof
  fix x y z
  show "\<not> rank_before x x" by (simp add: rank_before_def)
  show "rank_before x y \<Longrightarrow> rank_before y z \<Longrightarrow> rank_before x z"
    by (auto simp: rank_before_def split: if_splits dest: f_lt_trans)
  assume ok: "sc_distance_m x \<noteq> Some PNan" "sc_distance_m y \<noteq> Some PNan" "sc_distance_m z \<noteq> Some PNan"
    and xz: "rank_before x z"
  have "rank_distance c \<noteq> PNan" if "sc_distance_m c \<noteq> Some PNan" for c
    using that by (auto simp: rank_distance_def split: option.splits)
  with ok have ranks: "rank_distance x \<noteq> PNan" "rank_distance y \<noteq> PNan" "rank_distance z \<noteq> PNan"
    by blast+
  show "rank_before x y \<or> rank_before y z"
    using xz f_lt_split [OF ranks] f_lt_linear [OF ranks(2,3)]
    by (auto simp: rank_before_def split: if_splits)
qed

definition single_base_ok :: "discovery_result \<Rightarrow> single_qc option \<Rightarrow> station_candidate \<Rightarrow> bool" where
  "single_base_ok d single_qc c \<longleftrightarrow>
     c \<in> set (ds_candidates d) \<and> ds_target_station_id d \<noteq> Some (sc_station_id c) \<and>
     single_status single_qc c = QC_ACCEPT \<and> sc_navigation_available c \<and> sc_coordinate_verified c \<and>
     sc_common_interval c \<noteq> JNull"

definition not_farther :: "station_candidate \<Rightarrow> station_candidate \<Rightarrow> bool" where
  "not_farther c c' =
     (case (sc_distance_m c, sc_distance_m c') of
        (_, None) \<Rightarrow> True
      | (None, Some y) \<Rightarrow> False
      | (Some x, Some y) \<Rightarrow> y = f_zero \<or> f_le x y)"

lemma single_rejection_None:
  "single_rejection q c = None \<longleftrightarrow>
   single_status q c = QC_ACCEPT \<and> sc_navigation_available c \<and> sc_coordinate_verified c \<and>
   sc_common_interval c \<noteq> JNull"
  by (auto simp: single_rejection_def)

lemma survivors:
  "set (filter (\<lambda>c. single_rejection q c = None)
     (sort_key sc_station_id (without_target (ds_target_station_id d) (ds_candidates d)))) =
   {c. single_base_ok d q c}"
  by (auto simp: without_target_def single_base_ok_def single_rejection_None split: option.splits)

lemma not_rank_before:
  assumes "\<not> rank_before c' c" and "sc_distance_m c \<noteq> Some PNan" and "sc_distance_m c' \<noteq> Some PNan"
  shows "not_farther c c'"
proof (cases "sc_distance_m c")
  case None
  with assms(1) show ?thesis by (cases "sc_distance_m c'") (simp_all add: rank_before_def not_farther_def)
next
  case (Some x)
  show ?thesis
  proof (cases "sc_distance_m c'")
    case (Some y)
    have "\<not> f_lt (rank_distance c') (rank_distance c)"
      using assms(1) Some \<open>sc_distance_m c = Some x\<close>
      by (cases "rank_distance c' = rank_distance c") (auto simp: rank_before_def)
    moreover have "rank_distance c \<noteq> PNan" "rank_distance c' \<noteq> PNan"
      using assms(2,3) Some \<open>sc_distance_m c = Some x\<close> by (auto simp: rank_distance_def)
    ultimately have "f_le (rank_distance c) (rank_distance c')"
      using f_lt_not_le by blast
    then show ?thesis
      using Some \<open>sc_distance_m c = Some x\<close> assms(2,3)
      by (cases y) (auto simp: not_farther_def rank_distance_def f_le_def f_eq_def split: if_splits)
  qed (simp add: not_farther_def split: option.split)
qed

definition ranked_survivors :: "discovery_result \<Rightarrow> single_qc option \<Rightarrow> station_candidate list" where
  "ranked_survivors d q = sort_by rank_before (filter (\<lambda>c. single_rejection q c = None)
     (sort_key sc_station_id (without_target (ds_target_station_id d) (ds_candidates d))))"

lemma assess_single_base_Cons:
  assumes "ranked_survivors d q = c # others"
  shows "sb_available (assess_single_base d policy q) \<longleftrightarrow>
      band (pl_distance policy) (sc_distance_m c) \<noteq> ''beyond_maximum''"
    and "sb_ranked (assess_single_base d policy q) = map sc_station_id (c # others)"
    and "band (pl_distance policy) (sc_distance_m c) \<noteq> ''beyond_maximum'' \<Longrightarrow>
      sb_selected_reference (assess_single_base d policy q) = Some (sc_station_id c) \<and>
      sb_distance_m (assess_single_base d policy q) = sc_distance_m c \<and>
      sb_distance_band (assess_single_base d policy q) = band (pl_distance policy) (sc_distance_m c)"
  using assms unfolding ranked_survivors_def assess_single_base_def Let_def
  by (simp_all split: if_split)

text \<open>The warning for a selected base whose distance is not known.\<close>

definition ungraded_warning :: "station_candidate \<Rightarrow> string" where
  "ungraded_warning c = sc_station_id c @ '': distance unknown; expectation ungraded''"

lemma assess_single_base_ungraded:
  assumes "ranked_survivors d q = c # others" and "sc_distance_m c = None"
  shows "ungraded_warning c \<in> set (sb_warnings (assess_single_base d policy q))"
  using assms unfolding ranked_survivors_def assess_single_base_def Let_def ungraded_warning_def
  by (simp add: band_def)

lemma assess_single_base_Nil:
  "ranked_survivors d q = [] \<Longrightarrow> \<not> sb_available (assess_single_base d policy q)"
  unfolding ranked_survivors_def assess_single_base_def Let_def by (simp del: sort_by_Nil)

lemma assess_single_base_selected:
  assumes "sb_available (assess_single_base d policy q)"
  obtains c others where "ranked_survivors d q = c # others"
    "sb_selected_reference (assess_single_base d policy q) = Some (sc_station_id c)"
    "sb_distance_m (assess_single_base d policy q) = sc_distance_m c"
    "sb_distance_band (assess_single_base d policy q) = band (pl_distance policy) (sc_distance_m c)"
    "band (pl_distance policy) (sc_distance_m c) \<noteq> ''beyond_maximum''"
  using assms assess_single_base_Nil assess_single_base_Cons
  by (cases "ranked_survivors d q") auto

lemma set_ranked_survivors: "set (ranked_survivors d q) = {c. single_base_ok d q c}"
  unfolding ranked_survivors_def set_sort_by by (rule survivors)

text \<open>
  The single base is sound and nearest. When a base is selected, it is a candidate other than the
  target, of (overridden) status ACCEPT, with navigation, verified coordinate and common interval,
  inside the maximum distance; and no acceptable candidate is nearer, save one at distance exactly 0.
  Distances must not be NaN, on which the order of the code's sort is unspecified.
\<close>

theorem single_base_nearest:
  assumes nan: "\<forall>c \<in> set (ds_candidates d). sc_distance_m c \<noteq> Some PNan"
    and avail: "sb_available (assess_single_base d policy q)"
  shows "\<exists>c. single_base_ok d q c \<and>
    sb_selected_reference (assess_single_base d policy q) = Some (sc_station_id c) \<and>
    sb_distance_m (assess_single_base d policy q) = sc_distance_m c \<and>
    band (pl_distance policy) (sc_distance_m c) \<noteq> ''beyond_maximum'' \<and>
    (\<forall>c'. single_base_ok d q c' \<longrightarrow> not_farther c c')"
proof -
  obtain c others where sel: "ranked_survivors d q = c # others"
    and facts: "sb_selected_reference (assess_single_base d policy q) = Some (sc_station_id c)"
    "sb_distance_m (assess_single_base d policy q) = sc_distance_m c"
    "band (pl_distance policy) (sc_distance_m c) \<noteq> ''beyond_maximum''"
    using assess_single_base_selected [OF avail] by metis
  have c: "single_base_ok d q c" using sel set_ranked_survivors [of d q] by auto
  have fine: "sc_distance_m x \<noteq> Some PNan" if "single_base_ok d q x" for x
    using nan that by (auto simp: single_base_ok_def)
  have "not_farther c c'" if "single_base_ok d q c'" for c'
  proof (rule not_rank_before)
    have "\<not> rank_before c' (hd (ranked_survivors d q))"
      unfolding ranked_survivors_def
      by (rule rank.hd_sort_by_least) (use fine that survivors in auto)
    then show "\<not> rank_before c' c" by (simp add: sel)
  qed (use fine c that in auto)
  with c facts show ?thesis by blast
qed

text \<open>Three stations around a resolved target; the demonstration inputs of the decision engine.\<close>

definition demo_candidate :: "string \<Rightarrow> rat \<Rightarrow> station_candidate" where
  "demo_candidate station distance =
     \<lparr>sc_station_id = station, sc_distance_m = Some (PFin distance), sc_qc_status = QC_ACCEPT,
      sc_navigation_available = True, sc_navigation_sha256 = JStr ''nav'', sc_coordinate_verified = True,
      sc_coordinate_frame = JStr ''ITRF2014'', sc_coordinate_epoch = JStr ''2024.0'',
      sc_observation_coverage = JStr ''a/b'', sc_common_interval = JStr ''a/b'',
      sc_equipment_metadata = [], sc_phase4_fingerprint = ''qc'' @ station, sc_eligible = True,
      sc_ineligibility_reasons = []\<rparr>"

definition demo_discovery :: "station_candidate list \<Rightarrow> discovery_result" where
  "demo_discovery cs =
     \<lparr>ds_target_ecef_m = Some (PFin 1, PFin 2, PFin 3), ds_target_station_id = None,
      ds_target_resolved_from = ''explicit_target_ecef'', ds_candidates = cs,
      ds_verified_coordinates_fingerprint = ''fp'', ds_warnings = []\<rparr>"

lemmas demo_ranking = ranked_survivors_def demo_discovery_def demo_candidate_def without_target_def
  single_rejection_def single_status_def sort_by_def rank_before_def rank_distance_def

lemma single_base_nearest_witness:
  "\<exists>c. single_base_ok (demo_discovery [demo_candidate ''A'' 200000, demo_candidate ''B'' 90000]) None c \<and>
     sc_distance_m c = Some (PFin 90000)"
proof -
  let ?d = "demo_discovery [demo_candidate ''A'' 200000, demo_candidate ''B'' 90000]"
  have "ranked_survivors ?d None = [demo_candidate ''B'' 90000, demo_candidate ''A'' 200000]"
    by (simp add: demo_ranking)
  from assess_single_base_Cons(1) [OF this]
  have avail: "sb_available (assess_single_base ?d DEFAULT_POLICY None)"
    by (simp add: demo_candidate_def band_def DEFAULT_POLICY_def default_fields_def default_distance_def)
  have "\<forall>c \<in> set (ds_candidates ?d). sc_distance_m c \<noteq> Some PNan"
    by (simp add: demo_discovery_def demo_candidate_def)
  from single_base_nearest [OF this avail] obtain c where c: "single_base_ok ?d None c"
    "\<forall>c'. single_base_ok ?d None c' \<longrightarrow> not_farther c c'" by blast
  have "single_base_ok ?d None (demo_candidate ''B'' 90000)"
    by (simp add: single_base_ok_def demo_discovery_def demo_candidate_def single_status_def)
  with c have near: "not_farther c (demo_candidate ''B'' 90000)" by blast
  from c(1) have "c = demo_candidate ''A'' 200000 \<or> c = demo_candidate ''B'' 90000"
    by (simp add: single_base_ok_def demo_discovery_def)
  with near have "sc_distance_m c = Some (PFin 90000)"
    by (elim disjE) (simp_all add: demo_candidate_def not_farther_def)
  with c(1) show ?thesis by blast
qed

text \<open>
  A base at distance 0 is ranked last. The sort key is \<open>distance or inf\<close>, and 0.0 is falsy: of two
  acceptable stations, one at the target and one 400 km away, the far one is selected, in the degraded
  band; alone, the station at the target is selected.
\<close>

theorem zero_distance_ranks_last:
  "sb_ranked (assess_single_base (demo_discovery [demo_candidate ''HERE'' 0, demo_candidate ''FAR'' 400000])
     DEFAULT_POLICY None) = [''FAR'', ''HERE''] \<and>
   sb_distance_band (assess_single_base (demo_discovery [demo_candidate ''HERE'' 0, demo_candidate ''FAR'' 400000])
     DEFAULT_POLICY None) = ''degraded'' \<and>
   sb_selected_reference (assess_single_base (demo_discovery [demo_candidate ''HERE'' 0]) DEFAULT_POLICY None) =
     Some ''HERE''"
proof -
  have two: "ranked_survivors (demo_discovery [demo_candidate ''HERE'' 0, demo_candidate ''FAR'' 400000]) None =
      [demo_candidate ''FAR'' 400000, demo_candidate ''HERE'' 0]"
    and one: "ranked_survivors (demo_discovery [demo_candidate ''HERE'' 0]) None = [demo_candidate ''HERE'' 0]"
    by (simp_all add: demo_ranking)
  have bands: "band (pl_distance DEFAULT_POLICY) (Some (PFin 400000)) = ''degraded''"
    "band (pl_distance DEFAULT_POLICY) (Some (PFin 0)) = ''preferred''"
    by (simp_all add: band_def DEFAULT_POLICY_def default_fields_def default_distance_def)
  show ?thesis
    using assess_single_base_Cons(2,3) [OF two, of DEFAULT_POLICY]
      assess_single_base_Cons(3) [OF one, of DEFAULT_POLICY] bands
    by (simp add: demo_candidate_def)
qed

end
