(* ===== verification/Hybrid_Decision.thy ===== *)
theory Hybrid_Decision
  imports Hybrid_Gates "HOL-Library.Product_Lexorder"
begin

text \<open>
  Provenance, fingerprints (\<open>provenance.py\<close>) and the decision itself (\<open>decision.py\<close>): validated VRS,
  then an acceptable single base, then no correction, with every missing dependency ending in a
  refusal. The keyword arguments that every branch of the code passes on are one record, the decision
  context. \<open>sha\<close> is the SHA-256 hex digest of a byte string and \<open>now\<close> the clock's text.
\<close>

section \<open>Provenance\<close>

definition ENGINE_VERSION :: string where "ENGINE_VERSION = ''0.1.0''"
definition DECISION_SCHEMA_VERSION :: string where "DECISION_SCHEMA_VERSION = ''1.0''"

definition sorted_pairs :: "(string \<times> string) list \<Rightarrow> json" where
  "sorted_pairs ps = JArr (map (\<lambda>p. JArr [JStr (fst p), JStr (snd p)]) (sort ps))"

text \<open>
  \<open>sorted((id, sha or ""))\<close>: a hash that is not a text is compared by its text, which only matters
  for two candidates of one id; discovery never makes such a pair.
\<close>

definition hash_or_empty :: "json \<Rightarrow> json" where
  "hash_or_empty v = (if py_bool v then v else JStr [])"

definition sorted_hashes :: "(string \<times> json) list \<Rightarrow> json" where
  "sorted_hashes ps =
     JArr (map (\<lambda>p. JArr [JStr (fst p), snd p]) (sort_key (\<lambda>p. (fst p, py_str (snd p))) ps))"

definition decision_material ::
  "(bytes \<Rightarrow> string) \<Rightarrow> decision_request \<Rightarrow> discovery_result \<Rightarrow> spatial_assessment \<Rightarrow> vrs_capability \<Rightarrow>
   decision_policy \<Rightarrow> (string \<times> json) list" where
  "decision_material sha r d spatial vrs policy =
     [(''schema_version'', JStr DECISION_SCHEMA_VERSION),
      (''software_version'', JStr ENGINE_VERSION),
      (''target_ecef_m'', of_option (\<lambda>(x, y, z). JArr [JFloat x, JFloat y, JFloat z]) (ds_target_ecef_m d)),
      (''target_station_id'', of_option JStr (ds_target_station_id d)),
      (''request_time'', JStr (dr_request_time r)),
      (''year'', JInt (dr_year r)),
      (''day_of_year'', JInt (dr_day_of_year r)),
      (''desired_mode'', JStr (desired_mode_str (dr_desired_mode r))),
      (''allow_fallback'', JBool (dr_allow_fallback r)),
      (''diagnostic'', JBool (dr_diagnostic r)),
      (''station_set'', JArr (map JStr (sort (map sc_station_id (ds_candidates d))))),
      (''qc_fingerprints'',
        sorted_pairs (map (\<lambda>c. (sc_station_id c, sc_phase4_fingerprint c)) (ds_candidates d))),
      (''navigation_hashes'',
        sorted_hashes (map (\<lambda>c. (sc_station_id c, hash_or_empty (sc_navigation_sha256 c))) (ds_candidates d))),
      (''coordinates_fingerprint'', JStr (ds_verified_coordinates_fingerprint d)),
      (''spatial_fingerprint'', JStr (sa_fingerprint spatial)),
      (''spatial_status'', JStr (spatial_model_status_str (sa_validation_status spatial))),
      (''vrs_fingerprint'', JStr (vc_fingerprint vrs)),
      (''vrs_status'', JStr (vrs_status_str (vc_status vrs))),
      (''policy_fingerprint'', JStr (policy_fingerprint sha policy)),
      (''policy_version'', JStr (pl_policy_version policy))]"

definition decision_fingerprint ::
  "(bytes \<Rightarrow> string) \<Rightarrow> decision_request \<Rightarrow> discovery_result \<Rightarrow> spatial_assessment \<Rightarrow> vrs_capability \<Rightarrow>
   decision_policy \<Rightarrow> string" where
  "decision_fingerprint sha r d spatial vrs policy =
     json_digest sha (JObj (decision_material sha r d spatial vrs policy))"

text \<open>The one truthy value that all candidates share, or none; a set of unhashable values raises.\<close>

definition distinct_keys :: "json list \<Rightarrow> json list" where
  "distinct_keys vs = foldl (\<lambda>acc v. if list_ex (\<lambda>w. key_eq w v) acc then acc else acc @ [v]) [] vs"

definition common_value :: "json list \<Rightarrow> json result" where
  "common_value vs =
     (let truthy = filter py_bool vs in
      bind_result (map_result hashable truthy) (\<lambda>_.
        Inr (case distinct_keys truthy of [v] \<Rightarrow> v | _ \<Rightarrow> JNull)))"

definition by_station :: "(station_candidate \<Rightarrow> json) \<Rightarrow> station_candidate list \<Rightarrow> json" where
  "by_station f cs = JObj (foldl (\<lambda>m c. obj_set m (sc_station_id c) (f c)) [] cs)"

definition build_provenance ::
  "(bytes \<Rightarrow> string) \<Rightarrow> decision_request \<Rightarrow> discovery_result \<Rightarrow> spatial_assessment \<Rightarrow> vrs_capability \<Rightarrow>
   decision_policy \<Rightarrow> string \<Rightarrow> string \<Rightarrow> (string \<times> json) list result" where
  "build_provenance sha r d spatial vrs policy timestamp git_commit =
     bind_result (common_value (map sc_coordinate_frame (ds_candidates d))) (\<lambda>frame.
     bind_result (common_value (map sc_coordinate_epoch (ds_candidates d))) (\<lambda>epoch.
     Inr
     [(''phase4_qc_fingerprints'', by_station (\<lambda>c. JStr (sc_phase4_fingerprint c)) (ds_candidates d)),
      (''phase6_assessment_fingerprint'', JStr (sa_fingerprint spatial)),
      (''phase6_model'', JStr (sa_model_name spatial)),
      (''phase6_provenance'', JStr (sa_provenance spatial)),
      (''phase7_assessment_fingerprint'', JStr (vc_fingerprint vrs)),
      (''phase7_experiment'', JStr (vc_experiment_id vrs)),
      (''phase7_provenance'', JStr (vc_provenance vrs)),
      (''station_metadata_provenance'',
        by_station (\<lambda>c. JArr [sc_coordinate_frame c, sc_coordinate_epoch c]) (ds_candidates d)),
      (''navigation_hashes'', by_station sc_navigation_sha256 (ds_candidates d)),
      (''coordinate_frame'', frame),
      (''coordinate_epoch'', epoch),
      (''decision_engine_version'', JStr ENGINE_VERSION),
      (''decision_schema_version'', JStr DECISION_SCHEMA_VERSION),
      (''git_commit'', JStr git_commit),
      (''policy_version'', JStr (pl_policy_version policy)),
      (''policy_fingerprint'', JStr (policy_fingerprint sha policy)),
      (''execution_timestamp'', JStr timestamp),
      (''request_id'', JStr (dr_request_id r))]))"

section \<open>Decisions\<close>

record decision_context =
  cx_decision_id :: string
  cx_request :: decision_request
  cx_timestamp :: string
  cx_discovery :: discovery_result
  cx_network :: network_assessment
  cx_spatial :: spatial_assessment
  cx_vrs :: vrs_capability
  cx_policy :: decision_policy
  cx_provenance :: "(string \<times> json) list"
  cx_fingerprint :: string
  cx_candidates :: "string list"
  cx_qc_summary :: string

text \<open>The arguments that every call of the \<open>CorrectionDecision\<close> constructor shares, with its defaults.\<close>

definition decision_for ::
  "decision_context \<Rightarrow> correction_mode \<Rightarrow> decision_status \<Rightarrow> reason_code \<Rightarrow> string \<Rightarrow> integrity_status \<Rightarrow>
   string list \<Rightarrow> string list \<Rightarrow> correction_decision" where
  "decision_for cx mode status code txt integrity warnings blockers =
     \<lparr>cd_decision_id = cx_decision_id cx, cd_request_id = dr_request_id (cx_request cx),
      cd_timestamp = cx_timestamp cx, cd_mode = mode, cd_status = status, cd_reason_code = code,
      cd_reason_text = txt, cd_selected_reference = None, cd_selected_network = [],
      cd_selected_vrs_experiment = None, cd_candidate_references = cx_candidates cx,
      cd_distance_to_selected_reference_m = None,
      cd_network_station_count = na_admitted_count (cx_network cx),
      cd_network_geometry_status = na_geometry_status (cx_network cx), cd_qc_status = cx_qc_summary cx,
      cd_spatial_model_status = sa_validation_status (cx_spatial cx),
      cd_vrs_status = vc_status (cx_vrs cx), cd_integrity_status = integrity,
      cd_provenance = cx_provenance cx, cd_fallback_used = False, cd_warnings = warnings,
      cd_blockers = blockers, cd_decision_fingerprint = cx_fingerprint cx,
      cd_diagnostic = dr_diagnostic (cx_request cx)\<rparr>"

definition no_correction ::
  "decision_context \<Rightarrow> reason_code \<Rightarrow> string \<Rightarrow> string list \<Rightarrow> string list \<Rightarrow> correction_decision" where
  "no_correction cx code txt blockers warnings =
     decision_for cx CM_NO_CORRECTION
       (if dr_diagnostic (cx_request cx) then DS_DIAGNOSTIC_ONLY else DS_BLOCKED)
       code txt IS_BLOCKED warnings blockers"

definition diagnostic_preview ::
  "decision_context \<Rightarrow> vrs_assessment option \<Rightarrow> string list \<Rightarrow> string list \<Rightarrow> string \<Rightarrow> correction_decision" where
  "diagnostic_preview cx vrs_gate warnings blockers remark =
     (decision_for cx CM_NO_CORRECTION DS_DIAGNOSTIC_ONLY DIAGNOSTIC_PREVIEW
        (remark @ ''diagnostic preview only (NOT_FOR_OPERATIONAL_CORRECTION): VRS '' @
         vrs_status_str (vc_status (cx_vrs cx)) @ ''/'' @
         spatial_model_status_str (sa_validation_status (cx_spatial cx)) @ '', network '' @
         str_nat (na_admitted_count (cx_network cx)) @ '' refs '' @
         network_geometry_status_str (na_geometry_status (cx_network cx)))
        IS_BLOCKED
        (warnings @ [''DIAGNOSTIC_ONLY: preview of unvalidated candidates; NOT_FOR_OPERATIONAL_CORRECTION''])
        blockers)
       \<lparr>cd_selected_network := na_admitted_references (cx_network cx),
        cd_selected_vrs_experiment :=
          (case vrs_gate of
             Some g \<Rightarrow> va_experiment_id g
           | None \<Rightarrow> some_nonempty (vc_experiment_id (cx_vrs cx))),
        cd_diagnostic := True\<rparr>"

definition no_correction_code :: "single_base_assessment \<Rightarrow> discovery_result \<Rightarrow> reason_code" where
  "no_correction_code sb d =
     (let joined = str_join '' '' (sb_blockers sb @ map snd (sb_rejected sb)) in
      if str_contains ''NAVIGATION'' joined then SINGLE_BASE_NAVIGATION_MISSING
      else if str_contains ''TOO_DISTANT'' joined then SINGLE_BASE_TOO_DISTANT
      else if str_contains ''QC'' joined then SINGLE_BASE_QC_REJECTED
      else if ds_candidates d \<noteq> [] \<and> \<not> list_ex sc_navigation_available (ds_candidates d) then
        NO_NAVIGATION_PRODUCT
      else NO_ACCEPTABLE_CORRECTION_SOURCE)"

definition decision_id :: "(bytes \<Rightarrow> string) \<Rightarrow> string \<Rightarrow> string \<Rightarrow> string" where
  "decision_id sha request_id timestamp =
     ''dec-'' @ take 12 (sha (encode_text (request_id @ ''|'' @ timestamp @ ''|'' @ ENGINE_VERSION)))"

definition admitted_any :: "discovery_result \<Rightarrow> bool" where
  "admitted_any d = list_ex (\<lambda>c. sc_qc_status c = QC_ACCEPT) (ds_candidates d)"

definition qc_summary :: "discovery_result \<Rightarrow> string" where
  "qc_summary d =
     (let accepted = sort (map sc_station_id (filter (\<lambda>c. sc_qc_status c = QC_ACCEPT) (ds_candidates d)))
      in if accepted \<noteq> [] then ''ACCEPT:'' @ str_join '','' accepted else ''NO_ACCEPT'')"

text \<open>The decisions for VRS and for a single base, as the constructor calls of the branches have them.\<close>

definition vrs_decision ::
  "decision_context \<Rightarrow> vrs_assessment \<Rightarrow> decision_status \<Rightarrow> string list \<Rightarrow> correction_decision" where
  "vrs_decision cx gate status warnings =
     (decision_for cx CM_VRS status VRS_APPROVED (va_reason_text gate)
        (derive_integrity CM_VRS status warnings []) warnings [])
       \<lparr>cd_selected_network := na_admitted_references (cx_network cx),
        cd_selected_vrs_experiment := va_experiment_id gate\<rparr>"

definition single_status_of :: "decision_context \<Rightarrow> single_base_assessment \<Rightarrow> decision_status" where
  "single_status_of cx sb =
     (if dr_diagnostic (cx_request cx) then DS_DIAGNOSTIC_ONLY
      else if sb_distance_band sb \<in> {''degraded'', ''maximum'', ''unknown''} then DS_DEGRADED else DS_OK)"

definition single_decision ::
  "decision_context \<Rightarrow> single_base_assessment \<Rightarrow> string \<Rightarrow> string list \<Rightarrow> string list \<Rightarrow> bool \<Rightarrow> correction_decision" where
  "single_decision cx sb txt warnings blockers fallback =
     (decision_for cx CM_SINGLE_BASE (single_status_of cx sb) SINGLE_BASE_SELECTED txt
        (derive_integrity CM_SINGLE_BASE (single_status_of cx sb) warnings []) warnings blockers)
       \<lparr>cd_selected_reference := sb_selected_reference sb,
        cd_selected_network := na_admitted_references (cx_network cx),
        cd_distance_to_selected_reference_m := sb_distance_m sb,
        cd_fallback_used := fallback\<rparr>"

definition selected_text :: "single_base_assessment \<Rightarrow> string" where
  "selected_text sb = (case sb_selected_reference sb of None \<Rightarrow> ''None'' | Some s \<Rightarrow> s)"

definition blockers_text :: "single_base_assessment \<Rightarrow> string" where
  "blockers_text sb = (let t = str_join ''; '' (sb_blockers sb) in if t = [] then ''no candidate'' else t)"

definition decide_auto ::
  "decision_context \<Rightarrow> single_base_assessment \<Rightarrow> vrs_assessment \<Rightarrow> correction_decision" where
  "decide_auto cx sb gate =
     (let r = cx_request cx; d = cx_discovery cx; policy = cx_policy cx;
          preview = (dr_diagnostic r \<and> pl_diagnostic_preview_enabled policy);
          warnings = ds_warnings d in
      if \<not> admitted_any d then
        let blockers = ''NO_QC_ADMITTED_STATIONS'' # na_blockers (cx_network cx) in
        if preview then diagnostic_preview cx (Some gate) warnings blockers []
        else no_correction cx NO_QC_ADMITTED_STATIONS
               ''No Phase 4 QC-admitted stations for the requested day'' blockers warnings
      else if \<not> list_ex sc_navigation_available (ds_candidates d) then
        let blockers = [''NO_NAVIGATION_PRODUCT''] in
        if preview then diagnostic_preview cx (Some gate) warnings blockers []
        else no_correction cx NO_NAVIGATION_PRODUCT
               ''No candidate station carries a navigation product'' blockers warnings
      else if va_selectable gate then
        vrs_decision cx gate (if dr_diagnostic r then DS_DIAGNOSTIC_ONLY else DS_OK) warnings
      else
        let warnings1 = warnings @ va_warnings gate in
        if pl_single_base_fallback_enabled policy \<and> dr_allow_fallback r \<and> sb_available sb then
          single_decision cx sb
            (''SINGLE_BASE fallback '' @ selected_text sb @ '' ('' @
             format_fixed 3 (distance_km (sb_distance_m sb)) @ '' km, band '' @ sb_distance_band sb @
             '' PROVISIONAL); VRS blocked: '' @ reason_code_str (va_reason_code gate) @
             ''; no centimetre accuracy claimed'')
            (warnings1 @ sb_warnings sb) (va_blockers gate) True
        else
          let remark = (if \<not> pl_single_base_fallback_enabled policy \<or> \<not> dr_allow_fallback r
                then ''fallback disabled; '' else []);
              blockers = va_blockers gate @ sb_blockers sb
          in if preview then diagnostic_preview cx (Some gate) warnings1 blockers remark
             else no_correction cx (no_correction_code sb d)
               (remark @ ''no acceptable correction source: VRS '' @ reason_code_str (va_reason_code gate) @
                ''; single-base unavailable ('' @ blockers_text sb @ '')'')
               blockers (warnings1 @ sb_warnings sb))"

definition decide_vrs_only ::
  "decision_context \<Rightarrow> vrs_assessment \<Rightarrow> bool \<Rightarrow> correction_decision" where
  "decide_vrs_only cx gate any_admitted =
     (let r = cx_request cx; warnings = ds_warnings (cx_discovery cx) @ va_warnings gate in
      if \<not> any_admitted then
        let blockers = ''NO_QC_ADMITTED_STATIONS'' # va_blockers gate in
        if dr_diagnostic r then diagnostic_preview cx (Some gate) warnings blockers ''VRS_ONLY; ''
        else no_correction cx NO_QC_ADMITTED_STATIONS
               (''VRS_ONLY requested but no Phase 4 QC-admitted stations; '' @
                ''no fallback permitted under VRS_ONLY'') blockers warnings
      else if va_selectable gate \<and> \<not> dr_diagnostic r then vrs_decision cx gate DS_OK warnings
      else if dr_diagnostic r then
        diagnostic_preview cx (Some gate) warnings (va_blockers gate) ''VRS_ONLY; ''
      else
        no_correction cx
          (if va_selectable gate \<and> dr_diagnostic r then VRS_MODE_NOT_PERMITTED else va_reason_code gate)
          (''VRS_ONLY requested but VRS not selectable: '' @ reason_code_str (va_reason_code gate) @
           ''; no fallback permitted under VRS_ONLY'') (va_blockers gate) warnings)"

definition decide_single_only ::
  "decision_context \<Rightarrow> single_base_assessment \<Rightarrow> correction_decision" where
  "decide_single_only cx sb =
     (let warnings = ds_warnings (cx_discovery cx) @ sb_warnings sb in
      if sb_available sb then
        single_decision cx sb
          (''SINGLE_BASE_ONLY: '' @ selected_text sb @ '' ('' @
           format_fixed 3 (distance_km (sb_distance_m sb)) @ '' km, band '' @ sb_distance_band sb @
           ''); VRS never considered'') warnings [] False
      else if dr_diagnostic (cx_request cx) then
        diagnostic_preview cx None warnings (sb_blockers sb) ''SINGLE_BASE_ONLY; ''
      else
        no_correction cx (no_correction_code sb (cx_discovery cx))
          (''SINGLE_BASE_ONLY requested but no acceptable physical reference: '' @ blockers_text sb @
           ''; VRS never considered'') (sb_blockers sb) warnings)"

text \<open>The route by resolved target and requested mode, at the end of \<open>decide\<close>.\<close>

definition route :: "decision_context \<Rightarrow> single_base_assessment \<Rightarrow> vrs_assessment \<Rightarrow> correction_decision" where
  "route cx sb gate =
     (if ds_target_ecef_m (cx_discovery cx) = None then
        no_correction cx INVALID_TARGET_COORDINATE
          (''No verified target coordinate: supply explicit target_ecef or a '' @
           ''verified target_station_id; coordinates are never invented'')
          [''INVALID_TARGET_COORDINATE''] (ds_warnings (cx_discovery cx))
      else
        case dr_desired_mode (cx_request cx) of
          DM_VRS_ONLY \<Rightarrow> decide_vrs_only cx gate (admitted_any (cx_discovery cx))
        | DM_SINGLE_BASE_ONLY \<Rightarrow> decide_single_only cx sb
        | DM_AUTO \<Rightarrow> decide_auto cx sb gate)"

definition decide ::
  "(bytes \<Rightarrow> string) \<Rightarrow> string \<Rightarrow> decision_request \<Rightarrow> discovery_result \<Rightarrow> network_assessment \<Rightarrow>
   single_base_assessment \<Rightarrow> vrs_assessment \<Rightarrow> spatial_assessment \<Rightarrow> vrs_capability \<Rightarrow> decision_policy \<Rightarrow>
   string option \<Rightarrow> string \<Rightarrow> string \<Rightarrow> correction_decision result" where
  "decide sha now r d network sb gate spatial vrs policy execution_timestamp git_commit single_qc_summary =
     bind_result (request_assert_valid r) (\<lambda>_.
       let timestamp = str_or execution_timestamp now in
       bind_result (build_provenance sha r d spatial vrs policy timestamp git_commit) (\<lambda>provenance.
         let fingerprint = decision_fingerprint sha r d spatial vrs policy in
         Inr (route
           \<lparr>cx_decision_id = decision_id sha (dr_request_id r) timestamp, cx_request = r,
            cx_timestamp = timestamp, cx_discovery = d, cx_network = network, cx_spatial = spatial,
            cx_vrs = vrs, cx_policy = policy,
            cx_provenance = obj_set provenance ''decision_fingerprint'' (JStr fingerprint),
            cx_fingerprint = fingerprint,
            cx_candidates = sort (map sc_station_id (ds_candidates d)),
            cx_qc_summary = (if single_qc_summary \<noteq> [] then single_qc_summary else qc_summary d)\<rparr>
           sb gate)))"

definition decide_full ::
  "(bytes \<Rightarrow> string) \<Rightarrow> string \<Rightarrow> decision_request \<Rightarrow> discovery_result \<Rightarrow> spatial_assessment \<Rightarrow>
   vrs_capability \<Rightarrow> decision_policy \<Rightarrow> single_qc option \<Rightarrow> bool option \<Rightarrow> bool \<Rightarrow> string option \<Rightarrow> string \<Rightarrow>
   (correction_decision \<times> network_assessment \<times> single_base_assessment \<times> vrs_assessment) result" where
  "decide_full sha now r d spatial vrs policy single_qc target_leakage_pass provenance_pass
     execution_timestamp git_commit =
     (let network = assess_network d policy None True;
          sb = assess_single_base d policy single_qc;
          gate = assess_vrs network spatial vrs policy target_leakage_pass provenance_pass
      in bind_result (decide sha now r d network sb gate spatial vrs policy execution_timestamp git_commit [])
           (\<lambda>decision. Inr (decision, network, sb, gate)))"

end
