(* ===== verification/Hybrid_Properties.thy ===== *)
theory Hybrid_Properties
  imports Hybrid_Decision Rtcm_Admission
begin

text \<open>
  What the decisions of the engine promise, whatever route made them: the contract of a route as a
  locale, interpreted on the three modes and on the dispatch, the mode as a specification that the
  code refines, and the evidence behind a selected VRS or base.
\<close>

section \<open>The contract of a route\<close>

text \<open>
  A decision fails closed: without a correction it is blocked and selects no reference; the
  diagnostic status is exactly that of a diagnostic request; integrity PASS is exactly an OK decision
  without warnings; and the identity of the request travels unchanged.
\<close>

definition fail_closed :: "decision_context \<Rightarrow> correction_decision \<Rightarrow> bool" where
  "fail_closed cx d \<longleftrightarrow>
     (case cd_mode d of
        CM_NO_CORRECTION \<Rightarrow>
          cd_status d \<in> {DS_BLOCKED, DS_DIAGNOSTIC_ONLY} \<and> cd_integrity_status d = IS_BLOCKED \<and>
          cd_selected_reference d = None \<and> \<not> cd_fallback_used d
      | CM_VRS \<Rightarrow>
          cd_status d \<in> {DS_OK, DS_DIAGNOSTIC_ONLY} \<and> cd_reason_code d = VRS_APPROVED \<and>
          cd_blockers d = [] \<and> cd_selected_reference d = None \<and> cd_integrity_status d \<noteq> IS_BLOCKED
      | CM_SINGLE_BASE \<Rightarrow>
          cd_status d \<in> {DS_OK, DS_DEGRADED, DS_DIAGNOSTIC_ONLY} \<and> cd_reason_code d = SINGLE_BASE_SELECTED \<and>
          cd_selected_vrs_experiment d = None \<and> cd_integrity_status d \<noteq> IS_BLOCKED) \<and>
     (cd_status d = DS_DIAGNOSTIC_ONLY \<longleftrightarrow> dr_diagnostic (cx_request cx)) \<and>
     (cd_diagnostic d \<longleftrightarrow> dr_diagnostic (cx_request cx)) \<and>
     (cd_integrity_status d = IS_PASS \<longleftrightarrow> cd_status d = DS_OK \<and> cd_warnings d = []) \<and>
     cd_request_id d = dr_request_id (cx_request cx) \<and> cd_provenance d = cx_provenance cx \<and>
     cd_decision_fingerprint d = cx_fingerprint cx"

locale correction_route =
  fixes make :: "decision_context \<Rightarrow> correction_decision"
  assumes made_fail_closed: "fail_closed cx (make cx)"
begin

lemma ok_is_operational:
  assumes "cd_status (make cx) = DS_OK"
  shows "cd_mode (make cx) \<noteq> CM_NO_CORRECTION" "\<not> dr_diagnostic (cx_request cx)"
  using made_fail_closed [of cx] assms
  by (auto simp: fail_closed_def split: correction_mode.splits)

lemma reference_only_single:
  "cd_selected_reference (make cx) \<noteq> None \<Longrightarrow> cd_mode (make cx) = CM_SINGLE_BASE"
  using made_fail_closed [of cx] by (auto simp: fail_closed_def split: correction_mode.splits)

lemma diagnostic_never_ok:
  "dr_diagnostic (cx_request cx) \<Longrightarrow>
   cd_status (make cx) = DS_DIAGNOSTIC_ONLY \<and> cd_integrity_status (make cx) \<noteq> IS_PASS"
  using made_fail_closed [of cx] by (auto simp: fail_closed_def)

lemma handed_source:
  "p9_source (phase9_view (make cx) r) = ''NO_CORRECTION'' \<or> cd_mode (make cx) \<noteq> CM_NO_CORRECTION"
  by (auto simp: phase9_view_def)

end

text \<open>The four ways a decision is made fail closed.\<close>

lemma derive_integrity_selected:
  "mode \<noteq> CM_NO_CORRECTION \<Longrightarrow> status \<noteq> DS_BLOCKED \<Longrightarrow>
   derive_integrity mode status warnings [] \<noteq> IS_BLOCKED \<and>
   (derive_integrity mode status warnings [] = IS_PASS \<longleftrightarrow> status = DS_OK \<and> warnings = [])"
  by (cases mode; cases status) (auto simp: derive_integrity_def)

lemma no_correction_fail_closed: "fail_closed cx (no_correction cx code txt blockers warnings)"
  by (simp add: fail_closed_def no_correction_def decision_for_def)

lemma preview_fail_closed:
  "dr_diagnostic (cx_request cx) \<Longrightarrow> fail_closed cx (diagnostic_preview cx gate warnings blockers remark)"
  by (simp add: fail_closed_def diagnostic_preview_def decision_for_def)

lemma vrs_decision_fail_closed:
  "status = (if dr_diagnostic (cx_request cx) then DS_DIAGNOSTIC_ONLY else DS_OK) \<Longrightarrow>
   fail_closed cx (vrs_decision cx gate status warnings)"
  using derive_integrity_selected [of CM_VRS status warnings]
  by (simp add: fail_closed_def vrs_decision_def decision_for_def split: if_splits)

lemma single_decision_fail_closed: "fail_closed cx (single_decision cx sb txt warnings blockers fallback)"
  using derive_integrity_selected [of CM_SINGLE_BASE "single_status_of cx sb" warnings]
  by (simp add: fail_closed_def single_decision_def decision_for_def single_status_of_def split: if_splits)

lemmas outcome_fail_closed =
  no_correction_fail_closed preview_fail_closed vrs_decision_fail_closed single_decision_fail_closed

interpretation auto_route: correction_route "\<lambda>cx. decide_auto cx sb gate" for sb gate
  by unfold_locales (simp add: decide_auto_def Let_def outcome_fail_closed)

interpretation vrs_route: correction_route "\<lambda>cx. decide_vrs_only cx gate admitted" for gate admitted
  by unfold_locales (simp add: decide_vrs_only_def Let_def outcome_fail_closed)

interpretation single_route: correction_route "\<lambda>cx. decide_single_only cx sb" for sb
  by unfold_locales (simp add: decide_single_only_def Let_def outcome_fail_closed)

interpretation any_route: correction_route "\<lambda>cx. route cx sb gate" for sb gate
  by unfold_locales
    (simp add: route_def no_correction_fail_closed auto_route.made_fail_closed
      vrs_route.made_fail_closed single_route.made_fail_closed split: desired_mode.split)

section \<open>The mode as a specification\<close>

text \<open>The priority of the docstring: validated VRS, acceptable single base, no correction.\<close>

definition mode_spec ::
  "decision_request \<Rightarrow> discovery_result \<Rightarrow> decision_policy \<Rightarrow> bool \<Rightarrow> bool \<Rightarrow> correction_mode" where
  "mode_spec r d policy base vrs =
     (let vrs_ok = (vrs \<and> dr_desired_mode r \<noteq> DM_SINGLE_BASE_ONLY \<and> admitted_any d \<and>
            (case dr_desired_mode r of
               DM_VRS_ONLY \<Rightarrow> \<not> dr_diagnostic r
             | _ \<Rightarrow> list_ex sc_navigation_available (ds_candidates d)));
          base_ok = (base \<and>
            (case dr_desired_mode r of
               DM_VRS_ONLY \<Rightarrow> False
             | DM_SINGLE_BASE_ONLY \<Rightarrow> True
             | DM_AUTO \<Rightarrow> admitted_any d \<and> list_ex sc_navigation_available (ds_candidates d) \<and>
                 pl_single_base_fallback_enabled policy \<and> dr_allow_fallback r))
      in if ds_target_ecef_m d = None then CM_NO_CORRECTION
         else if vrs_ok then CM_VRS else if base_ok then CM_SINGLE_BASE else CM_NO_CORRECTION)"

lemma outcome_modes [simp]:
  "cd_mode (no_correction cx code txt blockers warnings) = CM_NO_CORRECTION"
  "cd_mode (diagnostic_preview cx gate warnings blockers remark) = CM_NO_CORRECTION"
  "cd_mode (vrs_decision cx g status warnings) = CM_VRS"
  "cd_mode (single_decision cx sb txt warnings blockers fallback) = CM_SINGLE_BASE"
  by (simp_all add: no_correction_def diagnostic_preview_def vrs_decision_def single_decision_def decision_for_def)

lemma route_mode:
  "cd_mode (route cx sb gate) =
   mode_spec (cx_request cx) (cx_discovery cx) (cx_policy cx) (sb_available sb) (va_selectable gate)"
proof (cases "dr_desired_mode (cx_request cx)")
  case DM_AUTO
  then show ?thesis by (simp add: route_def mode_spec_def decide_auto_def Let_def)
next
  case DM_VRS_ONLY
  then show ?thesis by (simp add: route_def mode_spec_def decide_vrs_only_def Let_def)
next
  case DM_SINGLE_BASE_ONLY
  then show ?thesis by (simp add: route_def mode_spec_def decide_single_only_def Let_def)
qed

lemma decide_Inr:
  assumes "decide sha now r d network sb gate spatial vrs policy ts commit qs = Inr dec"
  obtains cx where "dec = route cx sb gate" "cx_request cx = r" "cx_discovery cx = d" "cx_policy cx = policy"
    "cx_network cx = network" "cx_fingerprint cx = decision_fingerprint sha r d spatial vrs policy"
    "map_of (cx_provenance cx) ''decision_fingerprint'' =
      Some (JStr (decision_fingerprint sha r d spatial vrs policy))"
    "map_of (cx_provenance cx) ''phase8_decision_fingerprint'' = None" "request_validate r = []"
proof -
  define timestamp where "timestamp = str_or ts now"
  have valid: "request_validate r = []"
    using assms by (auto simp: decide_def request_assert_valid_def Let_def split: if_splits)
  obtain prov where prov: "build_provenance sha r d spatial vrs policy timestamp commit = Inr prov"
    and dec: "dec = route
       \<lparr>cx_decision_id = decision_id sha (dr_request_id r) timestamp, cx_request = r,
        cx_timestamp = timestamp, cx_discovery = d, cx_network = network, cx_spatial = spatial,
        cx_vrs = vrs, cx_policy = policy,
        cx_provenance = obj_set prov ''decision_fingerprint''
          (JStr (decision_fingerprint sha r d spatial vrs policy)),
        cx_fingerprint = decision_fingerprint sha r d spatial vrs policy,
        cx_candidates = sort (map sc_station_id (ds_candidates d)),
        cx_qc_summary = (if qs \<noteq> [] then qs else qc_summary d)\<rparr> sb gate"
    using assms by (auto simp: decide_def Let_def timestamp_def)
  have "map_of prov ''phase8_decision_fingerprint'' = None"
    using prov by (auto simp: build_provenance_def)
  then show thesis by (intro that [OF dec]) (simp_all only: decision_context.simps map_of_obj_set valid, simp_all)
qed

lemma decide_total:
  assumes "request_validate r = []"
    and "list_all (\<lambda>c. hashable (sc_coordinate_frame c) = Inr () \<and> hashable (sc_coordinate_epoch c) = Inr ())
      (ds_candidates d)"
  shows "\<exists>dec. decide sha now r d network sb gate spatial vrs policy ts commit qs = Inr dec"
proof -
  have "map_result hashable (filter py_bool (map f (ds_candidates d))) = Inr (map (\<lambda>_. ()) (filter py_bool (map f (ds_candidates d))))"
    if "f = sc_coordinate_frame \<or> f = sc_coordinate_epoch" for f
    using assms(2) that by (intro map_result_total) (auto simp: list_all_iff)
  then show ?thesis
    using assms(1) by (simp add: decide_def request_assert_valid_def Let_def build_provenance_def common_value_def)
qed

text \<open>
  C8. Decisions fail closed and follow the priority. A decision is made only for a valid request; its
  mode is the specification's (VRS if selectable, else an allowed acceptable base, else none); a
  decision without correction is blocked in status and integrity and names no reference; a
  diagnostic request never gets another status than DIAGNOSTIC_ONLY; and integrity is PASS exactly
  for an OK decision without warnings.
\<close>

theorem decide_refines_spec:
  "case decide sha now r d network sb gate spatial vrs policy ts commit qs of
     Inl e \<Rightarrow> (\<exists>m. e = decision_blocked m) \<or> (\<exists>m. e = TypeError m)
   | Inr dec \<Rightarrow>
       request_validate r = [] \<and>
       cd_mode dec = mode_spec r d policy (sb_available sb) (va_selectable gate) \<and>
       (case cd_mode dec of
          CM_NO_CORRECTION \<Rightarrow> cd_status dec \<in> {DS_BLOCKED, DS_DIAGNOSTIC_ONLY} \<and>
            cd_integrity_status dec = IS_BLOCKED \<and> cd_selected_reference dec = None
        | CM_VRS \<Rightarrow> cd_reason_code dec = VRS_APPROVED \<and> cd_blockers dec = []
        | CM_SINGLE_BASE \<Rightarrow> cd_reason_code dec = SINGLE_BASE_SELECTED) \<and>
       (cd_status dec = DS_DIAGNOSTIC_ONLY \<longleftrightarrow> dr_diagnostic r) \<and>
       (cd_integrity_status dec = IS_PASS \<longleftrightarrow> cd_status dec = DS_OK \<and> cd_warnings dec = [])"
proof (cases "decide sha now r d network sb gate spatial vrs policy ts commit qs")
  case (Inl e)
  have "common_value vs = Inl e \<Longrightarrow> \<exists>m. e = TypeError m" for vs
    by (auto simp: common_value_def Let_def bind_result_eq_Inl hashable_def split: json.splits dest!: map_result_Inl)
  with Inl show ?thesis
    by (auto simp: decide_def Let_def bind_result_eq_Inl build_provenance_def request_assert_valid_def split: if_splits)
next
  case (Inr dec)
  from Inr obtain cx where "dec = route cx sb gate" "cx_request cx = r" "cx_discovery cx = d"
    "cx_policy cx = policy" "request_validate r = []" by (rule decide_Inr)
  with Inr any_route.made_fail_closed [of cx sb gate] route_mode [of cx sb gate] show ?thesis
    by (auto simp: fail_closed_def split: correction_mode.splits)
qed

section \<open>Evidence and handoff\<close>

lemma decide_mode:
  assumes "decide sha now r d network sb gate spatial vrs policy ts commit qs = Inr dec"
  shows "cd_mode dec = mode_spec r d policy (sb_available sb) (va_selectable gate)"
    and "cd_decision_fingerprint dec = decision_fingerprint sha r d spatial vrs policy"
proof -
  from assms obtain cx where cx: "dec = route cx sb gate" "cx_request cx = r" "cx_discovery cx = d"
    "cx_policy cx = policy" "cx_fingerprint cx = decision_fingerprint sha r d spatial vrs policy"
    by (rule decide_Inr)
  show "cd_mode dec = mode_spec r d policy (sb_available sb) (va_selectable gate)"
    using route_mode [of cx sb gate] by (simp add: cx)
  show "cd_decision_fingerprint dec = decision_fingerprint sha r d spatial vrs policy"
    using any_route.made_fail_closed [of cx sb gate] cx by (simp add: fail_closed_def)
qed

text \<open>
  A decision for a single base reports the assessment it was made from, its warnings included, and is
  OK only in the preferred band; a decision for VRS names the experiment of the gate.
\<close>

definition from_base :: "single_base_assessment \<Rightarrow> correction_decision \<Rightarrow> bool" where
  "from_base sb dec =
     (cd_mode dec \<noteq> CM_SINGLE_BASE \<or>
      sb_available sb \<and> cd_selected_reference dec = sb_selected_reference sb \<and>
      cd_distance_to_selected_reference_m dec = sb_distance_m sb \<and>
      set (sb_warnings sb) \<subseteq> set (cd_warnings dec) \<and>
      (cd_status dec \<noteq> DS_OK \<or> sb_distance_band sb \<notin> {''degraded'', ''maximum'', ''unknown''}))"

definition from_gate :: "vrs_assessment \<Rightarrow> correction_decision \<Rightarrow> bool" where
  "from_gate gate dec =
     (cd_mode dec \<noteq> CM_VRS \<or> cd_selected_vrs_experiment dec = va_experiment_id gate)"

lemma single_decision_from_base:
  assumes "sb_available sb"
  shows "from_base sb (single_decision cx sb txt (ws @ sb_warnings sb) blockers fallback)"
    and "from_base sb (single_decision cx sb txt (ws @ ws' @ sb_warnings sb) blockers fallback)"
  using assms by (auto simp: from_base_def single_decision_def decision_for_def single_status_of_def)

lemma outcome_from_base:
  "from_base sb (no_correction cx code txt blockers warnings)"
  "from_base sb (diagnostic_preview cx gate warnings blockers remark)"
  "from_base sb (vrs_decision cx g status warnings)"
  by (simp_all add: from_base_def)

lemma outcome_from_gate:
  "from_gate gate (no_correction cx code txt blockers warnings)"
  "from_gate gate (diagnostic_preview cx g warnings blockers remark)"
  "from_gate gate (vrs_decision cx gate status warnings)"
  "from_gate gate (single_decision cx sb txt warnings blockers fallback)"
  by (simp_all add: from_gate_def) (simp add: vrs_decision_def)

lemma route_from_base: "from_base sb (route cx sb gate)"
  unfolding route_def decide_auto_def decide_vrs_only_def decide_single_only_def Let_def
  by (cases "dr_desired_mode (cx_request cx)")
    (simp_all add: outcome_from_base single_decision_from_base)

lemma route_from_gate: "from_gate gate (route cx sb gate)"
  unfolding route_def decide_auto_def decide_vrs_only_def decide_single_only_def Let_def
  by (cases "dr_desired_mode (cx_request cx)") (simp_all add: outcome_from_gate)

lemma single_reference:
  assumes "decide sha now r d network sb gate spatial vrs policy ts commit qs = Inr dec"
    and "cd_mode dec = CM_SINGLE_BASE"
  shows "sb_available sb" "cd_selected_reference dec = sb_selected_reference sb"
    "cd_distance_to_selected_reference_m dec = sb_distance_m sb"
    "set (sb_warnings sb) \<subseteq> set (cd_warnings dec)"
    "cd_status dec = DS_OK \<Longrightarrow> sb_distance_band sb \<notin> {''degraded'', ''maximum'', ''unknown''}"
    "cd_integrity_status dec = IS_PASS \<Longrightarrow> cd_warnings dec = []"
proof -
  from assms(1) obtain cx where "dec = route cx sb gate" by (rule decide_Inr)
  with assms(2) route_from_base [of sb cx gate] any_route.made_fail_closed [of cx sb gate]
  show "sb_available sb" "cd_selected_reference dec = sb_selected_reference sb"
    "cd_distance_to_selected_reference_m dec = sb_distance_m sb"
    "set (sb_warnings sb) \<subseteq> set (cd_warnings dec)"
    "cd_status dec = DS_OK \<Longrightarrow> sb_distance_band sb \<notin> {''degraded'', ''maximum'', ''unknown''}"
    "cd_integrity_status dec = IS_PASS \<Longrightarrow> cd_warnings dec = []"
    by (simp_all add: from_base_def fail_closed_def)
qed

lemma vrs_experiment:
  assumes "decide sha now r d network sb gate spatial vrs policy ts commit qs = Inr dec"
    and "cd_mode dec = CM_VRS"
  shows "cd_selected_vrs_experiment dec = va_experiment_id gate" "cd_selected_reference dec = None"
proof -
  from assms(1) obtain cx where "dec = route cx sb gate" by (rule decide_Inr)
  with assms(2) route_from_gate [of gate cx sb] any_route.made_fail_closed [of cx sb gate]
  show "cd_selected_vrs_experiment dec = va_experiment_id gate" "cd_selected_reference dec = None"
    by (simp_all add: from_gate_def fail_closed_def)
qed

lemma decide_full_Inr:
  assumes "decide_full sha now r d spatial vrs policy q leak prov ts commit = Inr (dec, n, sb, g)"
  shows "n = assess_network d policy None True" "sb = assess_single_base d policy q"
    "g = assess_vrs n spatial vrs policy leak prov"
    "decide sha now r d n sb g spatial vrs policy ts commit [] = Inr dec"
  using assms by (auto simp: decide_full_def Let_def)

lemma available_base:
  assumes "sb_available (assess_single_base d policy q)"
  obtains c where "single_base_ok d q c"
    "sb_selected_reference (assess_single_base d policy q) = Some (sc_station_id c)"
    "sb_distance_m (assess_single_base d policy q) = sc_distance_m c"
    "sb_distance_band (assess_single_base d policy q) = band (pl_distance policy) (sc_distance_m c)"
    "band (pl_distance policy) (sc_distance_m c) \<noteq> ''beyond_maximum''"
    "sc_distance_m c \<noteq> None \<or>
      ungraded_warning c \<in> set (sb_warnings (assess_single_base d policy q))"
proof -
  from assms obtain c others where first: "ranked_survivors d q = c # others"
    and c: "sb_selected_reference (assess_single_base d policy q) = Some (sc_station_id c)"
    "sb_distance_m (assess_single_base d policy q) = sc_distance_m c"
    "sb_distance_band (assess_single_base d policy q) = band (pl_distance policy) (sc_distance_m c)"
    "band (pl_distance policy) (sc_distance_m c) \<noteq> ''beyond_maximum''"
    by (rule assess_single_base_selected)
  have "single_base_ok d q c" using first set_ranked_survivors [of d q] by auto
  then show thesis using assess_single_base_ungraded [OF first] by (intro that [OF _ c]) auto
qed

text \<open>
  The evidence behind a VRS decision: a usable network, the approvals the policy requires, the leakage
  assessed as passed, provenance, both fingerprints, and the experiment of the assessed capability.
\<close>

definition vrs_evidence ::
  "discovery_result \<Rightarrow> decision_policy \<Rightarrow> spatial_assessment \<Rightarrow> vrs_capability \<Rightarrow> bool option \<Rightarrow> bool \<Rightarrow>
   correction_decision \<Rightarrow> bool" where
  "vrs_evidence d policy spatial vrs leak prov dec =
     (usable_network d policy \<and>
      (if pl_require_approved_spatial_model_for_vrs policy then sa_validation_status spatial = SM_APPROVED else True) \<and>
      (if pl_require_approved_vrs_for_vrs policy then vc_status vrs = VS_APPROVED else True) \<and>
      resolve_leakage vrs leak = Some True \<and> prov \<and> sa_fingerprint spatial \<noteq> [] \<and> vc_fingerprint vrs \<noteq> [] \<and>
      cd_selected_vrs_experiment dec = some_nonempty (vc_experiment_id vrs))"

text \<open>
  The evidence behind a single base: an acceptable candidate, reported with its distance. A known
  distance is inside a band of the policy (inside the maximum when the policy is valid), inside the
  preferred one if the status is OK; an unknown distance is warned about, never OK and never PASS.
\<close>

definition base_evidence ::
  "discovery_result \<Rightarrow> decision_policy \<Rightarrow> single_qc option \<Rightarrow> correction_decision \<Rightarrow> station_candidate \<Rightarrow> bool" where
  "base_evidence d policy q dec c =
     (single_base_ok d q c \<and> cd_selected_reference dec = Some (sc_station_id c) \<and>
      cd_distance_to_selected_reference_m dec = sc_distance_m c \<and>
      (case sc_distance_m c of
         Some x \<Rightarrow>
           (f_le x (dp_preferred_max_m (pl_distance policy)) \<or>
            f_le x (dp_degraded_max_m (pl_distance policy)) \<or>
            f_le x (dp_maximum_allowed_m (pl_distance policy))) \<and>
           (if policy_validate policy = [] then f_le x (dp_maximum_allowed_m (pl_distance policy)) else True) \<and>
           (if cd_status dec = DS_OK then f_le x (dp_preferred_max_m (pl_distance policy)) else True)
       | None \<Rightarrow>
           ungraded_warning c \<in> set (cd_warnings dec) \<and> cd_status dec \<noteq> DS_OK \<and>
           cd_integrity_status dec \<noteq> IS_PASS))"

lemma band_inside:
  assumes "band (pl_distance policy) (Some x) \<noteq> ''beyond_maximum''"
  shows "f_le x (dp_preferred_max_m (pl_distance policy)) \<or> f_le x (dp_degraded_max_m (pl_distance policy)) \<or>
      f_le x (dp_maximum_allowed_m (pl_distance policy))"
    and "policy_validate policy = [] \<Longrightarrow> f_le x (dp_maximum_allowed_m (pl_distance policy))"
proof -
  show inside: "f_le x (dp_preferred_max_m (pl_distance policy)) \<or> f_le x (dp_degraded_max_m (pl_distance policy)) \<or>
      f_le x (dp_maximum_allowed_m (pl_distance policy))"
    using assms by (simp add: band_def split: if_splits)
  show "f_le x (dp_maximum_allowed_m (pl_distance policy))" if "policy_validate policy = []"
    using inside policy_valid_facts(2,3) [OF that] f_le_trans by blast
qed

lemma decide_full_vrs:
  assumes "decide_full sha now r d spatial vrs policy q leak prov ts commit = Inr (dec, n, sb, g)"
    and "cd_mode dec = CM_VRS"
  shows "vrs_evidence d policy spatial vrs leak prov dec"
proof -
  note full = decide_full_Inr [OF assms(1)]
  have "va_selectable g"
    using decide_mode(1) [OF full(4)] assms(2) by (auto simp: mode_spec_def Let_def split: if_splits)
  moreover have "cd_selected_vrs_experiment dec = some_nonempty (vc_experiment_id vrs)"
    using vrs_experiment(1) [OF full(4) assms(2)] full(3) by (simp add: assess_vrs_experiment)
  ultimately show ?thesis
    using full(1,3) assess_vrs_selectable [of n spatial vrs policy leak prov] assess_network_usable [of d policy]
    by (simp add: vrs_evidence_def)
qed

lemma decide_full_base:
  assumes "decide_full sha now r d spatial vrs policy q leak prov ts commit = Inr (dec, n, sb, g)"
    and "cd_mode dec = CM_SINGLE_BASE"
  shows "\<exists>c. base_evidence d policy q dec c"
proof -
  note full = decide_full_Inr [OF assms(1)]
  note ref = single_reference [OF full(4) assms(2), unfolded full(2)]
  from ref(1) obtain c where c: "single_base_ok d q c"
    "sb_selected_reference (assess_single_base d policy q) = Some (sc_station_id c)"
    "sb_distance_m (assess_single_base d policy q) = sc_distance_m c"
    "sb_distance_band (assess_single_base d policy q) = band (pl_distance policy) (sc_distance_m c)"
    "band (pl_distance policy) (sc_distance_m c) \<noteq> ''beyond_maximum''"
    "sc_distance_m c \<noteq> None \<or>
      ungraded_warning c \<in> set (sb_warnings (assess_single_base d policy q))"
    by (rule available_base)
  have "base_evidence d policy q dec c"
  proof (cases "sc_distance_m c")
    case None
    have "ungraded_warning c \<in> set (cd_warnings dec)" using c(6) None ref(4) by auto
    moreover have "cd_status dec \<noteq> DS_OK" using ref(5) c(4) None by (auto simp: band_def)
    moreover have "cd_integrity_status dec \<noteq> IS_PASS" using ref(6) calculation(1) by auto
    ultimately show ?thesis using None c ref(2,3) by (simp add: base_evidence_def)
  next
    case (Some x)
    have "f_le x (dp_preferred_max_m (pl_distance policy))" if "cd_status dec = DS_OK"
      using ref(5) [OF that] c(4,5) Some by (auto simp: band_def split: if_splits)
    then show ?thesis
      using Some c ref(2,3) band_inside [of policy x] by (simp add: base_evidence_def)
  qed
  then show ?thesis ..
qed

text \<open>
  C2. Every correction rests on evidence. When the whole engine decides for VRS, the network is usable,
  the spatial model and the VRS are approved where the policy requires it, the leakage was assessed as
  passed, provenance and both fingerprints are there, the named experiment is the assessed one, and a
  single base was not what was asked for. When it decides for a single base, the selected reference is
  a candidate other than the target, of status ACCEPT, with navigation, verified coordinate and common
  interval, at the reported distance; a known distance is within the bands of the policy, within the
  maximum of a valid policy, and within the preferred band if the status is OK; an unknown distance is
  warned about and gets neither status OK nor integrity PASS.
\<close>

theorem correction_has_evidence:
  "case decide_full sha now r d spatial vrs policy q leak prov ts commit of
     Inl e \<Rightarrow> True
   | Inr (dec, n, sb, g) \<Rightarrow>
       (case cd_mode dec of
          CM_VRS \<Rightarrow>
            vrs_evidence d policy spatial vrs leak prov dec \<and> dr_desired_mode r \<noteq> DM_SINGLE_BASE_ONLY
        | CM_SINGLE_BASE \<Rightarrow>
            (\<exists>c. base_evidence d policy q dec c) \<and>
            dr_desired_mode r \<noteq> DM_VRS_ONLY \<and> ds_target_ecef_m d \<noteq> None
        | CM_NO_CORRECTION \<Rightarrow> cd_selected_reference dec = None)"
proof (cases "decide_full sha now r d spatial vrs policy q leak prov ts commit")
  case (Inr res)
  obtain dec n sb g where res: "res = (dec, n, sb, g)" by (cases res)
  note run = Inr [unfolded res]
  note full = decide_full_Inr [OF run]
  note mode = decide_mode(1) [OF full(4)]
  show ?thesis
  proof (cases "cd_mode dec")
    case CM_VRS
    then have "dr_desired_mode r \<noteq> DM_SINGLE_BASE_ONLY"
      using mode by (auto simp: mode_spec_def Let_def split: if_splits)
    then show ?thesis using CM_VRS Inr res decide_full_vrs [OF run CM_VRS] by simp
  next
    case CM_SINGLE_BASE
    then have "dr_desired_mode r \<noteq> DM_VRS_ONLY" "ds_target_ecef_m d \<noteq> None"
      using mode by (auto simp: mode_spec_def Let_def split: if_splits)
    then show ?thesis using CM_SINGLE_BASE Inr res decide_full_base [OF run CM_SINGLE_BASE] by simp
  next
    case CM_NO_CORRECTION
    from full(4) obtain cx where "dec = route cx sb g" by (rule decide_Inr)
    with CM_NO_CORRECTION Inr res any_route.made_fail_closed [of cx sb g] show ?thesis
      by (simp add: fail_closed_def)
  qed
qed simp








end
