(* ===== verification/Py_Text.thy ===== *)
theory Py_Text
  imports Py_Convert
begin

text \<open>
  The string methods of Python that the live-ingestion code applies to text received from a caster
  or from the environment: searching, replacing, splitting into lines, words and fields, lower case,
  prefixes and suffixes to strip. A \<open>str\<close> decoded from Latin-1 is a character list, so these agree
  with Python on all 256 characters except for the case mapping, which is the ASCII one.
\<close>

section \<open>Searching and replacing\<close>

text \<open>\<open>s.find(p)\<close>, with \<open>None\<close> for \<open>-1\<close>, on text and on bytes.\<close>

fun find_sub :: "'a list \<Rightarrow> 'a list \<Rightarrow> nat option" where
  "find_sub p [] = (if p = [] then Some 0 else None)"
| "find_sub p (c # cs) =
     (if take (length p) (c # cs) = p then Some 0 else map_option Suc (find_sub p cs))"

text \<open>\<open>s.replace(old, new)\<close> for a non-empty \<open>old\<close>: left to right, without overlaps.\<close>

function str_replace :: "string \<Rightarrow> string \<Rightarrow> string \<Rightarrow> string" where
  "str_replace old new s =
     (if old = [] \<or> s = [] then s
      else if take (length old) s = old then new @ str_replace old new (drop (length old) s)
      else hd s # str_replace old new (drop 1 s))"
  by pat_completeness auto
termination by (relation "measure (\<lambda>(old, new, s). length s)") auto

declare str_replace.simps [simp del]

lemma str_replace_Nil [simp]: "str_replace old new [] = []"
  by (subst str_replace.simps) simp

lemma find_sub_Some:
  "find_sub p s = Some i \<Longrightarrow> i + length p \<le> length s \<and> take (length p) (drop i s) = p"
proof (induction p s arbitrary: i rule: find_sub.induct)
  case (2 p c cs)
  show ?case
  proof (cases "take (length p) (c # cs) = p")
    case True
    then have "length p \<le> length (c # cs)" by (metis length_take min.absorb_iff2 nat_le_linear take_all)
    with True 2(2) show ?thesis by auto
  next
    case False
    with 2 show ?thesis by auto
  qed
qed (auto split: if_splits)

lemma find_sub_None_iff: "find_sub p s = None \<longleftrightarrow> \<not> (\<exists>u v. s = u @ p @ v)"
proof (induction p s rule: find_sub.induct)
  case (2 p c cs)
  have step: "(\<exists>u v. c # cs = u @ p @ v) \<longleftrightarrow> (\<exists>v. c # cs = p @ v) \<or> (\<exists>u v. cs = u @ p @ v)"
    by (metis Cons_eq_append_conv append_Cons append_self_conv2)
  have head: "(\<exists>v. c # cs = p @ v) \<longleftrightarrow> take (length p) (c # cs) = p"
    by (metis append_eq_conv_conj append_take_drop_id)
  show ?case using 2 step head by (cases "take (length p) (c # cs) = p") auto
qed auto

section \<open>Splitting\<close>

text \<open>\<open>s.splitlines()\<close>: the line boundaries of Python within Latin-1, with CR LF as one.\<close>

definition is_line_break :: "char \<Rightarrow> bool" where
  "is_line_break c =
     (let n = of_char c :: nat in (10 \<le> n \<and> n \<le> 13) \<or> (28 \<le> n \<and> n \<le> 30) \<or> n = 133)"

function split_lines :: "string \<Rightarrow> string list" where
  "split_lines [] = []"
| "split_lines (c # cs) =
     (if is_line_break c
      then [] # split_lines (if c = CHR 0x0D \<and> take 1 cs = [CHR 0x0A] then drop 1 cs else cs)
      else case split_lines cs of [] \<Rightarrow> [[c]] | l # ls \<Rightarrow> (c # l) # ls)"
  by pat_completeness auto
termination by (relation "measure length") auto

declare split_lines.simps(2) [simp del]

text \<open>\<open>s.split(sep)\<close> for one separator character, and \<open>s.split(None, n)\<close>.\<close>

fun split_on :: "char \<Rightarrow> string \<Rightarrow> string list" where
  "split_on sep [] = [[]]"
| "split_on sep (c # cs) =
     (if c = sep then [] # split_on sep cs
      else case split_on sep cs of [] \<Rightarrow> [[c]] | f # fs \<Rightarrow> (c # f) # fs)"

fun split_words :: "nat \<Rightarrow> string \<Rightarrow> string list" where
  "split_words 0 s = (let t = dropWhile is_space s in if t = [] then [] else [t])"
| "split_words (Suc n) s =
     (let t = dropWhile is_space s in
      if t = [] then []
      else takeWhile (\<lambda>c. \<not> is_space c) t # split_words n (dropWhile (\<lambda>c. \<not> is_space c) t))"

section \<open>Case and stripping\<close>

definition ascii_lower :: "char \<Rightarrow> char" where
  "ascii_lower c = (let n = of_char c :: nat in if 65 \<le> n \<and> n \<le> 90 then char_of (n + 32) else c)"

definition str_lower :: "string \<Rightarrow> string" where
  "str_lower = map ascii_lower"

text \<open>\<open>s.lstrip(chars)\<close> and \<open>s.strip(chars)\<close>\<close>

definition lstrip_chars :: "string \<Rightarrow> string \<Rightarrow> string" where
  "lstrip_chars cs s = dropWhile (\<lambda>c. c \<in> set cs) s"

definition strip_chars :: "string \<Rightarrow> string \<Rightarrow> string" where
  "strip_chars cs s = rev (dropWhile (\<lambda>c. c \<in> set cs) (rev (dropWhile (\<lambda>c. c \<in> set cs) s)))"

text \<open>\<open>data.decode("latin-1")\<close>: every byte is the character of its number.\<close>

definition decode_latin1 :: "bytes \<Rightarrow> string" where
  "decode_latin1 = map (\<lambda>b. char_of (unat b))"

text \<open>\<open>s.isascii()\<close> and \<open>c.isalpha()\<close> on ASCII, as a URL scheme uses them.\<close>

definition is_ascii_alpha :: "char \<Rightarrow> bool" where
  "is_ascii_alpha c = (let n = of_char c :: nat in (65 \<le> n \<and> n \<le> 90) \<or> (97 \<le> n \<and> n \<le> 122))"

lemma set_dropWhileD: "x \<in> set (dropWhile P s) \<Longrightarrow> x \<in> set s"
  by (metis dropWhile_append1 set_dropWhileD)

lemma strip_chars_set: "set (strip_chars cs s) \<subseteq> set s"
  by (auto simp: strip_chars_def dest!: set_dropWhileD)

lemma strip_chars_hd:
  assumes "strip_chars cs s \<noteq> []" shows "hd (strip_chars cs s) \<notin> set cs"
proof -
  let ?a = "dropWhile (\<lambda>c. c \<in> set cs) s"
  let ?r = "dropWhile (\<lambda>c. c \<in> set cs) (rev ?a)"
  have ne: "?r \<noteq> []" using assms by (simp add: strip_chars_def)
  obtain p where "rev ?a = p @ ?r" by (metis takeWhile_dropWhile_id)
  then have a: "?a = rev ?r @ rev p" by (metis rev_append rev_rev_ident)
  then have "hd (rev ?r) = hd ?a" using ne by (metis hd_append2 rev_is_Nil_conv)
  moreover have "?a \<noteq> []" using a ne by (metis append_is_Nil_conv rev_is_Nil_conv)
  moreover from this have "hd ?a \<notin> set cs" by (rule hd_dropWhile)
  ultimately show ?thesis by (metis strip_chars_def)
qed

end
