(* ===== verification/Ntrip_Models.thy ===== *)
theory Ntrip_Models
  imports Py_Text
begin

text \<open>
  The typed models of live ingestion (\<open>ntrip_ingestion/models.py\<close>): connection states, admission and
  failure classes, the client configuration with its validation, its reading from the environment
  and its redacted rendering, and the records of admission, arrival, live frames, metrics and capture
  metadata with their \<open>as_dict\<close> renderings.
\<close>

section \<open>Enumerations\<close>

datatype connection_state =
    CS_DISCONNECTED | CS_CONNECTING | CS_AUTHENTICATING | CS_STREAMING | CS_DEGRADED |
  CS_RECONNECTING | CS_STOPPED | CS_BLOCKED

fun connection_state_str :: "connection_state \<Rightarrow> string" where
  "connection_state_str CS_DISCONNECTED = ''DISCONNECTED''"
| "connection_state_str CS_CONNECTING = ''CONNECTING''"
| "connection_state_str CS_AUTHENTICATING = ''AUTHENTICATING''"
| "connection_state_str CS_STREAMING = ''STREAMING''"
| "connection_state_str CS_DEGRADED = ''DEGRADED''"
| "connection_state_str CS_RECONNECTING = ''RECONNECTING''"
| "connection_state_str CS_STOPPED = ''STOPPED''"
| "connection_state_str CS_BLOCKED = ''BLOCKED''"

datatype admission_status =
    AS_ACCEPT | AS_WARN | AS_REJECT | AS_BLOCKED

fun admission_status_str :: "admission_status \<Rightarrow> string" where
  "admission_status_str AS_ACCEPT = ''ACCEPT''"
| "admission_status_str AS_WARN = ''WARN''"
| "admission_status_str AS_REJECT = ''REJECT''"
| "admission_status_str AS_BLOCKED = ''BLOCKED''"

datatype failure_class =
    FC_AUTH_FAILURE | FC_MOUNTPOINT_NOT_FOUND | FC_AUTHORIZATION_REJECTED |
  FC_CONFIG_INVALID | FC_PROTOCOL_ERROR | FC_WRONG_CONTENT | FC_EMPTY_RESPONSE |
  FC_TIMEOUT | FC_STALLED | FC_CONNECTION_LOST | FC_NMEA_POSITION_REQUIRED |
  FC_STATION_IDENTITY_UNVERIFIED

definition TERMINAL_FAILURES :: "failure_class list" where
  "TERMINAL_FAILURES =
     [FC_AUTH_FAILURE, FC_MOUNTPOINT_NOT_FOUND, FC_AUTHORIZATION_REJECTED, FC_CONFIG_INVALID]"

definition STATION_IDENTITY_UNVERIFIED :: string where
  "STATION_IDENTITY_UNVERIFIED = ''STATION_IDENTITY_UNVERIFIED''"

definition DEFAULT_NTRIP_PORT :: int where "DEFAULT_NTRIP_PORT = 2101"

definition DEFAULT_USER_AGENT :: string where "DEFAULT_USER_AGENT = ''NLGCP-Phase10/1.0''"

section \<open>Values in dictionaries\<close>

definition counts_json :: "(string \<times> nat) list \<Rightarrow> json" where
  "counts_json cs = JObj (map (\<lambda>(k, n). (k, JInt (int n))) cs)"

section \<open>URLs\<close>

text \<open>
  What the configuration uses of \<open>urllib.parse.urlsplit\<close>: the scheme, the host name and the port. A
  bracketed host is taken for a valid address literal.
\<close>

definition url_clean :: "string \<Rightarrow> string" where
  "url_clean url =
     filter (\<lambda>c. c \<notin> {CHR 0x09, CHR 0x0A, CHR 0x0D}) (dropWhile (\<lambda>c. (of_char c :: nat) \<le> 32) url)"

definition is_scheme_char :: "char \<Rightarrow> bool" where
  "is_scheme_char c \<longleftrightarrow> is_ascii_alpha c \<or> is_digit c \<or> c \<in> set ''+-.''"

definition url_scheme_rest :: "string \<Rightarrow> string \<times> string" where
  "url_scheme_rest url =
     (let u = url_clean url; pre = takeWhile (\<lambda>c. c \<noteq> CHR '':'') u in
      if pre \<noteq> u \<and> pre \<noteq> [] \<and> is_ascii_alpha (hd pre) \<and> list_all is_scheme_char pre
      then (str_lower pre, drop (length pre + 1) u) else ([], u))"

definition url_netloc :: "string \<Rightarrow> string" where
  "url_netloc rest =
     (if starts_with ''//'' rest then takeWhile (\<lambda>c. c \<notin> set ''/?#'') (drop 2 rest) else [])"

text \<open>\<open>(scheme, netloc)\<close>; unbalanced brackets raise.\<close>

definition url_split :: "string \<Rightarrow> (string \<times> string) result" where
  "url_split url =
     (case url_scheme_rest url of (scheme, rest) \<Rightarrow>
        let netloc = url_netloc rest in
        if (CHR ''['' \<in> set netloc) \<noteq> (CHR '']'' \<in> set netloc)
        then Inl (ValueError ''Invalid IPv6 URL'') else Inr (scheme, netloc))"

definition str_before :: "char \<Rightarrow> string \<Rightarrow> string" where
  "str_before c s = takeWhile (\<lambda>x. x \<noteq> c) s"

definition str_after :: "char \<Rightarrow> string \<Rightarrow> string" where
  "str_after c s = drop 1 (dropWhile (\<lambda>x. x \<noteq> c) s)"

definition str_after_last :: "char \<Rightarrow> string \<Rightarrow> string" where
  "str_after_last c s = rev (takeWhile (\<lambda>x. x \<noteq> c) (rev s))"

definition url_hostinfo :: "string \<Rightarrow> string \<times> string" where
  "url_hostinfo netloc =
     (let hostinfo = str_after_last (CHR ''@'') netloc in
      if CHR ''['' \<in> set hostinfo then
        let bracketed = str_after (CHR ''['') hostinfo
        in (str_before (CHR '']'') bracketed, str_after (CHR '':'') (str_after (CHR '']'') bracketed))
      else (str_before (CHR '':'') hostinfo, str_after (CHR '':'') hostinfo))"

definition url_hostname :: "string \<Rightarrow> string" where
  "url_hostname netloc =
     (let h = fst (url_hostinfo netloc); n = str_before (CHR ''%'') h
      in str_lower n @ drop (length n) h)"

text \<open>\<open>parsed.port\<close>, with \<open>None\<close> also where the property raises \<open>ValueError\<close>.\<close>

definition url_port :: "string \<Rightarrow> int option" where
  "url_port netloc =
     (let p = snd (url_hostinfo netloc) in
      if p = [] \<or> \<not> list_all is_digit p then None
      else case int_of_text p of
        Inl e \<Rightarrow> None
      | Inr n \<Rightarrow> if 0 \<le> n \<and> n \<le> 65535 then Some n else None)"

section \<open>Configuration\<close>

record ntrip_config =
  nc_host :: string
  nc_port :: int
  nc_mountpoint :: string
  nc_username :: string
  nc_password :: string
  nc_use_tls :: bool
  nc_user_agent :: string
  nc_gga_sentence :: string
  nc_dial_timeout_s :: pyfloat
  nc_tls_timeout_s :: pyfloat
  nc_handshake_timeout_s :: pyfloat
  nc_read_timeout_s :: pyfloat
  nc_idle_timeout_s :: pyfloat
  nc_max_reconnects :: int
  nc_reconnect_base_delay_s :: pyfloat
  nc_reconnect_max_delay_s :: pyfloat
  nc_buffer_capacity :: int
  nc_max_frame_length :: int
  nc_max_header_bytes :: int
  nc_max_sourcetable_bytes :: int
  nc_max_capture_bytes :: int
  nc_max_capture_seconds :: pyfloat
  nc_max_capture_frames :: int
  nc_min_free_disk_bytes :: int
  nc_max_capture_rotations :: int
  nc_log_level :: string
  nc_metrics_enabled :: bool
  nc_nats_url :: string
  nc_nats_subject_prefix :: string
  nc_allow_insecure_tls :: bool

definition default_ntrip_config :: ntrip_config where
  "default_ntrip_config =
     \<lparr>nc_host = [], nc_port = DEFAULT_NTRIP_PORT, nc_mountpoint = [], nc_username = [],
      nc_password = [], nc_use_tls = False, nc_user_agent = DEFAULT_USER_AGENT, nc_gga_sentence
      = [], nc_dial_timeout_s = PFin 5, nc_tls_timeout_s = PFin 5, nc_handshake_timeout_s =
      PFin 10, nc_read_timeout_s = PFin 10, nc_idle_timeout_s = PFin 30, nc_max_reconnects = 8,
      nc_reconnect_base_delay_s = PFin 1, nc_reconnect_max_delay_s = PFin 30,
      nc_buffer_capacity = 64, nc_max_frame_length = 1023, nc_max_header_bytes = 8192,
      nc_max_sourcetable_bytes = 65536, nc_max_capture_bytes = 64 * 1024 * 1024,
      nc_max_capture_seconds = PFin 60, nc_max_capture_frames = 0, nc_min_free_disk_bytes = 0,
      nc_max_capture_rotations = 0, nc_log_level = ''INFO'', nc_metrics_enabled = True,
      nc_nats_url = [], nc_nats_subject_prefix = ''correction.live'', nc_allow_insecure_tls =
      False\<rparr>"

definition REDACTED :: string where "REDACTED = ''***REDACTED***''"

text \<open>The three values that \<open>as_dict_redacted\<close> replaces.\<close>

definition redacted_value :: "string \<Rightarrow> string" where
  "redacted_value s = (if s \<noteq> [] then REDACTED else [])"

definition redacted_nats_url :: "string \<Rightarrow> string result" where
  "redacted_nats_url url =
     (if url = [] then Inr []
      else bind_result (url_split url) (\<lambda>(scheme, netloc).
        Inr (scheme @ ''://'' @ REDACTED @ ''@'' @ url_hostname netloc @
          (case url_port netloc of
             None \<Rightarrow> []
           | Some p \<Rightarrow> if p \<noteq> 0 then '':'' @ str_int p else []))))"

text \<open>\<open>asdict(self)\<close> with the values of three keys given.\<close>

definition config_fields :: "string \<Rightarrow> string \<Rightarrow> string \<Rightarrow> ntrip_config \<Rightarrow> (string \<times> json) list" where
  "config_fields username password nats_url c =
     [(''host'', JStr (nc_host c)),
      (''port'', JInt (nc_port c)),
      (''mountpoint'', JStr (nc_mountpoint c)),
      (''username'', JStr username),
      (''password'', JStr password),
      (''use_tls'', JBool (nc_use_tls c)),
      (''user_agent'', JStr (nc_user_agent c)),
      (''gga_sentence'', JStr (nc_gga_sentence c)),
      (''dial_timeout_s'', JFloat (nc_dial_timeout_s c)),
      (''tls_timeout_s'', JFloat (nc_tls_timeout_s c)),
      (''handshake_timeout_s'', JFloat (nc_handshake_timeout_s c)),
      (''read_timeout_s'', JFloat (nc_read_timeout_s c)),
      (''idle_timeout_s'', JFloat (nc_idle_timeout_s c)),
      (''max_reconnects'', JInt (nc_max_reconnects c)),
      (''reconnect_base_delay_s'', JFloat (nc_reconnect_base_delay_s c)),
      (''reconnect_max_delay_s'', JFloat (nc_reconnect_max_delay_s c)),
      (''buffer_capacity'', JInt (nc_buffer_capacity c)),
      (''max_frame_length'', JInt (nc_max_frame_length c)),
      (''max_header_bytes'', JInt (nc_max_header_bytes c)),
      (''max_sourcetable_bytes'', JInt (nc_max_sourcetable_bytes c)),
      (''max_capture_bytes'', JInt (nc_max_capture_bytes c)),
      (''max_capture_seconds'', JFloat (nc_max_capture_seconds c)),
      (''max_capture_frames'', JInt (nc_max_capture_frames c)),
      (''min_free_disk_bytes'', JInt (nc_min_free_disk_bytes c)),
      (''max_capture_rotations'', JInt (nc_max_capture_rotations c)),
      (''log_level'', JStr (nc_log_level c)),
      (''metrics_enabled'', JBool (nc_metrics_enabled c)),
      (''nats_url'', JStr nats_url),
      (''nats_subject_prefix'', JStr (nc_nats_subject_prefix c)),
      (''allow_insecure_tls'', JBool (nc_allow_insecure_tls c))]"

definition config_as_dict_redacted :: "ntrip_config \<Rightarrow> (string \<times> json) list result" where
  "config_as_dict_redacted c =
     bind_result (redacted_nats_url (nc_nats_url c)) (\<lambda>url.
       Inr (config_fields (redacted_value (nc_username c)) (redacted_value (nc_password c)) url c))"

text \<open>\<open>problems.append(msg)\<close> under a condition.\<close>

definition problem_if :: "bool \<Rightarrow> string \<Rightarrow> string list" where
  "problem_if b msg = (if b then [msg] else [])"

definition has_any_char :: "string \<Rightarrow> string \<Rightarrow> bool" where
  "has_any_char cs s = list_ex (\<lambda>c. c \<in> set cs) s"

definition has_space :: "string \<Rightarrow> bool" where
  "has_space s = list_ex is_space s"

definition endpoint_problems :: "ntrip_config \<Rightarrow> string list" where
  "endpoint_problems c =
     (if nc_host c = [] then [''host must be non-empty'']
      else problem_if (has_any_char ''/@'' (nc_host c) \<or> has_space (nc_host c))
             ''host must be a hostname, not a URL or credential-bearing value'') @
     problem_if (nc_port c < 1 \<or> 65535 < nc_port c) (''port out of range: '' @ str_int (nc_port c)) @
     (if nc_mountpoint c = [] \<or> nc_mountpoint c = ''/'' then [''mountpoint must be non-empty'']
      else problem_if (has_space (nc_mountpoint c) \<or> has_any_char ''?#@'' (nc_mountpoint c))
             ''mountpoint contains unsafe characters'') @
     problem_if (starts_with ''/'' (nc_mountpoint c) \<and> length (nc_mountpoint c) < 2)
       ''mountpoint must name a stream''"

definition limit_problems :: "ntrip_config \<Rightarrow> string list" where
  "limit_problems c =
     concat (map (\<lambda>(name, v). problem_if (f_le v f_zero) (name @ '' must be > 0''))
       [(''dial_timeout_s'', nc_dial_timeout_s c), (''tls_timeout_s'', nc_tls_timeout_s c),
        (''handshake_timeout_s'', nc_handshake_timeout_s c), (''read_timeout_s'', nc_read_timeout_s c),
        (''idle_timeout_s'', nc_idle_timeout_s c)]) @
     problem_if (nc_max_reconnects c < 0) ''max_reconnects must be >= 0'' @
     problem_if (f_le (nc_reconnect_base_delay_s c) f_zero \<or> f_le (nc_reconnect_max_delay_s c) f_zero)
       ''reconnect delays must be > 0'' @
     problem_if (nc_buffer_capacity c < 1) ''buffer_capacity must be >= 1'' @
     problem_if (nc_max_frame_length c < 1 \<or> 1023 < nc_max_frame_length c)
       ''max_frame_length must be within 1..1023'' @
     problem_if (nc_max_capture_bytes c < 1) ''max_capture_bytes must be >= 1'' @
     problem_if (f_le (nc_max_capture_seconds c) f_zero) ''max_capture_seconds must be > 0'' @
     problem_if (nc_max_capture_frames c < 0) ''max_capture_frames must be >= 0'' @
     problem_if (nc_min_free_disk_bytes c < 0) ''min_free_disk_bytes must be >= 0'' @
     problem_if (nc_max_capture_rotations c < 0) ''max_capture_rotations must be >= 0'' @
     problem_if (str_upper (nc_log_level c) \<notin> {''DEBUG'', ''INFO'', ''WARNING'', ''ERROR''})
       ''log_level must be DEBUG, INFO, WARNING, or ERROR''"

definition nats_problems :: "ntrip_config \<Rightarrow> string list result" where
  "nats_problems c =
     (if nc_nats_url c = [] then Inr []
      else bind_result (url_split (nc_nats_url c)) (\<lambda>(scheme, netloc).
        Inr (problem_if (scheme \<notin> {''nats'', ''tls''}) ''nats_url must use nats:// or tls://'')))"

definition ntrip_validate :: "ntrip_config \<Rightarrow> string list result" where
  "ntrip_validate c =
     bind_result (nats_problems c) (\<lambda>nats.
       Inr (endpoint_problems c @ limit_problems c @ nats @
            problem_if (nc_nats_subject_prefix c = []) ''nats_subject_prefix must be non-empty''))"

lemma problem_if_Nil [simp]: "problem_if b m = [] \<longleftrightarrow> \<not> b"
  by (simp add: problem_if_def)

lemma ntrip_valid_bounds:
  assumes "ntrip_validate c = Inr []"
  shows "nc_host c \<noteq> []" "nc_mountpoint c \<noteq> []" "1 \<le> nc_port c \<and> nc_port c \<le> 65535"
    "0 \<le> nc_max_reconnects c" "1 \<le> nc_buffer_capacity c"
    "1 \<le> nc_max_frame_length c \<and> nc_max_frame_length c \<le> 1023" "1 \<le> nc_max_capture_bytes c"
  using assms
  by (auto simp: ntrip_validate_def endpoint_problems_def limit_problems_def split: if_splits)

section \<open>Configuration from the environment\<close>

definition env_int :: "(string \<times> string) list \<Rightarrow> string \<Rightarrow> int \<Rightarrow> int result" where
  "env_int env key dflt =
     (case bind_result (float_of_text (obj_get env key (str_int dflt))) f_to_int of
        Inl (ValueError m) \<Rightarrow> Inr dflt
      | r \<Rightarrow> r)"

definition env_flag :: "string \<Rightarrow> bool" where
  "env_flag raw \<longleftrightarrow> str_lower (str_strip raw) \<in> {''1'', ''true'', ''yes'', ''on''}"

definition config_from_env :: "(string \<times> string) list \<Rightarrow> ntrip_config result" where
  "config_from_env env =
     bind_result (env_int env ''NLGCP_NTRIP_PORT'' DEFAULT_NTRIP_PORT) (\<lambda>port.
     bind_result (env_int env ''NLGCP_NTRIP_MAX_CAPTURE_FRAMES'' 0) (\<lambda>frames.
     bind_result (env_int env ''NLGCP_NTRIP_MIN_FREE_DISK_BYTES'' 0) (\<lambda>disk.
     bind_result (env_int env ''NLGCP_NTRIP_MAX_CAPTURE_ROTATIONS'' 0) (\<lambda>rotations.
       Inr (default_ntrip_config
         \<lparr>nc_host := str_strip (obj_get env ''NLGCP_NTRIP_HOST'' []),
          nc_port := port,
          nc_mountpoint := str_strip (obj_get env ''NLGCP_NTRIP_MOUNTPOINT'' []),
          nc_username := obj_get env ''NLGCP_NTRIP_USERNAME'' [],
          nc_password := obj_get env ''NLGCP_NTRIP_PASSWORD'' [],
          nc_use_tls := env_flag (obj_get env ''NLGCP_NTRIP_TLS'' []),
          nc_user_agent := obj_get env ''NLGCP_NTRIP_USER_AGENT'' DEFAULT_USER_AGENT,
          nc_gga_sentence := obj_get env ''NLGCP_NTRIP_GGA'' [],
          nc_max_capture_frames := frames,
          nc_min_free_disk_bytes := disk,
          nc_max_capture_rotations := rotations,
          nc_log_level := str_upper (str_strip (obj_get env ''NLGCP_INGESTOR_LOG_LEVEL'' ''INFO'')),
          nc_metrics_enabled := env_flag (obj_get env ''NLGCP_INGESTOR_METRICS'' ''true''),
          nc_nats_url := str_strip (obj_get env ''NLGCP_NATS_URL'' []),
          nc_nats_subject_prefix :=
            str_strip (obj_get env ''NLGCP_NATS_SUBJECT_PREFIX'' ''correction.live''),
          nc_allow_insecure_tls := env_flag (obj_get env ''NLGCP_NTRIP_INSECURE_TLS'' [])\<rparr>)))))"

section \<open>Records of a session\<close>

record mountpoint_admission =
  ma_provider :: string
  ma_caster_host :: string
  ma_caster_port :: int
  ma_mountpoint :: string
  ma_station_mapping :: string
  ma_source_table_format :: string
  ma_gnss_systems :: "string list"
  ma_requires_nmea :: bool
  ma_authentication_mode :: string
  ma_configured_authorization :: string
  ma_admission_status :: admission_status
  ma_reason_codes :: "string list"

definition admission_as_dict :: "mountpoint_admission \<Rightarrow> (string \<times> json) list" where
  "admission_as_dict a =
     [(''provider'', JStr (ma_provider a)),
      (''caster_host'', JStr (ma_caster_host a)),
      (''caster_port'', JInt (ma_caster_port a)),
      (''mountpoint'', JStr (ma_mountpoint a)),
      (''station_mapping'', JStr (ma_station_mapping a)),
      (''source_table_format'', JStr (ma_source_table_format a)),
      (''gnss_systems'', JArr (map JStr (ma_gnss_systems a))),
      (''requires_nmea'', JBool (ma_requires_nmea a)),
      (''authentication_mode'', JStr (ma_authentication_mode a)),
      (''configured_authorization'', JStr (ma_configured_authorization a)),
      (''admission_status'', JStr (admission_status_str (ma_admission_status a))),
      (''reason_codes'', JArr (map JStr (ma_reason_codes a)))]"

record station_mapping =
  sm_mountpoint :: string
  sm_station_id :: string
  sm_verified :: bool
  sm_reason :: string

definition mapping_as_dict :: "station_mapping \<Rightarrow> (string \<times> json) list" where
  "mapping_as_dict m =
     [(''mountpoint'', JStr (sm_mountpoint m)),
      (''station_id'', JStr (sm_station_id m)),
      (''verified'', JBool (sm_verified m)),
      (''reason'', JStr (sm_reason m))]"

record arrival_record =
  arr_connection_id :: string
  arr_sequence :: nat
  arr_arrival_monotonic_ns :: int
  arr_arrival_utc :: string
  arr_byte_offset :: nat
  arr_frame_length :: nat
  arr_message_number :: "nat option"
  arr_crc_status :: string
  arr_frame_sha256 :: string

definition arrival_as_dict :: "arrival_record \<Rightarrow> (string \<times> json) list" where
  "arrival_as_dict a =
     [(''connection_id'', JStr (arr_connection_id a)),
      (''sequence'', JInt (int (arr_sequence a))),
      (''arrival_monotonic_ns'', JInt (arr_arrival_monotonic_ns a)),
      (''arrival_utc'', JStr (arr_arrival_utc a)),
      (''byte_offset'', JInt (int (arr_byte_offset a))),
      (''frame_length'', JInt (int (arr_frame_length a))),
      (''message_number'', opt_json (\<lambda>n. JInt (int n)) (arr_message_number a)),
      (''crc_status'', JStr (arr_crc_status a)),
      (''frame_sha256'', JStr (arr_frame_sha256 a))]"

record live_frame =
  lf_sequence :: nat
  lf_source_type :: string
  lf_provider :: string
  lf_station_id :: string
  lf_mountpoint :: string
  lf_message_number :: "nat option"
  lf_raw_bytes :: bytes
  lf_crc_status :: string
  lf_arrival_timestamp :: string
  lf_gnss_epoch :: "string option"
  lf_connection_id :: string
  lf_provenance :: "(string \<times> json) list"

definition live_frame_as_dict :: "live_frame \<Rightarrow> (string \<times> json) list" where
  "live_frame_as_dict f =
     [(''sequence'', JInt (int (lf_sequence f))),
      (''source_type'', JStr (lf_source_type f)),
      (''provider'', JStr (lf_provider f)),
      (''station_id'', JStr (lf_station_id f)),
      (''mountpoint'', JStr (lf_mountpoint f)),
      (''message_number'', opt_json (\<lambda>n. JInt (int n)) (lf_message_number f)),
      (''raw_bytes'', JStr (bytes_hex (lf_raw_bytes f))),
      (''crc_status'', JStr (lf_crc_status f)),
      (''arrival_timestamp'', JStr (lf_arrival_timestamp f)),
      (''gnss_epoch'', opt_json JStr (lf_gnss_epoch f)),
      (''connection_id'', JStr (lf_connection_id f)),
      (''provenance'', JObj (lf_provenance f))]"

record stream_metrics =
  mt_connections_attempted :: nat
  mt_connections_successful :: nat
  mt_authentication_failures :: nat
  mt_reconnects :: nat
  mt_bytes_received :: nat
  mt_frames_received :: nat
  mt_frames_crc_valid :: nat
  mt_frames_crc_invalid :: nat
  mt_message_type_counts :: "(string \<times> nat) list"
  mt_idle_events :: nat
  mt_capture_duration_s :: pyfloat
  mt_buffer_high_water_mark :: nat
  mt_frames_dropped :: nat
  mt_producer_waits :: nat
  mt_consumer_waits :: nat
  mt_active_connection :: bool
  mt_frames_per_second :: pyfloat
  mt_bytes_per_second :: pyfloat
  mt_last_valid_frame_age_s :: "pyfloat option"
  mt_captures_opened :: nat
  mt_captures_finalized :: nat
  mt_partial_captures :: nat
  mt_disk_limit_events :: nat

definition no_metrics :: stream_metrics where
  "no_metrics =
     \<lparr>mt_connections_attempted = 0, mt_connections_successful = 0, mt_authentication_failures =
      0, mt_reconnects = 0, mt_bytes_received = 0, mt_frames_received = 0, mt_frames_crc_valid
      = 0, mt_frames_crc_invalid = 0, mt_message_type_counts = [], mt_idle_events = 0,
      mt_capture_duration_s = PFin 0, mt_buffer_high_water_mark = 0, mt_frames_dropped = 0,
      mt_producer_waits = 0, mt_consumer_waits = 0, mt_active_connection = False,
      mt_frames_per_second = PFin 0, mt_bytes_per_second = PFin 0, mt_last_valid_frame_age_s =
      None, mt_captures_opened = 0, mt_captures_finalized = 0, mt_partial_captures = 0,
      mt_disk_limit_events = 0\<rparr>"

definition metrics_as_dict :: "stream_metrics \<Rightarrow> (string \<times> json) list" where
  "metrics_as_dict m =
     [(''connections_attempted'', JInt (int (mt_connections_attempted m))),
      (''connections_successful'', JInt (int (mt_connections_successful m))),
      (''authentication_failures'', JInt (int (mt_authentication_failures m))),
      (''reconnects'', JInt (int (mt_reconnects m))),
      (''bytes_received'', JInt (int (mt_bytes_received m))),
      (''frames_received'', JInt (int (mt_frames_received m))),
      (''frames_crc_valid'', JInt (int (mt_frames_crc_valid m))),
      (''frames_crc_invalid'', JInt (int (mt_frames_crc_invalid m))),
      (''message_type_counts'', counts_json (mt_message_type_counts m)),
      (''idle_events'', JInt (int (mt_idle_events m))),
      (''capture_duration_s'', JFloat (mt_capture_duration_s m)),
      (''buffer_high_water_mark'', JInt (int (mt_buffer_high_water_mark m))),
      (''frames_dropped'', JInt (int (mt_frames_dropped m))),
      (''producer_waits'', JInt (int (mt_producer_waits m))),
      (''consumer_waits'', JInt (int (mt_consumer_waits m))),
      (''active_connection'', JBool (mt_active_connection m)),
      (''frames_per_second'', JFloat (mt_frames_per_second m)),
      (''bytes_per_second'', JFloat (mt_bytes_per_second m)),
      (''last_valid_frame_age_s'', opt_json JFloat (mt_last_valid_frame_age_s m)),
      (''captures_opened'', JInt (int (mt_captures_opened m))),
      (''captures_finalized'', JInt (int (mt_captures_finalized m))),
      (''partial_captures'', JInt (int (mt_partial_captures m))),
      (''disk_limit_events'', JInt (int (mt_disk_limit_events m)))]"

record capture_metadata =
  cm_capture_id :: string
  cm_provider :: string
  cm_caster_host :: string
  cm_caster_port :: int
  cm_mountpoint :: string
  cm_station_mapping :: string
  cm_start_utc :: string
  cm_end_utc :: string
  cm_duration_s :: pyfloat
  cm_bytes_received :: nat
  cm_valid_frames :: nat
  cm_invalid_frames :: nat
  cm_observed_message_types :: "string list"
  cm_disconnects :: nat
  cm_reconnects :: nat
  cm_tls_mode :: string
  cm_software_commit :: string
  cm_source_table_sha256 :: string
  cm_stream_sha256 :: string
  cm_authorization_provenance :: string
  cm_capture_status :: string

definition metadata_as_dict :: "capture_metadata \<Rightarrow> (string \<times> json) list" where
  "metadata_as_dict m =
     [(''capture_id'', JStr (cm_capture_id m)),
      (''provider'', JStr (cm_provider m)),
      (''caster_host'', JStr (cm_caster_host m)),
      (''caster_port'', JInt (cm_caster_port m)),
      (''mountpoint'', JStr (cm_mountpoint m)),
      (''station_mapping'', JStr (cm_station_mapping m)),
      (''start_utc'', JStr (cm_start_utc m)),
      (''end_utc'', JStr (cm_end_utc m)),
      (''duration_s'', JFloat (cm_duration_s m)),
      (''bytes_received'', JInt (int (cm_bytes_received m))),
      (''valid_frames'', JInt (int (cm_valid_frames m))),
      (''invalid_frames'', JInt (int (cm_invalid_frames m))),
      (''observed_message_types'', JArr (map JStr (cm_observed_message_types m))),
      (''disconnects'', JInt (int (cm_disconnects m))),
      (''reconnects'', JInt (int (cm_reconnects m))),
      (''tls_mode'', JStr (cm_tls_mode m)),
      (''software_commit'', JStr (cm_software_commit m)),
      (''source_table_sha256'', JStr (cm_source_table_sha256 m)),
      (''stream_sha256'', JStr (cm_stream_sha256 m)),
      (''authorization_provenance'', JStr (cm_authorization_provenance m)),
      (''capture_status'', JStr (cm_capture_status m))]"

end
