(* ===== verification/Ntrip_Auth.thy ===== *)
theory Ntrip_Auth
  imports Ntrip_Models
begin

text \<open>
  Credentials (\<open>ntrip_ingestion/auth.py\<close>): the Basic authorization header with the base64 encoding
  behind it, and the redaction of URLs, free text, headers and mappings. The lemmas on
  \<open>str_replace\<close> carry the property that a configured secret does not survive \<open>redact_text\<close>.
\<close>

section \<open>The authorization header\<close>

definition base64_char :: "nat \<Rightarrow> char" where
  "base64_char n = ''ABCDEFGHIJKLMNOPQRSTUVWXYZabcdefghijklmnopqrstuvwxyz0123456789+/'' ! n"

fun base64_encode :: "nat list \<Rightarrow> string" where
  "base64_encode [] = []"
| "base64_encode [a] = [base64_char (a div 4), base64_char (a mod 4 * 16), CHR ''='', CHR ''='']"
| "base64_encode [a, b] =
     [base64_char (a div 4), base64_char (a mod 4 * 16 + b div 16), base64_char (b mod 16 * 4), CHR ''='']"
| "base64_encode (a # b # c # bs) =
     base64_char (a div 4) # base64_char (a mod 4 * 16 + b div 16) #
     base64_char (b mod 16 * 4 + c div 64) # base64_char (c mod 64) # base64_encode bs"

definition basic_auth_header :: "string \<Rightarrow> string \<Rightarrow> string" where
  "basic_auth_header username password =
     ''Basic '' @ base64_encode (map of_char (username @ '':'' @ password))"

section \<open>Redaction\<close>

text \<open>\<open>re.sub(r"://[^/@\s]*@", "://***REDACTED***@", url)\<close>\<close>

definition userinfo_char :: "char \<Rightarrow> bool" where
  "userinfo_char c \<longleftrightarrow> c \<noteq> CHR ''/'' \<and> c \<noteq> CHR ''@'' \<and> \<not> is_space c"

lemma length_dropWhile_drop: "length (dropWhile P (drop m cs)) - k < Suc (length cs)"
proof -
  have "length (dropWhile P (drop m cs)) \<le> length cs"
    using length_dropWhile_le [of P "drop m cs"] by simp
  then show ?thesis by simp
qed

function redact_url :: "string \<Rightarrow> string" where
  "redact_url [] = []"
| "redact_url (c # cs) =
     (let rest = dropWhile userinfo_char (drop 2 cs) in
      if starts_with ''://'' (c # cs) \<and> take 1 rest = ''@''
      then ''://'' @ REDACTED @ ''@'' @ redact_url (drop 1 rest)
      else c # redact_url cs)"
  by pat_completeness auto
termination
  by (relation "measure length") (simp_all add: length_dropWhile_drop)

text \<open>\<open>redacted.replace(secret, _REDACTED)\<close> for the non-empty secrets, in order.\<close>

definition redact_secrets :: "string list \<Rightarrow> string \<Rightarrow> string" where
  "redact_secrets secrets text =
     foldl (\<lambda>acc s. if s \<noteq> [] then str_replace s REDACTED acc else acc) text secrets"

text \<open>
  A match of \<open>(?i)(password\s*[:=]\s*)\S+\<close> at the front: the length of the group and the text behind
  the match.
\<close>

definition password_match :: "string \<Rightarrow> (nat \<times> string) option" where
  "password_match s =
     (let r1 = dropWhile is_space (drop 8 s);
          r2 = dropWhile is_space (drop 1 r1)
      in if str_lower (take 8 s) = ''password'' \<and> r1 \<noteq> [] \<and> hd r1 \<in> set '':='' \<and> r2 \<noteq> []
         then Some (length s - length r2, dropWhile (\<lambda>c. \<not> is_space c) r2) else None)"

lemma password_match_shorter:
  assumes "password_match s = Some (n, r)" shows "length r < length s" "n \<le> length s"
proof -
  let ?r1 = "dropWhile is_space (drop 8 s)" and ?r2 = "dropWhile is_space (drop 1 (dropWhile is_space (drop 8 s)))"
  have "r = dropWhile (\<lambda>c. \<not> is_space c) ?r2" "?r1 \<noteq> []" "n = length s - length ?r2"
    using assms by (auto simp: password_match_def Let_def split: if_splits)
  moreover have "length ?r2 \<le> length ?r1 - 1" using length_dropWhile_le [of is_space "drop 1 ?r1"] by simp
  moreover have "length ?r1 \<le> length s"
    using length_dropWhile_le [of is_space "drop 8 s"] by simp
  moreover have "length r \<le> length ?r2"
    unfolding calculation(1) by (rule length_dropWhile_le)
  moreover have "0 < length ?r1" using calculation(2) by simp
  ultimately show "length r < length s" "n \<le> length s" by linarith+
qed

function redact_passwords :: "string \<Rightarrow> string" where
  "redact_passwords s =
     (case password_match s of
        Some (n, r) \<Rightarrow> take n s @ REDACTED @ redact_passwords r
      | None \<Rightarrow> (case s of [] \<Rightarrow> [] | c # cs \<Rightarrow> c # redact_passwords cs))"
  by pat_completeness auto
termination
  by (relation "measure length") (auto dest: password_match_shorter)

declare redact_passwords.simps [simp del]

definition redact_text :: "string \<Rightarrow> string list \<Rightarrow> string" where
  "redact_text text secrets = redact_passwords (redact_secrets secrets text)"

definition redact_headers :: "(string \<times> string) list \<Rightarrow> string list \<Rightarrow> (string \<times> string) list" where
  "redact_headers headers secrets =
     map (\<lambda>(key, value).
       (key, if str_lower key \<in> {''authorization'', ''proxy-authorization''} then REDACTED
             else redact_text value secrets)) headers"

definition PASSWORD_KEYS :: "string list" where
  "PASSWORD_KEYS = [''password'', ''passwd'', ''pwd'', ''secret'', ''token'']"

definition is_sensitive_key :: "string \<Rightarrow> bool" where
  "is_sensitive_key key = list_ex (\<lambda>token. str_contains token (str_lower key)) PASSWORD_KEYS"

definition sanitize_mapping :: "(string \<times> string) list \<Rightarrow> (string \<times> string) list" where
  "sanitize_mapping payload =
     map (\<lambda>(key, value). (key, if is_sensitive_key key then REDACTED else value)) payload"

section \<open>A secret does not survive\<close>

text \<open>
  A text without the character \<open>*\<close> that is not part of the word between the asterisks: an occurrence
  of it lies on one side of every replacement.
\<close>

definition plain_secret :: "string \<Rightarrow> bool" where
  "plain_secret s \<longleftrightarrow> s \<noteq> [] \<and> CHR ''*'' \<notin> set s \<and> \<not> str_contains s ''REDACTED''"

lemma occurs_split:
  assumes "CHR ''*'' \<notin> set s" and "u @ s @ v = a @ CHR ''*'' # b"
  shows "(\<exists>w. u @ s @ w = a) \<or> (\<exists>w. w @ s @ v = b)"
proof (cases "length (u @ s) \<le> length a")
  case True
  then have "take (length a) (u @ s @ v) = u @ s @ take (length a - length (u @ s)) v" by simp
  moreover have "take (length a) (u @ s @ v) = a" using assms(2) by simp
  ultimately show ?thesis by metis
next
  case False
  show ?thesis
  proof (cases "length a < length u")
    case True
    have "drop (Suc (length a)) (u @ s @ v) = drop (Suc (length a)) u @ s @ v" using True by simp
    with assms(2) have "drop (Suc (length a)) u @ s @ v = b" by simp
    then show ?thesis by blast
  next
    case outside: False
    then have inside: "length a - length u < length s" using False by simp
    then have "(u @ s @ v) ! length a = s ! (length a - length u)"
      using outside by (simp add: nth_append)
    moreover have "(u @ s @ v) ! length a = CHR ''*''" using assms(2) by simp
    ultimately have "CHR ''*'' \<in> set s" using inside by (auto simp: set_conv_nth)
    with assms(1) show ?thesis by blast
  qed
qed

lemma occurs_across:
  assumes "plain_secret s" and "str_contains s (a @ REDACTED @ b)"
  shows "str_contains s a \<or> str_contains s b"
proof -
  have star: "CHR ''*'' \<notin> set s" and red: "\<not> str_contains s ''REDACTED''" and ne: "s \<noteq> []"
    using assms(1) by (simp_all add: plain_secret_def)
  have one: "str_contains s x \<or> str_contains s y" if "str_contains s (x @ CHR ''*'' # y)" for x y
  proof -
    obtain u v where "x @ CHR ''*'' # y = u @ s @ v" using \<open>str_contains s (x @ _)\<close> by (auto simp: str_contains_iff)
    from occurs_split [OF star this [symmetric]] show ?thesis
      by (auto simp: str_contains_iff)
  qed
  have nil: "\<not> str_contains s []" using ne by simp
  have "a @ REDACTED @ b = a @ CHR ''*'' # ([] @ CHR ''*'' # ([] @ CHR ''*'' # (''REDACTED'' @
      CHR ''*'' # ([] @ CHR ''*'' # ([] @ CHR ''*'' # b)))))"
    by (simp add: REDACTED_def)
  with assms(2) have "str_contains s (a @ CHR ''*'' # ([] @ CHR ''*'' # ([] @ CHR ''*'' # (''REDACTED'' @
      CHR ''*'' # ([] @ CHR ''*'' # ([] @ CHR ''*'' # b))))))" by simp
  with one nil red show ?thesis by blast
qed

lemma str_contains_Cons: "str_contains s (c # cs) \<longleftrightarrow> starts_with s (c # cs) \<or> str_contains s cs"
  by simp

lemma starts_with_take: "starts_with p s \<longleftrightarrow> take (length p) s = p"
  by (metis append_eq_conv_conj append_take_drop_id starts_with_iff)

lemma contains_suffix: "str_contains s (drop n t) \<Longrightarrow> str_contains s t"
  unfolding str_contains_iff by (metis append.assoc append_take_drop_id)

text \<open>
  What a replacement leaves: the output contains the plain text \<open>s\<close> only where the input did. The
  prefix \<open>p\<close> is what was copied since the last replacement.
\<close>

lemma replace_keeps_absent:
  assumes "plain_secret s" and "old \<noteq> []"
  shows "\<not> str_contains s (p @ t) \<Longrightarrow> \<not> str_contains s (p @ str_replace old REDACTED t)"
proof (induction old "REDACTED" t arbitrary: p rule: str_replace.induct)
  case (1 old t)
  show ?case
  proof (cases "t = [] \<or> old = []")
    case True
    then show ?thesis using 1(3) by (subst str_replace.simps) auto
  next
    case ne: False
    show ?thesis
    proof (cases "take (length old) t = old")
      case True
      have "str_replace old REDACTED t = REDACTED @ str_replace old REDACTED (drop (length old) t)"
        using ne True by (subst str_replace.simps) simp
      moreover have "\<not> str_contains s p"
        using 1(3) unfolding str_contains_iff by (metis append.assoc)
      moreover have "\<not> str_contains s ([] @ str_replace old REDACTED (drop (length old) t))"
      proof (rule 1(1))
        show "\<not> (old = [] \<or> t = [])" using ne by simp
        show "take (length old) t = old" by (rule True)
        show "\<not> str_contains s ([] @ drop (length old) t)"
          using 1(3) contains_suffix [of s "length p + length old" "p @ t"] by auto
      qed
      ultimately show ?thesis using occurs_across [OF assms(1)] by auto
    next
      case False
      have "str_replace old REDACTED t = hd t # str_replace old REDACTED (drop 1 t)"
        using ne False by (subst str_replace.simps) simp
      moreover have "\<not> str_contains s ((p @ [hd t]) @ str_replace old REDACTED (drop 1 t))"
      proof (rule 1(2))
        show "\<not> (old = [] \<or> t = [])" using ne by simp
        show "take (length old) t \<noteq> old" by (rule False)
        have "p @ t = (p @ [hd t]) @ drop 1 t" using ne by (cases t) auto
        with 1(3) show "\<not> str_contains s ((p @ [hd t]) @ drop 1 t)" by simp
      qed
      ultimately show ?thesis by simp
    qed
  qed
qed

lemma replace_removes:
  "plain_secret s \<Longrightarrow> (\<And>u v. p @ t = u @ s @ v \<Longrightarrow> length p \<le> length u) \<Longrightarrow>
    \<not> str_contains s (p @ str_replace s REDACTED t)"
proof (induction s "REDACTED" t arbitrary: p rule: str_replace.induct)
  case (1 s t)
  have ne: "s \<noteq> []" using 1(3) by (simp add: plain_secret_def)
  have clean: "\<not> str_contains s p"
  proof
    assume "str_contains s p"
    then obtain u v where "p = u @ s @ v" by (auto simp: str_contains_iff)
    with 1(4) [of u "v @ t"] ne show False by simp
  qed
  show ?case
  proof (cases "t = []")
    case True
    with clean show ?thesis by simp
  next
    case t: False
    show ?thesis
    proof (cases "take (length s) t = s")
      case True
      have "\<not> str_contains s ([] @ str_replace s REDACTED (drop (length s) t))"
        using ne t True 1(3) by (intro 1(1)) auto
      moreover have "str_replace s REDACTED t = REDACTED @ str_replace s REDACTED (drop (length s) t)"
        using ne t True by (subst str_replace.simps) simp
      ultimately show ?thesis using occurs_across [OF 1(3)] clean by auto
    next
      case False
      have snoc: "p @ t = (p @ [hd t]) @ drop 1 t" using t by (cases t) auto
      have "length (p @ [hd t]) \<le> length u" if "(p @ [hd t]) @ drop 1 t = u @ s @ v" for u v
      proof -
        have eq: "p @ t = u @ s @ v" using that snoc by simp
        have "length u \<noteq> length p"
        proof
          assume "length u = length p"
          with eq have "t = s @ v" by simp
          with False show False by simp
        qed
        with 1(4) [OF eq] show ?thesis by simp
      qed
      then have "\<not> str_contains s ((p @ [hd t]) @ str_replace s REDACTED (drop 1 t))"
        using ne t False 1(3) by (intro 1(2)) auto
      moreover have "str_replace s REDACTED t = hd t # str_replace s REDACTED (drop 1 t)"
        using ne t False by (subst str_replace.simps) simp
      ultimately show ?thesis by simp
    qed
  qed
qed

lemma passwords_keep_absent:
  assumes "plain_secret s"
  shows "\<not> str_contains s (p @ t) \<Longrightarrow> \<not> str_contains s (p @ redact_passwords t)"
proof (induction t arbitrary: p rule: redact_passwords.induct)
  case (1 t)
  show ?case
  proof (cases "password_match t")
    case None
    show ?thesis
    proof (cases t)
      case Nil
      with None 1(3) show ?thesis by (subst redact_passwords.simps) simp
    next
      case (Cons c cs)
      have "\<not> str_contains s ((p @ [c]) @ redact_passwords cs)"
        using 1(1) [OF None Cons, of "p @ [c]"] 1(3) Cons by simp
      then show ?thesis using None Cons by (subst redact_passwords.simps) simp
    qed
  next
    case (Some m)
    obtain n r where m: "m = (n, r)" by (cases m)
    obtain k where r: "r = drop k t"
      using Some m by (auto simp: password_match_def Let_def dropWhile_eq_drop split: if_splits)
    have "\<not> str_contains s r"
      using 1(3) contains_suffix [of s "length p + k" "p @ t"] r by auto
    then have "\<not> str_contains s ([] @ redact_passwords r)"
      using 1(2) [OF Some m [symmetric], of "[]"] by simp
    moreover have "\<not> str_contains s (p @ take n t)"
      using 1(3) unfolding str_contains_iff by (metis append.assoc append_take_drop_id)
    moreover have "p @ redact_passwords t = (p @ take n t) @ REDACTED @ redact_passwords r"
      using Some m by (subst redact_passwords.simps) simp
    ultimately show ?thesis using occurs_across [OF assms, of "p @ take n t"] by auto
  qed
qed

lemma secrets_keep_absent:
  assumes "plain_secret s" and "\<not> str_contains s t"
  shows "\<not> str_contains s (redact_secrets secrets t)"
  using assms(2)
proof (induction secrets arbitrary: t)
  case (Cons a as)
  have "\<not> str_contains s (if a \<noteq> [] then str_replace a REDACTED t else t)"
    using replace_keeps_absent [OF assms(1), of a "[]" t] Cons.prems by auto
  with Cons.IH show ?case by (simp add: redact_secrets_def)
qed (simp add: redact_secrets_def)

lemma secrets_removed:
  assumes "plain_secret s" and "s \<in> set secrets"
  shows "\<not> str_contains s (redact_secrets secrets t)"
  using assms(2)
proof (induction secrets arbitrary: t)
  case (Cons a as)
  show ?case
  proof (cases "a = s")
    case True
    have "\<not> str_contains s (str_replace s REDACTED t)"
      using replace_removes [OF assms(1), of "[]" t] by simp
    with secrets_keep_absent [OF assms(1), of "str_replace s REDACTED t" as] True assms(1)
    show ?thesis by (simp add: redact_secrets_def plain_secret_def)
  next
    case False
    with Cons show ?thesis by (simp add: redact_secrets_def)
  qed
qed simp

text \<open>
  C40. Credential redaction (\<open>redact_text\<close> of \<open>auth.py\<close>). A configured secret does not occur in the
  redacted text, whatever the text, the other secrets and their order, as long as it has no asterisk
  and is no part of the word \<open>REDACTED\<close> that replaces it: neither the replacements of other secrets
  nor the rewriting of \<open>password=...\<close> can put it together again. A secret such as \<open>RED\<close> does occur.
\<close>

theorem redacted_text_hides_secret:
  assumes "plain_secret s" and "s \<in> set secrets"
  shows "\<not> str_contains s (redact_text text secrets)"
proof -
  have "\<not> str_contains s ([] @ redact_secrets secrets text)"
    using secrets_removed [OF assms] by simp
  from passwords_keep_absent [OF assms(1) this] show ?thesis by (simp add: redact_text_def)
qed

theorem redacted_text_hides_secret_witness:
  "\<not> str_contains ''hunter2'' (redact_text ''login hunhunter2ter2 password= x'' [''ter2'', ''hunter2'']) \<and>
   str_contains ''RED'' (redact_text ''RED'' [''RED''])"
  by (rule conjI, rule redacted_text_hides_secret)
     (simp_all add: plain_secret_def redact_text_def redact_secrets_def str_replace.simps
       redact_passwords.simps password_match_def REDACTED_def)

end
