(* ===== verification/Ntrip_Handshake.thy ===== *)
theory Ntrip_Handshake
  imports Ntrip_Auth
begin

text \<open>
  The connection protocol of live ingestion: the reconnect policy (\<open>backoff.py\<close>) and the NTRIP
  handshake (\<open>handshake.py\<close>), requests, status line, head splitting and the validation of the
  response before any byte of it is read as RTCM.
\<close>

section \<open>Reconnect policy\<close>

record reconnect_policy =
  rp_base_delay_s :: pyfloat
  rp_max_delay_s :: pyfloat
  rp_max_attempts :: int

definition policy_validate_reconnect :: "reconnect_policy \<Rightarrow> string list" where
  "policy_validate_reconnect p =
     problem_if (f_le (rp_base_delay_s p) f_zero) ''base_delay_s must be > 0'' @
     problem_if (f_le (rp_max_delay_s p) f_zero) ''max_delay_s must be > 0'' @
     problem_if (f_lt (rp_max_delay_s p) (rp_base_delay_s p)) ''max_delay_s must be >= base_delay_s'' @
     problem_if (rp_max_attempts p < 0) ''max_attempts must be >= 0''"

text \<open>\<open>2.0 ** n\<close> for an integer \<open>n >= 0\<close>\<close>

definition f_pow2 :: "nat \<Rightarrow> pyfloat result" where
  "f_pow2 n =
     (if n < 1024 then Inr (PFin (2 ^ n))
      else Inl (OverflowError ''(34, 'Numerical result out of range')''))"

text \<open>\<open>random\<close> is \<open>random.Random(seed).random()\<close>.\<close>

definition delay_for_attempt ::
  "(int \<Rightarrow> pyfloat) \<Rightarrow> reconnect_policy \<Rightarrow> int \<Rightarrow> int option \<Rightarrow> pyfloat result" where
  "delay_for_attempt random p attempt jitter_seed =
     (if attempt < 1 then Inl (ValueError (''attempt must be >= 1: '' @ str_int attempt))
      else bind_result (f_pow2 (nat (attempt - 1))) (\<lambda>factor.
        let delay = f_min [f_mul (rp_base_delay_s p) factor, rp_max_delay_s p] in
        Inr (case jitter_seed of
               None \<Rightarrow> delay
             | Some seed \<Rightarrow>
                 f_mul delay (f_add (round64 (9 / 10)) (f_mul (round64 (2 / 10)) (random seed))))))"

definition attempts_exhausted :: "reconnect_policy \<Rightarrow> int \<Rightarrow> bool" where
  "attempts_exhausted p attempts_made \<longleftrightarrow> rp_max_attempts p \<le> attempts_made"

definition is_terminal :: "failure_class \<Rightarrow> bool" where
  "is_terminal failure \<longleftrightarrow> failure \<in> set TERMINAL_FAILURES"

definition classify_status_code :: "int option \<Rightarrow> failure_class option" where
  "classify_status_code code =
     (if code = Some 401 then Some FC_AUTH_FAILURE
      else if code = Some 403 then Some FC_AUTHORIZATION_REJECTED
      else if code = Some 404 then Some FC_MOUNTPOINT_NOT_FOUND
      else if code = None then Some FC_PROTOCOL_ERROR
      else Some FC_PROTOCOL_ERROR)"

section \<open>Requests\<close>

definition NTRIP_V2 :: string where "NTRIP_V2 = ''Ntrip-Version: Ntrip/2.0''"

definition CRLF :: string where "CRLF = [CHR 0x0D, CHR 0x0A]"

text \<open>\<open>encode("ascii", errors="replace")\<close>\<close>

definition encode_ascii :: "string \<Rightarrow> bytes" where
  "encode_ascii = map (\<lambda>c. let n = of_char c :: nat in if n < 128 then of_nat n else 63)"

definition request_head :: "string \<Rightarrow> ntrip_config \<Rightarrow> string list" where
  "request_head target c =
     [''GET '' @ target @ '' HTTP/1.1'',
      ''Host: '' @ nc_host c @ '':'' @ str_int (nc_port c),
      NTRIP_V2,
      ''User-Agent: '' @ nc_user_agent c,
      ''Accept: */*'',
      ''Connection: close''] @
     (if nc_username c \<noteq> []
      then [''Authorization: '' @ basic_auth_header (nc_username c) (nc_password c)] else [])"

definition build_stream_request :: "ntrip_config \<Rightarrow> bytes" where
  "build_stream_request c =
     (let mount = (if starts_with ''/'' (nc_mountpoint c) then nc_mountpoint c
                   else CHR ''/'' # nc_mountpoint c);
          ls = request_head mount c @
            (if nc_gga_sentence c \<noteq> [] then [''Ntrip-GGA: '' @ str_strip (nc_gga_sentence c)] else [])
      in encode_ascii (str_join CRLF ls @ CRLF @ CRLF))"

definition build_sourcetable_request :: "ntrip_config \<Rightarrow> bytes" where
  "build_sourcetable_request c =
     encode_ascii (str_join CRLF (request_head ''/'' c) @ CRLF @ CRLF)"

section \<open>Responses\<close>

record handshake_result =
  hs_ok :: bool
  hs_failure :: "failure_class option"
  hs_reason :: string
  hs_status_code :: "int option"

definition parse_status_line :: "string \<Rightarrow> string \<times> int option \<times> string" where
  "parse_status_line line =
     (case split_words 2 (str_strip line) of
        protocol # code # rest \<Rightarrow>
          (case int_of_text code of
             Inr n \<Rightarrow> (protocol, Some n, if rest \<noteq> [] then hd rest else [])
           | Inl _ \<Rightarrow> (protocol, None, str_strip line))
      | _ \<Rightarrow> ([], None, str_strip line))"

definition looks_like_sourcetable :: "bytes \<Rightarrow> bool" where
  "looks_like_sourcetable body =
     (let text = decode_latin1 (take 512 body) in
      starts_with ''STR;'' text \<or> str_contains ''ENDSOURCETABLE'' (str_upper text) \<or>
      starts_with ''CAS;'' text \<or> starts_with ''NET;'' text)"

definition looks_like_html :: "bytes \<Rightarrow> bool" where
  "looks_like_html body =
     (let lowered = str_lower (str_strip (decode_latin1 (take 1024 body))) in
      starts_with ''<html'' lowered \<or> starts_with ''<!doctype'' lowered)"

definition handshake_refused :: "failure_class \<Rightarrow> string \<Rightarrow> int option \<Rightarrow> handshake_result" where
  "handshake_refused f reason code =
     \<lparr>hs_ok = False, hs_failure = Some f, hs_reason = reason, hs_status_code = code\<rparr>"

definition KNOWN_PROTOCOLS :: "string list" where
  "KNOWN_PROTOCOLS = [''HTTP/1.0'', ''HTTP/1.1'', ''ICY'']"

definition validate_stream_response :: "string \<Rightarrow> bytes \<Rightarrow> handshake_result" where
  "validate_stream_response status_line body =
     (if str_strip status_line = [] then handshake_refused FC_EMPTY_RESPONSE ''empty status line'' None
      else
        case parse_status_line status_line of (protocol, code, text) \<Rightarrow>
          let normalised = str_upper (str_strip status_line);
              known = str_upper protocol \<in> set KNOWN_PROTOCOLS;
              malformed = ''malformed status line: '' @ repr_str status_line
          in if \<not> known \<and> \<not> starts_with ''ICY '' normalised
             then handshake_refused FC_PROTOCOL_ERROR malformed code
             else case code of
               None \<Rightarrow> handshake_refused FC_PROTOCOL_ERROR malformed None
             | Some n \<Rightarrow>
                 if n = 200 then
                   (if looks_like_html body
                    then handshake_refused FC_WRONG_CONTENT ''HTML body where RTCM expected'' code
                    else if looks_like_sourcetable body
                    then handshake_refused FC_WRONG_CONTENT
                           ''source-table body where RTCM stream expected'' code
                    else \<lparr>hs_ok = True, hs_failure = None, hs_reason = ''handshake_success'',
                          hs_status_code = code\<rparr>)
                 else if n = 401 \<or> n = 403 then
                   handshake_refused (if n = 401 then FC_AUTH_FAILURE else FC_AUTHORIZATION_REJECTED)
                     (''authorization rejected: '' @ str_int n) code
                 else if n = 404 then
                   handshake_refused FC_MOUNTPOINT_NOT_FOUND ''mountpoint not found: 404'' code
                 else handshake_refused FC_PROTOCOL_ERROR (''unexpected status: '' @ str_int n) code)"

definition split_at :: "bytes \<Rightarrow> nat \<Rightarrow> bytes \<Rightarrow> int \<Rightarrow> (bytes \<times> bytes) option" where
  "split_at data i sep max_header_bytes =
     (if max_header_bytes < int i then None else Some (take i data, drop (i + length sep) data))"

definition split_head :: "bytes \<Rightarrow> int \<Rightarrow> (bytes \<times> bytes) option" where
  "split_head data max_header_bytes =
     (case find_sub [13, 10, 13, 10] data of
        Some i \<Rightarrow> split_at data i [13, 10, 13, 10] max_header_bytes
      | None \<Rightarrow>
          (case find_sub [10, 10] data of
             Some i \<Rightarrow> split_at data i [10, 10] max_header_bytes
           | None \<Rightarrow> None))"

definition header_of_line :: "(string \<times> string) list \<Rightarrow> string \<Rightarrow> (string \<times> string) list" where
  "header_of_line headers line =
     (if CHR '':'' \<in> set line
      then obj_set headers (str_strip (str_before (CHR '':'') line)) (str_strip (str_after (CHR '':'') line))
      else headers)"

definition parse_head :: "bytes \<Rightarrow> string \<times> (string \<times> string) list" where
  "parse_head head =
     (let ls = split_lines (decode_latin1 head)
      in (if ls \<noteq> [] then hd ls else [], foldl header_of_line [] (drop 1 ls)))"

section \<open>What a handshake accepts\<close>

lemma handshake_refused_sel [simp]:
  "hs_ok (handshake_refused f r c) = False" "hs_failure (handshake_refused f r c) = Some f"
  "hs_status_code (handshake_refused f r c) = c"
  by (simp_all add: handshake_refused_def)

lemma is_terminal_simps [simp]:
  "is_terminal FC_AUTH_FAILURE" "is_terminal FC_MOUNTPOINT_NOT_FOUND"
  "is_terminal FC_AUTHORIZATION_REJECTED" "\<not> is_terminal FC_PROTOCOL_ERROR"
  "\<not> is_terminal FC_WRONG_CONTENT" "\<not> is_terminal FC_EMPTY_RESPONSE"
  by (simp_all add: is_terminal_def TERMINAL_FAILURES_def)

text \<open>The protocol word and the code of a status line that the validation goes by.\<close>

definition status_protocol :: "string \<Rightarrow> string" where
  "status_protocol line = str_upper (fst (parse_status_line line))"

definition status_code :: "string \<Rightarrow> int option" where
  "status_code line = fst (snd (parse_status_line line))"

text \<open>A stripped text neither starts nor ends with white space.\<close>

lemma str_strip_last: "str_strip s = a @ b \<Longrightarrow> b \<noteq> [] \<Longrightarrow> dropWhile is_space b \<noteq> []"
proof
  assume s: "str_strip s = a @ b" and b: "b \<noteq> []" and "dropWhile is_space b = []"
  then have sp: "is_space (last b)" by (simp add: dropWhile_eq_Nil_conv)
  let ?r = "rev (dropWhile is_space s)"
  have r: "dropWhile is_space ?r = rev b @ rev a"
    using s by (metis str_strip_def rev_append rev_rev_ident)
  then have "dropWhile is_space ?r \<noteq> []" using b by simp
  from hd_dropWhile [OF this] have "\<not> is_space (hd (rev b @ rev a))" using r by simp
  moreover have "hd (rev b @ rev a) = last b" using b by (simp add: hd_append hd_rev)
  ultimately show False using sp by simp
qed

lemma ascii_upper_space: "ascii_upper c = CHR '' '' \<Longrightarrow> c = CHR '' ''"
proof -
  assume u: "ascii_upper c = CHR '' ''"
  have "\<not> (97 \<le> (of_char c :: nat) \<and> (of_char c :: nat) \<le> 122)"
  proof
    assume r: "97 \<le> (of_char c :: nat) \<and> (of_char c :: nat) \<le> 122"
    then have "ascii_upper c = char_of ((of_char c :: nat) - 32)" by (simp add: ascii_upper_def)
    with u have "(of_char (char_of ((of_char c :: nat) - 32)) :: nat) = of_char (CHR '' '')" by simp
    moreover have "(of_char (char_of ((of_char c :: nat) - 32)) :: nat) = of_char c - 32"
      using r by (simp add: mod_less less_imp_diff_less)
    ultimately have "(of_char c :: nat) - 32 = 32" by simp
    with r show False by arith
  qed
  with u show ?thesis by (auto simp: ascii_upper_def Let_def split: if_splits)
qed

lemma ascii_upper_not_space: "is_space c \<Longrightarrow> ascii_upper c = c"
  by (auto simp: ascii_upper_def is_space_def Let_def)

lemma icy_is_known:
  assumes "starts_with ''ICY '' (str_upper (str_strip line))"
  shows "status_protocol line = ''ICY''"
proof -
  obtain rest where "str_upper (str_strip line) = ''ICY '' @ rest" using assms starts_with_iff by blast
  then obtain i c y sp t where t: "str_strip line = i # c # y # sp # t"
    and up: "ascii_upper i = CHR ''I''" "ascii_upper c = CHR ''C''" "ascii_upper y = CHR ''Y''"
      "ascii_upper sp = CHR '' ''"
    by (auto simp: str_upper_def map_eq_Cons_conv)
  have sp: "sp = CHR '' ''" using up(4) by (rule ascii_upper_space)
  have ns: "\<not> is_space i" "\<not> is_space c" "\<not> is_space y"
    using up ascii_upper_not_space by (auto simp: is_space_def)
  have sps: "is_space sp" by (simp add: sp is_space_def)
  have tail: "dropWhile is_space (sp # t) \<noteq> []"
    using str_strip_last [of line "[i, c, y]" "sp # t"] t by simp
  have ss: "str_strip (str_strip line) = str_strip line"
  proof -
    have h: "dropWhile is_space (str_strip line) = str_strip line" using t ns by simp
    have "\<not> is_space (last (str_strip line))"
      using str_strip_last [of line "butlast (str_strip line)" "[last (str_strip line)]"] t
      by (metis append_butlast_last_id dropWhile.simps list.discI)
    moreover have "str_strip line \<noteq> []" using t by simp
    ultimately have "\<not> is_space (hd (rev (str_strip line)))" by (simp only: hd_rev) simp
    then have "dropWhile is_space (rev (str_strip line)) = rev (str_strip line)"
      by (cases "rev (str_strip line)") auto
    with h show ?thesis by (metis str_strip_def rev_rev_ident)
  qed
  have "\<exists>w ws. split_words 2 (str_strip line) = [i, c, y] # w # ws"
  proof -
    have "split_words 2 (str_strip line) = [i, c, y] # split_words 1 (sp # t)"
      using t ns sps by (simp add: numeral_2_eq_2)
    moreover have "\<exists>w ws. split_words 1 (sp # t) = w # ws"
      using tail by (simp add: Let_def del: dropWhile.simps)
    ultimately show ?thesis by metis
  qed
  then show ?thesis using up
    by (auto simp: status_protocol_def parse_status_line_def str_upper_def split: sum.splits)
qed

lemma known_test:
  "\<not> str_upper (fst (parse_status_line line)) \<in> set KNOWN_PROTOCOLS \<and>
     \<not> starts_with ''ICY '' (str_upper (str_strip line)) \<longleftrightarrow>
   status_protocol line \<notin> set KNOWN_PROTOCOLS"
  using icy_is_known [of line] by (auto simp: status_protocol_def KNOWN_PROTOCOLS_def)

lemma empty_status: "str_strip line = [] \<Longrightarrow> status_protocol line = []"
proof -
  assume e: "str_strip line = []"
  have "split_words 2 ([] :: string) = []" by (simp add: numeral_2_eq_2)
  then have "parse_status_line line = ([], None, [])"
    unfolding parse_status_line_def e by simp
  then show ?thesis by (simp add: status_protocol_def str_upper_def)
qed

lemma validate_cases:
  "validate_stream_response line body =
     (if status_protocol line \<notin> set KNOWN_PROTOCOLS
      then (if str_strip line = []
            then handshake_refused FC_EMPTY_RESPONSE ''empty status line'' None
            else handshake_refused FC_PROTOCOL_ERROR (''malformed status line: '' @ repr_str line)
                   (status_code line))
      else case status_code line of
        None \<Rightarrow> handshake_refused FC_PROTOCOL_ERROR (''malformed status line: '' @ repr_str line) None
      | Some n \<Rightarrow>
          if n = 200 then
            (if looks_like_html body
             then handshake_refused FC_WRONG_CONTENT ''HTML body where RTCM expected'' (Some n)
             else if looks_like_sourcetable body
             then handshake_refused FC_WRONG_CONTENT
                    ''source-table body where RTCM stream expected'' (Some n)
             else \<lparr>hs_ok = True, hs_failure = None, hs_reason = ''handshake_success'',
                   hs_status_code = Some n\<rparr>)
          else if n = 401 \<or> n = 403 then
            handshake_refused (if n = 401 then FC_AUTH_FAILURE else FC_AUTHORIZATION_REJECTED)
              (''authorization rejected: '' @ str_int n) (Some n)
          else if n = 404 then
            handshake_refused FC_MOUNTPOINT_NOT_FOUND ''mountpoint not found: 404'' (Some n)
          else handshake_refused FC_PROTOCOL_ERROR (''unexpected status: '' @ str_int n) (Some n))"
proof (cases "str_strip line = []")
  case True
  then show ?thesis
    by (simp add: validate_stream_response_def empty_status KNOWN_PROTOCOLS_def)
next
  case False
  obtain pr co tx where p: "parse_status_line line = (pr, co, tx)" by (cases "parse_status_line line")
  have "\<not> str_upper pr \<in> set KNOWN_PROTOCOLS \<and> \<not> starts_with ''ICY '' (str_upper (str_strip line)) \<longleftrightarrow>
      status_protocol line \<notin> set KNOWN_PROTOCOLS"
    using known_test [of line] p by simp
  moreover have "status_code line = co" using p by (simp add: status_code_def)
  ultimately show ?thesis using False p
    by (simp add: validate_stream_response_def Let_def split: option.split)
qed

text \<open>
  The handshake fails closed (\<open>validate_stream_response\<close> of \<open>handshake.py\<close>). A response is accepted
  exactly when its status line names HTTP/1.0, HTTP/1.1 or ICY and the code 200 and the body prefix is
  neither HTML nor a source table; every other response carries a failure class, and the class is
  terminal exactly for the codes 401, 403 and 404 under a known protocol. A source table in place of
  the stream, which is how a caster refuses an unknown mountpoint, is not terminal.
\<close>

theorem handshake_fails_closed:
  "(hs_ok (validate_stream_response line body) \<longleftrightarrow>
      status_protocol line \<in> set KNOWN_PROTOCOLS \<and> status_code line = Some 200 \<and>
      \<not> looks_like_html body \<and> \<not> looks_like_sourcetable body) \<and>
   (case hs_failure (validate_stream_response line body) of
      None \<Rightarrow> hs_ok (validate_stream_response line body)
    | Some f \<Rightarrow>
        \<not> hs_ok (validate_stream_response line body) \<and>
        (is_terminal f \<longleftrightarrow>
           status_protocol line \<in> set KNOWN_PROTOCOLS \<and>
           status_code line \<in> {Some 401, Some 403, Some 404}))"
  unfolding validate_cases by (simp split: option.split)

end
