(* ===== verification/Ntrip_Sourcetable.thy ===== *)
theory Ntrip_Sourcetable
  imports Ntrip_Handshake Rtcm_Models
begin

text \<open>
  What a caster offers and whether it may be used: the source table (\<open>sourcetable.py\<close>), the mapping of
  a mountpoint to a station and the admission of a mountpoint (\<open>admission.py\<close>). The table text is
  ASCII, so its UTF-8 encoding has one byte per character; the digest is a parameter.
\<close>

section \<open>Entries\<close>

record str_entry =
  se_mountpoint :: string
  se_identifier :: string
  se_format :: string
  se_format_details :: string
  se_carrier :: string
  se_nav_systems :: string
  se_network :: string
  se_country :: string
  se_latitude :: string
  se_longitude :: string
  se_nmea_required :: string
  se_solution :: string
  se_generator :: string
  se_compr_encryp :: string
  se_authentication :: string
  se_fee :: string
  se_bitrate :: string
  se_misc :: string

record cas_entry =
  ce_host :: string
  ce_port :: string
  ce_identifier :: string
  ce_operator :: string
  ce_nmea :: string
  ce_country :: string
  ce_latitude :: string
  ce_longitude :: string
  ce_misc :: string

record net_entry =
  ne_identifier :: string
  ne_operator :: string
  ne_authentication :: string
  ne_fee :: string
  ne_web_net :: string
  ne_web_str :: string
  ne_web_reg :: string
  ne_misc :: string

record source_table =
  tb_streams :: "str_entry list"
  tb_casters :: "cas_entry list"
  tb_networks :: "net_entry list"
  tb_terminated :: bool
  tb_findings :: "string list"
  tb_sha256 :: string

section \<open>Parsing\<close>

text \<open>\<open>line.split(";")[1:]\<close>, padded as each kind of record pads it.\<close>

definition split_fields :: "string \<Rightarrow> string list" where
  "split_fields line = drop 1 (split_on (CHR '';'') line)"

definition padded_fields :: "nat \<Rightarrow> string \<Rightarrow> string list" where
  "padded_fields n line = split_fields line @ replicate n []"

definition str_of_line :: "string \<Rightarrow> str_entry" where
  "str_of_line line =
     (let f = padded_fields 18 line in
      \<lparr>se_mountpoint = f ! 0, se_identifier = f ! 1, se_format = f ! 2, se_format_details = f ! 3,
       se_carrier = f ! 4, se_nav_systems = f ! 5, se_network = f ! 6, se_country = f ! 7,
       se_latitude = f ! 8, se_longitude = f ! 9, se_nmea_required = f ! 10, se_solution = f ! 11,
       se_generator = f ! 12, se_compr_encryp = f ! 13, se_authentication = f ! 14, se_fee = f ! 15,
       se_bitrate = f ! 16, se_misc = f ! 17\<rparr>)"

text \<open>
  The other two records are padded with fewer empty fields than they read, eight for nine and seven
  for eight; the fields the line itself has, at least one after its prefix, make up for it.
\<close>

definition cas_of_line :: "string \<Rightarrow> cas_entry" where
  "cas_of_line line =
     (let f = padded_fields 8 line in
      \<lparr>ce_host = f ! 0, ce_port = f ! 1, ce_identifier = f ! 2, ce_operator = f ! 3, ce_nmea = f ! 4,
       ce_country = f ! 5, ce_latitude = f ! 6, ce_longitude = f ! 7, ce_misc = f ! 8\<rparr>)"

definition net_of_line :: "string \<Rightarrow> net_entry" where
  "net_of_line line =
     (let f = padded_fields 7 line in
      \<lparr>ne_identifier = f ! 0, ne_operator = f ! 1, ne_authentication = f ! 2, ne_fee = f ! 3,
       ne_web_net = f ! 4, ne_web_str = f ! 5, ne_web_reg = f ! 6, ne_misc = f ! 7\<rparr>)"

definition table_finding :: "string \<Rightarrow> source_table \<Rightarrow> source_table" where
  "table_finding s t = t\<lparr>tb_findings := tb_findings t @ [s]\<rparr>"

definition table_record :: "string \<Rightarrow> source_table \<Rightarrow> source_table" where
  "table_record line t =
     (if starts_with ''STR;'' line then t\<lparr>tb_streams := tb_streams t @ [str_of_line line]\<rparr>
      else if starts_with ''CAS;'' line then t\<lparr>tb_casters := tb_casters t @ [cas_of_line line]\<rparr>
      else if starts_with ''NET;'' line then t\<lparr>tb_networks := tb_networks t @ [net_of_line line]\<rparr>
      else table_finding (''UNKNOWN_RECORD prefix='' @ repr_str (take 8 line)) t)"

text \<open>The loop over the lines; \<open>seen\<close> counts the records seen.\<close>

fun table_lines :: "int \<Rightarrow> int \<Rightarrow> string list \<Rightarrow> source_table \<Rightarrow> source_table" where
  "table_lines max_entries seen [] t = t"
| "table_lines max_entries seen (raw # ls) t =
     (let line = str_strip raw in
      if line = [] then table_lines max_entries seen ls t
      else if line = ''ENDSOURCETABLE'' then table_lines max_entries seen ls (t\<lparr>tb_terminated := True\<rparr>)
      else if max_entries < seen + 1
      then table_finding (''ENTRY_LIMIT reached='' @ str_int max_entries) t
      else table_lines max_entries (seen + 1) ls (table_record line t))"

definition parse_sourcetable :: "(bytes \<Rightarrow> string) \<Rightarrow> string \<Rightarrow> nat \<Rightarrow> int \<Rightarrow> source_table" where
  "parse_sourcetable sha text max_bytes max_entries =
     (let large = max_bytes < length text;
          body = (if large then take max_bytes text else text);
          t0 = \<lparr>tb_streams = [], tb_casters = [], tb_networks = [], tb_terminated = False,
                tb_findings = (if large
                  then [''SOURCETABLE_TOO_LARGE bytes='' @ str_nat (length text) @ '' max='' @
                        str_nat max_bytes] else []),
                tb_sha256 = sha (encode_text body)\<rparr>;
          t = table_lines max_entries 0 (split_lines body) t0
      in if tb_terminated t then t else table_finding ''MISSING_ENDSOURCETABLE'' t)"

section \<open>Queries\<close>

definition mount_key :: "string \<Rightarrow> string" where
  "mount_key m = str_upper (lstrip_chars ''/'' m)"

definition find_stream :: "source_table \<Rightarrow> string \<Rightarrow> str_entry option" where
  "find_stream table mountpoint =
     find (\<lambda>e. mount_key (se_mountpoint e) = mount_key mountpoint) (tb_streams table)"

definition stream_requires_nmea :: "str_entry \<Rightarrow> bool" where
  "stream_requires_nmea e \<longleftrightarrow> str_strip (se_nmea_required e) = ''1''"

definition stream_needs_auth :: "str_entry \<Rightarrow> bool" where
  "stream_needs_auth e \<longleftrightarrow> str_upper (str_strip (se_authentication e)) \<in> {''B'', ''D'', ''Y'', ''1''}"

section \<open>Admission\<close>

text \<open>\<open>map_station\<close>: the first entry of the registry under the mountpoint's name.\<close>

definition map_station :: "string \<Rightarrow> (string \<times> string) list \<Rightarrow> station_mapping" where
  "map_station mountpoint registry =
     (case find (\<lambda>(raw, station). mount_key raw = mount_key mountpoint) registry of
        Some (raw, station) \<Rightarrow>
          (let verified = station \<in> set KNOWN_STATIONS in
           \<lparr>sm_mountpoint = mountpoint, sm_station_id = station, sm_verified = verified,
            sm_reason = (if verified then ''registry mapping to verified station''
                         else ''registry station not in verified set: '' @ station)\<rparr>)
      | None \<Rightarrow>
          \<lparr>sm_mountpoint = mountpoint, sm_station_id = STATION_IDENTITY_UNVERIFIED,
           sm_verified = False, sm_reason = ''no registry mapping for mountpoint''\<rparr>)"

definition admission_reasons :: "ntrip_config \<Rightarrow> bool \<Rightarrow> bool \<Rightarrow> station_mapping \<Rightarrow> string list" where
  "admission_reasons c requires_nmea needs_auth m =
     problem_if (nc_host c = []) ''CONFIG_INVALID: empty caster host'' @
     problem_if (nc_mountpoint c = []) ''CONFIG_INVALID: empty mountpoint'' @
     problem_if (needs_auth \<and> nc_username c = [])
       ''AUTH_REQUIRED: stream requires authentication, no username configured'' @
     problem_if (requires_nmea \<and> nc_gga_sentence c = [])
       ''NMEA_POSITION_REQUIRED: stream requires GGA, none configured'' @
     problem_if (\<not> sm_verified m) (''STATION_IDENTITY_UNVERIFIED: '' @ sm_reason m) @
     problem_if requires_nmea ''WARN: stream requires periodic rover GGA'' @
     problem_if (nc_allow_insecure_tls c)
       ''WARN: insecure TLS explicitly enabled (diagnostic only, unsafe)''"

definition admission_status_of :: "string list \<Rightarrow> admission_status" where
  "admission_status_of reasons =
     (let blocking = filter (\<lambda>r. \<not> starts_with ''WARN'' r) reasons in
      if blocking \<noteq> [] then
        (if list_ex (\<lambda>r. starts_with ''CONFIG_INVALID'' r \<or> starts_with ''AUTH_REQUIRED'' r \<or>
                         str_contains ''NMEA_POSITION_REQUIRED'' r) blocking then AS_BLOCKED
         else if list_ex (str_contains ''STATION_IDENTITY_UNVERIFIED'') blocking then AS_WARN
         else AS_REJECT)
      else if reasons = [] then AS_ACCEPT else AS_WARN)"

definition admit_mountpoint ::
  "string \<Rightarrow> ntrip_config \<Rightarrow> string \<Rightarrow> string list \<Rightarrow> bool \<Rightarrow> bool \<Rightarrow> station_mapping \<Rightarrow> mountpoint_admission"
where
  "admit_mountpoint provider c format systems requires_nmea needs_auth m =
     (let reasons = admission_reasons c requires_nmea needs_auth m in
      \<lparr>ma_provider = provider, ma_caster_host = nc_host c, ma_caster_port = nc_port c,
       ma_mountpoint = nc_mountpoint c, ma_station_mapping = sm_station_id m,
       ma_source_table_format = format, ma_gnss_systems = systems, ma_requires_nmea = requires_nmea,
       ma_authentication_mode = (if nc_username c \<noteq> [] then ''basic'' else ''none''),
       ma_configured_authorization = (if nc_username c \<noteq> [] then ''configured'' else ''anonymous''),
       ma_admission_status = admission_status_of reasons, ma_reason_codes = reasons\<rparr>)"

section \<open>What is admitted\<close>

lemma map_station_verified:
  "sm_verified (map_station m reg) \<Longrightarrow> sm_station_id (map_station m reg) \<in> set KNOWN_STATIONS"
  by (auto simp: map_station_def Let_def split: option.splits)

text \<open>
  A mountpoint whose stream needs a user name or a position that is not configured is blocked;
  \<open>ACCEPT\<close> takes a verified station and verified TLS, and \<open>REJECT\<close> is never given.
\<close>

lemma admission_blocked:
  assumes "nc_host c = [] \<or> nc_mountpoint c = [] \<or> (needs_auth \<and> nc_username c = []) \<or>
    (requires_nmea \<and> nc_gga_sentence c = [])"
  shows "admission_status_of (admission_reasons c requires_nmea needs_auth m) = AS_BLOCKED"
  using assms
  by (auto simp: admission_status_of_def admission_reasons_def problem_if_def Let_def)

lemma admission_accept_iff:
  "admission_status_of (admission_reasons c requires_nmea needs_auth m) = AS_ACCEPT \<longleftrightarrow>
     admission_reasons c requires_nmea needs_auth m = []"
  by (auto simp: admission_status_of_def Let_def)

lemma admission_accept:
  "ma_admission_status (admit_mountpoint p c f gs rn na m) = AS_ACCEPT \<longleftrightarrow>
     nc_host c \<noteq> [] \<and> nc_mountpoint c \<noteq> [] \<and> (na \<longrightarrow> nc_username c \<noteq> []) \<and> \<not> rn \<and>
     sm_verified m \<and> \<not> nc_allow_insecure_tls c"
proof -
  have "ma_admission_status (admit_mountpoint p c f gs rn na m) =
      admission_status_of (admission_reasons c rn na m)"
    by (simp add: admit_mountpoint_def Let_def)
  then show ?thesis by (simp only: admission_accept_iff) (auto simp: admission_reasons_def)
qed

lemma admission_never_rejects:
  "ma_admission_status (admit_mountpoint p c f gs rn na m) \<noteq> AS_REJECT"
  by (auto simp: admit_mountpoint_def Let_def admission_status_of_def admission_reasons_def
      problem_if_def)

section \<open>The table is bounded\<close>

definition table_size :: "source_table \<Rightarrow> nat" where
  "table_size t = length (tb_streams t) + length (tb_casters t) + length (tb_networks t)"

lemma table_record_size: "table_size (table_record l t) \<le> Suc (table_size t)"
  by (simp add: table_record_def table_finding_def table_size_def)

lemma table_lines_size:
  "seen \<le> n \<Longrightarrow> int (table_size t) \<le> seen \<Longrightarrow> int (table_size (table_lines n seen ls t)) \<le> n"
proof (induction n seen ls t rule: table_lines.induct)
  case (2 n seen raw ls t)
  have "int (table_size (table_record l t)) \<le> seen + 1" for l
    using table_record_size [of l t] 2(5) by linarith
  with 2 show ?case by (auto simp: Let_def table_size_def table_finding_def)
qed simp

end
