(* ===== verification/Ntrip_Delivery.thy ===== *)
theory Ntrip_Delivery
  imports Ntrip_Sourcetable Rtcm_Parse
begin

text \<open>
  What a live session hands on: arrival records (\<open>timing.py\<close>), provenance envelopes (\<open>provenance.py\<close>),
  subjects and delivery envelopes (\<open>subjects.py\<close>), the bounded publisher (\<open>publisher.py\<close>), the bridge
  to the replay consumers (\<open>bridge.py\<close>) and the status of the service (\<open>status.py\<close>).
\<close>

section \<open>Arrival timing\<close>

record fake_clock =
  fk_now_ns :: int
  fk_utc :: string

definition advance_ns :: "int \<Rightarrow> fake_clock \<Rightarrow> fake_clock result" where
  "advance_ns delta_ns c =
     (if delta_ns < 0 then Inl (ValueError ''FakeClock cannot go backwards'')
      else Inr (c\<lparr>fk_now_ns := fk_now_ns c + delta_ns\<rparr>))"

definition advance_s :: "pyfloat \<Rightarrow> fake_clock \<Rightarrow> fake_clock result" where
  "advance_s delta_s c =
     bind_result (f_to_int (f_mul delta_s (PFin 1000000000))) (\<lambda>ns. advance_ns ns c)"

text \<open>The recorder reads both clocks at each arrival; the readings are arguments.\<close>

record arrival_recorder =
  rec_connection_id :: string
  rec_sequence :: nat

definition new_recorder :: "string \<Rightarrow> arrival_recorder" where
  "new_recorder connection_id = \<lparr>rec_connection_id = connection_id, rec_sequence = 0\<rparr>"

definition recorder_next ::
  "int \<Rightarrow> string \<Rightarrow> nat \<Rightarrow> nat \<Rightarrow> nat option \<Rightarrow> string \<Rightarrow> string \<Rightarrow> arrival_recorder \<Rightarrow>
     arrival_record \<times> arrival_recorder"
where
  "recorder_next mono_ns utc byte_offset frame_length message_number crc sha256 r =
     (\<lparr>arr_connection_id = rec_connection_id r, arr_sequence = rec_sequence r,
       arr_arrival_monotonic_ns = mono_ns, arr_arrival_utc = utc, arr_byte_offset = byte_offset,
       arr_frame_length = frame_length, arr_message_number = message_number, arr_crc_status = crc,
       arr_frame_sha256 = sha256\<rparr>,
      r\<lparr>rec_sequence := rec_sequence r + 1\<rparr>)"

section \<open>Provenance, subjects, envelopes\<close>

definition LIVE_ENGINE_VERSION :: string where "LIVE_ENGINE_VERSION = ''0.1.0''"

definition LIVE_SCHEMA_VERSION :: string where "LIVE_SCHEMA_VERSION = ''1.0''"

text \<open>\<open>git_commit\<close> is what \<open>get_software_commit\<close> reads from the repository.\<close>

definition provenance_envelope ::
  "string \<Rightarrow> string \<Rightarrow> string \<Rightarrow> string \<Rightarrow> ntrip_config \<Rightarrow> string \<Rightarrow> string option \<Rightarrow> (string \<times> json) list"
where
  "provenance_envelope git_commit capture_id provider basis c status software_commit =
     [(''capture_id'', JStr capture_id), (''provider'', JStr provider),
      (''authorization_basis'', JStr basis), (''admission_status'', JStr status),
      (''engine_version'', JStr LIVE_ENGINE_VERSION), (''schema_version'', JStr LIVE_SCHEMA_VERSION),
      (''software_commit'', JStr (str_or software_commit git_commit)),
      (''caster'', JStr (nc_host c @ '':'' @ str_int (nc_port c))),
      (''mountpoint'', JStr (nc_mountpoint c)), (''tls'', JBool (nc_use_tls c))]"

definition LIVE_SUBJECT_PREFIX :: string where "LIVE_SUBJECT_PREFIX = ''correction.live''"

definition live_subject :: "string \<Rightarrow> string result" where
  "live_subject station_id =
     (let station = str_upper (str_strip station_id) in
      if station = [] then Inl (ValueError ''station_id must be non-empty'')
      else if list_ex (\<lambda>c. \<not> subject_char c) station then
        Inl (ValueError (''unsafe station_id for subject: '' @ station_id))
      else Inr (LIVE_SUBJECT_PREFIX @ ''.'' @ station))"

definition live_ordering_key :: "live_frame \<Rightarrow> json list" where
  "live_ordering_key f =
     [JStr (lf_connection_id f), obj_get (lf_provenance f) ''capture_id'' (JStr []),
      JInt (int (lf_sequence f))]"

definition envelope :: "live_frame \<Rightarrow> (string \<times> json) list result" where
  "envelope f =
     bind_result (live_subject (lf_station_id f)) (\<lambda>subject.
       Inr [(''subject'', JStr subject), (''ordering_key'', JArr (live_ordering_key f)),
            (''frame'', JObj (live_frame_as_dict f))])"

section \<open>The bounded publisher\<close>

record publish_metrics =
  pm_attempted :: nat
  pm_published :: nat
  pm_failed :: nat
  pm_dropped :: nat
  pm_high_water_mark :: nat

record publisher =
  pb_capacity :: int
  pb_queue :: "(string \<times> json) list list"
  pb_metrics :: publish_metrics
  pb_closed :: bool

definition new_publisher :: "int \<Rightarrow> publisher result" where
  "new_publisher capacity =
     (if capacity < 1 then Inl (ValueError ''capacity must be >= 1'')
      else Inr \<lparr>pb_capacity = capacity, pb_queue = [],
                pb_metrics = \<lparr>pm_attempted = 0, pm_published = 0, pm_failed = 0, pm_dropped = 0,
                              pm_high_water_mark = 0\<rparr>,
                pb_closed = False\<rparr>)"

definition publish :: "live_frame \<Rightarrow> publisher \<Rightarrow> bool result \<times> publisher" where
  "publish f p =
     (let m = pb_metrics p; attempted = pm_attempted m + 1 in
      if pb_closed p then
        (Inr False, p\<lparr>pb_metrics := m\<lparr>pm_attempted := attempted, pm_failed := pm_failed m + 1\<rparr>\<rparr>)
      else if pb_capacity p \<le> int (length (pb_queue p)) then
        (Inr False, p\<lparr>pb_metrics := m\<lparr>pm_attempted := attempted, pm_dropped := pm_dropped m + 1\<rparr>\<rparr>)
      else
        case envelope f of
          Inl e \<Rightarrow> (Inl e, p)
        | Inr item \<Rightarrow>
            let q = pb_queue p @ [item] in
            (Inr True, p\<lparr>pb_queue := q,
               pb_metrics := m\<lparr>pm_attempted := attempted, pm_published := pm_published m + 1,
                               pm_high_water_mark := max (length q) (pm_high_water_mark m)\<rparr>\<rparr>))"

definition publisher_take :: "publisher \<Rightarrow> (string \<times> json) list option \<times> publisher" where
  "publisher_take p =
     (case pb_queue p of [] \<Rightarrow> (None, p) | x # q \<Rightarrow> (Some x, p\<lparr>pb_queue := q\<rparr>))"

definition publisher_close :: "publisher \<Rightarrow> publisher" where
  "publisher_close p = p\<lparr>pb_closed := True\<rparr>"

section \<open>The bridge to replay consumers\<close>

definition bridge_keys :: "live_frame \<Rightarrow> (string \<times> json) list" where
  "bridge_keys f =
     [(''origin'', JStr ''LIVE_NTRIP''), (''provider'', JStr (lf_provider f)),
      (''connection_id'', JStr (lf_connection_id f)), (''crc_status'', JStr (lf_crc_status f)),
      (''arrival_timestamp'', JStr (lf_arrival_timestamp f)),
      (''gnss_epoch'', opt_json JStr (lf_gnss_epoch f))]"

definition dict_update :: "(string \<times> 'v) list \<Rightarrow> (string \<times> 'v) list \<Rightarrow> (string \<times> 'v) list" where
  "dict_update d kvs = foldl (\<lambda>acc (k, v). obj_set acc k v) d kvs"

text \<open>\<open>None\<close> stands for a frame whose provenance has a \<open>capture_id\<close> that is not text.\<close>

definition live_to_phase9 :: "live_frame \<Rightarrow> string \<Rightarrow> nat \<Rightarrow> correction_frame option" where
  "live_to_phase9 f replay_timestamp cycle =
     (let provenance = dict_update (lf_provenance f) (bridge_keys f) in
      case obj_get provenance ''capture_id'' (JStr (lf_connection_id f)) of
        JStr source_id \<Rightarrow>
          Some \<lparr>cf_sequence = lf_sequence f, cf_cycle = cycle, cf_source_id = source_id,
                cf_station_id = lf_station_id f, cf_mountpoint = lf_mountpoint f,
                cf_message_number = lf_message_number f, cf_raw_bytes = lf_raw_bytes f,
                cf_source_timestamp = Some (lf_arrival_timestamp f),
                cf_replay_timestamp = replay_timestamp, cf_provenance = provenance\<rparr>
      | _ \<Rightarrow> None)"

definition capture_source_for_phase9 ::
  "string \<Rightarrow> string \<Rightarrow> string \<Rightarrow> string \<Rightarrow> int \<Rightarrow> string \<Rightarrow> string \<Rightarrow> string \<Rightarrow> rtcm_source result"
where
  "capture_source_for_phase9 source_id source_path station_id mountpoint byte_size sha256
     capture_method capture_provenance =
     source_from_dict
       [(''source_id'', JStr source_id), (''source_type'', JStr (source_type_str NTRIP_CAPTURE)),
        (''source_path'', JStr source_path), (''station_id'', JStr station_id),
        (''mountpoint'', JStr mountpoint), (''start_time'', JStr []), (''end_time'', JStr []),
        (''byte_size'', JInt byte_size), (''sha256'', JStr sha256),
        (''capture_method'', JStr capture_method), (''capture_provenance'', JStr capture_provenance),
        (''rtcm_version'', JStr ''3.x''), (''message_types'', JArr []),
        (''timestamp_source'', JStr ''capture''), (''verified'', JBool False)]"

section \<open>Service status\<close>

datatype directory_state = DIR_MISSING | DIR_READ_ONLY | DIR_WRITABLE

record readiness =
  rd_status :: string
  rd_reason_codes :: "string list"
  rd_configured_stream :: bool
  rd_stream_state :: connection_state
  rd_scientific_validity :: string

definition directory_reason :: "(string \<Rightarrow> directory_state) \<Rightarrow> string \<Rightarrow> string list" where
  "directory_reason dirs path =
     (case dirs path of
        DIR_MISSING \<Rightarrow> [''DIRECTORY_UNAVAILABLE:'' @ path]
      | DIR_READ_ONLY \<Rightarrow> [''DIRECTORY_NOT_WRITABLE:'' @ path]
      | DIR_WRITABLE \<Rightarrow> [])"

definition readiness_of ::
  "(string \<Rightarrow> directory_state) \<Rightarrow> ntrip_config \<Rightarrow> string list \<Rightarrow> connection_state \<Rightarrow> readiness result"
where
  "readiness_of dirs c required state =
     (let configured = nc_host c \<noteq> [] \<or> nc_mountpoint c \<noteq> [] \<or> nc_username c \<noteq> [] in
      bind_result (if configured then ntrip_validate c else Inr []) (\<lambda>problems.
        let reasons = problems @ concat (map (directory_reason dirs) required) in
        Inr (if \<not> configured \<and> reasons = []
             then \<lparr>rd_status = ''READY'', rd_reason_codes = [''INGESTION_DISABLED_NO_CASTER_CONFIGURED''],
                   rd_configured_stream = False, rd_stream_state = state,
                   rd_scientific_validity = ''NOT_ASSESSED''\<rparr>
             else \<lparr>rd_status = (if reasons \<noteq> [] then ''NOT_READY'' else ''READY''),
                   rd_reason_codes = reasons, rd_configured_stream = configured,
                   rd_stream_state = state, rd_scientific_validity = ''NOT_ASSESSED''\<rparr>)))"

definition service_status ::
  "(string \<Rightarrow> directory_state) \<Rightarrow> ntrip_config \<Rightarrow> string list \<Rightarrow> connection_state \<Rightarrow> json result"
where
  "service_status dirs c required state =
     bind_result (readiness_of dirs c required state) (\<lambda>r.
       Inr (JObj
         [(''liveness'', JObj [(''status'', JStr ''ALIVE''), (''service'', JStr ''gnss-ingestor''),
             (''scientific_validity'', JStr ''NOT_ASSESSED'')]),
          (''readiness'', JObj [(''status'', JStr (rd_status r)),
             (''reason_codes'', JArr (map JStr (rd_reason_codes r))),
             (''configured_stream'', JBool (rd_configured_stream r)),
             (''stream_state'', JStr (connection_state_str (rd_stream_state r))),
             (''scientific_validity'', JStr (rd_scientific_validity r))]),
          (''stream_state'', JStr (connection_state_str state))]))"

definition disk_acceptable :: "int \<Rightarrow> int \<Rightarrow> bool" where
  "disk_acceptable free_bytes minimum_free_bytes \<longleftrightarrow> minimum_free_bytes \<le> free_bytes"

section \<open>The publisher accounts for every frame\<close>

datatype publisher_op = Pub live_frame | Pub_Take | Pub_Close

text \<open>The items taken, in order, and the number of calls of \<open>publish\<close> that returned.\<close>

fun run_publisher ::
  "publisher_op list \<Rightarrow> publisher \<Rightarrow> (string \<times> json) list list \<times> nat \<times> publisher"
where
  "run_publisher [] p = ([], 0, p)"
| "run_publisher (Pub f # ops) p =
     (case publish f p of
        (r, p1) \<Rightarrow>
          (case run_publisher ops p1 of
             (taken, calls, p2) \<Rightarrow> (taken, (case r of Inl _ \<Rightarrow> calls | Inr _ \<Rightarrow> Suc calls), p2)))"
| "run_publisher (Pub_Take # ops) p =
     (case publisher_take p of
        (x, p1) \<Rightarrow>
          (case run_publisher ops p1 of
             (taken, calls, p2) \<Rightarrow> ((case x of None \<Rightarrow> taken | Some i \<Rightarrow> i # taken), calls, p2)))"
| "run_publisher (Pub_Close # ops) p = run_publisher ops (publisher_close p)"

text \<open>The items the operations put into the queue, in order.\<close>

fun published_items :: "publisher_op list \<Rightarrow> publisher \<Rightarrow> (string \<times> json) list list" where
  "published_items [] p = []"
| "published_items (Pub f # ops) p =
     (case publish f p of
        (r, p1) \<Rightarrow>
          (if r = Inr True then (case envelope f of Inl _ \<Rightarrow> [] | Inr i \<Rightarrow> [i]) else []) @
          published_items ops p1)"
| "published_items (Pub_Take # ops) p = published_items ops (snd (publisher_take p))"
| "published_items (Pub_Close # ops) p = published_items ops (publisher_close p)"

definition publisher_inv :: "publisher \<Rightarrow> bool" where
  "publisher_inv p \<longleftrightarrow>
     pm_attempted (pb_metrics p) =
       pm_published (pb_metrics p) + pm_failed (pb_metrics p) + pm_dropped (pb_metrics p) \<and>
     length (pb_queue p) \<le> pm_high_water_mark (pb_metrics p) \<and>
     int (pm_high_water_mark (pb_metrics p)) \<le> pb_capacity p"

lemma publish_cases:
  obtains (closed) "pb_closed p"
      "publish f p = (Inr False, p\<lparr>pb_metrics := (pb_metrics p)\<lparr>pm_attempted := pm_attempted (pb_metrics p) + 1,
         pm_failed := pm_failed (pb_metrics p) + 1\<rparr>\<rparr>)"
  | (full) "\<not> pb_closed p" "pb_capacity p \<le> int (length (pb_queue p))"
      "publish f p = (Inr False, p\<lparr>pb_metrics := (pb_metrics p)\<lparr>pm_attempted := pm_attempted (pb_metrics p) + 1,
         pm_dropped := pm_dropped (pb_metrics p) + 1\<rparr>\<rparr>)"
  | (unsafe) e where "publish f p = (Inl e, p)"
  | (queued) item where "\<not> pb_closed p" "int (length (pb_queue p)) < pb_capacity p" "envelope f = Inr item"
      "publish f p = (Inr True, p\<lparr>pb_queue := pb_queue p @ [item],
         pb_metrics := (pb_metrics p)\<lparr>pm_attempted := pm_attempted (pb_metrics p) + 1,
           pm_published := pm_published (pb_metrics p) + 1,
           pm_high_water_mark := max (Suc (length (pb_queue p))) (pm_high_water_mark (pb_metrics p))\<rparr>\<rparr>)"
  by (cases "pb_closed p"; cases "pb_capacity p \<le> int (length (pb_queue p))"; cases "envelope f")
     (auto simp: publish_def Let_def)

lemma publish_inv: "publisher_inv p \<Longrightarrow> publisher_inv (snd (publish f p))"
  by (cases rule: publish_cases [of p f]) (auto simp: publisher_inv_def)

lemma publisher_take_inv: "publisher_inv p \<Longrightarrow> publisher_inv (snd (publisher_take p))"
  by (auto simp: publisher_take_def publisher_inv_def split: list.split)

lemma publisher_close_inv: "publisher_inv p \<Longrightarrow> publisher_inv (publisher_close p)"
  by (simp add: publisher_close_def publisher_inv_def)

lemma run_publisher_inv:
  "publisher_inv p \<Longrightarrow> run_publisher ops p = (taken, calls, p') \<Longrightarrow> publisher_inv p'"
proof (induction ops p arbitrary: taken calls rule: run_publisher.induct)
  case (2 f ops p)
  then show ?case using publish_inv [of p f]
    by (cases "publish f p") (fastforce split: prod.splits)
next
  case (3 ops p)
  then show ?case using publisher_take_inv [of p]
    by (cases "publisher_take p") (fastforce split: prod.splits)
qed (auto simp: publisher_close_inv)

lemma run_publisher_calls:
  "run_publisher ops p = (taken, calls, p') \<Longrightarrow>
     pm_attempted (pb_metrics p') = pm_attempted (pb_metrics p) + calls"
proof (induction ops p arbitrary: taken calls rule: run_publisher.induct)
  case (2 f ops p)
  then show ?case
    by (cases rule: publish_cases [of p f]) (auto split: prod.splits)
next
  case (3 ops p)
  then show ?case by (auto simp: publisher_take_def split: prod.splits list.splits)
qed (auto simp: publisher_close_def)

lemma run_publisher_order:
  "run_publisher ops p = (taken, calls, p') \<Longrightarrow>
     pb_queue p @ published_items ops p = taken @ pb_queue p' \<and>
     pm_published (pb_metrics p') = pm_published (pb_metrics p) + length (published_items ops p)"
proof (induction ops p arbitrary: taken calls rule: run_publisher.induct)
  case (2 f ops p)
  then show ?case
    by (cases rule: publish_cases [of p f]) (fastforce split: prod.splits)+
next
  case (3 ops p)
  then show ?case by (fastforce simp: publisher_take_def split: prod.splits list.splits)
qed (auto simp: publisher_close_def)

text \<open>
  Publishing never loses a frame silently (\<open>BoundedPublisher\<close> of \<open>publisher.py\<close>). Over any
  sequence of \<open>publish\<close>, \<open>take\<close> and \<open>close\<close> on a new publisher, every call that returns is counted once
  as published, failed or dropped, the published envelopes come out in the order they were queued,
  and neither the queue nor its high-water mark exceeds the capacity.
\<close>

theorem publisher_accounts:
  "case new_publisher capacity of
     Inl e \<Rightarrow> capacity < 1
   | Inr p \<Rightarrow>
       (case run_publisher ops p of
          (taken, calls, p') \<Rightarrow>
            calls = pm_published (pb_metrics p') + pm_failed (pb_metrics p') + pm_dropped (pb_metrics p') \<and>
            taken @ pb_queue p' = published_items ops p \<and>
            pm_published (pb_metrics p') = length taken + length (pb_queue p') \<and>
            length (pb_queue p') \<le> pm_high_water_mark (pb_metrics p') \<and>
            int (pm_high_water_mark (pb_metrics p')) \<le> capacity)"
proof (cases "new_publisher capacity")
  case (Inr p)
  obtain taken calls p' where run: "run_publisher ops p = (taken, calls, p')"
    by (cases "run_publisher ops p") auto
  have p: "pb_queue p = []" "pb_capacity p = capacity" "pm_published (pb_metrics p) = 0"
      "pm_attempted (pb_metrics p) = 0" "publisher_inv p"
    using Inr by (auto simp: new_publisher_def publisher_inv_def split: if_splits)
  have cap: "pb_capacity p' = pb_capacity p"
    using run
  proof (induction ops p arbitrary: taken calls rule: run_publisher.induct)
    case (2 f ops p)
    then show ?case by (cases rule: publish_cases [of p f]) (auto split: prod.splits)
  next
    case (3 ops p)
    then show ?case by (auto simp: publisher_take_def split: prod.splits list.splits)
  qed (auto simp: publisher_close_def)
  from run_publisher_inv [OF p(5) run] run_publisher_calls [OF run] run_publisher_order [OF run] p run Inr cap
  show ?thesis by (auto simp: publisher_inv_def)
qed (auto simp: new_publisher_def split: if_splits)

section \<open>The bridge keeps the frame\<close>

lemma map_of_dict_update:
  "map_of (dict_update d kvs) k = (case map_of (rev kvs) k of None \<Rightarrow> map_of d k | Some v \<Rightarrow> Some v)"
proof (induction kvs arbitrary: d)
  case (Cons kv kvs)
  obtain a b where kv: "kv = (a, b)" by (cases kv)
  have "map_of (dict_update d (kv # kvs)) k = map_of (dict_update (obj_set d a b) kvs) k"
    by (simp add: dict_update_def kv)
  then show ?case using Cons.IH [of "obj_set d a b"]
    by (auto simp: kv map_of_obj_set map_add_def split: option.split)
qed (simp add: dict_update_def)

text \<open>What a consumer of the replay contract can read back of a live frame.\<close>

definition BRIDGE_KEYS :: "string list" where
  "BRIDGE_KEYS =
     [''origin'', ''provider'', ''connection_id'', ''crc_status'', ''arrival_timestamp'', ''gnss_epoch'']"

text \<open>
  The bridge is lossless (\<open>live_to_phase9\<close> of \<open>bridge.py\<close>). The delivered frame carries the live
  frame's sequence, station, mountpoint, message number and bytes unchanged, the live-only fields can
  be read from its provenance, and every other provenance entry is kept; only \<open>source_type\<close> is
  replaced, by the origin \<open>LIVE_NTRIP\<close>.
\<close>

theorem bridge_lossless:
  "case live_to_phase9 f ts cycle of
     None \<Rightarrow> (case map_of (lf_provenance f) ''capture_id'' of Some (JStr s) \<Rightarrow> False | None \<Rightarrow> False | _ \<Rightarrow> True)
   | Some c \<Rightarrow>
       cf_sequence c = lf_sequence f \<and> cf_station_id c = lf_station_id f \<and>
       cf_mountpoint c = lf_mountpoint f \<and> cf_message_number c = lf_message_number f \<and>
       cf_raw_bytes c = lf_raw_bytes f \<and> cf_source_timestamp c = Some (lf_arrival_timestamp f) \<and>
       cf_replay_timestamp c = ts \<and> cf_cycle c = cycle \<and>
       map_of (cf_provenance c) ''origin'' = Some (JStr ''LIVE_NTRIP'') \<and>
       map_of (cf_provenance c) ''provider'' = Some (JStr (lf_provider f)) \<and>
       map_of (cf_provenance c) ''connection_id'' = Some (JStr (lf_connection_id f)) \<and>
       map_of (cf_provenance c) ''crc_status'' = Some (JStr (lf_crc_status f)) \<and>
       map_of (cf_provenance c) ''arrival_timestamp'' = Some (JStr (lf_arrival_timestamp f)) \<and>
       map_of (cf_provenance c) ''gnss_epoch'' = Some (opt_json JStr (lf_gnss_epoch f)) \<and>
       (\<forall>k. k \<in> set BRIDGE_KEYS \<or> map_of (cf_provenance c) k = map_of (lf_provenance f) k)"
proof -
  let ?p = "dict_update (lf_provenance f) (bridge_keys f)"
  have p: "map_of ?p k = (case map_of (rev (bridge_keys f)) k of None \<Rightarrow> map_of (lf_provenance f) k | Some v \<Rightarrow> Some v)" for k
    by (rule map_of_dict_update)
  have cap: "map_of ?p ''capture_id'' = map_of (lf_provenance f) ''capture_id''"
    unfolding p by (simp add: bridge_keys_def)
  have keep: "k \<in> set BRIDGE_KEYS \<or> map_of ?p k = map_of (lf_provenance f) k" for k
    unfolding p by (auto simp: bridge_keys_def BRIDGE_KEYS_def)
  have six: "map_of ?p ''origin'' = Some (JStr ''LIVE_NTRIP'')"
    "map_of ?p ''provider'' = Some (JStr (lf_provider f))"
    "map_of ?p ''connection_id'' = Some (JStr (lf_connection_id f))"
    "map_of ?p ''crc_status'' = Some (JStr (lf_crc_status f))"
    "map_of ?p ''arrival_timestamp'' = Some (JStr (lf_arrival_timestamp f))"
    "map_of ?p ''gnss_epoch'' = Some (opt_json JStr (lf_gnss_epoch f))"
    unfolding p by (simp_all add: bridge_keys_def)
  show ?thesis
    using six keep
    by (auto simp: live_to_phase9_def Let_def obj_get_def cap split: option.split json.split)
qed

end
