(* ===== verification/Ntrip_Capture.thy ===== *)
theory Ntrip_Capture
  imports Ntrip_Delivery
begin

text \<open>
  The capture writer (\<open>ntrip_ingestion/capture.py\<close>): safe path components, rotation limits, the
  incremental writing of frames and of their arrival index, the manifest, and the recovery of an
  interrupted capture. A directory is its files' contents by name; the clocks, the free disk space
  and the digest are arguments.
\<close>

type_synonym directory = "(string \<times> bytes) list"
type_synonym file_tree = "(string list \<times> directory) list"

section \<open>Path components\<close>

definition safe_path_char :: "char \<Rightarrow> bool" where
  "safe_path_char c \<longleftrightarrow> is_ascii_alpha c \<or> is_digit c \<or> c \<in> set ''._-''"

text \<open>\<open>_UNSAFE.sub("_", s)\<close>: every maximal run of unsafe characters becomes one underscore.\<close>

fun replace_unsafe :: "bool \<Rightarrow> string \<Rightarrow> string" where
  "replace_unsafe in_run [] = []"
| "replace_unsafe in_run (c # cs) =
     (if safe_path_char c then c # replace_unsafe False cs
      else if in_run then replace_unsafe True cs
      else CHR ''_'' # replace_unsafe True cs)"

definition sanitize_identifier :: "string \<Rightarrow> string \<Rightarrow> string" where
  "sanitize_identifier value fallback =
     (let cleaned = strip_chars ''._'' (replace_unsafe False (lstrip_chars ''/'' (str_strip value))) in
      if cleaned = [] \<or> cleaned = ''.'' \<or> cleaned = ''..'' then fallback else take 64 cleaned)"

definition path_component :: "string \<Rightarrow> string" where
  "path_component value = sanitize_identifier value ''unknown''"

section \<open>Rotation limits\<close>

record rotation_policy =
  ro_max_bytes :: "int option"
  ro_max_frames :: "int option"
  ro_max_seconds :: "pyfloat option"
  ro_minimum_free_bytes :: int

definition below_one :: "int option \<Rightarrow> bool" where
  "below_one x = (case x of None \<Rightarrow> False | Some n \<Rightarrow> n < 1)"

definition new_rotation_policy ::
  "int option \<Rightarrow> int option \<Rightarrow> pyfloat option \<Rightarrow> int \<Rightarrow> rotation_policy result"
where
  "new_rotation_policy max_bytes max_frames max_seconds minimum_free_bytes =
     (if below_one max_bytes then Inl (ValueError ''max_bytes must be >= 1'')
      else if below_one max_frames then Inl (ValueError ''max_frames must be >= 1'')
      else if (case max_seconds of None \<Rightarrow> False | Some s \<Rightarrow> f_le s f_zero)
      then Inl (ValueError ''max_seconds must be > 0'')
      else if minimum_free_bytes < 0 then Inl (ValueError ''minimum_free_bytes must be >= 0'')
      else Inr \<lparr>ro_max_bytes = max_bytes, ro_max_frames = max_frames, ro_max_seconds = max_seconds,
                ro_minimum_free_bytes = minimum_free_bytes\<rparr>)"

definition requires_rotation :: "nat \<Rightarrow> nat \<Rightarrow> pyfloat \<Rightarrow> nat \<Rightarrow> rotation_policy \<Rightarrow> bool" where
  "requires_rotation current_bytes current_frames elapsed_seconds next_frame_bytes ro \<longleftrightarrow>
     (case ro_max_bytes ro of None \<Rightarrow> False | Some n \<Rightarrow> n < int (current_bytes + next_frame_bytes)) \<or>
     (case ro_max_frames ro of None \<Rightarrow> False | Some n \<Rightarrow> n \<le> int current_frames) \<or>
     (case ro_max_seconds ro of None \<Rightarrow> False | Some s \<Rightarrow> f_le s elapsed_seconds)"

definition disk_allowed :: "int \<Rightarrow> rotation_policy \<Rightarrow> bool" where
  "disk_allowed free ro \<longleftrightarrow> ro_minimum_free_bytes ro \<le> free"

section \<open>The arrival index\<close>

text \<open>One row as \<open>csv.writer\<close> renders it: fields with a separator, a quote or a line end are quoted.\<close>

definition csv_field :: "string \<Rightarrow> string" where
  "csv_field s =
     (if list_ex (\<lambda>c. c \<in> {CHR '','', CHR 0x22, CHR 0x0A, CHR 0x0D}) s
      then [CHR 0x22] @ concat (map (\<lambda>c. if c = CHR 0x22 then [c, c] else [c]) s) @ [CHR 0x22] else s)"

definition csv_row :: "string list \<Rightarrow> string" where
  "csv_row cells = str_join '','' (map csv_field cells) @ CRLF"

definition INDEX_HEADER :: "string list" where
  "INDEX_HEADER =
     [''sequence'', ''byte_offset'', ''frame_length'', ''arrival_utc'', ''arrival_monotonic_ns'',
      ''message_number'', ''crc_status'', ''frame_sha256'']"

definition index_row :: "arrival_record \<Rightarrow> string list" where
  "index_row a =
     [str_nat (arr_sequence a), str_nat (arr_byte_offset a), str_nat (arr_frame_length a),
      arr_arrival_utc a, str_int (arr_arrival_monotonic_ns a),
      (case arr_message_number a of None \<Rightarrow> [] | Some n \<Rightarrow> str_nat n),
      arr_crc_status a, arr_frame_sha256 a]"

section \<open>The writer\<close>

record capture_facts =
  kf_capture_id :: string
  kf_provider :: string
  kf_caster_host :: string
  kf_caster_port :: int
  kf_mount :: string
  kf_station_mapping :: string
  kf_tls_mode :: string
  kf_authorization_provenance :: string
  kf_software_commit :: string
  kf_source_table_sha256 :: string

record capture_writer =
  cw_path :: "string list"
  cw_facts :: capture_facts
  cw_rotation :: "rotation_policy option"
  cw_start_utc :: string
  cw_start_mono :: pyfloat
  cw_files :: directory
  cw_open :: bool
  cw_bytes :: nat
  cw_valid :: nat
  cw_invalid :: nat
  cw_message_types :: "(string \<times> nat) list"
  cw_disconnects :: nat
  cw_reconnects :: nat
  cw_hashed :: bytes

definition append_file :: "string \<Rightarrow> bytes \<Rightarrow> directory \<Rightarrow> directory" where
  "append_file name bs d = obj_set d name (obj_get d name [] @ bs)"

text \<open>\<open>CaptureWriter.create\<close> with \<open>__init__\<close>; the directory must not exist yet.\<close>

definition writer_create ::
  "(string list \<Rightarrow> bool) \<Rightarrow> string list \<Rightarrow> capture_facts \<Rightarrow> string \<Rightarrow> string \<Rightarrow> rotation_policy option \<Rightarrow>
     string \<Rightarrow> pyfloat \<Rightarrow> capture_writer result"
where
  "writer_create exists base facts date source_table_text rotation now_utc now_mono =
     (let path = base @ [path_component (kf_provider facts), path_component (kf_station_mapping facts), date,
                         path_component (kf_capture_id facts)] in
      if exists path
      then Inl (FileExistsError (''[Errno 17] File exists: '' @ repr_str (str_join ''/'' path)))
      else Inr \<lparr>cw_path = path, cw_facts = facts, cw_rotation = rotation, cw_start_utc = now_utc,
                cw_start_mono = now_mono,
                cw_files = [(''source-table.txt'', encode_text source_table_text), (''stream.rtcm3'', []),
                            (''arrival-index.csv'', encode_text (csv_row INDEX_HEADER))],
                cw_open = True, cw_bytes = 0, cw_valid = 0, cw_invalid = 0, cw_message_types = [],
                cw_disconnects = 0, cw_reconnects = 0, cw_hashed = []\<rparr>)"

definition note_reconnect :: "capture_writer \<Rightarrow> capture_writer" where
  "note_reconnect w = w\<lparr>cw_disconnects := cw_disconnects w + 1, cw_reconnects := cw_reconnects w + 1\<rparr>"

text \<open>The limits, checked before a frame is written; \<open>now\<close> and \<open>free\<close> are the clock and the disk.\<close>

definition limit_check :: "pyfloat \<Rightarrow> int \<Rightarrow> nat \<Rightarrow> capture_writer \<Rightarrow> unit result" where
  "limit_check now free next_bytes w =
     (case cw_rotation w of
        None \<Rightarrow> Inr ()
      | Some ro \<Rightarrow>
          if requires_rotation (cw_bytes w) (cw_valid w + cw_invalid w) (f_sub now (cw_start_mono w)) next_bytes ro
          then Inl (CaptureLimitExceeded ''CAPTURE_ROTATION_REQUIRED'')
          else if \<not> disk_allowed free ro then Inl (CaptureLimitExceeded ''CAPTURE_BLOCKED_DISK_LIMIT'')
          else Inr ())"

definition record_frame :: "bytes \<Rightarrow> arrival_record \<Rightarrow> capture_writer \<Rightarrow> capture_writer" where
  "record_frame raw a w =
     (let passed = arr_crc_status a = ''PASS'' in
      w\<lparr>cw_files := append_file ''arrival-index.csv'' (encode_text (csv_row (index_row a)))
                      (append_file ''stream.rtcm3'' raw (cw_files w)),
        cw_hashed := cw_hashed w @ raw,
        cw_bytes := cw_bytes w + length raw,
        cw_valid := (if passed then cw_valid w + 1 else cw_valid w),
        cw_invalid := (if passed then cw_invalid w else cw_invalid w + 1),
        cw_message_types := (case arr_message_number a of
            None \<Rightarrow> cw_message_types w
          | Some n \<Rightarrow> count_key (cw_message_types w) (str_nat n))\<rparr>)"

definition write_frame ::
  "pyfloat \<Rightarrow> int \<Rightarrow> bytes \<Rightarrow> arrival_record \<Rightarrow> capture_writer \<Rightarrow> unit result \<times> capture_writer"
where
  "write_frame now free raw a w =
     (case limit_check now free (length raw) w of
        Inl e \<Rightarrow> (Inl e, w)
      | Inr _ \<Rightarrow>
          if \<not> cw_open w then (Inl (ValueError ''write to closed file''), w)
          else (Inr (), record_frame raw a w))"

section \<open>Manifests\<close>

text \<open>\<open>json.dumps(v, indent=2, sort_keys=True)\<close>, with the depth of the value.\<close>

definition json_block :: "nat \<Rightarrow> string \<Rightarrow> string \<Rightarrow> string list \<Rightarrow> string" where
  "json_block depth opening closing items =
     (if items = [] then opening @ closing
      else
        let line = CHR 0x0A # replicate (2 * (depth + 1)) (CHR '' '')
        in opening @ line @ str_join ('','' @ line) items @ [CHR 0x0A] @
           replicate (2 * depth) (CHR '' '') @ closing)"

fun json_pretty :: "nat \<Rightarrow> json \<Rightarrow> string" where
  "json_pretty depth (JArr vs) = json_block depth ''['' '']'' (map (json_pretty (depth + 1)) vs)"
| "json_pretty depth (JObj ms) =
     json_block depth ''{'' ''}'' (map (\<lambda>m. json_text (fst m) @ '': '' @ snd m)
       (sort_key fst (map (\<lambda>m. case m of (k, v) \<Rightarrow> (k, json_pretty (depth + 1) v)) ms)))"
| "json_pretty depth v = json_dumps v"

definition manifest_text :: "(string \<times> json) list \<Rightarrow> bytes" where
  "manifest_text payload = encode_text (json_pretty 0 (JObj payload) @ [CHR 0x0A])"

definition MANIFEST_NAMES :: "string list" where
  "MANIFEST_NAMES = [''stream.rtcm3'', ''arrival-index.csv'', ''source-table.txt'', ''capture.json'']"

definition sums_line :: "(bytes \<Rightarrow> string) \<Rightarrow> string \<Rightarrow> bytes \<Rightarrow> string" where
  "sums_line sha name content = sha content @ ''  '' @ name @ [CHR 0x0A]"

text \<open>The lines for the files that are there.\<close>

definition sums_text :: "(bytes \<Rightarrow> string) \<Rightarrow> directory \<Rightarrow> string" where
  "sums_text sha d =
     concat (map (\<lambda>name. case map_of d name of None \<Rightarrow> [] | Some c \<Rightarrow> sums_line sha name c) MANIFEST_NAMES)"

definition writer_metadata ::
  "(bytes \<Rightarrow> string) \<Rightarrow> string \<Rightarrow> pyfloat \<Rightarrow> string \<Rightarrow> capture_writer \<Rightarrow> capture_metadata"
where
  "writer_metadata sha end_utc now status w =
     (let f = cw_facts w in
      \<lparr>cm_capture_id = kf_capture_id f, cm_provider = kf_provider f, cm_caster_host = kf_caster_host f,
       cm_caster_port = kf_caster_port f, cm_mountpoint = kf_mount f,
       cm_station_mapping = kf_station_mapping f, cm_start_utc = cw_start_utc w, cm_end_utc = end_utc,
       cm_duration_s = f_sub now (cw_start_mono w), cm_bytes_received = cw_bytes w,
       cm_valid_frames = cw_valid w, cm_invalid_frames = cw_invalid w,
       cm_observed_message_types = sort (map fst (cw_message_types w)),
       cm_disconnects = cw_disconnects w, cm_reconnects = cw_reconnects w, cm_tls_mode = kf_tls_mode f,
       cm_software_commit = kf_software_commit f, cm_source_table_sha256 = kf_source_table_sha256 f,
       cm_stream_sha256 = sha (cw_hashed w),
       cm_authorization_provenance = kf_authorization_provenance f, cm_capture_status = status\<rparr>)"

definition CAPTURE_STATUSES :: "string list" where
  "CAPTURE_STATUSES = [''COMPLETE'', ''PARTIAL'', ''FAILED'']"

definition writer_close ::
  "(bytes \<Rightarrow> string) \<Rightarrow> string \<Rightarrow> pyfloat \<Rightarrow> string \<Rightarrow> capture_writer \<Rightarrow> capture_metadata result \<times> capture_writer"
where
  "writer_close sha end_utc now status w =
     (if status \<notin> set CAPTURE_STATUSES
      then (Inl (ValueError (''unknown capture status: '' @ status)), w)
      else
        let metadata = writer_metadata sha end_utc now status w;
            files = obj_set (cw_files w) ''capture.json'' (manifest_text (metadata_as_dict metadata))
        in (Inr metadata,
            w\<lparr>cw_open := False,
              cw_files := obj_set files ''SHA256SUMS.txt'' (encode_text (sums_text sha files))\<rparr>))"

section \<open>Recovery\<close>

definition find_incomplete_captures :: "file_tree \<Rightarrow> string list list" where
  "find_incomplete_captures tree =
     map fst (filter (\<lambda>(p, d). map_of d ''capture.json'' = None)
       (sort_key (\<lambda>(p, d). p @ [''stream.rtcm3''])
         (filter (\<lambda>(p, d). map_of d ''stream.rtcm3'' \<noteq> None) tree)))"

text \<open>\<open>load\<close> is \<open>json.loads\<close> on the text of an existing manifest.\<close>

definition recover_incomplete_capture ::
  "(bytes \<Rightarrow> string) \<Rightarrow> (bytes \<Rightarrow> json result) \<Rightarrow> string \<Rightarrow> string list \<Rightarrow> directory \<Rightarrow>
     (string \<times> json) list result \<times> directory"
where
  "recover_incomplete_capture sha load now path d =
     (case map_of d ''capture.json'' of
        Some text \<Rightarrow>
          (case load text of
             Inl e \<Rightarrow> (Inl e, d)
           | Inr (JObj ms) \<Rightarrow> (Inr ms, d)
           | Inr _ \<Rightarrow> (Inl (ValueError (''Invalid capture metadata object: '' @
                          str_join ''/'' (path @ [''capture.json'']))), d))
      | None \<Rightarrow>
          (case map_of d ''stream.rtcm3'' of
             None \<Rightarrow> (Inl (FileNotFoundError (str_join ''/'' (path @ [''stream.rtcm3'']))), d)
           | Some raw \<Rightarrow>
               let payload =
                 [(''capture_id'', JStr (last path)), (''capture_status'', JStr ''PARTIAL''),
                  (''interruption_reason'', JStr ''PROCESS_INTERRUPTED''), (''start_utc'', JNull),
                  (''end_utc'', JStr now), (''bytes_received'', JInt (int (length raw))),
                  (''valid_frames'', JNull), (''invalid_frames'', JNull),
                  (''stream_sha256'', JStr (sha raw)), (''raw_bytes_preserved'', JBool True),
                  (''scientific_validation'', JStr ''DEFERRED_TO_PHASE9'')];
                   d1 = obj_set d ''capture.json'' (manifest_text payload)
               in (Inr payload, obj_set d1 ''SHA256SUMS.txt'' (encode_text (sums_text sha d1)))))"

section \<open>Safe components\<close>

lemma replace_unsafe_safe: "c \<in> set (replace_unsafe b s) \<Longrightarrow> safe_path_char c"
  by (induction b s rule: replace_unsafe.induct) (auto simp: safe_path_char_def split: if_splits)

text \<open>
  Capture paths are confined (\<open>sanitize_identifier\<close> of \<open>capture.py\<close>). Whatever provider, station
  or capture name a caster or a caller supplies, its path component is one to 64 letters, digits, dots,
  underscores and hyphens and starts with none of the dot and the underscore, so it is neither a
  separator, nor the current, nor the parent directory.
\<close>

theorem path_component_confined:
  "path_component value \<noteq> [] \<and> length (path_component value) \<le> 64 \<and>
   list_all safe_path_char (path_component value) \<and> CHR ''/'' \<notin> set (path_component value) \<and>
   hd (path_component value) \<notin> set ''._''"
proof -
  let ?raw = "replace_unsafe False (lstrip_chars ''/'' (str_strip value))"
  let ?c = "strip_chars ''._'' ?raw"
  have safe: "safe_path_char x" if "x \<in> set ?c" for x
    using that strip_chars_set [of "''._''" ?raw] replace_unsafe_safe by blast
  have slash: "\<not> safe_path_char (CHR ''/'')"
    by (simp add: safe_path_char_def is_ascii_alpha_def is_digit_def)
  show ?thesis
  proof (cases "?c = [] \<or> ?c = ''.'' \<or> ?c = ''..''")
    case True
    then have "path_component value = ''unknown''"
      unfolding path_component_def sanitize_identifier_def Let_def by (simp only: if_True)
    then show ?thesis by (simp add: safe_path_char_def is_ascii_alpha_def is_digit_def)
  next
    case False
    then have v: "path_component value = take 64 ?c"
      unfolding path_component_def sanitize_identifier_def Let_def by (simp only: if_False)
    have ne: "?c \<noteq> []" using False by blast
    then have "take 64 ?c \<noteq> []" "hd (take 64 ?c) = hd ?c" by (cases ?c; simp)+
    moreover have "list_all safe_path_char (take 64 ?c)"
      using safe by (auto simp: list_all_iff dest: in_set_takeD)
    moreover have "CHR ''/'' \<notin> set (take 64 ?c)"
      using safe slash by (metis in_set_takeD)
    ultimately show ?thesis using strip_chars_hd [OF ne] unfolding v by simp
  qed
qed

section \<open>What a capture holds\<close>

lemma obj_get_append_file:
  "obj_get (append_file name bs d) k [] = (if k = name then obj_get d name [] @ bs else obj_get d k [])"
  by (simp add: append_file_def obj_get_set)

text \<open>Writing a list of frames; it stops at the first exception.\<close>

fun write_frames ::
  "pyfloat \<Rightarrow> int \<Rightarrow> (bytes \<times> arrival_record) list \<Rightarrow> capture_writer \<Rightarrow> unit result \<times> capture_writer"
where
  "write_frames now free [] w = (Inr (), w)"
| "write_frames now free ((raw, a) # fs) w =
     (case write_frame now free raw a w of
        (Inl e, w1) \<Rightarrow> (Inl e, w1)
      | (Inr _, w1) \<Rightarrow> write_frames now free fs w1)"

text \<open>
  What the writer has counted is what the files hold: \<open>written\<close> are the frames so far, in order.
\<close>

definition captured :: "(bytes \<times> arrival_record) list \<Rightarrow> capture_writer \<Rightarrow> bool" where
  "captured written w \<longleftrightarrow>
     obj_get (cw_files w) ''stream.rtcm3'' [] = concat (map fst written) \<and>
     obj_get (cw_files w) ''arrival-index.csv'' [] =
       encode_text (csv_row INDEX_HEADER @ concat (map (\<lambda>(raw, a). csv_row (index_row a)) written)) \<and>
     cw_hashed w = concat (map fst written) \<and> cw_bytes w = length (concat (map fst written)) \<and>
     cw_valid w = length (filter (\<lambda>(raw, a). arr_crc_status a = ''PASS'') written) \<and>
     cw_invalid w = length (filter (\<lambda>(raw, a). arr_crc_status a \<noteq> ''PASS'') written)"

lemma writer_create_captured:
  "writer_create exists base facts date text rot utc now = Inr w \<Longrightarrow>
     captured [] w \<and> cw_open w \<and> cw_rotation w = rot"
  by (auto simp: writer_create_def captured_def obj_get_def Let_def split: if_splits)

lemma encode_text_append [simp]: "encode_text (s @ t) = encode_text s @ encode_text t"
  by (simp add: encode_text_def)

lemma record_frame_captured:
  assumes "captured written w"
  shows "captured (written @ [(raw, a)]) (record_frame raw a w)"
  using assms by (auto simp: captured_def record_frame_def Let_def obj_get_append_file)

lemma record_frame_simps [simp]:
  "cw_open (record_frame raw a w) = cw_open w" "cw_rotation (record_frame raw a w) = cw_rotation w"
  "cw_facts (record_frame raw a w) = cw_facts w" "cw_path (record_frame raw a w) = cw_path w"
  "cw_bytes (record_frame raw a w) = cw_bytes w + length raw"
  by (simp_all add: record_frame_def Let_def)

text \<open>A frame that raises leaves the capture as it was.\<close>

lemma write_frame_cases:
  obtains (written) "write_frame now free raw a w = (Inr (), record_frame raw a w)" "cw_open w"
  | (refused) e where "write_frame now free raw a w = (Inl e, w)"
  by (cases "limit_check now free (length raw) w"; cases "cw_open w") (auto simp: write_frame_def)

lemma write_frames_captured:
  "captured written w \<Longrightarrow> cw_open w \<Longrightarrow>
     \<exists>n. captured (written @ take n fs) (snd (write_frames now free fs w)) \<and>
         cw_open (snd (write_frames now free fs w)) \<and>
         (fst (write_frames now free fs w) = Inr () \<longrightarrow> n = length fs)"
proof (induction now free fs w arbitrary: written rule: write_frames.induct)
  case (2 now free raw a fs w)
  show ?case
  proof (cases rule: write_frame_cases [of now free raw a w])
    case written
    let ?w = "record_frame raw a w"
    obtain n where "captured ((written @ [(raw, a)]) @ take n fs) (snd (write_frames now free fs ?w))"
        "cw_open (snd (write_frames now free fs ?w))"
        "fst (write_frames now free fs ?w) = Inr () \<longrightarrow> n = length fs"
      using "2.IH" [OF written(1) [symmetric] refl, of "written @ [(raw, a)]"] 2(3) written
        record_frame_captured [OF "2.prems"(1), of raw a] by auto
    then show ?thesis using written by (intro exI [of _ "Suc n"]) auto
  next
    case (refused e)
    then show ?thesis using "2.prems" by (intro exI [of _ 0]) auto
  qed
qed auto

lemma writer_close_file:
  "status \<in> set CAPTURE_STATUSES \<Longrightarrow> name \<noteq> ''capture.json'' \<Longrightarrow> name \<noteq> ''SHA256SUMS.txt'' \<Longrightarrow>
     map_of (cw_files (snd (writer_close sha utc now status w))) name = map_of (cw_files w) name"
  by (auto simp: writer_close_def Let_def map_of_obj_set)

end
