(* ===== verification/Ntrip_Client.thy ===== *)
theory Ntrip_Client
  imports Ntrip_Capture Rtcm_Streaming Bounded_Buffer
begin

text \<open>
  The live client (\<open>ntrip_ingestion/client.py\<close>): admission of the stream, the source-table fetch, the
  probe, and the capture with its two loops, reconnects, quarantine, buffer and metrics.

  The network, the clocks and the shutdown request are a \<open>world\<close>: the outcome of the n-th dial, send
  and receive, the n-th reading of the monotonic clock, of the arrival clocks and of the shutdown
  flag. The client carries the number of each that it has consumed, so a world fixes a run. A loop
  takes fuel and returns \<open>None\<close> when it runs out of it.
\<close>

section \<open>The world and the client\<close>

datatype net_error = Net_Timeout string | Net_Error string

fun net_exception :: "net_error \<Rightarrow> py_error" where
  "net_exception (Net_Timeout m) = ReadTimeout m"
| "net_exception (Net_Error m) = ConnectionLost m"

record world =
  wd_dial :: "nat \<Rightarrow> net_error option"
  wd_send :: "nat \<Rightarrow> net_error option"
  wd_recv :: "nat \<Rightarrow> net_error + bytes"
  wd_mono :: "nat \<Rightarrow> pyfloat"
  wd_arrival :: "nat \<Rightarrow> int \<times> string"
  wd_shutdown :: "nat \<Rightarrow> bool"
  wd_connection_id :: "nat \<Rightarrow> string"

record client =
  cl_state :: connection_state
  cl_transitions :: "connection_state list"
  cl_metrics :: stream_metrics
  cl_global_sequence :: nat
  cl_connection_id :: string
  cl_dials :: nat
  cl_sends :: nat
  cl_recvs :: nat
  cl_clock :: nat
  cl_arrivals :: nat
  cl_flags :: nat

definition set_state :: "connection_state \<Rightarrow> 'a client_scheme \<Rightarrow> 'a client_scheme" where
  "set_state st c = c\<lparr>cl_state := st, cl_transitions := cl_transitions c @ [st]\<rparr>"

definition new_client :: client where
  "new_client = set_state CS_DISCONNECTED
     \<lparr>cl_state = CS_DISCONNECTED, cl_transitions = [], cl_metrics = no_metrics, cl_global_sequence = 0,
      cl_connection_id = [], cl_dials = 0, cl_sends = 0, cl_recvs = 0, cl_clock = 0, cl_arrivals = 0,
      cl_flags = 0\<rparr>"

definition client_dial :: "world \<Rightarrow> 'a client_scheme \<Rightarrow> net_error option \<times> 'a client_scheme" where
  "client_dial w c = (wd_dial w (cl_dials c), c\<lparr>cl_dials := cl_dials c + 1\<rparr>)"

definition client_send :: "world \<Rightarrow> 'a client_scheme \<Rightarrow> net_error option \<times> 'a client_scheme" where
  "client_send w c = (wd_send w (cl_sends c), c\<lparr>cl_sends := cl_sends c + 1\<rparr>)"

definition client_recv :: "world \<Rightarrow> 'a client_scheme \<Rightarrow> (net_error + bytes) \<times> 'a client_scheme" where
  "client_recv w c = (wd_recv w (cl_recvs c), c\<lparr>cl_recvs := cl_recvs c + 1\<rparr>)"

definition monotonic :: "world \<Rightarrow> 'a client_scheme \<Rightarrow> pyfloat \<times> 'a client_scheme" where
  "monotonic w c = (wd_mono w (cl_clock c), c\<lparr>cl_clock := cl_clock c + 1\<rparr>)"

definition shutdown_requested :: "world \<Rightarrow> 'a client_scheme \<Rightarrow> bool \<times> 'a client_scheme" where
  "shutdown_requested w c = (wd_shutdown w (cl_flags c), c\<lparr>cl_flags := cl_flags c + 1\<rparr>)"

section \<open>Metrics\<close>

text \<open>A \<open>StreamMetrics\<close> built from the fields that the client carries over; the others restart.\<close>

definition carry_metrics :: "stream_metrics \<Rightarrow> stream_metrics" where
  "carry_metrics m =
     m\<lparr>mt_active_connection := False, mt_frames_per_second := f_zero, mt_bytes_per_second := f_zero,
       mt_last_valid_frame_age_s := None, mt_captures_opened := 0, mt_captures_finalized := 0,
       mt_partial_captures := 0, mt_disk_limit_events := 0\<rparr>"

definition attempted_metrics :: "nat \<Rightarrow> nat \<Rightarrow> stream_metrics \<Rightarrow> stream_metrics" where
  "attempted_metrics reconnects idle m =
     (carry_metrics m)\<lparr>mt_connections_attempted := mt_connections_attempted m + 1,
       mt_reconnects := reconnects, mt_idle_events := idle\<rparr>"

definition connected_metrics :: "nat \<Rightarrow> nat \<Rightarrow> stream_metrics \<Rightarrow> stream_metrics" where
  "connected_metrics reconnects idle m =
     (carry_metrics m)\<lparr>mt_connections_successful := mt_connections_successful m + 1,
       mt_reconnects := reconnects, mt_idle_events := idle\<rparr>"

definition refused_metrics :: "nat \<Rightarrow> stream_metrics \<Rightarrow> stream_metrics" where
  "refused_metrics attempted m =
     no_metrics\<lparr>mt_connections_attempted := attempted,
       mt_authentication_failures := mt_authentication_failures m + 1\<rparr>"

definition frame_metrics :: "nat \<Rightarrow> nat \<Rightarrow> streamed_frame \<Rightarrow> stream_metrics \<Rightarrow> stream_metrics" where
  "frame_metrics reconnects idle f m =
     (carry_metrics m)\<lparr>mt_reconnects := reconnects, mt_idle_events := idle,
       mt_bytes_received := mt_bytes_received m + length (sfr_raw f),
       mt_frames_received := mt_frames_received m + 1,
       mt_frames_crc_valid := mt_frames_crc_valid m + (if sfr_crc_ok f then 1 else 0),
       mt_frames_crc_invalid := mt_frames_crc_invalid m + (if sfr_crc_ok f then 0 else 1),
       mt_message_type_counts := (case sfr_message_number f of
           None \<Rightarrow> mt_message_type_counts m
         | Some n \<Rightarrow> count_key (mt_message_type_counts m) (str_nat n))\<rparr>"

section \<open>Reading the response head\<close>

function read_head_loop ::
  "world \<Rightarrow> int \<Rightarrow> bytes \<Rightarrow> 'a client_scheme \<Rightarrow> (string \<times> bytes) result \<times> 'a client_scheme"
where
  "read_head_loop w max_header data c =
     (case client_recv w c of
        (Inl (Net_Timeout m), c1) \<Rightarrow> (Inl (ReadTimeout ''handshake timeout''), c1)
      | (Inl (Net_Error m), c1) \<Rightarrow> (Inl (ConnectionLost m), c1)
      | (Inr chunk, c1) \<Rightarrow>
          if chunk = [] then (Inr (if data = [] then [] else fst (parse_head data), []), c1)
          else
            case split_head (data @ chunk) max_header of
              Some (head, rest) \<Rightarrow> (Inr (fst (parse_head head), rest), c1)
            | None \<Rightarrow>
                if max_header < int (length (data @ chunk))
                then (Inl (ValueError ''response header exceeds max_header_bytes''), c1)
                else read_head_loop w max_header (data @ chunk) c1)"
  by pat_completeness auto
termination
  by (relation "measure (\<lambda>(w, max_header, data, c). nat (max_header + 1 - int (length data)))") auto

declare read_head_loop.simps [simp del]

text \<open>\<open>settimeout(max(0.1, deadline_s - time.monotonic()))\<close> reads the clock once.\<close>

definition read_head :: "world \<Rightarrow> ntrip_config \<Rightarrow> 'a client_scheme \<Rightarrow> (string \<times> bytes) result \<times> 'a client_scheme"
where
  "read_head w cfg c = read_head_loop w (nc_max_header_bytes cfg) [] (snd (monotonic w c))"

section \<open>Admission and dry run\<close>

definition nav_systems_of :: "string \<Rightarrow> string list" where
  "nav_systems_of s =
     (let parts = filter (\<lambda>p. p \<noteq> []) (split_on (CHR ''+'') s)
      in if parts \<noteq> [] then parts else [str_strip s])"

definition admit_for_stream ::
  "string \<Rightarrow> ntrip_config \<Rightarrow> (string \<times> string) list \<Rightarrow> source_table option \<Rightarrow> mountpoint_admission"
where
  "admit_for_stream provider cfg registry table =
     (let mapping = map_station (nc_mountpoint cfg) registry in
      case table of
        None \<Rightarrow> admit_mountpoint provider cfg ''unavailable'' [] False (nc_username cfg \<noteq> []) mapping
      | Some t \<Rightarrow>
          (case find_stream t (nc_mountpoint cfg) of
             None \<Rightarrow>
               \<lparr>ma_provider = provider, ma_caster_host = nc_host cfg, ma_caster_port = nc_port cfg,
                ma_mountpoint = nc_mountpoint cfg, ma_station_mapping = sm_station_id mapping,
                ma_source_table_format = ''NTRIP-STR'', ma_gnss_systems = [], ma_requires_nmea = False,
                ma_authentication_mode = ''unknown'',
                ma_configured_authorization = (if nc_username cfg \<noteq> [] then ''configured'' else ''anonymous''),
                ma_admission_status = AS_REJECT, ma_reason_codes = [''MOUNTPOINT_NOT_IN_SOURCE_TABLE'']\<rparr>
           | Some e \<Rightarrow>
               admit_mountpoint provider cfg (if se_format e \<noteq> [] then se_format e else ''NTRIP-STR'')
                 (nav_systems_of (se_nav_systems e)) (stream_requires_nmea e) (stream_needs_auth e) mapping))"

definition dry_run :: "string \<Rightarrow> ntrip_config \<Rightarrow> (string \<times> string) list \<Rightarrow> json result" where
  "dry_run provider cfg registry =
     bind_result (ntrip_validate cfg) (\<lambda>problems.
       let mapping = map_station (nc_mountpoint cfg) registry;
           admission = admit_mountpoint provider cfg ''not-fetched(dry-run)'' [] False
             (nc_username cfg \<noteq> []) mapping
       in Inr (JObj [(''dry_run'', JBool True), (''connectivity_claimed'', JBool False),
                     (''config_problems'', JArr (map JStr problems)),
                     (''admission'', JObj (admission_as_dict admission)),
                     (''mapping'', JObj (mapping_as_dict mapping))]))"

section \<open>The source table\<close>

text \<open>
  The reading loop: until the deadline, a timeout, the end of the stream, the size limit or the end
  marker. \<open>deadline\<close> is a clock value.
\<close>

function table_read_loop ::
  "world \<Rightarrow> ntrip_config \<Rightarrow> pyfloat \<Rightarrow> bytes \<Rightarrow> 'a client_scheme \<Rightarrow> bytes result \<times> 'a client_scheme"
where
  "table_read_loop w cfg deadline data c =
     (case monotonic w c of
        (now, c1) \<Rightarrow>
          if \<not> f_lt now deadline then (Inr data, c1)
          else
            case client_recv w c1 of
              (Inl (Net_Timeout m), c2) \<Rightarrow> (Inr data, c2)
            | (Inl (Net_Error m), c2) \<Rightarrow> (Inl (ConnectionLost m), c2)
            | (Inr chunk, c2) \<Rightarrow>
                let data1 = data @ chunk in
                if chunk = [] \<or> nc_max_sourcetable_bytes cfg + 8192 < int (length data1) \<or>
                   find_sub (encode_text ''ENDSOURCETABLE'') data1 \<noteq> None
                then (Inr data1, c2)
                else table_read_loop w cfg deadline data1 c2)"
  by pat_completeness auto
termination
  by (relation "measure (\<lambda>(w, cfg, deadline, data, c). nat (nc_max_sourcetable_bytes cfg + 8193 - int (length data)))")
    auto

declare table_read_loop.simps [simp del]

text \<open>\<open>decode\<close> is the UTF-8 decoder with replacement; \<open>body[:n]\<close> of a negative \<open>n\<close> cuts at the end.\<close>

definition slice_to :: "int \<Rightarrow> 'a list \<Rightarrow> 'a list" where
  "slice_to n xs = (if 0 \<le> n then take (nat n) xs else take (nat (int (length xs) + n)) xs)"

definition table_body :: "ntrip_config \<Rightarrow> bytes \<Rightarrow> bytes" where
  "table_body cfg data =
     slice_to (nc_max_sourcetable_bytes cfg)
       (case split_head data (nc_max_header_bytes cfg) of None \<Rightarrow> data | Some (head, rest) \<Rightarrow> rest)"

definition fetch_sourcetable ::
  "(bytes \<Rightarrow> string) \<Rightarrow> (bytes \<Rightarrow> string) \<Rightarrow> world \<Rightarrow> string \<Rightarrow> ntrip_config \<Rightarrow> client \<Rightarrow>
     (source_table \<times> json) result \<times> client"
where
  "fetch_sourcetable sha decode w provider cfg c =
     (let c1 = set_state CS_CONNECTING c;
          c2 = c1\<lparr>cl_metrics := no_metrics\<lparr>mt_connections_attempted := mt_connections_attempted (cl_metrics c1) + 1\<rparr>\<rparr>
      in case client_dial w c2 of
           (Some e, c3) \<Rightarrow> (Inl (net_exception e), c3)
         | (None, c3) \<Rightarrow>
             (case client_send w (set_state CS_AUTHENTICATING c3) of
                (Some e, c4) \<Rightarrow> (Inl (net_exception e), c4)
              | (None, c4) \<Rightarrow>
                  (case monotonic w c4 of
                     (now, c5) \<Rightarrow>
                       (case table_read_loop w cfg (f_add now (nc_handshake_timeout_s cfg)) [] c5 of
                          (Inl e, c6) \<Rightarrow> (Inl e, c6)
                        | (Inr data, c6) \<Rightarrow>
                            let body = table_body cfg data;
                                table = parse_sourcetable sha (decode body)
                                  (nat (nc_max_sourcetable_bytes cfg)) 10000;
                                m = cl_metrics c6;
                                c7 = set_state CS_STOPPED (c6\<lparr>cl_metrics :=
                                  no_metrics\<lparr>mt_connections_attempted := mt_connections_attempted m,
                                    mt_connections_successful := mt_connections_successful m + 1,
                                    mt_bytes_received := mt_bytes_received m + length body\<rparr>\<rparr>)
                            in (Inr (table, JObj
                                 [(''caster'', JStr (nc_host cfg @ '':'' @ str_int (nc_port cfg))),
                                  (''sha256'', JStr (tb_sha256 table)),
                                  (''streams'', JInt (int (length (tb_streams table)))),
                                  (''provider'', JStr provider)]), c7)))))"

section \<open>A shutdown request\<close>

text \<open>
  \<open>request_shutdown\<close> runs in another thread. It sets the flag, which the world reports, records a
  \<open>STOPPED\<close> state, and shuts the active socket, which makes a receive of the world fail. No operation
  reads the recorded states back, so the marks of any number of requests only show up in the trace:
  \<open>requests i\<close> of them in front of the i-th state that the client's own thread records.
\<close>

definition request_shutdown :: "'a client_scheme \<Rightarrow> 'a client_scheme" where
  "request_shutdown c = set_state CS_STOPPED c"

fun with_requests :: "(nat \<Rightarrow> nat) \<Rightarrow> nat \<Rightarrow> connection_state list \<Rightarrow> connection_state list" where
  "with_requests requests i [] = replicate (requests i) CS_STOPPED"
| "with_requests requests i (st # sts) =
     replicate (requests i) CS_STOPPED @ st # with_requests requests (Suc i) sts"

end
