(* ===== verification/Ntrip_Live.thy ===== *)
theory Ntrip_Live
  imports Ntrip_Client
begin

text \<open>
  The bounded capture of \<open>client.py\<close> (\<open>capture_stream\<close>): the outer loop over connections, the inner
  loop over reads, the handling of each frame, the final metrics and the closing of the writer.
\<close>

section \<open>The state of a capture\<close>

text \<open>What a capture does not change: the local variables set before the loop.\<close>

record live_setup =
  ls_config :: ntrip_config
  ls_provider :: string
  ls_basis :: string
  ls_git_commit :: string
  ls_capture_id :: string
  ls_station_id :: string
  ls_admission :: mountpoint_admission
  ls_policy :: reconnect_policy
  ls_budget_s :: pyfloat
  ls_budget_b :: int
  ls_start :: pyfloat
  ls_sha :: "bytes \<Rightarrow> string"
  ls_free_disk :: int

text \<open>The client together with the variables of the loops.\<close>

record live_run = client +
  lr_writer :: capture_writer
  lr_buffer :: "live_frame bounded_buffer"
  lr_recorder :: arrival_recorder
  lr_forwarded :: nat
  lr_attempts :: nat
  lr_reconnects :: nat
  lr_idle_events :: nat
  lr_status :: string
  lr_last_valid :: "pyfloat option"
  lr_limit_hit :: bool

definition status_by_bytes :: "live_run \<Rightarrow> string" where
  "status_by_bytes r = (if cw_bytes (lr_writer r) \<noteq> 0 then ''PARTIAL'' else ''FAILED'')"

definition over_budget :: "live_setup \<Rightarrow> pyfloat \<Rightarrow> live_run \<Rightarrow> bool" where
  "over_budget s now r \<longleftrightarrow>
     f_le (ls_budget_s s) (f_sub now (ls_start s)) \<or> ls_budget_b s \<le> int (cw_bytes (lr_writer r))"

section \<open>One frame\<close>

text \<open>\<open>recorder.next\<close> and \<open>_with_global_sequence\<close>\<close>

definition stamp_frame :: "world \<Rightarrow> streamed_frame \<Rightarrow> live_run \<Rightarrow> arrival_record \<times> live_run" where
  "stamp_frame w f r =
     (let (mono_ns, utc) = wd_arrival w (cl_arrivals r);
          (a, rec) = recorder_next mono_ns utc (sfr_byte_offset f) (length (sfr_raw f)) (sfr_message_number f)
            (if sfr_crc_ok f then ''PASS'' else ''FAIL'') (sfr_frame_sha256 f) (lr_recorder r)
      in (a\<lparr>arr_sequence := cl_global_sequence r\<rparr>,
          r\<lparr>cl_arrivals := cl_arrivals r + 1, cl_global_sequence := cl_global_sequence r + 1,
            lr_recorder := rec\<rparr>))"

definition live_of_frame :: "live_setup \<Rightarrow> streamed_frame \<Rightarrow> arrival_record \<Rightarrow> live_run \<Rightarrow> live_frame" where
  "live_of_frame s f a r =
     \<lparr>lf_sequence = arr_sequence a, lf_source_type = ''LIVE_NTRIP'', lf_provider = ls_provider s,
      lf_station_id = ls_station_id s, lf_mountpoint = nc_mountpoint (ls_config s),
      lf_message_number = sfr_message_number f, lf_raw_bytes = sfr_raw f, lf_crc_status = ''PASS'',
      lf_arrival_timestamp = arr_arrival_utc a, lf_gnss_epoch = None,
      lf_connection_id = cl_connection_id r,
      lf_provenance = provenance_envelope (ls_git_commit s) (ls_capture_id s) (ls_provider s)
        (if ls_basis s \<noteq> [] then ls_basis s else ''anonymous'') (ls_config s)
        (admission_status_str (ma_admission_status (ls_admission s))) None\<rparr>"

text \<open>
  \<open>try_put\<close>, and when the buffer is full one frame is drained to the consumer first; the wait or drop
  is counted here although \<open>try_put\<close> has counted it already.
\<close>

definition enqueue_live :: "live_frame \<Rightarrow> live_run \<Rightarrow> unit result \<times> live_run" where
  "enqueue_live live r =
     (case try_put live (lr_buffer r) of
        (True, b) \<Rightarrow> (Inr (), r\<lparr>lr_buffer := b\<rparr>)
      | (False, b) \<Rightarrow>
          if bb_policy b = BP_DROP_NEWEST_EXPLICIT then
            (Inr (), r\<lparr>lr_buffer := b\<lparr>bb_dropped_frames := bb_dropped_frames b + 1\<rparr>\<rparr>)
          else
            case take_item (b\<lparr>bb_buffer_waits := bb_buffer_waits b + 1\<rparr>) of
              (drained, b1) \<Rightarrow>
                let r1 = r\<lparr>lr_buffer := b1,
                           lr_forwarded := (if drained \<noteq> None then lr_forwarded r + 1 else lr_forwarded r)\<rparr>
                in case force_put live b1 of
                     Inl e \<Rightarrow> (Inl e, r1)
                   | Inr b2 \<Rightarrow> (Inr (), r1\<lparr>lr_buffer := b2\<rparr>))"

definition raise_mark :: "live_run \<Rightarrow> live_run" where
  "raise_mark r =
     (if mt_buffer_high_water_mark (cl_metrics r) < occupancy (lr_buffer r)
      then r\<lparr>cl_metrics := (carry_metrics (cl_metrics r))\<lparr>mt_buffer_high_water_mark := occupancy (lr_buffer r)\<rparr>\<rparr>
      else r)"

text \<open>
  What a frame does to the capture. The writer of a live capture has no rotation policy, so the clock
  and the disk that \<open>write_frame\<close> would look at are arguments that do not matter. \<open>Inr False\<close> ends the loop over the frames of one read, as the
  \<open>break\<close> after a limit does.
\<close>

definition limit_reached :: "string \<Rightarrow> live_run \<Rightarrow> live_run" where
  "limit_reached msg r =
     (let r1 = set_state CS_DEGRADED (r\<lparr>lr_status := ''PARTIAL'', lr_limit_hit := True\<rparr>)
      in if msg = ''CAPTURE_BLOCKED_DISK_LIMIT''
         then r1\<lparr>cl_metrics := (cl_metrics r1)\<lparr>mt_disk_limit_events := mt_disk_limit_events (cl_metrics r1) + 1\<rparr>\<rparr>
         else r1)"

definition handle_frame :: "world \<Rightarrow> live_setup \<Rightarrow> streamed_frame \<Rightarrow> live_run \<Rightarrow> bool result \<times> live_run" where
  "handle_frame w s f r =
     (case stamp_frame w f r of
        (a, r1) \<Rightarrow>
          (case write_frame (ls_start s) (ls_free_disk s) (sfr_raw f) a (lr_writer r1) of
             (Inl (CaptureLimitExceeded msg), wr) \<Rightarrow> (Inr False, limit_reached msg (r1\<lparr>lr_writer := wr\<rparr>))
           | (Inl e, wr) \<Rightarrow> (Inl e, r1\<lparr>lr_writer := wr\<rparr>)
           | (Inr _, wr) \<Rightarrow>
               let r2 = r1\<lparr>lr_writer := wr\<rparr>;
                   r3 = (if sfr_crc_ok f then
                           (case monotonic w r2 of (now, r') \<Rightarrow> r'\<lparr>lr_last_valid := Some now\<rparr>) else r2);
                   r4 = r3\<lparr>cl_metrics := frame_metrics (lr_reconnects r3) (lr_idle_events r3) f (cl_metrics r3)\<rparr>
               in if \<not> sfr_crc_ok f then (Inr True, r4)
                  else
                    case enqueue_live (live_of_frame s f a r4) r4 of
                      (Inl e, r5) \<Rightarrow> (Inl e, r5)
                    | (Inr _, r5) \<Rightarrow> (Inr True, raise_mark r5)))"

fun handle_frames ::
  "world \<Rightarrow> live_setup \<Rightarrow> streamed_frame list \<Rightarrow> live_run \<Rightarrow> unit result \<times> live_run"
where
  "handle_frames w s [] r = (Inr (), r)"
| "handle_frames w s (f # fs) r =
     (case handle_frame w s f r of
        (Inl e, r1) \<Rightarrow> (Inl e, r1)
      | (Inr go_on, r1) \<Rightarrow> if go_on then handle_frames w s fs r1 else (Inr (), r1))"

section \<open>The loop over one connection\<close>

text \<open>How an iteration ends: the next one, the end of the connection, or an exception.\<close>

datatype turn = Turn bytes pyfloat framer | Stop bool | Raise py_error

text \<open>The next chunk: the rest of the handshake data in pieces of 4096 bytes, then the socket.\<close>

datatype chunk = Chunk bytes bytes | No_Chunk | Stream_End | Stream_Error py_error

definition next_chunk :: "world \<Rightarrow> bytes \<Rightarrow> live_run \<Rightarrow> chunk \<times> live_run" where
  "next_chunk w data r =
     (if data \<noteq> [] then (Chunk (take 4096 data) (drop 4096 data), r)
      else
        case client_recv w r of
          (Inl (Net_Timeout m), r1) \<Rightarrow> (No_Chunk, r1)
        | (Inl (Net_Error m), r1) \<Rightarrow>
            (case shutdown_requested w r1 of
               (True, r2) \<Rightarrow> (Stream_End, r2\<lparr>lr_status := status_by_bytes r2\<rparr>)
             | (False, r2) \<Rightarrow> (Stream_Error (ConnectionLost m), r2))
        | (Inr c, r1) \<Rightarrow> if c = [] then (Stream_End, r1) else (Chunk c [], r1))"

definition note_stall :: "live_run \<Rightarrow> live_run" where
  "note_stall r = set_state CS_RECONNECTING (r\<lparr>lr_idle_events := lr_idle_events r + 1\<rparr>)"

definition read_turn ::
  "world \<Rightarrow> live_setup \<Rightarrow> bytes \<Rightarrow> pyfloat \<Rightarrow> framer \<Rightarrow> live_run \<Rightarrow> turn \<times> live_run"
where
  "read_turn w s data last_byte fr r =
     (case next_chunk w data r of
        (Stream_Error e, r1) \<Rightarrow> (Raise e, r1)
      | (Stream_End, r1) \<Rightarrow> (Stop False, r1)
      | (No_Chunk, r1) \<Rightarrow> (Turn data last_byte fr, r1)
      | (Chunk c rest, r1) \<Rightarrow>
          (case monotonic w r1 of
             (now, r2) \<Rightarrow>
               (case feed (ls_sha s) fr c of
                  (frames, fr1) \<Rightarrow>
                    (case handle_frames w s frames r2 of
                       (Inl e, r3) \<Rightarrow> (Raise e, r3)
                     | (Inr _, r3) \<Rightarrow> (Turn rest now fr1, r3)))))"

definition stream_turn ::
  "world \<Rightarrow> live_setup \<Rightarrow> bytes \<Rightarrow> pyfloat \<Rightarrow> framer \<Rightarrow> live_run \<Rightarrow> turn \<times> live_run"
where
  "stream_turn w s data last_byte fr r =
     (case monotonic w r of
        (now, r1) \<Rightarrow>
          if over_budget s now r1 then (Stop False, r1)
          else
            case monotonic w r1 of
              (now2, r2) \<Rightarrow>
                if f_lt (nc_idle_timeout_s (ls_config s)) (f_sub now2 last_byte)
                then (Stop True, note_stall r2)
                else read_turn w s data last_byte fr r2)"

text \<open>The inner loop: whether the connection stall, or the exception that ends it.\<close>

fun stream_loop ::
  "nat \<Rightarrow> world \<Rightarrow> live_setup \<Rightarrow> bytes \<Rightarrow> pyfloat \<Rightarrow> framer \<Rightarrow> live_run \<Rightarrow> (bool result \<times> live_run) option"
where
  "stream_loop 0 w s data last_byte fr r = None"
| "stream_loop (Suc n) w s data last_byte fr r =
     (case stream_turn w s data last_byte fr r of
        (Turn rest now fr1, r1) \<Rightarrow> stream_loop n w s rest now fr1 r1
      | (Stop stall, r1) \<Rightarrow> Some (Inr stall, r1)
      | (Raise e, r1) \<Rightarrow> Some (Inl e, r1))"

section \<open>The loop over connections\<close>

datatype outcome = Again | Finished | Failed py_error

text \<open>\<open>time.sleep(delay)\<close> refuses a value that is not a number or that no timestamp holds.\<close>

definition py_sleep :: "pyfloat \<Rightarrow> unit result" where
  "py_sleep d =
     (case d of
        PNan \<Rightarrow> Inl (ValueError ''Invalid value NaN (not a number)'')
      | PFin x \<Rightarrow>
          if x < 0 then Inl (ValueError ''sleep length must be non-negative'')
          else if 9223372036 < x then Inl (OverflowError ''timestamp too large to convert to C PyTime_t'')
          else Inr ()
      | PInf \<Rightarrow> Inl (OverflowError ''timestamp too large to convert to C PyTime_t'')
      | PNegInf \<Rightarrow> Inl (OverflowError ''timestamp too large to convert to C PyTime_t''))"

text \<open>
  The end of a connection that may be tried again: give up with a status when the attempts are
  exhausted, otherwise wait and count the reconnect.
\<close>

definition retry :: "live_setup \<Rightarrow> (live_run \<Rightarrow> string) \<Rightarrow> live_run \<Rightarrow> outcome \<times> live_run" where
  "retry s status r =
     (if attempts_exhausted (ls_policy s) (int (lr_attempts r))
      then (Finished, r\<lparr>lr_status := status r\<rparr>)
      else
        case bind_result (delay_for_attempt (\<lambda>seed. f_zero) (ls_policy s) (int (lr_attempts r)) None) py_sleep of
          Inl e \<Rightarrow> (Failed e, r)
        | Inr _ \<Rightarrow>
            (Again, r\<lparr>lr_reconnects := lr_reconnects r + 1, lr_writer := note_reconnect (lr_writer r)\<rparr>))"

definition begin_attempt :: "world \<Rightarrow> live_run \<Rightarrow> live_run" where
  "begin_attempt w r =
     (let cid = wd_connection_id w (lr_attempts r);
          r1 = set_state CS_CONNECTING (r\<lparr>lr_attempts := lr_attempts r + 1, cl_connection_id := cid,
                 lr_recorder := new_recorder cid\<rparr>)
      in r1\<lparr>cl_metrics := attempted_metrics (lr_reconnects r1) (lr_idle_events r1) (cl_metrics r1)\<rparr>)"

text \<open>After the stream has ended: within the budget and the attempts, reconnect.\<close>

definition after_stream :: "world \<Rightarrow> live_setup \<Rightarrow> bool \<Rightarrow> live_run \<Rightarrow> outcome \<times> live_run" where
  "after_stream w s stall r =
     (if lr_limit_hit r then (Finished, r)
      else
        case monotonic w r of
          (now, r1) \<Rightarrow>
            if over_budget s now r1 then (Finished, r1)
            else if attempts_exhausted (ls_policy s) (int (lr_attempts r1)) then
              (Finished, if stall \<or> cw_bytes (lr_writer r1) = 0
                         then r1\<lparr>lr_status := status_by_bytes r1\<rparr> else r1)
            else retry s status_by_bytes (set_state CS_RECONNECTING r1))"

definition run_stream ::
  "nat \<Rightarrow> world \<Rightarrow> live_setup \<Rightarrow> bytes \<Rightarrow> live_run \<Rightarrow> (outcome \<times> live_run) option"
where
  "run_stream fuel w s data r =
     (let r1 = set_state CS_STREAMING r;
          r2 = r1\<lparr>cl_metrics := connected_metrics (lr_reconnects r1) (lr_idle_events r1) (cl_metrics r1)\<rparr>
      in case framer_init (nc_max_frame_length (ls_config s)) of
           Inl e \<Rightarrow> Some (Failed e, r2)
         | Inr fr \<Rightarrow>
             (case monotonic w r2 of
                (now, r3) \<Rightarrow>
                  (case stream_loop fuel w s data now fr r3 of
                     None \<Rightarrow> None
                   | Some (Inl e, r4) \<Rightarrow> Some (Failed e, r4)
                   | Some (Inr stall, r4) \<Rightarrow> Some (after_stream w s stall r4))))"

text \<open>A response that the handshake refuses.\<close>

definition refuse_stream :: "live_setup \<Rightarrow> handshake_result \<Rightarrow> live_run \<Rightarrow> outcome \<times> live_run" where
  "refuse_stream s check r =
     (case hs_failure check of
        Some f \<Rightarrow>
          if is_terminal f then
            let r1 = set_state CS_BLOCKED r; r2 = r1\<lparr>lr_status := status_by_bytes r1\<rparr>
            in (Finished,
                if f = FC_AUTH_FAILURE \<or> f = FC_AUTHORIZATION_REJECTED
                then r2\<lparr>cl_metrics := refused_metrics (mt_connections_attempted (cl_metrics r2)) (cl_metrics r2)\<rparr>
                else r2)
          else retry s status_by_bytes (set_state CS_RECONNECTING r)
      | None \<Rightarrow> retry s status_by_bytes (set_state CS_RECONNECTING r))"

text \<open>\<open>except (TimeoutError, ValueError)\<close>\<close>

fun transient_head_error :: "py_error \<Rightarrow> bool" where
  "transient_head_error (ReadTimeout m) = True"
| "transient_head_error (ValueError m) = True"
| "transient_head_error e = False"

text \<open>From the response head on: the first bytes of the body, the validation, the stream.\<close>

definition after_head ::
  "nat \<Rightarrow> world \<Rightarrow> live_setup \<Rightarrow> (string \<times> bytes) result \<Rightarrow> live_run \<Rightarrow> (outcome \<times> live_run) option"
where
  "after_head fuel w s head r =
     (case head of
        Inl e \<Rightarrow>
          Some (if transient_head_error e then retry s (\<lambda>_. ''FAILED'') (set_state CS_RECONNECTING r)
                else (Failed e, r))
      | Inr (status, rest) \<Rightarrow>
          (case client_recv w r of
             (Inl (Net_Timeout m), r1) \<Rightarrow> Some (retry s status_by_bytes (note_stall r1))
           | (Inl (Net_Error m), r1) \<Rightarrow> Some (Failed (ConnectionLost m), r1)
           | (Inr first, r1) \<Rightarrow>
               let check = validate_stream_response status (rest @ first) in
               if hs_ok check then run_stream fuel w s (rest @ first) r1
               else Some (refuse_stream s check r1)))"

definition handshake_and_stream ::
  "nat \<Rightarrow> world \<Rightarrow> live_setup \<Rightarrow> live_run \<Rightarrow> (outcome \<times> live_run) option"
where
  "handshake_and_stream fuel w s r =
     (case client_send w (set_state CS_AUTHENTICATING r) of
        (Some e, r1) \<Rightarrow> Some (Failed (net_exception e), r1)
      | (None, r1) \<Rightarrow>
          (case read_head w (ls_config s) (snd (monotonic w r1)) of
             (head, r2) \<Rightarrow> after_head fuel w s head r2))"

text \<open>One iteration of the outer loop.\<close>

definition connect_turn :: "nat \<Rightarrow> world \<Rightarrow> live_setup \<Rightarrow> live_run \<Rightarrow> (outcome \<times> live_run) option" where
  "connect_turn fuel w s r =
     (case shutdown_requested w r of
        (True, r1) \<Rightarrow> Some (Finished, r1\<lparr>lr_status := status_by_bytes r1\<rparr>)
      | (False, r1) \<Rightarrow>
          (case monotonic w r1 of
             (now, r2) \<Rightarrow>
               if over_budget s now r2 then Some (Finished, r2)
               else
                 case client_dial w (begin_attempt w r2) of
                   (Some e, r3) \<Rightarrow> Some (retry s (\<lambda>_. ''FAILED'') (set_state CS_RECONNECTING r3))
                 | (None, r3) \<Rightarrow> handshake_and_stream fuel w s r3))"

fun connect_loop :: "nat \<Rightarrow> nat \<Rightarrow> world \<Rightarrow> live_setup \<Rightarrow> live_run \<Rightarrow> (unit result \<times> live_run) option" where
  "connect_loop 0 fuel w s r = None"
| "connect_loop (Suc n) fuel w s r =
     (case connect_turn fuel w s r of
        None \<Rightarrow> None
      | Some (Again, r1) \<Rightarrow> connect_loop n fuel w s r1
      | Some (Finished, r1) \<Rightarrow> Some (Inr (), r1)
      | Some (Failed e, r1) \<Rightarrow> Some (Inl e, r1))"

section \<open>A whole capture\<close>

text \<open>\<open>n / (time.monotonic() - start) if time.monotonic() > start else 0.0\<close>\<close>

definition rate_since :: "world \<Rightarrow> pyfloat \<Rightarrow> nat \<Rightarrow> live_run \<Rightarrow> pyfloat result \<times> live_run" where
  "rate_since w t_start n r =
     (case monotonic w r of
        (t1, r1) \<Rightarrow>
          if \<not> f_lt t_start t1 then (Inr f_zero, r1)
          else
            case monotonic w r1 of
              (t2, r2) \<Rightarrow>
                (bind_result (int_to_float (int n)) (\<lambda>x. f_div x (f_sub t2 t_start)), r2))"

definition valid_age :: "world \<Rightarrow> live_run \<Rightarrow> pyfloat option \<times> live_run" where
  "valid_age w r =
     (case lr_last_valid r of
        None \<Rightarrow> (None, r)
      | Some t \<Rightarrow> (case monotonic w r of (now, r1) \<Rightarrow> (Some (f_sub now t), r1)))"

definition closing_metrics ::
  "pyfloat \<Rightarrow> pyfloat \<Rightarrow> pyfloat \<Rightarrow> pyfloat option \<Rightarrow> live_run \<Rightarrow> stream_metrics"
where
  "closing_metrics duration fps bps age r =
     (let m = cl_metrics r in
      m\<lparr>mt_reconnects := lr_reconnects r, mt_idle_events := lr_idle_events r,
        mt_capture_duration_s := duration,
        mt_buffer_high_water_mark := max (mt_buffer_high_water_mark m) (bb_high_water_mark (lr_buffer r)),
        mt_frames_dropped := bb_dropped_frames (lr_buffer r),
        mt_producer_waits := bb_buffer_waits (lr_buffer r),
        mt_active_connection := False, mt_frames_per_second := fps, mt_bytes_per_second := bps,
        mt_last_valid_frame_age_s := age, mt_captures_opened := 1, mt_captures_finalized := 1,
        mt_partial_captures := (if lr_status r = ''PARTIAL'' then 1 else 0)\<rparr>)"

definition final_metrics :: "world \<Rightarrow> live_setup \<Rightarrow> live_run \<Rightarrow> unit result \<times> live_run" where
  "final_metrics w s r =
     (case monotonic w r of (now, r1) \<Rightarrow>
      case rate_since w (ls_start s) (mt_frames_received (cl_metrics r)) r1 of (fps, r2) \<Rightarrow>
      case fps of Inl e \<Rightarrow> (Inl e, r2) | Inr fps' \<Rightarrow>
      case rate_since w (ls_start s) (mt_bytes_received (cl_metrics r)) r2 of (bps, r3) \<Rightarrow>
      case bps of Inl e \<Rightarrow> (Inl e, r3) | Inr bps' \<Rightarrow>
      case valid_age w r3 of (age, r4) \<Rightarrow>
        (Inr (), r4\<lparr>cl_metrics := closing_metrics (f_sub now (ls_start s)) fps' bps' age r\<rparr>))"

text \<open>\<open>while buffer.take() is not None: forwarded += 1\<close>\<close>

definition drain_live :: "live_run \<Rightarrow> live_run" where
  "drain_live r =
     r\<lparr>lr_forwarded := lr_forwarded r + length (bb_queue (lr_buffer r)),
       lr_buffer := (lr_buffer r)\<lparr>bb_queue := []\<rparr>\<rparr>"

record capture_result =
  cr_path :: "string list"
  cr_metadata :: capture_metadata
  cr_metrics :: stream_metrics
  cr_admission :: mountpoint_admission
  cr_frames_forwarded :: nat
  cr_status :: string

text \<open>After the loop: metrics, drain, state, manifest. \<open>end_utc\<close> is the time of closing.\<close>

definition finish_capture ::
  "world \<Rightarrow> live_setup \<Rightarrow> string \<Rightarrow> pyfloat \<Rightarrow> live_run \<Rightarrow> capture_result result \<times> live_run"
where
  "finish_capture w s end_utc end_mono r =
     (case final_metrics w s r of
        (Inl e, r1) \<Rightarrow> (Inl e, r1)
      | (Inr _, r1) \<Rightarrow>
          let r2 = set_state CS_STOPPED (drain_live r1) in
          case writer_close (ls_sha s) end_utc end_mono (lr_status r2) (lr_writer r2) of
            (Inl e, wr) \<Rightarrow> (Inl e, r2\<lparr>lr_writer := wr\<rparr>)
          | (Inr md, wr) \<Rightarrow>
              (Inr \<lparr>cr_path = cw_path wr, cr_metadata = md, cr_metrics = cl_metrics r2,
                    cr_admission = ls_admission s, cr_frames_forwarded = lr_forwarded r2,
                    cr_status = lr_status r2\<rparr>,
               r2\<lparr>lr_writer := wr\<rparr>))"

text \<open>The run at the start of the loop.\<close>

definition start_run :: "capture_writer \<Rightarrow> live_frame bounded_buffer \<Rightarrow> client \<Rightarrow> live_run" where
  "start_run wr b c =
     client.extend c
       \<lparr>lr_writer = wr, lr_buffer = b, lr_recorder = new_recorder [], lr_forwarded = 0, lr_attempts = 0,
        lr_reconnects = 0, lr_idle_events = 0, lr_status = ''COMPLETE'', lr_last_valid = None,
        lr_limit_hit = False\<rparr>"

text \<open>
  The arguments and surroundings of a capture; \<open>cq_fetch_table\<close> is \<open>fetch_table_first\<close>, the text and the
  digest of the table are the caller's, which a fetched table replaces, and \<open>cq_generated_id\<close> is the name
  made up for a capture without one.
\<close>

record capture_request =
  cq_base :: "string list"
  cq_date :: string
  cq_capture_id :: string
  cq_generated_id :: string
  cq_duration_s :: "pyfloat option"
  cq_max_bytes :: "int option"
  cq_fetch_table :: bool
  cq_table_text :: string
  cq_table_sha256 :: string
  cq_git_commit :: string
  cq_start_utc :: string
  cq_start_mono :: pyfloat
  cq_end_utc :: string
  cq_end_mono :: pyfloat
  cq_exists :: "string list \<Rightarrow> bool"
  cq_free_disk :: int

text \<open>The table text of a fetched table: its streams by mountpoint and identifier.\<close>

definition fetched_table_text :: "source_table \<Rightarrow> string" where
  "fetched_table_text t =
     str_join [CHR 0x0A]
       (map (\<lambda>e. ''STR;'' @ se_mountpoint e @ '';'' @ se_identifier e) (tb_streams t) @ [''ENDSOURCETABLE''])"

definition request_table_text :: "capture_request \<Rightarrow> source_table option \<Rightarrow> string" where
  "request_table_text q table =
     (case table of None \<Rightarrow> cq_table_text q | Some t \<Rightarrow> fetched_table_text t)"

definition request_table_sha :: "(bytes \<Rightarrow> string) \<Rightarrow> capture_request \<Rightarrow> source_table option \<Rightarrow> string" where
  "request_table_sha sha q table =
     (let given = (case table of None \<Rightarrow> cq_table_sha256 q | Some t \<Rightarrow> tb_sha256 t)
      in if given \<noteq> [] then given else sha (encode_text (request_table_text q table)))"

definition facts_of_request ::
  "(bytes \<Rightarrow> string) \<Rightarrow> string \<Rightarrow> string \<Rightarrow> ntrip_config \<Rightarrow> string \<Rightarrow> capture_request \<Rightarrow>
     source_table option \<Rightarrow> capture_facts"
where
  "facts_of_request sha provider basis cfg station_id q table =
     \<lparr>kf_capture_id = (if cq_capture_id q \<noteq> [] then cq_capture_id q else cq_generated_id q), kf_provider = provider, kf_caster_host = nc_host cfg,
      kf_caster_port = nc_port cfg, kf_mount = nc_mountpoint cfg, kf_station_mapping = station_id,
      kf_tls_mode = (if nc_use_tls cfg then ''tls'' else ''plain''),
      kf_authorization_provenance = (if basis \<noteq> [] then basis else ''anonymous''),
      kf_software_commit = cq_git_commit q, kf_source_table_sha256 = request_table_sha sha q table\<rparr>"

definition setup_of_request ::
  "(bytes \<Rightarrow> string) \<Rightarrow> string \<Rightarrow> string \<Rightarrow> ntrip_config \<Rightarrow> string \<Rightarrow> mountpoint_admission \<Rightarrow> pyfloat \<Rightarrow>
     capture_request \<Rightarrow> live_setup"
where
  "setup_of_request sha provider basis cfg station_id admission t_start q =
     \<lparr>ls_config = cfg, ls_provider = provider, ls_basis = basis, ls_git_commit = cq_git_commit q,
      ls_capture_id = cq_capture_id q, ls_station_id = station_id, ls_admission = admission,
      ls_policy = \<lparr>rp_base_delay_s = nc_reconnect_base_delay_s cfg,
                   rp_max_delay_s = nc_reconnect_max_delay_s cfg, rp_max_attempts = nc_max_reconnects cfg\<rparr>,
      ls_budget_s = (case cq_duration_s q of None \<Rightarrow> nc_max_capture_seconds cfg | Some d \<Rightarrow> d),
      ls_budget_b = (case cq_max_bytes q of None \<Rightarrow> nc_max_capture_bytes cfg | Some n \<Rightarrow> n),
      ls_start = t_start, ls_sha = sha, ls_free_disk = cq_free_disk q\<rparr>"

text \<open>The source table, where it is to be fetched first.\<close>

definition fetch_first ::
  "(bytes \<Rightarrow> string) \<Rightarrow> (bytes \<Rightarrow> string) \<Rightarrow> world \<Rightarrow> string \<Rightarrow> ntrip_config \<Rightarrow> capture_request \<Rightarrow>
     client \<Rightarrow> source_table option result \<times> client"
where
  "fetch_first sha decode w provider cfg q c =
     (if cq_fetch_table q then
        (case fetch_sourcetable sha decode w provider cfg c of
           (Inl e, c1) \<Rightarrow> (Inl e, c1)
         | (Inr (table, provenance), c1) \<Rightarrow> (Inr (Some table), c1))
      else (Inr None, c))"

text \<open>Admission, writer, buffer, start of the clock.\<close>

definition open_capture ::
  "(bytes \<Rightarrow> string) \<Rightarrow> world \<Rightarrow> string \<Rightarrow> string \<Rightarrow> ntrip_config \<Rightarrow> (string \<times> string) list \<Rightarrow>
     capture_request \<Rightarrow> source_table option \<Rightarrow> client \<Rightarrow> (live_setup \<times> live_run) result \<times> client"
where
  "open_capture sha w provider basis cfg registry q table c =
     (let admission = admit_for_stream provider cfg registry table in
      if ma_admission_status admission = AS_BLOCKED then
        (Inl (PermissionError (''capture BLOCKED: '' @ str_join ''; '' (ma_reason_codes admission))),
         set_state CS_BLOCKED c)
      else
        let station_id = sm_station_id (map_station (nc_mountpoint cfg) registry) in
        case writer_create (cq_exists q) (cq_base q) (facts_of_request sha provider basis cfg station_id q table)
               (cq_date q) (request_table_text q table) None (cq_start_utc q) (cq_start_mono q) of
          Inl e \<Rightarrow> (Inl e, c)
        | Inr wr \<Rightarrow>
            (case new_buffer (nc_buffer_capacity cfg) BP_BLOCK of
               Inl e \<Rightarrow> (Inl e, c)
             | Inr b \<Rightarrow>
                 (case monotonic w c of
                    (t_start, c1) \<Rightarrow>
                      (Inr (setup_of_request sha provider basis cfg station_id admission t_start q,
                            start_run wr b c1), c1))))"

text \<open>
  \<open>capture_stream\<close> up to the loop: validation, the fetch, and the opening. The client is returned with
  the exception when it raises.
\<close>

definition prepare_capture ::
  "(bytes \<Rightarrow> string) \<Rightarrow> (bytes \<Rightarrow> string) \<Rightarrow> world \<Rightarrow> string \<Rightarrow> string \<Rightarrow> ntrip_config \<Rightarrow> (string \<times> string) list \<Rightarrow>
     capture_request \<Rightarrow> client \<Rightarrow> (live_setup \<times> live_run) result \<times> client"
where
  "prepare_capture sha decode w provider basis cfg registry q c =
     (case ntrip_validate cfg of
        Inl e \<Rightarrow> (Inl e, c)
      | Inr problems \<Rightarrow>
          if problems \<noteq> []
          then (Inl (ValueError (''invalid configuration: '' @ str_join ''; '' problems)), c)
          else
            case fetch_first sha decode w provider cfg q c of
              (Inl e, c1) \<Rightarrow> (Inl e, c1)
            | (Inr table, c1) \<Rightarrow> open_capture sha w provider basis cfg registry q table c1)"

text \<open>
  The whole capture, with the fuel of the outer and of each inner loop: the result or the exception,
  the client afterwards, and the files of the capture directory. \<open>decode\<close> is the UTF-8 decoder with
  replacement.
\<close>

definition capture_stream ::
  "nat \<Rightarrow> (bytes \<Rightarrow> string) \<Rightarrow> (bytes \<Rightarrow> string) \<Rightarrow> world \<Rightarrow> string \<Rightarrow> string \<Rightarrow> ntrip_config \<Rightarrow>
     (string \<times> string) list \<Rightarrow> capture_request \<Rightarrow> client \<Rightarrow> (capture_result result \<times> client \<times> directory) option"
where
  "capture_stream fuel sha decode w provider basis cfg registry q c =
     (case prepare_capture sha decode w provider basis cfg registry q c of
        (Inl e, c1) \<Rightarrow> Some (Inl e, c1, [])
      | (Inr (s, r), c1) \<Rightarrow>
          (case connect_loop fuel fuel w s r of
             None \<Rightarrow> None
           | Some (Inl e, r1) \<Rightarrow> Some (Inl e, client.truncate r1, cw_files (lr_writer r1))
           | Some (Inr _, r1) \<Rightarrow>
               (case finish_capture w s (cq_end_utc q) (cq_end_mono q) r1 of
                  (res, r2) \<Rightarrow> Some (res, client.truncate r2, cw_files (lr_writer r2)))))"

end
