(* ===== verification/Ntrip_Live_Run.thy ===== *)
theory Ntrip_Live_Run
  imports Ntrip_Live
begin

text \<open>
  What a capture guarantees: the lifecycle its recorded states follow, the bound on its attempts, that
  it ends, and that its counters, its files and what it forwarded agree. The invariant of the run has
  three parts, the lifecycle, the evidence and the metrics; each step of the two loops keeps them.
\<close>

section \<open>The lifecycle\<close>

inductive lifecycle :: "connection_state \<Rightarrow> connection_state \<Rightarrow> bool" where
  start: "lifecycle CS_DISCONNECTED CS_CONNECTING"
| refused: "lifecycle CS_DISCONNECTED CS_BLOCKED"
| nothing_to_do: "lifecycle CS_DISCONNECTED CS_STOPPED"
| dialled: "lifecycle CS_CONNECTING CS_AUTHENTICATING"
| dial_failed: "lifecycle CS_CONNECTING CS_RECONNECTING"
| accepted: "lifecycle CS_AUTHENTICATING CS_STREAMING"
| handshake_failed: "lifecycle CS_AUTHENTICATING CS_RECONNECTING"
| terminal: "lifecycle CS_AUTHENTICATING CS_BLOCKED"
| lost: "lifecycle CS_STREAMING CS_RECONNECTING"
| completed: "lifecycle CS_STREAMING CS_STOPPED"
| again: "lifecycle CS_RECONNECTING CS_CONNECTING"
| still_lost: "lifecycle CS_RECONNECTING CS_RECONNECTING"
| given_up: "lifecycle CS_RECONNECTING CS_STOPPED"
| blocked: "lifecycle CS_BLOCKED CS_STOPPED"

declare lifecycle.intros [intro]

inductive_cases from_blocked: "lifecycle CS_BLOCKED st"
inductive_cases from_stopped: "lifecycle CS_STOPPED st"

text \<open>
  The trace of the capture itself. A source table that was fetched first has left the states
  \<open>CONNECTING\<close>, \<open>AUTHENTICATING\<close> and \<open>STOPPED\<close> behind the first one, which no capture can do, and the
  capture goes on from there as from the start.
\<close>

definition fetched_trace :: "connection_state list \<Rightarrow> bool" where
  "fetched_trace sts \<longleftrightarrow> take 4 sts = [CS_DISCONNECTED, CS_CONNECTING, CS_AUTHENTICATING, CS_STOPPED]"

definition own_trace :: "connection_state list \<Rightarrow> connection_state list" where
  "own_trace sts = (if fetched_trace sts then CS_DISCONNECTED # drop 4 sts else sts)"

definition phase :: "connection_state \<Rightarrow> connection_state" where
  "phase st = (if st = CS_STOPPED then CS_DISCONNECTED else st)"

lemma phase_simps [simp]:
  "phase CS_DISCONNECTED = CS_DISCONNECTED" "phase CS_CONNECTING = CS_CONNECTING"
  "phase CS_AUTHENTICATING = CS_AUTHENTICATING" "phase CS_STREAMING = CS_STREAMING"
  "phase CS_DEGRADED = CS_DEGRADED" "phase CS_RECONNECTING = CS_RECONNECTING"
  "phase CS_BLOCKED = CS_BLOCKED" "phase CS_STOPPED = CS_DISCONNECTED"
  by (simp_all add: phase_def)

lemma own_trace_Nil [simp]: "own_trace sts = [] \<longleftrightarrow> sts = []"
  by (auto simp: own_trace_def fetched_trace_def)

lemma fetched_trace_snoc:
  assumes "st \<noteq> CS_STOPPED \<or> last sts \<noteq> CS_AUTHENTICATING"
  shows "fetched_trace (sts @ [st]) = fetched_trace sts"
proof (cases "4 \<le> length sts")
  case False
  have "take 4 (sts @ [st]) \<noteq> [CS_DISCONNECTED, CS_CONNECTING, CS_AUTHENTICATING, CS_STOPPED]"
  proof
    assume eq: "take 4 (sts @ [st]) = [CS_DISCONNECTED, CS_CONNECTING, CS_AUTHENTICATING, CS_STOPPED]"
    with False have "sts @ [st] = [CS_DISCONNECTED, CS_CONNECTING, CS_AUTHENTICATING] @ [CS_STOPPED]" by simp
    then have "sts = [CS_DISCONNECTED, CS_CONNECTING, CS_AUTHENTICATING]" "st = CS_STOPPED" by (simp_all only: append1_eq_conv)
    with assms show False by simp
  qed
  moreover have "take 4 sts \<noteq> [CS_DISCONNECTED, CS_CONNECTING, CS_AUTHENTICATING, CS_STOPPED]"
    using False by (auto dest!: arg_cong [of _ _ length])
  ultimately show ?thesis by (simp add: fetched_trace_def)
qed (simp add: fetched_trace_def)

lemma own_trace_snoc:
  assumes "st \<noteq> CS_STOPPED \<or> last sts \<noteq> CS_AUTHENTICATING"
  shows "own_trace (sts @ [st]) = own_trace sts @ [st]"
proof (cases "fetched_trace sts")
  case True
  then have "length (take 4 sts) = 4" by (simp add: fetched_trace_def)
  then show ?thesis using True fetched_trace_snoc [OF assms] by (simp add: own_trace_def)
qed (simp add: own_trace_def fetched_trace_snoc [OF assms])

text \<open>The fetch has connected once.\<close>

lemma count_own_trace:
  "count_list sts CS_CONNECTING = count_list (own_trace sts) CS_CONNECTING + (if fetched_trace sts then 1 else 0)"
proof (cases "fetched_trace sts")
  case True
  have "count_list (take 4 sts @ drop 4 sts) CS_CONNECTING = 1 + count_list (drop 4 sts) CS_CONNECTING"
    using True by (simp only: count_list_append fetched_trace_def) simp
  then show ?thesis using True by (simp add: own_trace_def)
qed (simp add: own_trace_def)

definition lifecycle_ok :: "'a client_scheme \<Rightarrow> bool" where
  "lifecycle_ok c \<longleftrightarrow>
     cl_transitions c \<noteq> [] \<and> last (cl_transitions c) = cl_state c \<and>
     last (own_trace (cl_transitions c)) = phase (cl_state c) \<and>
     successively lifecycle (own_trace (cl_transitions c))"

lemma set_state_simps [simp]:
  "cl_state (set_state st c) = st" "cl_transitions (set_state st c) = cl_transitions c @ [st]"
  "cl_metrics (set_state st c) = cl_metrics c" "cl_dials (set_state st c) = cl_dials c"
  "cl_clock (set_state st c) = cl_clock c" "cl_recvs (set_state st c) = cl_recvs c"
  "cl_connection_id (set_state st c) = cl_connection_id c"
  by (simp_all add: set_state_def)

lemma set_state_run [simp]:
  "lr_writer (set_state st r) = lr_writer r" "lr_buffer (set_state st r) = lr_buffer r"
  "lr_forwarded (set_state st r) = lr_forwarded r" "lr_attempts (set_state st r) = lr_attempts r"
  "lr_reconnects (set_state st r) = lr_reconnects r" "lr_status (set_state st r) = lr_status r"
  "lr_limit_hit (set_state st r) = lr_limit_hit r" "lr_idle_events (set_state st r) = lr_idle_events r"
  "lr_last_valid (set_state st r) = lr_last_valid r"
  by (simp_all add: set_state_def)

lemma set_state_ok:
  "lifecycle_ok c \<Longrightarrow> lifecycle (phase (cl_state c)) st \<Longrightarrow> st \<noteq> CS_STOPPED \<Longrightarrow> lifecycle_ok (set_state st c)"
  by (auto simp: lifecycle_ok_def own_trace_snoc successively_append_iff phase_def)

text \<open>Reading the world moves one cursor.\<close>

lemma world_simps [simp]:
  "snd (monotonic w c) = c\<lparr>cl_clock := cl_clock c + 1\<rparr>" "fst (monotonic w c) = wd_mono w (cl_clock c)"
  "snd (client_recv w c) = c\<lparr>cl_recvs := cl_recvs c + 1\<rparr>"
  "snd (client_dial w c) = c\<lparr>cl_dials := cl_dials c + 1\<rparr>"
  "snd (client_send w c) = c\<lparr>cl_sends := cl_sends c + 1\<rparr>"
  "snd (shutdown_requested w c) = c\<lparr>cl_flags := cl_flags c + 1\<rparr>"
  by (simp_all add: monotonic_def client_recv_def client_dial_def client_send_def shutdown_requested_def)

section \<open>Evidence and metrics\<close>

definition evidence_ok :: "live_run \<Rightarrow> bool" where
  "evidence_ok r \<longleftrightarrow>
     cw_rotation (lr_writer r) = None \<and> cw_open (lr_writer r) \<and> \<not> lr_limit_hit r \<and>
     map_of (cw_files (lr_writer r)) ''capture.json'' = None \<and>
     (\<exists>written. captured written (lr_writer r)) \<and>
     cw_reconnects (lr_writer r) = lr_reconnects r \<and> lr_status r \<in> set CAPTURE_STATUSES \<and>
     buffer_inv (lr_buffer r) \<and> bb_policy (lr_buffer r) = BP_BLOCK \<and>
     bb_dropped_frames (lr_buffer r) = 0 \<and>
     lr_forwarded r + length (bb_queue (lr_buffer r)) = cw_valid (lr_writer r)"

definition metrics_ok :: "nat \<times> bool \<Rightarrow> live_run \<Rightarrow> bool" where
  "metrics_ok base r \<longleftrightarrow>
     mt_authentication_failures (cl_metrics r) = 0 \<and>
     mt_frames_received (cl_metrics r) = cw_valid (lr_writer r) + cw_invalid (lr_writer r) \<and>
     mt_frames_crc_valid (cl_metrics r) = cw_valid (lr_writer r) \<and>
     mt_frames_crc_invalid (cl_metrics r) = cw_invalid (lr_writer r) \<and>
     mt_bytes_received (cl_metrics r) = fst base + cw_bytes (lr_writer r)"

text \<open>The fields that neither reading nor frames change, and the clock, which only moves on.\<close>

definition steady :: "live_run \<Rightarrow> live_run \<Rightarrow> bool" where
  "steady r r' \<longleftrightarrow>
     cl_state r' = cl_state r \<and> cl_transitions r' = cl_transitions r \<and> cl_dials r' = cl_dials r \<and>
     lr_attempts r' = lr_attempts r \<and> lr_reconnects r' = lr_reconnects r \<and> cl_clock r \<le> cl_clock r'"

lemma steady_refl [simp]: "steady r r"
  by (simp add: steady_def)

lemma steady_trans: "steady a b \<Longrightarrow> steady b c \<Longrightarrow> steady a c"
  by (auto simp: steady_def)

lemma steady_lifecycle: "steady r r' \<Longrightarrow> lifecycle_ok r' = lifecycle_ok r"
  by (simp add: steady_def lifecycle_ok_def)

lemma carry_metrics_simps [simp]:
  "mt_authentication_failures (carry_metrics m) = mt_authentication_failures m"
  "mt_frames_received (carry_metrics m) = mt_frames_received m"
  "mt_frames_crc_valid (carry_metrics m) = mt_frames_crc_valid m"
  "mt_frames_crc_invalid (carry_metrics m) = mt_frames_crc_invalid m"
  "mt_bytes_received (carry_metrics m) = mt_bytes_received m"
  by (simp_all add: carry_metrics_def)

text \<open>A full buffer hands one frame to the consumer and takes the new one; nothing is refused.\<close>

lemma enqueue_live_ok:
  assumes "buffer_inv (lr_buffer r)" and "bb_policy (lr_buffer r) = BP_BLOCK"
  obtains b k where "enqueue_live f r = (Inr (), r\<lparr>lr_buffer := b, lr_forwarded := k\<rparr>)"
    "buffer_inv b" "bb_policy b = BP_BLOCK" "bb_dropped_frames b = bb_dropped_frames (lr_buffer r)"
    "k + length (bb_queue b) = Suc (lr_forwarded r + length (bb_queue (lr_buffer r)))"
proof (cases "bb_capacity (lr_buffer r) \<le> int (length (bb_queue (lr_buffer r)))")
  case False
  let ?b = "push_item f (lr_buffer r)"
  have inv: "buffer_inv ?b" using push_item_inv [OF assms(1), of f] False by simp
  have eq: "enqueue_live f r = (Inr (), r\<lparr>lr_buffer := ?b, lr_forwarded := lr_forwarded r\<rparr>)"
    using False by (simp add: enqueue_live_def try_put_def)
  show ?thesis by (rule that [OF eq inv]) (use assms(2) in simp_all)
next
  case True
  let ?b0 = "lr_buffer r"
  have "1 \<le> bb_capacity ?b0" using assms(1) by (simp add: buffer_inv_def)
  with True obtain x q where q: "bb_queue ?b0 = x # q" by (cases "bb_queue ?b0") auto
  have cap: "int (length q) < bb_capacity ?b0"
    using assms(1) q by (simp add: buffer_inv_def)
  let ?b1 = "?b0\<lparr>bb_buffer_waits := bb_buffer_waits ?b0 + 1 + 1, bb_queue := q\<rparr>"
  have i1: "buffer_inv ?b1" using assms(1) q by (simp add: buffer_inv_def)
  then have inv: "buffer_inv (push_item f ?b1)" using push_item_inv [of ?b1 f] cap by simp
  have eq: "enqueue_live f r =
      (Inr (), r\<lparr>lr_buffer := push_item f ?b1, lr_forwarded := lr_forwarded r + 1\<rparr>)"
    using True assms(2) q cap
    by (simp add: enqueue_live_def try_put_def take_item_def force_put_def)
  show ?thesis by (rule that [OF eq inv]) (use assms(2) q in simp_all)
qed

section \<open>Frames\<close>

lemma raise_mark_simps [simp]:
  "lr_writer (raise_mark r) = lr_writer r" "lr_buffer (raise_mark r) = lr_buffer r"
  "lr_forwarded (raise_mark r) = lr_forwarded r" "lr_status (raise_mark r) = lr_status r"
  "lr_limit_hit (raise_mark r) = lr_limit_hit r" "lr_reconnects (raise_mark r) = lr_reconnects r"
  "steady r0 (raise_mark r) = steady r0 r"
  by (simp_all add: raise_mark_def steady_def)

lemma raise_mark_ok [simp]:
  "evidence_ok (raise_mark r) = evidence_ok r" "metrics_ok base (raise_mark r) = metrics_ok base r"
  by (simp_all add: evidence_ok_def metrics_ok_def raise_mark_def)

text \<open>What a frame leaves behind, up to the buffer.\<close>

definition framed ::
  "world \<Rightarrow> streamed_frame \<Rightarrow> arrival_record \<Rightarrow> live_run \<Rightarrow> live_run"
where
  "framed w f a r =
     (let r2 = r\<lparr>lr_writer := record_frame (sfr_raw f) a (lr_writer r)\<rparr>;
          r3 = (if sfr_crc_ok f then
                  (case monotonic w r2 of (now, r') \<Rightarrow> r'\<lparr>lr_last_valid := Some now\<rparr>) else r2)
      in r3\<lparr>cl_metrics := frame_metrics (lr_reconnects r3) (lr_idle_events r3) f (cl_metrics r3)\<rparr>)"

lemma framed_simps [simp]:
  "lr_writer (framed w f a r) = record_frame (sfr_raw f) a (lr_writer r)"
  "lr_buffer (framed w f a r) = lr_buffer r" "lr_forwarded (framed w f a r) = lr_forwarded r"
  "lr_status (framed w f a r) = lr_status r" "lr_limit_hit (framed w f a r) = lr_limit_hit r"
  "lr_reconnects (framed w f a r) = lr_reconnects r"
  "steady r (framed w f a r)"
  by (simp_all add: framed_def Let_def monotonic_def steady_def)

lemma framed_metrics:
  assumes "metrics_ok base r" and "arr_crc_status a = (if sfr_crc_ok f then ''PASS'' else ''FAIL'')"
  shows "metrics_ok base (framed w f a r)"
  using assms
  by (simp add: metrics_ok_def framed_def frame_metrics_def Let_def monotonic_def record_frame_def)

lemma stamp_frame_run:
  "stamp_frame w f r = (a, r1) \<Longrightarrow>
     arr_crc_status a = (if sfr_crc_ok f then ''PASS'' else ''FAIL'') \<and> steady r r1 \<and>
     evidence_ok r1 = evidence_ok r \<and> metrics_ok base r1 = metrics_ok base r \<and> lr_writer r1 = lr_writer r \<and>
     lr_buffer r1 = lr_buffer r \<and> lr_forwarded r1 = lr_forwarded r"
  by (auto simp: stamp_frame_def recorder_next_def steady_def evidence_ok_def metrics_ok_def
      split: prod.splits)

lemma record_frame_counts:
  "cw_valid (record_frame raw a wr) = cw_valid wr + (if arr_crc_status a = ''PASS'' then 1 else 0)"
  "cw_reconnects (record_frame raw a wr) = cw_reconnects wr"
  "map_of (cw_files wr) ''capture.json'' = None \<Longrightarrow>
     map_of (cw_files (record_frame raw a wr)) ''capture.json'' = None"
  by (simp_all add: record_frame_def Let_def append_file_def map_of_obj_set)

lemma handle_frame_ok:
  assumes "evidence_ok r" and "metrics_ok base r"
  obtains r' where "handle_frame w s f r = (Inr True, r')" "evidence_ok r'" "metrics_ok base r'" "steady r r'"
proof -
  obtain a r1 where st: "stamp_frame w f r = (a, r1)" by (cases "stamp_frame w f r")
  note s1 = stamp_frame_run [OF st]
  have e1: "evidence_ok r1" and m1: "metrics_ok base r1" using s1 assms by simp_all
  let ?r4 = "framed w f a r1"
  have wr: "write_frame (ls_start s) (ls_free_disk s) (sfr_raw f) a (lr_writer r1) =
      (Inr (), record_frame (sfr_raw f) a (lr_writer r1))"
    using e1 by (simp add: write_frame_def limit_check_def evidence_ok_def)
  have m4: "metrics_ok base ?r4" using framed_metrics [OF m1] s1 by simp
  have st4: "steady r ?r4" using s1 steady_trans framed_simps(7) by blast
  obtain written where "captured written (lr_writer r1)" using e1 by (auto simp: evidence_ok_def)
  then have cap: "\<exists>written. captured written (lr_writer ?r4)"
    using record_frame_captured by (simp only: framed_simps) blast
  have eq: "handle_frame w s f r =
      (if \<not> sfr_crc_ok f then (Inr True, ?r4)
       else case enqueue_live (live_of_frame s f a ?r4) ?r4 of
              (Inl e, r5) \<Rightarrow> (Inl e, r5)
            | (Inr _, r5) \<Rightarrow> (Inr True, raise_mark r5))"
    by (simp add: handle_frame_def st wr framed_def Let_def)
  show ?thesis
  proof (cases "sfr_crc_ok f")
    case False
    then have "arr_crc_status a = ''FAIL''" using s1 by simp
    then have "evidence_ok ?r4" using e1 cap by (simp add: evidence_ok_def record_frame_counts)
    then show ?thesis using that [of ?r4] eq False m4 st4 by simp
  next
    case True
    then have pass: "arr_crc_status a = ''PASS''" using s1 by simp
    have b: "buffer_inv (lr_buffer ?r4)" "bb_policy (lr_buffer ?r4) = BP_BLOCK"
      using e1 by (simp_all add: evidence_ok_def)
    obtain b k where q: "enqueue_live (live_of_frame s f a ?r4) ?r4 =
          (Inr (), ?r4\<lparr>lr_buffer := b, lr_forwarded := k\<rparr>)"
        "buffer_inv b" "bb_policy b = BP_BLOCK" "bb_dropped_frames b = bb_dropped_frames (lr_buffer ?r4)"
        "k + length (bb_queue b) = Suc (lr_forwarded ?r4 + length (bb_queue (lr_buffer ?r4)))"
      using enqueue_live_ok [OF b] .
    let ?r5 = "?r4\<lparr>lr_buffer := b, lr_forwarded := k\<rparr>"
    have "evidence_ok ?r5" using e1 cap q pass by (simp add: evidence_ok_def record_frame_counts)
    moreover have "metrics_ok base ?r5" using m4 by (simp add: metrics_ok_def)
    moreover have "steady r ?r5" using st4 by (simp add: steady_def)
    moreover have "handle_frame w s f r = (Inr True, raise_mark ?r5)" using eq True q(1) by simp
    ultimately show ?thesis using that [of "raise_mark ?r5"] by simp
  qed
qed

lemma handle_frames_ok:
  "evidence_ok r \<Longrightarrow> metrics_ok base r \<Longrightarrow>
     \<exists>r'. handle_frames w s fs r = (Inr (), r') \<and> evidence_ok r' \<and> metrics_ok base r' \<and> steady r r'"
proof (induction fs arbitrary: r)
  case (Cons f fs)
  obtain r1 where "handle_frame w s f r = (Inr True, r1)" "evidence_ok r1" "metrics_ok base r1" "steady r r1"
    using handle_frame_ok [OF Cons.prems] .
  with Cons.IH [of r1] show ?case by (auto intro: steady_trans)
qed simp

section \<open>One connection\<close>

lemma status_by_bytes_ok [simp]: "status_by_bytes r \<in> set CAPTURE_STATUSES"
  by (simp add: status_by_bytes_def CAPTURE_STATUSES_def)

text \<open>Updates that concern only the cursors and a valid status.\<close>

lemma cursor_ok [simp]:
  "evidence_ok (r\<lparr>cl_clock := n\<rparr>) = evidence_ok r" "evidence_ok (r\<lparr>cl_recvs := n\<rparr>) = evidence_ok r"
  "evidence_ok (r\<lparr>cl_flags := n\<rparr>) = evidence_ok r" "evidence_ok (r\<lparr>cl_dials := n\<rparr>) = evidence_ok r"
  "evidence_ok (r\<lparr>cl_sends := n\<rparr>) = evidence_ok r" "evidence_ok (r\<lparr>cl_metrics := m\<rparr>) = evidence_ok r"
  "metrics_ok base (r\<lparr>cl_clock := n\<rparr>) = metrics_ok base r" "metrics_ok base (r\<lparr>cl_recvs := n\<rparr>) = metrics_ok base r"
  "metrics_ok base (r\<lparr>cl_flags := n\<rparr>) = metrics_ok base r" "metrics_ok base (r\<lparr>cl_dials := n\<rparr>) = metrics_ok base r"
  "metrics_ok base (r\<lparr>cl_sends := n\<rparr>) = metrics_ok base r" "metrics_ok base (r\<lparr>lr_status := st\<rparr>) = metrics_ok base r"
  "metrics_ok base (set_state cs r) = metrics_ok base r" "evidence_ok (set_state cs r) = evidence_ok r"
  "metrics_ok base (r\<lparr>lr_idle_events := n\<rparr>) = metrics_ok base r" "evidence_ok (r\<lparr>lr_idle_events := n\<rparr>) = evidence_ok r"
  by (simp_all add: evidence_ok_def metrics_ok_def)

lemma status_ok: "evidence_ok r \<Longrightarrow> st \<in> set CAPTURE_STATUSES \<Longrightarrow> evidence_ok (r\<lparr>lr_status := st\<rparr>)"
  by (simp add: evidence_ok_def)

lemma next_chunk_ok:
  assumes "evidence_ok r" and "metrics_ok base r" and "next_chunk w data r = (ch, r')"
  shows "evidence_ok r' \<and> metrics_ok base r' \<and> steady r r'"
  using assms
  by (auto simp: next_chunk_def client_recv_def shutdown_requested_def status_ok steady_def
      split: if_splits sum.splits net_error.splits prod.splits bool.splits)

lemma read_turn_ok:
  assumes "evidence_ok r" and "metrics_ok base r" and "read_turn w s data t fr r = (x, r')"
  shows "evidence_ok r' \<and> metrics_ok base r' \<and> steady r r' \<and> x \<noteq> Stop True"
proof -
  obtain ch r1 where ch: "next_chunk w data r = (ch, r1)" by (cases "next_chunk w data r")
  note ok1 = next_chunk_ok [OF assms(1,2) ch]
  show ?thesis
  proof (cases ch)
    case (Chunk c rest)
    let ?r2 = "r1\<lparr>cl_clock := cl_clock r1 + 1\<rparr>"
    obtain frames fr1 where fd: "feed (ls_sha s) fr c = (frames, fr1)" by (cases "feed (ls_sha s) fr c")
    obtain r3 where h: "handle_frames w s frames ?r2 = (Inr (), r3)" "evidence_ok r3" "metrics_ok base r3" "steady ?r2 r3"
      using handle_frames_ok [of ?r2 base w s frames] ok1 by auto
    have "steady r ?r2" using ok1 by (simp add: steady_def)
    with h assms(3) ch Chunk fd show ?thesis
      by (auto simp: read_turn_def monotonic_def intro: steady_trans)
  qed (use assms(3) ch ok1 in \<open>auto simp: read_turn_def\<close>)
qed

text \<open>A turn moves the clock on, and only a stall changes the state.\<close>

lemma stream_turn_ok:
  assumes "evidence_ok r" and "metrics_ok base r" and "stream_turn w s data t fr r = (x, r')"
  shows "evidence_ok r' \<and> metrics_ok base r' \<and> cl_clock r < cl_clock r' \<and>
    (if x = Stop True then \<exists>r1. steady r r1 \<and> r' = note_stall r1 else steady r r')"
proof -
  let ?r1 = "r\<lparr>cl_clock := cl_clock r + 1\<rparr>" and ?r2 = "r\<lparr>cl_clock := cl_clock r + 2\<rparr>"
  have s: "steady r ?r1" "steady r ?r2" by (simp_all add: steady_def)
  have eq: "stream_turn w s data t fr r =
      (if over_budget s (wd_mono w (cl_clock r)) ?r1 then (Stop False, ?r1)
       else if f_lt (nc_idle_timeout_s (ls_config s)) (f_sub (wd_mono w (cl_clock r + 1)) t)
       then (Stop True, note_stall ?r2) else read_turn w s data t fr ?r2)"
    by (simp add: stream_turn_def monotonic_def)
  show ?thesis
  proof (cases "over_budget s (wd_mono w (cl_clock r)) ?r1")
    case True
    then have "x = Stop False" "r' = ?r1" using assms(3) eq by simp_all
    then show ?thesis using assms(1,2) s by simp
  next
    case within: False
    show ?thesis
    proof (cases "f_lt (nc_idle_timeout_s (ls_config s)) (f_sub (wd_mono w (cl_clock r + 1)) t)")
      case True
      then have "x = Stop True" "r' = note_stall ?r2" using assms(3) eq within by simp_all
      then show ?thesis using assms(1,2) s by (auto simp: note_stall_def)
    next
      case False
      then have "read_turn w s data t fr ?r2 = (x, r')" using assms(3) eq within by simp
      from read_turn_ok [OF _ _ this] assms(1,2)
      have ok: "evidence_ok r'" "metrics_ok base r'" "steady ?r2 r'" "x \<noteq> Stop True" by simp_all
      have "steady r r'" using s(2) ok(3) by (rule steady_trans)
      moreover have "cl_clock r < cl_clock r'" using ok(3) by (simp add: steady_def)
      ultimately show ?thesis using ok by simp
    qed
  qed
qed

definition streamed_to :: "nat \<times> bool \<Rightarrow> live_run \<Rightarrow> bool \<Rightarrow> live_run \<Rightarrow> bool" where
  "streamed_to base r stall r' \<longleftrightarrow>
     evidence_ok r' \<and> metrics_ok base r' \<and> cl_clock r < cl_clock r' \<and>
     (if stall then \<exists>r1. steady r r1 \<and> r' = note_stall r1 else steady r r')"

lemma stream_loop_ok:
  "evidence_ok r \<Longrightarrow> metrics_ok base r \<Longrightarrow> stream_loop fuel w s data t fr r = Some (res, r') \<Longrightarrow>
     streamed_to base r (res = Inr True) r'"
proof (induction fuel arbitrary: data t fr r)
  case (Suc fuel)
  obtain x r1 where x: "stream_turn w s data t fr r = (x, r1)" by (cases "stream_turn w s data t fr r")
  note ok1 = stream_turn_ok [OF Suc.prems(1,2) x]
  show ?case
  proof (cases x)
    case (Turn rest now fr1)
    then have "streamed_to base r1 (res = Inr True) r'"
      using Suc.IH [of r1 rest now fr1] Suc.prems(3) x ok1 by simp
    with Turn ok1 show ?thesis
      by (auto simp: streamed_to_def intro: steady_trans split: if_splits)
  next
    case (Stop stall)
    then show ?thesis using Suc.prems(3) x ok1 by (auto simp: streamed_to_def split: if_splits)
  next
    case (Raise e)
    then show ?thesis using Suc.prems(3) x ok1 by (auto simp: streamed_to_def split: if_splits)
  qed
qed simp

section \<open>One attempt\<close>

definition live_inv :: "nat \<times> bool \<Rightarrow> live_run \<Rightarrow> bool" where
  "live_inv base r \<longleftrightarrow>
     lifecycle_ok r \<and> evidence_ok r \<and> metrics_ok base r \<and>
     count_list (own_trace (cl_transitions r)) CS_CONNECTING = lr_attempts r \<and>
     fetched_trace (cl_transitions r) = snd base"

text \<open>The most attempts a policy allows: its maximum, but always the first.\<close>

definition attempt_bound :: "live_setup \<Rightarrow> int" where
  "attempt_bound s = max 1 (rp_max_attempts (ls_policy s))"

definition refused_ok :: "live_run \<Rightarrow> bool" where
  "refused_ok r \<longleftrightarrow>
     mt_authentication_failures (cl_metrics r) \<noteq> 0 \<and> mt_frames_received (cl_metrics r) = 0"

text \<open>What holds of a run from \<open>r\<close> when an attempt ends in the given way.\<close>

definition outcome_ok :: "nat \<times> bool \<Rightarrow> live_setup \<Rightarrow> live_run \<Rightarrow> outcome \<Rightarrow> live_run \<Rightarrow> bool" where
  "outcome_ok base s r x r' \<longleftrightarrow>
     lifecycle_ok r' \<and> evidence_ok r' \<and> cl_clock r \<le> cl_clock r' \<and>
     count_list (own_trace (cl_transitions r')) CS_CONNECTING = lr_attempts r' \<and>
     fetched_trace (cl_transitions r') = snd base \<and>
     int (lr_attempts r') \<le> attempt_bound s \<and>
     (case x of
        Again \<Rightarrow> metrics_ok base r' \<and> cl_state r' = CS_RECONNECTING \<and>
          int (lr_attempts r') < rp_max_attempts (ls_policy s)
      | Finished \<Rightarrow> lifecycle (phase (cl_state r')) CS_STOPPED \<and> (metrics_ok base r' \<or> refused_ok r')
      | Failed e \<Rightarrow> True)"

lemma live_inv_state:
  "live_inv base r \<Longrightarrow> lifecycle (phase (cl_state r)) st \<Longrightarrow> st \<noteq> CS_CONNECTING \<Longrightarrow>
     st \<noteq> CS_STOPPED \<Longrightarrow> live_inv base (set_state st r)"
  by (simp add: live_inv_def set_state_ok) (simp add: lifecycle_ok_def own_trace_snoc fetched_trace_snoc)

lemma live_inv_steady:
  "steady r r' \<Longrightarrow> evidence_ok r' \<Longrightarrow> metrics_ok base r' \<Longrightarrow> live_inv base r \<Longrightarrow> live_inv base r'"
  by (auto simp: live_inv_def steady_lifecycle steady_def)

lemma live_inv_cursor [simp]:
  "live_inv base (r\<lparr>cl_clock := n\<rparr>) = live_inv base r" "live_inv base (r\<lparr>cl_recvs := n\<rparr>) = live_inv base r"
  "live_inv base (r\<lparr>cl_flags := n\<rparr>) = live_inv base r" "live_inv base (r\<lparr>cl_sends := n\<rparr>) = live_inv base r"
  "live_inv base (r\<lparr>cl_dials := n\<rparr>) = live_inv base r" "live_inv base (r\<lparr>lr_idle_events := n\<rparr>) = live_inv base r"
  by (simp_all add: live_inv_def lifecycle_ok_def)

lemma live_inv_status: "live_inv base r \<Longrightarrow> st \<in> set CAPTURE_STATUSES \<Longrightarrow> live_inv base (r\<lparr>lr_status := st\<rparr>)"
  by (simp add: live_inv_def lifecycle_ok_def status_ok)

lemma failed_ok: "live_inv base r' \<Longrightarrow> cl_clock r \<le> cl_clock r' \<Longrightarrow> int (lr_attempts r') \<le> attempt_bound s \<Longrightarrow>
    outcome_ok base s r (Failed e) r'"
  by (simp add: outcome_ok_def live_inv_def)

lemma finished_ok:
  "live_inv base r' \<Longrightarrow> cl_clock r \<le> cl_clock r' \<Longrightarrow> int (lr_attempts r') \<le> attempt_bound s \<Longrightarrow>
     lifecycle (phase (cl_state r')) CS_STOPPED \<Longrightarrow> outcome_ok base s r Finished r'"
  by (simp add: outcome_ok_def live_inv_def)

lemma note_reconnect_ok:
  "live_inv base r \<Longrightarrow>
     live_inv base (r\<lparr>lr_reconnects := lr_reconnects r + 1, lr_writer := note_reconnect (lr_writer r)\<rparr>)"
  by (auto simp: live_inv_def lifecycle_ok_def evidence_ok_def metrics_ok_def note_reconnect_def captured_def)

lemma retry_ok:
  assumes "live_inv base r" and "cl_state r = CS_RECONNECTING" and "cl_clock r0 \<le> cl_clock r"
    and "int (lr_attempts r) \<le> attempt_bound s" and "status r \<in> set CAPTURE_STATUSES"
    and "retry s status r = (x, r')"
  shows "outcome_ok base s r0 x r'"
proof (cases "attempts_exhausted (ls_policy s) (int (lr_attempts r))")
  case True
  with assms(6) have "x = Finished" "r' = r\<lparr>lr_status := status r\<rparr>" by (simp_all add: retry_def)
  with assms live_inv_status [OF assms(1,5)] show ?thesis by (auto intro!: finished_ok)
next
  case False
  let ?d = "bind_result (delay_for_attempt (\<lambda>seed. f_zero) (ls_policy s) (int (lr_attempts r)) None) py_sleep"
  show ?thesis
  proof (cases ?d)
    case (Inl e)
    with assms(6) False have "x = Failed e" "r' = r" by (simp_all add: retry_def)
    with assms show ?thesis by (auto intro: failed_ok)
  next
    case (Inr u)
    let ?r = "r\<lparr>lr_reconnects := lr_reconnects r + 1, lr_writer := note_reconnect (lr_writer r)\<rparr>"
    have "retry s status r = (Again, ?r)" unfolding retry_def Inr using False by simp
    with assms(6) have "x = Again" "r' = ?r" by simp_all
    moreover have "int (lr_attempts r) < rp_max_attempts (ls_policy s)"
      using False by (simp add: attempts_exhausted_def)
    ultimately show ?thesis using note_reconnect_ok [OF assms(1)] assms(2,3,4)
      by (simp add: outcome_ok_def live_inv_def)
  qed
qed

lemma after_stream_ok:
  assumes "live_inv base r" and "cl_state r \<in> {CS_STREAMING, CS_RECONNECTING}" and "cl_clock r0 \<le> cl_clock r"
    and "int (lr_attempts r) \<le> attempt_bound s" and "after_stream w s stall r = (x, r')"
  shows "outcome_ok base s r0 x r'"
proof -
  let ?r1 = "r\<lparr>cl_clock := cl_clock r + 1\<rparr>"
  have hit: "\<not> lr_limit_hit r" using assms(1) by (simp add: live_inv_def evidence_ok_def)
  have eq: "after_stream w s stall r =
      (if over_budget s (wd_mono w (cl_clock r)) ?r1 then (Finished, ?r1)
       else if attempts_exhausted (ls_policy s) (int (lr_attempts r)) then
         (Finished, if stall \<or> cw_bytes (lr_writer r) = 0
                    then ?r1\<lparr>lr_status := status_by_bytes ?r1\<rparr> else ?r1)
       else retry s status_by_bytes (set_state CS_RECONNECTING ?r1))"
    using hit by (simp add: after_stream_def monotonic_def)
  have edge: "lifecycle (phase (cl_state r)) CS_STOPPED" "lifecycle (phase (cl_state r)) CS_RECONNECTING"
    using assms(2) by auto
  have i1: "live_inv base ?r1" using assms(1) by simp
  have i2: "live_inv base (?r1\<lparr>lr_status := status_by_bytes ?r1\<rparr>)" by (rule live_inv_status [OF i1]) simp
  have i3: "live_inv base (set_state CS_RECONNECTING ?r1)" using i1 edge(2) by (intro live_inv_state) simp_all
  note res = assms(5) [unfolded eq]
  show ?thesis
  proof (cases "over_budget s (wd_mono w (cl_clock r)) ?r1")
    case True
    from res [unfolded if_P [OF True]] have "x = Finished" "r' = ?r1" by blast+
    then show ?thesis using finished_ok [OF i1, of r0 s] edge(1) assms(3,4) by simp
  next
    case within: False
    note res = res [unfolded if_not_P [OF within]]
    show ?thesis
    proof (cases "attempts_exhausted (ls_policy s) (int (lr_attempts r))")
      case True
      from res [unfolded if_P [OF True]] have "x = Finished"
        "r' = ?r1 \<or> r' = ?r1\<lparr>lr_status := status_by_bytes ?r1\<rparr>" by auto
      then show ?thesis using finished_ok [OF i1, of r0 s] finished_ok [OF i2, of r0 s] edge(1) assms(3,4)
        by auto
    next
      case False
      show ?thesis by (rule retry_ok [OF i3 _ _ _ _ res [unfolded if_not_P [OF False]]]) (use assms(3,4) in simp_all)
    qed
  qed
qed

lemma note_stall_inv:
  assumes "live_inv base r" and "lifecycle (phase (cl_state r)) CS_RECONNECTING" shows "live_inv base (note_stall r)"
  unfolding note_stall_def by (rule live_inv_state) (use assms in simp_all)

lemma note_stall_simps [simp]:
  "cl_state (note_stall r) = CS_RECONNECTING" "cl_clock (note_stall r) = cl_clock r"
  "lr_attempts (note_stall r) = lr_attempts r" "cl_dials (note_stall r) = cl_dials r"
  by (simp_all add: note_stall_def)

lemma connected_ok:
  assumes "live_inv base r" and "cl_state r = CS_AUTHENTICATING"
  shows "live_inv base ((set_state CS_STREAMING r)\<lparr>cl_metrics := connected_metrics k n (cl_metrics r)\<rparr>)"
proof -
  have "live_inv base (set_state CS_STREAMING r)" by (rule live_inv_state) (use assms in auto)
  then show ?thesis
    by (simp add: live_inv_def lifecycle_ok_def evidence_ok_def metrics_ok_def connected_metrics_def)
qed

lemma run_stream_ok:
  assumes "live_inv base r" and "cl_state r = CS_AUTHENTICATING" and "cl_clock r0 \<le> cl_clock r"
    and "int (lr_attempts r) \<le> attempt_bound s" and "run_stream fuel w s data r = Some (x, r')"
  shows "outcome_ok base s r0 x r'"
proof -
  let ?r2 = "(set_state CS_STREAMING r)\<lparr>cl_metrics := connected_metrics (lr_reconnects r) (lr_idle_events r) (cl_metrics r)\<rparr>"
  have i2: "live_inv base ?r2" by (rule connected_ok [OF assms(1,2)])
  show ?thesis
  proof (cases "framer_init (nc_max_frame_length (ls_config s))")
    case (Inl e)
    with assms(5) have "x = Failed e" "r' = ?r2" by (simp_all add: run_stream_def)
    then show ?thesis using i2 assms(3,4) by (auto intro: failed_ok)
  next
    case (Inr fr)
    let ?r3 = "?r2\<lparr>cl_clock := cl_clock r + 1\<rparr>"
    have i3: "live_inv base ?r3" using i2 by simp
    obtain res r4 where loop: "stream_loop fuel w s data (wd_mono w (cl_clock r)) fr ?r3 = Some (res, r4)"
      using assms(5) Inr by (auto simp: run_stream_def monotonic_def split: option.splits)
    have "streamed_to base ?r3 (res = Inr True) r4"
      using stream_loop_ok [OF _ _ loop] i3 by (simp add: live_inv_def)
    then obtain r5 where r5: "steady ?r3 r5" "r4 = (if res = Inr True then note_stall r5 else r5)"
        "evidence_ok r4" "metrics_ok base r4"
      by (auto simp: streamed_to_def split: if_splits)
    have "evidence_ok r5" "metrics_ok base r5" using r5 by (simp_all add: note_stall_def split: if_splits)
    then have i5: "live_inv base r5" using live_inv_steady [OF r5(1)] i3 by simp
    have st5: "cl_state r5 = CS_STREAMING" "cl_clock r \<le> cl_clock r5" "lr_attempts r5 = lr_attempts r"
      using r5(1) by (simp_all add: steady_def)
    have i4: "live_inv base r4" "cl_state r4 \<in> {CS_STREAMING, CS_RECONNECTING}" "cl_clock r0 \<le> cl_clock r4"
        "int (lr_attempts r4) \<le> attempt_bound s"
      using i5 st5 r5(2) note_stall_inv [OF i5] assms(3,4) by auto
    show ?thesis
    proof (cases res)
      case (Inl e)
      with assms(5) Inr loop have "x = Failed e" "r' = r4" by (simp_all add: run_stream_def monotonic_def)
      then show ?thesis using i4 by (auto intro: failed_ok)
    next
      case (Inr stall)
      with assms(5) \<open>framer_init _ = Inr fr\<close> loop have "after_stream w s stall r4 = (x, r')"
        by (simp add: run_stream_def monotonic_def)
      then show ?thesis by (rule after_stream_ok [OF i4])
    qed
  qed
qed

text \<open>A refused response: only a terminal one blocks, and it ends the capture.\<close>

lemma refused_outcome:
  assumes "live_inv base r" and "cl_state r = CS_AUTHENTICATING" and "cl_clock r0 \<le> cl_clock r"
    and "int (lr_attempts r) \<le> attempt_bound s"
  shows "outcome_ok base s r0 (fst (refuse_stream s check r)) (snd (refuse_stream s check r))"
proof -
  have i: "live_inv base (set_state CS_RECONNECTING r)" by (rule live_inv_state) (use assms in auto)
  have again: "outcome_ok base s r0 (fst (retry s status_by_bytes (set_state CS_RECONNECTING r)))
      (snd (retry s status_by_bytes (set_state CS_RECONNECTING r)))"
    by (rule retry_ok [OF i _ _ _ _ surjective_pairing]) (use assms in simp_all)
  show ?thesis
  proof (cases "hs_failure check")
    case None
    with again show ?thesis by (simp add: refuse_stream_def)
  next
    case (Some f)
    show ?thesis
    proof (cases "is_terminal f")
      case False
      with Some again show ?thesis by (simp add: refuse_stream_def)
    next
      case True
      let ?b = "set_state CS_BLOCKED r"
      let ?r = "?b\<lparr>lr_status := status_by_bytes ?b\<rparr>"
      let ?m = "refused_metrics (mt_connections_attempted (cl_metrics r)) (cl_metrics r)"
      have "live_inv base ?b" by (rule live_inv_state) (use assms in auto)
      then have ib: "live_inv base ?r" by (rule live_inv_status) simp
      then have "outcome_ok base s r0 Finished ?r"
        by (rule finished_ok) (use assms in auto)
      moreover have "outcome_ok base s r0 Finished (?r\<lparr>cl_metrics := ?m\<rparr>)"
        using ib assms(3,4)
        by (auto simp: outcome_ok_def live_inv_def lifecycle_ok_def refused_ok_def refused_metrics_def no_metrics_def)
      ultimately show ?thesis using Some True by (simp add: refuse_stream_def Let_def)
    qed
  qed
qed

lemma read_head_loop_run:
  "\<exists>n. snd (read_head_loop w mx data c) = c\<lparr>cl_recvs := n\<rparr>"
proof (induction w mx data c rule: read_head_loop.induct)
  case (1 w mx data c)
  show ?case
  proof (cases "wd_recv w (cl_recvs c)")
    case (Inl e)
    then show ?thesis
      by (subst read_head_loop.simps) (auto simp: client_recv_def split: net_error.split)
  next
    case (Inr chunk)
    let ?c1 = "c\<lparr>cl_recvs := cl_recvs c + 1\<rparr>"
    have cr: "client_recv w c = (Inr chunk, ?c1)" using Inr by (simp add: client_recv_def)
    show ?thesis
    proof (cases "chunk = [] \<or> split_head (data @ chunk) mx \<noteq> None \<or> mx < int (length (data @ chunk))")
      case True
      then show ?thesis using cr by (subst read_head_loop.simps) (auto split: option.split)
    next
      case False
      then have "read_head_loop w mx data c = read_head_loop w mx (data @ chunk) ?c1"
        using cr by (subst read_head_loop.simps) (simp split: option.split)
      moreover obtain n where "snd (read_head_loop w mx (data @ chunk) ?c1) = ?c1\<lparr>cl_recvs := n\<rparr>"
        using 1 [OF cr [symmetric] refl] False by (cases "split_head (data @ chunk) mx") auto
      ultimately show ?thesis by auto
    qed
  qed
qed

lemma read_head_run:
  obtains n where "snd (read_head w cfg r) = r\<lparr>cl_clock := cl_clock r + 1, cl_recvs := n\<rparr>"
  using read_head_loop_run [of w "nc_max_header_bytes cfg" "[]" "snd (monotonic w r)"]
  by (auto simp: read_head_def)

lemma after_head_ok:
  assumes "live_inv base r" and "cl_state r = CS_AUTHENTICATING" and "cl_clock r0 \<le> cl_clock r"
    and "int (lr_attempts r) \<le> attempt_bound s" and "after_head fuel w s head r = Some (x, r')"
  shows "outcome_ok base s r0 x r'"
proof (cases head)
  case (Inl e)
  have lost: "live_inv base (set_state CS_RECONNECTING r)" by (rule live_inv_state) (use assms in auto)
  show ?thesis
  proof (cases "transient_head_error e")
    case True
    with assms(5) Inl have "retry s (\<lambda>_. ''FAILED'') (set_state CS_RECONNECTING r) = (x, r')"
      by (simp add: after_head_def)
    then show ?thesis by (rule retry_ok [OF lost, rotated -1])
      (use assms in \<open>simp_all add: CAPTURE_STATUSES_def\<close>)
  next
    case False
    with assms(5) Inl have "x = Failed e" "r' = r" by (simp_all add: after_head_def)
    with assms show ?thesis by (auto intro: failed_ok)
  qed
next
  case (Inr sr)
  obtain status rest where sr: "sr = (status, rest)" by (cases sr)
  let ?r1 = "r\<lparr>cl_recvs := cl_recvs r + 1\<rparr>"
  have recv: "client_recv w r = (wd_recv w (cl_recvs r), ?r1)" by (simp add: client_recv_def)
  have i1: "live_inv base ?r1" "cl_state ?r1 = CS_AUTHENTICATING" "cl_clock r0 \<le> cl_clock ?r1"
      "int (lr_attempts ?r1) \<le> attempt_bound s"
    using assms by simp_all
  note run = assms(5) [unfolded after_head_def Inr sr recv sum.case prod.case]
  show ?thesis
  proof (cases "wd_recv w (cl_recvs r)")
    case (Inl e)
    note run = run [unfolded Inl sum.case]
    show ?thesis
    proof (cases e)
      case (Net_Timeout m)
      have st: "live_inv base (note_stall ?r1)" by (rule note_stall_inv) (use i1 in auto)
      have "retry s status_by_bytes (note_stall ?r1) = (x, r')" using run Net_Timeout by simp
      then show ?thesis by (rule retry_ok [OF st, rotated -1]) (use i1 in simp_all)
    next
      case (Net_Error m)
      with run have "x = Failed (ConnectionLost m)" "r' = ?r1" by simp_all
      with i1 show ?thesis by (auto intro: failed_ok)
    qed
  next
    case (Inr first)
    let ?check = "validate_stream_response status (rest @ first)"
    note run = run [unfolded Inr sum.case Let_def]
    show ?thesis
    proof (cases "hs_ok ?check")
      case True
      from run [unfolded if_P [OF True]] show ?thesis by (rule run_stream_ok [OF i1])
    next
      case False
      from run [unfolded if_not_P [OF False]] refused_outcome [OF i1, of ?check]
      show ?thesis by simp
    qed
  qed
qed

text \<open>What the client is when the head has been read.\<close>

lemma handshake_run:
  assumes "wd_send w (cl_sends r) = None"
  obtains n head where
    "read_head w (ls_config s) (snd (monotonic w (snd (client_send w (set_state CS_AUTHENTICATING r))))) =
       (head, (set_state CS_AUTHENTICATING r)\<lparr>cl_sends := cl_sends r + 1, cl_clock := cl_clock r + 2, cl_recvs := n\<rparr>)"
    "handshake_and_stream fuel w s r = after_head fuel w s head
       ((set_state CS_AUTHENTICATING r)\<lparr>cl_sends := cl_sends r + 1, cl_clock := cl_clock r + 2, cl_recvs := n\<rparr>)"
proof -
  let ?a = "set_state CS_AUTHENTICATING r"
  let ?r1 = "?a\<lparr>cl_sends := cl_sends r + 1\<rparr>"
  have sends: "cl_sends ?a = cl_sends r" by (simp add: set_state_def)
  have send: "client_send w ?a = (None, ?r1)" using assms sends by (simp add: client_send_def)
  obtain head r2 where h: "read_head w (ls_config s) (snd (monotonic w ?r1)) = (head, r2)"
    by (cases "read_head w (ls_config s) (snd (monotonic w ?r1))")
  obtain n where "r2 = (snd (monotonic w ?r1))\<lparr>cl_clock := cl_clock (snd (monotonic w ?r1)) + 1, cl_recvs := n\<rparr>"
    using read_head_run [of w "ls_config s" "snd (monotonic w ?r1)"] h by (metis snd_conv)
  then have r2: "r2 = ?a\<lparr>cl_sends := cl_sends r + 1, cl_clock := cl_clock r + 2, cl_recvs := n\<rparr>" by simp
  show ?thesis
  proof (rule that)
    show "read_head w (ls_config s) (snd (monotonic w (snd (client_send w ?a)))) =
        (head, ?a\<lparr>cl_sends := cl_sends r + 1, cl_clock := cl_clock r + 2, cl_recvs := n\<rparr>)"
      unfolding send snd_conv h r2 ..
    show "handshake_and_stream fuel w s r = after_head fuel w s head
        (?a\<lparr>cl_sends := cl_sends r + 1, cl_clock := cl_clock r + 2, cl_recvs := n\<rparr>)"
      unfolding handshake_and_stream_def send prod.case option.case h r2 ..
  qed
qed

lemma handshake_ok:
  assumes "live_inv base r" and "cl_state r = CS_CONNECTING" and "cl_clock r0 \<le> cl_clock r"
    and "int (lr_attempts r) \<le> attempt_bound s" and "handshake_and_stream fuel w s r = Some (x, r')"
  shows "outcome_ok base s r0 x r'"
proof -
  let ?a = "set_state CS_AUTHENTICATING r"
  have ia: "live_inv base ?a" by (rule live_inv_state) (use assms in auto)
  show ?thesis
  proof (cases "wd_send w (cl_sends r)")
    case (Some e)
    have "cl_sends ?a = cl_sends r" by (simp add: set_state_def)
    with Some assms(5) have "x = Failed (net_exception e)" "r' = ?a\<lparr>cl_sends := cl_sends r + 1\<rparr>"
      by (simp_all add: handshake_and_stream_def client_send_def)
    with ia assms(3,4) show ?thesis by (auto intro: failed_ok)
  next
    case None
    obtain n head where "handshake_and_stream fuel w s r = after_head fuel w s head
        (?a\<lparr>cl_sends := cl_sends r + 1, cl_clock := cl_clock r + 2, cl_recvs := n\<rparr>)"
      using handshake_run [OF None] by metis
    then have "after_head fuel w s head
        (?a\<lparr>cl_sends := cl_sends r + 1, cl_clock := cl_clock r + 2, cl_recvs := n\<rparr>) = Some (x, r')"
      using assms(5) by simp
    then show ?thesis by (rule after_head_ok [rotated -1]) (use ia assms(3,4) in simp_all)
  qed
qed

section \<open>The loop over connections\<close>

lemma begin_attempt_run:
  "cl_state (begin_attempt w r) = CS_CONNECTING" "lr_attempts (begin_attempt w r) = lr_attempts r + 1"
  "cl_clock (begin_attempt w r) = cl_clock r" "cl_dials (begin_attempt w r) = cl_dials r"
  by (simp_all add: begin_attempt_def Let_def set_state_def)

lemma begin_attempt_inv:
  assumes "live_inv base r" and "lifecycle (phase (cl_state r)) CS_CONNECTING" shows "live_inv base (begin_attempt w r)"
  using assms
  by (auto simp: live_inv_def lifecycle_ok_def evidence_ok_def metrics_ok_def begin_attempt_def
      attempted_metrics_def set_state_def Let_def own_trace_snoc fetched_trace_snoc successively_append_iff)

lemma connect_turn_ok:
  assumes "live_inv base r" and "cl_state r \<in> {CS_DISCONNECTED, CS_STOPPED, CS_RECONNECTING}"
    and "int (lr_attempts r) < attempt_bound s" and "connect_turn fuel w s r = Some (x, r')"
  shows "outcome_ok base s (r\<lparr>cl_clock := (if x = Again then Suc (cl_clock r) else cl_clock r)\<rparr>) x r'"
proof -
  let ?r1 = "r\<lparr>cl_flags := cl_flags r + 1\<rparr>" and ?r2 = "r\<lparr>cl_flags := cl_flags r + 1, cl_clock := cl_clock r + 1\<rparr>"
  have edges: "lifecycle (phase (cl_state r)) CS_STOPPED" "lifecycle (phase (cl_state r)) CS_CONNECTING"
    using assms(2) by auto
  have bound: "int (lr_attempts r) \<le> attempt_bound s" using assms(3) by simp
  note turn = assms(4) [unfolded connect_turn_def shutdown_requested_def monotonic_def prod.case]
  show ?thesis
  proof (cases "wd_shutdown w (cl_flags r)")
    case True
    with turn have r': "x = Finished" "r' = ?r1\<lparr>lr_status := status_by_bytes ?r1\<rparr>" by simp_all
    have "live_inv base r'" unfolding r' by (rule live_inv_status) (use assms(1) in simp_all)
    then show ?thesis using r' edges bound by (auto intro: finished_ok)
  next
    case False
    show ?thesis
    proof (cases "over_budget s (wd_mono w (cl_clock r)) ?r2")
      case True
      with False turn have "x = Finished" "r' = ?r2" by simp_all
      with assms(1) edges bound show ?thesis by (auto intro!: finished_ok)
    next
      case within: False
      let ?b = "begin_attempt w ?r2"
      let ?d = "?b\<lparr>cl_dials := cl_dials ?b + 1\<rparr>"
      have i: "live_inv base ?b" by (rule begin_attempt_inv) (use assms(1) edges in simp_all)
      have b: "live_inv base ?d" "cl_state ?d = CS_CONNECTING" "cl_clock ?d = Suc (cl_clock r)"
          "int (lr_attempts ?d) \<le> attempt_bound s"
        using i assms(3) by (simp_all add: begin_attempt_run)
      have clk: "cl_clock (r\<lparr>cl_clock := (if x = Again then Suc (cl_clock r) else cl_clock r)\<rparr>) \<le> cl_clock ?d"
        using b(3) by simp
      show ?thesis
      proof (cases "wd_dial w (cl_dials ?b)")
        case (Some e)
        have lost: "live_inv base (set_state CS_RECONNECTING ?d)" by (rule live_inv_state) (use b in auto)
        have "retry s (\<lambda>_. ''FAILED'') (set_state CS_RECONNECTING ?d) = (x, r')"
          using turn False within Some by (simp add: client_dial_def)
        then show ?thesis by (rule retry_ok [OF lost, rotated -1])
          (use b clk in \<open>simp_all add: CAPTURE_STATUSES_def\<close>)
      next
        case None
        have "handshake_and_stream fuel w s ?d = Some (x, r')"
          using turn False within None by (simp add: client_dial_def)
        then show ?thesis by (rule handshake_ok [OF b(1,2) clk b(4)])
      qed
    qed
  qed
qed

text \<open>What the loop leaves when it ends.\<close>

definition loop_end :: "nat \<times> bool \<Rightarrow> live_setup \<Rightarrow> unit result \<Rightarrow> live_run \<Rightarrow> bool" where
  "loop_end base s res r \<longleftrightarrow>
     lifecycle_ok r \<and> evidence_ok r \<and> count_list (own_trace (cl_transitions r)) CS_CONNECTING = lr_attempts r \<and>
     fetched_trace (cl_transitions r) = snd base \<and>
     int (lr_attempts r) \<le> attempt_bound s \<and>
     (res = Inr () \<longrightarrow> lifecycle (phase (cl_state r)) CS_STOPPED \<and> (metrics_ok base r \<or> refused_ok r))"

lemma connect_loop_ok:
  "live_inv base r \<Longrightarrow> cl_state r \<in> {CS_DISCONNECTED, CS_STOPPED, CS_RECONNECTING} \<Longrightarrow>
     int (lr_attempts r) < attempt_bound s \<Longrightarrow> connect_loop n fuel w s r = Some (res, r') \<Longrightarrow>
     loop_end base s res r'"
proof (induction n arbitrary: r)
  case (Suc n)
  obtain x r1 where t: "connect_turn fuel w s r = Some (x, r1)"
    using Suc.prems(4) by (auto split: option.splits)
  note ok = connect_turn_ok [OF Suc.prems(1-3) t]
  show ?case
  proof (cases x)
    case Again
    with ok have "live_inv base r1" "cl_state r1 = CS_RECONNECTING" "int (lr_attempts r1) < attempt_bound s"
      by (simp_all add: outcome_ok_def live_inv_def attempt_bound_def)
    with Suc.IH [of r1] Suc.prems(4) t Again show ?thesis by simp
  next
    case Finished
    with Suc.prems(4) t ok show ?thesis by (auto simp: outcome_ok_def loop_end_def)
  next
    case (Failed e)
    with Suc.prems(4) t ok show ?thesis by (auto simp: outcome_ok_def loop_end_def)
  qed
qed simp

section \<open>Termination\<close>

text \<open>From the reading \<open>n\<close> on, the clock says that the time budget is used up.\<close>

definition budget_spent :: "world \<Rightarrow> live_setup \<Rightarrow> nat \<Rightarrow> bool" where
  "budget_spent w s n \<longleftrightarrow> (\<forall>k \<ge> n. f_le (ls_budget_s s) (f_sub (wd_mono w k) (ls_start s)))"

lemma budget_spent_over: "budget_spent w s n \<Longrightarrow> n \<le> k \<Longrightarrow> over_budget s (wd_mono w k) r"
  by (simp add: budget_spent_def over_budget_def)

text \<open>Each turn reads the clock, so the readings left before the budget is spent bound the turns.\<close>

lemma stream_loop_total:
  "evidence_ok r \<Longrightarrow> metrics_ok base r \<Longrightarrow> budget_spent w s n \<Longrightarrow> n - cl_clock r < fuel \<Longrightarrow>
     stream_loop fuel w s data t fr r \<noteq> None"
proof (induction fuel arbitrary: data t fr r)
  case (Suc fuel)
  obtain x r1 where x: "stream_turn w s data t fr r = (x, r1)" by (cases "stream_turn w s data t fr r")
  note ok1 = stream_turn_ok [OF Suc.prems(1,2) x]
  show ?case
  proof (cases x)
    case (Turn rest now fr1)
    have "cl_clock r < n"
    proof (rule ccontr)
      assume "\<not> cl_clock r < n"
      then have "over_budget s (wd_mono w (cl_clock r)) (snd (monotonic w r))"
        using budget_spent_over [OF Suc.prems(3)] by simp
      then have "fst (stream_turn w s data t fr r) = Stop False"
        by (simp add: stream_turn_def monotonic_def)
      with x Turn show False by simp
    qed
    then have "n - cl_clock r1 < fuel" using ok1 Suc.prems(4) by linarith
    with Suc.IH [of r1] ok1 Suc.prems(3) x Turn show ?thesis by simp
  qed (use x in simp_all)
qed simp

lemma run_stream_total:
  assumes "live_inv base r" and "cl_state r = CS_AUTHENTICATING" and "budget_spent w s n" and "n - cl_clock r < fuel"
  shows "run_stream fuel w s data r \<noteq> None"
proof (cases "framer_init (nc_max_frame_length (ls_config s))")
  case (Inr fr)
  let ?r2 = "(set_state CS_STREAMING r)\<lparr>cl_metrics := connected_metrics (lr_reconnects r) (lr_idle_events r) (cl_metrics r)\<rparr>"
  let ?r3 = "?r2\<lparr>cl_clock := cl_clock r + 1\<rparr>"
  have i3: "live_inv base ?r3" using connected_ok [OF assms(1,2)] by simp
  then have ok: "evidence_ok ?r3" "metrics_ok base ?r3" by (simp_all add: live_inv_def)
  have "stream_loop fuel w s data (wd_mono w (cl_clock r)) fr ?r3 \<noteq> None"
    by (rule stream_loop_total [OF ok assms(3)]) (use assms(4) in simp)
  with Inr show ?thesis by (auto simp: run_stream_def monotonic_def split: option.split sum.split)
qed (simp add: run_stream_def)

lemma after_head_total:
  assumes "live_inv base r" and "cl_state r = CS_AUTHENTICATING" and "budget_spent w s n" and "n - cl_clock r < fuel"
  shows "after_head fuel w s head r \<noteq> None"
proof -
  have "run_stream fuel w s data (r\<lparr>cl_recvs := k\<rparr>) \<noteq> None" for data k
    by (rule run_stream_total [OF _ _ assms(3)]) (use assms in simp_all)
  then show ?thesis
    by (auto simp: after_head_def client_recv_def Let_def split: sum.split net_error.split)
qed

definition dialled :: "world \<Rightarrow> live_run \<Rightarrow> live_run" where
  "dialled w r =
     (let b = begin_attempt w (r\<lparr>cl_flags := cl_flags r + 1, cl_clock := cl_clock r + 1\<rparr>)
      in b\<lparr>cl_dials := cl_dials b + 1\<rparr>)"

lemma connect_turn_eq:
  "connect_turn fuel w s r =
     (let r1 = r\<lparr>cl_flags := cl_flags r + 1\<rparr>; r2 = r1\<lparr>cl_clock := cl_clock r + 1\<rparr> in
      if wd_shutdown w (cl_flags r) then Some (Finished, r1\<lparr>lr_status := status_by_bytes r1\<rparr>)
      else if over_budget s (wd_mono w (cl_clock r)) r2 then Some (Finished, r2)
      else case wd_dial w (cl_dials r) of
             Some e \<Rightarrow> Some (retry s (\<lambda>_. ''FAILED'') (set_state CS_RECONNECTING (dialled w r)))
           | None \<Rightarrow> handshake_and_stream fuel w s (dialled w r))"
  by (simp add: connect_turn_def shutdown_requested_def monotonic_def client_dial_def dialled_def
      begin_attempt_run Let_def split: bool.split option.split)

lemma dialled_run:
  "cl_state (dialled w r) = CS_CONNECTING" "cl_clock (dialled w r) = Suc (cl_clock r)"
  "cl_dials (dialled w r) = Suc (cl_dials r)" "lr_attempts (dialled w r) = Suc (lr_attempts r)"
  by (simp_all add: dialled_def begin_attempt_run Let_def)

lemma dialled_inv:
  "live_inv base r \<Longrightarrow> cl_state r \<in> {CS_DISCONNECTED, CS_STOPPED, CS_RECONNECTING} \<Longrightarrow> live_inv base (dialled w r)"
  using begin_attempt_inv [of base "r\<lparr>cl_flags := cl_flags r + 1, cl_clock := cl_clock r + 1\<rparr>" w]
    lifecycle.start lifecycle.again
  by (auto simp: dialled_def Let_def)

lemma handshake_total:
  assumes "live_inv base r" and "cl_state r = CS_CONNECTING" and "budget_spent w s n" and "n - cl_clock r < fuel"
  shows "handshake_and_stream fuel w s r \<noteq> None"
proof (cases "wd_send w (cl_sends r)")
  case (Some e)
  have "cl_sends (set_state CS_AUTHENTICATING r) = cl_sends r" by (simp add: set_state_def)
  with Some show ?thesis by (simp add: handshake_and_stream_def client_send_def)
next
  case None
  let ?a = "set_state CS_AUTHENTICATING r"
  have ia: "live_inv base ?a" by (rule live_inv_state) (use assms in auto)
  obtain k head where "handshake_and_stream fuel w s r = after_head fuel w s head
      (?a\<lparr>cl_sends := cl_sends r + 1, cl_clock := cl_clock r + 2, cl_recvs := k\<rparr>)"
    using handshake_run [OF None] by metis
  moreover have "after_head fuel w s head
      (?a\<lparr>cl_sends := cl_sends r + 1, cl_clock := cl_clock r + 2, cl_recvs := k\<rparr>) \<noteq> None"
    by (rule after_head_total [OF _ _ assms(3)]) (use ia assms(4) in simp_all)
  ultimately show ?thesis by simp
qed

lemma connect_turn_total:
  assumes "live_inv base r" and "cl_state r \<in> {CS_DISCONNECTED, CS_STOPPED, CS_RECONNECTING}"
    and "budget_spent w s n" and "n - cl_clock r < fuel"
  shows "connect_turn fuel w s r \<noteq> None"
proof -
  have "handshake_and_stream fuel w s (dialled w r) \<noteq> None"
    by (rule handshake_total [OF dialled_inv [OF assms(1,2)] _ assms(3)])
      (use assms(4) in \<open>simp_all add: dialled_run\<close>)
  then show ?thesis by (simp add: connect_turn_eq Let_def split: option.split)
qed

lemma connect_turn_again:
  assumes "budget_spent w s n" and "connect_turn fuel w s r = Some (Again, r')" shows "cl_clock r < n"
proof (rule ccontr)
  assume "\<not> cl_clock r < n"
  then have "over_budget s (wd_mono w (cl_clock r)) r0" for r0
    using budget_spent_over [OF assms(1)] by simp
  with assms(2) show False by (simp add: connect_turn_eq Let_def split: if_splits)
qed

lemma connect_loop_total:
  "live_inv base r \<Longrightarrow> cl_state r \<in> {CS_DISCONNECTED, CS_STOPPED, CS_RECONNECTING} \<Longrightarrow>
     int (lr_attempts r) < attempt_bound s \<Longrightarrow> budget_spent w s m \<Longrightarrow> m - cl_clock r < fuel \<Longrightarrow>
     m - cl_clock r < n \<Longrightarrow> connect_loop n fuel w s r \<noteq> None"
proof (induction n arbitrary: r)
  case (Suc n)
  obtain x r1 where t: "connect_turn fuel w s r = Some (x, r1)"
    using connect_turn_total [OF Suc.prems(1,2,4,5)] by auto
  note ok = connect_turn_ok [OF Suc.prems(1-3) t]
  show ?case
  proof (cases x)
    case Again
    have "cl_clock r < m" using connect_turn_again [OF Suc.prems(4)] t Again by blast
    moreover have r1: "live_inv base r1" "cl_state r1 = CS_RECONNECTING" "int (lr_attempts r1) < attempt_bound s"
        "cl_clock r < cl_clock r1"
      using ok Again by (simp_all add: outcome_ok_def live_inv_def attempt_bound_def)
    ultimately have "m - cl_clock r1 < fuel" "m - cl_clock r1 < n" using Suc.prems(5,6) by linarith+
    with Suc.IH [of r1] r1 Suc.prems(4) have "connect_loop n fuel w s r1 \<noteq> None" by simp
    with t Again show ?thesis by simp
  qed (use t in simp_all)
qed simp

end
