(* ===== verification/Ntrip_Live_Close.thy ===== *)
theory Ntrip_Live_Close
  imports Ntrip_Live_Run
begin

text \<open>
  A capture from its request to its result: the source table that may be fetched first, the opening of
  the writer, the refusals before the loop, and what the closing reports about the run that ended.
\<close>

section \<open>From the request to the result\<close>

text \<open>A client as it is before its first capture.\<close>

lemma new_client_simps [simp]:
  "cl_state new_client = CS_DISCONNECTED" "cl_transitions new_client = [CS_DISCONNECTED]"
  "cl_metrics new_client = no_metrics" "cl_clock new_client = 0"
  by (simp_all add: new_client_def)

text \<open>The source table that is fetched first moves cursors, records its own states and counts its bytes.\<close>

lemma table_read_loop_run:
  "\<exists>n m. snd (table_read_loop w cfg deadline data c) = c\<lparr>cl_clock := n, cl_recvs := m\<rparr>"
proof (induction w cfg deadline data c rule: table_read_loop.induct)
  case (1 w cfg deadline data c)
  let ?c1 = "c\<lparr>cl_clock := cl_clock c + 1\<rparr>" and ?c2 = "c\<lparr>cl_clock := cl_clock c + 1, cl_recvs := cl_recvs c + 1\<rparr>"
  have m: "monotonic w c = (wd_mono w (cl_clock c), ?c1)" by (simp add: monotonic_def)
  have r: "client_recv w ?c1 = (wd_recv w (cl_recvs c), ?c2)" by (simp add: client_recv_def)
  note eq = table_read_loop.simps [of w cfg deadline data c, unfolded m r prod.case]
  show ?case
  proof (cases "f_lt (wd_mono w (cl_clock c)) deadline \<and>
      (\<exists>chunk. wd_recv w (cl_recvs c) = Inr chunk \<and> chunk \<noteq> [] \<and>
         int (length (data @ chunk)) \<le> nc_max_sourcetable_bytes cfg + 8192 \<and>
         find_sub (encode_text ''ENDSOURCETABLE'') (data @ chunk) = None)")
    case True
    then obtain chunk where c: "f_lt (wd_mono w (cl_clock c)) deadline" "wd_recv w (cl_recvs c) = Inr chunk"
      "chunk \<noteq> []" "int (length (data @ chunk)) \<le> nc_max_sourcetable_bytes cfg + 8192"
      "find_sub (encode_text ''ENDSOURCETABLE'') (data @ chunk) = None" by blast
    have "client_recv w ?c1 = (Inr chunk, ?c2)" using r c(2) by simp
    from 1 [OF m [symmetric] _ this [symmetric] refl refl] c
    have "\<exists>n m. snd (table_read_loop w cfg deadline (data @ chunk) ?c2) = ?c2\<lparr>cl_clock := n, cl_recvs := m\<rparr>" by simp
    then show ?thesis using eq c by (auto simp: Let_def)
  next
    case False
    then have "snd (table_read_loop w cfg deadline data c) = ?c1 \<or> snd (table_read_loop w cfg deadline data c) = ?c2"
      unfolding eq by (auto simp: Let_def split: sum.split net_error.split)
    then show ?thesis by (metis client.surjective client.update_convs(9) client.update_convs(8))
  qed
qed

definition fetch_states :: "client \<Rightarrow> bool" where
  "fetch_states c \<longleftrightarrow>
     cl_transitions c \<in> {[CS_DISCONNECTED, CS_CONNECTING], [CS_DISCONNECTED, CS_CONNECTING, CS_AUTHENTICATING]}"

text \<open>The client at the start of a capture: what the writer and the loop find.\<close>

definition ready :: "client \<Rightarrow> bool" where
  "ready c \<longleftrightarrow>
     cl_transitions c \<in> {[CS_DISCONNECTED], [CS_DISCONNECTED, CS_CONNECTING, CS_AUTHENTICATING, CS_STOPPED]} \<and>
     cl_state c = last (cl_transitions c) \<and> mt_authentication_failures (cl_metrics c) = 0 \<and>
     mt_frames_received (cl_metrics c) = 0 \<and> mt_frames_crc_valid (cl_metrics c) = 0 \<and>
     mt_frames_crc_invalid (cl_metrics c) = 0"

lemma fetch_sourcetable_run:
  assumes "fetch_sourcetable sha decode w provider cfg new_client = (res, c)"
  shows "case res of
      Inl e \<Rightarrow> fetch_states c
    | Inr x \<Rightarrow> ready c \<and> length (cl_transitions c) = 4 \<and> (\<exists>data. mt_bytes_received (cl_metrics c) = length (table_body cfg data))"
proof -
  let ?c2 = "(set_state CS_CONNECTING new_client)\<lparr>cl_metrics := no_metrics\<lparr>mt_connections_attempted := 1\<rparr>\<rparr>"
  let ?c3 = "?c2\<lparr>cl_dials := 1\<rparr>" let ?c4 = "(set_state CS_AUTHENTICATING ?c3)\<lparr>cl_sends := 1\<rparr>"
  let ?c5 = "?c4\<lparr>cl_clock := 1\<rparr>"
  have c2: "cl_dials ?c2 = 0" "cl_sends (set_state CS_AUTHENTICATING ?c3) = 0" "cl_clock ?c4 = 0"
    by (simp_all add: new_client_def set_state_def)
  let ?d = "f_add (wd_mono w 0) (nc_handshake_timeout_s cfg)"
  obtain x c6 where l: "table_read_loop w cfg ?d [] ?c5 = (x, c6)" by (cases "table_read_loop w cfg ?d [] ?c5")
  obtain n m where c6: "c6 = ?c5\<lparr>cl_clock := n, cl_recvs := m\<rparr>"
    using table_read_loop_run [of w cfg ?d "[]" ?c5] l by auto
  have attempted: "mt_connections_attempted (cl_metrics (set_state CS_CONNECTING new_client)) + 1 = 1"
    by (simp add: new_client_def no_metrics_def set_state_def)
  note unf = fetch_sourcetable_def [of sha decode w provider cfg new_client, unfolded Let_def attempted
      client_dial_def client_send_def monotonic_def c2 prod.case]
  show ?thesis
  proof (cases "wd_dial w 0 = None \<and> wd_send w 0 = None")
    case False
    then show ?thesis using assms unfolding unf
      by (auto simp: fetch_states_def new_client_def set_state_def split: option.splits)
  next
    case True
    then show ?thesis using assms l unfolding unf c6
      by (cases x) (auto simp: fetch_states_def ready_def new_client_def set_state_def no_metrics_def Let_def)
  qed
qed

text \<open>What the fetch leaves to the capture: the bytes it has counted and the clock readings it has made.\<close>

definition after_fetch ::
  "(bytes \<Rightarrow> string) \<Rightarrow> (bytes \<Rightarrow> string) \<Rightarrow> world \<Rightarrow> string \<Rightarrow> ntrip_config \<Rightarrow> capture_request \<Rightarrow> client"
where
  "after_fetch sha decode w provider cfg q = snd (fetch_first sha decode w provider cfg q new_client)"

lemma fetch_first_run:
  assumes "fetch_first sha decode w provider cfg q new_client = (res, c)"
  shows "case res of
      Inl e \<Rightarrow> cq_fetch_table q \<and> fetch_states c
    | Inr table \<Rightarrow> ready c \<and> length (cl_transitions c) = (if cq_fetch_table q then 4 else 1)"
proof (cases "cq_fetch_table q")
  case True
  obtain x c1 where f: "fetch_sourcetable sha decode w provider cfg new_client = (x, c1)"
    by (cases "fetch_sourcetable sha decode w provider cfg new_client")
  from fetch_sourcetable_run [OF f] True f assms show ?thesis
    by (auto simp: fetch_first_def split: sum.splits)
next
  case False
  with assms show ?thesis by (auto simp: fetch_first_def ready_def no_metrics_def)
qed

lemma after_fetch_none: "\<not> cq_fetch_table q \<Longrightarrow> after_fetch sha decode w provider cfg q = new_client"
  by (simp add: after_fetch_def fetch_first_def)

lemma ready_lifecycle:
  "ready c \<Longrightarrow> lifecycle_ok c \<and> own_trace (cl_transitions c) = [CS_DISCONNECTED] \<and>
     phase (cl_state c) = CS_DISCONNECTED \<and> fetched_trace (cl_transitions c) = (length (cl_transitions c) = 4)"
  by (auto simp: ready_def lifecycle_ok_def own_trace_def fetched_trace_def)

lemma start_run_inv:
  assumes "captured [] wr" and "cw_open wr" and "cw_rotation wr = None"
    and "map_of (cw_files wr) ''capture.json'' = None" and "cw_reconnects wr = 0"
    and "buffer_inv b" and "bb_queue b = []" and "bb_policy b = BP_BLOCK" and "bb_dropped_frames b = 0"
    and "ready c"
  shows "live_inv (mt_bytes_received (cl_metrics c), length (cl_transitions c) = 4) (start_run wr b (c\<lparr>cl_clock := n\<rparr>))"
    "cl_state (start_run wr b (c\<lparr>cl_clock := n\<rparr>)) \<in> {CS_DISCONNECTED, CS_STOPPED, CS_RECONNECTING}"
    "cl_clock (start_run wr b (c\<lparr>cl_clock := n\<rparr>)) = n"
    "lr_attempts (start_run wr b (c\<lparr>cl_clock := n\<rparr>)) = 0"
proof -
  have "cw_valid wr = 0" "cw_invalid wr = 0" "cw_bytes wr = 0"
    using assms(1) by (simp_all add: captured_def)
  moreover have "\<exists>written. captured written wr" using assms(1) by blast
  ultimately show "live_inv (mt_bytes_received (cl_metrics c), length (cl_transitions c) = 4) (start_run wr b (c\<lparr>cl_clock := n\<rparr>))"
    using assms(2-9) ready_lifecycle [OF assms(10)] assms(10)
    by (simp add: live_inv_def lifecycle_ok_def evidence_ok_def metrics_ok_def start_run_def client.defs
        ready_def CAPTURE_STATUSES_def)
  show "cl_state (start_run wr b (c\<lparr>cl_clock := n\<rparr>)) \<in> {CS_DISCONNECTED, CS_STOPPED, CS_RECONNECTING}"
    using assms(10) by (auto simp: start_run_def client.defs ready_def)
qed (simp_all add: start_run_def client.defs)

lemma prepare_ok:
  assumes "prepare_capture sha decode w provider basis cfg registry q new_client = (Inr (s, r), c)"
  shows "live_inv (mt_bytes_received (cl_metrics (after_fetch sha decode w provider cfg q)), cq_fetch_table q) r"
    "cl_state r \<in> {CS_DISCONNECTED, CS_STOPPED, CS_RECONNECTING}"
    "cl_clock r = Suc (cl_clock (after_fetch sha decode w provider cfg q))" "lr_attempts r = 0"
    "ls_policy s = \<lparr>rp_base_delay_s = nc_reconnect_base_delay_s cfg,
       rp_max_delay_s = nc_reconnect_max_delay_s cfg, rp_max_attempts = nc_max_reconnects cfg\<rparr>"
    "ls_sha s = sha" "ls_start s = wd_mono w (cl_clock (after_fetch sha decode w provider cfg q))"
    "ls_budget_s s = (case cq_duration_s q of None \<Rightarrow> nc_max_capture_seconds cfg | Some d \<Rightarrow> d)"
proof -
  let ?c = "after_fetch sha decode w provider cfg q"
  obtain table where f: "fetch_first sha decode w provider cfg q new_client = (Inr table, ?c)"
    using assms
    by (auto simp: prepare_capture_def after_fetch_def split: sum.splits if_splits prod.splits)
  have rd: "ready ?c" "length (cl_transitions ?c) = (if cq_fetch_table q then 4 else 1)"
    using fetch_first_run [OF f] by auto
  obtain wr b where parts:
    "writer_create (cq_exists q) (cq_base q)
       (facts_of_request sha provider basis cfg (sm_station_id (map_station (nc_mountpoint cfg) registry)) q table)
       (cq_date q) (request_table_text q table) None (cq_start_utc q) (cq_start_mono q) = Inr wr"
    "new_buffer (nc_buffer_capacity cfg) BP_BLOCK = Inr b"
    "r = start_run wr b (?c\<lparr>cl_clock := Suc (cl_clock ?c)\<rparr>)"
    "s = setup_of_request sha provider basis cfg (sm_station_id (map_station (nc_mountpoint cfg) registry))
       (admit_for_stream provider cfg registry table) (wd_mono w (cl_clock ?c)) q"
    using assms f
    by (auto simp: prepare_capture_def open_capture_def Let_def monotonic_def split: sum.splits if_splits)
  have wr: "captured [] wr" "cw_open wr" "cw_rotation wr = None" "map_of (cw_files wr) ''capture.json'' = None"
      "cw_reconnects wr = 0"
    using writer_create_captured [OF parts(1)] parts(1)
    by (auto simp: writer_create_def Let_def split: if_splits)
  have b: "buffer_inv b" "bb_queue b = []" "bb_policy b = BP_BLOCK" "bb_dropped_frames b = 0"
    using new_buffer_inv [OF parts(2)] parts(2) by (auto simp: new_buffer_def split: if_splits)
  have l: "(length (cl_transitions ?c) = 4) = cq_fetch_table q" using rd(2) by simp
  note st = start_run_inv [OF wr b rd(1), of "Suc (cl_clock ?c)", folded parts(3), unfolded l]
  show "live_inv (mt_bytes_received (cl_metrics ?c), cq_fetch_table q) r" by (rule st(1))
  show "cl_state r \<in> {CS_DISCONNECTED, CS_STOPPED, CS_RECONNECTING}" by (rule st(2))
  show "cl_clock r = Suc (cl_clock ?c)" by (rule st(3))
  show "lr_attempts r = 0" by (rule st(4))
  show "ls_policy s = \<lparr>rp_base_delay_s = nc_reconnect_base_delay_s cfg,
       rp_max_delay_s = nc_reconnect_max_delay_s cfg, rp_max_attempts = nc_max_reconnects cfg\<rparr>"
    "ls_sha s = sha" "ls_start s = wd_mono w (cl_clock ?c)"
    "ls_budget_s s = (case cq_duration_s q of None \<Rightarrow> nc_max_capture_seconds cfg | Some d \<Rightarrow> d)"
    unfolding parts(4) by (simp_all add: setup_of_request_def)
qed

text \<open>A capture that is refused before its loop.\<close>

lemma prepare_refused:
  assumes "prepare_capture sha decode w provider basis cfg registry q new_client = (Inl e, c)"
  shows "successively lifecycle (own_trace (cl_transitions c)) \<and>
    count_list (cl_transitions c) CS_CONNECTING \<le> (if cq_fetch_table q then 1 else 0) \<and>
    (if fetched_trace (cl_transitions c) then cq_fetch_table q else True)"
proof (cases "ntrip_validate cfg = Inr []")
  case False
  then have "c = new_client" using assms by (auto simp: prepare_capture_def split: sum.splits if_splits)
  then show ?thesis by (simp add: own_trace_def fetched_trace_def)
next
  case True
  obtain x c1 where f: "fetch_first sha decode w provider cfg q new_client = (x, c1)"
    by (cases "fetch_first sha decode w provider cfg q new_client")
  note run = fetch_first_run [OF f]
  show ?thesis
  proof (cases x)
    case (Inl e1)
    with True assms f have "c = c1" by (simp add: prepare_capture_def)
    with run Inl show ?thesis by (auto simp: fetch_states_def own_trace_def fetched_trace_def)
  next
    case (Inr table)
    with True assms f have "open_capture sha w provider basis cfg registry q table c1 = (Inl e, c)"
      by (simp add: prepare_capture_def)
    then have "c = c1 \<or> c = set_state CS_BLOCKED c1"
      by (auto simp: open_capture_def Let_def monotonic_def split: sum.splits if_splits)
    with run Inr show ?thesis
      by (auto simp: ready_def own_trace_def fetched_trace_def lifecycle.refused split: if_splits)
  qed
qed

text \<open>The final metrics read clocks and keep the counters that the loop has made.\<close>

lemma rate_since_run: "\<exists>n. snd (rate_since w t k r) = r\<lparr>cl_clock := n\<rparr>"
  by (auto simp: rate_since_def monotonic_def)

lemma valid_age_run: "\<exists>n. snd (valid_age w r) = r\<lparr>cl_clock := n\<rparr>"
proof (cases "lr_last_valid r")
  case None
  then show ?thesis by (auto simp: valid_age_def intro: exI [of _ "cl_clock r"])
qed (auto simp: valid_age_def monotonic_def)

lemma final_metrics_run:
  obtains (raised) e n where "final_metrics w s r = (Inl e, r\<lparr>cl_clock := n\<rparr>)"
  | (reached) m n where "final_metrics w s r = (Inr (), r\<lparr>cl_clock := n, cl_metrics := m\<rparr>)"
    "mt_frames_received m = mt_frames_received (cl_metrics r)"
    "mt_frames_crc_valid m = mt_frames_crc_valid (cl_metrics r)"
    "mt_frames_crc_invalid m = mt_frames_crc_invalid (cl_metrics r)"
    "mt_bytes_received m = mt_bytes_received (cl_metrics r)"
    "mt_authentication_failures m = mt_authentication_failures (cl_metrics r)"
    "mt_reconnects m = lr_reconnects r" "mt_frames_dropped m = bb_dropped_frames (lr_buffer r)"
proof -
  let ?r1 = "r\<lparr>cl_clock := Suc (cl_clock r)\<rparr>"
  obtain fps r2 where f: "rate_since w (ls_start s) (mt_frames_received (cl_metrics r)) ?r1 = (fps, r2)"
    by (cases "rate_since w (ls_start s) (mt_frames_received (cl_metrics r)) ?r1")
  obtain n2 where r2: "r2 = r\<lparr>cl_clock := n2\<rparr>"
    using rate_since_run [of w "ls_start s" "mt_frames_received (cl_metrics r)" ?r1] f by auto
  obtain bps r3 where b: "rate_since w (ls_start s) (mt_bytes_received (cl_metrics r)) r2 = (bps, r3)"
    by (cases "rate_since w (ls_start s) (mt_bytes_received (cl_metrics r)) r2")
  obtain n3 where r3: "r3 = r\<lparr>cl_clock := n3\<rparr>"
    using rate_since_run [of w "ls_start s" "mt_bytes_received (cl_metrics r)" r2] b r2 by auto
  obtain age r4 where a: "valid_age w r3 = (age, r4)" by (cases "valid_age w r3")
  obtain n4 where r4: "r4 = r\<lparr>cl_clock := n4\<rparr>" using valid_age_run [of w r3] a r3 by auto
  note eq = final_metrics_def [of w s r] monotonic_def f b a
  show ?thesis
  proof (cases fps)
    case (Inl e)
    then show ?thesis using raised [of e n2] r2 by (simp add: eq Let_def)
  next
    case fps: (Inr x)
    show ?thesis
    proof (cases bps)
      case (Inl e)
      then show ?thesis using raised [of e n3] r3 fps by (simp add: eq Let_def)
    next
      case (Inr y)
      show ?thesis
        by (rule reached [of "closing_metrics (f_sub (wd_mono w (cl_clock r)) (ls_start s)) x y age r" n4])
          (use Inr fps r4 in \<open>simp_all add: eq closing_metrics_def Let_def\<close>)
    qed
  qed
qed

lemma drain_live_simps [simp]:
  "lr_writer (drain_live r) = lr_writer r" "lr_status (drain_live r) = lr_status r"
  "cl_state (drain_live r) = cl_state r" "cl_transitions (drain_live r) = cl_transitions r"
  "cl_metrics (drain_live r) = cl_metrics r"
  "lr_forwarded (drain_live r) = lr_forwarded r + length (bb_queue (lr_buffer r))"
  by (simp_all add: drain_live_def)

text \<open>What a finished capture reports, in terms of the run at the end of the loop.\<close>

definition reported :: "(bytes \<Rightarrow> string) \<Rightarrow> live_run \<Rightarrow> capture_result \<Rightarrow> directory \<Rightarrow> bool" where
  "reported sha r res files \<longleftrightarrow>
     cr_frames_forwarded res = cw_valid (lr_writer r) \<and>
     cm_valid_frames (cr_metadata res) = cw_valid (lr_writer r) \<and>
     cm_invalid_frames (cr_metadata res) = cw_invalid (lr_writer r) \<and>
     cm_bytes_received (cr_metadata res) = cw_bytes (lr_writer r) \<and>
     cm_stream_sha256 (cr_metadata res) = sha (cw_hashed (lr_writer r)) \<and>
     cm_reconnects (cr_metadata res) = lr_reconnects r \<and>
     cm_capture_status (cr_metadata res) = cr_status res \<and>
     mt_reconnects (cr_metrics res) = lr_reconnects r \<and> mt_frames_dropped (cr_metrics res) = 0 \<and>
     mt_authentication_failures (cr_metrics res) = mt_authentication_failures (cl_metrics r) \<and>
     mt_frames_received (cr_metrics res) = mt_frames_received (cl_metrics r) \<and>
     mt_frames_crc_valid (cr_metrics res) = mt_frames_crc_valid (cl_metrics r) \<and>
     mt_frames_crc_invalid (cr_metrics res) = mt_frames_crc_invalid (cl_metrics r) \<and>
     mt_bytes_received (cr_metrics res) = mt_bytes_received (cl_metrics r) \<and>
     map_of files ''stream.rtcm3'' = map_of (cw_files (lr_writer r)) ''stream.rtcm3'' \<and>
     map_of files ''capture.json'' = Some (manifest_text (metadata_as_dict (cr_metadata res)))"

lemma writer_close_valid:
  "status \<in> set CAPTURE_STATUSES \<Longrightarrow>
     \<exists>wr'. writer_close sha utc now status wr = (Inr (writer_metadata sha utc now status wr), wr') \<and>
       map_of (cw_files wr') ''stream.rtcm3'' = map_of (cw_files wr) ''stream.rtcm3'' \<and>
       map_of (cw_files wr') ''capture.json'' =
         Some (manifest_text (metadata_as_dict (writer_metadata sha utc now status wr)))"
  by (simp add: writer_close_def Let_def map_of_obj_set)

inductive_simps stops_from_authenticating: "lifecycle CS_AUTHENTICATING CS_STOPPED"

text \<open>The last state of a capture that may stop.\<close>

lemma stopped_trace:
  assumes "lifecycle_ok c" and "lifecycle (phase (cl_state c)) CS_STOPPED"
  shows "successively lifecycle (own_trace (cl_transitions c @ [CS_STOPPED]))"
    and "count_list (cl_transitions c @ [CS_STOPPED]) CS_CONNECTING =
      count_list (own_trace (cl_transitions c)) CS_CONNECTING + (if fetched_trace (cl_transitions c) then 1 else 0)"
    and "fetched_trace (cl_transitions c @ [CS_STOPPED]) = fetched_trace (cl_transitions c)"
proof -
  have "last (cl_transitions c) \<noteq> CS_AUTHENTICATING"
    using assms by (auto simp: lifecycle_ok_def stops_from_authenticating)
  then have "own_trace (cl_transitions c @ [CS_STOPPED]) = own_trace (cl_transitions c) @ [CS_STOPPED]"
    by (simp add: own_trace_snoc)
  then show "successively lifecycle (own_trace (cl_transitions c @ [CS_STOPPED]))"
    using assms by (auto simp: lifecycle_ok_def successively_append_iff)
  show "fetched_trace (cl_transitions c @ [CS_STOPPED]) = fetched_trace (cl_transitions c)"
    by (rule fetched_trace_snoc) (simp add: \<open>last (cl_transitions c) \<noteq> CS_AUTHENTICATING\<close>)
qed (simp add: count_own_trace [of "cl_transitions c"])

lemma finish_capture_ok:
  assumes "loop_end base s (Inr ()) r" and "finish_capture w s utc now r = (res, r')"
  shows "successively lifecycle (own_trace (cl_transitions r')) \<and>
    count_list (cl_transitions r') CS_CONNECTING = lr_attempts r + (if snd base then 1 else 0) \<and>
    fetched_trace (cl_transitions r') = snd base \<and>
    (case res of
       Inl e \<Rightarrow> map_of (cw_files (lr_writer r')) ''capture.json'' = None
     | Inr c \<Rightarrow> cl_transitions r' \<noteq> [] \<and> last (cl_transitions r') = CS_STOPPED \<and> reported (ls_sha s) r c (cw_files (lr_writer r')))"
proof -
  have ev: "evidence_ok r" and lc: "lifecycle_ok r" and edge: "lifecycle (phase (cl_state r)) CS_STOPPED"
    and cnt: "count_list (own_trace (cl_transitions r)) CS_CONNECTING = lr_attempts r"
      "fetched_trace (cl_transitions r) = snd base"
    using assms(1) by (simp_all add: loop_end_def)
  note tr = stopped_trace [OF lc edge, unfolded cnt]
  show ?thesis
  proof (cases rule: final_metrics_run [of w s r])
    case (raised e n)
    then show ?thesis using assms(2) ev lc cnt count_own_trace [of "cl_transitions r"]
      by (auto simp: finish_capture_def evidence_ok_def lifecycle_ok_def)
  next
    case (reached m n)
    let ?r1 = "r\<lparr>cl_clock := n, cl_metrics := m\<rparr>"
    let ?r2 = "set_state CS_STOPPED (drain_live ?r1)"
    have st: "lr_status r \<in> set CAPTURE_STATUSES" using ev by (simp add: evidence_ok_def)
    obtain wr' where wr': "writer_close (ls_sha s) utc now (lr_status r) (lr_writer r) =
          (Inr (writer_metadata (ls_sha s) utc now (lr_status r) (lr_writer r)), wr')"
        "map_of (cw_files wr') ''stream.rtcm3'' = map_of (cw_files (lr_writer r)) ''stream.rtcm3''"
        "map_of (cw_files wr') ''capture.json'' = Some (manifest_text
           (metadata_as_dict (writer_metadata (ls_sha s) utc now (lr_status r) (lr_writer r))))"
      using writer_close_valid [OF st] by metis
    have res: "(res, r') = (Inr \<lparr>cr_path = cw_path wr',
          cr_metadata = writer_metadata (ls_sha s) utc now (lr_status r) (lr_writer r),
          cr_metrics = m, cr_admission = ls_admission s, cr_frames_forwarded = lr_forwarded r + length (bb_queue (lr_buffer r)),
          cr_status = lr_status r\<rparr>, ?r2\<lparr>lr_writer := wr'\<rparr>)"
      using assms(2) reached(1) wr'(1) by (simp add: finish_capture_def Let_def)
    have "cl_transitions r' = cl_transitions r @ [CS_STOPPED]" using res by simp
    then show ?thesis using res tr ev reached(2-) wr'(2,3)
      by (auto simp: reported_def writer_metadata_def Let_def evidence_ok_def)
  qed
qed

end
