(* ===== verification/Ntrip_Properties.thy ===== *)
theory Ntrip_Properties
  imports Ntrip_Live_Close
begin

text \<open>
  The properties of a live capture: its lifecycle and the bound on its connections, its termination,
  the agreement of its counters with its files, and that a refused response leaves no evidence and,
  when it is terminal, no further connection.
\<close>

section \<open>Lifecycle\<close>

lemma blocked_tail:
  "successively lifecycle ts \<Longrightarrow> drop 1 (dropWhile (\<lambda>st. st \<noteq> CS_BLOCKED) ts) \<in> {[], [CS_STOPPED]}"
proof (induction ts)
  case (Cons a ts)
  show ?case
  proof (cases "a = CS_BLOCKED")
    case False
    with Cons show ?thesis by (cases ts) auto
  next
    case True
    show ?thesis
    proof (cases ts)
      case (Cons b us)
      with Cons.prems True have b: "b = CS_STOPPED" by (auto elim: from_blocked)
      have "us = []"
      proof (cases us)
        case (Cons c vs)
        with Cons.prems \<open>ts = b # us\<close> b show ?thesis by (auto elim: from_stopped)
      qed simp
      with True Cons b show ?thesis by simp
    qed (use True in simp)
  qed
qed simp

text \<open>The same for the whole trace, with the states of the fetch and the marks of other threads.\<close>

lemma blocked_raw:
  "drop 1 (dropWhile (\<lambda>st. st \<noteq> CS_BLOCKED) (own_trace sts)) = drop 1 (dropWhile (\<lambda>st. st \<noteq> CS_BLOCKED) sts)"
proof (cases "fetched_trace sts")
  case True
  have "dropWhile (\<lambda>st. st \<noteq> CS_BLOCKED) (take 4 sts @ drop 4 sts) = dropWhile (\<lambda>st. st \<noteq> CS_BLOCKED) (drop 4 sts)"
    using True by (simp only: fetched_trace_def) simp
  then show ?thesis using True by (simp add: own_trace_def)
qed (simp add: own_trace_def)

lemma with_requests_stopped:
  "list_all (\<lambda>st. st = CS_STOPPED) sts \<Longrightarrow> list_all (\<lambda>st. st = CS_STOPPED) (with_requests n i sts)"
  by (induction sts arbitrary: i) (auto simp: list_all_iff)

lemma dropWhile_replicate: "P x \<Longrightarrow> dropWhile P (replicate k x @ ys) = dropWhile P ys"
  by (induction k) auto

lemma with_requests_blocked:
  "list_all (\<lambda>st. st = CS_STOPPED) (drop 1 (dropWhile (\<lambda>st. st \<noteq> CS_BLOCKED) sts)) \<Longrightarrow>
   list_all (\<lambda>st. st = CS_STOPPED) (drop 1 (dropWhile (\<lambda>st. st \<noteq> CS_BLOCKED) (with_requests n i sts)))"
proof (induction sts arbitrary: i)
  case Nil
  show ?case using dropWhile_replicate [of "\<lambda>st. st \<noteq> CS_BLOCKED" CS_STOPPED "n i" "[]"] by simp
next
  case (Cons st sts)
  have "dropWhile (\<lambda>st. st \<noteq> CS_BLOCKED) (with_requests n i (st # sts)) =
      dropWhile (\<lambda>st. st \<noteq> CS_BLOCKED) (st # with_requests n (Suc i) sts)"
    by (simp add: dropWhile_replicate)
  with Cons show ?case by (auto simp: with_requests_stopped)
qed

lemma with_requests_count: "st \<noteq> CS_STOPPED \<Longrightarrow> count_list (with_requests n i sts) st = count_list sts st"
proof (induction sts arbitrary: i)
  case Nil
  have "count_list (replicate k CS_STOPPED) st = 0" for k using Nil by (induction k) auto
  then show ?case by simp
next
  case (Cons a sts)
  have "count_list (replicate k CS_STOPPED) st = 0" for k using Cons.prems by (induction k) auto
  with Cons show ?case by simp
qed

lemma with_requests_last: "sts \<noteq> [] \<Longrightarrow> last sts = CS_STOPPED \<Longrightarrow> last (with_requests n i sts) = CS_STOPPED"
proof (induction sts arbitrary: i)
  case (Cons a sts)
  then show ?case by (cases sts) (auto simp: last_append)
qed simp

text \<open>The parts of a capture that gets to its loop.\<close>

lemma capture_stream_cases:
  obtains (refused) e c where
      "capture_stream fuel sha decode w provider basis cfg registry q new_client = Some (Inl e, c, [])"
      "prepare_capture sha decode w provider basis cfg registry q new_client = (Inl e, c)"
  | (open_end) "capture_stream fuel sha decode w provider basis cfg registry q new_client = None"
  | (raised) s r c e r1 where
      "prepare_capture sha decode w provider basis cfg registry q new_client = (Inr (s, r), c)"
      "connect_loop fuel fuel w s r = Some (Inl e, r1)"
      "loop_end (mt_bytes_received (cl_metrics (after_fetch sha decode w provider cfg q)), cq_fetch_table q) s (Inl e) r1"
      "capture_stream fuel sha decode w provider basis cfg registry q new_client =
         Some (Inl e, client.truncate r1, cw_files (lr_writer r1))"
  | (finished) s r c r1 res r2 where
      "prepare_capture sha decode w provider basis cfg registry q new_client = (Inr (s, r), c)"
      "connect_loop fuel fuel w s r = Some (Inr (), r1)"
      "loop_end (mt_bytes_received (cl_metrics (after_fetch sha decode w provider cfg q)), cq_fetch_table q) s (Inr ()) r1"
      "finish_capture w s (cq_end_utc q) (cq_end_mono q) r1 = (res, r2)"
      "capture_stream fuel sha decode w provider basis cfg registry q new_client =
         Some (res, client.truncate r2, cw_files (lr_writer r2))"
proof -
  obtain p c where p: "prepare_capture sha decode w provider basis cfg registry q new_client = (p, c)"
    by (cases "prepare_capture sha decode w provider basis cfg registry q new_client")
  show ?thesis
  proof (cases p)
    case (Inl e)
    then show ?thesis using p by (auto simp: capture_stream_def intro: refused)
  next
    case (Inr sr)
    obtain s r where sr: "sr = (s, r)" by (cases sr)
    note prep = prepare_ok [OF p [unfolded Inr sr]]
    have bound: "int (lr_attempts r) < attempt_bound s" using prep(4) by (simp add: attempt_bound_def)
    show ?thesis
    proof (cases "connect_loop fuel fuel w s r")
      case None
      with p Inr sr show ?thesis by (auto simp: capture_stream_def intro: open_end)
    next
      case (Some lr)
      obtain l r1 where lr: "lr = (l, r1)" by (cases lr)
      note le = connect_loop_ok [OF prep(1,2) bound Some [unfolded lr]]
      show ?thesis
      proof (cases l)
        case (Inl e)
        show ?thesis
          by (rule raised [OF p [unfolded Inr sr] Some [unfolded lr Inl] le [unfolded Inl]])
            (use p \<open>p = Inr sr\<close> sr Some lr Inl in \<open>simp add: capture_stream_def\<close>)
      next
        case ok: (Inr u)
        obtain res r2 where f: "finish_capture w s (cq_end_utc q) (cq_end_mono q) r1 = (res, r2)"
          by (cases "finish_capture w s (cq_end_utc q) (cq_end_mono q) r1")
        show ?thesis
          by (rule finished [of s r c r1 res r2])
            (use p Inr sr Some lr ok f le in \<open>simp_all add: capture_stream_def\<close>)
      qed
    qed
  qed
qed

lemma truncate_simps [simp]:
  "cl_state (client.truncate c) = cl_state c" "cl_transitions (client.truncate c) = cl_transitions c"
  by (simp_all add: client.defs)

text \<open>What the states of a capture look like to everyone who reads them.\<close>

lemma lifecycle_seen:
  assumes "successively lifecycle (own_trace sts)" and "count_list sts CS_CONNECTING \<le> k"
  shows "list_all (\<lambda>st. st = CS_STOPPED) (drop 1 (dropWhile (\<lambda>st. st \<noteq> CS_BLOCKED) (with_requests requests 0 sts)))"
    and "count_list (with_requests requests 0 sts) CS_CONNECTING \<le> k"
proof -
  have "list_all (\<lambda>st. st = CS_STOPPED) (drop 1 (dropWhile (\<lambda>st. st \<noteq> CS_BLOCKED) sts))"
    using blocked_tail [OF assms(1)] unfolding blocked_raw by auto
  then show "list_all (\<lambda>st. st = CS_STOPPED) (drop 1 (dropWhile (\<lambda>st. st \<noteq> CS_BLOCKED) (with_requests requests 0 sts)))"
    by (rule with_requests_blocked)
qed (use assms(2) in \<open>simp add: with_requests_count\<close>)

text \<open>
  C6. The lifecycle of a live capture (\<open>capture_stream\<close> of \<open>client.py\<close>, every outcome, with and without
  a source table fetched first). The states that the capture itself records, which are all of them
  except the three of a completed fetch, follow the lifecycle relation. In the list of states as anyone
  reads it, with the \<open>STOPPED\<close> marks of any number of shutdown requests from other threads anywhere in
  it: once the client is blocked, which only a refused admission or a terminal response does, every
  later state is \<open>STOPPED\<close>, so no connection is tried again; it connects at most \<open>max_reconnects\<close>
  times, or once when that is 0, and once more for the fetch, whatever the network, the clocks and the
  fuel; and a capture that returns has stopped.
\<close>

theorem capture_lifecycle:
  "case capture_stream fuel sha decode w provider basis cfg registry q new_client of
     None \<Rightarrow> True
   | Some (res, c, files) \<Rightarrow>
       (let own = own_trace (cl_transitions c); seen = with_requests requests 0 (cl_transitions c) in
        successively lifecycle own \<and> (if cq_fetch_table q then True else own = cl_transitions c) \<and>
        list_all (\<lambda>st. st = CS_STOPPED) (drop 1 (dropWhile (\<lambda>st. st \<noteq> CS_BLOCKED) seen)) \<and>
        int (count_list seen CS_CONNECTING) \<le> max 1 (nc_max_reconnects cfg) + (if cq_fetch_table q then 1 else 0) \<and>
        (case res of Inl e \<Rightarrow> True | Inr result \<Rightarrow> last seen = CS_STOPPED))"
proof (cases rule: capture_stream_cases [of fuel sha decode w provider basis cfg registry q])
  case (refused e c)
  have pr: "successively lifecycle (own_trace (cl_transitions c))"
      "count_list (cl_transitions c) CS_CONNECTING \<le> (if cq_fetch_table q then 1 else 0)"
      "if fetched_trace (cl_transitions c) then cq_fetch_table q else True"
    using prepare_refused [OF refused(2)] by blast+
  have "own_trace (cl_transitions c) = cl_transitions c" if "\<not> cq_fetch_table q"
    using pr(3) that by (auto simp: own_trace_def split: if_splits)
  moreover have "int (count_list (with_requests requests 0 (cl_transitions c)) CS_CONNECTING)
      \<le> max 1 (nc_max_reconnects cfg) + (if cq_fetch_table q then 1 else 0)"
    using lifecycle_seen(2) [OF pr(1,2), of requests] by (simp split: if_splits)
  ultimately show ?thesis using refused(1) pr(1) lifecycle_seen(1) [OF pr(1,2), of requests]
    by (simp add: Let_def)
next
  case open_end
  then show ?thesis by simp
next
  case (raised s r c e r1)
  have b: "attempt_bound s = max 1 (nc_max_reconnects cfg)"
    using prepare_ok(5) [OF raised(1)] by (simp add: attempt_bound_def)
  have le: "successively lifecycle (own_trace (cl_transitions r1))"
      "count_list (cl_transitions r1) CS_CONNECTING = lr_attempts r1 + (if cq_fetch_table q then 1 else 0)"
      "fetched_trace (cl_transitions r1) = cq_fetch_table q" "int (lr_attempts r1) \<le> attempt_bound s"
    using raised(3) count_own_trace [of "cl_transitions r1"] by (auto simp: loop_end_def lifecycle_ok_def)
  have "own_trace (cl_transitions r1) = cl_transitions r1" if "\<not> cq_fetch_table q"
    using le(3) that by (simp add: own_trace_def)
  with raised(4) b le lifecycle_seen [OF le(1) eq_imp_le [OF le(2)], of requests] show ?thesis
    by (auto simp: Let_def)
next
  case (finished s r c r1 res r2)
  have b: "attempt_bound s = max 1 (nc_max_reconnects cfg)"
    using prepare_ok(5) [OF finished(1)] by (simp add: attempt_bound_def)
  have at: "int (lr_attempts r1) \<le> attempt_bound s" using finished(3) by (simp add: loop_end_def)
  have fin: "successively lifecycle (own_trace (cl_transitions r2))"
      "count_list (cl_transitions r2) CS_CONNECTING = lr_attempts r1 + (if cq_fetch_table q then 1 else 0)"
      "fetched_trace (cl_transitions r2) = cq_fetch_table q"
      "case res of Inl e \<Rightarrow> True | Inr x \<Rightarrow> cl_transitions r2 \<noteq> [] \<and> last (cl_transitions r2) = CS_STOPPED"
    using finish_capture_ok [OF finished(3,4)] by (auto split: sum.splits)
  have "own_trace (cl_transitions r2) = cl_transitions r2" if "\<not> cq_fetch_table q"
    using fin(3) that by (simp add: own_trace_def)
  with finished(5) b at fin lifecycle_seen [OF fin(1) eq_imp_le [OF fin(2)], of requests] show ?thesis
    by (auto simp: Let_def with_requests_last split: sum.splits)
qed

section \<open>Accounting\<close>

lemma captured_file:
  "captured written wr \<Longrightarrow> obj_get (cw_files wr) ''stream.rtcm3'' [] = concat (map fst written) \<and>
     cw_hashed wr = concat (map fst written) \<and> cw_bytes wr = length (concat (map fst written)) \<and>
     cw_valid wr = length (filter (\<lambda>(raw, a). arr_crc_status a = ''PASS'') written) \<and>
     cw_invalid wr = length (filter (\<lambda>(raw, a). arr_crc_status a \<noteq> ''PASS'') written)"
  by (simp add: captured_def)

text \<open>
  C3. A capture accounts for every frame (\<open>capture_stream\<close>, \<open>CaptureWriter\<close> and \<open>BoundedBuffer\<close>
  together). A returned capture's stream file is the concatenation of the frames it wrote, its
  metadata counts and hashes exactly these bytes, and what it forwarded is every frame that passed the
  checksum, none dropped; the metrics agree with the metadata, except that a source table fetched first
  has its bytes in \<open>bytes_received\<close> of the metrics and not in that of the metadata, and that a terminal
  authorization failure after a reconnect has reset the metrics to zero. A capture that ends with an exception, as a
  connection reset in the stream makes it, leaves its frames without a manifest.
\<close>

theorem capture_accounts:
  "case capture_stream fuel sha decode w provider basis cfg registry q new_client of
     None \<Rightarrow> True
   | Some (Inl e, c, files) \<Rightarrow> map_of files ''capture.json'' = None
   | Some (Inr res, c, files) \<Rightarrow>
       (let md = cr_metadata res; m = cr_metrics res in
        (\<exists>frames :: (bytes \<times> arrival_record) list.
           obj_get files ''stream.rtcm3'' [] = concat (map fst frames) \<and>
           cm_bytes_received md = length (concat (map fst frames)) \<and>
           cm_stream_sha256 md = sha (concat (map fst frames)) \<and>
           cm_valid_frames md = length (filter (\<lambda>(raw, a). arr_crc_status a = ''PASS'') frames) \<and>
           cm_invalid_frames md = length (filter (\<lambda>(raw, a). arr_crc_status a \<noteq> ''PASS'') frames)) \<and>
        map_of files ''capture.json'' = Some (manifest_text (metadata_as_dict md)) \<and>
        cr_frames_forwarded res = cm_valid_frames md \<and> mt_frames_dropped m = 0 \<and>
        mt_reconnects m = cm_reconnects md \<and>
        (if mt_authentication_failures m = 0
         then mt_frames_crc_valid m = cm_valid_frames md \<and> mt_frames_crc_invalid m = cm_invalid_frames md \<and>
              mt_bytes_received m = cm_bytes_received md +
                (if cq_fetch_table q
                 then mt_bytes_received (cl_metrics (after_fetch sha decode w provider cfg q)) else 0)
         else mt_frames_received m = 0))"
proof (cases rule: capture_stream_cases [of fuel sha decode w provider basis cfg registry q])
  case (refused e c)
  then show ?thesis by simp
next
  case open_end
  then show ?thesis by simp
next
  case (raised s r c e r1)
  then show ?thesis by (auto simp: loop_end_def evidence_ok_def)
next
  case (finished s r c r1 res r2)
  note fin = finish_capture_ok [OF finished(3,4)]
  show ?thesis
  proof (cases res)
    case (Inl e)
    with fin finished(5) show ?thesis by simp
  next
    case (Inr cr)
    have rep: "reported sha r1 cr (cw_files (lr_writer r2))"
      using fin Inr prepare_ok(6) [OF finished(1)] by simp
    obtain written where cap: "captured written (lr_writer r1)"
      using finished(3) by (auto simp: loop_end_def evidence_ok_def)
    have same: "obj_get (cw_files (lr_writer r2)) ''stream.rtcm3'' [] = obj_get (cw_files (lr_writer r1)) ''stream.rtcm3'' []"
      using rep by (simp add: reported_def obj_get_def)
    have frames: "\<exists>frames :: (bytes \<times> arrival_record) list.
           obj_get (cw_files (lr_writer r2)) ''stream.rtcm3'' [] = concat (map fst frames) \<and>
           cm_bytes_received (cr_metadata cr) = length (concat (map fst frames)) \<and>
           cm_stream_sha256 (cr_metadata cr) = sha (concat (map fst frames)) \<and>
           cm_valid_frames (cr_metadata cr) = length (filter (\<lambda>(raw, a). arr_crc_status a = ''PASS'') frames) \<and>
           cm_invalid_frames (cr_metadata cr) = length (filter (\<lambda>(raw, a). arr_crc_status a \<noteq> ''PASS'') frames)"
      by (rule exI [of _ written]) (use captured_file [OF cap] rep same in \<open>simp add: reported_def\<close>)
    have none: "mt_bytes_received (cl_metrics (after_fetch sha decode w provider cfg q)) = 0" if "\<not> cq_fetch_table q"
      using that by (simp add: after_fetch_none no_metrics_def)
    have ends: "metrics_ok (mt_bytes_received (cl_metrics (after_fetch sha decode w provider cfg q)), cq_fetch_table q) r1 \<or>
        refused_ok r1" using finished(3) by (simp add: loop_end_def)
    then have agree: "if mt_authentication_failures (cr_metrics cr) = 0
         then mt_frames_crc_valid (cr_metrics cr) = cm_valid_frames (cr_metadata cr) \<and>
              mt_frames_crc_invalid (cr_metrics cr) = cm_invalid_frames (cr_metadata cr) \<and>
              mt_bytes_received (cr_metrics cr) = cm_bytes_received (cr_metadata cr) +
                (if cq_fetch_table q
                 then mt_bytes_received (cl_metrics (after_fetch sha decode w provider cfg q)) else 0)
         else mt_frames_received (cr_metrics cr) = 0"
      using rep none by (auto simp: reported_def metrics_ok_def refused_ok_def)
    from frames agree rep show ?thesis
      unfolding finished(5) Inr Let_def reported_def by simp
  qed
qed

section \<open>Termination\<close>

text \<open>
  C11. A capture ends (\<open>capture_stream\<close>). The budget runs from the first reading after the source table,
  the very first one without a fetch. If from its \<open>n\<close>-th reading on the monotonic clock says that it is
  used up, the capture returns or raises after at most \<open>n\<close> turns of each loop,
  however the caster behaves: every turn of both loops reads the clock before it waits.
\<close>

theorem capture_terminates:
  assumes "\<forall>k \<ge> n. f_le (case cq_duration_s q of None \<Rightarrow> nc_max_capture_seconds cfg | Some d \<Rightarrow> d)
      (f_sub (wd_mono w k) (wd_mono w (cl_clock (after_fetch sha decode w provider cfg q))))"
    and "n < fuel"
  shows "capture_stream fuel sha decode w provider basis cfg registry q new_client \<noteq> None"
proof (cases rule: capture_stream_cases [of fuel sha decode w provider basis cfg registry q])
  case open_end
  obtain p c where p: "prepare_capture sha decode w provider basis cfg registry q new_client = (p, c)"
    by (cases "prepare_capture sha decode w provider basis cfg registry q new_client")
  show ?thesis
  proof (cases p)
    case (Inl e)
    with p show ?thesis by (simp add: capture_stream_def)
  next
    case (Inr sr)
    obtain s r where sr: "sr = (s, r)" by (cases sr)
    note prep = prepare_ok [OF p [unfolded Inr sr]]
    have spent: "budget_spent w s n" using assms(1) prep(7,8) by (simp add: budget_spent_def)
    have "connect_loop fuel fuel w s r \<noteq> None"
      by (rule connect_loop_total [OF prep(1) _ _ spent])
        (use prep assms(2) in \<open>simp_all add: attempt_bound_def\<close>)
    with p Inr sr show ?thesis by (auto simp: capture_stream_def split: sum.split prod.split)
  qed
qed simp_all

definition late_world :: world where
  "late_world = \<lparr>wd_dial = (\<lambda>_. None), wd_send = (\<lambda>_. None), wd_recv = (\<lambda>_. Inl (Net_Timeout [])),
     wd_mono = (\<lambda>k. if k < 3 then PFin 0 else PInf), wd_arrival = (\<lambda>_. (0, [])),
     wd_shutdown = (\<lambda>_. False), wd_connection_id = (\<lambda>_. [])\<rparr>"

definition late_request :: capture_request where
  "late_request = \<lparr>cq_base = [''data''], cq_date = ''2026-01-01'', cq_capture_id = ''c1'', cq_generated_id = [],
     cq_duration_s = Some (PFin 60), cq_max_bytes = None, cq_fetch_table = False, cq_table_text = [],
     cq_table_sha256 = [], cq_git_commit = [], cq_start_utc = [], cq_start_mono = PFin 0, cq_end_utc = [],
     cq_end_mono = PInf, cq_exists = (\<lambda>_. False), cq_free_disk = 0\<rparr>"

theorem capture_terminates_witness:
  "capture_stream 4 (\<lambda>_. []) (\<lambda>_. []) late_world ''p'' [] (default_ntrip_config\<lparr>nc_host := ''h'', nc_mountpoint := ''m''\<rparr>)
     [] late_request new_client \<noteq> None"
  by (rule capture_terminates [of 3]) (simp_all add: after_fetch_def fetch_first_def late_request_def late_world_def f_sub_def f_le_def)

section \<open>Refused responses\<close>

text \<open>The status line and the first body bytes that an attempt from \<open>r\<close> gets to see.\<close>

definition response_seen :: "world \<Rightarrow> live_setup \<Rightarrow> live_run \<Rightarrow> (string \<times> bytes) option" where
  "response_seen w s r =
     (if wd_shutdown w (cl_flags r) \<or>
         over_budget s (wd_mono w (cl_clock r)) r \<or> wd_dial w (cl_dials r) \<noteq> None \<or>
         wd_send w (cl_sends r) \<noteq> None
      then None
      else
        case read_head w (ls_config s) (snd (monotonic w (snd (client_send w
               (set_state CS_AUTHENTICATING (dialled w r)))))) of
          (Inl e, r1) \<Rightarrow> None
        | (Inr (status, rest), r1) \<Rightarrow>
            (case fst (client_recv w r1) of Inl e \<Rightarrow> None | Inr first \<Rightarrow> Some (status, rest @ first)))"

lemma over_budget_cursor [simp]:
  "over_budget s t (r\<lparr>cl_flags := n\<rparr>) = over_budget s t r" "over_budget s t (r\<lparr>cl_clock := n\<rparr>) = over_budget s t r"
  by (simp_all add: over_budget_def)

lemma dialled_more:
  "cl_sends (dialled w r) = cl_sends r" "lr_writer (dialled w r) = lr_writer r"
  "lr_buffer (dialled w r) = lr_buffer r"
  by (simp_all add: dialled_def begin_attempt_def set_state_def Let_def)

lemma response_seen_turn:
  assumes "response_seen w s r = Some (status, body)"
    and "\<not> hs_ok (validate_stream_response status body)"
  obtains r1 where
    "connect_turn fuel w s r = Some (refuse_stream s (validate_stream_response status body) r1)"
    "cl_dials r1 = Suc (cl_dials r)" "lr_writer r1 = lr_writer r" "lr_buffer r1 = lr_buffer r"
proof -
  have free: "\<not> wd_shutdown w (cl_flags r)" "\<not> over_budget s (wd_mono w (cl_clock r)) r"
      "wd_dial w (cl_dials r) = None" "wd_send w (cl_sends r) = None"
    using assms(1) by (auto simp: response_seen_def split: if_splits)
  let ?a = "set_state CS_AUTHENTICATING (dialled w r)"
  have "wd_send w (cl_sends (dialled w r)) = None" using free(4) by (simp add: dialled_more)
  from handshake_run [OF this] obtain n head where h:
    "read_head w (ls_config s) (snd (monotonic w (snd (client_send w ?a)))) =
       (head, ?a\<lparr>cl_sends := cl_sends (dialled w r) + 1, cl_clock := cl_clock (dialled w r) + 2, cl_recvs := n\<rparr>)"
    "handshake_and_stream fuel w s (dialled w r) = after_head fuel w s head
       (?a\<lparr>cl_sends := cl_sends (dialled w r) + 1, cl_clock := cl_clock (dialled w r) + 2, cl_recvs := n\<rparr>)"
    by metis
  let ?r2 = "?a\<lparr>cl_sends := cl_sends (dialled w r) + 1, cl_clock := cl_clock (dialled w r) + 2, cl_recvs := n\<rparr>"
  obtain rest first where seen: "head = Inr (status, rest)" "wd_recv w n = Inr first" "body = rest @ first"
    using assms(1) free h(1)
    by (auto simp: response_seen_def client_recv_def split: sum.splits prod.splits)
  let ?r3 = "?r2\<lparr>cl_recvs := n + 1\<rparr>"
  have "connect_turn fuel w s r = handshake_and_stream fuel w s (dialled w r)"
    using free by (simp add: connect_turn_eq Let_def)
  also have "\<dots> = Some (refuse_stream s (validate_stream_response status body) ?r3)"
    unfolding h(2) using seen assms(2) by (simp add: after_head_def client_recv_def Let_def)
  finally show ?thesis
    by (rule that) (simp_all add: dialled_run dialled_more)
qed

lemma retry_keeps:
  "cl_dials (snd (retry s st r)) = cl_dials r" "cl_state (snd (retry s st r)) = cl_state r"
  "cw_files (lr_writer (snd (retry s st r))) = cw_files (lr_writer r)"
  "lr_buffer (snd (retry s st r)) = lr_buffer r"
  by (auto simp: retry_def note_reconnect_def split: sum.split)

text \<open>
  C10. A refused response leaves no evidence (one connection of \<open>capture_stream\<close>). When the response to
  a connection is not an accepted handshake, nothing of it is written or buffered. If its code is
  401, 403 or 404 under a known protocol, the capture is blocked and ends without another connection;
  otherwise the client goes to the reconnect state, also for a source table in place of the stream.
\<close>

theorem refused_response_leaves_nothing:
  "case response_seen w s r of
     None \<Rightarrow> True
   | Some (status, body) \<Rightarrow>
       if hs_ok (validate_stream_response status body) then True
       else
         (case connect_turn fuel w s r of
            None \<Rightarrow> False
          | Some (x, r') \<Rightarrow>
              cl_dials r' = Suc (cl_dials r) \<and> cw_files (lr_writer r') = cw_files (lr_writer r) \<and>
              lr_buffer r' = lr_buffer r \<and>
              (if status_protocol status \<in> set KNOWN_PROTOCOLS \<and>
                  status_code status \<in> {Some 401, Some 403, Some 404}
               then cl_state r' = CS_BLOCKED \<and> connect_loop (Suc n) fuel w s r = Some (Inr (), r')
               else cl_state r' = CS_RECONNECTING))"
proof (cases "response_seen w s r")
  case None
  then show ?thesis by simp
next
  case (Some sb)
  obtain status body where sb: "sb = (status, body)" by (cases sb)
  let ?v = "validate_stream_response status body"
  let ?terminal = "status_protocol status \<in> set KNOWN_PROTOCOLS \<and> status_code status \<in> {Some 401, Some 403, Some 404}"
  show ?thesis
  proof (cases "hs_ok ?v")
    case True
    with Some sb show ?thesis by simp
  next
    case False
    obtain r1 where r1: "connect_turn fuel w s r = Some (refuse_stream s ?v r1)" "cl_dials r1 = Suc (cl_dials r)"
        "lr_writer r1 = lr_writer r" "lr_buffer r1 = lr_buffer r"
      using response_seen_turn [OF Some [unfolded sb] False] .
    obtain f where f: "hs_failure ?v = Some f"
    proof (cases "hs_failure ?v")
      case None
      with False show ?thesis unfolding validate_cases by (simp split: option.splits if_splits)
    qed (rule that)
    have terminal_iff: "is_terminal f \<longleftrightarrow> ?terminal"
      using f False unfolding validate_cases by (auto split: option.splits if_splits)
    show ?thesis
    proof (cases "is_terminal f")
      case True
      let ?r = "snd (refuse_stream s ?v r1)"
      have b: "fst (refuse_stream s ?v r1) = Finished" "cl_state ?r = CS_BLOCKED" "cl_dials ?r = cl_dials r1"
          "lr_writer ?r = lr_writer r1" "lr_buffer ?r = lr_buffer r1"
        using f True by (simp_all add: refuse_stream_def Let_def)
      then have "connect_loop (Suc n) fuel w s r = Some (Inr (), ?r)"
        using r1(1) by (cases "refuse_stream s ?v r1") simp
      with Some sb False r1 b terminal_iff True show ?thesis by (simp add: case_prod_beta)
    next
      case nt: False
      have "refuse_stream s ?v r1 = retry s status_by_bytes (set_state CS_RECONNECTING r1)"
        using f nt by (simp add: refuse_stream_def)
      with Some sb False r1 terminal_iff nt retry_keeps [of s status_by_bytes "set_state CS_RECONNECTING r1"]
      show ?thesis by (simp add: case_prod_beta)
    qed
  qed
qed

end
