(* ===== verification/Ntrip_Probe.thy ===== *)
theory Ntrip_Probe
  imports Ntrip_Live
begin

text \<open>
  The bounded probe of \<open>client.py\<close> (\<open>probe_stream\<close>): one connection, its handshake, and a count of
  the frames of a bounded part of the stream. Nothing is written.
\<close>

section \<open>The probe\<close>

record probe_result =
  pr_ok :: bool
  pr_failure :: "failure_class option"
  pr_reason :: string
  pr_bytes_received :: nat
  pr_frames_received :: nat
  pr_frames_crc_valid :: nat
  pr_frames_crc_invalid :: nat
  pr_message_types :: "(string \<times> nat) list"
  pr_duration_s :: pyfloat

text \<open>The counters of the reading loop.\<close>

record probe_count =
  pc_received :: nat
  pc_valid :: nat
  pc_invalid :: nat
  pc_types :: "(string \<times> nat) list"

definition no_count :: probe_count where
  "no_count = \<lparr>pc_received = 0, pc_valid = 0, pc_invalid = 0, pc_types = []\<rparr>"

definition count_streamed :: "probe_count \<Rightarrow> streamed_frame \<Rightarrow> probe_count" where
  "count_streamed p f =
     (let p1 = (if sfr_crc_ok f then p\<lparr>pc_valid := pc_valid p + 1\<rparr> else p\<lparr>pc_invalid := pc_invalid p + 1\<rparr>)
      in case sfr_message_number f of
           None \<Rightarrow> p1
         | Some n \<Rightarrow> p1\<lparr>pc_types := count_key (pc_types p1) (str_nat n)\<rparr>)"

text \<open>The next piece of the stream, \<open>None\<close> when it ends or times out.\<close>

definition probe_piece ::
  "world \<Rightarrow> bytes \<Rightarrow> 'a client_scheme \<Rightarrow> (bytes \<times> bytes) option result \<times> 'a client_scheme"
where
  "probe_piece w data c =
     (if data \<noteq> [] then (Inr (Some (take 4096 data, drop 4096 data)), c)
      else
        case client_recv w c of
          (Inl (Net_Timeout m), c1) \<Rightarrow> (Inr None, c1)
        | (Inl (Net_Error m), c1) \<Rightarrow> (Inl (ConnectionLost m), c1)
        | (Inr chunk, c1) \<Rightarrow> (Inr (if chunk = [] then None else Some (chunk, [])), c1))"

fun probe_loop ::
  "nat \<Rightarrow> (bytes \<Rightarrow> string) \<Rightarrow> world \<Rightarrow> pyfloat \<Rightarrow> int \<Rightarrow> bytes \<Rightarrow> framer \<Rightarrow> probe_count \<Rightarrow> 'a client_scheme \<Rightarrow>
     (probe_count result \<times> 'a client_scheme) option"
where
  "probe_loop 0 sha w deadline limit data fr p c = None"
| "probe_loop (Suc n) sha w deadline limit data fr p c =
     (case monotonic w c of
        (now, c1) \<Rightarrow>
          if \<not> f_lt now deadline \<or> limit \<le> int (pc_received p) then Some (Inr p, c1)
          else
            case probe_piece w data c1 of
              (Inl e, c2) \<Rightarrow> Some (Inl e, c2)
            | (Inr None, c2) \<Rightarrow> Some (Inr p, c2)
            | (Inr (Some (chunk, rest)), c2) \<Rightarrow>
                (case feed sha fr chunk of
                   (frames, fr1) \<Rightarrow>
                     let p1 = foldl count_streamed (p\<lparr>pc_received := pc_received p + length chunk\<rparr>) frames
                     in if limit \<le> int (pc_received p1) then Some (Inr p1, c2)
                        else probe_loop n sha w deadline limit rest fr1 p1 c2))"

text \<open>A failed probe: the client is blocked, and the duration is read from the clock.\<close>

definition failed_result :: "failure_class option \<Rightarrow> string \<Rightarrow> pyfloat \<Rightarrow> probe_result" where
  "failed_result failure reason duration =
     \<lparr>pr_ok = False, pr_failure = failure, pr_reason = reason, pr_bytes_received = 0, pr_frames_received = 0,
      pr_frames_crc_valid = 0, pr_frames_crc_invalid = 0, pr_message_types = [], pr_duration_s = duration\<rparr>"

definition probe_failed ::
  "world \<Rightarrow> pyfloat \<Rightarrow> failure_class option \<Rightarrow> string \<Rightarrow> client \<Rightarrow> probe_result result \<times> client"
where
  "probe_failed w started failure reason c =
     (case monotonic w c of (now, c1) \<Rightarrow> (Inr (failed_result failure reason (f_sub now started)), c1))"

definition probe_refused ::
  "world \<Rightarrow> pyfloat \<Rightarrow> handshake_result \<Rightarrow> client \<Rightarrow> probe_result result \<times> client"
where
  "probe_refused w started check c =
     (let c1 = set_state CS_BLOCKED c;
          c2 = (if hs_failure check = Some FC_AUTH_FAILURE \<or> hs_failure check = Some FC_AUTHORIZATION_REJECTED
                then c1\<lparr>cl_metrics := no_metrics\<lparr>
                       mt_connections_attempted := mt_connections_attempted (cl_metrics c1) + 1,
                       mt_authentication_failures := mt_authentication_failures (cl_metrics c1) + 1\<rparr>\<rparr>
                else c1)
      in probe_failed w started (hs_failure check) (hs_reason check) c2)"

text \<open>From the first bytes of the body on.\<close>

definition probe_body ::
  "nat \<Rightarrow> (bytes \<Rightarrow> string) \<Rightarrow> world \<Rightarrow> pyfloat \<Rightarrow> pyfloat \<Rightarrow> int \<Rightarrow> framer \<Rightarrow> string \<Rightarrow> bytes \<Rightarrow> client \<Rightarrow>
     (probe_result result \<times> client) option"
where
  "probe_body fuel sha w started duration limit fr status rest c =
     (case client_recv w c of
        (Inl (Net_Timeout m), c1) \<Rightarrow>
          Some (probe_failed w started (Some FC_TIMEOUT) ''no stream data after handshake'' (set_state CS_BLOCKED c1))
      | (Inl (Net_Error m), c1) \<Rightarrow>
          Some (probe_failed w started (Some FC_CONNECTION_LOST) m (set_state CS_BLOCKED c1))
      | (Inr first, c1) \<Rightarrow>
          let check = validate_stream_response status (rest @ first) in
          if \<not> hs_ok check then Some (probe_refused w started check c1)
          else
            case probe_loop fuel sha w (f_add started duration) limit (rest @ first) fr no_count
                   (set_state CS_STREAMING c1) of
              None \<Rightarrow> None
            | Some (Inl e, c2) \<Rightarrow> Some (Inl e, c2)
            | Some (Inr p, c2) \<Rightarrow>
                (case monotonic w (set_state CS_STOPPED c2) of
                   (now, c3) \<Rightarrow>
                     Some (Inr \<lparr>pr_ok = True, pr_failure = None, pr_reason = ''probe_complete'',
                       pr_bytes_received = pc_received p, pr_frames_received = pc_valid p + pc_invalid p,
                       pr_frames_crc_valid = pc_valid p, pr_frames_crc_invalid = pc_invalid p,
                       pr_message_types = pc_types p, pr_duration_s = f_sub now started\<rparr>, c3)))"

text \<open>The handshake: \<open>except (TimeoutError, ValueError)\<close> before \<open>except OSError\<close>.\<close>

definition probe_handshake_error ::
  "world \<Rightarrow> pyfloat \<Rightarrow> py_error \<Rightarrow> client \<Rightarrow> probe_result result \<times> client"
where
  "probe_handshake_error w started e c =
     (case e of
        ReadTimeout m \<Rightarrow> probe_failed w started (Some FC_TIMEOUT) m (set_state CS_BLOCKED c)
      | ValueError m \<Rightarrow> probe_failed w started (Some FC_TIMEOUT) m (set_state CS_BLOCKED c)
      | ConnectionLost m \<Rightarrow>
          probe_failed w started (Some FC_CONNECTION_LOST) (''handshake read: '' @ m) (set_state CS_BLOCKED c)
      | _ \<Rightarrow> (Inl e, c))"

definition probe_connected ::
  "nat \<Rightarrow> (bytes \<Rightarrow> string) \<Rightarrow> world \<Rightarrow> ntrip_config \<Rightarrow> pyfloat \<Rightarrow> pyfloat \<Rightarrow> int \<Rightarrow> framer \<Rightarrow> client \<Rightarrow>
     (probe_result result \<times> client) option"
where
  "probe_connected fuel sha w cfg started duration limit fr c =
     (case client_send w (set_state CS_AUTHENTICATING c) of
        (Some e, c1) \<Rightarrow> Some (probe_handshake_error w started (net_exception e) c1)
      | (None, c1) \<Rightarrow>
          (case read_head w cfg c1 of
             (Inl e, c2) \<Rightarrow> Some (probe_handshake_error w started e c2)
           | (Inr (status, rest), c2) \<Rightarrow> probe_body fuel sha w started duration limit fr status rest c2))"

definition probe_stream ::
  "nat \<Rightarrow> (bytes \<Rightarrow> string) \<Rightarrow> world \<Rightarrow> ntrip_config \<Rightarrow> pyfloat \<Rightarrow> int \<Rightarrow> client \<Rightarrow>
     (probe_result result \<times> client) option"
where
  "probe_stream fuel sha w cfg duration limit c =
     (case ntrip_validate cfg of
        Inl e \<Rightarrow> Some (Inl e, c)
      | Inr problems \<Rightarrow>
          if problems \<noteq> []
          then Some (Inr (failed_result (Some FC_CONFIG_INVALID) (str_join ''; '' problems) f_zero), c)
          else
            case monotonic w c of
              (started, c1) \<Rightarrow>
                (case framer_init (nc_max_frame_length cfg) of
                   Inl e \<Rightarrow> Some (Inl e, set_state CS_CONNECTING c1)
                 | Inr fr \<Rightarrow>
                     (case client_dial w (set_state CS_CONNECTING c1) of
                        (Some e, c2) \<Rightarrow>
                          Some (Inr (failed_result (Some FC_CONNECTION_LOST)
                                   (''dial failed: '' @ (case e of Net_Timeout m \<Rightarrow> m | Net_Error m \<Rightarrow> m)) f_zero),
                                set_state CS_BLOCKED c2)
                      | (None, c2) \<Rightarrow> probe_connected fuel sha w cfg started duration limit fr c2)))"

section \<open>Its bounds\<close>

lemma count_streamed_received [simp]: "pc_received (foldl count_streamed p fs) = pc_received p"
  by (induction fs arbitrary: p) (auto simp: count_streamed_def Let_def split: option.split)

lemma count_streamed_counts:
  "pc_valid (foldl count_streamed p fs) = pc_valid p + length (filter sfr_crc_ok fs)"
  "pc_invalid (foldl count_streamed p fs) = pc_invalid p + length (filter (\<lambda>f. \<not> sfr_crc_ok f) fs)"
  by (induction fs arbitrary: p) (auto simp: count_streamed_def Let_def split: option.split)

lemma count_streamed_types:
  "pc_types (foldl count_streamed p fs) =
     foldl count_key (pc_types p) (map str_nat (List.map_filter sfr_message_number fs))"
  by (induction fs arbitrary: p)
    (auto simp: count_streamed_def Let_def List.map_filter_def split: option.split)

lemma count_streamed_upd:
  "(foldl count_streamed p fs)\<lparr>pc_received := k\<rparr> = foldl count_streamed (p\<lparr>pc_received := k\<rparr>) fs"
proof (induction fs arbitrary: p)
  case (Cons f fs)
  have "(count_streamed p f)\<lparr>pc_received := k\<rparr> = count_streamed (p\<lparr>pc_received := k\<rparr>) f"
    by (cases p) (simp add: count_streamed_def Let_def split: option.split)
  with Cons show ?case by simp
qed simp

text \<open>Every turn that goes on has read at least one byte.\<close>

lemma probe_piece_nonempty: "probe_piece w data c = (Inr (Some (chunk, rest)), c1) \<Longrightarrow> chunk \<noteq> []"
  by (auto simp: probe_piece_def split: if_splits prod.splits sum.splits net_error.splits)

lemma probe_loop_total:
  "nat (limit - int (pc_received p)) < n \<Longrightarrow> probe_loop n sha w deadline limit data fr p c \<noteq> None"
proof (induction n arbitrary: data fr p c)
  case (Suc n)
  obtain now c1 where m: "monotonic w c = (now, c1)" by (cases "monotonic w c")
  show ?case
  proof (cases "\<not> f_lt now deadline \<or> limit \<le> int (pc_received p)")
    case True
    then show ?thesis by (simp add: m)
  next
    case go: False
    obtain o1 c2 where piece: "probe_piece w data c1 = (o1, c2)" by (cases "probe_piece w data c1")
    show ?thesis
    proof (cases "\<exists>chunk rest. o1 = Inr (Some (chunk, rest))")
      case False
      with go m piece show ?thesis by (auto split: sum.split option.split)
    next
      case True
      then obtain chunk rest where o1: "o1 = Inr (Some (chunk, rest))" by blast
      obtain frames fr1 where f: "feed sha fr chunk = (frames, fr1)" by (cases "feed sha fr chunk")
      let ?p = "foldl count_streamed (p\<lparr>pc_received := pc_received p + length chunk\<rparr>) frames"
      obtain k where "length chunk = Suc k" using probe_piece_nonempty [OF piece [unfolded o1]] by (cases chunk) auto
      with Suc.prems go have "nat (limit - int (pc_received ?p)) < n" by simp arith
      then have "probe_loop n sha w deadline limit rest fr1 ?p c2 \<noteq> None" by (rule Suc.IH)
      with go m piece o1 f show ?thesis by (simp add: Let_def)
    qed
  qed
qed simp

text \<open>What the loop has counted: the frames of the bytes it has read, fed in some pieces.\<close>

lemma probe_loop_counts:
  assumes "probe_loop n sha w deadline limit data fr p c = Some (Inr q, c')"
    and "feed_all sha fr0 chunks = (frames, fr)" and "pc_received p = length (concat chunks)"
    and "p = foldl count_streamed (no_count\<lparr>pc_received := length (concat chunks)\<rparr>) frames"
  shows "\<exists>cs fs fr'. feed_all sha fr0 cs = (fs, fr') \<and>
    q = foldl count_streamed (no_count\<lparr>pc_received := length (concat cs)\<rparr>) fs"
  using assms
proof (induction n arbitrary: data fr p c chunks frames)
  case (Suc n)
  obtain now c1 where m: "monotonic w c = (now, c1)" by (cases "monotonic w c")
  show ?case
  proof (cases "\<not> f_lt now deadline \<or> limit \<le> int (pc_received p)")
    case True
    with Suc.prems m show ?thesis by auto
  next
    case go: False
    obtain o1 c2 where piece: "probe_piece w data c1 = (o1, c2)" by (cases "probe_piece w data c1")
    show ?thesis
    proof (cases "\<exists>chunk rest. o1 = Inr (Some (chunk, rest))")
      case False
      with go m piece Suc.prems show ?thesis by (auto split: sum.splits option.splits)
    next
      case True
      then obtain chunk rest where o1: "o1 = Inr (Some (chunk, rest))" by blast
      obtain more1 fr1 where f: "feed sha fr chunk = (more1, fr1)" by (cases "feed sha fr chunk")
      let ?p = "foldl count_streamed (p\<lparr>pc_received := pc_received p + length chunk\<rparr>) more1"
      have all: "feed_all sha fr0 (chunks @ [chunk]) = (frames @ more1, fr1)"
        using Suc.prems(2) f by (simp add: feed_all_append)
      have p: "?p = foldl count_streamed (no_count\<lparr>pc_received := length (concat (chunks @ [chunk]))\<rparr>) (frames @ more1)"
        using Suc.prems(3,4) by (simp add: count_streamed_upd)
      show ?thesis
      proof (cases "limit \<le> int (pc_received ?p)")
        case True
        then have "q = ?p" using Suc.prems(1) go m piece o1 f by (simp add: Let_def)
        with all p show ?thesis by blast
      next
        case False
        then have "probe_loop n sha w deadline limit rest fr1 ?p c2 = Some (Inr q, c')"
          using Suc.prems(1) go m piece o1 f by (simp add: Let_def)
        then show ?thesis by (rule Suc.IH [OF _ all _ p]) (simp add: Suc.prems(3))
      qed
    qed
  qed
qed simp

text \<open>What a probe reports and in which state it leaves the client, for each of its ends.\<close>

definition probe_ok :: "(bytes \<Rightarrow> string) \<Rightarrow> int \<Rightarrow> probe_result result \<Rightarrow> client \<Rightarrow> bool" where
  "probe_ok sha m res c =
     (case res of
        Inl e \<Rightarrow> True
      | Inr r \<Rightarrow>
          if pr_ok r then
            cl_state c = CS_STOPPED \<and> pr_failure r = None \<and>
            (\<exists>bs. let frames = pr_frames (parse_stream sha m (int (length bs)) bs) in
               pr_bytes_received r = length bs \<and> pr_frames_received r = length frames \<and>
               pr_frames_crc_valid r = length (filter (\<lambda>p. fr_crc_status (pf_record p) = CRC_PASS) frames) \<and>
               pr_frames_crc_invalid r = length (filter (\<lambda>p. fr_crc_status (pf_record p) \<noteq> CRC_PASS) frames) \<and>
               (\<forall>key. obj_get (pr_message_types r) key 0 =
                  length (filter (\<lambda>p. map_option str_nat (fr_message_number (pf_record p)) = Some key) frames)))
          else pr_bytes_received r = 0 \<and> pr_frames_received r = 0 \<and>
            (if pr_failure r = Some FC_CONFIG_INVALID then True else cl_state c = CS_BLOCKED))"

lemma probe_ok_error [simp]: "probe_ok sha m (Inl e) c"
  by (simp add: probe_ok_def)

lemma probe_failed_ok:
  "probe_failed w started failure reason c = (res, c') \<Longrightarrow> cl_state c = CS_BLOCKED \<Longrightarrow> probe_ok sha m res c'"
  by (auto simp: probe_failed_def monotonic_def probe_ok_def failed_result_def)

lemma probe_refused_ok: "probe_refused w started check c = (res, c') \<Longrightarrow> probe_ok sha m res c'"
  by (auto simp: probe_refused_def Let_def set_state_def elim!: probe_failed_ok)

lemma probe_handshake_error_ok: "probe_handshake_error w started e c = (res, c') \<Longrightarrow> probe_ok sha m res c'"
  by (cases e) (auto simp: probe_handshake_error_def set_state_def elim!: probe_failed_ok)

lemma scan_frames_length: "length (scan_frames m off rest) \<le> length rest"
proof (induction m off rest rule: scan.induct)
  case (1 m off rest)
  then show ?case
    by (cases "scan_head m rest")
      (auto simp: scan_Wait scan_Skip scan_Frame dest!: scan_head_FrameD intro: le_trans)
qed

lemma count_list_map_filter:
  "count_list (map g (List.map_filter f xs)) y = length (filter (\<lambda>x. map_option g (f x) = Some y) xs)"
  by (induction xs) (auto simp: List.map_filter_def)

lemma obj_get_empty: "obj_get [] key d = d"
  by (simp add: obj_get_def)

text \<open>The counts of a completed loop are those of the frames of the bytes it has read.\<close>

lemma probe_loop_stream:
  assumes "framer_init m = Inr fr" and "probe_loop n sha w deadline limit data fr no_count c = Some (Inr q, c')"
  shows "\<exists>bs. let frames = pr_frames (parse_stream sha m (int (length bs)) bs) in
     pc_received q = length bs \<and> pc_valid q + pc_invalid q = length frames \<and>
     pc_valid q = length (filter (\<lambda>p. fr_crc_status (pf_record p) = CRC_PASS) frames) \<and>
     pc_invalid q = length (filter (\<lambda>p. fr_crc_status (pf_record p) \<noteq> CRC_PASS) frames) \<and>
     (\<forall>key. obj_get (pc_types q) key 0 =
        length (filter (\<lambda>p. map_option str_nat (fr_message_number (pf_record p)) = Some key) frames))"
proof -
  obtain cs fs fr' where run: "feed_all sha fr cs = (fs, fr')"
    and q: "q = foldl count_streamed (no_count\<lparr>pc_received := length (concat cs)\<rparr>) fs"
    using probe_loop_counts [OF assms(2), of fr "[]" "[]"] by (auto simp: no_count_def)
  let ?bs = "concat cs"
  have "length fs \<le> length ?bs"
    using feed_all_frames [OF assms(1) run] scan_frames_length [of m 0 ?bs] by simp
  then have fs: "fs = map streamed_of (pr_frames (parse_stream sha m (int (length ?bs)) ?bs))"
    using feed_all_parsed [OF assms(1) run] by simp
  show ?thesis
    by (rule exI [of _ ?bs])
      (simp add: q count_streamed_counts count_streamed_types no_count_def count_keys_get
        count_list_map_filter fs streamed_of_def filter_map comp_def Let_def
        sum_length_filter_compl obj_get_empty)
qed

lemma probe_body_ok:
  assumes "framer_init m = Inr fr"
  shows "case probe_body (nat limit + 1) sha w started duration limit fr status rest c of
    None \<Rightarrow> False | Some (res, c') \<Rightarrow> probe_ok sha m res c'"
proof -
  obtain x c1 where recv: "client_recv w c = (x, c1)" by (cases "client_recv w c")
  show ?thesis
  proof (cases x)
    case (Inl e)
    with recv show ?thesis
      by (auto simp: probe_body_def set_state_def split: net_error.split elim!: probe_failed_ok)
  next
    case (Inr first)
    let ?v = "validate_stream_response status (rest @ first)"
    show ?thesis
    proof (cases "hs_ok ?v")
      case False
      with recv Inr show ?thesis by (auto simp: probe_body_def Let_def elim!: probe_refused_ok)
    next
      case True
      let ?l = "probe_loop (nat limit + 1) sha w (f_add started duration) limit (rest @ first) fr no_count
                  (set_state CS_STREAMING c1)"
      have "?l \<noteq> None" by (rule probe_loop_total) (simp add: no_count_def)
      then obtain y c2 where l: "?l = Some (y, c2)" by auto
      show ?thesis
      proof (cases y)
        case (Inl e)
        with recv Inr True l show ?thesis by (simp add: probe_body_def Let_def)
      next
        case q: (Inr q)
        from probe_loop_stream [OF assms l [unfolded q]] recv Inr True l q show ?thesis
          by (simp add: probe_body_def Let_def probe_ok_def monotonic_def set_state_def)
      qed
    qed
  qed
qed

lemma probe_connected_ok:
  assumes "framer_init (nc_max_frame_length cfg) = Inr fr"
  shows "case probe_connected (nat limit + 1) sha w cfg started duration limit fr c of
    None \<Rightarrow> False | Some (res, c') \<Rightarrow> probe_ok sha (nc_max_frame_length cfg) res c'"
proof -
  obtain x c1 where send: "client_send w (set_state CS_AUTHENTICATING c) = (x, c1)"
    by (cases "client_send w (set_state CS_AUTHENTICATING c)")
  obtain head c2 where head: "read_head w cfg c1 = (head, c2)" by (cases "read_head w cfg c1")
  show ?thesis
  proof (cases "x = None \<and> (\<exists>h. head = Inr h)")
    case True
    then obtain status rest where "x = None" "head = Inr (status, rest)" by auto
    with send head probe_body_ok [OF assms] show ?thesis by (simp add: probe_connected_def)
  next
    case False
    with send head show ?thesis
      by (auto simp: probe_connected_def split: option.split sum.split prod.split elim: probe_handshake_error_ok)
  qed
qed

text \<open>
  The probe of a stream ends and reports what it saw (\<open>probe_stream\<close> of \<open>client.py\<close>). With fuel for
  one turn per byte of its limit it always ends, whatever the clock and the caster do. A successful
  probe leaves the client stopped, and its counters are those of the frames that the offline parser
  finds in the bytes it has read; a failed one has counted nothing and, unless the configuration was
  refused before anything was tried, leaves the client blocked.
\<close>

theorem probe_ends_with_counts:
  "case probe_stream (nat limit + 1) sha w cfg duration limit c of
     None \<Rightarrow> False
   | Some (res, c') \<Rightarrow> probe_ok sha (nc_max_frame_length cfg) res c'"
proof (cases "ntrip_validate cfg")
  case (Inl e)
  then show ?thesis by (simp add: probe_stream_def)
next
  case (Inr problems)
  obtain started c1 where m: "monotonic w c = (started, c1)" by (cases "monotonic w c")
  obtain x c2 where dial: "client_dial w (set_state CS_CONNECTING c1) = (x, c2)"
    by (cases "client_dial w (set_state CS_CONNECTING c1)")
  show ?thesis
  proof (cases "framer_init (nc_max_frame_length cfg)")
    case (Inl e)
    with Inr m show ?thesis by (simp add: probe_stream_def probe_ok_def failed_result_def)
  next
    case fr: (Inr fr)
    with Inr m dial probe_connected_ok [OF fr] show ?thesis
      by (cases x) (simp_all add: probe_stream_def probe_ok_def failed_result_def set_state_def)
  qed
qed

end
