(* ===== verification/Gen_Bits.thy ===== *)
theory Gen_Bits
  imports Py_Convert
begin

text \<open>
  The bit writer and reader (\<open>rtcm_generation/bitstream.py\<close>) and the field metadata (\<open>fields.py\<close>). The
  zeros and ones of the writer are booleans, the first bit written is the first of the list. A method
  takes the object and returns it, also when it raises.
\<close>

section \<open>The writer\<close>

record bit_writer =
  bw_max_bits :: int
  bw_bits :: "bool list"

definition new_writer :: "int \<Rightarrow> bit_writer result" where
  "new_writer max_bits =
     (if max_bits < 1 then Inl (ValueError ''max_bits must be positive'')
      else Inr \<lparr>bw_max_bits = max_bits, bw_bits = []\<rparr>)"

definition bit_length :: "bit_writer \<Rightarrow> nat" where
  "bit_length w = length (bw_bits w)"

definition append_bits :: "bool list \<Rightarrow> bit_writer \<Rightarrow> unit result \<times> bit_writer" where
  "append_bits bs w =
     (if bw_max_bits w < int (length (bw_bits w) + length bs)
      then (Inl (ValueError ''bitstream exceeds configured maximum''), w)
      else (Inr (), w\<lparr>bw_bits := bw_bits w @ bs\<rparr>))"

text \<open>\<open>1 << bits\<close> raises on a negative count; \<open>bits < 1\<close> is tested before it.\<close>

definition write_unsigned :: "int \<Rightarrow> int \<Rightarrow> bit_writer \<Rightarrow> unit result \<times> bit_writer" where
  "write_unsigned value bits w =
     (if bits < 1 \<or> value < 0 \<or> push_bit (nat bits) 1 \<le> value
      then (Inl (ValueError (''unsigned value '' @ str_int value @ '' does not fit '' @ str_int bits @ '' bits'')), w)
      else append_bits (map (\<lambda>index. bit value index) (rev [0..<nat bits])) w)"

definition write_signed :: "int \<Rightarrow> int \<Rightarrow> bit_writer \<Rightarrow> unit result \<times> bit_writer" where
  "write_signed value bits w =
     (if bits - 1 < 0 then (Inl (ValueError ''negative shift count''), w)
      else
        let low = - push_bit (nat (bits - 1)) 1; high = push_bit (nat (bits - 1)) 1 - 1 in
        if bits < 1 \<or> value < low \<or> high < value
        then (Inl (ValueError (''signed value '' @ str_int value @ '' does not fit '' @ str_int bits @ '' bits'')), w)
        else write_unsigned (if 0 \<le> value then value else push_bit (nat bits) 1 + value) bits w)"

fun write_bytes :: "bytes \<Rightarrow> bit_writer \<Rightarrow> unit result \<times> bit_writer" where
  "write_bytes [] w = (Inr (), w)"
| "write_bytes (b # bs) w =
     (case write_unsigned (uint b) 8 w of
        (Inl e, w1) \<Rightarrow> (Inl e, w1)
      | (Inr _, w1) \<Rightarrow> write_bytes bs w1)"

definition bits_value :: "bool list \<Rightarrow> int" where
  "bits_value bs = foldl (\<lambda>byte b. push_bit 1 byte OR of_bool b) 0 bs"

function pack_bits :: "bool list \<Rightarrow> bytes" where
  "pack_bits bs = (if bs = [] then [] else word_of_int (bits_value (take 8 bs)) # pack_bits (drop 8 bs))"
  by pat_completeness auto
termination
  by (relation "measure length") auto

declare pack_bits.simps [simp del]

definition to_bytes :: "bit_writer \<Rightarrow> bytes result \<times> bit_writer" where
  "to_bytes w =
     (case (if bit_length w mod 8 \<noteq> 0 then append_bits (replicate (8 - bit_length w mod 8) False) w
            else (Inr (), w)) of
        (Inl e, w1) \<Rightarrow> (Inl e, w1)
      | (Inr _, w1) \<Rightarrow> (Inr (pack_bits (bw_bits w1)), w1))"

section \<open>The reader\<close>

record bit_reader =
  br_data :: bytes
  br_position :: nat

definition new_reader :: "bytes \<Rightarrow> bit_reader" where
  "new_reader data = \<lparr>br_data = data, br_position = 0\<rparr>"

definition bit_at :: "bytes \<Rightarrow> nat \<Rightarrow> bool" where
  "bit_at data i = odd (drop_bit (7 - i mod 8) (uint (data ! (i div 8))))"

fun read_loop :: "nat \<Rightarrow> int \<Rightarrow> bit_reader \<Rightarrow> int \<times> bit_reader" where
  "read_loop 0 value r = (value, r)"
| "read_loop (Suc n) value r =
     read_loop n (push_bit 1 value OR of_bool (bit_at (br_data r) (br_position r)))
       (r\<lparr>br_position := br_position r + 1\<rparr>)"

definition read_unsigned :: "int \<Rightarrow> bit_reader \<Rightarrow> int result \<times> bit_reader" where
  "read_unsigned bits r =
     (if bits < 1 \<or> int (length (br_data r) * 8) < int (br_position r) + bits
      then (Inl (ValueError ''bitstream underflow''), r)
      else case read_loop (nat bits) 0 r of (value, r1) \<Rightarrow> (Inr value, r1))"

definition read_signed :: "int \<Rightarrow> bit_reader \<Rightarrow> int result \<times> bit_reader" where
  "read_signed bits r =
     (case read_unsigned bits r of
        (Inl e, r1) \<Rightarrow> (Inl e, r1)
      | (Inr value, r1) \<Rightarrow>
          (Inr (if value AND push_bit (nat (bits - 1)) 1 \<noteq> 0 then value - push_bit (nat bits) 1 else value), r1))"

section \<open>Fields\<close>

record field_spec =
  fs_name :: string
  fs_bits :: int
  fs_signed :: bool
  fs_unit :: string
  fs_scale :: pyfloat
  fs_minimum :: pyfloat
  fs_maximum :: pyfloat
  fs_required :: bool
  fs_missing_representation :: string
  fs_rounding :: string

definition is_number :: "json \<Rightarrow> bool" where
  "is_number v = (case v of JInt i \<Rightarrow> True | JFloat x \<Rightarrow> True | _ \<Rightarrow> False)"

definition is_finite :: "pyfloat \<Rightarrow> bool" where
  "is_finite x = (case x of PFin q \<Rightarrow> True | _ \<Rightarrow> False)"

definition field_validate :: "field_spec \<Rightarrow> json \<Rightarrow> string list result" where
  "field_validate fs v =
     (if v = JNull then
        Inr (if fs_required fs then [fs_name fs @ '': missing required value''] else [])
      else if \<not> is_number v then Inr [fs_name fs @ '': numeric value required'']
      else
        bind_result (py_float v) (\<lambda>x.
          Inr (if \<not> is_finite x then [fs_name fs @ '': NaN/Inf is forbidden'']
               else if fs_bits fs < 1 then [fs_name fs @ '': bits must be positive'']
               else if f_le (fs_scale fs) f_zero then [fs_name fs @ '': scale must be positive'']
               else if f_lt x (fs_minimum fs) \<or> f_lt (fs_maximum fs) x then
                 [fs_name fs @ '': '' @ py_str v @ '' outside ['' @ repr_float (fs_minimum fs) @ '', '' @
                  repr_float (fs_maximum fs) @ ''] '' @ fs_unit fs]
               else [])))"

text \<open>\<open>int(round(x))\<close>\<close>

definition round_float :: "pyfloat \<Rightarrow> int result" where
  "round_float x =
     (case x of
        PFin q \<Rightarrow> Inr (round_half_even q)
      | PNan \<Rightarrow> Inl (ValueError ''cannot convert float NaN to integer'')
      | _ \<Rightarrow> Inl (OverflowError ''cannot convert float infinity to integer''))"

definition encode_integer :: "field_spec \<Rightarrow> json \<Rightarrow> int result" where
  "encode_integer fs v =
     bind_result (field_validate fs v) (\<lambda>problems.
       if problems \<noteq> [] then Inl (ValueError (str_join ''; '' problems))
       else bind_result (py_float v) (\<lambda>x. bind_result (f_div x (fs_scale fs)) round_float))"

definition validate_fields :: "field_spec list \<Rightarrow> (string \<times> json) list \<Rightarrow> unit result" where
  "validate_fields specs values =
     bind_result (map_result (\<lambda>fs. field_validate fs (obj_get values (fs_name fs) JNull)) specs) (\<lambda>problems.
       if concat problems \<noteq> [] then Inl (ValueError (str_join ''; '' (concat problems))) else Inr ())"

section \<open>Bits and values\<close>

lemma bits_value_horner: "bits_value bs = horner_sum of_bool 2 (rev bs)"
proof (induction bs rule: rev_induct)
  case (snoc b bs)
  have "push_bit 1 v OR of_bool b = of_bool b + 2 * v" for v :: int
    by (cases b) (simp_all add: or_one_eq push_bit_eq_mult)
  with snoc show ?case by (simp add: bits_value_def horner_sum_append)
qed (simp add: bits_value_def)

lemma bits_value_written: "bits_value (map (bit v) (rev [0..<n])) = take_bit n v" for v :: int
  by (simp add: bits_value_horner rev_map horner_sum_bit_eq_take_bit)

lemma pack_bits_length: "length (pack_bits bs) = (length bs + 7) div 8"
proof (induction bs rule: pack_bits.induct)
  case (1 bs)
  show ?case
  proof (cases "bs = []")
    case False
    have "(n + 7) div 8 = Suc ((n - 8 + 7) div 8)" if "0 < n" for n :: nat
      using that by (cases "n \<le> 8") (simp_all add: le_div_geq)
    from this [of "length bs"] 1 False show ?thesis by (simp add: pack_bits.simps [of bs])
  qed (simp add: pack_bits.simps)
qed

lemma bit_at_0: "bit_at (word_of_int (bits_value bs) # data) i = bs ! i" if "length bs = 8" "i < 8"
proof -
  have "uint (word_of_int (bits_value bs) :: byte) = take_bit 8 (bits_value bs)" by (simp add: uint_word_of_int_eq)
  with that show ?thesis
    by (simp add: bit_at_def bits_value_horner flip: bit_iff_odd_drop_bit)
      (auto simp: bit_take_bit_iff bit_horner_sum_bit_iff rev_nth)
qed

lemma bit_at_pack: "length bs mod 8 = 0 \<Longrightarrow> i < length bs \<Longrightarrow> bit_at (pack_bits bs) i = bs ! i"
proof (induction bs arbitrary: i rule: pack_bits.induct)
  case (1 bs)
  then have len: "8 \<le> length bs" "bs \<noteq> []" by (auto simp: dvd_imp_le mod_0_imp_dvd)
  note step = pack_bits.simps [of bs, unfolded if_not_P [OF len(2)]]
  show ?case
  proof (cases "i < 8")
    case True
    with len show ?thesis by (simp add: step bit_at_0)
  next
    case False
    then have "bit_at (pack_bits (drop 8 bs)) (i - 8) = drop 8 bs ! (i - 8)"
      using "1.prems" len by (intro "1.IH") (auto simp: le_mod_geq)
    moreover have "bit_at (b # data) i = bit_at data (i - 8)" for b data
      using False by (simp add: bit_at_def le_mod_geq le_div_geq)
    ultimately show ?thesis using False len by (simp add: step)
  qed
qed

section \<open>Writing and reading a sequence of fields\<close>

text \<open>A field as it is written, signed or not, value, bits; as it is read, signed or not, bits.\<close>

type_synonym bit_field = "bool \<times> int \<times> int"

fun write_fields :: "bit_field list \<Rightarrow> bit_writer \<Rightarrow> unit result \<times> bit_writer" where
  "write_fields [] w = (Inr (), w)"
| "write_fields ((sgn_bit, v, bits) # fs) w =
     (case (if sgn_bit then write_signed v bits w else write_unsigned v bits w) of
        (Inl e, w1) \<Rightarrow> (Inl e, w1)
      | (Inr _, w1) \<Rightarrow> write_fields fs w1)"

fun read_fields :: "bit_field list \<Rightarrow> bit_reader \<Rightarrow> int list result \<times> bit_reader" where
  "read_fields [] r = (Inr [], r)"
| "read_fields ((sgn_bit, _, bits) # fs) r =
     (case (if sgn_bit then read_signed bits r else read_unsigned bits r) of
        (Inl e, r1) \<Rightarrow> (Inl e, r1)
      | (Inr v, r1) \<Rightarrow>
          (case read_fields fs r1 of (Inl e, r2) \<Rightarrow> (Inl e, r2) | (Inr vs, r2) \<Rightarrow> (Inr (v # vs), r2)))"

text \<open>The unsigned number that carries a field, and its bits.\<close>

fun carried :: "bit_field \<Rightarrow> int" where
  "carried (sgn_bit, v, bits) = (if 0 \<le> v then v else 2 ^ nat bits + v)"

fun field_ok :: "bit_field \<Rightarrow> bool" where
  "field_ok (sgn_bit, v, bits) \<longleftrightarrow> 1 \<le> bits \<and>
     (if sgn_bit then - (2 ^ nat (bits - 1)) \<le> v \<and> v < 2 ^ nat (bits - 1) else 0 \<le> v \<and> v < 2 ^ nat bits)"

fun field_bits :: "bit_field \<Rightarrow> bool list" where
  "field_bits (sgn_bit, v, bits) = map (bit (carried (sgn_bit, v, bits))) (rev [0..<nat bits])"

lemma power_pred: "1 \<le> b \<Longrightarrow> (2::int) ^ nat b = 2 * 2 ^ nat (b - 1)"
  by (metis Suc_nat_eq_nat_zadd1 add.commute diff_add_cancel diff_ge_0_iff_ge power_Suc)

lemma carried_range: "field_ok f \<Longrightarrow> 0 \<le> carried f \<and> carried f < 2 ^ nat (snd (snd f))"
  by (cases f) (auto simp: power_pred split: if_splits)

lemma append_bits_cases:
  "append_bits bs w = (Inr u, w') \<Longrightarrow>
     w' = w\<lparr>bw_bits := bw_bits w @ bs\<rparr> \<and> int (length (bw_bits w) + length bs) \<le> bw_max_bits w"
  "append_bits bs w = (Inl e, w') \<Longrightarrow>
     w' = w \<and> e = ValueError ''bitstream exceeds configured maximum'' \<and> bw_max_bits w < int (length (bw_bits w) + length bs)"
  by (auto simp: append_bits_def split: if_splits)

lemma write_unsigned_ok:
  assumes "write_unsigned v bits w = (Inr u, w')"
  shows "field_ok (False, v, bits) \<and> append_bits (field_bits (False, v, bits)) w = (Inr u, w')"
proof -
  have g: "1 \<le> bits" "0 \<le> v" "v < 2 ^ nat bits"
    and r: "append_bits (map (bit v) (rev [0..<nat bits])) w = (Inr u, w')"
    using assms by (auto simp: write_unsigned_def push_bit_eq_mult split: if_splits)
  then show ?thesis by simp
qed

lemma write_signed_ok:
  assumes "write_signed v bits w = (Inr u, w')"
  shows "field_ok (True, v, bits) \<and> append_bits (field_bits (True, v, bits)) w = (Inr u, w')"
proof -
  have g: "1 \<le> bits" "- (2 ^ nat (bits - 1)) \<le> v" "v < 2 ^ nat (bits - 1)"
    and r: "write_unsigned (carried (True, v, bits)) bits w = (Inr u, w')"
    using assms by (auto simp: write_signed_def push_bit_eq_mult Let_def split: if_splits)
  have same: "carried (False, carried (True, v, bits), bits) = carried (True, v, bits)"
    using g carried_range [of "(True, v, bits)"] by simp
  have "append_bits (field_bits (False, carried (True, v, bits), bits)) w = (Inr u, w')"
    using write_unsigned_ok [OF r] by blast
  with g show ?thesis unfolding field_bits.simps same by simp
qed

lemma write_field_error:
  "write_unsigned v bits w = (Inl e, w') \<Longrightarrow> \<exists>s. e = ValueError s"
  "write_signed v bits w = (Inl e, w') \<Longrightarrow> \<exists>s. e = ValueError s"
  by (auto simp: write_signed_def write_unsigned_def Let_def dest!: append_bits_cases(2) split: if_splits)

lemma write_fields_ok:
  "write_fields fs w = (Inr u, w') \<Longrightarrow>
     list_all field_ok fs \<and> bw_bits w' = bw_bits w @ concat (map field_bits fs) \<and>
     bw_max_bits w' = bw_max_bits w \<and>
     (int (length (bw_bits w)) \<le> bw_max_bits w \<longrightarrow>
        int (length (bw_bits w) + length (concat (map field_bits fs))) \<le> bw_max_bits w)"
proof (induction fs w rule: write_fields.induct)
  case (2 sgn_bit v bits fs w)
  then obtain w1 where w1: "(if sgn_bit then write_signed v bits w else write_unsigned v bits w) = (Inr (), w1)"
    and r: "write_fields fs w1 = (Inr u, w')"
    by (auto split: prod.splits sum.splits)
  then have one: "field_ok (sgn_bit, v, bits)" "append_bits (field_bits (sgn_bit, v, bits)) w = (Inr (), w1)"
    using write_unsigned_ok [of v bits w "()" w1] write_signed_ok [of v bits w "()" w1] by (cases sgn_bit; simp)+
  have "(Inr (), w1) = (if sgn_bit then write_signed v bits w else write_unsigned v bits w)" using w1 ..
  note ih = "2.IH" [OF this refl r]
  from ih one append_bits_cases(1) [OF one(2)] show ?case by simp
qed simp

lemma write_fields_error: "write_fields fs w = (Inl e, w') \<Longrightarrow> \<exists>s. e = ValueError s"
proof (induction fs w rule: write_fields.induct)
  case (2 sgn_bit v bits fs w)
  then show ?case
    by (auto split: prod.splits sum.splits if_splits dest: write_field_error)
qed simp

text \<open>The bits that the data hold from a position on.\<close>

definition holds :: "bytes \<Rightarrow> nat \<Rightarrow> bool list \<Rightarrow> bool" where
  "holds data pos bs \<longleftrightarrow> pos + length bs \<le> 8 * length data \<and> map (bit_at data) [pos..<pos + length bs] = bs"

lemma holds_append: "holds data pos (as @ bs) \<longleftrightarrow> holds data pos as \<and> holds data (pos + length as) bs"
proof -
  have "[pos..<pos + (length as + length bs)] =
      [pos..<pos + length as] @ [pos + length as..<pos + length as + length bs]"
    using upt_add_eq_append [of pos "pos + length as" "length bs"] by (simp add: add.assoc)
  then show ?thesis by (auto simp: holds_def add.assoc append_eq_append_conv)
qed

lemma read_loop_bits:
  "read_loop n v r =
     (foldl (\<lambda>byte b. push_bit 1 byte OR of_bool b) v (map (bit_at (br_data r)) [br_position r..<br_position r + n]),
      r\<lparr>br_position := br_position r + n\<rparr>)"
proof (induction n v r rule: read_loop.induct)
  case (2 n v r)
  have "[br_position r..<br_position r + Suc n] = br_position r # [Suc (br_position r)..<Suc (br_position r) + n]"
    by (simp add: upt_conv_Cons)
  with 2 show ?case by simp
qed simp

lemma read_unsigned_held:
  assumes "holds data pos (map (bit u) (rev [0..<nat bits]))" and "1 \<le> bits" and "0 \<le> u" "u < 2 ^ nat bits"
  shows "read_unsigned bits \<lparr>br_data = data, br_position = pos\<rparr> =
    (Inr u, \<lparr>br_data = data, br_position = pos + nat bits\<rparr>)"
proof -
  have room: "int pos + bits \<le> int (length data * 8)"
    and held: "map (bit_at data) [pos..<pos + nat bits] = map (bit u) (rev [0..<nat bits])"
    using assms(1,2) by (auto simp: holds_def)
  have "take_bit (nat bits) u = u" using assms(3,4) by (simp add: take_bit_int_eq_self)
  with room held assms(2) bits_value_written [of u "nat bits"] show ?thesis
    by (simp add: read_unsigned_def read_loop_bits bits_value_def)
qed

lemma top_bit:
  fixes u :: int
  assumes "1 \<le> bits" and "0 \<le> u" and "u < 2 ^ nat bits"
  shows "u AND push_bit (nat (bits - 1)) 1 \<noteq> 0 \<longleftrightarrow> 2 ^ nat (bits - 1) \<le> u"
proof -
  let ?p = "2 ^ nat (bits - 1) :: int"
  have "u < 2 * ?p" using assms power_pred by simp
  then have "u div ?p = of_bool (?p \<le> u)"
    using assms(2) by (cases "?p \<le> u") (simp_all add: div_pos_geq)
  then show ?thesis
    by (simp add: push_bit_eq_mult and_exp_eq_0_iff_not_bit bit_iff_odd)
qed

lemma read_signed_held:
  assumes "holds data pos (field_bits (True, v, bits))" and "field_ok (True, v, bits)"
  shows "read_signed bits \<lparr>br_data = data, br_position = pos\<rparr> =
    (Inr v, \<lparr>br_data = data, br_position = pos + nat bits\<rparr>)"
proof -
  let ?u = "carried (True, v, bits)"
  have u: "1 \<le> bits" "0 \<le> ?u" "?u < 2 ^ nat bits"
    using carried_range [OF assms(2)] assms(2) by simp_all
  have read: "read_unsigned bits \<lparr>br_data = data, br_position = pos\<rparr> =
      (Inr ?u, \<lparr>br_data = data, br_position = pos + nat bits\<rparr>)"
    by (rule read_unsigned_held) (use assms(1) u in simp_all)
  have "(if ?u AND push_bit (nat (bits - 1)) 1 \<noteq> 0 then ?u - push_bit (nat bits) 1 else ?u) = v"
    using assms(2) power_pred [OF u(1)] unfolding top_bit [OF u] by (auto simp: push_bit_eq_mult)
  with read show ?thesis by (simp add: read_signed_def del: carried.simps)
qed

lemma read_fields_held:
  "holds data pos (concat (map field_bits fs)) \<Longrightarrow> list_all field_ok fs \<Longrightarrow>
   read_fields fs \<lparr>br_data = data, br_position = pos\<rparr> =
     (Inr (map (\<lambda>(sgn_bit, v, bits). v) fs),
      \<lparr>br_data = data, br_position = pos + length (concat (map field_bits fs))\<rparr>)"
proof (induction fs arbitrary: pos)
  case (Cons f fs)
  obtain sgn_bit v bits where f: "f = (sgn_bit, v, bits)" by (cases f)
  have h: "holds data pos (field_bits (sgn_bit, v, bits))" "field_ok (sgn_bit, v, bits)"
    "holds data (pos + nat bits) (concat (map field_bits fs))" "list_all field_ok fs"
    using Cons.prems by (simp_all add: f holds_append)
  have "(if sgn_bit then read_signed bits \<lparr>br_data = data, br_position = pos\<rparr>
         else read_unsigned bits \<lparr>br_data = data, br_position = pos\<rparr>) =
      (Inr v, \<lparr>br_data = data, br_position = pos + nat bits\<rparr>)"
    using h(1,2) read_signed_held [of data pos v bits] read_unsigned_held [of data pos v bits]
    by (cases sgn_bit) auto
  with Cons.IH [OF h(3,4)] show ?case by (simp add: f add.assoc)
qed simp

lemma round_up_8: "(n + 7) div 8 = (if n mod 8 = 0 then n div 8 else Suc (n div 8))" for n :: nat
proof -
  have "(n mod 8 + 7) div 8 = (if n mod 8 = 0 then 0 else 1)"
    using mod_less_divisor [of 8 n] by (simp add: le_div_geq)
  then show ?thesis using div_add1_eq [of n 7 8] by simp
qed

lemma padded_length: "n mod 8 \<noteq> 0 \<Longrightarrow> n + (8 - n mod 8) = 8 * ((n + 7) div 8)" for n :: nat
proof -
  assume "n mod 8 \<noteq> 0"
  then have "(n + 7) div 8 = Suc (n div 8)" by (simp add: round_up_8)
  moreover have "n mod 8 < 8" by simp
  moreover have "n div 8 * 8 + n mod 8 = n" by (rule div_mult_mod_eq)
  ultimately show ?thesis by linarith
qed

lemma whole_length: "n mod 8 = 0 \<Longrightarrow> 8 * ((n + 7) div 8) = n" for n :: nat
  using div_mult_mod_eq [of n 8] by (simp add: round_up_8)

lemma to_bytes_cases:
  assumes "to_bytes w = (res, w')"
  shows "case res of
    Inl e \<Rightarrow> (\<exists>s. e = ValueError s) \<and> bw_max_bits w < int (8 * ((bit_length w + 7) div 8))
  | Inr data \<Rightarrow> holds data 0 (bw_bits w) \<and> length data = (bit_length w + 7) div 8 \<and>
      (int (bit_length w) \<le> bw_max_bits w \<longrightarrow> int (8 * length data) \<le> bw_max_bits w)"
proof (cases "bit_length w mod 8 = 0")
  case True
  then have res: "res = Inr (pack_bits (bw_bits w))" using assms by (auto simp: to_bytes_def)
  have len: "8 * length (pack_bits (bw_bits w)) = bit_length w"
    using whole_length [OF True] by (simp add: pack_bits_length bit_length_def)
  have "holds (pack_bits (bw_bits w)) 0 (bw_bits w)"
    using True len by (auto simp: holds_def bit_length_def bit_at_pack intro!: nth_equalityI)
  with len show ?thesis by (simp add: res pack_bits_length bit_length_def)
next
  case False
  let ?pad = "replicate (8 - bit_length w mod 8) False"
  have round: "bit_length w + (8 - bit_length w mod 8) = 8 * ((bit_length w + 7) div 8)"
    by (rule padded_length [OF False])
  show ?thesis
  proof (cases "append_bits ?pad w")
    case (Pair x w1)
    show ?thesis
    proof (cases x)
      case (Inl e)
      with append_bits_cases(2) [of ?pad w e w1] Pair round False assms show ?thesis
        by (auto simp: to_bytes_def bit_length_def)
    next
      case (Inr u)
      with append_bits_cases(1) [of ?pad w u w1] Pair
      have w1: "bw_bits w1 = bw_bits w @ ?pad" "int (8 * ((bit_length w + 7) div 8)) \<le> bw_max_bits w"
        using round by (auto simp: bit_length_def)
      have full: "length (bw_bits w1) = 8 * ((bit_length w + 7) div 8)"
        using round by (simp add: w1 bit_length_def)
      have len: "length (pack_bits (bw_bits w1)) = (bit_length w + 7) div 8"
        by (simp add: pack_bits_length full)
      have "holds (pack_bits (bw_bits w1)) 0 (bw_bits w1)"
        unfolding holds_def using full len by (auto simp: bit_at_pack intro!: nth_equalityI)
      then have "holds (pack_bits (bw_bits w1)) 0 (bw_bits w)" by (simp add: w1(1) holds_append)
      with Pair Inr False assms len w1(2) show ?thesis by (auto simp: to_bytes_def)
    qed
  qed
qed

text \<open>
  C35. Bit streams round trip (\<open>BitWriter\<close> and \<open>BitReader\<close> of \<open>bitstream.py\<close>). Any sequence of sgn_bit
  and unsigned fields that a new writer has taken is read back by the reader, value by value and
  negative numbers included, from the bytes it renders, which stay within the limit; a refusal is a
  \<open>ValueError\<close>. The writer may take fields that it then cannot render: rendering fails exactly when
  the padding to whole bytes exceeds a limit that is no multiple of 8.
\<close>

theorem bit_stream_roundtrip:
  "case new_writer m of
     Inl e \<Rightarrow> m < 1
   | Inr w0 \<Rightarrow>
       (case write_fields fs w0 of
          (Inl e, w) \<Rightarrow> \<exists>s. e = ValueError s
        | (Inr _, w) \<Rightarrow>
            (case to_bytes w of
               (Inl e, w') \<Rightarrow> (\<exists>s. e = ValueError s) \<and> int (bit_length w) \<le> m \<and> m < int (8 * ((bit_length w + 7) div 8))
             | (Inr data, w') \<Rightarrow>
                 int (8 * length data) \<le> m \<and> length data = (bit_length w + 7) div 8 \<and>
                 read_fields fs (new_reader data) =
                   (Inr (map (\<lambda>(sgn_bit, v, bits). v) fs), \<lparr>br_data = data, br_position = bit_length w\<rparr>)))"
proof (cases "new_writer m")
  case (Inl e)
  then show ?thesis by (simp add: new_writer_def split: if_splits)
next
  case (Inr w0)
  then have w0: "bw_max_bits w0 = m" "bw_bits w0 = []" "1 \<le> m" by (auto simp: new_writer_def split: if_splits)
  obtain x w where W: "write_fields fs w0 = (x, w)" by (cases "write_fields fs w0")
  show ?thesis
  proof (cases x)
    case (Inl e)
    with W write_fields_error [of fs w0 e w] Inr show ?thesis by simp
  next
    case (Inr u)
    note ok = write_fields_ok [OF W [unfolded Inr]]
    have fits: "int (bit_length w) \<le> m" "bw_max_bits w = m" "bw_bits w = concat (map field_bits fs)"
      using ok w0 by (simp_all add: bit_length_def)
    obtain res w' where T: "to_bytes w = (res, w')" by (cases "to_bytes w")
    note tb = to_bytes_cases [OF T]
    show ?thesis
    proof (cases res)
      case e: (Inl e)
      with tb fits \<open>new_writer m = Inr w0\<close> W Inr T show ?thesis by simp
    next
      case data: (Inr data)
      have "read_fields fs \<lparr>br_data = data, br_position = 0\<rparr> =
          (Inr (map (\<lambda>(sgn_bit, v, bits). v) fs), \<lparr>br_data = data, br_position = bit_length w\<rparr>)"
        using read_fields_held [of data 0 fs] tb ok w0 fits by (simp add: data bit_length_def)
      with tb fits \<open>new_writer m = Inr w0\<close> W Inr T data show ?thesis by (simp add: new_reader_def)
    qed
  qed
qed

end
