(* ===== verification/Gen_Models.thy ===== *)
theory Gen_Models
  imports Py_Convert
begin

text \<open>
  The domain contracts of correction generation (\<open>rtcm_generation/models.py\<close>), the registry of message
  families (\<open>registry.py\<close>), provenance (\<open>provenance.py\<close>) and the handoff artifact (\<open>handoff.py\<close>).
\<close>

section \<open>Enumerations\<close>

definition GEN_SCHEMA_VERSION :: string where "GEN_SCHEMA_VERSION = ''1.0''"
definition ENCODER_VERSION :: string where "ENCODER_VERSION = ''synthetic-test-1.0''"

datatype generation_mode = GM_SINGLE_BASE | GM_VRS | GM_NO_CORRECTION

fun generation_mode_str :: "generation_mode \<Rightarrow> string" where
  "generation_mode_str GM_SINGLE_BASE = ''SINGLE_BASE''"
| "generation_mode_str GM_VRS = ''VRS''"
| "generation_mode_str GM_NO_CORRECTION = ''NO_CORRECTION''"

datatype generation_status = GS_ACCEPTED | GS_BLOCKED | GS_NO_CORRECTION | GS_ENCODED

fun generation_status_str :: "generation_status \<Rightarrow> string" where
  "generation_status_str GS_ACCEPTED = ''ACCEPTED''"
| "generation_status_str GS_BLOCKED = ''BLOCKED''"
| "generation_status_str GS_NO_CORRECTION = ''NO_CORRECTION''"
| "generation_status_str GS_ENCODED = ''ENCODED''"

datatype output_class = OC_SYNTHETIC_TEST_ONLY | OC_DIAGNOSTIC_ONLY | OC_RESEARCH_VALIDATION | OC_OPERATIONAL_APPROVED

fun output_class_str :: "output_class \<Rightarrow> string" where
  "output_class_str OC_SYNTHETIC_TEST_ONLY = ''SYNTHETIC_TEST_ONLY''"
| "output_class_str OC_DIAGNOSTIC_ONLY = ''DIAGNOSTIC_ONLY''"
| "output_class_str OC_RESEARCH_VALIDATION = ''RESEARCH_VALIDATION''"
| "output_class_str OC_OPERATIONAL_APPROVED = ''OPERATIONAL_APPROVED''"

datatype generation_reason =
    GR_NO_CORRECTION_REQUESTED | GR_INPUT_SOURCE_UNAVAILABLE | GR_AUTHENTIC_INPUT_SOURCE_UNAVAILABLE
  | GR_INPUT_SOURCE_UNVERIFIED | GR_STATION_IDENTITY_UNVERIFIED | GR_COORDINATE_UNVERIFIED
  | GR_GNSS_EPOCH_UNAVAILABLE | GR_CORRECTION_MODEL_NOT_APPROVED | GR_VRS_OPERATIONAL_NOT_APPROVED
  | GR_ENCODER_NOT_VALIDATED | GR_UNSUPPORTED_MESSAGE_TYPE | GR_OUT_OF_RANGE_FIELD
  | GR_MISSING_REQUIRED_FIELD | GR_PROVENANCE_INCOMPLETE | GR_DECISION_NOT_ADMISSIBLE
  | GR_OPERATIONAL_CLASSIFICATION_FORBIDDEN

fun generation_reason_str :: "generation_reason \<Rightarrow> string" where
  "generation_reason_str GR_NO_CORRECTION_REQUESTED = ''NO_CORRECTION_REQUESTED''"
| "generation_reason_str GR_INPUT_SOURCE_UNAVAILABLE = ''INPUT_SOURCE_UNAVAILABLE''"
| "generation_reason_str GR_AUTHENTIC_INPUT_SOURCE_UNAVAILABLE = ''AUTHENTIC_INPUT_SOURCE_UNAVAILABLE''"
| "generation_reason_str GR_INPUT_SOURCE_UNVERIFIED = ''INPUT_SOURCE_UNVERIFIED''"
| "generation_reason_str GR_STATION_IDENTITY_UNVERIFIED = ''STATION_IDENTITY_UNVERIFIED''"
| "generation_reason_str GR_COORDINATE_UNVERIFIED = ''COORDINATE_UNVERIFIED''"
| "generation_reason_str GR_GNSS_EPOCH_UNAVAILABLE = ''GNSS_EPOCH_UNAVAILABLE''"
| "generation_reason_str GR_CORRECTION_MODEL_NOT_APPROVED = ''CORRECTION_MODEL_NOT_APPROVED''"
| "generation_reason_str GR_VRS_OPERATIONAL_NOT_APPROVED = ''VRS_OPERATIONAL_NOT_APPROVED''"
| "generation_reason_str GR_ENCODER_NOT_VALIDATED = ''ENCODER_NOT_VALIDATED''"
| "generation_reason_str GR_UNSUPPORTED_MESSAGE_TYPE = ''UNSUPPORTED_MESSAGE_TYPE''"
| "generation_reason_str GR_OUT_OF_RANGE_FIELD = ''OUT_OF_RANGE_FIELD''"
| "generation_reason_str GR_MISSING_REQUIRED_FIELD = ''MISSING_REQUIRED_FIELD''"
| "generation_reason_str GR_PROVENANCE_INCOMPLETE = ''PROVENANCE_INCOMPLETE''"
| "generation_reason_str GR_DECISION_NOT_ADMISSIBLE = ''DECISION_NOT_ADMISSIBLE''"
| "generation_reason_str GR_OPERATIONAL_CLASSIFICATION_FORBIDDEN = ''OPERATIONAL_CLASSIFICATION_FORBIDDEN''"

datatype verification_state = VS_VERIFIED | VS_SYNTHETIC_TEST_ONLY | VS_UNVERIFIED

fun verification_state_str :: "verification_state \<Rightarrow> string" where
  "verification_state_str VS_VERIFIED = ''VERIFIED''"
| "verification_state_str VS_SYNTHETIC_TEST_ONLY = ''SYNTHETIC_TEST_ONLY''"
| "verification_state_str VS_UNVERIFIED = ''UNVERIFIED''"

section \<open>Requests\<close>

record coordinate_provenance =
  cp_station_id :: string
  cp_ecef_xyz_m :: "pyfloat list"
  cp_reference_frame :: string
  cp_coordinate_epoch :: string
  cp_source :: string
  cp_fingerprint :: string
  cp_verification_state :: verification_state

definition finite_float :: "pyfloat \<Rightarrow> bool" where
  "finite_float x = (case x of PFin q \<Rightarrow> True | _ \<Rightarrow> False)"

definition coordinate_validate :: "coordinate_provenance \<Rightarrow> string list" where
  "coordinate_validate c =
     (if cp_station_id c = [] then [''station_id is required''] else []) @
     (if length (cp_ecef_xyz_m c) \<noteq> 3 \<or> \<not> list_all finite_float (cp_ecef_xyz_m c)
      then [''ecef_xyz_m must contain three finite values''] else []) @
     (if cp_reference_frame c = [] then [''reference_frame is required''] else []) @
     (if cp_coordinate_epoch c = [] then [''coordinate_epoch is required''] else []) @
     (if cp_source c = [] \<or> cp_fingerprint c = [] then [''coordinate source and fingerprint are required''] else [])"

definition coordinate_as_dict :: "coordinate_provenance \<Rightarrow> (string \<times> json) list" where
  "coordinate_as_dict c =
     [(''station_id'', JStr (cp_station_id c)), (''ecef_xyz_m'', JArr (map JFloat (cp_ecef_xyz_m c))),
      (''reference_frame'', JStr (cp_reference_frame c)), (''coordinate_epoch'', JStr (cp_coordinate_epoch c)),
      (''source'', JStr (cp_source c)), (''fingerprint'', JStr (cp_fingerprint c)),
      (''verification_state'', JStr (verification_state_str (cp_verification_state c)))]"

record epoch_contract =
  ep_gnss_epoch :: "string option"
  ep_source_arrival_time :: "string option"
  ep_generation_time :: "string option"
  ep_transmission_time :: "string option"

definition epoch_as_dict :: "epoch_contract \<Rightarrow> (string \<times> json) list" where
  "epoch_as_dict e =
     [(''gnss_epoch'', opt_json JStr (ep_gnss_epoch e)),
      (''source_arrival_time'', opt_json JStr (ep_source_arrival_time e)),
      (''generation_time'', opt_json JStr (ep_generation_time e)),
      (''transmission_time'', opt_json JStr (ep_transmission_time e))]"

record generation_request =
  gq_request_id :: string
  gq_decision_id :: string
  gq_decision_fingerprint :: string
  gq_decision_status :: string
  gq_mode :: generation_mode
  gq_reference_station_id :: "string option"
  gq_virtual_station_id :: "string option"
  gq_coordinate :: "coordinate_provenance option"
  gq_epoch :: epoch_contract
  gq_gnss_systems :: "string list"
  gq_input_source_fingerprint :: string
  gq_input_source_admitted :: bool
  gq_station_identity_verified :: bool
  gq_coordinate_verified :: bool
  gq_correction_model_fingerprint :: "string option"
  gq_correction_model_approved :: bool
  gq_output_message_family :: string
  gq_encoder_version :: string
  gq_scientific_status :: string
  gq_classification :: output_class
  gq_synthetic_fixture :: bool

definition generation_request_as_dict :: "generation_request \<Rightarrow> (string \<times> json) list" where
  "generation_request_as_dict r =
     [(''request_id'', JStr (gq_request_id r)), (''decision_id'', JStr (gq_decision_id r)),
      (''decision_fingerprint'', JStr (gq_decision_fingerprint r)),
      (''decision_status'', JStr (gq_decision_status r)), (''mode'', JStr (generation_mode_str (gq_mode r))),
      (''reference_station_id'', opt_json JStr (gq_reference_station_id r)),
      (''virtual_station_id'', opt_json JStr (gq_virtual_station_id r)),
      (''coordinate'', opt_json (\<lambda>c. JObj (coordinate_as_dict c)) (gq_coordinate r)),
      (''epoch'', JObj (epoch_as_dict (gq_epoch r))),
      (''gnss_systems'', JArr (map JStr (gq_gnss_systems r))),
      (''input_source_fingerprint'', JStr (gq_input_source_fingerprint r)),
      (''input_source_admitted'', JBool (gq_input_source_admitted r)),
      (''station_identity_verified'', JBool (gq_station_identity_verified r)),
      (''coordinate_verified'', JBool (gq_coordinate_verified r)),
      (''correction_model_fingerprint'', opt_json JStr (gq_correction_model_fingerprint r)),
      (''correction_model_approved'', JBool (gq_correction_model_approved r)),
      (''output_message_family'', JStr (gq_output_message_family r)),
      (''encoder_version'', JStr (gq_encoder_version r)),
      (''scientific_status'', JStr (gq_scientific_status r)),
      (''classification'', JStr (output_class_str (gq_classification r))),
      (''synthetic_fixture'', JBool (gq_synthetic_fixture r))]"

text \<open>The fields and observations of a context are what the encoder serializes: JSON values.\<close>

record generation_context =
  gx_request :: generation_request
  gx_fields :: "(string \<times> json) list"
  gx_observations :: "(string \<times> json) list list"

definition context_as_dict :: "generation_context \<Rightarrow> (string \<times> json) list" where
  "context_as_dict x =
     [(''request'', JObj (generation_request_as_dict (gx_request x))), (''fields'', JObj (gx_fields x)),
      (''observations'', JArr (map JObj (gx_observations x)))]"

section \<open>Results\<close>

record generated_frame =
  gf_message_family :: string
  gf_message_number :: int
  gf_payload_length :: nat
  gf_frame_length :: nat
  gf_crc_hex :: string
  gf_frame_sha256 :: string
  gf_raw_bytes :: bytes
  gf_request_fingerprint :: string
  gf_encoder_version :: string
  gf_input_status :: string
  gf_classification :: output_class
  gf_scientific_status :: string

definition generated_frame_as_dict :: "generated_frame \<Rightarrow> (string \<times> json) list" where
  "generated_frame_as_dict f =
     [(''message_family'', JStr (gf_message_family f)), (''message_number'', JInt (gf_message_number f)),
      (''payload_length'', JInt (int (gf_payload_length f))), (''frame_length'', JInt (int (gf_frame_length f))),
      (''crc_hex'', JStr (gf_crc_hex f)), (''frame_sha256'', JStr (gf_frame_sha256 f)),
      (''raw_bytes'', JStr (bytes_hex (gf_raw_bytes f))),
      (''request_fingerprint'', JStr (gf_request_fingerprint f)),
      (''encoder_version'', JStr (gf_encoder_version f)), (''input_status'', JStr (gf_input_status f)),
      (''classification'', JStr (output_class_str (gf_classification f))),
      (''scientific_status'', JStr (gf_scientific_status f))]"

record generation_result =
  gr_request_id :: string
  gr_decision_id :: string
  gr_status :: generation_status
  gr_reason_codes :: "generation_reason list"
  gr_frames :: "generated_frame list"
  gr_classification :: output_class
  gr_provenance :: "(string \<times> json) list"
  gr_mode :: generation_mode
  gr_reference_station_id :: "string option"
  gr_virtual_station_id :: "string option"

definition generation_result_as_dict :: "generation_result \<Rightarrow> (string \<times> json) list" where
  "generation_result_as_dict r =
     [(''request_id'', JStr (gr_request_id r)), (''decision_id'', JStr (gr_decision_id r)),
      (''status'', JStr (generation_status_str (gr_status r))),
      (''reason_codes'', JArr (map (\<lambda>c. JStr (generation_reason_str c)) (gr_reason_codes r))),
      (''frames'', JArr (map (\<lambda>f. JObj (generated_frame_as_dict f)) (gr_frames r))),
      (''classification'', JStr (output_class_str (gr_classification r))),
      (''provenance'', JObj (gr_provenance r)), (''mode'', JStr (generation_mode_str (gr_mode r))),
      (''reference_station_id'', opt_json JStr (gr_reference_station_id r)),
      (''virtual_station_id'', opt_json JStr (gr_virtual_station_id r))]"

section \<open>Message families\<close>

datatype family_status =
    FS_DECLARED | FS_SCAFFOLDED | FS_SYNTHETICALLY_VALIDATED | FS_REAL_INPUT_VALIDATED
  | FS_OPERATIONALLY_APPROVED | FS_BLOCKED

fun family_status_str :: "family_status \<Rightarrow> string" where
  "family_status_str FS_DECLARED = ''DECLARED''"
| "family_status_str FS_SCAFFOLDED = ''SCAFFOLDED''"
| "family_status_str FS_SYNTHETICALLY_VALIDATED = ''SYNTHETICALLY_VALIDATED''"
| "family_status_str FS_REAL_INPUT_VALIDATED = ''REAL_INPUT_VALIDATED''"
| "family_status_str FS_OPERATIONALLY_APPROVED = ''OPERATIONALLY_APPROVED''"
| "family_status_str FS_BLOCKED = ''BLOCKED''"

record message_family =
  mf_family_id :: string
  mf_message_numbers :: "int list"
  mf_description :: string
  mf_status :: family_status
  mf_definition_provenance :: string
  mf_encoder_key :: "string option"

text \<open>The dash of the last text, the one character outside Latin-1, is written as its UTF-8 bytes.\<close>

definition DEFAULT_MESSAGE_FAMILIES :: "message_family list" where
  "DEFAULT_MESSAGE_FAMILIES =
     [\<lparr>mf_family_id = ''REFERENCE_STATION_1005'', mf_message_numbers = [1005],
       mf_description = ''Reference-station ECEF metadata scaffold; semantic layout not implemented.'',
       mf_status = FS_SCAFFOLDED,
       mf_definition_provenance = ''RTKLIB/IGS references recorded in the technical baseline; licensed RTCM text not copied.'',
       mf_encoder_key = None\<rparr>,
      \<lparr>mf_family_id = ''MSM4_GPS_1074'', mf_message_numbers = [1074],
       mf_description = ''GPS MSM4 observation-generation boundary; authentic observation semantics required.'',
       mf_status = FS_SCAFFOLDED,
       mf_definition_provenance = ''RTCM/RTKLIB compatibility boundary only; no production encoder in this sprint.'',
       mf_encoder_key = None\<rparr>,
      \<lparr>mf_family_id = ''MSM4_GLONASS_1084'', mf_message_numbers = [1084],
       mf_description = ''GLONASS MSM4 observation-generation boundary; authentic observation semantics required.'',
       mf_status = FS_SCAFFOLDED,
       mf_definition_provenance = ''RTCM/RTKLIB compatibility boundary only; no production encoder in this sprint.'',
       mf_encoder_key = None\<rparr>,
      \<lparr>mf_family_id = ''SYNTHETIC_TEST_FRAME'', mf_message_numbers = [4095],
       mf_description = ''NLGCP lab-only deterministic test payload; not a navigable RTCM message.'',
       mf_status = FS_SYNTHETICALLY_VALIDATED,
       mf_definition_provenance = ''NLGCP reference implementation; SYNTHETIC TEST DATA '' @
         [CHR 0xE2, CHR 0x80, CHR 0x94] @ '' NOT VALID FOR SCIENTIFIC RESULTS.'',
       mf_encoder_key = Some ''synthetic-test''\<rparr>]"

text \<open>The registry is the dictionary of families by identifier; an empty tuple means the default.\<close>

type_synonym family_registry = "(string \<times> message_family) list"

definition new_registry :: "message_family list option \<Rightarrow> family_registry" where
  "new_registry families =
     foldl (\<lambda>d f. obj_set d (mf_family_id f) f) []
       (case families of None \<Rightarrow> DEFAULT_MESSAGE_FAMILIES
        | Some fs \<Rightarrow> if fs = [] then DEFAULT_MESSAGE_FAMILIES else fs)"

definition registry_get :: "family_registry \<Rightarrow> string \<Rightarrow> message_family option" where
  "registry_get reg family_id = map_of reg family_id"

definition registry_require :: "family_registry \<Rightarrow> string \<Rightarrow> message_family result" where
  "registry_require reg family_id =
     (case registry_get reg family_id of
        None \<Rightarrow> Inl (KeyError (repr_str (''unsupported message family: '' @ family_id)))
      | Some f \<Rightarrow> Inr f)"

definition registry_as_dict :: "family_registry \<Rightarrow> (string \<times> json) list list" where
  "registry_as_dict reg =
     map (\<lambda>(_, f).
       [(''family_id'', JStr (mf_family_id f)), (''message_numbers'', JArr (map JInt (mf_message_numbers f))),
        (''description'', JStr (mf_description f)), (''status'', JStr (family_status_str (mf_status f))),
        (''definition_provenance'', JStr (mf_definition_provenance f)),
        (''encoder_key'', opt_json JStr (mf_encoder_key f))]) reg"

section \<open>Provenance and handoff\<close>

definition request_fingerprint :: "(bytes \<Rightarrow> string) \<Rightarrow> generation_request \<Rightarrow> string" where
  "request_fingerprint sha r = json_digest sha (JObj (generation_request_as_dict r))"

definition generation_provenance ::
  "(bytes \<Rightarrow> string) \<Rightarrow> generation_request \<Rightarrow> string \<Rightarrow> string \<Rightarrow> (string \<times> json) list"
where
  "generation_provenance sha r registry_version encoder_version =
     [(''schema_version'', JStr ''1.0''), (''request_fingerprint'', JStr (request_fingerprint sha r)),
      (''decision_id'', JStr (gq_decision_id r)), (''decision_fingerprint'', JStr (gq_decision_fingerprint r)),
      (''input_source_fingerprint'', JStr (gq_input_source_fingerprint r)),
      (''correction_model_fingerprint'', opt_json JStr (gq_correction_model_fingerprint r)),
      (''registry_version'', JStr registry_version), (''encoder_version'', JStr encoder_version),
      (''classification'', JStr (output_class_str (gq_classification r)))]"

record stream_artifact =
  sa_schema_version :: string
  sa_stream_id :: string
  sa_decision_id :: string
  sa_mode :: string
  sa_station_id :: "string option"
  sa_virtual_station_id :: "string option"
  sa_message_families :: "string list"
  sa_generation_status :: string
  sa_frame_source :: string
  sa_validity_start :: "string option"
  sa_validity_end :: "string option"
  sa_classification :: string
  sa_provenance_fingerprint :: string

definition artifact_as_dict :: "stream_artifact \<Rightarrow> (string \<times> json) list" where
  "artifact_as_dict a =
     [(''schema_version'', JStr (sa_schema_version a)), (''stream_id'', JStr (sa_stream_id a)),
      (''decision_id'', JStr (sa_decision_id a)), (''mode'', JStr (sa_mode a)),
      (''station_id'', opt_json JStr (sa_station_id a)),
      (''virtual_station_id'', opt_json JStr (sa_virtual_station_id a)),
      (''message_families'', JArr (map JStr (sa_message_families a))),
      (''generation_status'', JStr (sa_generation_status a)), (''frame_source'', JStr (sa_frame_source a)),
      (''validity_start'', opt_json JStr (sa_validity_start a)),
      (''validity_end'', opt_json JStr (sa_validity_end a)), (''classification'', JStr (sa_classification a)),
      (''provenance_fingerprint'', JStr (sa_provenance_fingerprint a))]"

text \<open>A registry holds the last family of each identifier.\<close>

lemma map_of_registry:
  "map_of (foldl (\<lambda>d f. obj_set d (mf_family_id f) f) d fs) k =
     (case find (\<lambda>f. mf_family_id f = k) (rev fs) of None \<Rightarrow> map_of d k | Some f \<Rightarrow> Some f)"
proof (induction fs arbitrary: d rule: rev_induct)
  case (snoc f fs)
  then show ?case by (simp add: map_of_obj_set)
qed simp

lemma registry_get_id: "registry_get (new_registry families) k = Some f \<Longrightarrow> mf_family_id f = k"
  by (auto simp: registry_get_def new_registry_def map_of_registry find_Some_iff split: option.splits)

text \<open>The only family of the default registry with an encoder is the synthetic one.\<close>

lemma default_encoder_key:
  "registry_get (new_registry None) k = Some f \<Longrightarrow> mf_encoder_key f \<noteq> None \<Longrightarrow> k = ''SYNTHETIC_TEST_FRAME''"
  by (auto simp: registry_get_def new_registry_def DEFAULT_MESSAGE_FAMILIES_def split: if_splits)

end
