(* ===== verification/Gen_Engine.thy ===== *)
theory Gen_Engine
  imports Gen_Bits Gen_Models Rtcm_Encode
begin

text \<open>
  Correction generation (\<open>rtcm_generation\<close>): the admission gates (\<open>admission.py\<close>), the framing adapter
  (\<open>framing.py\<close>), the encoders (\<open>encoder.py\<close>), the generator with its handoff (\<open>generator.py\<close>), the
  validation of generated frames (\<open>validation.py\<close>) and the local lab adapter (\<open>lab.py\<close>).
\<close>

section \<open>Admission\<close>

record generation_admission =
  ga_admissible :: bool
  ga_status :: string
  ga_reason_codes :: "generation_reason list"

text \<open>\<open>tuple(dict.fromkeys(xs))\<close>: the first occurrences.\<close>

definition from_keys :: "'a list \<Rightarrow> 'a list" where
  "from_keys xs = rev (remdups (rev xs))"

definition identity_gates :: "generation_request \<Rightarrow> generation_reason list" where
  "identity_gates r =
     (if gq_request_id r = [] \<or> gq_decision_id r = [] \<or> gq_decision_fingerprint r = []
      then [GR_PROVENANCE_INCOMPLETE, GR_MISSING_REQUIRED_FIELD] else []) @
     (if gq_decision_status r \<notin> set [''OK'', ''PASS'', ''ADMISSIBLE''] then [GR_DECISION_NOT_ADMISSIBLE] else [])"

definition input_gates :: "generation_request \<Rightarrow> generation_reason list" where
  "input_gates r =
     (if gq_input_source_fingerprint r = [] then [GR_INPUT_SOURCE_UNAVAILABLE] else []) @
     (if \<not> gq_input_source_admitted r
      then GR_INPUT_SOURCE_UNVERIFIED #
        (if gq_mode r = GM_SINGLE_BASE then [GR_AUTHENTIC_INPUT_SOURCE_UNAVAILABLE] else [])
      else []) @
     (if \<not> gq_station_identity_verified r then [GR_STATION_IDENTITY_UNVERIFIED] else []) @
     (case gq_coordinate r of
        None \<Rightarrow> [GR_COORDINATE_UNVERIFIED]
      | Some c \<Rightarrow>
          if \<not> gq_coordinate_verified r then [GR_COORDINATE_UNVERIFIED]
          else if coordinate_validate c \<noteq> [] then [GR_COORDINATE_UNVERIFIED, GR_MISSING_REQUIRED_FIELD]
          else []) @
     (if ep_gnss_epoch (gq_epoch r) = None then [GR_GNSS_EPOCH_UNAVAILABLE] else []) @
     (if gq_gnss_systems r = [] \<or> gq_output_message_family r = [] \<or> gq_encoder_version r = []
      then [GR_MISSING_REQUIRED_FIELD] else [])"

definition model_gates :: "generation_request \<Rightarrow> generation_reason list" where
  "model_gates r =
     (if gq_mode r = GM_VRS then [GR_VRS_OPERATIONAL_NOT_APPROVED, GR_CORRECTION_MODEL_NOT_APPROVED]
      else if \<not> gq_correction_model_approved r then [GR_CORRECTION_MODEL_NOT_APPROVED]
      else if str_or (gq_correction_model_fingerprint r) [] = [] then [GR_PROVENANCE_INCOMPLETE]
      else []) @
     (if gq_classification r = OC_OPERATIONAL_APPROVED then [GR_OPERATIONAL_CLASSIFICATION_FORBIDDEN] else [])"

definition family_gates :: "family_registry \<Rightarrow> generation_request \<Rightarrow> generation_reason list" where
  "family_gates reg r =
     (case registry_get reg (gq_output_message_family r) of
        None \<Rightarrow> [GR_UNSUPPORTED_MESSAGE_TYPE]
      | Some f \<Rightarrow>
          if mf_encoder_key f = None then [GR_UNSUPPORTED_MESSAGE_TYPE]
          else if gq_output_message_family r = ''SYNTHETIC_TEST_FRAME'' \<and> \<not> gq_synthetic_fixture r
          then [GR_ENCODER_NOT_VALIDATED] else [])"

definition admit_request :: "family_registry option \<Rightarrow> generation_request \<Rightarrow> generation_admission" where
  "admit_request reg r =
     (if gq_mode r = GM_NO_CORRECTION then
        \<lparr>ga_admissible = False, ga_status = ''NO_CORRECTION'', ga_reason_codes = [GR_NO_CORRECTION_REQUESTED]\<rparr>
      else
        let registry = (case reg of None \<Rightarrow> new_registry None | Some g \<Rightarrow> g);
            reasons = identity_gates r @ input_gates r @ model_gates r @ family_gates registry r
        in if reasons \<noteq> [] then
             \<lparr>ga_admissible = False, ga_status = ''BLOCKED'', ga_reason_codes = from_keys reasons\<rparr>
           else \<lparr>ga_admissible = True, ga_status = ''ADMITTED'', ga_reason_codes = []\<rparr>)"

section \<open>Framing\<close>

text \<open>\<open>frame_payload\<close> is \<open>encode_frame\<close> of the replay package.\<close>

record frame_meta =
  fm_payload_length :: nat
  fm_frame_length :: nat
  fm_crc :: int
  fm_crc_hex :: string
  fm_frame_sha256 :: string

definition frame_metadata :: "(bytes \<Rightarrow> string) \<Rightarrow> bytes \<Rightarrow> frame_meta result" where
  "frame_metadata sha frame =
     (if length frame < 6 \<or> frame ! 0 \<noteq> 0xD3 then Inl (ValueError ''not an RTCM 3.x frame'')
      else
        let payload_length = frame_len (frame ! 1) (frame ! 2) in
        if length frame \<noteq> payload_length + 6 then Inl (ValueError ''frame length does not match header'')
        else
          let n = length frame; crc = crc_of_bytes (frame ! (n - 3)) (frame ! (n - 2)) (frame ! (n - 1))
          in Inr \<lparr>fm_payload_length = payload_length, fm_frame_length = n, fm_crc = crc,
                  fm_crc_hex = hex6 (nat crc), fm_frame_sha256 = sha frame\<rparr>)"

definition validate_with_phase9 ::
  "(bytes \<Rightarrow> string) \<Rightarrow> bytes \<Rightarrow> int \<Rightarrow> bool \<times> frame_finding list"
where
  "validate_with_phase9 sha frame message_number =
     (let parsed = parse_stream sha (int MAX_RTCM_LENGTH) 100000 frame in
      case pr_frames parsed of
        [p] \<Rightarrow> (fr_crc_status (pf_record p) = CRC_PASS \<and>
                 map_option int (fr_message_number (pf_record p)) = Some message_number, pr_findings parsed)
      | _ \<Rightarrow> (False, pr_findings parsed))"

definition crc_for_frame :: "bytes \<Rightarrow> int result" where
  "crc_for_frame frame =
     (if length frame < 3 then Inl (ValueError ''frame too short'')
      else Inr (crc24q (take (length frame - 3) frame)))"

section \<open>Encoders\<close>

text \<open>
  The canonical JSON of the synthetic payload: its members sorted by name. The dash of the label is no
  Latin-1 character; its text in \<open>json.dumps\<close> is the escape written out here.
\<close>

definition label_json :: string where
  "label_json = [CHR 0x22] @ ''SYNTHETIC TEST DATA '' @ [CHR 0x5C] @ ''u2014 NOT VALID FOR SCIENTIFIC RESULTS'' @ [CHR 0x22]"

definition synthetic_content :: "generation_context \<Rightarrow> string" where
  "synthetic_content x =
     (let r = gx_request x in
      ''{'' @ str_join '','' (map (\<lambda>(k, v). json_text k @ '':'' @ v)
        [(''decision_id'', json_dumps (JStr (gq_decision_id r))),
         (''epoch'', json_dumps (opt_json JStr (ep_gnss_epoch (gq_epoch r)))),
         (''fields'', json_dumps (JObj (gx_fields x))),
         (''label'', label_json),
         (''mode'', json_dumps (JStr (generation_mode_str (gq_mode r)))),
         (''observations'', json_dumps (JArr (map JObj (gx_observations x)))),
         (''request_id'', json_dumps (JStr (gq_request_id r)))]) @ ''}'')"

definition synthetic_suffix :: "generation_context \<Rightarrow> bytes" where
  "synthetic_suffix x = encode_text (''NLGCP-SYN1'' @ [CHR 0x00]) @ encode_text (synthetic_content x)"

definition synthetic_frame :: "(bytes \<Rightarrow> string) \<Rightarrow> generation_request \<Rightarrow> bytes \<Rightarrow> frame_meta \<Rightarrow> generated_frame" where
  "synthetic_frame sha r frame md =
     \<lparr>gf_message_family = ''SYNTHETIC_TEST_FRAME'', gf_message_number = 4095,
      gf_payload_length = fm_payload_length md, gf_frame_length = fm_frame_length md,
      gf_crc_hex = fm_crc_hex md, gf_frame_sha256 = sha frame, gf_raw_bytes = frame,
      gf_request_fingerprint = request_fingerprint sha r, gf_encoder_version = ENCODER_VERSION,
      gf_input_status = gq_scientific_status r, gf_classification = gq_classification r,
      gf_scientific_status = gq_scientific_status r\<rparr>"

definition synthetic_encode :: "(bytes \<Rightarrow> string) \<Rightarrow> generation_context \<Rightarrow> generated_frame result" where
  "synthetic_encode sha x =
     (let r = gx_request x in
      if gq_classification r \<noteq> OC_SYNTHETIC_TEST_ONLY then
        Inl (UnsupportedEncoderError ''synthetic encoder requires SYNTHETIC_TEST_ONLY'')
      else if \<not> gq_synthetic_fixture r then
        Inl (UnsupportedEncoderError ''synthetic encoder requires explicit fixture flag'')
      else
        bind_result (encode_frame 4095 (synthetic_suffix x)) (\<lambda>frame.
          bind_result (frame_metadata sha frame) (\<lambda>md. Inr (synthetic_frame sha r frame md))))"

definition scaffold_encode :: "string \<Rightarrow> generation_context \<Rightarrow> generated_frame result" where
  "scaffold_encode family_id x =
     Inl (UnsupportedEncoderError (family_id @ '' has a scaffold boundary but no validated encoder''))"

section \<open>The generator\<close>

text \<open>An encoder is the function that it computes; \<open>encoders\<close> maps a family to one.\<close>

type_synonym message_encoder = "generation_context \<Rightarrow> generated_frame result"

record correction_generator =
  cg_registry :: family_registry
  cg_encoders :: "(string \<times> message_encoder) list"

definition new_generator ::
  "(bytes \<Rightarrow> string) \<Rightarrow> family_registry option \<Rightarrow> (string \<times> message_encoder) list option \<Rightarrow> correction_generator"
where
  "new_generator sha reg encoders =
     \<lparr>cg_registry = (case reg of None \<Rightarrow> new_registry None | Some g \<Rightarrow> g),
      cg_encoders = (case encoders of
          None \<Rightarrow> [(''SYNTHETIC_TEST_FRAME'', synthetic_encode sha)]
        | Some es \<Rightarrow> if es = [] then [(''SYNTHETIC_TEST_FRAME'', synthetic_encode sha)] else es)\<rparr>"

text \<open>The result without frames, and the exceptions of \<open>except (ValueError, RuntimeError)\<close> by name.\<close>

definition result_of ::
  "generation_request \<Rightarrow> generation_status \<Rightarrow> generation_reason list \<Rightarrow> generated_frame list \<Rightarrow>
     (string \<times> json) list \<Rightarrow> generation_result"
where
  "result_of r status reasons frames prov =
     \<lparr>gr_request_id = gq_request_id r, gr_decision_id = gq_decision_id r, gr_status = status,
      gr_reason_codes = reasons, gr_frames = frames, gr_classification = gq_classification r,
      gr_provenance = prov, gr_mode = gq_mode r, gr_reference_station_id = gq_reference_station_id r,
      gr_virtual_station_id = gq_virtual_station_id r\<rparr>"

fun encoder_failure :: "py_error \<Rightarrow> string option" where
  "encoder_failure (ValueError m) = Some ''ValueError''"
| "encoder_failure (UnsupportedEncoderError m) = Some ''UnsupportedEncoderError''"
| "encoder_failure (AdmissionBlocked m) = Some ''AdmissionBlocked''"
| "encoder_failure (DecisionBlocked m) = Some ''DecisionBlocked''"
| "encoder_failure (ConsumerStalled m) = Some ''ConsumerStalled''"
| "encoder_failure (CaptureLimitExceeded m) = Some ''CaptureLimitExceeded''"
| "encoder_failure (ProfileError m) = Some ''ProfileError''"
| "encoder_failure (RinexParseError m) = Some ''RinexParseError''"
| "encoder_failure (DatasetError m) = Some ''DatasetError''"
| "encoder_failure (QCExecutionError m) = Some ''QCExecutionError''"
| "encoder_failure (ConversionError m) = Some ''ConversionError''"
| "encoder_failure (NetworkBlocked m) = Some ''NetworkBlocked''"
| "encoder_failure (Phase2DatasetError m) = Some ''Phase2DatasetError''"
| "encoder_failure e = None"

definition failure_reason :: "py_error \<Rightarrow> generation_reason" where
  "failure_reason e =
     (if str_contains ''fit'' (error_text e) \<or> str_contains ''range'' (error_text e)
      then GR_OUT_OF_RANGE_FIELD else GR_ENCODER_NOT_VALIDATED)"

definition encode_request ::
  "generation_request \<Rightarrow> (string \<times> json) list \<Rightarrow> generated_frame result \<Rightarrow> generation_result result"
where
  "encode_request r prov encoded =
     (case encoded of
        Inr frame \<Rightarrow> Inr (result_of r GS_ENCODED [] [frame] prov)
      | Inl e \<Rightarrow>
          (case encoder_failure e of
             None \<Rightarrow> Inl e
           | Some name \<Rightarrow>
               Inr (result_of r GS_BLOCKED [failure_reason e] []
                 (obj_set prov ''encoder_error'' (JStr name)))))"

definition generate ::
  "(bytes \<Rightarrow> string) \<Rightarrow> correction_generator \<Rightarrow> generation_request \<Rightarrow> (string \<times> json) list option \<Rightarrow>
     (string \<times> json) list list \<Rightarrow> generation_result result"
where
  "generate sha g r given_fields observations =
     (let decision = admit_request (Some (cg_registry g)) r;
          prov = generation_provenance sha r GEN_SCHEMA_VERSION (gq_encoder_version r)
      in if gq_mode r = GM_NO_CORRECTION then
           Inr (result_of r GS_NO_CORRECTION (ga_reason_codes decision) [] prov)
         else if \<not> ga_admissible decision then
           Inr (result_of r GS_BLOCKED (ga_reason_codes decision) [] prov)
         else
           case map_of (cg_encoders g) (gq_output_message_family r) of
             None \<Rightarrow> Inr (result_of r GS_BLOCKED [GR_ENCODER_NOT_VALIDATED] [] prov)
           | Some encoder \<Rightarrow>
               encode_request r prov (encoder \<lparr>gx_request = r,
                 gx_fields = (case given_fields of None \<Rightarrow> [] | Some fs \<Rightarrow> fs),
                 gx_observations = observations\<rparr>))"

definition generator_handoff :: "(bytes \<Rightarrow> string) \<Rightarrow> generation_result \<Rightarrow> stream_artifact" where
  "generator_handoff sha res =
     (let family = (case gr_frames res of [] \<Rightarrow> [] | f # _ \<Rightarrow> gf_message_family f) in
      \<lparr>sa_schema_version = GEN_SCHEMA_VERSION, sa_stream_id = ''phase11-'' @ gr_request_id res,
       sa_decision_id = gr_decision_id res, sa_mode = generation_mode_str (gr_mode res),
       sa_station_id = gr_reference_station_id res, sa_virtual_station_id = gr_virtual_station_id res,
       sa_message_families = (if family \<noteq> [] then [family] else []),
       sa_generation_status = generation_status_str (gr_status res), sa_frame_source = ''research-scaffold'',
       sa_validity_start = None, sa_validity_end = None,
       sa_classification = output_class_str (gr_classification res),
       sa_provenance_fingerprint = json_digest sha (JObj (gr_provenance res))\<rparr>)"

section \<open>Validation and the lab\<close>

record frame_validation =
  fv_framing_valid :: bool
  fv_phase9_compatible :: bool
  fv_semantic_validation :: string
  fv_findings :: "frame_finding list"

definition validate_frame :: "(bytes \<Rightarrow> string) \<Rightarrow> generated_frame \<Rightarrow> frame_validation" where
  "validate_frame sha f =
     (case validate_with_phase9 sha (gf_raw_bytes f) (gf_message_number f) of
        (ok, findings) \<Rightarrow>
          \<lparr>fv_framing_valid = ok, fv_phase9_compatible = ok,
           fv_semantic_validation = ''NOT_PERFORMED_SYNTHETIC_PAYLOAD'', fv_findings = findings\<rparr>)"

definition to_phase9_frame :: "string \<Rightarrow> string \<Rightarrow> string \<Rightarrow> generated_frame \<Rightarrow> correction_frame result" where
  "to_phase9_frame source_id station_id mountpoint f =
     (if gf_classification f \<noteq> OC_SYNTHETIC_TEST_ONLY
      then Inl (ValueError ''local lab adapter accepts synthetic frames only'')
      else Inr
        \<lparr>cf_sequence = 0, cf_cycle = 0, cf_source_id = source_id, cf_station_id = station_id,
         cf_mountpoint = mountpoint, cf_message_number = Some (nat (gf_message_number f)),
         cf_raw_bytes = gf_raw_bytes f, cf_source_timestamp = None,
         cf_replay_timestamp = ''2026-01-01T00:00:00Z'',
         cf_provenance = [(''classification'', JStr (output_class_str (gf_classification f))),
           (''frame_sha256'', JStr (gf_frame_sha256 f)),
           (''request_fingerprint'', JStr (gf_request_fingerprint f))]\<rparr>)"

end
