(* ===== verification/Gen_Properties.thy ===== *)
theory Gen_Properties
  imports Gen_Engine
begin

text \<open>
  What correction generation promises: it fails closed, and what it does generate is a transport frame
  that the replay parser accepts as it is.
\<close>

section \<open>Admission\<close>

lemma from_keys_simps [simp]: "set (from_keys xs) = set xs" "distinct (from_keys xs)" "from_keys xs = [] \<longleftrightarrow> xs = []"
  by (simp_all add: from_keys_def)

text \<open>The evidence that a request needs, gate by gate.\<close>

definition fully_admitted :: "family_registry \<Rightarrow> generation_request \<Rightarrow> bool" where
  "fully_admitted reg r \<longleftrightarrow>
     gq_mode r = GM_SINGLE_BASE \<and>
     gq_request_id r \<noteq> [] \<and> gq_decision_id r \<noteq> [] \<and> gq_decision_fingerprint r \<noteq> [] \<and>
     gq_decision_status r \<in> {''OK'', ''PASS'', ''ADMISSIBLE''} \<and>
     gq_input_source_fingerprint r \<noteq> [] \<and> gq_input_source_admitted r \<and> gq_station_identity_verified r \<and>
     gq_coordinate_verified r \<and>
     (\<exists>c. gq_coordinate r = Some c \<and> cp_station_id c \<noteq> [] \<and> length (cp_ecef_xyz_m c) = 3 \<and>
        PInf \<notin> set (cp_ecef_xyz_m c) \<and> PNegInf \<notin> set (cp_ecef_xyz_m c) \<and> PNan \<notin> set (cp_ecef_xyz_m c) \<and>
        cp_reference_frame c \<noteq> [] \<and> cp_coordinate_epoch c \<noteq> [] \<and> cp_source c \<noteq> [] \<and> cp_fingerprint c \<noteq> []) \<and>
     ep_gnss_epoch (gq_epoch r) \<noteq> None \<and> gq_gnss_systems r \<noteq> [] \<and>
     gq_output_message_family r \<noteq> [] \<and> gq_encoder_version r \<noteq> [] \<and>
     gq_correction_model_approved r \<and> gq_correction_model_fingerprint r \<notin> {None, Some []} \<and>
     gq_classification r \<noteq> OC_OPERATIONAL_APPROVED \<and>
     (\<exists>f. registry_get reg (gq_output_message_family r) = Some f \<and> mf_encoder_key f \<noteq> None) \<and>
     (gq_output_message_family r = ''SYNTHETIC_TEST_FRAME'' \<longrightarrow> gq_synthetic_fixture r)"

lemma finite_floats: "list_all finite_float xs \<longleftrightarrow> PInf \<notin> set xs \<and> PNegInf \<notin> set xs \<and> PNan \<notin> set xs"
  by (induction xs) (auto simp: finite_float_def split: pyfloat.splits)

lemma identity_gates_pass: "identity_gates r = [] \<longleftrightarrow>
    gq_request_id r \<noteq> [] \<and> gq_decision_id r \<noteq> [] \<and> gq_decision_fingerprint r \<noteq> [] \<and>
    gq_decision_status r \<in> {''OK'', ''PASS'', ''ADMISSIBLE''}"
  by (simp add: identity_gates_def)

lemma coordinate_valid: "coordinate_validate c = [] \<longleftrightarrow>
    cp_station_id c \<noteq> [] \<and> length (cp_ecef_xyz_m c) = 3 \<and>
    PInf \<notin> set (cp_ecef_xyz_m c) \<and> PNegInf \<notin> set (cp_ecef_xyz_m c) \<and> PNan \<notin> set (cp_ecef_xyz_m c) \<and>
    cp_reference_frame c \<noteq> [] \<and> cp_coordinate_epoch c \<noteq> [] \<and> cp_source c \<noteq> [] \<and> cp_fingerprint c \<noteq> []"
  by (simp add: coordinate_validate_def finite_floats)

lemma input_gates_pass: "input_gates r = [] \<longleftrightarrow>
    gq_input_source_fingerprint r \<noteq> [] \<and> gq_input_source_admitted r \<and> gq_station_identity_verified r \<and>
    gq_coordinate_verified r \<and> (\<exists>c. gq_coordinate r = Some c \<and> coordinate_validate c = []) \<and>
    ep_gnss_epoch (gq_epoch r) \<noteq> None \<and> gq_gnss_systems r \<noteq> [] \<and>
    gq_output_message_family r \<noteq> [] \<and> gq_encoder_version r \<noteq> []"
  by (auto simp: input_gates_def split: option.splits if_splits)

lemma model_gates_pass: "model_gates r = [] \<longleftrightarrow>
    gq_mode r \<noteq> GM_VRS \<and> gq_correction_model_approved r \<and>
    gq_correction_model_fingerprint r \<notin> {None, Some []} \<and> gq_classification r \<noteq> OC_OPERATIONAL_APPROVED"
  by (auto simp: model_gates_def str_or_def split: option.splits)

lemma family_gates_pass: "family_gates reg r = [] \<longleftrightarrow>
    (\<exists>f. registry_get reg (gq_output_message_family r) = Some f \<and> mf_encoder_key f \<noteq> None) \<and>
    (gq_output_message_family r = ''SYNTHETIC_TEST_FRAME'' \<longrightarrow> gq_synthetic_fixture r)"
  by (auto simp: family_gates_def split: option.splits)

lemma admissible_iff: "ga_admissible (admit_request (Some reg) r) \<longleftrightarrow> fully_admitted reg r"
proof -
  have mode: "gq_mode r \<noteq> GM_NO_CORRECTION \<and> gq_mode r \<noteq> GM_VRS \<longleftrightarrow> gq_mode r = GM_SINGLE_BASE"
    by (cases "gq_mode r") auto
  have "ga_admissible (admit_request (Some reg) r) \<longleftrightarrow>
      gq_mode r \<noteq> GM_NO_CORRECTION \<and> identity_gates r = [] \<and> input_gates r = [] \<and> model_gates r = [] \<and>
      family_gates reg r = []"
    by (simp add: admit_request_def Let_def)
  also have "\<dots> \<longleftrightarrow> fully_admitted reg r"
    unfolding identity_gates_pass input_gates_pass model_gates_pass family_gates_pass coordinate_valid
      fully_admitted_def using mode by blast
  finally show ?thesis .
qed

lemma not_admitted_reason: "\<not> ga_admissible (admit_request reg r) \<Longrightarrow> ga_reason_codes (admit_request reg r) \<noteq> []"
  by (auto simp: admit_request_def Let_def split: if_splits)

text \<open>
  C17. Correction generation fails closed (\<open>CorrectionGenerator.generate\<close>, any registry and encoders).
  A result has frames exactly when its status is \<open>ENCODED\<close>, and then the request is for a single base,
  every gate of the admission holds with its evidence, and an encoder is there for its family; VRS and
  operational output are never generated. A result without frames says why. An exception that leaves
  the generator is none that an encoder raises by design.
\<close>

theorem generation_fails_closed:
  "case generate sha g r given_fields observations of
     Inl e \<Rightarrow> encoder_failure e = None
   | Inr res \<Rightarrow>
       (gr_status res = GS_ENCODED \<longleftrightarrow> gr_frames res \<noteq> []) \<and>
       (gr_status res = GS_NO_CORRECTION \<longleftrightarrow> gq_mode r = GM_NO_CORRECTION) \<and>
       (if gr_frames res = [] then gr_reason_codes res \<noteq> []
        else fully_admitted (cg_registry g) r \<and> gq_output_message_family r \<in> fst ` set (cg_encoders g))"
proof -
  let ?d = "admit_request (Some (cg_registry g)) r"
  show ?thesis
  proof (cases "gq_mode r = GM_NO_CORRECTION")
    case True
    then show ?thesis by (simp add: generate_def Let_def result_of_def admit_request_def)
  next
    case mode: False
    show ?thesis
    proof (cases "ga_admissible ?d")
      case False
      with mode not_admitted_reason [OF False] show ?thesis by (simp add: generate_def Let_def result_of_def)
    next
      case adm: True
      show ?thesis
      proof (cases "map_of (cg_encoders g) (gq_output_message_family r)")
        case None
        with mode adm show ?thesis by (simp add: generate_def Let_def result_of_def)
      next
        case (Some encoder)
        then have "gq_output_message_family r \<in> fst ` set (cg_encoders g)"
          by (metis domI dom_map_of_conv_image_fst)
        with mode adm Some admissible_iff show ?thesis
          by (auto simp: generate_def Let_def encode_request_def result_of_def split: sum.split option.split)
      qed
    qed
  qed
qed

section \<open>Generated frames\<close>

lemma encoded_metadata:
  assumes "encode_frame m suffix = Inr raw"
  shows "\<exists>md. frame_metadata sha raw = Inr md \<and> fm_frame_length md = length raw \<and>
    fm_payload_length md + 6 = length raw \<and> fm_crc md = crc24q (take (length raw - 3) raw) \<and>
    fm_crc_hex md = hex6 (nat (fm_crc md))"
proof -
  note shape = encode_frame_shape [OF assms]
  have n: "8 \<le> length raw" using shape(1) encoded_payload_length [of m suffix] by simp
  have crc: "crc24q (take (length raw - 3) raw) =
      crc_of_bytes (raw ! (length raw - 3)) (raw ! (length raw - 2)) (raw ! (length raw - 1))"
  proof -
    have "Suc (length raw - 3) = length raw - 2" "Suc (Suc (length raw - 3)) = length raw - 1" using n by simp_all
    with shape(5) n show ?thesis
      by (simp add: raw_crc_ok_def raw_body_def raw_expected_def CRC_LENGTH_def numeral_2_eq_2)
  qed
  show ?thesis
    unfolding frame_metadata_def using shape(1-3) n crc by (simp add: Let_def PREAMBLE_def)
qed

lemma encoded_validates:
  assumes "encode_frame m suffix = Inr raw"
  shows "validate_with_phase9 sha raw m = (True, [])"
proof -
  have frame: "is_frame (int MAX_RTCM_LENGTH) raw"
    using is_frame_mono [OF encode_is_frame [OF assms]] encode_frame_shape(1) [OF assms] encode_frameD(3) [OF assms]
    by (simp add: MAX_RTCM_LENGTH_def LENGTH_BITS_def)
  have quiet: "frame_findings 0 raw [] 0 = []"
    using encode_frame_shape(5) [OF assms] by (simp add: frame_findings_def flush_stray_def)
  show ?thesis
    using encode_frameD(1,2) [OF assms]
    by (simp add: validate_with_phase9_def parse_stream_single [OF frame] quiet mk_parsed_encoded [OF assms])
qed

lemma synthetic_encode_cases:
  "case synthetic_encode sha x of
     Inl e \<Rightarrow> encoder_failure e \<noteq> None
   | Inr f \<Rightarrow> gq_classification (gx_request x) = OC_SYNTHETIC_TEST_ONLY \<and> gq_synthetic_fixture (gx_request x) \<and>
       encode_frame 4095 (synthetic_suffix x) = Inr (gf_raw_bytes f) \<and>
       (\<exists>md. frame_metadata sha (gf_raw_bytes f) = Inr md \<and>
          f = synthetic_frame sha (gx_request x) (gf_raw_bytes f) md)"
proof (cases "encode_frame 4095 (synthetic_suffix x)")
  case (Inl e)
  then have "\<exists>s. e = ValueError s" by (auto simp: encode_frame_def Let_def split: if_splits list.splits)
  with Inl show ?thesis by (auto simp: synthetic_encode_def Let_def)
next
  case (Inr raw)
  obtain md where "frame_metadata sha raw = Inr md" using encoded_metadata [OF Inr] by blast
  with Inr show ?thesis by (simp add: synthetic_encode_def Let_def synthetic_frame_def)
qed

text \<open>
  C34. What the default generator emits is a lab frame that the replay package accepts (\<open>generate\<close>,
  \<open>SyntheticMessageEncoder\<close>, \<open>validate_frame\<close>, \<open>to_phase9_frame\<close>). It never raises. Every frame comes
  from a request that is classified and flagged as synthetic; its raw bytes are the framed payload of
  message 4095 that starts with the lab's marker, the lengths and the checksum it reports are those of
  its bytes, the parser finds exactly this frame in them without a finding, and the lab adapter hands
  the bytes on unchanged.
\<close>

theorem generated_frames_transportable:
  "case generate sha (new_generator sha None None) r given_fields observations of
     Inl e \<Rightarrow> False
   | Inr res \<Rightarrow>
       list_all (\<lambda>f.
         gq_classification r = OC_SYNTHETIC_TEST_ONLY \<and> gq_synthetic_fixture r \<and>
         gf_message_number f = 4095 \<and>
         (\<exists>body. encode_frame 4095 (encode_text ''NLGCP-SYN1'' @ body) = Inr (gf_raw_bytes f)) \<and>
         gf_frame_length f = length (gf_raw_bytes f) \<and> gf_payload_length f + 6 = gf_frame_length f \<and>
         gf_crc_hex f = hex6 (nat (crc24q (take (gf_frame_length f - 3) (gf_raw_bytes f)))) \<and>
         fv_framing_valid (validate_frame sha f) \<and> fv_findings (validate_frame sha f) = [] \<and>
         (case to_phase9_frame source_id station_id mountpoint f of
            Inl e \<Rightarrow> False
          | Inr cf \<Rightarrow> cf_raw_bytes cf = gf_raw_bytes f \<and> cf_message_number cf = Some 4095))
         (gr_frames res)"
proof -
  let ?g = "new_generator sha None None"
  let ?x = "\<lparr>gx_request = r, gx_fields = (case given_fields of None \<Rightarrow> [] | Some fs \<Rightarrow> fs),
    gx_observations = observations\<rparr>"
  have enc: "cg_encoders ?g = [(''SYNTHETIC_TEST_FRAME'', synthetic_encode sha)]"
    by (simp add: new_generator_def)
  show ?thesis
  proof (cases "gq_mode r \<noteq> GM_NO_CORRECTION \<and> ga_admissible (admit_request (Some (cg_registry ?g)) r) \<and>
      gq_output_message_family r = ''SYNTHETIC_TEST_FRAME''")
    case False
    then show ?thesis by (auto simp: generate_def Let_def result_of_def enc)
  next
    case True
    then have gen: "generate sha ?g r given_fields observations =
        encode_request r (generation_provenance sha r GEN_SCHEMA_VERSION (gq_encoder_version r)) (synthetic_encode sha ?x)"
      by (simp add: generate_def Let_def enc)
    show ?thesis
    proof (cases "synthetic_encode sha ?x")
      case (Inl e)
      with synthetic_encode_cases [where sha = sha and x = ?x] show ?thesis
        by (auto simp: gen encode_request_def result_of_def split: option.split)
    next
      case (Inr f)
      then obtain md where f: "gq_classification r = OC_SYNTHETIC_TEST_ONLY" "gq_synthetic_fixture r"
          "encode_frame 4095 (synthetic_suffix ?x) = Inr (gf_raw_bytes f)"
          "frame_metadata sha (gf_raw_bytes f) = Inr md" "f = synthetic_frame sha r (gf_raw_bytes f) md"
        using synthetic_encode_cases [where sha = sha and x = ?x] by auto
      have fields_of: "gf_message_number f = 4095" "gf_frame_length f = fm_frame_length md"
          "gf_payload_length f = fm_payload_length md" "gf_crc_hex f = fm_crc_hex md"
          "gf_classification f = OC_SYNTHETIC_TEST_ONLY"
        using arg_cong [OF f(5), of gf_message_number] arg_cong [OF f(5), of gf_frame_length]
          arg_cong [OF f(5), of gf_payload_length] arg_cong [OF f(5), of gf_crc_hex]
          arg_cong [OF f(5), of gf_classification] f(1)
        by (simp_all add: synthetic_frame_def)
      have md: "fm_frame_length md = length (gf_raw_bytes f)" "fm_payload_length md + 6 = length (gf_raw_bytes f)"
          "fm_crc_hex md = hex6 (nat (crc24q (take (length (gf_raw_bytes f) - 3) (gf_raw_bytes f))))"
        using encoded_metadata [OF f(3), of sha] f(4) by auto
      have body: "\<exists>body. encode_frame 4095 (encode_text ''NLGCP-SYN1'' @ body) = Inr (gf_raw_bytes f)"
        using f(3) by (intro exI [of _ "encode_text [CHR 0x00] @ encode_text (synthetic_content ?x)"])
          (simp add: synthetic_suffix_def encode_text_def)
      show ?thesis
        using f(1,2) fields_of md body encoded_validates [OF f(3), of sha]
        by (simp add: gen encode_request_def result_of_def Inr validate_frame_def to_phase9_frame_def)
    qed
  qed
qed

text \<open>
  Content that does not fit the frame is reported as a missing encoder, not as a field out of range:
  the message of the encoder has none of the words that the generator looks for.
\<close>

lemma digits_of: "set (nat_digits 10 n) \<subseteq> digit_char ` {0..<10}"
proof (induction "10::nat" n rule: nat_digits.induct)
  case (1 n)
  show ?case
  proof (cases "n < 10")
    case True
    then show ?thesis by (auto simp: nat_digits.simps [of 10 n])
  next
    case False
    then have "n mod 10 \<in> {0..<10}" by simp
    with 1 False show ?thesis by (auto simp: nat_digits.simps [of 10 n])
  qed
qed

lemma contains_set: "str_contains t s \<Longrightarrow> set t \<subseteq> set s"
  by (auto simp: str_contains_iff)

lemma oversized_reason: "failure_reason (ValueError (''payload too long: '' @ str_nat n)) = GR_ENCODER_NOT_VALIDATED"
proof -
  have "(of_char c :: nat) < 58" if "c \<in> digit_char ` {0..<10}" for c
    using that by (auto simp: digit_char_def)
  from this [of "CHR ''f''"] this [of "CHR ''r''"]
  have "CHR ''f'' \<notin> set (''payload too long: '' @ str_nat n)" "CHR ''r'' \<notin> set (''payload too long: '' @ str_nat n)"
    using digits_of [of n] by (auto simp: str_nat_def)
  then show ?thesis using contains_set [of "''fit''"] contains_set [of "''range''"] by (auto simp: failure_reason_def)
qed

end
