(* ===== verification/Qc_Models.thy ===== *)
theory Qc_Models
  imports Py_Convert
begin

text \<open>
  The typed models of quality control (\<open>gnss_qc/models.py\<close>) and its profiles (\<open>profiles.py\<close>). The file of
  a profile set is its bytes with the value that the JSON decoder makes of them.
\<close>

section \<open>Findings\<close>

datatype classification = CL_ACCEPT | CL_WARN | CL_REJECT | CL_BLOCKED

fun classification_str :: "classification \<Rightarrow> string" where
  "classification_str CL_ACCEPT = ''ACCEPT''"
| "classification_str CL_WARN = ''WARN''"
| "classification_str CL_REJECT = ''REJECT''"
| "classification_str CL_BLOCKED = ''BLOCKED''"

datatype finding_severity = SV_PASS | SV_WARN | SV_REJECT | SV_BLOCKED

fun finding_severity_str :: "finding_severity \<Rightarrow> string" where
  "finding_severity_str SV_PASS = ''PASS''"
| "finding_severity_str SV_WARN = ''WARN''"
| "finding_severity_str SV_REJECT = ''REJECT''"
| "finding_severity_str SV_BLOCKED = ''BLOCKED''"

record finding =
  fd_finding_code :: string
  fd_severity :: finding_severity
  fd_category :: string
  fd_message :: string
  fd_station_id :: string
  fd_year :: int
  fd_day_of_year :: int
  fd_file :: string
  fd_measured_value :: json
  fd_expected_value :: json
  fd_threshold :: json
  fd_evidence :: "(string \<times> json) list"

definition finding_as_dict :: "finding \<Rightarrow> (string \<times> json) list" where
  "finding_as_dict f =
     [(''finding_code'', JStr (fd_finding_code f)), (''severity'', JStr (finding_severity_str (fd_severity f))),
      (''category'', JStr (fd_category f)), (''message'', JStr (fd_message f)),
      (''station_id'', JStr (fd_station_id f)), (''year'', JInt (fd_year f)),
      (''day_of_year'', JInt (fd_day_of_year f)), (''file'', JStr (fd_file f)),
      (''measured_value'', fd_measured_value f), (''expected_value'', fd_expected_value f),
      (''threshold'', fd_threshold f), (''evidence'', JObj (fd_evidence f))]"

definition overall_classification :: "finding list \<Rightarrow> classification" where
  "overall_classification findings =
     (let severities = fd_severity ` set findings in
      if SV_REJECT \<in> severities then CL_REJECT
      else if SV_BLOCKED \<in> severities then CL_BLOCKED
      else if SV_WARN \<in> severities then CL_WARN
      else CL_ACCEPT)"

section \<open>Headers and measurements\<close>

record rinex_header =
  rh_rinex_version :: "string option"
  rh_rinex_type :: "string option"
  rh_satellite_system :: "string option"
  rh_marker_name :: "string option"
  rh_marker_number :: "string option"
  rh_observer :: "string option"
  rh_agency :: "string option"
  rh_receiver_number :: "string option"
  rh_receiver_type :: "string option"
  rh_receiver_version :: "string option"
  rh_antenna_number :: "string option"
  rh_antenna_type :: "string option"
  rh_approximate_xyz_m :: "pyfloat list option"
  rh_antenna_delta_hen_m :: "pyfloat list option"
  rh_observation_types :: "string list"
  rh_declared_interval_seconds :: "pyfloat option"
  rh_time_of_first_observation :: "string option"
  rh_time_of_last_observation :: "string option"
  rh_time_system :: "string option"
  rh_leap_seconds :: "int option"

definition no_header :: rinex_header where
  "no_header =
     \<lparr>rh_rinex_version = None, rh_rinex_type = None, rh_satellite_system = None, rh_marker_name = None,
      rh_marker_number = None, rh_observer = None, rh_agency = None, rh_receiver_number = None,
      rh_receiver_type = None, rh_receiver_version = None, rh_antenna_number = None,
      rh_antenna_type = None, rh_approximate_xyz_m = None, rh_antenna_delta_hen_m = None,
      rh_observation_types = [], rh_declared_interval_seconds = None,
      rh_time_of_first_observation = None, rh_time_of_last_observation = None, rh_time_system = None,
      rh_leap_seconds = None\<rparr>"

definition header_as_dict :: "rinex_header \<Rightarrow> (string \<times> json) list" where
  "header_as_dict h =
     [(''rinex_version'', opt_json JStr (rh_rinex_version h)), (''rinex_type'', opt_json JStr (rh_rinex_type h)),
      (''satellite_system'', opt_json JStr (rh_satellite_system h)),
      (''marker_name'', opt_json JStr (rh_marker_name h)), (''marker_number'', opt_json JStr (rh_marker_number h)),
      (''observer'', opt_json JStr (rh_observer h)), (''agency'', opt_json JStr (rh_agency h)),
      (''receiver_number'', opt_json JStr (rh_receiver_number h)),
      (''receiver_type'', opt_json JStr (rh_receiver_type h)),
      (''receiver_version'', opt_json JStr (rh_receiver_version h)),
      (''antenna_number'', opt_json JStr (rh_antenna_number h)),
      (''antenna_type'', opt_json JStr (rh_antenna_type h)),
      (''approximate_xyz_m'', opt_json (\<lambda>xs. JArr (map JFloat xs)) (rh_approximate_xyz_m h)),
      (''antenna_delta_hen_m'', opt_json (\<lambda>xs. JArr (map JFloat xs)) (rh_antenna_delta_hen_m h)),
      (''observation_types'', JArr (map JStr (rh_observation_types h))),
      (''declared_interval_seconds'', opt_json JFloat (rh_declared_interval_seconds h)),
      (''time_of_first_observation'', opt_json JStr (rh_time_of_first_observation h)),
      (''time_of_last_observation'', opt_json JStr (rh_time_of_last_observation h)),
      (''time_system'', opt_json JStr (rh_time_system h)), (''leap_seconds'', opt_json JInt (rh_leap_seconds h))]"

record gap_record =
  gp_start :: string
  gp_end :: string
  gp_elapsed_seconds :: pyfloat
  gp_expected_interval_seconds :: pyfloat
  gp_missing_epochs :: int

definition gap_as_dict :: "gap_record \<Rightarrow> (string \<times> json) list" where
  "gap_as_dict g =
     [(''start'', JStr (gp_start g)), (''end'', JStr (gp_end g)), (''elapsed_seconds'', JFloat (gp_elapsed_seconds g)),
      (''expected_interval_seconds'', JFloat (gp_expected_interval_seconds g)),
      (''missing_epochs'', JInt (gp_missing_epochs g))]"

text \<open>The numbers that the analysis keeps of one constellation.\<close>

record constellation_stat =
  ct_epochs_present :: nat
  ct_minimum_per_epoch :: nat
  ct_median_per_epoch :: pyfloat
  ct_maximum_per_epoch :: nat

definition stat_as_dict :: "constellation_stat \<Rightarrow> (string \<times> json) list" where
  "stat_as_dict c =
     [(''epochs_present'', JInt (int (ct_epochs_present c))),
      (''minimum_per_epoch'', JInt (int (ct_minimum_per_epoch c))),
      (''median_per_epoch'', JFloat (ct_median_per_epoch c)),
      (''maximum_per_epoch'', JInt (int (ct_maximum_per_epoch c)))]"

record rinex_analysis =
  ra_header :: rinex_header
  ra_first_epoch :: "string option"
  ra_last_epoch :: "string option"
  ra_session_duration_seconds :: "pyfloat option"
  ra_expected_session_duration_seconds :: "pyfloat option"
  ra_declared_interval_seconds :: "pyfloat option"
  ra_empirical_interval_seconds :: "pyfloat option"
  ra_interval_consistent :: "bool option"
  ra_epochs_expected :: "int option"
  ra_epochs_observed :: nat
  ra_unique_epochs_observed :: nat
  ra_missing_epochs :: "int option"
  ra_availability_percent :: "pyfloat option"
  ra_duplicate_epochs :: nat
  ra_backward_epochs :: nat
  ra_gap_count :: nat
  ra_largest_gap_seconds :: "pyfloat option"
  ra_total_missing_duration_seconds :: "pyfloat option"
  ra_start_offset_seconds :: "pyfloat option"
  ra_end_shortfall_seconds :: "pyfloat option"
  ra_satellites_min :: "int option"
  ra_satellites_median :: "pyfloat option"
  ra_satellites_max :: "int option"
  ra_constellation_statistics :: "(string \<times> constellation_stat) list"
  ra_potential_cycle_slip_indicators :: nat
  ra_gaps :: "gap_record list"
  ra_parser_warnings :: "string list"

definition analysis_as_dict :: "rinex_analysis \<Rightarrow> (string \<times> json) list" where
  "analysis_as_dict a =
     [(''header'', JObj (header_as_dict (ra_header a))), (''first_epoch'', opt_json JStr (ra_first_epoch a)),
      (''last_epoch'', opt_json JStr (ra_last_epoch a)),
      (''session_duration_seconds'', opt_json JFloat (ra_session_duration_seconds a)),
      (''expected_session_duration_seconds'', opt_json JFloat (ra_expected_session_duration_seconds a)),
      (''declared_interval_seconds'', opt_json JFloat (ra_declared_interval_seconds a)),
      (''empirical_interval_seconds'', opt_json JFloat (ra_empirical_interval_seconds a)),
      (''interval_consistent'', opt_json JBool (ra_interval_consistent a)),
      (''epochs_expected'', opt_json JInt (ra_epochs_expected a)),
      (''epochs_observed'', JInt (int (ra_epochs_observed a))),
      (''unique_epochs_observed'', JInt (int (ra_unique_epochs_observed a))),
      (''missing_epochs'', opt_json JInt (ra_missing_epochs a)),
      (''availability_percent'', opt_json JFloat (ra_availability_percent a)),
      (''duplicate_epochs'', JInt (int (ra_duplicate_epochs a))),
      (''backward_epochs'', JInt (int (ra_backward_epochs a))),
      (''gap_count'', JInt (int (ra_gap_count a))),
      (''largest_gap_seconds'', opt_json JFloat (ra_largest_gap_seconds a)),
      (''total_missing_duration_seconds'', opt_json JFloat (ra_total_missing_duration_seconds a)),
      (''start_offset_seconds'', opt_json JFloat (ra_start_offset_seconds a)),
      (''end_shortfall_seconds'', opt_json JFloat (ra_end_shortfall_seconds a)),
      (''satellites_min'', opt_json JInt (ra_satellites_min a)),
      (''satellites_median'', opt_json JFloat (ra_satellites_median a)),
      (''satellites_max'', opt_json JInt (ra_satellites_max a)),
      (''constellation_statistics'', JObj (map (\<lambda>(k, c). (k, JObj (stat_as_dict c))) (ra_constellation_statistics a))),
      (''potential_cycle_slip_indicators'', JInt (int (ra_potential_cycle_slip_indicators a))),
      (''gaps'', JArr (map (\<lambda>g. JObj (gap_as_dict g)) (ra_gaps a))),
      (''parser_warnings'', JArr (map JStr (ra_parser_warnings a)))]"

record session_input =
  si_station_id :: string
  si_year :: int
  si_day_of_year :: int
  si_relative_path :: string
  si_source_relative_path :: string
  si_sha256 :: string
  si_size_bytes :: int
  si_exact_duplicate_sources :: "string list"

section \<open>Profiles\<close>

record qc_profile =
  qp_name :: string
  qp_version :: string
  qp_status :: string
  qp_expected_interval_seconds :: "pyfloat option"
  qp_sampling_tolerance_seconds :: pyfloat
  qp_accept_completeness_fraction :: pyfloat
  qp_reject_below_completeness_fraction :: pyfloat
  qp_maximum_warn_gap_seconds :: pyfloat
  qp_require_dual_frequency_phase :: bool
  qp_require_navigation :: bool
  qp_require_verified_coordinates :: bool
  qp_warn_on_partial_session :: bool
  qp_config_sha256 :: string

text \<open>
  What \<open>isinstance(v, (int, float))\<close> lets through, a boolean included, as an exact number: Python
  compares an int and a float exactly.
\<close>

definition exact_num :: "json \<Rightarrow> pyfloat option" where
  "exact_num v =
     (case v of
        JBool b \<Rightarrow> Some (PFin (if b then 1 else 0))
      | JInt i \<Rightarrow> Some (PFin (of_int i))
      | JFloat x \<Rightarrow> Some x
      | _ \<Rightarrow> None)"

definition required_text :: "(string \<times> json) list \<Rightarrow> string \<Rightarrow> string result" where
  "required_text payload key =
     (case obj_get payload key JNull of
        JStr s \<Rightarrow> if s = [] then Inl (ProfileError (key @ '' must be a non-empty string'')) else Inr s
      | _ \<Rightarrow> Inl (ProfileError (key @ '' must be a non-empty string'')))"

definition profile_fraction :: "(string \<times> json) list \<Rightarrow> string \<Rightarrow> pyfloat result" where
  "profile_fraction payload key =
     (let v = obj_get payload key JNull in
      case exact_num v of
        None \<Rightarrow> Inl (ProfileError (key @ '' must be between 0 and 1''))
      | Some x \<Rightarrow>
          if \<not> (f_le f_zero x \<and> f_le x (PFin 1)) then Inl (ProfileError (key @ '' must be between 0 and 1''))
          else py_float v)"

definition profile_nonnegative :: "(string \<times> json) list \<Rightarrow> string \<Rightarrow> pyfloat result" where
  "profile_nonnegative payload key =
     (let v = obj_get payload key JNull in
      case exact_num v of
        None \<Rightarrow> Inl (ProfileError (key @ '' must be non-negative''))
      | Some x \<Rightarrow>
          if f_lt x f_zero then Inl (ProfileError (key @ '' must be non-negative'')) else py_float v)"

definition profile_boolean :: "(string \<times> json) list \<Rightarrow> string \<Rightarrow> bool result" where
  "profile_boolean payload key =
     (case obj_get payload key JNull of
        JBool b \<Rightarrow> Inr b
      | _ \<Rightarrow> Inl (ProfileError (key @ '' must be boolean'')))"

definition expected_interval :: "string \<Rightarrow> (string \<times> json) list \<Rightarrow> json result" where
  "expected_interval name row =
     (let v = obj_get row ''expected_interval_seconds'' JNull;
          bad = Inl (ProfileError (name @ '': expected interval must be positive or null''))
      in if v = JNull then Inr JNull
         else case exact_num v of None \<Rightarrow> bad | Some x \<Rightarrow> if f_le x f_zero then bad else Inr v)"

definition profile_of_row ::
  "string \<Rightarrow> string \<Rightarrow> string \<Rightarrow> string \<Rightarrow> (string \<times> json) list \<Rightarrow> qc_profile result"
where
  "profile_of_row version status digest name row =
     bind_result (profile_fraction row ''accept_completeness_fraction'') (\<lambda>accept.
     bind_result (profile_fraction row ''reject_below_completeness_fraction'') (\<lambda>reject.
     if f_lt accept reject then Inl (ProfileError (name @ '': reject threshold exceeds accept threshold''))
     else
       bind_result (expected_interval name row) (\<lambda>expected.
       bind_result (optional py_float expected) (\<lambda>interval.
       bind_result (profile_nonnegative row ''sampling_tolerance_seconds'') (\<lambda>tolerance.
       bind_result (profile_nonnegative row ''maximum_warn_gap_seconds'') (\<lambda>gap.
       bind_result (profile_boolean row ''require_dual_frequency_phase'') (\<lambda>dual.
       bind_result (profile_boolean row ''require_navigation'') (\<lambda>nav.
       bind_result (profile_boolean row ''require_verified_coordinates'') (\<lambda>coord.
       bind_result (profile_boolean row ''warn_on_partial_session'') (\<lambda>partial.
         Inr \<lparr>qp_name = name, qp_version = version, qp_status = status,
              qp_expected_interval_seconds = interval, qp_sampling_tolerance_seconds = tolerance,
              qp_accept_completeness_fraction = accept, qp_reject_below_completeness_fraction = reject,
              qp_maximum_warn_gap_seconds = gap, qp_require_dual_frequency_phase = dual,
              qp_require_navigation = nav, qp_require_verified_coordinates = coord,
              qp_warn_on_partial_session = partial, qp_config_sha256 = digest\<rparr>))))))))))"

definition profile_entry ::
  "string \<Rightarrow> string \<Rightarrow> string \<Rightarrow> string \<times> json \<Rightarrow> (string \<times> qc_profile) result"
where
  "profile_entry version status digest e =
     (case snd e of
        JObj row \<Rightarrow> bind_result (profile_of_row version status digest (fst e) row) (\<lambda>p. Inr (fst e, p))
      | _ \<Rightarrow> Inl (ProfileError ''profile entries must map names to objects''))"

text \<open>\<open>raw\<close> are the bytes of the file and \<open>loads\<close> the JSON decoder.\<close>

definition load_profiles ::
  "(bytes \<Rightarrow> string) \<Rightarrow> (bytes \<Rightarrow> json result) \<Rightarrow> bytes \<Rightarrow> (string \<times> qc_profile) list result"
where
  "load_profiles sha loads raw =
     bind_result (loads raw) (\<lambda>decoded.
       case decoded of
         JObj payload \<Rightarrow>
           bind_result (required_text payload ''profile_set_version'') (\<lambda>version.
           bind_result (required_text payload ''status'') (\<lambda>status.
             case obj_get payload ''profiles'' JNull of
               JObj entries \<Rightarrow>
                 if entries = [] then Inl (ProfileError ''profiles must be a non-empty object'')
                 else map_result (profile_entry version status (sha raw)) entries
             | _ \<Rightarrow> Inl (ProfileError ''profiles must be a non-empty object'')))
       | v \<Rightarrow> Inl (no_attribute v ''get''))"

text \<open>What a loaded profile promises to the classification.\<close>

lemma profile_fraction_ok:
  assumes "profile_fraction row key = Inr y"
  shows "f_le f_zero y \<and> f_le y (PFin 1)"
proof -
  let ?v = "obj_get row key JNull"
  obtain x where v: "py_float ?v = Inr y" "exact_num ?v = Some x" "f_le f_zero x" "f_le x (PFin 1)"
    using assms by (auto simp: profile_fraction_def Let_def split: option.splits if_splits)
  show ?thesis
  proof (cases ?v)
    case (JInt i)
    with v have "i = 0 \<or> i = 1" by (auto simp: exact_num_def)
    with v JInt int_to_float_exact [of i] show ?thesis by (auto simp: py_float_def)
  qed (use v in \<open>auto simp: exact_num_def py_float_def split: if_splits\<close>)
qed

lemma profile_nonnegative_ok:
  assumes "profile_nonnegative row key = Inr y"
  shows "\<not> f_lt y f_zero"
proof -
  let ?v = "obj_get row key JNull"
  obtain x where v: "py_float ?v = Inr y" "exact_num ?v = Some x" "\<not> f_lt x f_zero"
    using assms by (auto simp: profile_nonnegative_def Let_def split: option.splits if_splits)
  show ?thesis
  proof (cases ?v)
    case (JInt i)
    with v have "0 \<le> i" by (auto simp: exact_num_def)
    then have "0 \<le> (of_int i :: rat)" by simp
    from round64_nonneg [OF this] obtain q where "round64 (of_int i) = PInf \<or> round64 (of_int i) = PFin q" "0 \<le> q"
      by auto
    with v(1) JInt have "y = PFin q" by (auto simp: py_float_def int_to_float_def)
    with \<open>0 \<le> q\<close> show ?thesis by simp
  qed (use v in \<open>auto simp: exact_num_def py_float_def split: if_splits\<close>)
qed

lemma profile_of_row_ok:
  assumes "profile_of_row version status digest name row = Inr p"
  shows "qp_name p = name \<and> qp_config_sha256 p = digest \<and>
    f_le f_zero (qp_accept_completeness_fraction p) \<and> f_le (qp_accept_completeness_fraction p) (PFin 1) \<and>
    \<not> f_lt (qp_accept_completeness_fraction p) (qp_reject_below_completeness_fraction p) \<and>
    \<not> f_lt (qp_sampling_tolerance_seconds p) f_zero \<and> \<not> f_lt (qp_maximum_warn_gap_seconds p) f_zero"
  using assms unfolding profile_of_row_def bind_result_eq_Inr
  by (clarsimp split: if_splits) (simp add: profile_fraction_ok profile_nonnegative_ok)

end
