(* ===== verification/Py_Time.thy ===== *)
theory Py_Time
  imports Py_Convert
begin

text \<open>
  \<open>datetime\<close> values: fields with an optional offset from UTC, their validation by the constructor, the
  proleptic Gregorian ordinal, the instant in microseconds, \<open>isoformat\<close>, the parsing of a year with a
  day of the year by \<open>strptime\<close>, and the seconds of a difference as a float.
\<close>

section \<open>Calendar\<close>

definition is_leap :: "int \<Rightarrow> bool" where
  "is_leap y \<longleftrightarrow> y mod 4 = 0 \<and> (y mod 100 \<noteq> 0 \<or> y mod 400 = 0)"

definition days_in_month :: "int \<Rightarrow> int \<Rightarrow> int" where
  "days_in_month y m =
     (if m = 2 then (if is_leap y then 29 else 28) else if m \<in> {4, 6, 9, 11} then 30 else 31)"

definition days_before_month :: "int \<Rightarrow> int \<Rightarrow> int" where
  "days_before_month y m = sum_list (map (days_in_month y) [1..m - 1])"

definition days_before_year :: "int \<Rightarrow> int" where
  "days_before_year y = (let p = y - 1 in p * 365 + p div 4 - p div 100 + p div 400)"

record py_datetime =
  dt_year :: int
  dt_month :: int
  dt_day :: int
  dt_hour :: int
  dt_minute :: int
  dt_second :: int
  dt_microsecond :: int
  dt_offset :: "int option"

definition day_of_year :: "py_datetime \<Rightarrow> int" where
  "day_of_year t = days_before_month (dt_year t) (dt_month t) + dt_day t"

definition ordinal :: "py_datetime \<Rightarrow> int" where
  "ordinal t = days_before_year (dt_year t) + day_of_year t"

text \<open>The constructor: each argument must be a C int, then the ranges are tested in this order.\<close>

definition c_int :: "int \<Rightarrow> bool" where
  "c_int i \<longleftrightarrow> - 2147483648 \<le> i \<and> i \<le> 2147483647"

definition c_int_error :: "int \<Rightarrow> py_error" where
  "c_int_error i =
     OverflowError
       (if i < - (2 ^ 63) \<or> 2 ^ 63 \<le> i then ''Python int too large to convert to C long''
        else if 0 < i then ''signed integer is greater than maximum''
        else ''signed integer is less than minimum'')"

definition new_datetime ::
  "int \<Rightarrow> int \<Rightarrow> int \<Rightarrow> int \<Rightarrow> int \<Rightarrow> int \<Rightarrow> int \<Rightarrow> int option \<Rightarrow> py_datetime result"
where
  "new_datetime y mo d h mi s us off =
     (case find (\<lambda>i. \<not> c_int i) [y, mo, d, h, mi, s, us] of Some i \<Rightarrow> Inl (c_int_error i) | None \<Rightarrow>
      if y < 1 \<or> 9999 < y then Inl (ValueError (''year '' @ str_int y @ '' is out of range''))
      else if mo < 1 \<or> 12 < mo then Inl (ValueError ''month must be in 1..12'')
      else if d < 1 \<or> days_in_month y mo < d then Inl (ValueError ''day is out of range for month'')
      else if h < 0 \<or> 23 < h then Inl (ValueError ''hour must be in 0..23'')
      else if mi < 0 \<or> 59 < mi then Inl (ValueError ''minute must be in 0..59'')
      else if s < 0 \<or> 59 < s then Inl (ValueError ''second must be in 0..59'')
      else if us < 0 \<or> 999999 < us then Inl (ValueError ''microsecond must be in 0..999999'')
      else Inr \<lparr>dt_year = y, dt_month = mo, dt_day = d, dt_hour = h, dt_minute = mi, dt_second = s,
                dt_microsecond = us, dt_offset = off\<rparr>)"

section \<open>Instants\<close>

text \<open>Microseconds since the day before the first one, by the clock of the value, and in UTC.\<close>

definition clock_micros :: "py_datetime \<Rightarrow> int" where
  "clock_micros t =
     (((ordinal t * 24 + dt_hour t) * 60 + dt_minute t) * 60 + dt_second t) * 1000000 + dt_microsecond t"

definition instant :: "py_datetime \<Rightarrow> int" where
  "instant t = clock_micros t - (case dt_offset t of None \<Rightarrow> 0 | Some off \<Rightarrow> off)"

text \<open>\<open>datetime.strptime(f"{year} {doy:03d}", "%Y %j")\<close>, as the instant of its midnight in UTC.\<close>

definition day_start :: "int \<Rightarrow> int \<Rightarrow> int result" where
  "day_start y doy =
     (if 1000 \<le> y \<and> y \<le> 9999 \<and> 1 \<le> doy \<and> doy \<le> 366 \<and> \<not> (y = 9999 \<and> doy = 366)
      then Inr ((days_before_year y + doy) * 86400000000)
      else Inl (ValueError ''time data does not match format''))"

text \<open>\<open>(a - b).total_seconds()\<close> of a difference in microseconds.\<close>

definition total_seconds :: "int \<Rightarrow> pyfloat" where
  "total_seconds us = round64 (of_int us / 1000000)"

section \<open>Text\<close>

definition zero_pad :: "nat \<Rightarrow> int \<Rightarrow> string" where
  "zero_pad n i =
     (let s = str_nat (nat \<bar>i\<bar>); w = (if i < 0 then n - 1 else n)
      in (if i < 0 then ''-'' else []) @ replicate (w - length s) (CHR ''0'') @ s)"

text \<open>\<open>format_datetime\<close>: \<open>isoformat\<close> of a value in UTC, with \<open>Z\<close> for the offset.\<close>

definition utc_text :: "py_datetime \<Rightarrow> string" where
  "utc_text t =
     zero_pad 4 (dt_year t) @ ''-'' @ zero_pad 2 (dt_month t) @ ''-'' @ zero_pad 2 (dt_day t) @ ''T'' @
     zero_pad 2 (dt_hour t) @ '':'' @ zero_pad 2 (dt_minute t) @ '':'' @ zero_pad 2 (dt_second t) @
     (if dt_microsecond t = 0 then [] else ''.'' @ zero_pad 6 (dt_microsecond t)) @ ''Z''"

section \<open>Lemmas\<close>

lemma days_in_month_pos: "28 \<le> days_in_month y m \<and> days_in_month y m \<le> 31"
  by (simp add: days_in_month_def)

lemma new_datetime_ok:
  "new_datetime y mo d h mi s us off = Inr t \<Longrightarrow>
     t = \<lparr>dt_year = y, dt_month = mo, dt_day = d, dt_hour = h, dt_minute = mi, dt_second = s,
          dt_microsecond = us, dt_offset = off\<rparr> \<and>
     1 \<le> y \<and> y \<le> 9999 \<and> 1 \<le> mo \<and> mo \<le> 12 \<and> 1 \<le> d \<and> d \<le> days_in_month y mo \<and> 0 \<le> h \<and> h < 24 \<and>
     0 \<le> mi \<and> mi < 60 \<and> 0 \<le> s \<and> s < 60 \<and> 0 \<le> us \<and> us < 1000000"
  by (auto simp: new_datetime_def split: if_splits option.splits)

lemma days_before_month_Suc: "1 \<le> m \<Longrightarrow> days_before_month y (m + 1) = days_before_month y m + days_in_month y m"
  by (simp add: days_before_month_def upto_rec2)

lemma days_before_month_le:
  "m \<le> m' \<Longrightarrow> 1 \<le> m \<Longrightarrow> days_before_month y m \<le> days_before_month y m'"
proof (induction m' rule: int_ge_induct)
  case (step i)
  with days_before_month_Suc [of i y] days_in_month_pos [of y i] show ?case by simp
qed simp

text \<open>The days of a year are numbered from 1 to its length, and the years follow each other.\<close>

lemma days_before_13: "days_before_month y 13 = (if is_leap y then 366 else 365)"
  by (simp add: days_before_month_def days_in_month_def upto_rec1 upto_Nil)

lemma day_of_year_range:
  assumes "1 \<le> dt_month t" "dt_month t \<le> 12" "1 \<le> dt_day t" "dt_day t \<le> days_in_month (dt_year t) (dt_month t)"
  shows "1 \<le> day_of_year t \<and> day_of_year t \<le> (if is_leap (dt_year t) then 366 else 365)"
proof -
  have "0 \<le> days_before_month (dt_year t) (dt_month t)"
    using days_before_month_le [of 1 "dt_month t" "dt_year t"] assms by (simp add: days_before_month_def)
  moreover have "days_before_month (dt_year t) (dt_month t + 1) \<le> days_before_month (dt_year t) 13"
    using assms by (intro days_before_month_le) simp_all
  ultimately show ?thesis
    using assms days_before_month_Suc [of "dt_month t" "dt_year t"] days_before_13 [of "dt_year t"]
    by (simp add: day_of_year_def)
qed

lemma leap_count:
  fixes Y :: int
  assumes "A' = Y * 365 + a' - b' + c'" "A = (Y - 1) * 365 + a - b + c"
    and "a' = a + (if P then 1 else 0)" "b' = b + (if Q then 1 else 0)" "c' = c + (if R then 1 else 0)"
    and "R \<Longrightarrow> Q" "Q \<Longrightarrow> P"
  shows "A' = A + (if P \<and> (\<not> Q \<or> R) then 366 else 365)"
proof -
  have "A' = A + 365 + (a' - a) - (b' - b) + (c' - c)" using assms(1,2) by (simp add: left_diff_distrib)
  moreover have "a' - a = of_bool P" "b' - b = of_bool Q" "c' - c = of_bool R" using assms(3-5) by simp_all
  ultimately have "A' = A + 365 + of_bool P - of_bool Q + of_bool R" by simp
  with assms(6,7) show ?thesis by (cases P; cases Q; cases R) simp_all
qed

lemma days_before_year_Suc: "days_before_year (y + 1) = days_before_year y + (if is_leap y then 366 else 365)"
proof -
  have step: "p div k = (p - 1) div k + (if p mod k = 0 then 1 else 0)" if "1 < k" for p k :: int
  proof (cases "p mod k = 0")
    case True
    then obtain q where "p = k * q" by (metis dvd_def mod_eq_0_iff_dvd)
    then have "(p - 1) div k = q - 1" using that by (intro int_div_pos_eq [of _ k _ "k - 1"]) (simp_all add: right_diff_distrib)
    with \<open>p = k * q\<close> True that show ?thesis by simp
  next
    case False
    moreover have "0 \<le> p mod k" "p mod k < k" using that by simp_all
    moreover have "p = k * (p div k) + p mod k" by simp
    ultimately have "(p - 1) div k = p div k" by (intro int_div_pos_eq [of _ k _ "p mod k - 1"]) linarith+
    with False show ?thesis by simp
  qed
  have cong: "y mod 400 = 0 \<Longrightarrow> y mod 100 = 0" "y mod 100 = 0 \<Longrightarrow> y mod 4 = 0"
    using dvd_trans [of 100 400 y] dvd_trans [of 4 100 y] by (simp_all add: mod_eq_0_iff_dvd)
  have steps: "y div 4 = (y - 1) div 4 + (if y mod 4 = 0 then 1 else 0)"
    "y div 100 = (y - 1) div 100 + (if y mod 100 = 0 then 1 else 0)"
    "y div 400 = (y - 1) div 400 + (if y mod 400 = 0 then 1 else 0)"
    by (rule step, simp)+
  have "days_before_year (y + 1) = y * 365 + y div 4 - y div 100 + y div 400"
    by (simp add: days_before_year_def Let_def)
  moreover have "days_before_year y = (y - 1) * 365 + (y - 1) div 4 - (y - 1) div 100 + (y - 1) div 400"
    by (simp add: days_before_year_def Let_def)
  ultimately show ?thesis
    unfolding is_leap_def by (rule leap_count [OF _ _ steps cong])
qed

end
