(* ===== verification/Qc_Classify.thy ===== *)
theory Qc_Classify
  imports Qc_Models Py_Time Py_Text
begin

text \<open>
  Identity, external products and the profile-specific findings of a session (\<open>gnss_qc/dataset.py\<close>,
  \<open>gnss_qc/classify.py\<close>). \<open>fromiso\<close> is \<open>datetime.fromisoformat\<close> and \<open>nbytes\<close> the size that the file system
  reports for the source file.
\<close>

section \<open>Station identity\<close>

definition CANONICAL_STATIONS :: "(string \<times> string list) list" where
  "CANONICAL_STATIONS =
     [(''ABFC00NGA'', [''ABFC'']), (''BKFP00NGA'', [''BIKE'']), (''EKAK00NGA'', [''EKAK'']),
      (''FUTY00NGA'', [''YLAD'']), (''MGBO00NGA'', [''MGBO'']), (''PHRI00NGA'', [''PHRI'']),
      (''ULAG00NGA'', [''LGLA'']), (''UNEC00NGA'', [''ENEN'', ''UNEC''])]"

definition is_alnum :: "char \<Rightarrow> bool" where
  "is_alnum c = (let n = of_char c :: nat in (48 \<le> n \<and> n \<le> 57) \<or> (65 \<le> n \<and> n \<le> 90) \<or> (97 \<le> n \<and> n \<le> 122))"

text \<open>\<open>RINEX2_NAME.fullmatch\<close>: marker, day of year, session, a dot, year, kind, and a compression.\<close>

definition rinex2_name :: "string \<Rightarrow> (string \<times> string \<times> string \<times> char) option" where
  "rinex2_name s =
     (if 12 \<le> length s \<and> list_all is_alnum (take 4 s) \<and> list_all is_digit (take 3 (drop 4 s)) \<and>
         is_alnum (s ! 7) \<and> s ! 8 = CHR ''.'' \<and> list_all is_digit (take 2 (drop 9 s)) \<and>
         is_alnum (s ! 11) \<and> \<not> is_digit (s ! 11) \<and> drop 12 s \<in> set [[], ''.Z'', ''.gz'']
      then Some (take 4 s, take 3 (drop 4 s), take 2 (drop 9 s), s ! 11)
      else None)"

definition parse_filename :: "string \<Rightarrow> (string \<times> int \<times> int \<times> string) result" where
  "parse_filename s =
     (case rinex2_name s of
        None \<Rightarrow> Inl (DatasetError (''unexpected RINEX 2 filename: '' @ s))
      | Some (marker, doy, year, kind) \<Rightarrow>
          let d = int (digits_value doy) in
          if \<not> (1 \<le> d \<and> d \<le> 366) then Inl (DatasetError (''day-of-year outside 1..366: '' @ s))
          else Inr (str_upper marker, 2000 + int (digits_value year), d, str_upper [kind]))"

definition resolve_identity :: "string \<Rightarrow> string \<Rightarrow> string option \<Rightarrow> string result" where
  "resolve_identity station_id filename_marker header_marker =
     (case map_of CANONICAL_STATIONS station_id of
        None \<Rightarrow> Inl (DatasetError (''unresolved canonical station: '' @ station_id))
      | Some markers \<Rightarrow>
          if filename_marker \<notin> set markers then
            Inl (DatasetError (''filename marker '' @ filename_marker @ '' is not registered for '' @ station_id))
          else
            case header_marker of
              None \<Rightarrow> Inl (DatasetError (''RINEX marker None is not registered for '' @ station_id))
            | Some h \<Rightarrow>
                if str_upper h \<notin> set markers then
                  Inl (DatasetError (''RINEX marker '' @ repr_str h @ '' is not registered for '' @ station_id))
                else if filename_marker = take 4 station_id \<and> str_upper h = take 4 station_id
                then Inr ''CANONICAL_MATCH''
                else Inr ''KNOWN_ALIAS'')"

section \<open>External products\<close>

record navigation_product =
  np_product_type :: string
  np_source :: "string option"
  np_relative_path :: string
  np_coverage_start :: string
  np_coverage_end :: string
  np_sha256 :: string
  np_size_bytes :: int
  np_acquisition_provenance :: "string option"

definition product_as_dict :: "navigation_product \<Rightarrow> (string \<times> json) list" where
  "product_as_dict p =
     [(''product_type'', JStr (np_product_type p)), (''source'', opt_json JStr (np_source p)),
      (''relative_path'', JStr (np_relative_path p)), (''coverage_start'', JStr (np_coverage_start p)),
      (''coverage_end'', JStr (np_coverage_end p)), (''sha256'', JStr (np_sha256 p)),
      (''size_bytes'', JInt (np_size_bytes p)),
      (''acquisition_provenance'', opt_json JStr (np_acquisition_provenance p))]"

record coordinate_eligibility =
  ce_station_id :: string
  ce_scientifically_valid :: bool
  ce_reference_frame :: "string option"
  ce_coordinate_epoch :: "string option"
  ce_source_path :: string
  ce_source_sha256 :: string

definition eligibility_as_dict :: "coordinate_eligibility \<Rightarrow> (string \<times> json) list" where
  "eligibility_as_dict c =
     [(''station_id'', JStr (ce_station_id c)), (''scientifically_valid'', JBool (ce_scientifically_valid c)),
      (''reference_frame'', opt_json JStr (ce_reference_frame c)),
      (''coordinate_epoch'', opt_json JStr (ce_coordinate_epoch c)),
      (''source_path'', JStr (ce_source_path c)), (''source_sha256'', JStr (ce_source_sha256 c))]"

text \<open>\<open>fromisoformat(text.replace("Z", "+00:00"))\<close>; comparing it with a time in UTC needs an offset.\<close>

definition from_iso :: "(string \<Rightarrow> py_datetime result) \<Rightarrow> string \<Rightarrow> py_datetime result" where
  "from_iso fromiso s = fromiso (str_replace ''Z'' ''+00:00'' s)"

definition utc_instant :: "py_datetime \<Rightarrow> int result" where
  "utc_instant t =
     (if dt_offset t = None then Inl (TypeError (''can'' @ [CHR 0x27] @ ''t compare offset-naive and offset-aware datetimes''))
      else Inr (instant t))"

fun find_product ::
  "(string \<Rightarrow> py_datetime result) \<Rightarrow> int \<Rightarrow> navigation_product list \<Rightarrow> navigation_product option result"
where
  "find_product fromiso start_at [] = Inr None"
| "find_product fromiso start_at (p # ps) =
     bind_result (from_iso fromiso (np_coverage_start p)) (\<lambda>t0.
     bind_result (from_iso fromiso (np_coverage_end p)) (\<lambda>t1.
     bind_result (utc_instant t0) (\<lambda>a.
       if \<not> a \<le> start_at then find_product fromiso start_at ps
       else bind_result (utc_instant t1) (\<lambda>b.
         if start_at < b then Inr (Some p) else find_product fromiso start_at ps))))"

definition navigation_for_session ::
  "(string \<Rightarrow> py_datetime result) \<Rightarrow> navigation_product list \<Rightarrow> int \<Rightarrow> int \<Rightarrow> navigation_product option result"
where
  "navigation_for_session fromiso products year doy =
     bind_result (day_start year doy) (\<lambda>start_at. find_product fromiso start_at products)"

section \<open>Findings\<close>

definition mk_finding ::
  "session_input \<Rightarrow> string \<Rightarrow> finding_severity \<Rightarrow> string \<Rightarrow> string \<Rightarrow> json \<Rightarrow> json \<Rightarrow> json \<Rightarrow>
     (string \<times> json) list \<Rightarrow> finding"
where
  "mk_finding s code severity category message measured expected threshold evidence =
     \<lparr>fd_finding_code = code, fd_severity = severity, fd_category = category, fd_message = message,
      fd_station_id = si_station_id s, fd_year = si_year s, fd_day_of_year = si_day_of_year s,
      fd_file = si_relative_path s, fd_measured_value = measured, fd_expected_value = expected,
      fd_threshold = threshold, fd_evidence = evidence\<rparr>"

definition phase_frequencies :: "string list \<Rightarrow> string list" where
  "phase_frequencies types =
     sort (remdups (map (\<lambda>v. [v ! 1]) (filter (\<lambda>v. 2 \<le> length v \<and> v ! 0 = CHR ''L'') types)))"

definition integrity_findings :: "session_input \<Rightarrow> string \<Rightarrow> finding list" where
  "integrity_findings s observed =
     [mk_finding s ''FILE_PRESENT'' SV_PASS ''file_integrity'' ''Canonical input exists'' JNull JNull JNull [],
      if observed = si_sha256 s
      then mk_finding s ''HASH_VERIFIED'' SV_PASS ''file_integrity''
             ''Observed SHA-256 matches the canonical manifest'' (JStr observed) (JStr (si_sha256 s)) JNull []
      else mk_finding s ''HASH_MISMATCH'' SV_REJECT ''file_integrity''
             ''Observed SHA-256 does not match the canonical manifest'' (JStr observed) (JStr (si_sha256 s)) JNull []] @
     (if si_exact_duplicate_sources s \<noteq> []
      then [mk_finding s ''EXACT_DUPLICATE'' SV_WARN ''file_integrity''
              ''An exact source-delivery duplicate was excluded from canonical use''
              (JArr (map JStr (si_exact_duplicate_sources s))) JNull JNull
              [(''canonical_retained'', JStr (si_relative_path s))]]
      else [])"

definition identity_finding :: "session_input \<Rightarrow> rinex_analysis \<Rightarrow> string \<Rightarrow> finding" where
  "identity_finding s a identity_status =
     (if identity_status = ''CANONICAL_MATCH''
      then mk_finding s ''CANONICAL_MATCH'' SV_PASS ''station_identity''
             ''Folder, filename, header, and canonical station identity agree'' JNull JNull JNull []
      else mk_finding s ''KNOWN_ALIAS'' SV_WARN ''station_identity''
             ''Filename/header marker is an explicitly registered station alias''
             (opt_json JStr (rh_marker_name (ra_header a))) (JStr (si_station_id s)) JNull [])"

text \<open>\<open>(availability or 0.0) / 100.0\<close>\<close>

definition completeness :: "rinex_analysis \<Rightarrow> pyfloat" where
  "completeness a = f_quot (case ra_availability_percent a of None \<Rightarrow> f_zero | Some x \<Rightarrow> x) (PFin 100)"

definition sampling_unexpected :: "rinex_analysis \<Rightarrow> qc_profile \<Rightarrow> bool" where
  "sampling_unexpected a p =
     (case (qp_expected_interval_seconds p, ra_empirical_interval_seconds a) of
        (Some expected, Some empirical) \<Rightarrow>
          f_lt (qp_sampling_tolerance_seconds p) (f_abs (f_sub empirical expected))
      | _ \<Rightarrow> False)"

definition sampling_findings :: "session_input \<Rightarrow> rinex_analysis \<Rightarrow> qc_profile \<Rightarrow> finding list" where
  "sampling_findings s a p =
     (if ra_duplicate_epochs a \<noteq> 0 \<or> ra_backward_epochs a \<noteq> 0
      then [mk_finding s ''MALFORMED_EPOCH_SEQUENCE'' SV_REJECT ''sampling''
              ''Duplicate or backward epochs make the sequence scientifically unsafe''
              (JObj [(''duplicate_epochs'', JInt (int (ra_duplicate_epochs a))),
                     (''backward_epochs'', JInt (int (ra_backward_epochs a)))]) JNull JNull []]
      else []) @
     [if sampling_unexpected a p
      then mk_finding s ''UNEXPECTED_SAMPLING_INTERVAL'' SV_REJECT ''sampling''
             ''Empirical interval is outside the profile tolerance''
             (opt_json JFloat (ra_empirical_interval_seconds a)) (opt_json JFloat (qp_expected_interval_seconds p))
             (JFloat (qp_sampling_tolerance_seconds p)) []
      else mk_finding s ''SAMPLING_INTERVAL_VERIFIED'' SV_PASS ''sampling''
             ''Empirical sampling interval is usable for this profile''
             (opt_json JFloat (ra_empirical_interval_seconds a)) (opt_json JFloat (qp_expected_interval_seconds p))
             JNull []]"

definition completeness_finding :: "session_input \<Rightarrow> rinex_analysis \<Rightarrow> qc_profile \<Rightarrow> finding" where
  "completeness_finding s a p =
     (let fraction = completeness a; accept = qp_accept_completeness_fraction p;
          reject = qp_reject_below_completeness_fraction p
      in if f_lt fraction reject
         then mk_finding s ''SEVERE_SESSION_TRUNCATION'' SV_REJECT ''temporal''
                (''Session completeness is below the profile'' @ [CHR 0x27] @ ''s provisional usable floor'')
                (JFloat fraction) (JFloat accept) (JFloat reject) []
         else if f_lt fraction accept \<and> qp_warn_on_partial_session p
         then mk_finding s ''PARTIAL_SESSION'' SV_WARN ''temporal''
                ''Session is usable with awareness but is not nominally complete''
                (JFloat fraction) (JFloat accept) JNull []
         else mk_finding s ''FULL_SESSION'' SV_PASS ''temporal''
                ''Session meets the profile completeness criterion'' (JFloat fraction) (JFloat accept) JNull [])"

definition gap_findings :: "session_input \<Rightarrow> rinex_analysis \<Rightarrow> qc_profile \<Rightarrow> finding list" where
  "gap_findings s a p =
     (let largest = ra_largest_gap_seconds a in
      if (case largest of None \<Rightarrow> False | Some g \<Rightarrow> f_lt (qp_maximum_warn_gap_seconds p) g)
      then [mk_finding s ''MAJOR_OBSERVATION_GAP'' SV_REJECT ''gaps''
              (''Largest internal gap exceeds the profile'' @ [CHR 0x27] @ ''s provisional tolerance'')
              (opt_json JFloat largest) JNull (JFloat (qp_maximum_warn_gap_seconds p)) []]
      else if ra_gap_count a \<noteq> 0
      then [mk_finding s ''OBSERVATION_GAPS'' SV_WARN ''gaps'' ''Internal observation gaps are present''
              (JObj [(''gap_count'', JInt (int (ra_gap_count a))),
                     (''largest_gap_seconds'', opt_json JFloat largest)]) JNull JNull []]
      else [])"

definition temporal_findings :: "session_input \<Rightarrow> rinex_analysis \<Rightarrow> qc_profile \<Rightarrow> finding list" where
  "temporal_findings s a p =
     sampling_findings s a p @ [completeness_finding s a p] @ gap_findings s a p"

definition observation_findings :: "session_input \<Rightarrow> rinex_analysis \<Rightarrow> qc_profile \<Rightarrow> finding list" where
  "observation_findings s a p =
     (let frequencies = phase_frequencies (rh_observation_types (ra_header a)) in
      if 2 \<le> length frequencies
      then [mk_finding s ''DUAL_FREQUENCY_AVAILABLE'' SV_PASS ''observation_types''
              ''Header states carrier-phase observations on at least two frequencies''
              (JArr (map JStr frequencies)) JNull JNull []]
      else if qp_require_dual_frequency_phase p
      then [mk_finding s ''REQUIRED_PHASE_OBSERVABLE_MISSING'' SV_REJECT ''observation_types''
              ''Profile requires carrier-phase observations on two frequencies'' (JArr (map JStr frequencies))
              (JStr ''at least two distinct L* frequency designators'') JNull []]
      else []) @
     (if 1 < length (ra_constellation_statistics a)
      then [mk_finding s ''MIXED_GNSS_AVAILABLE'' SV_PASS ''constellations''
              ''More than one constellation is present''
              (JArr (map JStr (sort (map fst (ra_constellation_statistics a))))) JNull JNull []]
      else []) @
     (if ra_potential_cycle_slip_indicators a \<noteq> 0
      then [mk_finding s ''POTENTIAL_CYCLE_SLIP_INDICATORS'' SV_PASS ''continuity''
              (''Non-zero carrier-phase loss-of-lock indicators were observed; '' @
               ''they are measured but do not affect admission because no calibrated '' @ ''threshold exists'')
              (JInt (int (ra_potential_cycle_slip_indicators a))) JNull (JStr ''not calibrated'') []]
      else []) @
     map (\<lambda>w. mk_finding s ''PARSER_WARNING'' SV_WARN ''rinex_structure'' w JNull JNull JNull [])
       (ra_parser_warnings a)"

definition navigation_findings ::
  "session_input \<Rightarrow> qc_profile \<Rightarrow> navigation_product option \<Rightarrow> finding list"
where
  "navigation_findings s p navigation =
     (if \<not> qp_require_navigation p then []
      else
        case navigation of
          None \<Rightarrow>
            [mk_finding s ''NAVIGATION_PRODUCT_MISSING'' SV_BLOCKED ''external_products''
               ''Profile requires broadcast navigation but no compatible product is catalogued'' JNull JNull JNull []]
        | Some n \<Rightarrow>
            mk_finding s ''NAVIGATION_PRODUCT_AVAILABLE'' SV_PASS ''external_products''
              ''A temporally compatible broadcast-navigation product is catalogued''
              (JStr (np_relative_path n)) JNull JNull [(''sha256'', JStr (np_sha256 n))] #
            (if np_acquisition_provenance n = None
             then [mk_finding s ''NAVIGATION_PROVENANCE_MISSING'' SV_WARN ''external_products''
                     ''Product bytes are hashed but acquisition provenance was not available''
                     (JStr (np_relative_path n)) JNull JNull []]
             else []))"

text \<open>\<open>epoch.year == session.year and int(epoch.strftime("%j")) == session.day_of_year\<close>\<close>

definition coordinate_applies ::
  "(string \<Rightarrow> py_datetime result) \<Rightarrow> coordinate_eligibility \<Rightarrow> session_input \<Rightarrow> bool result"
where
  "coordinate_applies fromiso c s =
     (if str_or (ce_coordinate_epoch c) [] = [] then Inr False
      else bind_result (from_iso fromiso (str_or (ce_coordinate_epoch c) [])) (\<lambda>t.
        Inr (dt_year t = si_year s \<and> day_of_year t = si_day_of_year s)))"

definition coordinate_source :: "coordinate_eligibility \<Rightarrow> (string \<times> json) list" where
  "coordinate_source c = [(''source'', JStr (ce_source_path c)), (''sha256'', JStr (ce_source_sha256 c))]"

definition applies_finding :: "session_input \<Rightarrow> coordinate_eligibility \<Rightarrow> bool \<Rightarrow> finding" where
  "applies_finding s c applies =
     (if \<not> applies
      then mk_finding s ''COORDINATE_INTERVAL_UNVERIFIED'' SV_BLOCKED ''coordinate_eligibility''
             (''Verified coordinate epoch does not establish an effective interval '' @ ''for this station-day'')
             (opt_json JStr (ce_coordinate_epoch c))
             (JStr (''effective-dated coverage of '' @ str_int (si_year s) @ ''-'' @ zero_pad 3 (si_day_of_year s)))
             JNull []
      else mk_finding s ''COORDINATE_ELIGIBLE'' SV_PASS ''coordinate_eligibility''
             ''A scientifically admitted coordinate and reference frame apply to this date''
             (JObj [(''reference_frame'', opt_json JStr (ce_reference_frame c)),
                    (''coordinate_epoch'', opt_json JStr (ce_coordinate_epoch c))]) JNull JNull
             (coordinate_source c))"

definition coordinate_findings ::
  "(string \<Rightarrow> py_datetime result) \<Rightarrow> session_input \<Rightarrow> qc_profile \<Rightarrow> coordinate_eligibility option \<Rightarrow>
     finding list result"
where
  "coordinate_findings fromiso s p coordinate =
     (if \<not> qp_require_verified_coordinates p then Inr []
      else
        case coordinate of
          None \<Rightarrow>
            Inr [mk_finding s ''COORDINATE_METADATA_MISSING'' SV_BLOCKED ''coordinate_eligibility''
                   ''No verified coordinate record is available for this station'' JNull JNull JNull []]
        | Some c \<Rightarrow>
            if \<not> ce_scientifically_valid c then
              Inr [mk_finding s ''COORDINATE_NOT_SCIENTIFICALLY_VALID'' SV_BLOCKED ''coordinate_eligibility''
                     ''Coordinate admission record explicitly marks this station ineligible'' JNull JNull JNull
                     (coordinate_source c)]
            else bind_result (coordinate_applies fromiso c s) (\<lambda>applies. Inr [applies_finding s c applies]))"

definition size_finding :: "session_input \<Rightarrow> int \<Rightarrow> finding" where
  "size_finding s nbytes =
     mk_finding s ''SOURCE_SIZE_VERIFIED'' (if nbytes = si_size_bytes s then SV_PASS else SV_REJECT)
       ''file_integrity'' ''Observed byte size compared with canonical manifest'' (JInt nbytes)
       (JInt (si_size_bytes s)) JNull []"

definition classify_session ::
  "(string \<Rightarrow> py_datetime result) \<Rightarrow> session_input \<Rightarrow> rinex_analysis \<Rightarrow> qc_profile \<Rightarrow> string \<Rightarrow> int \<Rightarrow> string \<Rightarrow>
     navigation_product option \<Rightarrow> coordinate_eligibility option \<Rightarrow> finding list result"
where
  "classify_session fromiso s a p identity_status nbytes observed navigation coordinate =
     bind_result (coordinate_findings fromiso s p coordinate) (\<lambda>cs.
       Inr (integrity_findings s observed @ [identity_finding s a identity_status] @ temporal_findings s a p @
            observation_findings s a p @ navigation_findings s p navigation @ cs @ [size_finding s nbytes]))"

section \<open>When a session is accepted\<close>

lemma severity_of_finding [simp]: "fd_severity (mk_finding s code sv cat msg m e t ev) = sv"
  by (simp add: mk_finding_def)

definition all_pass :: "finding list \<Rightarrow> bool" where
  "all_pass fs \<longleftrightarrow> list_all (\<lambda>f. fd_severity f = SV_PASS) fs"

lemma all_pass_simps [simp]:
  "all_pass []" "all_pass (f # fs) \<longleftrightarrow> fd_severity f = SV_PASS \<and> all_pass fs"
  "all_pass (fs @ gs) \<longleftrightarrow> all_pass fs \<and> all_pass gs"
  by (auto simp: all_pass_def)

lemma overall_accept_iff: "overall_classification fs = CL_ACCEPT \<longleftrightarrow> all_pass fs"
proof -
  have "all_pass fs \<longleftrightarrow> SV_REJECT \<notin> fd_severity ` set fs \<and> SV_BLOCKED \<notin> fd_severity ` set fs \<and>
      SV_WARN \<notin> fd_severity ` set fs"
  proof -
    have "sv = SV_PASS \<longleftrightarrow> sv \<noteq> SV_REJECT \<and> sv \<noteq> SV_BLOCKED \<and> sv \<noteq> SV_WARN" for sv by (cases sv) auto
    then show ?thesis by (auto simp: all_pass_def list_all_iff image_iff)
  qed
  then show ?thesis by (auto simp: overall_classification_def Let_def)
qed

lemma integrity_pass: "all_pass (integrity_findings s observed) \<longleftrightarrow> observed = si_sha256 s \<and> si_exact_duplicate_sources s = []"
  by (simp add: integrity_findings_def)

lemma identity_pass: "fd_severity (identity_finding s a st) = SV_PASS \<longleftrightarrow> st = ''CANONICAL_MATCH''"
  by (simp add: identity_finding_def)

lemma sampling_pass: "all_pass (sampling_findings s a p) \<longleftrightarrow>
    ra_duplicate_epochs a = 0 \<and> ra_backward_epochs a = 0 \<and> \<not> sampling_unexpected a p"
  by (simp add: sampling_findings_def)

lemma completeness_pass: "fd_severity (completeness_finding s a p) = SV_PASS \<longleftrightarrow>
    \<not> f_lt (completeness a) (qp_reject_below_completeness_fraction p) \<and>
    \<not> (f_lt (completeness a) (qp_accept_completeness_fraction p) \<and> qp_warn_on_partial_session p)"
  by (simp add: completeness_finding_def Let_def)

lemma gap_pass: "all_pass (gap_findings s a p) \<longleftrightarrow>
    ra_gap_count a = 0 \<and>
    (case ra_largest_gap_seconds a of None \<Rightarrow> True | Some g \<Rightarrow> \<not> f_lt (qp_maximum_warn_gap_seconds p) g)"
  by (simp add: gap_findings_def Let_def split: option.split)

lemma observation_pass: "all_pass (observation_findings s a p) \<longleftrightarrow>
    (qp_require_dual_frequency_phase p \<longrightarrow> 2 \<le> length (phase_frequencies (rh_observation_types (ra_header a)))) \<and>
    ra_parser_warnings a = []"
  by (cases "ra_parser_warnings a") (auto simp: observation_findings_def Let_def)

lemma navigation_pass: "all_pass (navigation_findings s p navigation) \<longleftrightarrow>
    (qp_require_navigation p \<longrightarrow> (\<exists>n. navigation = Some n \<and> np_acquisition_provenance n \<noteq> None))"
  by (simp add: navigation_findings_def split: option.split)

lemma applies_pass: "fd_severity (applies_finding s c b) = SV_PASS \<longleftrightarrow> b"
  by (simp add: applies_finding_def)

lemma coordinate_pass: "coordinate_findings fromiso s p coordinate = Inr cs \<Longrightarrow> all_pass cs \<longleftrightarrow>
    (qp_require_verified_coordinates p \<longrightarrow>
      (\<exists>c. coordinate = Some c \<and> ce_scientifically_valid c \<and> coordinate_applies fromiso c s = Inr True))"
  by (auto simp: coordinate_findings_def applies_pass bind_result_def split: option.splits if_splits sum.splits)

text \<open>
  C19. A session is accepted on evidence only (\<open>classify_session\<close> with \<open>overall_classification\<close>). It gets
  \<open>ACCEPT\<close> exactly when its bytes have the size and digest of the manifest and no duplicate, its
  identity is the canonical one, its epochs increase at the expected interval, it is complete and has
  no gap, the observation types, the navigation product with its provenance and the coordinates valid
  on that very day are there if the profile asks for them, and the parser had nothing to remark.
\<close>

theorem accepted_session_has_evidence:
  "case classify_session fromiso s a p identity_status nbytes observed navigation coordinate of
     Inl e \<Rightarrow> qp_require_verified_coordinates p
   | Inr findings \<Rightarrow>
       overall_classification findings = CL_ACCEPT \<longleftrightarrow>
         observed = si_sha256 s \<and> nbytes = si_size_bytes s \<and> si_exact_duplicate_sources s = [] \<and>
         identity_status = ''CANONICAL_MATCH'' \<and>
         ra_duplicate_epochs a = 0 \<and> ra_backward_epochs a = 0 \<and> \<not> sampling_unexpected a p \<and>
         \<not> f_lt (completeness a) (qp_reject_below_completeness_fraction p) \<and>
         \<not> (f_lt (completeness a) (qp_accept_completeness_fraction p) \<and> qp_warn_on_partial_session p) \<and>
         ra_gap_count a = 0 \<and>
         (case ra_largest_gap_seconds a of None \<Rightarrow> True | Some g \<Rightarrow> \<not> f_lt (qp_maximum_warn_gap_seconds p) g) \<and>
         (if qp_require_dual_frequency_phase p
          then 2 \<le> length (phase_frequencies (rh_observation_types (ra_header a))) else True) \<and>
         ra_parser_warnings a = [] \<and>
         (if qp_require_navigation p
          then \<exists>n. navigation = Some n \<and> np_acquisition_provenance n \<noteq> None else True) \<and>
         (if qp_require_verified_coordinates p
          then \<exists>c. coordinate = Some c \<and> ce_scientifically_valid c \<and> coordinate_applies fromiso c s = Inr True
          else True)"
proof (cases "coordinate_findings fromiso s p coordinate")
  case (Inl e)
  then show ?thesis by (auto simp: classify_session_def coordinate_findings_def split: if_splits)
next
  case (Inr cs)
  have nb: "fd_severity (size_finding s nbytes) = SV_PASS \<longleftrightarrow> nbytes = si_size_bytes s"
    by (simp add: size_finding_def)
  show ?thesis
    by (auto simp: classify_session_def Inr overall_accept_iff temporal_findings_def integrity_pass identity_pass
        sampling_pass completeness_pass gap_pass observation_pass navigation_pass coordinate_pass [OF Inr] nb)
qed

end
