(* ===== verification/Qc_Rinex.thy ===== *)
theory Qc_Rinex
  imports Qc_Classify
begin

text \<open>
  The streaming analysis of a RINEX 2 observation session (\<open>gnss_qc/rinex.py\<close>) with the two timestamp
  parsers of \<open>apps/api\<close> that it calls. A file is the list of its lines, each with its line end; the
  converters write ASCII.
\<close>

section \<open>Timestamps\<close>

definition f_round :: "pyfloat \<Rightarrow> int result" where
  "f_round x =
     (case x of
        PFin r \<Rightarrow> Inr (round_half_even r)
      | PNan \<Rightarrow> Inl (ValueError ''cannot convert float NaN to integer'')
      | _ \<Rightarrow> Inl (OverflowError ''cannot convert float infinity to integer''))"

text \<open>\<open>except ValueError: return ...\<close>\<close>

definition on_value_error :: "'a result \<Rightarrow> 'a \<Rightarrow> 'a result" where
  "on_value_error r x = (case r of Inl (ValueError _) \<Rightarrow> Inr x | _ \<Rightarrow> r)"

definition slice :: "nat \<Rightarrow> nat \<Rightarrow> string \<Rightarrow> string" where
  "slice i j s = take (j - i) (drop i s)"

definition all_digits :: "string \<Rightarrow> bool" where
  "all_digits s \<longleftrightarrow> s \<noteq> [] \<and> list_all is_digit s"

definition epoch_shape :: "string \<Rightarrow> bool" where
  "epoch_shape l \<longleftrightarrow>
     32 \<le> length l \<and> list_all (\<lambda>i. l ! i = CHR '' '') [0, 3, 6, 9, 12, 26, 27, 29] \<and>
     all_digits (slice 1 3 l) \<and> all_digits (slice 28 29 l) \<and> all_digits (str_strip (slice 30 32 l))"

text \<open>The seconds of a timestamp, as whole seconds and rounded microseconds.\<close>

definition split_seconds :: "pyfloat \<Rightarrow> (int \<times> int) result" where
  "split_seconds x =
     bind_result (f_to_int x) (\<lambda>whole.
     bind_result (int_to_float whole) (\<lambda>w.
     bind_result (f_round (f_mul (f_sub x w) (PFin 1000000))) (\<lambda>us. Inr (whole, us))))"

definition rinex2_fields :: "string \<Rightarrow> (py_datetime \<times> int) result" where
  "rinex2_fields l =
     bind_result (int_of_text (slice 1 3 l)) (\<lambda>yy.
     bind_result (int_of_text (slice 4 6 l)) (\<lambda>mo.
     bind_result (int_of_text (slice 7 9 l)) (\<lambda>d.
     bind_result (int_of_text (slice 10 12 l)) (\<lambda>h.
     bind_result (int_of_text (slice 13 15 l)) (\<lambda>mi.
     bind_result (float_of_text (slice 15 26 l)) (\<lambda>x.
     bind_result (split_seconds x) (\<lambda>(s, us).
     bind_result (new_datetime (if yy < 80 then yy + 2000 else yy + 1900) mo d h mi s us (Some 0)) (\<lambda>t.
     bind_result (int_of_text [l ! 28]) (\<lambda>flag. Inr (t, flag))))))))))"

definition parse_rinex2_epoch :: "string \<Rightarrow> (py_datetime \<times> int) option result" where
  "parse_rinex2_epoch l =
     (if \<not> epoch_shape l then Inr None
      else on_value_error (bind_result (rinex2_fields l) (\<lambda>e. Inr (Some e))) None)"

definition epoch_of_fields :: "string list \<Rightarrow> py_datetime result" where
  "epoch_of_fields fs =
     bind_result (bind_result (float_of_text (fs ! 0)) f_to_int) (\<lambda>y.
     bind_result (bind_result (float_of_text (fs ! 1)) f_to_int) (\<lambda>mo.
     bind_result (bind_result (float_of_text (fs ! 2)) f_to_int) (\<lambda>d.
     bind_result (bind_result (float_of_text (fs ! 3)) f_to_int) (\<lambda>h.
     bind_result (bind_result (float_of_text (fs ! 4)) f_to_int) (\<lambda>mi.
     bind_result (bind_result (float_of_text (fs ! 5)) split_seconds) (\<lambda>(s, us).
       new_datetime y mo d h mi s us (Some 0)))))))"

definition parse_epoch_fields :: "string list \<Rightarrow> string list \<Rightarrow> (py_datetime option \<times> string list) result" where
  "parse_epoch_fields fs warnings =
     (if length fs < 6 then Inr (None, warnings)
      else on_value_error (bind_result (epoch_of_fields fs) (\<lambda>t. Inr (Some t, warnings)))
             (None, warnings @ [''could not parse one epoch timestamp'']))"

section \<open>The header\<close>

definition line_label :: "string \<Rightarrow> string" where
  "line_label l = (if 60 \<le> length l then str_strip (slice 60 80 l) else [])"

definition nonempty :: "string \<Rightarrow> string option" where
  "nonempty s = (if s = [] then None else Some s)"

text \<open>\<open>content[i:j].strip() or None\<close>\<close>

definition header_field :: "nat \<Rightarrow> nat \<Rightarrow> string \<Rightarrow> string option" where
  "header_field i j content = nonempty (str_strip (slice i j content))"

definition all_words :: "string \<Rightarrow> string list" where
  "all_words s = split_words (length s) s"

definition float_tuple :: "string \<Rightarrow> nat \<Rightarrow> pyfloat list option" where
  "float_tuple content n =
     (case map_result float_of_text (take n (all_words content)) of Inl e \<Rightarrow> None | Inr xs \<Rightarrow> Some xs)"

definition float_or_none :: "string \<Rightarrow> pyfloat option" where
  "float_or_none s = (case float_of_text s of Inl e \<Rightarrow> None | Inr x \<Rightarrow> Some x)"

definition types_of_line :: "string \<Rightarrow> string list" where
  "types_of_line content =
     filter (\<lambda>v. v \<noteq> []) (map (\<lambda>i. str_strip (slice i (i + 6) content)) [6, 12, 18, 24, 30, 36, 42, 48, 54])"

record header_state =
  hs_header :: rinex_header
  hs_warnings :: "string list"
  hs_count :: "int option"

definition types_line :: "string \<Rightarrow> header_state \<Rightarrow> header_state result" where
  "types_line content s =
     bind_result
       (case hs_count s of
          Some n \<Rightarrow> Inr n
        | None \<Rightarrow>
            (case int_of_text (slice 0 6 content) of
               Inl e \<Rightarrow> Inl (RinexParseError ''invalid observation-type count'') | Inr n \<Rightarrow> Inr n))
       (\<lambda>n. Inr (s\<lparr>hs_count := Some n,
               hs_header := (hs_header s)\<lparr>rh_observation_types :=
                 rh_observation_types (hs_header s) @ types_of_line content\<rparr>\<rparr>))"

definition time_line :: "string \<Rightarrow> header_state \<Rightarrow> (string option \<times> string list) result" where
  "time_line content s =
     bind_result (parse_epoch_fields (all_words (slice 0 43 content)) (hs_warnings s)) (\<lambda>(t, ws).
       Inr (map_option utc_text t, ws))"

definition header_line :: "header_state \<Rightarrow> string \<Rightarrow> header_state result" where
  "header_line s l =
     (let label = line_label l; c = take 60 l; h = hs_header s in
      if label = ''RINEX VERSION / TYPE'' then
        Inr (s\<lparr>hs_header := h\<lparr>rh_rinex_version := header_field 0 9 c, rh_rinex_type := header_field 20 21 c,
               rh_satellite_system := header_field 40 41 c\<rparr>\<rparr>)
      else if label = ''MARKER NAME'' then Inr (s\<lparr>hs_header := h\<lparr>rh_marker_name := header_field 0 60 c\<rparr>\<rparr>)
      else if label = ''MARKER NUMBER'' then Inr (s\<lparr>hs_header := h\<lparr>rh_marker_number := header_field 0 20 c\<rparr>\<rparr>)
      else if label = ''OBSERVER / AGENCY'' then
        Inr (s\<lparr>hs_header := h\<lparr>rh_observer := header_field 0 20 c, rh_agency := header_field 20 40 c\<rparr>\<rparr>)
      else if label = ''REC # / TYPE / VERS'' then
        Inr (s\<lparr>hs_header := h\<lparr>rh_receiver_number := header_field 0 20 c, rh_receiver_type := header_field 20 40 c,
               rh_receiver_version := header_field 40 60 c\<rparr>\<rparr>)
      else if label = ''ANT # / TYPE'' then
        Inr (s\<lparr>hs_header := h\<lparr>rh_antenna_number := header_field 0 20 c, rh_antenna_type := header_field 20 60 c\<rparr>\<rparr>)
      else if label = ''APPROX POSITION XYZ'' then
        Inr (s\<lparr>hs_header := h\<lparr>rh_approximate_xyz_m := float_tuple c 3\<rparr>\<rparr>)
      else if label = ''ANTENNA: DELTA H/E/N'' then
        Inr (s\<lparr>hs_header := h\<lparr>rh_antenna_delta_hen_m := float_tuple c 3\<rparr>\<rparr>)
      else if label = ''# / TYPES OF OBSERV'' then types_line c s
      else if label = ''INTERVAL'' then
        Inr (s\<lparr>hs_header := h\<lparr>rh_declared_interval_seconds := float_or_none (slice 0 10 c)\<rparr>\<rparr>)
      else if label = ''TIME OF FIRST OBS'' then
        bind_result (time_line c s) (\<lambda>(t, ws).
          Inr (s\<lparr>hs_header := h\<lparr>rh_time_of_first_observation := t, rh_time_system := header_field 48 51 c\<rparr>,
                 hs_warnings := ws\<rparr>))
      else if label = ''TIME OF LAST OBS'' then
        bind_result (time_line c s) (\<lambda>(t, ws).
          Inr (s\<lparr>hs_header := h\<lparr>rh_time_of_last_observation := t\<rparr>, hs_warnings := ws\<rparr>))
      else if label = ''LEAP SECONDS'' then
        (case int_of_text (slice 0 6 c) of
           Inr n \<Rightarrow> Inr (s\<lparr>hs_header := h\<lparr>rh_leap_seconds := Some n\<rparr>\<rparr>)
         | Inl e \<Rightarrow> Inr (s\<lparr>hs_warnings := hs_warnings s @ [''invalid LEAP SECONDS value'']\<rparr>))
      else Inr s)"

fun header_lines :: "header_state \<Rightarrow> string list \<Rightarrow> header_state result" where
  "header_lines s [] = Inr s"
| "header_lines s (l # ls) = bind_result (header_line s l) (\<lambda>s'. header_lines s' ls)"

definition type_count_wrong :: "header_state \<Rightarrow> int option" where
  "type_count_wrong s =
     (case hs_count s of
        None \<Rightarrow> None
      | Some n \<Rightarrow> if int (length (rh_observation_types (hs_header s))) = n then None else Some n)"

definition interval_not_positive :: "rinex_header \<Rightarrow> bool" where
  "interval_not_positive h =
     (case rh_declared_interval_seconds h of None \<Rightarrow> False | Some x \<Rightarrow> f_le x f_zero)"

definition parse_header :: "string list \<Rightarrow> (rinex_header \<times> string list) result" where
  "parse_header ls =
     bind_result (header_lines \<lparr>hs_header = no_header, hs_warnings = [], hs_count = None\<rparr> ls) (\<lambda>s.
       case type_count_wrong s of
         Some n \<Rightarrow>
           Inl (RinexParseError (''header declares '' @ str_int n @ '' observation types but lists '' @
             str_nat (length (rh_observation_types (hs_header s)))))
       | None \<Rightarrow>
           if interval_not_positive (hs_header s)
           then Inr ((hs_header s)\<lparr>rh_declared_interval_seconds := None\<rparr>,
                     hs_warnings s @ [''non-positive declared interval ignored''])
           else Inr (hs_header s, hs_warnings s))"

section \<open>The body\<close>

definition CONSTELLATIONS :: "(char \<times> string) list" where
  "CONSTELLATIONS =
     [(CHR ''G'', ''GPS''), (CHR ''R'', ''GLONASS''), (CHR ''E'', ''Galileo''), (CHR ''C'', ''BeiDou''),
      (CHR ''S'', ''SBAS''), (CHR ''J'', ''QZSS''), (CHR ''I'', ''NavIC'')]"

definition constellation_of :: "string \<Rightarrow> string" where
  "constellation_of s =
     (case s of
        [] \<Rightarrow> ''GPS''
      | c # cs \<Rightarrow>
          if is_ascii_alpha c
          then (case map_of CONSTELLATIONS c of Some n \<Rightarrow> n | None \<Rightarrow> ''Other:'' @ [c])
          else ''GPS'')"

definition record_count :: "string \<Rightarrow> int result" where
  "record_count l =
     (case int_of_text (slice 29 32 l) of
        Inl e \<Rightarrow> Inl (RinexParseError ''invalid epoch satellite/event-record count'') | Inr n \<Rightarrow> Inr n)"

definition satellites_of_line :: "string \<Rightarrow> string list" where
  "satellites_of_line l =
     map (\<lambda>s. str_upper (str_strip s))
       (filter (\<lambda>s. str_strip s \<noteq> [])
         (map (\<lambda>i. slice i (i + 3) (slice 32 68 l)) [0, 3, 6, 9, 12, 15, 18, 21, 24, 27, 30, 33]))"

text \<open>\<open>_next\<close> and \<open>_consume\<close>: the next n lines, or the exception of an early end.\<close>

definition take_lines :: "string \<Rightarrow> nat \<Rightarrow> string list \<Rightarrow> (string list \<times> string list) result" where
  "take_lines context n ls =
     (if length ls < n then Inl (RinexParseError (''unexpected EOF while reading '' @ context))
      else Inr (take n ls, drop n ls))"

definition pad_line :: "string \<Rightarrow> string" where
  "pad_line l =
     (let s = rev (dropWhile (\<lambda>c. c = CHR 0x0A) (rev l)) in s @ replicate (80 - length s) (CHR '' ''))"

definition slip_in_field :: "string \<Rightarrow> bool" where
  "slip_in_field f \<longleftrightarrow>
     15 \<le> length f \<and> str_strip (take 14 f) \<noteq> [] \<and> is_digit (f ! 14) \<and> f ! 14 \<noteq> CHR ''0''"

definition count_phase_lli :: "string list \<Rightarrow> string list \<Rightarrow> nat" where
  "count_phase_lli rows types =
     (let joined = concat (map pad_line rows) in
      length (filter (\<lambda>i. take 1 (types ! i) = ''L'' \<and> slip_in_field (slice (i * 16) ((i + 1) * 16) joined))
        [0..<length types]))"

fun dict_append :: "(string \<times> nat list) list \<Rightarrow> string \<Rightarrow> nat \<Rightarrow> (string \<times> nat list) list" where
  "dict_append [] k n = [(k, [n])]"
| "dict_append ((k', ns) # d) k n = (if k = k' then (k', ns @ [n]) # d else (k', ns) # dict_append d k n)"

definition add_counts :: "(string \<times> nat list) list \<Rightarrow> string list \<Rightarrow> (string \<times> nat list) list" where
  "add_counts d cs =
     foldl (\<lambda>d k. dict_append d k (count_list cs k)) d (remdups (map snd CONSTELLATIONS @ cs))"

record body_state =
  bs_epochs :: "py_datetime list"
  bs_counts :: "nat list"
  bs_constellations :: "(string \<times> nat list) list"
  bs_slips :: nat
  bs_warnings :: "string list"

definition satellite_list :: "string \<Rightarrow> nat \<Rightarrow> string list \<Rightarrow> (string list \<times> string list) result" where
  "satellite_list l n ls =
     bind_result (take_lines ''satellite-list continuation'' ((n + 11) div 12 - 1) ls) (\<lambda>(cont, rest).
       Inr (take n (concat (map satellites_of_line (l # cont))), rest))"

text \<open>The observation rows of each satellite, and the loss-of-lock indicators in them.\<close>

fun observation_rows ::
  "string list \<Rightarrow> 'a list \<Rightarrow> string list \<Rightarrow> (nat \<times> string list) result"
where
  "observation_rows types [] ls = Inr (0, ls)"
| "observation_rows types (s # ss) ls =
     bind_result (take_lines ''satellite observation records'' ((length types + 4) div 5) ls) (\<lambda>(rows, rest).
     bind_result (observation_rows types ss rest) (\<lambda>(k, rest').
       Inr (count_phase_lli rows types + k, rest')))"

definition normal_epoch ::
  "string list \<Rightarrow> py_datetime \<Rightarrow> nat \<Rightarrow> string \<Rightarrow> body_state \<Rightarrow> string list \<Rightarrow> (body_state \<times> string list) result"
where
  "normal_epoch types t n l st ls =
     bind_result (satellite_list l n ls) (\<lambda>(ids, rest).
       if length ids \<noteq> n then
         Inl (RinexParseError (''epoch '' @ utc_text t @ '' declares '' @ str_nat n @
           '' satellites but lists '' @ str_nat (length ids)))
       else
         bind_result (observation_rows types ids rest) (\<lambda>(k, rest').
           Inr (st\<lparr>bs_epochs := bs_epochs st @ [t], bs_counts := bs_counts st @ [n],
                  bs_constellations := add_counts (bs_constellations st) (map constellation_of ids),
                  bs_slips := bs_slips st + k\<rparr>, rest')))"

definition body_line ::
  "string list \<Rightarrow> string \<Rightarrow> body_state \<Rightarrow> string list \<Rightarrow> (body_state \<times> string list) result"
where
  "body_line types l st ls =
     bind_result (parse_rinex2_epoch l) (\<lambda>parsed.
       case parsed of
         None \<Rightarrow>
           Inr (if str_strip l \<noteq> []
                then st\<lparr>bs_warnings := bs_warnings st @ [''unrecognised non-empty body line outside an epoch'']\<rparr>
                else st, ls)
       | Some (t, flag) \<Rightarrow>
           bind_result (record_count l) (\<lambda>n.
             if flag \<noteq> 0 \<and> flag \<noteq> 1
             then bind_result (take_lines ''special-event records'' (nat n) ls) (\<lambda>(skipped, rest). Inr (st, rest))
             else normal_epoch types t (nat n) l st ls))"

lemma bind_result_cong [fundef_cong]:
  "r = r' \<Longrightarrow> (\<And>x. r' = Inr x \<Longrightarrow> f x = g x) \<Longrightarrow> bind_result r f = bind_result r' g"
  by (cases r') auto

lemma take_lines_Inr [simp]: "take_lines c n ls = Inr (xs, rest) \<longleftrightarrow> n \<le> length ls \<and> xs = take n ls \<and> rest = drop n ls"
  by (auto simp: take_lines_def)

lemma observation_rows_length:
  "observation_rows types ss ls = Inr (k, rest) \<Longrightarrow> rest = drop (length ss * ((length types + 4) div 5)) ls"
proof (induction types ss ls arbitrary: k rest rule: observation_rows.induct)
  case (2 types s ss ls)
  let ?q = "(length types + 4) div 5"
  obtain k' where "?q \<le> length ls" "observation_rows types ss (drop ?q ls) = Inr (k', rest)" using 2(2) by auto
  with 2(1) [of "drop ?q ls"]
  have "rest = drop (length ss * ?q) (drop ?q ls)" by simp
  then show ?case by (simp add: add.commute)
qed simp

lemma satellite_list_Inr:
  "satellite_list l n ls = Inr (ids, rest) \<Longrightarrow> length ids \<le> n \<and> rest = drop ((n + 11) div 12 - 1) ls"
  by (auto simp: satellite_list_def)

lemma body_line_rest:
  assumes "body_line types l st ls = Inr (st', rest)" shows "length rest \<le> length ls"
  using assms
  by (auto simp: body_line_def normal_epoch_def dest!: observation_rows_length satellite_list_Inr
      split: option.splits if_splits)

function body_loop :: "string list \<Rightarrow> string list \<Rightarrow> body_state \<Rightarrow> body_state result" where
  "body_loop types [] st = Inr st"
| "body_loop types (l # ls) st =
     bind_result (body_line types l st ls) (\<lambda>(st', rest). body_loop types rest st')"
  by pat_completeness auto
termination
  by (relation "measure (\<lambda>(types, ls, st). length ls)") (auto simp: less_Suc_eq_le dest: body_line_rest)

text \<open>The lines up to and including the end of the header, and the body.\<close>

definition split_header :: "string list \<Rightarrow> (string list \<times> string list) result" where
  "split_header ls =
     (case dropWhile (\<lambda>l. line_label l \<noteq> ''END OF HEADER'') ls of
        [] \<Rightarrow> Inl (RinexParseError ''END OF HEADER not found'')
      | e # body \<Rightarrow> Inr (takeWhile (\<lambda>l. line_label l \<noteq> ''END OF HEADER'') ls @ [e], body))"

definition require_rinex2 :: "rinex_header \<Rightarrow> unit result" where
  "require_rinex2 h =
     (case rh_rinex_version h of
        None \<Rightarrow> Inl (RinexParseError ''Phase 4 historical parser requires RINEX 2.x; got None'')
      | Some v \<Rightarrow>
          if take 1 v \<noteq> ''2'' then
            Inl (RinexParseError (''Phase 4 historical parser requires RINEX 2.x; got '' @ repr_str v))
          else if rh_observation_types h = [] then
            Inl (RinexParseError ''# / TYPES OF OBSERV not found or empty'')
          else Inr ())"

definition parse_session :: "string list \<Rightarrow> (rinex_header \<times> body_state) result" where
  "parse_session ls =
     bind_result (split_header ls) (\<lambda>(header_part, body).
     bind_result (parse_header header_part) (\<lambda>(h, ws).
     bind_result (require_rinex2 h) (\<lambda>_.
     bind_result
       (body_loop (rh_observation_types h) body
          \<lparr>bs_epochs = [], bs_counts = [], bs_constellations = [], bs_slips = 0, bs_warnings = ws\<rparr>) (\<lambda>st.
       if bs_epochs st = [] then Inl (RinexParseError ''no normal observation epochs found'')
       else Inr (h, st)))))"

section \<open>The measurements\<close>

text \<open>\<open>timedelta(seconds=x)\<close> in microseconds, and a date plus a difference.\<close>

definition timedelta_micros :: "pyfloat \<Rightarrow> int result" where
  "timedelta_micros x =
     (case x of
        PFin r \<Rightarrow>
          (let whole = rat_trunc r;
               part = (case round64 (1000000 * (r - of_int whole)) of PFin q \<Rightarrow> q | _ \<Rightarrow> 0);
               us = round_half_even (of_int (whole * 1000000) + part);
               days = us div 86400000000
           in if 999999999 < \<bar>days\<bar> then
                Inl (OverflowError (''days='' @ str_int days @ ''; must have magnitude <= 999999999''))
              else Inr us)
      | PNan \<Rightarrow> Inl (ValueError ''cannot convert float NaN to integer'')
      | _ \<Rightarrow> Inl (OverflowError ''cannot convert float infinity to integer''))"

definition date_plus :: "int \<Rightarrow> int \<Rightarrow> int result" where
  "date_plus t us =
     (let day = (t + us) div 86400000000 in
      if 1 \<le> day \<and> day \<le> 3652059 then Inr (t + us) else Inl (OverflowError ''date value out of range''))"

definition micros_between :: "py_datetime \<Rightarrow> py_datetime \<Rightarrow> int" where
  "micros_between a b = instant b - instant a"

fun adjacent :: "'a list \<Rightarrow> ('a \<times> 'a) list" where
  "adjacent (x # y # xs) = (x, y) # adjacent (y # xs)"
| "adjacent _ = []"

text \<open>\<open>statistics.median\<close> of floats, and of counts as a float.\<close>

definition median_by :: "('a \<Rightarrow> 'a \<Rightarrow> bool) \<Rightarrow> ('a \<Rightarrow> 'a \<Rightarrow> 'b) \<Rightarrow> ('a \<Rightarrow> 'b) \<Rightarrow> 'a list \<Rightarrow> 'b" where
  "median_by lt mean single xs =
     (let s = sort_by lt xs; n = length s in
      if odd n then single (s ! (n div 2)) else mean (s ! (n div 2 - 1)) (s ! (n div 2)))"

definition median_float :: "pyfloat list \<Rightarrow> pyfloat" where
  "median_float = median_by f_lt (\<lambda>a b. f_quot (f_add a b) (PFin 2)) (\<lambda>a. a)"

definition median_count :: "nat list \<Rightarrow> pyfloat" where
  "median_count = median_by (<) (\<lambda>a b. round64 (of_nat (a + b) / 2)) (\<lambda>a. round64 (of_nat a))"

fun optional_result :: "('a \<Rightarrow> 'b result) \<Rightarrow> 'a option \<Rightarrow> 'b option result" where
  "optional_result f None = Inr None"
| "optional_result f (Some x) = bind_result (f x) (\<lambda>y. Inr (Some y))"

definition truthy_float :: "pyfloat option \<Rightarrow> pyfloat option" where
  "truthy_float x = (if x = Some f_zero then None else x)"

definition gap_of :: "pyfloat \<Rightarrow> py_datetime \<times> py_datetime \<Rightarrow> gap_record option result" where
  "gap_of interval e =
     (case e of (a, b) \<Rightarrow>
        let elapsed = total_seconds (micros_between a b) in
        if \<not> f_lt interval elapsed then Inr None
        else
          bind_result (bind_result (f_div elapsed interval) f_round) (\<lambda>n.
            Inr (Some \<lparr>gp_start = utc_text a, gp_end = utc_text b, gp_elapsed_seconds = elapsed,
                       gp_expected_interval_seconds = interval, gp_missing_epochs = max (n - 1) 0\<rparr>)))"

definition gaps_of :: "pyfloat option \<Rightarrow> py_datetime list \<Rightarrow> gap_record list result" where
  "gaps_of interval epochs =
     (case interval of
        None \<Rightarrow> Inr []
      | Some i \<Rightarrow>
          bind_result (map_result (gap_of i) (adjacent epochs)) (\<lambda>gs. Inr (List.map_filter (\<lambda>g. g) gs)))"

text \<open>\<open>max(round(x / interval), 0)\<close>\<close>

definition missing_at :: "pyfloat \<Rightarrow> pyfloat option \<Rightarrow> int result" where
  "missing_at x interval =
     (case interval of
        None \<Rightarrow> Inr 0
      | Some i \<Rightarrow> bind_result (bind_result (f_div x i) f_round) (\<lambda>n. Inr (max n 0)))"

definition constellation_stat_of :: "nat list \<Rightarrow> constellation_stat" where
  "constellation_stat_of ns =
     \<lparr>ct_epochs_present = length (filter (\<lambda>n. 0 < n) ns), ct_minimum_per_epoch = Min (set ns),
      ct_median_per_epoch = median_count ns, ct_maximum_per_epoch = Max (set ns)\<rparr>"

definition constellation_statistics :: "(string \<times> nat list) list \<Rightarrow> (string \<times> constellation_stat) list" where
  "constellation_statistics d =
     map (\<lambda>(k, ns). (k, constellation_stat_of ns)) (filter (\<lambda>(k, ns). list_ex (\<lambda>n. 0 < n) ns) (sort_key fst d))"

definition availability :: "nat \<Rightarrow> int option \<Rightarrow> pyfloat option result" where
  "availability unique expected =
     (case expected of
        None \<Rightarrow> Inr None
      | Some n \<Rightarrow>
          if n = 0 then Inr None
          else
            bind_result (int_to_float (int unique)) (\<lambda>u.
            bind_result (int_to_float n) (\<lambda>x.
            bind_result (f_div (f_mul (PFin 100) u) x) (\<lambda>p. Inr (Some p)))))"

definition remdups_first :: "'a list \<Rightarrow> 'a list" where
  "remdups_first xs = rev (remdups (rev xs))"

definition positive_intervals :: "py_datetime list \<Rightarrow> pyfloat list" where
  "positive_intervals epochs =
     map (\<lambda>(a, b). total_seconds (micros_between a b)) (filter (\<lambda>(a, b). instant a < instant b) (adjacent epochs))"

definition empirical_interval :: "py_datetime list \<Rightarrow> pyfloat option" where
  "empirical_interval epochs =
     (if positive_intervals epochs = [] then None else Some (median_float (positive_intervals epochs)))"

definition used_interval :: "rinex_header \<Rightarrow> py_datetime list \<Rightarrow> pyfloat option" where
  "used_interval h epochs =
     (case truthy_float (rh_declared_interval_seconds h) of None \<Rightarrow> empirical_interval epochs | Some x \<Rightarrow> Some x)"

definition session_analysis :: "rinex_header \<Rightarrow> body_state \<Rightarrow> int \<Rightarrow> int \<Rightarrow> rinex_analysis result" where
  "session_analysis h st year doy =
     (let epochs = bs_epochs st;
          intervals = positive_intervals epochs;
          empirical = empirical_interval epochs;
          interval = used_interval h epochs;
          usable = truthy_float interval;
          first = hd epochs;
          final = last epochs
      in
      bind_result (gaps_of interval epochs) (\<lambda>gaps.
      bind_result (day_start year doy) (\<lambda>day.
      bind_result (optional_result (\<lambda>i. bind_result (f_div (PFin 86400) i) f_round) usable) (\<lambda>expected.
      let unique = length (remdups (map instant epochs));
          start_offset = total_seconds (instant first - day)
      in
      bind_result (optional_result (\<lambda>i. bind_result (timedelta_micros (f_sub (PFin 86400) i)) (date_plus day)) usable)
        (\<lambda>expected_last.
      let shortfall = map_option (\<lambda>t. total_seconds (t - instant final)) expected_last in
      bind_result (missing_at start_offset usable) (\<lambda>start_missing.
      bind_result (missing_at (case shortfall of None \<Rightarrow> f_zero | Some x \<Rightarrow> x) usable) (\<lambda>end_missing.
      let internal = sum_list (map gp_missing_epochs gaps);
          missing = map_option (\<lambda>_. start_missing + internal + end_missing) usable
      in
      bind_result (availability unique expected) (\<lambda>avail.
      bind_result
        (case (missing, usable) of
           (Some m, Some i) \<Rightarrow> bind_result (int_to_float m) (\<lambda>x. Inr (Some (f_mul x i)))
         | _ \<Rightarrow> Inr None) (\<lambda>missing_duration.
        Inr \<lparr>ra_header = h, ra_first_epoch = Some (utc_text first), ra_last_epoch = Some (utc_text final),
             ra_session_duration_seconds =
               Some (f_add (total_seconds (instant final - instant first))
                 (case usable of None \<Rightarrow> f_zero | Some i \<Rightarrow> i)),
             ra_expected_session_duration_seconds = map_option (\<lambda>_. PFin 86400) usable,
             ra_declared_interval_seconds = rh_declared_interval_seconds h,
             ra_empirical_interval_seconds = empirical,
             ra_interval_consistent =
               (case interval of
                  None \<Rightarrow> None
                | Some i \<Rightarrow> if intervals = [] then None else Some (list_all (\<lambda>v. f_eq v i) intervals)),
             ra_epochs_expected = expected, ra_epochs_observed = length epochs,
             ra_unique_epochs_observed = unique, ra_missing_epochs = missing,
             ra_availability_percent = avail,
             ra_duplicate_epochs = length (filter (\<lambda>(a, b). instant b = instant a) (adjacent epochs)),
             ra_backward_epochs = length (filter (\<lambda>(a, b). instant b < instant a) (adjacent epochs)),
             ra_gap_count = length gaps,
             ra_largest_gap_seconds = (if gaps = [] then None else Some (f_max (map gp_elapsed_seconds gaps))),
             ra_total_missing_duration_seconds = missing_duration,
             ra_start_offset_seconds = Some start_offset, ra_end_shortfall_seconds = shortfall,
             ra_satellites_min = Some (int (Min (set (bs_counts st)))),
             ra_satellites_median = Some (median_count (bs_counts st)),
             ra_satellites_max = Some (int (Max (set (bs_counts st)))),
             ra_constellation_statistics = constellation_statistics (bs_constellations st),
             ra_potential_cycle_slip_indicators = bs_slips st, ra_gaps = gaps,
             ra_parser_warnings = remdups_first (bs_warnings st)\<rparr>)))))))))"

definition analyse_rinex2 :: "string list \<Rightarrow> int \<Rightarrow> int \<Rightarrow> rinex_analysis result" where
  "analyse_rinex2 ls year doy =
     bind_result (parse_session ls) (\<lambda>(h, st). session_analysis h st year doy)"

end
