(* ===== verification/Qc_Session.thy ===== *)
theory Qc_Session
  imports Qc_Rinex
begin

text \<open>
  What the analysis of a session promises: the records it counts are in the file, its measurements fit
  together, and a session that is then accepted has increasing epochs with no gap between them.
\<close>

section \<open>The body of a file\<close>

lemma dict_append_sum:
  "sum_list (map (\<lambda>e. sum_list (snd e)) (dict_append d k n)) = sum_list (map (\<lambda>e. sum_list (snd e)) d) + n"
  by (induction d k n rule: dict_append.induct) auto

lemma foldl_dict_append_sum:
  "sum_list (map (\<lambda>e. sum_list (snd e)) (foldl (\<lambda>d k. dict_append d k (f k)) d ks)) =
     sum_list (map (\<lambda>e. sum_list (snd e)) d) + sum_list (map f ks)"
  by (induction ks arbitrary: d) (auto simp: dict_append_sum)

lemma sum_counts_remdups:
  assumes "set cs \<subseteq> set ks" shows "sum_list (map (count_list cs) (remdups ks)) = length cs"
proof -
  have "sum_list (map (count_list cs) (remdups ks)) = sum (count_list cs) (set ks)"
    by (simp add: sum_list_distinct_conv_sum_set)
  also have "\<dots> = sum (count_list cs) (set cs)"
    using assms by (intro sum.mono_neutral_right) (auto simp: count_list_0_iff)
  finally show ?thesis by (simp add: sum_count_set)
qed

lemma add_counts_sum:
  "sum_list (map (\<lambda>e. sum_list (snd e)) (add_counts d cs)) = sum_list (map (\<lambda>e. sum_list (snd e)) d) + length cs"
  by (simp only: add_counts_def foldl_dict_append_sum sum_counts_remdups set_append Un_upper2)

text \<open>The lines of an epoch with n satellites: its own, the continuations, and the observations.\<close>

definition epoch_lines :: "string list \<Rightarrow> nat \<Rightarrow> nat" where
  "epoch_lines types n = 1 + ((n + 11) div 12 - 1) + n * ((length types + 4) div 5)"

definition body_inv :: "string list \<Rightarrow> nat \<Rightarrow> body_state \<Rightarrow> bool" where
  "body_inv types used st \<longleftrightarrow>
     length (bs_counts st) = length (bs_epochs st) \<and>
     sum_list (map (\<lambda>e. sum_list (snd e)) (bs_constellations st)) = sum_list (bs_counts st) \<and>
     sum_list (map (epoch_lines types) (bs_counts st)) \<le> used \<and>
     (\<forall>t \<in> set (bs_epochs st). dt_offset t = Some 0)"

lemma observation_rows_enough:
  "observation_rows types ss ls = Inr (k, rest) \<Longrightarrow> length ss * ((length types + 4) div 5) \<le> length ls"
proof (induction types ss ls arbitrary: k rest rule: observation_rows.induct)
  case (2 types s ss ls)
  let ?q = "(length types + 4) div 5"
  obtain k' where "?q \<le> length ls" "observation_rows types ss (drop ?q ls) = Inr (k', rest)" using 2(2) by auto
  with 2(1) [of "drop ?q ls"] show ?case by simp
qed simp

lemma on_value_error_Inr: "on_value_error r x = Inr y \<Longrightarrow> r = Inr y \<or> y = x"
  by (auto simp: on_value_error_def split: sum.splits py_error.splits)

lemma parse_epoch_utc: "parse_rinex2_epoch l = Inr (Some (t, flag)) \<Longrightarrow> dt_offset t = Some 0"
  by (auto simp: parse_rinex2_epoch_def rinex2_fields_def split: if_splits dest!: on_value_error_Inr new_datetime_ok)

lemma normal_epoch_inv:
  assumes "normal_epoch types t n l st ls = Inr (st', rest)" and "dt_offset t = Some 0" and "body_inv types used st"
  shows "body_inv types (used + 1 + (length ls - length rest)) st' \<and> length rest \<le> length ls"
proof -
  obtain ids mid k where s: "satellite_list l n ls = Inr (ids, mid)" "length ids = n"
    and o: "observation_rows types ids mid = Inr (k, rest)"
    and st': "st' = st\<lparr>bs_epochs := bs_epochs st @ [t], bs_counts := bs_counts st @ [n],
        bs_constellations := add_counts (bs_constellations st) (map constellation_of ids), bs_slips := bs_slips st + k\<rparr>"
    using assms(1) by (auto simp: normal_epoch_def split: if_splits)
  let ?q = "(length types + 4) div 5"
  have mid: "mid = drop ((n + 11) div 12 - 1) ls" "(n + 11) div 12 - 1 \<le> length ls"
    using s(1) by (auto simp: satellite_list_def)
  have rest: "rest = drop (n * ?q) mid" "n * ?q \<le> length mid"
    using observation_rows_length [OF o] observation_rows_enough [OF o] s(2) by auto
  have "epoch_lines types n = 1 + (length ls - length rest)" using mid rest by (simp add: epoch_lines_def)
  moreover have "length rest \<le> length ls" using mid rest by simp
  ultimately show ?thesis using assms(2,3) s(2) by (auto simp: st' body_inv_def add_counts_sum)
qed

lemma body_inv_mono: "body_inv types used st \<Longrightarrow> used \<le> used' \<Longrightarrow> body_inv types used' st"
  by (auto simp: body_inv_def)

lemma body_line_inv:
  assumes "body_line types l st ls = Inr (st', rest)" and "body_inv types used st"
  shows "body_inv types (used + 1 + (length ls - length rest)) st' \<and> length rest \<le> length ls"
proof -
  obtain parsed where p: "parse_rinex2_epoch l = Inr parsed" using assms(1) by (auto simp: body_line_def)
  show ?thesis
  proof (cases parsed)
    case None
    with p assms have "rest = ls" "body_inv types used st'"
      by (auto simp: body_line_def body_inv_def split: if_splits)
    then show ?thesis by (auto intro: body_inv_mono)
  next
    case (Some e)
    then obtain t flag where e: "parsed = Some (t, flag)" by (cases e) auto
    with p assms(1) consider
        (special) n where "st' = st" "rest = drop n ls"
      | (normal) n where "normal_epoch types t n l st ls = Inr (st', rest)"
      by (auto simp: body_line_def split: if_splits)
    then show ?thesis
    proof cases
      case special
      with assms(2) show ?thesis by (auto intro: body_inv_mono)
    next
      case normal
      with p e assms(2) show ?thesis by (intro normal_epoch_inv) (auto dest: parse_epoch_utc)
    qed
  qed
qed

lemma body_loop_inv:
  "body_loop types ls st = Inr st' \<Longrightarrow> body_inv types used st \<Longrightarrow> body_inv types (used + length ls) st'"
proof (induction types ls st arbitrary: used rule: body_loop.induct)
  case (2 types l ls st)
  then obtain st1 rest where l: "body_line types l st ls = Inr (st1, rest)" "body_loop types rest st1 = Inr st'"
    by auto
  from body_line_inv [OF l(1) 2(3)]
  have i: "body_inv types (used + 1 + (length ls - length rest)) st1" "length rest \<le> length ls" by auto
  from 2(1) [OF l(1) refl l(2) i(1)] i(2) show ?case by simp
qed simp

lemma parse_session_inv:
  assumes "parse_session ls = Inr (h, st)"
  shows "body_inv (rh_observation_types h) (length ls) st \<and> bs_epochs st \<noteq> [] \<and>
    rh_observation_types h \<noteq> [] \<and> (\<exists>v. rh_rinex_version h = Some v \<and> take 1 v = ''2'')"
proof -
  obtain hp body ws where p: "split_header ls = Inr (hp, body)" "parse_header hp = Inr (h, ws)"
      "require_rinex2 h = Inr ()"
      "body_loop (rh_observation_types h) body
         \<lparr>bs_epochs = [], bs_counts = [], bs_constellations = [], bs_slips = 0, bs_warnings = ws\<rparr> = Inr st"
      "bs_epochs st \<noteq> []"
    using assms by (auto simp: parse_session_def split: if_splits)
  have "length body \<le> length ls"
    using p(1) dropWhile_eq_drop [of "\<lambda>l. line_label l \<noteq> ''END OF HEADER''" ls]
    by (auto simp: split_header_def split: list.splits dest!: arg_cong [of _ _ length])
  moreover have "body_inv (rh_observation_types h) (0 + length body) st"
    by (rule body_loop_inv [OF p(4)]) (simp add: body_inv_def)
  ultimately show ?thesis
    using p(3,5) body_inv_mono by (fastforce simp: require_rinex2_def split: option.splits if_splits)
qed


section \<open>The measurements\<close>

lemma adjacent_all: "list_all (\<lambda>(a, b). R a b) (adjacent xs) \<longleftrightarrow> successively R xs"
  by (induction xs rule: adjacent.induct) auto

lemma length_adjacent: "length (adjacent xs) = length xs - 1"
  by (induction xs rule: adjacent.induct) auto

lemma filter_none: "filter P xs = [] \<longleftrightarrow> list_all (\<lambda>x. \<not> P x) xs"
  by (induction xs) auto

text \<open>Neither a repeated nor a backward step: the instants increase.\<close>

lemma increasing_iff:
  "filter (\<lambda>(a, b). instant b = instant a) (adjacent ts) = [] \<and>
   filter (\<lambda>(a, b). instant b < instant a) (adjacent ts) = [] \<longleftrightarrow> sorted_wrt (<) (map instant ts)"
proof -
  have "sorted_wrt (<) (map instant ts) \<longleftrightarrow> successively (\<lambda>a b. instant a < instant b) ts"
    by (subst successively_conv_sorted_wrt [symmetric]) (auto simp: successively_map transp_def)
  also have "\<dots> \<longleftrightarrow> list_all (\<lambda>(a, b). instant a < instant b) (adjacent ts)" by (rule adjacent_all [symmetric])
  finally show ?thesis by (auto simp: filter_none list_all_iff) fastforce
qed

lemma map_filter_gap_Nil:
  "map_result (gap_of i) xs = Inr gs \<Longrightarrow> List.map_filter (\<lambda>g. g) gs = [] \<Longrightarrow>
     list_all (\<lambda>(a, b). \<not> f_lt i (total_seconds (micros_between a b))) xs"
  by (induction xs arbitrary: gs) (auto simp: gap_of_def Let_def split: if_splits)

lemma gap_of_value: "gap_of i e = Inr (Some g) \<Longrightarrow>
    f_lt i (gp_elapsed_seconds g) \<and> gp_expected_interval_seconds g = i \<and> 0 \<le> gp_missing_epochs g"
  by (auto simp: gap_of_def Let_def split: prod.splits if_splits)

lemma gaps_found:
  "map_result (gap_of i) xs = Inr gs \<Longrightarrow> g \<in> set (List.map_filter (\<lambda>g. g) gs) \<Longrightarrow>
     f_lt i (gp_elapsed_seconds g) \<and> gp_expected_interval_seconds g = i \<and> 0 \<le> gp_missing_epochs g"
  by (induction xs arbitrary: gs) (auto split: option.splits dest: gap_of_value)

lemma map_filter_length: "length (List.map_filter f xs) \<le> length xs"
  by (induction xs) (auto split: option.split)

lemma total_seconds_number: "total_seconds us \<noteq> PNan"
  by (simp add: total_seconds_def round64_def Let_def)

lemma missing_at_number [simp]: "missing_at x (Some PNan) \<noteq> Inr n"
  by (cases x) (auto simp: missing_at_def f_div_def f_quot_def f_round_def)

lemma analysis_fields:
  assumes "session_analysis h st year doy = Inr a"
  shows "ra_header a = h" "ra_epochs_observed a = length (bs_epochs st)"
    "ra_unique_epochs_observed a = length (remdups (map instant (bs_epochs st)))"
    "ra_duplicate_epochs a = length (filter (\<lambda>(a, b). instant b = instant a) (adjacent (bs_epochs st)))"
    "ra_backward_epochs a = length (filter (\<lambda>(a, b). instant b < instant a) (adjacent (bs_epochs st)))"
    "ra_parser_warnings a = remdups_first (bs_warnings st)"
    "gaps_of (used_interval h (bs_epochs st)) (bs_epochs st) = Inr (ra_gaps a)"
    "ra_gap_count a = length (ra_gaps a)"
    "ra_empirical_interval_seconds a = empirical_interval (bs_epochs st)"
    "ra_largest_gap_seconds a = None \<longleftrightarrow> ra_gaps a = []"
    "ra_satellites_min a = Some (int (Min (set (bs_counts st))))"
    "ra_satellites_max a = Some (int (Max (set (bs_counts st))))"
    "ra_constellation_statistics a = constellation_statistics (bs_constellations st)"
    "truthy_float (used_interval h (bs_epochs st)) \<noteq> Some PNan"
  using assms by (auto simp: session_analysis_def Let_def split: if_splits)


section \<open>Properties\<close>

lemma min_max_counts: "xs \<noteq> [] \<Longrightarrow> Min (set xs) \<le> Max (set (xs :: nat list))"
  by (meson List.finite_set Max_ge Min_in order.trans order_refl set_empty Min_le)

lemma constellation_statistics_seen:
  "list_all (\<lambda>(k, c). 0 < ct_epochs_present c \<and> 0 < ct_maximum_per_epoch c) (constellation_statistics d)"
proof -
  have "0 < ct_epochs_present (constellation_stat_of ns) \<and> 0 < ct_maximum_per_epoch (constellation_stat_of ns)"
    if "list_ex (\<lambda>n. 0 < n) ns" for ns
  proof -
    from that obtain n where "n \<in> set ns" "0 < n" by (auto simp: list_ex_iff)
    then have "filter (\<lambda>n. 0 < n) ns \<noteq> []" "n \<le> Max (set ns)" by (auto simp: filter_empty_conv)
    with \<open>0 < n\<close> show ?thesis by (simp add: constellation_stat_of_def)
  qed
  then show ?thesis by (auto simp: constellation_statistics_def list_all_iff)
qed

lemma steps_bound:
  "length (filter (\<lambda>(a, b). instant b = instant a) es) + length (filter (\<lambda>(a, b). instant b < instant a) es) \<le> length es"
  by (induction es) auto

lemma gaps_of_facts:
  assumes "gaps_of interval ts = Inr gs" and "ts \<noteq> []"
  shows "length gs < length ts \<and>
    list_all (\<lambda>g. f_lt (gp_expected_interval_seconds g) (gp_elapsed_seconds g) \<and> 0 \<le> gp_missing_epochs g) gs"
proof (cases interval)
  case (Some i)
  with assms obtain rs where r: "map_result (gap_of i) (adjacent ts) = Inr rs" "gs = List.map_filter (\<lambda>g. g) rs"
    by (auto simp: gaps_of_def)
  have "length rs = length (adjacent ts)" using r(1) by (auto simp: map_result_Inr_iff dest: list_all2_lengthD)
  then have "length gs \<le> length ts - 1" using map_filter_length [of "\<lambda>g. g" rs] r(2) by (simp add: length_adjacent)
  moreover have "0 < length ts" using assms(2) by simp
  ultimately have "length gs < length ts" by linarith
  with gaps_found [OF r(1)] r(2) show ?thesis by (auto simp: list_all_iff)
qed (use assms in \<open>simp add: gaps_of_def\<close>)

text \<open>
  C28. The measurements of a session fit together (\<open>analyse_rinex2\<close>). At least one epoch is observed;
  repeated and backward steps and gaps are fewer than epochs, and without the former every epoch is
  unique; every gap is longer than the interval it is measured by; each constellation reported has
  been seen; no warning is reported twice; and the records counted fit into the file.
\<close>

theorem measured_session_consistent:
  "case analyse_rinex2 ls year doy of
     Inl e \<Rightarrow> True
   | Inr a \<Rightarrow>
       0 < ra_unique_epochs_observed a \<and> ra_unique_epochs_observed a \<le> ra_epochs_observed a \<and>
       ra_duplicate_epochs a + ra_backward_epochs a < ra_epochs_observed a \<and>
       (if ra_duplicate_epochs a = 0 \<and> ra_backward_epochs a = 0
        then ra_unique_epochs_observed a = ra_epochs_observed a else True) \<and>
       ra_gap_count a = length (ra_gaps a) \<and> ra_gap_count a < ra_epochs_observed a \<and>
       (ra_largest_gap_seconds a = None \<longleftrightarrow> ra_gap_count a = 0) \<and>
       list_all (\<lambda>g. f_lt (gp_expected_interval_seconds g) (gp_elapsed_seconds g) \<and> 0 \<le> gp_missing_epochs g) (ra_gaps a) \<and>
       (case (ra_satellites_min a, ra_satellites_max a) of (Some m, Some n) \<Rightarrow> 0 \<le> m \<and> m \<le> n | _ \<Rightarrow> False) \<and>
       list_all (\<lambda>(k, c). 0 < ct_epochs_present c \<and> 0 < ct_maximum_per_epoch c) (ra_constellation_statistics a) \<and>
       distinct (ra_parser_warnings a) \<and> ra_epochs_observed a \<le> length ls \<and>
       rh_observation_types (ra_header a) \<noteq> []"
proof (cases "analyse_rinex2 ls year doy")
  case (Inr a)
  then obtain h st where p: "parse_session ls = Inr (h, st)" and a: "session_analysis h st year doy = Inr a"
    by (auto simp: analyse_rinex2_def)
  let ?es = "bs_epochs st"
  note inv = parse_session_inv [OF p] and f = analysis_fields [OF a]
  have ne: "?es \<noteq> []" "bs_counts st \<noteq> []" using inv by (auto simp: body_inv_def)
  then have pos: "0 < length ?es" by simp
  have "0 < length (remdups (map instant ?es))" using ne by simp
  moreover have "length (remdups (map instant ?es)) \<le> length ?es" by (metis length_remdups_leq length_map)
  moreover have "ra_unique_epochs_observed a = ra_epochs_observed a"
    if "ra_duplicate_epochs a = 0 \<and> ra_backward_epochs a = 0"
  proof -
    from that have "sorted_wrt (<) (map instant ?es)" by (simp add: f flip: increasing_iff)
    then have "distinct (map instant ?es)" by (simp add: strict_sorted_iff)
    then show ?thesis by (simp add: f distinct_remdups_id)
  qed
  moreover have "ra_duplicate_epochs a + ra_backward_epochs a < ra_epochs_observed a"
    using steps_bound [of "adjacent ?es"] pos unfolding f length_adjacent by linarith
  moreover have "length ?es \<le> length ls"
  proof -
    have "sum_list (map (epoch_lines (rh_observation_types h)) (bs_counts st)) \<ge> length (bs_counts st)"
      by (rule order.trans [OF _ sum_list_mono [of _ "\<lambda>_. 1"]]) (auto simp: epoch_lines_def sum_list_triv)
    then show ?thesis using inv by (simp add: body_inv_def)
  qed
  moreover note gaps_of_facts [OF f(7) ne(1)] min_max_counts [OF ne(2)] constellation_statistics_seen inv pos
  ultimately show ?thesis
    by (simp add: Inr f remdups_first_def)
qed simp

text \<open>
  C20. The epochs of an accepted session (\<open>analyse_rinex2\<close>, then \<open>classify_session\<close>). If a session that
  was parsed is classified \<open>ACCEPT\<close>, the instants of its epochs strictly increase, no two neighbours are
  further apart than the interval of the session, every line of the body was recognised, and each
  epoch has all its satellites and observations in the file, each satellite in one constellation.
\<close>

theorem accepted_session_epochs:
  "case parse_session ls of
     Inl e \<Rightarrow> True
   | Inr (h, st) \<Rightarrow>
       (case session_analysis h st year doy of
          Inl e \<Rightarrow> True
        | Inr a \<Rightarrow>
            (case classify_session fromiso s a p identity_status nbytes observed navigation coordinate of
               Inl e \<Rightarrow> True
             | Inr findings \<Rightarrow>
                 if overall_classification findings = CL_ACCEPT then
                   sorted_wrt (<) (map instant (bs_epochs st)) \<and>
                   (case used_interval h (bs_epochs st) of
                      None \<Rightarrow> length (bs_epochs st) = 1
                    | Some i \<Rightarrow>
                        list_all (\<lambda>(t, u). f_le (total_seconds (micros_between t u)) i) (adjacent (bs_epochs st))) \<and>
                   bs_warnings st = [] \<and>
                   length (bs_counts st) = length (bs_epochs st) \<and>
                   sum_list (map (epoch_lines (rh_observation_types h)) (bs_counts st)) \<le> length ls \<and>
                   sum_list (map (\<lambda>e. sum_list (snd e)) (bs_constellations st)) = sum_list (bs_counts st)
                 else True))"
proof (cases "parse_session ls")
  case (Inr r)
  then obtain h st where p: "parse_session ls = Inr (h, st)" by (cases r) auto
  note inv = parse_session_inv [OF p]
  {
    fix a findings
    assume a: "session_analysis h st year doy = Inr a"
      and c: "classify_session fromiso s a p identity_status nbytes observed navigation coordinate = Inr findings"
      and accept: "overall_classification findings = CL_ACCEPT"
    note f = analysis_fields [OF a]
    from c accept have pass: "all_pass (sampling_findings s a p)" "all_pass (gap_findings s a p)" "all_pass (observation_findings s a p)"
      by (auto simp: overall_accept_iff classify_session_def temporal_findings_def)
    have inc: "sorted_wrt (<) (map instant (bs_epochs st))"
      using pass(1) by (simp add: sampling_pass f flip: increasing_iff)
    have none: "ra_gaps a = []" using pass(2) by (simp add: gap_pass f)
    have warn: "bs_warnings st = []" using pass(3) by (simp add: observation_pass f remdups_first_def)
    have spaced: "case used_interval h (bs_epochs st) of
        None \<Rightarrow> length (bs_epochs st) = 1
      | Some i \<Rightarrow> list_all (\<lambda>(t, u). f_le (total_seconds (micros_between t u)) i) (adjacent (bs_epochs st))"
    proof (cases "used_interval h (bs_epochs st)")
      case None
      then have "positive_intervals (bs_epochs st) = []"
        by (auto simp: used_interval_def empirical_interval_def split: option.splits if_splits)
      moreover have "list_all (\<lambda>(t, u). instant t < instant u) (adjacent (bs_epochs st))"
        using inc by (simp add: adjacent_all successively_map flip: successively_conv_sorted_wrt)
      ultimately have "adjacent (bs_epochs st) = []"
        by (cases "adjacent (bs_epochs st)") (auto simp: positive_intervals_def)
      then have "length (bs_epochs st) - 1 = 0" by (metis length_adjacent list.size(3))
      with None inv show ?thesis by (cases "bs_epochs st") auto
    next
      case (Some i)
      with f(14) have "i \<noteq> PNan" by (auto simp: truthy_float_def)
      moreover have "list_all (\<lambda>(t, u). \<not> f_lt i (total_seconds (micros_between t u))) (adjacent (bs_epochs st))"
        using f(7) Some none by (auto simp: gaps_of_def intro: map_filter_gap_Nil)
      ultimately show ?thesis
        using Some by (auto simp: list_all_iff f_lt_not_le total_seconds_number)
    qed
    note inc spaced warn
  }
  with inv show ?thesis by (auto simp: p body_inv_def split: sum.split)
qed simp

end
