(* ===== verification/Qc_Engine.thy ===== *)
theory Qc_Engine
  imports Qc_Session Hybrid_Discovery
begin

text \<open>
  The session engine of quality control (\<open>gnss_qc/engine.py\<close>): fingerprints, stored results and their
  reuse, the verified reuse of converted files, the processing of one session under every profile, and
  the isolation of failures in a batch. What the engine writes is a record of decoded JSON files and of
  tables; bytes of the vault, the external converters and the clock are the fields of \<open>qc_env\<close>.
\<close>

section \<open>Files\<close>

type_synonym dict = "(string \<times> json) list"

record qc_store =
  qs_files :: "string \<Rightarrow> file_json"
  qs_tables :: "string \<Rightarrow> (string list \<times> dict list) option"

definition atomic_json :: "string \<Rightarrow> json \<Rightarrow> qc_store \<Rightarrow> qc_store" where
  "atomic_json path payload st = st\<lparr>qs_files := (qs_files st)(path := Content payload)\<rparr>"

definition atomic_csv :: "string \<Rightarrow> string list \<Rightarrow> dict list \<Rightarrow> qc_store \<Rightarrow> qc_store" where
  "atomic_csv path fieldnames rows st = st\<lparr>qs_tables := (qs_tables st)(path := Some (fieldnames, rows))\<rparr>"

text \<open>\<open>Path(path).name\<close>\<close>

definition base_name :: "string \<Rightarrow> string" where
  "base_name path =
     (let parts = filter (\<lambda>p. p \<noteq> []) (split_on (CHR ''/'') path) in if parts = [] then [] else last parts)"

definition conversion_dir :: "string \<Rightarrow> session_input \<Rightarrow> string" where
  "conversion_dir vault s =
     vault @ ''/working/qc-converted/'' @ str_int (si_year s) @ ''/'' @ si_station_id s @ ''/'' @
     zero_pad 3 (si_day_of_year s)"

definition converted_path :: "string \<Rightarrow> session_input \<Rightarrow> string" where
  "converted_path vault s =
     (let name = base_name (si_relative_path s)
      in conversion_dir vault s @ ''/'' @ take (length name - 3) name @ ''O'')"

definition conversion_manifest_path :: "string \<Rightarrow> session_input \<Rightarrow> string" where
  "conversion_manifest_path vault s = conversion_dir vault s @ ''/conversion-manifest.json''"

definition result_dir :: "string \<Rightarrow> string \<Rightarrow> session_input \<Rightarrow> string" where
  "result_dir vault profile_name s =
     vault @ ''/processed/qc/profiles/'' @ profile_name @ ''/sessions/'' @ str_int (si_year s) @ ''/'' @
     si_station_id s @ ''/'' @ zero_pad 3 (si_day_of_year s)"

definition result_path :: "string \<Rightarrow> string \<Rightarrow> session_input \<Rightarrow> string" where
  "result_path vault profile_name s = result_dir vault profile_name s @ ''/qc-result.json''"

section \<open>Selection and fingerprints\<close>

definition ENGINE_VERSION_QC :: string where "ENGINE_VERSION_QC = ''0.1.0''"
definition RESULT_SCHEMA_VERSION :: string where "RESULT_SCHEMA_VERSION = ''1.0''"

definition select_sessions ::
  "session_input list \<Rightarrow> string list option \<Rightarrow> int option \<Rightarrow> int option \<Rightarrow> session_input list"
where
  "select_sessions sessions station_ids start_doy end_doy =
     filter (\<lambda>s.
       (case station_ids of None \<Rightarrow> True | Some ids \<Rightarrow> si_station_id s \<in> set ids) \<and>
       (case start_doy of None \<Rightarrow> True | Some d \<Rightarrow> d \<le> si_day_of_year s) \<and>
       (case end_doy of None \<Rightarrow> True | Some d \<Rightarrow> si_day_of_year s \<le> d)) sessions"

definition profile_objects :: "(string \<times> qc_profile) list \<Rightarrow> string list \<Rightarrow> qc_profile list result" where
  "profile_objects available names =
     (let unknown = sort (remdups (filter (\<lambda>n. map_of available n = None) names)) in
      if unknown \<noteq> [] then Inl (QCExecutionError (''unknown QC profiles: '' @ str_join '', '' unknown))
      else map_result (obj_index available) names)"

definition fingerprint_material :: "session_input \<Rightarrow> qc_profile \<Rightarrow> dict \<Rightarrow> bool \<Rightarrow> dict" where
  "fingerprint_material s p provenance convert =
     [(''engine_version'', JStr ENGINE_VERSION_QC), (''source_sha256'', JStr (si_sha256 s)),
      (''profile'', JStr (qp_name p)), (''profile_version'', JStr (qp_version p)),
      (''profile_sha256'', JStr (qp_config_sha256 p)), (''git_commit'', obj_get provenance ''git_commit'' JNull),
      (''implementation_sha256'', obj_get provenance ''implementation_sha256'' JNull),
      (''conversion_mode'', JStr (if convert then ''retained'' else ''stream_only''))]"

definition fingerprint ::
  "(bytes \<Rightarrow> string) \<Rightarrow> session_input \<Rightarrow> qc_profile \<Rightarrow> dict \<Rightarrow> bool \<Rightarrow> string"
where
  "fingerprint sha s p provenance convert = json_digest sha (JObj (fingerprint_material s p provenance convert))"

text \<open>\<open>{profile.name: _fingerprint(...) for profile in profiles}\<close>\<close>

definition fingerprints_of ::
  "(bytes \<Rightarrow> string) \<Rightarrow> session_input \<Rightarrow> qc_profile list \<Rightarrow> dict \<Rightarrow> bool \<Rightarrow> (string \<times> string) list"
where
  "fingerprints_of sha s profiles provenance convert =
     foldl (\<lambda>d p. obj_set d (qp_name p) (fingerprint sha s p provenance convert)) [] profiles"

section \<open>Results\<close>

definition optional_dict :: "dict option \<Rightarrow> json" where
  "optional_dict = opt_json JObj"

definition result_payload ::
  "session_input \<Rightarrow> qc_profile \<Rightarrow> dict option \<Rightarrow> finding list \<Rightarrow> string \<Rightarrow> string option \<Rightarrow> string option \<Rightarrow>
   dict option \<Rightarrow> dict option \<Rightarrow> dict option \<Rightarrow> dict \<Rightarrow> string \<Rightarrow> bool \<Rightarrow> dict"
where
  "result_payload s p analysis findings fp observed identity conversion navigation coordinate provenance now reused =
     [(''schema_version'', JStr RESULT_SCHEMA_VERSION), (''engine_version'', JStr ENGINE_VERSION_QC),
      (''result_fingerprint'', JStr fp),
      (''station_identity'', JObj
         [(''canonical_station_id'', JStr (si_station_id s)), (''year'', JInt (si_year s)),
          (''day_of_year'', JInt (si_day_of_year s)), (''resolution'', opt_json JStr identity)]),
      (''source'', JObj
         [(''relative_path'', JStr (si_relative_path s)),
          (''delivery_relative_path'', JStr (si_source_relative_path s)),
          (''manifest_sha256'', JStr (si_sha256 s)), (''observed_sha256'', opt_json JStr observed),
          (''size_bytes'', JInt (si_size_bytes s)),
          (''exact_duplicate_sources'', JArr (map JStr (si_exact_duplicate_sources s)))]),
      (''conversion'', optional_dict conversion), (''rinex'', optional_dict analysis),
      (''navigation'', optional_dict navigation), (''coordinate_eligibility'', optional_dict coordinate),
      (''findings'', JArr (map (\<lambda>f. JObj (finding_as_dict f)) findings)),
      (''overall_classification'', JStr (classification_str (overall_classification findings))),
      (''qc_profile'', JObj
         [(''name'', JStr (qp_name p)), (''version'', JStr (qp_version p)), (''status'', JStr (qp_status p)),
          (''configuration_sha256'', JStr (qp_config_sha256 p))]),
      (''software_provenance'', JObj provenance), (''execution_timestamp'', JStr now),
      (''reused_verified_result'', JBool reused)]"

definition failure_finding :: "session_input \<Rightarrow> string \<Rightarrow> finding_severity \<Rightarrow> string \<Rightarrow> dict \<Rightarrow> finding" where
  "failure_finding s code severity message evidence =
     \<lparr>fd_finding_code = code, fd_severity = severity,
      fd_category = (if code = ''SESSION_PROCESSING_FAILED'' then ''execution'' else ''file_integrity''),
      fd_message = message, fd_station_id = si_station_id s, fd_year = si_year s,
      fd_day_of_year = si_day_of_year s, fd_file = si_relative_path s, fd_measured_value = JNull,
      fd_expected_value = JNull, fd_threshold = JNull, fd_evidence = evidence\<rparr>"

text \<open>\<open>_write_session_outputs\<close>: the result, and with an analysis its tables and the conversion.\<close>

definition GAP_FIELDS :: "string list" where
  "GAP_FIELDS = [''start'', ''end'', ''elapsed_seconds'', ''expected_interval_seconds'', ''missing_epochs'']"

definition SATELLITE_FIELDS :: "string list" where
  "SATELLITE_FIELDS =
     [''constellation'', ''epochs_present'', ''minimum_per_epoch'', ''median_per_epoch'', ''maximum_per_epoch'']"

definition satellite_rows :: "rinex_analysis \<Rightarrow> dict list" where
  "satellite_rows a =
     map (\<lambda>(name, c). (''constellation'', JStr name) # stat_as_dict c)
       (sort_key fst (ra_constellation_statistics a))"

definition write_session_outputs ::
  "string \<Rightarrow> session_input \<Rightarrow> string \<Rightarrow> rinex_analysis option \<Rightarrow> dict option \<Rightarrow> dict \<Rightarrow> qc_store \<Rightarrow> qc_store"
where
  "write_session_outputs vault s profile_name analysis conversion result st =
     (let d = result_dir vault profile_name s;
          st = atomic_json (result_path vault profile_name s) (JObj result) st
      in case analysis of
           None \<Rightarrow> st
         | Some a \<Rightarrow>
             (let st = atomic_csv (d @ ''/gaps.csv'') GAP_FIELDS (map gap_as_dict (ra_gaps a)) st;
                  st = atomic_csv (d @ ''/satellite-summary.csv'') SATELLITE_FIELDS (satellite_rows a) st
              in case conversion of
                   None \<Rightarrow> st
                 | Some c \<Rightarrow> atomic_json (d @ ''/conversion-manifest.json'') (JObj c) st))"

section \<open>Reuse of results\<close>

text \<open>Every profile of a run is a key of \<open>fingerprints\<close>, so that the default of the lookup is never taken.\<close>

definition read_json :: "string \<Rightarrow> qc_store \<Rightarrow> json result" where
  "read_json path st =
     (case qs_files st path of
        NoFile \<Rightarrow> Inl (FileNotFoundError path)
      | Unreadable exc \<Rightarrow> Inl (ValueError exc)
      | Content v \<Rightarrow> Inr v)"

definition mark_reused :: "json \<Rightarrow> json" where
  "mark_reused v = (case v of JObj d \<Rightarrow> JObj (obj_set d ''reused_verified_result'' (JBool True)) | _ \<Rightarrow> v)"

fun load_cached ::
  "string \<Rightarrow> session_input \<Rightarrow> qc_profile list \<Rightarrow> (string \<times> string) list \<Rightarrow> string \<Rightarrow> qc_store \<Rightarrow>
   json list option result"
where
  "load_cached vault s [] fps observed st = Inr (Some [])"
| "load_cached vault s (p # ps) fps observed st =
     (if qs_files st (result_path vault (qp_name p) s) = NoFile then Inr None
      else
        bind_result (read_json (result_path vault (qp_name p) s) st) (\<lambda>payload.
        bind_result (json_get payload ''result_fingerprint'' JNull) (\<lambda>stored.
        if stored \<noteq> JStr (obj_get fps (qp_name p) []) then Inr None
        else
          bind_result (json_get payload ''source'' (JObj [])) (\<lambda>source.
          bind_result (json_get source ''observed_sha256'' JNull) (\<lambda>digest.
          if digest \<noteq> JStr observed then Inr None
          else
            bind_result (load_cached vault s ps fps observed st) (\<lambda>rest.
              Inr (map_option (\<lambda>rows. mark_reused payload # rows) rest)))))))"

section \<open>Conversion\<close>

record observation_conversion =
  oc_source_path :: string
  oc_source_sha256 :: string
  oc_decompressed_path :: string
  oc_decompressed_sha256 :: string
  oc_converted_path :: string
  oc_converted_sha256 :: string
  oc_crx2rnx_version :: string
  oc_uncompress_tool :: string
  oc_started_at :: string
  oc_duration_seconds :: pyfloat
  oc_crx2rnx_rc :: int

definition conversion_as_dict :: "observation_conversion \<Rightarrow> dict" where
  "conversion_as_dict c =
     [(''source_path'', JStr (oc_source_path c)), (''source_sha256'', JStr (oc_source_sha256 c)),
      (''decompressed_path'', JStr (oc_decompressed_path c)),
      (''decompressed_sha256'', JStr (oc_decompressed_sha256 c)),
      (''converted_path'', JStr (oc_converted_path c)), (''converted_sha256'', JStr (oc_converted_sha256 c)),
      (''crx2rnx_version'', JStr (oc_crx2rnx_version c)), (''uncompress_tool'', JStr (oc_uncompress_tool c)),
      (''started_at'', JStr (oc_started_at c)), (''duration_seconds'', JFloat (oc_duration_seconds c)),
      (''crx2rnx_rc'', JInt (oc_crx2rnx_rc c))]"

text \<open>
  The world of the engine: \<open>datetime.fromisoformat\<close>, SHA-256, the bytes of each file, what the external
  converter returns for a source, the lines of a converted file, the two processes of a streaming
  conversion, and the time stamped on the result of a session under a profile.
\<close>

record stream_run =
  sr_lines :: "string list"
  sr_return_code :: int
  sr_stderr :: string
  sr_uncompress_code :: int
  sr_uncompress_stderr :: string

record qc_env =
  qe_fromiso :: "string \<Rightarrow> py_datetime result"
  qe_sha :: "bytes \<Rightarrow> string"
  qe_bytes :: "string \<Rightarrow> bytes option"
  qe_staged :: "string \<Rightarrow> observation_conversion result"
  qe_lines :: "string \<Rightarrow> string list result"
  qe_stream :: "string \<Rightarrow> stream_run result"
  qe_stamp :: "session_input \<Rightarrow> string \<Rightarrow> string"

definition file_digest_is :: "qc_env \<Rightarrow> string \<Rightarrow> json \<Rightarrow> bool" where
  "file_digest_is env path digest =
     (case qe_bytes env path of None \<Rightarrow> False | Some data \<Rightarrow> JStr (qe_sha env data) = digest)"

definition key_text :: "json \<Rightarrow> string \<Rightarrow> string result" where
  "key_text m k = bind_result (json_key m k) (\<lambda>v. Inr (py_str v))"

definition manifest_conversion ::
  "qc_env \<Rightarrow> session_input \<Rightarrow> string \<Rightarrow> json \<Rightarrow> observation_conversion option result"
where
  "manifest_conversion env s source_path m =
     bind_result (key_text m ''converted_path'') (\<lambda>converted.
     bind_result (key_text m ''decompressed_path'') (\<lambda>decompressed.
     bind_result (json_get m ''source_sha256'' JNull) (\<lambda>source_digest.
     bind_result (json_get m ''converted_sha256'' JNull) (\<lambda>converted_digest.
     bind_result (json_get m ''decompressed_sha256'' JNull) (\<lambda>decompressed_digest.
     if \<not> (source_digest = JStr (si_sha256 s) \<and> file_digest_is env converted converted_digest \<and>
            file_digest_is env decompressed decompressed_digest)
     then Inr None
     else
       bind_result (key_text m ''source_sha256'') (\<lambda>a.
       bind_result (key_text m ''decompressed_sha256'') (\<lambda>b.
       bind_result (key_text m ''converted_sha256'') (\<lambda>c.
       bind_result (key_text m ''crx2rnx_version'') (\<lambda>version.
       bind_result (key_text m ''uncompress_tool'') (\<lambda>tool.
       bind_result (key_text m ''started_at'') (\<lambda>started.
       bind_result (bind_result (json_key m ''duration_seconds'') py_float) (\<lambda>duration.
       bind_result (bind_result (json_key m ''crx2rnx_rc'') py_int) (\<lambda>rc.
         Inr (Some \<lparr>oc_source_path = source_path, oc_source_sha256 = a, oc_decompressed_path = decompressed,
                    oc_decompressed_sha256 = b, oc_converted_path = converted, oc_converted_sha256 = c,
                    oc_crx2rnx_version = version, oc_uncompress_tool = tool, oc_started_at = started,
                    oc_duration_seconds = duration, oc_crx2rnx_rc = rc\<rparr>))))))))))))))"

text \<open>\<open>except (KeyError, OSError, ValueError, json.JSONDecodeError): pass\<close>\<close>

definition reusable_conversion ::
  "qc_env \<Rightarrow> string \<Rightarrow> session_input \<Rightarrow> string \<Rightarrow> qc_store \<Rightarrow> observation_conversion option result"
where
  "reusable_conversion env vault s source_path st =
     (case qs_files st (conversion_manifest_path vault s) of
        Content m \<Rightarrow>
          (case manifest_conversion env s source_path m of
             Inl (KeyError _) \<Rightarrow> Inr None
           | Inl (ValueError _) \<Rightarrow> Inr None
           | r \<Rightarrow> r)
      | _ \<Rightarrow> Inr None)"

definition convert_verified ::
  "qc_env \<Rightarrow> string \<Rightarrow> session_input \<Rightarrow> string \<Rightarrow> qc_store \<Rightarrow> observation_conversion result"
where
  "convert_verified env vault s source_path st =
     bind_result (reusable_conversion env vault s source_path st) (\<lambda>reused.
       case reused of
         Some c \<Rightarrow> Inr c
       | None \<Rightarrow>
           bind_result (qe_staged env source_path) (\<lambda>c.
             Inr (c\<lparr>oc_decompressed_path :=
                      conversion_dir vault s @ ''/'' @ base_name (oc_decompressed_path c),
                    oc_converted_path := conversion_dir vault s @ ''/'' @ base_name (oc_converted_path c)\<rparr>)))"

text \<open>The open handle of the analysis: its lines, the payload of the conversion, the running processes.\<close>

definition open_analysis ::
  "qc_env \<Rightarrow> string \<Rightarrow> session_input \<Rightarrow> string \<Rightarrow> bool \<Rightarrow> qc_store \<Rightarrow>
   qc_store \<times> (string list \<times> dict \<times> stream_run option) result"
where
  "open_analysis env vault s source_path convert st =
     (if convert then
        (case convert_verified env vault s source_path st of
           Inl e \<Rightarrow> (st, Inl e)
         | Inr c \<Rightarrow>
             (atomic_json (conversion_manifest_path vault s) (JObj (conversion_as_dict c)) st,
              bind_result (qe_lines env (oc_converted_path c)) (\<lambda>ls. Inr (ls, conversion_as_dict c, None))))
      else
        (st, bind_result (qe_stream env source_path) (\<lambda>r.
           Inr (sr_lines r,
             [(''mode'', JStr ''stream_only''), (''source_path'', JStr source_path),
              (''commands'', JArr [JArr [JStr ''uncompress'', JStr ''-c'', JStr source_path], JArr [JStr ''CRX2RNX'']])],
             Some r))))"

definition close_analysis :: "dict \<Rightarrow> stream_run option \<Rightarrow> dict result" where
  "close_analysis payload run =
     (case run of
        None \<Rightarrow> Inr payload
      | Some r \<Rightarrow>
          if (sr_return_code r \<noteq> 0 \<and> sr_return_code r \<noteq> 2) \<or> sr_uncompress_code r \<noteq> 0 then
            Inl (ConversionError (''streaming conversion failed: uncompress_rc='' @ str_int (sr_uncompress_code r) @
              '', CRX2RNX_rc='' @ str_int (sr_return_code r) @ ''; '' @ str_strip (sr_uncompress_stderr r) @ '' '' @
              str_strip (sr_stderr r)))
          else
            Inr (payload @
              [(''converter_exit_code'', JInt (sr_return_code r)),
               (''uncompress_exit_code'', JInt (sr_uncompress_code r)),
               (''converter_stderr'', JStr (str_strip (sr_stderr r))),
               (''uncompress_stderr'', JStr (str_strip (sr_uncompress_stderr r)))]))"

section \<open>One session\<close>

record session_context =
  cx_observed :: string
  cx_size :: int
  cx_analysis :: rinex_analysis
  cx_identity :: string
  cx_conversion :: dict
  cx_navigation :: "navigation_product option"
  cx_coordinate :: "coordinate_eligibility option"

definition profile_findings ::
  "qc_env \<Rightarrow> session_input \<Rightarrow> session_context \<Rightarrow> qc_profile \<Rightarrow> finding list result"
where
  "profile_findings env s cx p =
     classify_session (qe_fromiso env) s (cx_analysis cx) p (cx_identity cx) (cx_size cx) (cx_observed cx)
       (cx_navigation cx) (cx_coordinate cx)"

definition profile_result ::
  "qc_env \<Rightarrow> session_input \<Rightarrow> session_context \<Rightarrow> (string \<times> string) list \<Rightarrow> dict \<Rightarrow> qc_profile \<Rightarrow> finding list \<Rightarrow> dict"
where
  "profile_result env s cx fps provenance p findings =
     result_payload s p (Some (analysis_as_dict (cx_analysis cx))) findings (obj_get fps (qp_name p) [])
       (Some (cx_observed cx)) (Some (cx_identity cx)) (Some (cx_conversion cx))
       (map_option product_as_dict (cx_navigation cx)) (map_option eligibility_as_dict (cx_coordinate cx))
       provenance (qe_stamp env s (qp_name p)) False"

fun classify_profiles ::
  "qc_env \<Rightarrow> string \<Rightarrow> session_input \<Rightarrow> session_context \<Rightarrow> (string \<times> string) list \<Rightarrow> dict \<Rightarrow> qc_profile list \<Rightarrow>
   qc_store \<Rightarrow> qc_store \<times> json list result"
where
  "classify_profiles env vault s cx fps provenance [] st = (st, Inr [])"
| "classify_profiles env vault s cx fps provenance (p # ps) st =
     (case profile_findings env s cx p of
        Inl e \<Rightarrow> (st, Inl e)
      | Inr findings \<Rightarrow>
          (let result = profile_result env s cx fps provenance p findings;
               st1 = write_session_outputs vault s (qp_name p) (Some (cx_analysis cx)) (Some (cx_conversion cx)) result st
           in case classify_profiles env vault s cx fps provenance ps st1 of
                (st2, r) \<Rightarrow> (st2, bind_result r (\<lambda>rows. Inr (JObj result # rows)))))"

text \<open>A result without analysis, written for every profile.\<close>

definition analysis_free_result ::
  "qc_env \<Rightarrow> session_input \<Rightarrow> string option \<Rightarrow> finding \<Rightarrow> (qc_profile \<Rightarrow> string) \<Rightarrow> dict \<Rightarrow> qc_profile \<Rightarrow> dict"
where
  "analysis_free_result env s observed f fp provenance p =
     result_payload s p None [f] (fp p) observed None None None None provenance (qe_stamp env s (qp_name p)) False"

definition write_failures ::
  "string \<Rightarrow> session_input \<Rightarrow> (qc_profile \<Rightarrow> dict) \<Rightarrow> qc_profile list \<Rightarrow> qc_store \<Rightarrow> qc_store \<times> json list"
where
  "write_failures vault s result profiles st =
     (fold (\<lambda>p. write_session_outputs vault s (qp_name p) None None (result p)) profiles st,
      map (\<lambda>p. JObj (result p)) profiles)"

definition integrity_failure_result ::
  "qc_env \<Rightarrow> session_input \<Rightarrow> string \<Rightarrow> (string \<times> string) list \<Rightarrow> dict \<Rightarrow> qc_profile \<Rightarrow> dict"
where
  "integrity_failure_result env s observed fps provenance =
     analysis_free_result env s (Some observed)
       (failure_finding s ''HASH_MISMATCH'' SV_REJECT ''Observed SHA-256 does not match the canonical manifest''
          [(''observed'', JStr observed), (''expected'', JStr (si_sha256 s))])
       (\<lambda>p. obj_get fps (qp_name p) []) provenance"

text \<open>The name of the source file against the manifest.\<close>

definition check_filename :: "session_input \<Rightarrow> string \<Rightarrow> string result" where
  "check_filename s source_path =
     bind_result (parse_filename (base_name source_path)) (\<lambda>(marker, year, doy, kind).
       if year \<noteq> si_year s \<or> doy \<noteq> si_day_of_year s then
         Inl (RinexParseError ''filename date disagrees with canonical manifest'')
       else if kind \<noteq> ''D'' \<and> kind \<noteq> ''O'' then
         Inl (RinexParseError (''unexpected observation file type: '' @ kind))
       else Inr marker)"

text \<open>The handle is closed, and the converters are judged, also when the analysis has raised.\<close>

definition run_analysis ::
  "session_input \<Rightarrow> string list \<times> dict \<times> stream_run option \<Rightarrow> (rinex_analysis \<times> dict) result"
where
  "run_analysis s h =
     (case h of (ls, payload, run) \<Rightarrow>
        bind_result (close_analysis payload run) (\<lambda>conversion.
        bind_result (analyse_rinex2 ls (si_year s) (si_day_of_year s)) (\<lambda>a. Inr (a, conversion))))"

definition session_context_of ::
  "qc_env \<Rightarrow> session_input \<Rightarrow> bytes \<Rightarrow> string \<Rightarrow> navigation_product list \<Rightarrow>
   (string \<times> coordinate_eligibility) list \<Rightarrow> rinex_analysis \<times> dict \<Rightarrow> session_context result"
where
  "session_context_of env s data marker products coordinates r =
     (case r of (a, conversion) \<Rightarrow>
        bind_result (resolve_identity (si_station_id s) marker (rh_marker_name (ra_header a))) (\<lambda>identity.
        bind_result (navigation_for_session (qe_fromiso env) products (si_year s) (si_day_of_year s)) (\<lambda>navigation.
          Inr \<lparr>cx_observed = qe_sha env data, cx_size = int (length data), cx_analysis = a,
               cx_identity = identity, cx_conversion = conversion, cx_navigation = navigation,
               cx_coordinate = map_of coordinates (si_station_id s)\<rparr>)))"

definition analysed_session ::
  "qc_env \<Rightarrow> string \<Rightarrow> session_input \<Rightarrow> qc_profile list \<Rightarrow> navigation_product list \<Rightarrow>
   (string \<times> coordinate_eligibility) list \<Rightarrow> dict \<Rightarrow> bool \<Rightarrow> bytes \<Rightarrow> (string \<times> string) list \<Rightarrow> qc_store \<Rightarrow>
   qc_store \<times> json list result"
where
  "analysed_session env vault s profiles products coordinates provenance convert data fps st =
     (let source_path = vault @ ''/'' @ si_relative_path s in
      case check_filename s source_path of
        Inl e \<Rightarrow> (st, Inl e)
      | Inr marker \<Rightarrow>
          (case open_analysis env vault s source_path convert st of
             (st1, handle) \<Rightarrow>
               (case bind_result (bind_result handle (run_analysis s))
                       (session_context_of env s data marker products coordinates) of
                  Inl e \<Rightarrow> (st1, Inl e)
                | Inr cx \<Rightarrow> classify_profiles env vault s cx fps provenance profiles st1)))"

definition process_session ::
  "qc_env \<Rightarrow> string \<Rightarrow> session_input \<Rightarrow> qc_profile list \<Rightarrow> navigation_product list \<Rightarrow>
   (string \<times> coordinate_eligibility) list \<Rightarrow> dict \<Rightarrow> bool \<Rightarrow> qc_store \<Rightarrow> qc_store \<times> json list result"
where
  "process_session env vault s profiles products coordinates provenance convert st =
     (let source_path = vault @ ''/'' @ si_relative_path s in
      case qe_bytes env source_path of
        None \<Rightarrow> (st, Inl (FileNotFoundError (''canonical observation unavailable: '' @ source_path)))
      | Some data \<Rightarrow>
          (let observed = qe_sha env data;
               fps = fingerprints_of (qe_sha env) s profiles provenance convert
           in case load_cached vault s profiles fps observed st of
                Inl e \<Rightarrow> (st, Inl e)
              | Inr (Some rows) \<Rightarrow> (st, Inr rows)
              | Inr None \<Rightarrow>
                  if observed \<noteq> si_sha256 s then
                    map_prod (\<lambda>st. st) Inr
                      (write_failures vault s (integrity_failure_result env s observed fps provenance) profiles st)
                  else
                    analysed_session env vault s profiles products coordinates provenance convert data fps st))"

section \<open>A batch\<close>

text \<open>\<open>type(error).__name__\<close>\<close>

fun error_class :: "py_error \<Rightarrow> string" where
  "error_class (ValueError _) = ''ValueError''"
| "error_class (AdmissionBlocked _) = ''AdmissionBlocked''"
| "error_class (DecisionBlocked _) = ''DecisionBlocked''"
| "error_class (ConsumerStalled _) = ''ConsumerStalled''"
| "error_class (BufferError _) = ''BufferError''"
| "error_class (OverflowError _) = ''OverflowError''"
| "error_class (ZeroDivisionError _) = ''ZeroDivisionError''"
| "error_class (KeyError _) = ''KeyError''"
| "error_class (TypeError _) = ''TypeError''"
| "error_class (IndexError _) = ''IndexError''"
| "error_class (AttributeError _) = ''AttributeError''"
| "error_class (PermissionError _) = ''PermissionError''"
| "error_class (FileExistsError _) = ''FileExistsError''"
| "error_class (FileNotFoundError _) = ''FileNotFoundError''"
| "error_class (ConnectionLost _) = ''OSError''"
| "error_class (ReadTimeout _) = ''TimeoutError''"
| "error_class (CaptureLimitExceeded _) = ''CaptureLimitExceeded''"
| "error_class (UnsupportedEncoderError _) = ''UnsupportedEncoderError''"
| "error_class (ProfileError _) = ''ProfileError''"
| "error_class (RinexParseError _) = ''RinexParseError''"
| "error_class (DatasetError _) = ''DatasetError''"
| "error_class (QCExecutionError _) = ''QCExecutionError''"
| "error_class (ConversionError _) = ''ConversionError''"
| "error_class (NetworkBlocked _) = ''NetworkBlocked''"
| "error_class (Phase2DatasetError _) = ''Phase2DatasetError''"
| "error_class (IsADirectoryError _) = ''IsADirectoryError''"

definition failure_result ::
  "qc_env \<Rightarrow> session_input \<Rightarrow> dict \<Rightarrow> bool \<Rightarrow> py_error \<Rightarrow> qc_profile \<Rightarrow> dict"
where
  "failure_result env s provenance convert e =
     (let missing = (case e of FileNotFoundError _ \<Rightarrow> True | _ \<Rightarrow> False) in
      analysis_free_result env s None
        (failure_finding s (if missing then ''SOURCE_FILE_UNAVAILABLE'' else ''SESSION_PROCESSING_FAILED'')
           (if missing then SV_BLOCKED else SV_REJECT) (error_text e)
           [(''exception_type'', JStr (error_class e))])
        (\<lambda>p. fingerprint (qe_sha env) s p provenance convert) provenance)"

definition execute_session ::
  "qc_env \<Rightarrow> string \<Rightarrow> qc_profile list \<Rightarrow> navigation_product list \<Rightarrow> (string \<times> coordinate_eligibility) list \<Rightarrow> dict \<Rightarrow>
   bool \<Rightarrow> session_input \<Rightarrow> qc_store \<Rightarrow> qc_store \<times> json list"
where
  "execute_session env vault profiles products coordinates provenance convert s st =
     (case process_session env vault s profiles products coordinates provenance convert st of
        (st1, Inr rows) \<Rightarrow> (st1, rows)
      | (st1, Inl e) \<Rightarrow> write_failures vault s (failure_result env s provenance convert e) profiles st1)"

text \<open>The sessions of a batch, as one worker runs them; the results are in the order of the sessions.\<close>

fun run_sessions ::
  "(session_input \<Rightarrow> qc_store \<Rightarrow> qc_store \<times> json list) \<Rightarrow> session_input list \<Rightarrow> qc_store \<Rightarrow> qc_store \<times> json list"
where
  "run_sessions f [] st = (st, [])"
| "run_sessions f (s # ss) st =
     (case f s st of (st1, rows) \<Rightarrow> case run_sessions f ss st1 of (st2, rest) \<Rightarrow> (st2, rows @ rest))"

definition run_dataset ::
  "qc_env \<Rightarrow> string \<Rightarrow> session_input list \<Rightarrow> qc_profile list \<Rightarrow> navigation_product list \<Rightarrow>
   (string \<times> coordinate_eligibility) list \<Rightarrow> dict \<Rightarrow> bool \<Rightarrow> int \<Rightarrow> qc_store \<Rightarrow> qc_store \<times> json list result"
where
  "run_dataset env vault sessions profiles products coordinates provenance convert workers st =
     (if workers < 1 then (st, Inl (QCExecutionError ''workers must be at least 1''))
      else map_prod (\<lambda>st. st) Inr
        (run_sessions (execute_session env vault profiles products coordinates provenance convert) sessions st))"

end
