(* ===== verification/Qc_Batch.thy ===== *)
theory Qc_Batch
  imports Qc_Engine
begin

text \<open>
  What a run of the quality-control engine guarantees: each session yields one result per profile, a
  fresh acceptance rests on evidence, a second run reuses what the first one stored, and the discovery
  of the decision engine reads the very classification that was stored.
\<close>

section \<open>Stored results\<close>

lemma result_path_eq [simp]: "result_path vault a s = result_path vault b s \<longleftrightarrow> a = b"
  by (simp add: result_path_def result_dir_def)

lemma manifest_not_result [simp]:
  "result_dir vault a s @ ''/conversion-manifest.json'' \<noteq> result_path vault b s'"
  "conversion_manifest_path vault s \<noteq> result_path vault b s'"
  by (auto simp: result_path_def conversion_manifest_path_def dest: arg_cong [of _ _ rev])

lemma write_outputs_file [simp]:
  "qs_files (write_session_outputs vault s n a c r st) (result_path vault m s) =
     (if m = n then Content (JObj r) else qs_files st (result_path vault m s))"
  using manifest_not_result(1) [of vault n s m s, symmetric]
  by (auto simp: write_session_outputs_def Let_def atomic_json_def atomic_csv_def split: option.split)

definition row_field :: "json \<Rightarrow> string \<Rightarrow> json" where
  "row_field row k = (case row of JObj d \<Rightarrow> obj_get d k JNull | _ \<Rightarrow> JNull)"

lemma result_fields [simp]:
  "obj_get (result_payload s p a fs fp ob idn c n co pr now re) ''overall_classification'' v =
     JStr (classification_str (overall_classification fs))"
  "obj_get (result_payload s p a fs fp ob idn c n co pr now re) ''result_fingerprint'' v = JStr fp"
  "obj_get (result_payload s p a fs fp ob idn c n co pr now re) ''reused_verified_result'' v = JBool re"
  "\<exists>d. obj_get (result_payload s p a fs fp ob idn c n co pr now re) ''source'' v = JObj d \<and>
     obj_get d ''observed_sha256'' JNull = opt_json JStr ob"
  by (simp_all add: result_payload_def obj_get_def)

text \<open>A stored result that \<open>load_cached\<close> takes for a profile.\<close>

definition reusable :: "(string \<times> string) list \<Rightarrow> string \<Rightarrow> dict \<Rightarrow> string \<Rightarrow> bool" where
  "reusable fps observed d name \<longleftrightarrow>
     obj_get d ''result_fingerprint'' JNull = JStr (obj_get fps name []) \<and>
     json_get (obj_get d ''source'' (JObj [])) ''observed_sha256'' JNull = Inr (JStr observed)"

definition cached_row ::
  "string \<Rightarrow> session_input \<Rightarrow> (string \<times> string) list \<Rightarrow> string \<Rightarrow> qc_store \<Rightarrow> qc_profile \<Rightarrow> json \<Rightarrow> bool"
where
  "cached_row vault s fps observed st p row \<longleftrightarrow>
     (\<exists>d. qs_files st (result_path vault (qp_name p) s) = Content (JObj d) \<and>
        reusable fps observed d (qp_name p) \<and> row = mark_reused (JObj d))"

lemma load_cached_Cons:
  "load_cached vault s (p # ps) fps observed st = Inr (Some rows) \<longleftrightarrow>
     (\<exists>row rest. rows = row # rest \<and> cached_row vault s fps observed st p row \<and>
        load_cached vault s ps fps observed st = Inr (Some rest))"
proof (cases "qs_files st (result_path vault (qp_name p) s)")
  case (Content v)
  show ?thesis
  proof (cases v)
    case (JObj d)
    then show ?thesis
      by (auto simp: Content read_json_def cached_row_def reusable_def json_get_def)
  qed (auto simp: Content read_json_def json_get_def cached_row_def)
qed (auto simp: read_json_def cached_row_def)

lemma load_cached_iff:
  "load_cached vault s ps fps observed st = Inr (Some rows) \<longleftrightarrow>
     list_all2 (cached_row vault s fps observed st) ps rows"
  by (induction ps arbitrary: rows)
    (auto simp: load_cached_Cons list_all2_Cons1 simp del: load_cached.simps(2))

lemma mark_reused_twice [simp]: "mark_reused (mark_reused v) = mark_reused v"
proof -
  have "obj_set (obj_set d k x) k x = obj_set d k x" for d :: dict and k x
    by (induction d k x rule: obj_set.induct) auto
  then show ?thesis by (cases v) (auto simp: mark_reused_def)
qed

lemma mark_reused_fields:
  "row_field (mark_reused (JObj d)) k = (if k = ''reused_verified_result'' then JBool True else obj_get d k JNull)"
  by (simp add: mark_reused_def row_field_def obj_get_set)

section \<open>What is written\<close>

lemma classify_profiles_ok:
  assumes "classify_profiles env vault s cx fps prov ps st = (st', Inr rows)"
  shows "list_all2 (\<lambda>p row. \<exists>f. profile_findings env s cx p = Inr f \<and> row = JObj (profile_result env s cx fps prov p f)) ps rows
    \<and> (\<forall>n. n \<notin> qp_name ` set ps \<longrightarrow> qs_files st' (result_path vault n s) = qs_files st (result_path vault n s))
    \<and> (distinct (map qp_name ps) \<longrightarrow> list_all2 (\<lambda>p row. qs_files st' (result_path vault (qp_name p) s) = Content row) ps rows)"
  using assms
proof (induction ps arbitrary: st rows)
  case (Cons p ps)
  obtain f where f: "profile_findings env s cx p = Inr f" using Cons.prems by (auto split: sum.splits)
  let ?r = "profile_result env s cx fps prov p f"
  let ?st = "write_session_outputs vault s (qp_name p) (Some (cx_analysis cx)) (Some (cx_conversion cx)) ?r st"
  obtain rest where c: "classify_profiles env vault s cx fps prov ps ?st = (st', Inr rest)" "rows = JObj ?r # rest"
    using Cons.prems f by (auto simp: Let_def split: prod.splits)
  from Cons.IH [OF c(1)] f c(2) show ?case by auto
qed simp

lemma write_failures_ok:
  assumes "write_failures vault s result ps st = (st', rows)"
  shows "rows = map (\<lambda>p. JObj (result p)) ps
    \<and> (\<forall>n. n \<notin> qp_name ` set ps \<longrightarrow> qs_files st' (result_path vault n s) = qs_files st (result_path vault n s))
    \<and> (distinct (map qp_name ps) \<longrightarrow> list_all2 (\<lambda>p row. qs_files st' (result_path vault (qp_name p) s) = Content row) ps rows)"
proof -
  let ?w = "\<lambda>p. write_session_outputs vault s (qp_name p) None None (result p)"
  have keep: "n \<notin> qp_name ` set ps \<Longrightarrow> qs_files (fold ?w ps st) (result_path vault n s) = qs_files st (result_path vault n s)" for n ps st
    by (induction ps arbitrary: st) auto
  have "distinct (map qp_name ps) \<Longrightarrow>
    list_all2 (\<lambda>p row. qs_files (fold ?w ps st) (result_path vault (qp_name p) s) = Content row) ps (map (\<lambda>p. JObj (result p)) ps)" for ps st
    by (induction ps arbitrary: st) (auto simp: keep)
  with assms keep show ?thesis by (auto simp: write_failures_def)
qed

text \<open>How a session that is processed without an exception comes to its results.\<close>

lemma process_session_cases:
  assumes "process_session env vault s ps products coordinates prov convert st = (st', Inr rows)"
  obtains
    (cached) data where "qe_bytes env (vault @ ''/'' @ si_relative_path s) = Some data" "st' = st"
      "load_cached vault s ps (fingerprints_of (qe_sha env) s ps prov convert) (qe_sha env data) st = Inr (Some rows)"
  | (integrity) data where "qe_bytes env (vault @ ''/'' @ si_relative_path s) = Some data" "qe_sha env data \<noteq> si_sha256 s"
      "write_failures vault s (integrity_failure_result env s (qe_sha env data)
         (fingerprints_of (qe_sha env) s ps prov convert) prov) ps st = (st', rows)"
  | (analysed) data cx st1 where "qe_bytes env (vault @ ''/'' @ si_relative_path s) = Some data"
      "qe_sha env data = si_sha256 s" "cx_observed cx = qe_sha env data" "cx_size cx = int (length data)"
      "\<exists>ls. analyse_rinex2 ls (si_year s) (si_day_of_year s) = Inr (cx_analysis cx)"
      "\<exists>marker. check_filename s (vault @ ''/'' @ si_relative_path s) = Inr marker \<and>
         resolve_identity (si_station_id s) marker (rh_marker_name (ra_header (cx_analysis cx))) = Inr (cx_identity cx)"
      "classify_profiles env vault s cx (fingerprints_of (qe_sha env) s ps prov convert) prov ps st1 = (st', Inr rows)"
proof -
  let ?path = "vault @ ''/'' @ si_relative_path s"
  let ?fps = "fingerprints_of (qe_sha env) s ps prov convert"
  obtain data where d: "qe_bytes env ?path = Some data"
    using assms by (auto simp: process_session_def Let_def split: option.splits)
  obtain c where c: "load_cached vault s ps ?fps (qe_sha env data) st = Inr c"
    using assms d by (auto simp: process_session_def Let_def split: sum.splits)
  show thesis
  proof (cases c)
    case (Some r)
    with assms d c show thesis by (intro cached [OF d]) (auto simp: process_session_def Let_def)
  next
    case None
    show thesis
    proof (cases "qe_sha env data = si_sha256 s")
      case False
      with assms d c None show thesis
        by (intro integrity [OF d False])
          (auto simp: process_session_def Let_def map_prod_def split: prod.splits)
    next
      case True
      with assms d c None have a: "analysed_session env vault s ps products coordinates prov convert data ?fps st = (st', Inr rows)"
        by (simp add: process_session_def Let_def)
      then obtain marker where m: "check_filename s ?path = Inr marker"
        by (auto simp: analysed_session_def Let_def split: sum.splits)
      obtain st1 handle where o: "open_analysis env vault s ?path convert st = (st1, handle)" by (cases "open_analysis env vault s ?path convert st")
      obtain cx where cx: "bind_result (bind_result handle (run_analysis s)) (session_context_of env s data marker products coordinates) = Inr cx"
          and cp: "classify_profiles env vault s cx ?fps prov ps st1 = (st', Inr rows)"
        using a m o by (auto simp: analysed_session_def Let_def split: sum.splits)
      show thesis
      proof (rule analysed [OF d True _ _ _ _ cp])
        show "cx_observed cx = qe_sha env data" "cx_size cx = int (length data)"
            "\<exists>ls. analyse_rinex2 ls (si_year s) (si_day_of_year s) = Inr (cx_analysis cx)"
          using cx by (auto simp: session_context_of_def run_analysis_def)
        show "\<exists>marker. check_filename s ?path = Inr marker \<and>
            resolve_identity (si_station_id s) marker (rh_marker_name (ra_header (cx_analysis cx))) = Inr (cx_identity cx)"
          using cx m by (auto simp: session_context_of_def run_analysis_def)
      qed
    qed
  qed
qed


section \<open>Reuse\<close>

lemma fresh_reusable:
  "reusable fps ob (result_payload s p a fs (obj_get fps (qp_name p) []) (Some ob) idn c n co pr now re) (qp_name p)"
  using result_fields(4) [of s p a fs "obj_get fps (qp_name p) []" "Some ob" idn c n co pr now re "JObj []"]
  by (auto simp: reusable_def json_get_def opt_json_def)

lemma stored_rows_reused:
  assumes "list_all2 (\<lambda>p row. qs_files st (result_path vault (qp_name p) s) = Content row) ps rows"
    and "list_all2 (\<lambda>p row. \<exists>d. row = JObj d \<and> reusable fps observed d (qp_name p)) ps rows"
  shows "load_cached vault s ps fps observed st = Inr (Some (map mark_reused rows))"
  unfolding load_cached_iff list.rel_map
  using assms by (auto simp: list_all2_conv_all_nth cached_row_def)

text \<open>
  C22. A second run reuses the first (\<open>process_session\<close>). If a session was processed without an exception,
  under profiles with different names, processing it again from the stored files runs no converter and
  no analysis: it returns the same results, each marked as reused, and writes nothing. That is so
  whatever navigation products and coordinates are catalogued by then.
\<close>

theorem second_run_reuses:
  "case process_session env vault s ps products coordinates prov convert st of
     (st', Inl e) \<Rightarrow> True
   | (st', Inr rows) \<Rightarrow>
       if distinct (map qp_name ps)
       then process_session env vault s ps products' coordinates' prov convert st' = (st', Inr (map mark_reused rows))
       else True"
proof (cases "process_session env vault s ps products coordinates prov convert st")
  case (Pair st' r)
  show ?thesis
  proof (cases "\<exists>rows. r = Inr rows \<and> distinct (map qp_name ps)")
    case True
    then obtain rows where r: "r = Inr rows" and dist: "distinct (map qp_name ps)" by auto
    let ?fps = "fingerprints_of (qe_sha env) s ps prov convert"
    obtain data where d: "qe_bytes env (vault @ ''/'' @ si_relative_path s) = Some data"
      and hit: "load_cached vault s ps ?fps (qe_sha env data) st' = Inr (Some (map mark_reused rows))"
      using Pair [unfolded r]
    proof (cases rule: process_session_cases)
      case (cached data)
      then have rows: "list_all2 (cached_row vault s ?fps (qe_sha env data) st) ps rows" by (simp add: load_cached_iff)
      then have "map mark_reused rows = rows"
        by (auto simp: list_all2_conv_all_nth cached_row_def in_set_conv_nth intro!: map_idI) (metis mark_reused_twice)
      with cached that show ?thesis by metis
    next
      case (integrity data)
      from write_failures_ok [OF integrity(3)] dist
      have w: "rows = map (\<lambda>p. JObj (integrity_failure_result env s (qe_sha env data) ?fps prov p)) ps"
        "list_all2 (\<lambda>p row. qs_files st' (result_path vault (qp_name p) s) = Content row) ps rows" by auto
      have "list_all2 (\<lambda>p row. \<exists>d. row = JObj d \<and> reusable ?fps (qe_sha env data) d (qp_name p)) ps rows"
        by (simp add: w(1) list_all2_conv_all_nth integrity_failure_result_def analysis_free_result_def fresh_reusable)
      from that [OF integrity(1) stored_rows_reused [OF w(2) this]] show ?thesis .
    next
      case (analysed data cx st1)
      from classify_profiles_ok [OF analysed(7)] dist
      have w: "list_all2 (\<lambda>p row. \<exists>f. profile_findings env s cx p = Inr f \<and> row = JObj (profile_result env s cx ?fps prov p f)) ps rows"
        "list_all2 (\<lambda>p row. qs_files st' (result_path vault (qp_name p) s) = Content row) ps rows" by auto
      from w(1) have "list_all2 (\<lambda>p row. \<exists>d. row = JObj d \<and> reusable ?fps (qe_sha env data) d (qp_name p)) ps rows"
        by (rule list_all2_mono) (auto simp: profile_result_def analysed(3) fresh_reusable)
      from that [OF analysed(1) stored_rows_reused [OF w(2) this]] show ?thesis .
    qed
    then have "process_session env vault s ps products' coordinates' prov convert st' = (st', Inr (map mark_reused rows))"
      by (simp add: process_session_def Let_def)
    with dist show ?thesis by (simp add: Pair r)
  qed (use Pair in \<open>auto split: sum.splits\<close>)
qed

section \<open>Acceptance\<close>

definition accepted_fresh :: "json \<Rightarrow> bool" where
  "accepted_fresh row \<longleftrightarrow>
     row_field row ''overall_classification'' = JStr ''ACCEPT'' \<and> row_field row ''reused_verified_result'' = JBool False"

text \<open>
  What an acceptance rests on: the bytes of the source are those of the manifest, its name has the day
  of the session, the markers are canonical, and an analysis of lines found increasing epochs without gap.
\<close>

definition session_evidence :: "qc_env \<Rightarrow> string \<Rightarrow> session_input \<Rightarrow> bool" where
  "session_evidence env vault s \<longleftrightarrow>
     (\<exists>data ls a marker.
        qe_bytes env (vault @ ''/'' @ si_relative_path s) = Some data \<and> qe_sha env data = si_sha256 s \<and>
        int (length data) = si_size_bytes s \<and> si_exact_duplicate_sources s = [] \<and>
        analyse_rinex2 ls (si_year s) (si_day_of_year s) = Inr a \<and>
        ra_duplicate_epochs a = 0 \<and> ra_backward_epochs a = 0 \<and> ra_gap_count a = 0 \<and> ra_parser_warnings a = [] \<and>
        check_filename s (vault @ ''/'' @ si_relative_path s) = Inr marker \<and>
        resolve_identity (si_station_id s) marker (rh_marker_name (ra_header a)) = Inr ''CANONICAL_MATCH'')"

lemma accept_text: "classification_str c = ''ACCEPT'' \<longleftrightarrow> c = CL_ACCEPT"
  by (cases c) simp_all

lemma fresh_result:
  "accepted_fresh (JObj (result_payload s p a fs fp ob idn c n co pr now False)) \<longleftrightarrow> overall_classification fs = CL_ACCEPT"
  by (simp add: accepted_fresh_def row_field_def accept_text)

lemma list_all2_right: "list_all2 P xs ys \<Longrightarrow> y \<in> set ys \<Longrightarrow> \<exists>x. P x y"
  by (auto simp: list_all2_conv_all_nth in_set_conv_nth)

lemma process_session_fresh:
  assumes "process_session env vault s ps products coordinates prov convert st = (st', Inr rows)"
  shows "length rows = length ps \<and> (\<forall>row \<in> set rows. accepted_fresh row \<longrightarrow> session_evidence env vault s)"
  using assms
proof (cases rule: process_session_cases)
  case (cached data)
  then have w: "list_all2 (cached_row vault s (fingerprints_of (qe_sha env) s ps prov convert) (qe_sha env data) st) ps rows"
    by (simp add: load_cached_iff)
  have "\<not> accepted_fresh row" if "cached_row vault s fps ob st p row" for fps ob p row
    using that by (auto simp: cached_row_def accepted_fresh_def mark_reused_fields)
  with list_all2_right [OF w] list_all2_lengthD [OF w] show ?thesis by metis
next
  case (integrity data)
  with write_failures_ok [OF integrity(3)] show ?thesis
    by (auto simp: integrity_failure_result_def analysis_free_result_def fresh_result failure_finding_def overall_classification_def)
next
  case (analysed data cx st1)
  let ?fps = "fingerprints_of (qe_sha env) s ps prov convert"
  have w: "list_all2 (\<lambda>p row. \<exists>f. profile_findings env s cx p = Inr f \<and> row = JObj (profile_result env s cx ?fps prov p f)) ps rows"
    using classify_profiles_ok [OF analysed(7)] by blast
  have "session_evidence env vault s"
    if f: "profile_findings env s cx p = Inr f" and acc: "overall_classification f = CL_ACCEPT" for p f
  proof -
    from f acc have pass: "all_pass (integrity_findings s (cx_observed cx))"
        "fd_severity (identity_finding s (cx_analysis cx) (cx_identity cx)) = SV_PASS"
        "all_pass (sampling_findings s (cx_analysis cx) p)" "all_pass (gap_findings s (cx_analysis cx) p)"
        "all_pass (observation_findings s (cx_analysis cx) p)" "fd_severity (size_finding s (cx_size cx)) = SV_PASS"
      by (auto simp: profile_findings_def overall_accept_iff classify_session_def temporal_findings_def)
    then show ?thesis
      using analysed(1-6)
      by (auto simp: session_evidence_def integrity_pass identity_pass sampling_pass gap_pass observation_pass
          size_finding_def split: if_splits)
  qed
  then have ev: "session_evidence env vault s"
    if "\<exists>f. profile_findings env s cx p = Inr f \<and> row = JObj (profile_result env s cx ?fps prov p f)" "accepted_fresh row" for p row
    using that by (auto simp: profile_result_def fresh_result)
  have "session_evidence env vault s" if "row \<in> set rows" "accepted_fresh row" for row
    using list_all2_right [OF w that(1)] ev that(2) by auto
  with list_all2_lengthD [OF w] show ?thesis by simp
qed

lemma execute_session_fresh:
  assumes "execute_session env vault ps products coordinates prov convert s st = (st', rows)"
  shows "length rows = length ps \<and> (\<forall>row \<in> set rows. accepted_fresh row \<longrightarrow> session_evidence env vault s)"
proof (cases "process_session env vault s ps products coordinates prov convert st")
  case (Pair st1 r)
  show ?thesis
  proof (cases r)
    case (Inl e)
    with assms Pair have "write_failures vault s (failure_result env s prov convert e) ps st1 = (st', rows)"
      by (simp add: execute_session_def)
    from write_failures_ok [OF this] show ?thesis
      by (auto simp: failure_result_def analysis_free_result_def fresh_result failure_finding_def overall_classification_def Let_def
          split: if_splits)
  next
    case (Inr rs)
    with assms Pair have "process_session env vault s ps products coordinates prov convert st = (st', Inr rows)"
      by (simp add: execute_session_def)
    then show ?thesis by (rule process_session_fresh)
  qed
qed

text \<open>
  C21. A batch fails closed and isolates failures (\<open>run_dataset\<close>). It fails as a whole only for a number of
  workers below one. Otherwise the results are, session by session in the given order, one per profile,
  whatever goes wrong in a session; and a result that accepts a session afresh rests on the source bytes
  of the manifest, canonical markers, the right day in the name, and increasing epochs without a gap.
\<close>

theorem batch_fails_closed:
  "case run_dataset env vault sessions ps products coordinates prov convert workers st of
     (st', Inl e) \<Rightarrow> workers < 1 \<and> st' = st
   | (st', Inr rows) \<Rightarrow>
       1 \<le> workers \<and>
       (\<exists>groups. rows = concat groups \<and>
          list_all2 (\<lambda>s group. length group = length ps \<and>
            list_all (\<lambda>row. if accepted_fresh row then session_evidence env vault s else True) group) sessions groups)"
proof -
  have "\<exists>groups. rows = concat groups \<and>
      list_all2 (\<lambda>s group. length group = length ps \<and>
        list_all (\<lambda>row. accepted_fresh row \<longrightarrow> session_evidence env vault s) group) sessions groups"
    if "run_sessions (execute_session env vault ps products coordinates prov convert) sessions st = (st', rows)" for st' rows
    using that
  proof (induction sessions arbitrary: st rows)
    case (Cons s ss)
    obtain st1 r1 where e: "execute_session env vault ps products coordinates prov convert s st = (st1, r1)"
      by (cases "execute_session env vault ps products coordinates prov convert s st")
    obtain rest where rest: "run_sessions (execute_session env vault ps products coordinates prov convert) ss st1 = (st', rest)"
      and rows: "rows = r1 @ rest"
      using Cons.prems e by (auto split: prod.splits)
    from Cons.IH [OF rest] obtain groups where "rest = concat groups"
      "list_all2 (\<lambda>s group. length group = length ps \<and>
        list_all (\<lambda>row. accepted_fresh row \<longrightarrow> session_evidence env vault s) group) ss groups" by auto
    with rows execute_session_fresh [OF e] show ?case
      by (intro exI [of _ "r1 # groups"]) (auto simp: list_all_iff)
  qed auto
  then show ?thesis
    by (auto simp: run_dataset_def map_prod_def split: prod.splits)
qed

section \<open>The decision engine reads what was stored\<close>

lemma result_path_discovery: "dd_root d = vault \<Longrightarrow>
    qc_result_path d name (si_station_id s) (si_year s) (si_day_of_year s) = result_path vault name s"
  by (simp add: qc_result_path_def sessions_path_def result_path_def result_dir_def zero_pad_def format_03d_def Let_def)

lemma stored_status:
  "case qc_status_of (Some (JObj d)) of
     Inl e \<Rightarrow> False
   | Inr q \<Rightarrow> q = QC_ACCEPT \<longleftrightarrow> py_str (obj_get d ''overall_classification'' JNull) = ''ACCEPT''"
proof -
  let ?t = "py_str (obj_get d ''overall_classification'' (JStr ''BLOCKED''))"
  have t: "?t = ''ACCEPT'' \<longleftrightarrow> py_str (obj_get d ''overall_classification'' JNull) = ''ACCEPT''"
    by (auto simp: obj_get_def split: option.splits)
  have q: "qc_status_of (Some (JObj d)) = (case parse_qc_status ?t of Inl _ \<Rightarrow> Inr QC_BLOCKED | Inr s \<Rightarrow> Inr s)"
    by (simp add: qc_status_of_def json_get_def)
  show ?thesis
  proof (cases "parse_qc_status ?t")
    case (Inl e)
    have "?t \<noteq> ''ACCEPT''"
    proof
      assume "?t = ''ACCEPT''"
      then have "?t = qc_status_str QC_ACCEPT" by simp
      with Inl show False by (metis parse_qc_status_str sum.distinct(1))
    qed
    then show ?thesis unfolding q Inl t [symmetric] by simp
  next
    case (Inr w)
    then have "qc_status_str w = ?t" unfolding parse_qc_status_def by (rule enum_parse_Inr)
    moreover have "w = QC_ACCEPT \<longleftrightarrow> qc_status_str w = ''ACCEPT''" by (cases w) simp_all
    ultimately show ?thesis unfolding q Inr t [symmetric] by simp
  qed
qed

lemma list_all2_both: "list_all2 P xs ys \<Longrightarrow> list_all2 Q xs ys \<Longrightarrow> list_all2 (\<lambda>x y. P x y \<and> Q x y) xs ys"
  by (auto simp: list_all2_conv_all_nth)

lemma process_session_stored:
  assumes "process_session env vault s ps products coordinates prov convert st = (st', Inr rows)"
    and dist: "distinct (map qp_name ps)"
  shows "list_all2 (\<lambda>p row. \<exists>d. qs_files st' (result_path vault (qp_name p) s) = Content (JObj d) \<and>
    (row = JObj d \<or> row = mark_reused (JObj d))) ps rows"
  using assms(1)
proof (cases rule: process_session_cases)
  case (cached data)
  then have "list_all2 (cached_row vault s (fingerprints_of (qe_sha env) s ps prov convert) (qe_sha env data) st) ps rows"
    by (simp add: load_cached_iff)
  then show ?thesis by (rule list_all2_mono) (auto simp: cached_row_def cached)
next
  case (integrity data)
  note c = write_failures_ok [OF integrity(3)]
  have "list_all2 (\<lambda>p row. row \<in> range JObj) ps rows"
    unfolding conjunct1 [OF c] by (simp add: list_all2_conv_all_nth)
  from list_all2_both [OF mp [OF conjunct2 [OF conjunct2 [OF c]] dist] this]
  show ?thesis by (rule list_all2_mono) auto
next
  case (analysed data cx st1)
  note c = classify_profiles_ok [OF analysed(7)]
  from list_all2_both [OF conjunct1 [OF c] mp [OF conjunct2 [OF conjunct2 [OF c]] dist]]
  show ?thesis by (rule list_all2_mono) auto
qed

text \<open>
  C23. The decision engine reads what quality control stored (\<open>process_session\<close>, then \<open>read_qc_result\<close> and
  \<open>qc_status_of\<close> of the discovery). After a session was processed without an exception under profiles
  with different names, the status that the discovery reads for the station, day and profile never
  raises and is \<open>ACCEPT\<close> exactly when the classification of the result returned is.
\<close>

theorem discovery_reads_stored_result:
  "case process_session env vault s ps products coordinates prov convert st of
     (st', Inl e) \<Rightarrow> True
   | (st', Inr rows) \<Rightarrow>
       if distinct (map qp_name ps) \<and> dd_root d = vault \<and> dd_file d = qs_files st' then
         list_all2 (\<lambda>p row.
           case qc_status_of (read_qc_result d
                  (qc_result_path d (qp_name p) (si_station_id s) (si_year s) (si_day_of_year s))) of
             Inl e \<Rightarrow> False
           | Inr status \<Rightarrow>
               status = QC_ACCEPT \<longleftrightarrow> py_str (row_field row ''overall_classification'') = ''ACCEPT'') ps rows
       else True"
proof (cases "process_session env vault s ps products coordinates prov convert st")
  case (Pair st' r)
  show ?thesis
  proof (cases "\<exists>rows. r = Inr rows \<and> distinct (map qp_name ps) \<and> dd_root d = vault \<and> dd_file d = qs_files st'")
    case True
    then obtain rows where r: "r = Inr rows" and dist: "distinct (map qp_name ps)"
      and d: "dd_root d = vault" "dd_file d = qs_files st'" by auto
    have "list_all2 (\<lambda>p row.
        case qc_status_of (read_qc_result d (qc_result_path d (qp_name p) (si_station_id s) (si_year s) (si_day_of_year s))) of
          Inl e \<Rightarrow> False
        | Inr status \<Rightarrow> status = QC_ACCEPT \<longleftrightarrow> py_str (row_field row ''overall_classification'') = ''ACCEPT'') ps rows"
      using process_session_stored [OF Pair [unfolded r] dist]
    proof (rule list_all2_mono)
      fix p row
      assume "\<exists>dict. qs_files st' (result_path vault (qp_name p) s) = Content (JObj dict) \<and> (row = JObj dict \<or> row = mark_reused (JObj dict))"
      then obtain dict where f: "qs_files st' (result_path vault (qp_name p) s) = Content (JObj dict)"
        and row: "row = JObj dict \<or> row = mark_reused (JObj dict)" by auto
      from row have rf: "row_field row ''overall_classification'' = obj_get dict ''overall_classification'' JNull"
        by (auto simp: mark_reused_fields) (simp add: row_field_def)
      from f d have rq: "read_qc_result d (qc_result_path d (qp_name p) (si_station_id s) (si_year s) (si_day_of_year s)) = Some (JObj dict)"
        by (simp add: result_path_discovery read_qc_result_def)
      show "case qc_status_of (read_qc_result d (qc_result_path d (qp_name p) (si_station_id s) (si_year s) (si_day_of_year s))) of
          Inl e \<Rightarrow> False
        | Inr status \<Rightarrow> status = QC_ACCEPT \<longleftrightarrow> py_str (row_field row ''overall_classification'') = ''ACCEPT''"
        unfolding rq rf by (rule stored_status)
    qed
    then show ?thesis by (simp add: Pair r dist d)
  qed (use Pair in \<open>auto split: sum.splits\<close>)
qed

end
