(* ===== verification/Net_Admission.thy ===== *)
theory Net_Admission
  imports Qc_Batch
begin

text \<open>
  The admission of quality-control results to network experiments (\<open>network_rtk/admission.py\<close>). The data
  directory is that of the discovery, whose \<open>discover_stations_for_day\<close> and \<open>qc_result_path\<close> the package has
  in the same words; an \<open>Unreadable\<close> file is one whose reading raises \<open>OSError\<close> or \<open>JSONDecodeError\<close>.
\<close>

section \<open>Records\<close>

definition ADMISSION_SCHEMA_VERSION :: string where "ADMISSION_SCHEMA_VERSION = ''1.0''"

record admitted_session =
  as_station_id :: string
  as_year :: int
  as_day_of_year :: int
  as_observation_path :: string
  as_observation_sha256 :: "string option"
  as_converted_sha256 :: "string option"
  as_navigation_path :: "string option"
  as_navigation_sha256 :: "string option"
  as_qc_profile :: string
  as_qc_profile_version :: string
  as_qc_status :: string
  as_rejection_block_reason :: "string option"
  as_file_hashes :: "(string \<times> string option) list"
  as_phase4_result_fingerprint :: string
  as_station_metadata_provenance :: "string option"
  as_equipment_metadata :: dict
  as_sampling_interval_seconds :: "pyfloat option"
  as_first_epoch :: "string option"
  as_last_epoch :: "string option"
  as_epochs_observed :: "int option"
  as_coordinate_frame :: "string option"
  as_coordinate_epoch :: "string option"

definition admitted_as_dict :: "admitted_session \<Rightarrow> dict" where
  "admitted_as_dict a =
     [(''station_id'', JStr (as_station_id a)), (''year'', JInt (as_year a)),
      (''day_of_year'', JInt (as_day_of_year a)), (''observation_path'', JStr (as_observation_path a)),
      (''observation_sha256'', opt_json JStr (as_observation_sha256 a)),
      (''converted_sha256'', opt_json JStr (as_converted_sha256 a)),
      (''navigation_path'', opt_json JStr (as_navigation_path a)),
      (''navigation_sha256'', opt_json JStr (as_navigation_sha256 a)),
      (''qc_profile'', JStr (as_qc_profile a)), (''qc_profile_version'', JStr (as_qc_profile_version a)),
      (''qc_status'', JStr (as_qc_status a)),
      (''rejection_block_reason'', opt_json JStr (as_rejection_block_reason a)),
      (''file_hashes'', JObj (map (\<lambda>(k, v). (k, opt_json JStr v)) (as_file_hashes a))),
      (''phase4_result_fingerprint'', JStr (as_phase4_result_fingerprint a)),
      (''station_metadata_provenance'', opt_json JStr (as_station_metadata_provenance a)),
      (''equipment_metadata'', JObj (as_equipment_metadata a)),
      (''sampling_interval_seconds'', opt_json JFloat (as_sampling_interval_seconds a)),
      (''first_epoch'', opt_json JStr (as_first_epoch a)), (''last_epoch'', opt_json JStr (as_last_epoch a)),
      (''epochs_observed'', opt_json JInt (as_epochs_observed a)),
      (''coordinate_frame'', opt_json JStr (as_coordinate_frame a)),
      (''coordinate_epoch'', opt_json JStr (as_coordinate_epoch a))]"

record admission_summary =
  am_year :: int
  am_day_of_year :: int
  am_qc_profile :: string
  am_admitted :: "admitted_session list"
  am_rejected :: "dict list"
  am_blocked_reasons :: "string list"
  am_diagnostic :: bool

definition summary_as_dict :: "admission_summary \<Rightarrow> dict" where
  "summary_as_dict m =
     [(''schema_version'', JStr ADMISSION_SCHEMA_VERSION), (''year'', JInt (am_year m)),
      (''day_of_year'', JInt (am_day_of_year m)), (''qc_profile'', JStr (am_qc_profile m)),
      (''diagnostic'', JBool (am_diagnostic m)),
      (''admitted'', JArr (map (\<lambda>a. JObj (admitted_as_dict a)) (am_admitted m))),
      (''rejected'', JArr (map JObj (am_rejected m))),
      (''blocked_reasons'', JArr (map JStr (am_blocked_reasons m))),
      (''admitted_station_count'', JInt (int (length (am_admitted m)))),
      (''rejected_station_count'', JInt (int (length (am_rejected m))))]"

section \<open>One result\<close>

definition optional_text :: "json \<Rightarrow> string option" where
  "optional_text v = (case v of JStr s \<Rightarrow> if s = [] then None else Some s | _ \<Rightarrow> None)"

definition optional_float :: "json \<Rightarrow> pyfloat option result" where
  "optional_float v =
     (case v of
        JBool _ \<Rightarrow> bind_result (py_float v) (\<lambda>x. Inr (Some x))
      | JInt _ \<Rightarrow> bind_result (py_float v) (\<lambda>x. Inr (Some x))
      | JFloat x \<Rightarrow> Inr (Some x)
      | _ \<Rightarrow> Inr None)"

definition optional_int :: "json \<Rightarrow> int option" where
  "optional_int v = (case v of JBool b \<Rightarrow> Some (if b then 1 else 0) | JInt i \<Rightarrow> Some i | _ \<Rightarrow> None)"

definition text_or :: "string option \<Rightarrow> string option \<Rightarrow> string option" where
  "text_or x y = (case x of None \<Rightarrow> y | Some _ \<Rightarrow> x)"

text \<open>The findings that are dicts with one of the severities, each rendered; a list as a severity has no hash.\<close>

definition severe_finding :: "string list \<Rightarrow> (dict \<Rightarrow> string) \<Rightarrow> json \<Rightarrow> string list result" where
  "severe_finding severities render f =
     (case f of
        JObj d \<Rightarrow>
          bind_result (hashable (obj_get d ''severity'' JNull)) (\<lambda>_.
            Inr (if obj_get d ''severity'' JNull \<in> JStr ` set severities then [render d] else []))
      | _ \<Rightarrow> Inr [])"

definition severe_findings :: "string list \<Rightarrow> (dict \<Rightarrow> string) \<Rightarrow> json \<Rightarrow> string list result" where
  "severe_findings severities render payload =
     bind_result (json_get payload ''findings'' (JArr [])) (\<lambda>findings.
     bind_result (json_iter findings) (\<lambda>fs.
     bind_result (map_result (severe_finding severities render) fs) (\<lambda>parts. Inr (concat parts))))"

definition code_severity :: "dict \<Rightarrow> string" where
  "code_severity d = py_str (obj_get d ''finding_code'' JNull) @ '':'' @ py_str (obj_get d ''severity'' JNull)"

definition decision_reason :: "json \<Rightarrow> string \<Rightarrow> string result" where
  "decision_reason payload status =
     bind_result (severe_findings [''REJECT'', ''BLOCKED'', ''WARN'']
         (\<lambda>d. code_severity d @ '':'' @ py_str (obj_get d ''message'' (JStr []))) payload) (\<lambda>severe.
       Inr (''Phase 4 '' @ status @ '': '' @
         (if severe = [] then ''no passing admission under profile'' else str_join ''; '' (take 5 severe))))"

text \<open>\<open>int(v or 0)\<close>\<close>

definition int_or_zero :: "json \<Rightarrow> int result" where
  "int_or_zero v = (if py_bool v then py_int v else Inr 0)"

definition EQUIPMENT_KEYS :: "string list" where
  "EQUIPMENT_KEYS =
     [''receiver_type'', ''receiver_number'', ''receiver_version'', ''antenna_type'', ''antenna_number'',
      ''marker_name'', ''marker_number'']"

definition session_of_payload :: "json \<Rightarrow> bool \<Rightarrow> admitted_session result" where
  "session_of_payload payload diagnostic =
     bind_result (json_get payload ''station_identity'' (JObj [])) (\<lambda>identity.
     bind_result (json_get payload ''source'' (JObj [])) (\<lambda>source.
     bind_result (json_get payload ''conversion'' JNull) (\<lambda>conv. let conversion = or_empty conv in
     bind_result (json_get payload ''navigation'' JNull) (\<lambda>nav. let navigation = or_empty nav in
     bind_result (json_get payload ''rinex'' JNull) (\<lambda>rin. let rinex = or_empty rin in
     bind_result (json_get rinex ''header'' JNull) (\<lambda>head. let header = or_empty head in
     bind_result (json_get payload ''coordinate_eligibility'' JNull) (\<lambda>co. let coord = or_empty co in
     bind_result (severe_findings [''REJECT'', ''BLOCKED''] code_severity payload) (\<lambda>severe.
     bind_result (json_get conversion ''converted_path'' (JStr [])) (\<lambda>path.
     bind_result (json_get identity ''canonical_station_id'' (JStr [])) (\<lambda>station.
     bind_result (json_get identity ''year'' (JInt 0)) (\<lambda>y. bind_result (int_or_zero y) (\<lambda>year.
     bind_result (json_get identity ''day_of_year'' (JInt 0)) (\<lambda>doy. bind_result (int_or_zero doy) (\<lambda>day.
     bind_result (json_get source ''observed_sha256'' JNull) (\<lambda>observed.
     bind_result (json_get source ''manifest_sha256'' JNull) (\<lambda>manifest.
     bind_result (json_get conversion ''converted_sha256'' JNull) (\<lambda>converted.
     bind_result (json_get navigation ''relative_path'' JNull) (\<lambda>nav_path.
     bind_result (json_get navigation ''sha256'' JNull) (\<lambda>nav_sha.
     bind_result (json_get payload ''qc_profile'' (JObj [])) (\<lambda>prof.
     bind_result (json_get prof ''name'' (JStr NETWORK_QC_PROFILE)) (\<lambda>profile_name.
     bind_result (json_get prof ''version'' (JStr [])) (\<lambda>version.
     bind_result (json_get payload ''overall_classification'' (JStr ''BLOCKED'')) (\<lambda>status.
     bind_result (json_get conversion ''decompressed_sha256'' JNull) (\<lambda>decompressed.
     bind_result (json_get payload ''result_fingerprint'' (JStr [])) (\<lambda>fp.
     bind_result (json_get coord ''source_path'' JNull) (\<lambda>coord_source.
     bind_result (map_result (\<lambda>k. bind_result (json_get header k JNull) (\<lambda>v. Inr (k, v))) EQUIPMENT_KEYS) (\<lambda>equipment.
     bind_result (bind_result (json_get rinex ''empirical_interval_seconds'' JNull) optional_float) (\<lambda>interval.
     bind_result (json_get rinex ''first_epoch'' JNull) (\<lambda>first.
     bind_result (json_get rinex ''last_epoch'' JNull) (\<lambda>final.
     bind_result (json_get rinex ''epochs_observed'' JNull) (\<lambda>epochs.
     bind_result (json_get coord ''reference_frame'' JNull) (\<lambda>frame.
     bind_result (json_get coord ''coordinate_epoch'' JNull) (\<lambda>epoch.
       Inr \<lparr>as_station_id = py_str station, as_year = year, as_day_of_year = day,
            as_observation_path = py_str path,
            as_observation_sha256 = text_or (optional_text observed) (optional_text manifest),
            as_converted_sha256 = optional_text converted, as_navigation_path = optional_text nav_path,
            as_navigation_sha256 = optional_text nav_sha, as_qc_profile = py_str profile_name,
            as_qc_profile_version = py_str version, as_qc_status = py_str status,
            as_rejection_block_reason = nonempty (str_join ''; '' severe),
            as_file_hashes =
              [(''manifest_sha256'', optional_text manifest), (''observed_sha256'', optional_text observed),
               (''converted_sha256'', optional_text converted),
               (''decompressed_sha256'', optional_text decompressed),
               (''navigation_sha256'', optional_text nav_sha)],
            as_phase4_result_fingerprint = py_str fp,
            as_station_metadata_provenance = optional_text coord_source,
            as_equipment_metadata = equipment @ [(''diagnostic_experiment'', JBool diagnostic)],
            as_sampling_interval_seconds = interval, as_first_epoch = optional_text first,
            as_last_epoch = optional_text final, as_epochs_observed = optional_int epochs,
            as_coordinate_frame = optional_text frame, as_coordinate_epoch = optional_text epoch\<rparr>)))))))))))))))))))))))))))))))))"

section \<open>One day\<close>

definition blocked_entry :: "string \<Rightarrow> string \<Rightarrow> dict" where
  "blocked_entry station reason =
     [(''station_id'', JStr station), (''decision'', JStr ''BLOCKED''), (''reason'', JStr reason)]"

definition rejected_entry :: "string \<Rightarrow> string \<Rightarrow> string \<Rightarrow> json \<Rightarrow> dict result" where
  "rejected_entry station profile status payload =
     bind_result (decision_reason payload status) (\<lambda>reason.
     bind_result (json_get payload ''qc_profile'' (JObj [])) (\<lambda>prof.
     bind_result (json_get prof ''name'' (JStr profile)) (\<lambda>name.
     bind_result (json_get payload ''result_fingerprint'' (JStr [])) (\<lambda>fp.
       Inr [(''station_id'', JStr station),
            (''decision'', JStr (if status = ''REJECT'' \<or> status = ''BLOCKED'' then status else ''REJECT'')),
            (''reason'', JStr reason), (''qc_profile'', JStr (py_str name)),
            (''result_fingerprint'', JStr (py_str fp))]))))"

text \<open>One station: admitted, or an entry of the rejections.\<close>

definition admit_station ::
  "data_root \<Rightarrow> int \<Rightarrow> int \<Rightarrow> string \<Rightarrow> bool \<Rightarrow> string \<Rightarrow> (dict + admitted_session) result"
where
  "admit_station d year day profile diagnostic station =
     (case dd_file d (qc_result_path d profile station year day) of
        NoFile \<Rightarrow>
          Inr (Inl (blocked_entry station
            (''no Phase 4 '' @ profile @ '' QC result for '' @ str_int year @ ''-'' @ format_03d day)))
      | Unreadable exc \<Rightarrow> Inr (Inl (blocked_entry station (''unreadable Phase 4 QC result: '' @ exc)))
      | Content payload \<Rightarrow>
          bind_result (json_get payload ''overall_classification'' (JStr ''BLOCKED'')) (\<lambda>c.
          let status = py_str c in
          if status \<noteq> ''ACCEPT'' \<and> \<not> diagnostic then
            bind_result (rejected_entry station profile status payload) (\<lambda>e. Inr (Inl e))
          else
            let malformed = (\<lambda>msg. Inr (Inl (blocked_entry station (''malformed QC result: '' @ msg)))) in
            (case session_of_payload payload diagnostic of
               Inr a \<Rightarrow> Inr (Inr a)
             | Inl (KeyError m) \<Rightarrow> malformed m
             | Inl (TypeError m) \<Rightarrow> malformed m
             | Inl (ValueError m) \<Rightarrow> malformed m
             | Inl e \<Rightarrow> Inl e)))"

definition lefts :: "('a + 'b) list \<Rightarrow> 'a list" where
  "lefts xs = concat (map (\<lambda>x. case x of Inl a \<Rightarrow> [a] | Inr _ \<Rightarrow> []) xs)"

definition rights :: "('a + 'b) list \<Rightarrow> 'b list" where
  "rights xs = concat (map (\<lambda>x. case x of Inl _ \<Rightarrow> [] | Inr b \<Rightarrow> [b]) xs)"

definition day_stations :: "data_root \<Rightarrow> int \<Rightarrow> int \<Rightarrow> string \<Rightarrow> string list option \<Rightarrow> string list" where
  "day_stations d year day profile candidates =
     sort (case candidates of
             Some (c # cs) \<Rightarrow> c # cs
           | _ \<Rightarrow> discover_stations_for_day d profile year day)"

definition admit_day ::
  "data_root \<Rightarrow> int \<Rightarrow> int \<Rightarrow> string \<Rightarrow> bool \<Rightarrow> string list option \<Rightarrow> admission_summary result"
where
  "admit_day d year day profile diagnostic candidates =
     bind_result (map_result (admit_station d year day profile diagnostic) (day_stations d year day profile candidates))
       (\<lambda>outcomes.
          Inr \<lparr>am_year = year, am_day_of_year = day, am_qc_profile = profile, am_admitted = rights outcomes,
               am_rejected = lefts outcomes,
               am_blocked_reasons =
                 (if rights outcomes = []
                  then [''no '' @ profile @ '' ACCEPT sessions for '' @ str_int year @ ''-'' @ format_03d day]
                  else []),
               am_diagnostic = diagnostic\<rparr>)"

section \<open>Rows and fingerprint\<close>

record eligibility_row =
  er_year :: int
  er_day_of_year :: int
  er_station_id :: string
  er_decision :: string
  er_qc_status :: string
  er_reason :: string
  er_observation_sha256 :: "string option"
  er_phase4_fingerprint :: string

definition session_eligibility_rows :: "admission_summary \<Rightarrow> eligibility_row list" where
  "session_eligibility_rows m =
     sort_by (\<lambda>r s. er_day_of_year r < er_day_of_year s \<or>
                er_day_of_year r = er_day_of_year s \<and> er_station_id r < er_station_id s)
       (map (\<lambda>a. \<lparr>er_year = as_year a, er_day_of_year = as_day_of_year a, er_station_id = as_station_id a,
             er_decision = ''ADMITTED'', er_qc_status = as_qc_status a, er_reason = [],
             er_observation_sha256 = as_observation_sha256 a,
             er_phase4_fingerprint = as_phase4_result_fingerprint a\<rparr>) (am_admitted m) @
        map (\<lambda>e. \<lparr>er_year = am_year m, er_day_of_year = am_day_of_year m,
             er_station_id = py_str (obj_get e ''station_id'' (JStr [])),
             er_decision = py_str (obj_get e ''decision'' (JStr ''REJECT'')),
             er_qc_status = py_str (obj_get e ''decision'' (JStr [])),
             er_reason = py_str (obj_get e ''reason'' (JStr [])), er_observation_sha256 = Some [],
             er_phase4_fingerprint = py_str (obj_get e ''result_fingerprint'' (JStr []))\<rparr>) (am_rejected m))"

definition admission_fingerprint :: "(bytes \<Rightarrow> string) \<Rightarrow> admission_summary \<Rightarrow> string" where
  "admission_fingerprint sha m =
     json_digest sha (JObj
       [(''year'', JInt (am_year m)), (''day_of_year'', JInt (am_day_of_year m)),
        (''qc_profile'', JStr (am_qc_profile m)), (''diagnostic'', JBool (am_diagnostic m)),
        (''admitted'', JArr (map (\<lambda>(s, f). JArr [JStr s, JStr f])
           (sort_by (\<lambda>a b. fst a < fst b \<or> fst a = fst b \<and> snd a < snd b)
              (map (\<lambda>a. (as_station_id a, as_phase4_result_fingerprint a)) (am_admitted m)))))])"

section \<open>What a day admits\<close>

lemma lefts_simps [simp]:
  "lefts [] = []" "lefts (Inl a # xs) = a # lefts xs" "lefts (Inr b # xs) = lefts xs"
  by (simp_all add: lefts_def)

lemma rights_simps [simp]:
  "rights [] = []" "rights (Inl a # xs) = rights xs" "rights (Inr b # xs) = b # rights xs"
  by (simp_all add: rights_def)

text \<open>The session that the stored result of a station stands for, if it may enter an experiment.\<close>

definition admitted_of ::
  "data_root \<Rightarrow> int \<Rightarrow> int \<Rightarrow> string \<Rightarrow> bool \<Rightarrow> string \<Rightarrow> admitted_session option"
where
  "admitted_of d year day profile diagnostic station =
     (case dd_file d (qc_result_path d profile station year day) of
        Content payload \<Rightarrow>
          (case (json_get payload ''overall_classification'' (JStr ''BLOCKED''), session_of_payload payload diagnostic) of
             (Inr c, Inr a) \<Rightarrow> if py_str c = ''ACCEPT'' \<or> diagnostic then Some a else None
           | _ \<Rightarrow> None)
      | _ \<Rightarrow> None)"

lemma session_status:
  assumes "session_of_payload payload diagnostic = Inr a"
  shows "\<exists>c. json_get payload ''overall_classification'' (JStr ''BLOCKED'') = Inr c \<and> as_qc_status a = py_str c"
  using assms by (auto simp: session_of_payload_def Let_def)

lemma admitted_of_status:
  "admitted_of d year day profile diagnostic station = Some a \<Longrightarrow> diagnostic \<or> as_qc_status a = ''ACCEPT''"
  by (auto simp: admitted_of_def split: file_json.splits sum.splits if_splits dest!: session_status)

definition refusal :: "string \<Rightarrow> dict \<Rightarrow> bool" where
  "refusal station e \<longleftrightarrow>
     obj_get e ''station_id'' JNull = JStr station \<and>
     obj_get e ''decision'' JNull \<in> {JStr ''BLOCKED'', JStr ''REJECT''}"

lemma refusal_entries:
  "refusal station (blocked_entry station reason)"
  "rejected_entry station profile status payload = Inr e \<Longrightarrow> refusal station e"
  by (auto simp: refusal_def blocked_entry_def rejected_entry_def obj_get_def split: if_splits)

lemma admit_station_cases:
  assumes "admit_station d year day profile diagnostic station = Inr r"
  shows "case r of
      Inl e \<Rightarrow> refusal station e \<and> admitted_of d year day profile diagnostic station = None
    | Inr a \<Rightarrow> admitted_of d year day profile diagnostic station = Some a"
proof (cases "dd_file d (qc_result_path d profile station year day)")
  case (Content payload)
  with assms obtain c where c: "json_get payload ''overall_classification'' (JStr ''BLOCKED'') = Inr c"
    by (auto simp: admit_station_def)
  show ?thesis
  proof (cases "py_str c \<noteq> ''ACCEPT'' \<and> \<not> diagnostic")
    case True
    with assms Content c show ?thesis
      by (auto simp: admit_station_def admitted_of_def refusal_entries split: sum.splits)
  next
    case False
    with assms Content c show ?thesis
      by (auto simp: admit_station_def admitted_of_def Let_def refusal_entries split: sum.splits py_error.splits)
  qed
qed (use assms in \<open>auto simp: admit_station_def admitted_of_def refusal_entries\<close>)

lemma outcomes_split:
  assumes "list_all2 (\<lambda>s r. case r of Inl e \<Rightarrow> refusal s e \<and> f s = None | Inr a \<Rightarrow> f s = Some a) stations outcomes"
  shows "rights outcomes = List.map_filter f stations \<and>
    list_all2 refusal (filter (\<lambda>s. f s = None) stations) (lefts outcomes)"
  using assms by induction (auto split: sum.splits)

text \<open>
  C25. The admission of a network day is exact and fails closed (\<open>admit_day\<close>). When it returns, the
  admitted sessions are those, in the order of the stations, whose stored quality result is \<open>ACCEPT\<close>
  (or anything readable, in a diagnostic experiment) and well formed; every other station is recorded
  as \<open>BLOCKED\<close> or \<open>REJECT\<close> under its own name, so none is lost or counted twice. No admitted
  session of an experiment that is not diagnostic has another status than \<open>ACCEPT\<close>, and the day has a
  blocking reason exactly when nothing was admitted.
\<close>

theorem network_admission_exact:
  "case admit_day d year day profile diagnostic candidates of
     Inl e \<Rightarrow> True
   | Inr m \<Rightarrow>
       am_admitted m = List.map_filter (admitted_of d year day profile diagnostic) (day_stations d year day profile candidates) \<and>
       list_all2 refusal
         (filter (\<lambda>s. admitted_of d year day profile diagnostic s = None) (day_stations d year day profile candidates))
         (am_rejected m) \<and>
       list_all (\<lambda>a. diagnostic \<or> as_qc_status a = ''ACCEPT'') (am_admitted m) \<and>
       (am_blocked_reasons m = []) = (am_admitted m \<noteq> [])"
proof (cases "admit_day d year day profile diagnostic candidates")
  case (Inr m)
  let ?f = "admitted_of d year day profile diagnostic" and ?s = "day_stations d year day profile candidates"
  obtain outcomes where o: "map_result (admit_station d year day profile diagnostic) ?s = Inr outcomes"
    and m: "am_admitted m = rights outcomes" "am_rejected m = lefts outcomes"
      "(am_blocked_reasons m = []) = (rights outcomes \<noteq> [])"
    using Inr by (auto simp: admit_day_def)
  have "list_all2 (\<lambda>s r. case r of Inl e \<Rightarrow> refusal s e \<and> ?f s = None | Inr a \<Rightarrow> ?f s = Some a) ?s outcomes"
    using o [unfolded map_result_Inr_iff] by (rule list_all2_mono) (rule admit_station_cases)
  note split = outcomes_split [OF this]
  have "list_all (\<lambda>a. diagnostic \<or> as_qc_status a = ''ACCEPT'') (List.map_filter ?f ?s)"
    by (auto simp: list_all_iff List.map_filter_def dest: admitted_of_status)
  with split m Inr show ?thesis by simp
qed simp

section \<open>The results of quality control\<close>

text \<open>What a result that the engine writes holds, one field at a time.\<close>

lemma written_fields:
  fixes s p a fs fp ob idn c n co pr now re
  defines "d \<equiv> result_payload s p a fs fp ob idn c n co pr now re"
  shows "obj_get d ''station_identity'' v = JObj
      [(''canonical_station_id'', JStr (si_station_id s)), (''year'', JInt (si_year s)),
       (''day_of_year'', JInt (si_day_of_year s)), (''resolution'', opt_json JStr idn)]"
    "obj_get d ''source'' v = JObj
      [(''relative_path'', JStr (si_relative_path s)),
       (''delivery_relative_path'', JStr (si_source_relative_path s)),
       (''manifest_sha256'', JStr (si_sha256 s)), (''observed_sha256'', opt_json JStr ob),
       (''size_bytes'', JInt (si_size_bytes s)),
       (''exact_duplicate_sources'', JArr (map JStr (si_exact_duplicate_sources s)))]"
    "obj_get d ''conversion'' v = optional_dict c" "obj_get d ''rinex'' v = optional_dict a"
    "obj_get d ''navigation'' v = optional_dict n" "obj_get d ''coordinate_eligibility'' v = optional_dict co"
    "obj_get d ''findings'' v = JArr (map (\<lambda>f. JObj (finding_as_dict f)) fs)"
    "obj_get d ''qc_profile'' v = JObj
      [(''name'', JStr (qp_name p)), (''version'', JStr (qp_version p)), (''status'', JStr (qp_status p)),
       (''configuration_sha256'', JStr (qp_config_sha256 p))]"
  by (simp_all add: d_def result_payload_def obj_get_def)

lemma dict_or_empty: "\<exists>d. or_empty (optional_dict x) = JObj d \<and> (x = None \<and> d = [] \<or> x = Some d)"
  by (cases x) (auto simp: or_empty_def optional_dict_def opt_json_def)

lemma severe_of_written:
  "\<exists>texts. severe_findings sevs render (JObj (result_payload s p a fs fp ob idn c n co pr now re)) = Inr texts"
proof -
  have "\<exists>t. severe_finding sevs render (JObj (finding_as_dict f)) = Inr t" for f
    by (simp add: severe_finding_def finding_as_dict_def obj_get_def hashable_def)
  then obtain g where g: "\<And>f. severe_finding sevs render (JObj (finding_as_dict f)) = Inr (g f)" by metis
  have "map_result (severe_finding sevs render) (map (\<lambda>f. JObj (finding_as_dict f)) fs) = Inr (map g fs)"
    by (induction fs) (simp_all add: g)
  then show ?thesis by (simp add: severe_findings_def json_get_def written_fields)
qed

lemma written_interval:
  assumes "a = None \<or> (\<exists>x. a = Some (analysis_as_dict x))"
  shows "\<exists>rinex head i. or_empty (optional_dict a) = JObj rinex \<and>
    or_empty (obj_get rinex ''header'' JNull) = JObj head \<and>
    optional_float (obj_get rinex ''empirical_interval_seconds'' JNull) = Inr i"
proof (cases a)
  case None
  then show ?thesis by (simp add: or_empty_def optional_dict_def opt_json_def obj_get_def optional_float_def)
next
  case (Some d)
  then obtain x where d: "d = analysis_as_dict x" using assms by auto
  have f: "obj_get d ''header'' JNull = JObj (header_as_dict (ra_header x))"
    "obj_get d ''empirical_interval_seconds'' JNull = opt_json JFloat (ra_empirical_interval_seconds x)"
    by (simp_all add: d analysis_as_dict_def obj_get_def)
  have "d \<noteq> []" "header_as_dict (ra_header x) \<noteq> []" by (simp_all add: d analysis_as_dict_def header_as_dict_def)
  then show ?thesis
    by (cases "ra_empirical_interval_seconds x")
      (simp_all add: Some f or_empty_def optional_dict_def opt_json_def optional_float_def)
qed

lemma written_session:
  assumes "a = None \<or> (\<exists>x. a = Some (analysis_as_dict x))"
  shows "\<exists>m. session_of_payload (JObj (result_payload s p a fs fp ob idn c n co pr now re)) diagnostic = Inr m \<and>
    as_station_id m = si_station_id s \<and> as_year m = si_year s \<and> as_day_of_year m = si_day_of_year s \<and>
    as_qc_profile m = qp_name p \<and> as_phase4_result_fingerprint m = fp \<and>
    as_observation_sha256 m = text_or (optional_text (opt_json JStr ob)) (optional_text (JStr (si_sha256 s)))"
proof -
  let ?pl = "JObj (result_payload s p a fs fp ob idn c n co pr now re)"
  obtain rinex head i where r: "or_empty (optional_dict a) = JObj rinex"
    "or_empty (obj_get rinex ''header'' JNull) = JObj head"
    "optional_float (obj_get rinex ''empirical_interval_seconds'' JNull) = Inr i"
    using written_interval [OF assms] by blast
  obtain cd nd cod where o: "or_empty (optional_dict c) = JObj cd" "or_empty (optional_dict n) = JObj nd"
    "or_empty (optional_dict co) = JObj cod"
    using dict_or_empty by metis
  obtain texts where t: "severe_findings [''REJECT'', ''BLOCKED''] code_severity ?pl = Inr texts"
    using severe_of_written by blast
  have num: "int_or_zero (JInt i) = Inr i" for i by (simp add: int_or_zero_def)
  have eq: "map_result (\<lambda>k. Inr (k, obj_get head k JNull)) ks = Inr (map (\<lambda>k. (k, obj_get head k JNull)) ks)" for ks
    by (induction ks) simp_all
  have g: "json_get (JObj ms) k v = Inr (obj_get ms k v)" for ms k v by (simp add: json_get_def)
  show ?thesis
    unfolding session_of_payload_def t
    by (simp add: g written_fields o r num eq Let_def obj_get_def [of "[_]"] obj_get_def [of "_ # _"])
qed

lemma written_refused:
  "\<exists>e. rejected_entry station profile status (JObj (result_payload s p a fs fp ob idn c n co pr now re)) = Inr e"
proof -
  let ?pl = "JObj (result_payload s p a fs fp ob idn c n co pr now re)"
  obtain texts where "severe_findings [''REJECT'', ''BLOCKED'', ''WARN'']
      (\<lambda>d. code_severity d @ '':'' @ py_str (obj_get d ''message'' (JStr []))) ?pl = Inr texts"
    using severe_of_written by blast
  then show ?thesis
    by (simp add: rejected_entry_def decision_reason_def json_get_def written_fields)
qed

text \<open>A row of \<open>process_session\<close>: what is stored, marked as reused, or a result just written.\<close>

definition fresh_row :: "session_input \<Rightarrow> qc_profile \<Rightarrow> json \<Rightarrow> bool" where
  "fresh_row s p row \<longleftrightarrow>
     (\<exists>a fs fp ob idn c n co pr now. row = JObj (result_payload s p a fs fp ob idn c n co pr now False) \<and>
        (a = None \<or> (\<exists>x. a = Some (analysis_as_dict x))) \<and>
        (overall_classification fs = CL_ACCEPT \<longrightarrow> ob = Some (si_sha256 s)))"

lemma integrity_row_fresh: "fresh_row s p (JObj (integrity_failure_result env s observed fps prov p))"
proof -
  let ?f = "failure_finding s ''HASH_MISMATCH'' SV_REJECT ''Observed SHA-256 does not match the canonical manifest''
          [(''observed'', JStr observed), (''expected'', JStr (si_sha256 s))]"
  have "overall_classification [?f] = CL_REJECT" by (simp add: overall_classification_def failure_finding_def)
  then show ?thesis
    unfolding fresh_row_def integrity_failure_result_def analysis_free_result_def
    by (intro exI [of _ "[?f]"] exI conjI) (rule refl, simp_all)
qed

lemma profile_row_fresh:
  "cx_observed cx = si_sha256 s \<Longrightarrow> fresh_row s p (JObj (profile_result env s cx fps prov p f))"
  unfolding fresh_row_def profile_result_def by (intro exI conjI) (rule refl, auto)

lemma process_session_rows:
  assumes "process_session env vault s ps products coordinates prov convert st = (st', Inr rows)"
    and dist: "distinct (map qp_name ps)"
  shows "list_all2 (\<lambda>p row.
    (\<exists>d. qs_files st' (result_path vault (qp_name p) s) = Content (JObj d) \<and> row = mark_reused (JObj d)) \<or>
    qs_files st' (result_path vault (qp_name p) s) = Content row \<and> fresh_row s p row) ps rows"
  using assms(1)
proof (cases rule: process_session_cases)
  case (cached data)
  then have "list_all2 (cached_row vault s (fingerprints_of (qe_sha env) s ps prov convert) (qe_sha env data) st) ps rows"
    by (simp add: load_cached_iff)
  then show ?thesis by (rule list_all2_mono) (auto simp: cached_row_def cached)
next
  case (integrity data)
  note c = write_failures_ok [OF integrity(3)]
  have "list_all2 (fresh_row s) ps rows"
    unfolding conjunct1 [OF c] by (simp add: list_all2_conv_all_nth integrity_row_fresh)
  from list_all2_both [OF mp [OF conjunct2 [OF conjunct2 [OF c]] dist] this]
  show ?thesis by (rule list_all2_mono) auto
next
  case (analysed data cx st1)
  note c = classify_profiles_ok [OF analysed(7)]
  have "cx_observed cx = si_sha256 s" using analysed by simp
  note fresh = profile_row_fresh [OF this]
  have "list_all2 (fresh_row s) ps rows"
    using conjunct1 [OF c] by (rule list_all2_mono) (auto simp: fresh)
  from list_all2_both [OF mp [OF conjunct2 [OF conjunct2 [OF c]] dist] this]
  show ?thesis by (rule list_all2_mono) auto
qed

text \<open>What the admission of one stored row comes to.\<close>

definition stored_row_read :: "data_root \<Rightarrow> session_input \<Rightarrow> qc_profile \<Rightarrow> json \<Rightarrow> bool" where
  "stored_row_read d s p row =
     (case admit_station d (si_year s) (si_day_of_year s) (qp_name p) False (si_station_id s) of
        Inl e \<Rightarrow> row_field row ''reused_verified_result'' = JBool True
      | Inr (Inl e) \<Rightarrow>
          refusal (si_station_id s) e \<and>
          (if row_field row ''reused_verified_result'' = JBool True then True
           else (py_str (row_field row ''overall_classification'') = ''ACCEPT'') = False)
      | Inr (Inr a) \<Rightarrow>
          as_qc_status a = ''ACCEPT'' \<and> py_str (row_field row ''overall_classification'') = ''ACCEPT'' \<and>
          (if row_field row ''reused_verified_result'' = JBool True then True
           else as_station_id a = si_station_id s \<and> as_year a = si_year s \<and>
                as_day_of_year a = si_day_of_year s \<and> as_qc_profile a = qp_name p \<and>
                as_observation_sha256 a = optional_text (JStr (si_sha256 s))))"

lemma reused_row_read:
  assumes "dd_file d (qc_result_path d (qp_name p) (si_station_id s) (si_year s) (si_day_of_year s)) = Content (JObj dict)"
  shows "stored_row_read d s p (mark_reused (JObj dict))"
proof -
  let ?a = "admit_station d (si_year s) (si_day_of_year s) (qp_name p) False (si_station_id s)"
  have flag: "row_field (mark_reused (JObj dict)) ''reused_verified_result'' = JBool True"
    by (simp add: mark_reused_fields)
  have "as_qc_status a = ''ACCEPT'' \<and> py_str (obj_get dict ''overall_classification'' JNull) = ''ACCEPT''"
    if "?a = Inr (Inr a)" for a
  proof -
    from admit_station_cases [OF that] assms have m: "session_of_payload (JObj dict) False = Inr a"
      and c: "py_str (obj_get dict ''overall_classification'' (JStr ''BLOCKED'')) = ''ACCEPT''"
      by (auto simp: admitted_of_def json_get_def split: sum.splits if_splits)
    from session_status [OF m] c have "as_qc_status a = ''ACCEPT''" by (simp add: json_get_def)
    with c show ?thesis by (auto simp: obj_get_def split: option.splits)
  qed
  moreover have "refusal (si_station_id s) e" if "?a = Inr (Inl e)" for e
    using admit_station_cases [OF that] by simp
  ultimately show ?thesis
    unfolding stored_row_read_def flag by (auto simp: mark_reused_fields split: sum.split)
qed

lemma fresh_row_read:
  assumes f: "dd_file d (qc_result_path d (qp_name p) (si_station_id s) (si_year s) (si_day_of_year s)) = Content row"
    and "fresh_row s p row"
  shows "stored_row_read d s p row"
proof -
  obtain a fs fp ob idn c n co pr now where row: "row = JObj (result_payload s p a fs fp ob idn c n co pr now False)"
    and a: "a = None \<or> (\<exists>x. a = Some (analysis_as_dict x))"
    and ob: "overall_classification fs = CL_ACCEPT \<longrightarrow> ob = Some (si_sha256 s)"
    using assms(2) unfolding fresh_row_def by blast
  define status where "status = classification_str (overall_classification fs)"
  have cl: "json_get row ''overall_classification'' v = Inr (JStr status)" for v
    by (simp add: row json_get_def status_def)
  have fields: "row_field row ''reused_verified_result'' = JBool False"
    "row_field row ''overall_classification'' = JStr status"
    by (simp_all add: row row_field_def status_def)
  show ?thesis
  proof (cases "status = ''ACCEPT''")
    case True
    then have "overall_classification fs = CL_ACCEPT" by (cases "overall_classification fs") (simp_all add: status_def)
    then have o: "ob = Some (si_sha256 s)" using ob by simp
    obtain m where m: "session_of_payload row False = Inr m" "as_station_id m = si_station_id s"
      "as_year m = si_year s" "as_day_of_year m = si_day_of_year s" "as_qc_profile m = qp_name p"
      "as_observation_sha256 m = text_or (optional_text (opt_json JStr ob)) (optional_text (JStr (si_sha256 s)))"
      using written_session [OF a] unfolding row by blast
    have st: "as_qc_status m = ''ACCEPT''" using session_status [OF m(1)] cl True by simp
    have ad: "admit_station d (si_year s) (si_day_of_year s) (qp_name p) False (si_station_id s) = Inr (Inr m)"
      using True by (simp add: admit_station_def f cl m(1))
    show ?thesis
      unfolding stored_row_read_def ad fields
      using True m(2-) st o by (simp add: opt_json_def text_or_def split: option.split)
  next
    case False
    obtain e where e: "rejected_entry (si_station_id s) (qp_name p) status row = Inr e"
      using written_refused unfolding row by blast
    have ad: "admit_station d (si_year s) (si_day_of_year s) (qp_name p) False (si_station_id s) = Inr (Inl e)"
      using False by (simp add: admit_station_def f cl e)
    show ?thesis
      unfolding stored_row_read_def ad fields using False refusal_entries(2) [OF e] by simp
  qed
qed

text \<open>
  C26. The network experiments read what quality control stored (\<open>process_session\<close>, then one station of
  \<open>admit_day\<close>). After a session was processed without an exception under profiles with different
  names, a result just written is admitted exactly when its classification is \<open>ACCEPT\<close>, without an
  exception, and then under the session's own station, year and day and with the digest of its
  verified source; a result that was reused is never admitted unless its classification is \<open>ACCEPT\<close>.
\<close>

theorem network_admits_stored_results:
  "case process_session env vault s ps products coordinates prov convert st of
     (st', Inl e) \<Rightarrow> True
   | (st', Inr rows) \<Rightarrow>
       if distinct (map qp_name ps) \<and> dd_root d = vault \<and> dd_file d = qs_files st' then
         list_all2 (\<lambda>p row.
           case admit_station d (si_year s) (si_day_of_year s) (qp_name p) False (si_station_id s) of
             Inl e \<Rightarrow> row_field row ''reused_verified_result'' = JBool True
           | Inr (Inl e) \<Rightarrow>
               refusal (si_station_id s) e \<and>
               (if row_field row ''reused_verified_result'' = JBool True then True
                else (py_str (row_field row ''overall_classification'') = ''ACCEPT'') = False)
           | Inr (Inr a) \<Rightarrow>
               as_qc_status a = ''ACCEPT'' \<and> py_str (row_field row ''overall_classification'') = ''ACCEPT'' \<and>
               (if row_field row ''reused_verified_result'' = JBool True then True
                else as_station_id a = si_station_id s \<and> as_year a = si_year s \<and>
                     as_day_of_year a = si_day_of_year s \<and> as_qc_profile a = qp_name p \<and>
                     as_observation_sha256 a = optional_text (JStr (si_sha256 s)))) ps rows
       else True"
proof (cases "process_session env vault s ps products coordinates prov convert st")
  case (Pair st' r)
  show ?thesis
  proof (cases "\<exists>rows. r = Inr rows \<and> distinct (map qp_name ps) \<and> dd_root d = vault \<and> dd_file d = qs_files st'")
    case True
    then obtain rows where r: "r = Inr rows" and dist: "distinct (map qp_name ps)"
      and d: "dd_root d = vault" "dd_file d = qs_files st'" by auto
    from process_session_rows [OF Pair [unfolded r] dist]
    have "list_all2 (stored_row_read d s) ps rows"
      by (rule list_all2_mono) (auto intro: reused_row_read fresh_row_read simp: d result_path_discovery)
    then show ?thesis by (simp add: Pair r dist d stored_row_read_def [abs_def])
  qed (use Pair in \<open>auto split: sum.splits\<close>)
qed

end
