(* ===== verification/Net_Models.thy ===== *)
theory Net_Models
  imports Net_Admission
begin

text \<open>
  The definition and the plan of a network experiment (\<open>network_rtk/models.py\<close>): its structural checks,
  its reading from JSON and the material of its fingerprint.
\<close>

section \<open>Constants\<close>

definition BLOCKED_MESSAGE_NET :: string where
  "BLOCKED_MESSAGE_NET = ''SCIENTIFIC EXECUTION BLOCKED - PHASE 5 NETWORK REQUIREMENTS NOT MET''"

definition network_blocked :: "string \<Rightarrow> py_error" where
  "network_blocked msg = NetworkBlocked (BLOCKED_MESSAGE_NET @ '': '' @ msg)"

datatype network_status =
  NS_PLANNED | NS_VALIDATED | NS_BLOCKED | NS_RUNNING | NS_COMPLETE | NS_FAILED_UNEXPECTED

fun network_status_str :: "network_status \<Rightarrow> string" where
  "network_status_str NS_PLANNED = ''PLANNED''"
| "network_status_str NS_VALIDATED = ''VALIDATED''"
| "network_status_str NS_BLOCKED = ''BLOCKED''"
| "network_status_str NS_RUNNING = ''RUNNING''"
| "network_status_str NS_COMPLETE = ''COMPLETE''"
| "network_status_str NS_FAILED_UNEXPECTED = ''FAILED_UNEXPECTED''"

section \<open>The experiment\<close>

record network_definition =
  nx_experiment_id :: string
  nx_research_question :: string
  nx_year :: int
  nx_day_of_year :: int
  nx_processing_mode :: string
  nx_reference_stations :: "string list"
  nx_test_station :: string
  nx_navigation_products :: "string list"
  nx_start_time_utc :: string
  nx_end_time_utc :: string
  nx_sampling_interval_seconds :: pyfloat
  nx_coordinate_frame :: string
  nx_coordinate_epoch :: string
  nx_qc_profile :: string
  nx_minimum_reference_station_count :: int
  nx_software_provenance :: string
  nx_diagnostic :: bool
  nx_notes :: string

definition definition_as_dict :: "network_definition \<Rightarrow> dict" where
  "definition_as_dict x =
     [(''experiment_id'', JStr (nx_experiment_id x)), (''research_question'', JStr (nx_research_question x)),
      (''year'', JInt (nx_year x)), (''day_of_year'', JInt (nx_day_of_year x)),
      (''processing_mode'', JStr (nx_processing_mode x)),
      (''reference_stations'', JArr (map JStr (nx_reference_stations x))),
      (''test_station'', JStr (nx_test_station x)),
      (''navigation_products'', JArr (map JStr (nx_navigation_products x))),
      (''start_time_utc'', JStr (nx_start_time_utc x)), (''end_time_utc'', JStr (nx_end_time_utc x)),
      (''sampling_interval_seconds'', JFloat (nx_sampling_interval_seconds x)),
      (''coordinate_frame'', JStr (nx_coordinate_frame x)), (''coordinate_epoch'', JStr (nx_coordinate_epoch x)),
      (''qc_profile'', JStr (nx_qc_profile x)),
      (''minimum_reference_station_count'', JInt (nx_minimum_reference_station_count x)),
      (''software_provenance'', JStr (nx_software_provenance x)), (''diagnostic'', JBool (nx_diagnostic x)),
      (''notes'', JStr (nx_notes x))]"

text \<open>\<open>validate\<close>: the problems, in the order of the tests.\<close>

definition when_problem :: "bool \<Rightarrow> string \<Rightarrow> string list" where
  "when_problem b msg = (if b then [msg] else [])"

definition validate_definition :: "network_definition \<Rightarrow> int \<Rightarrow> string list" where
  "validate_definition x minimum_required =
     when_problem (nx_experiment_id x = []) ''experiment_id must be non-empty'' @
     when_problem (nx_research_question x = []) ''research_question must be non-empty'' @
     when_problem (\<not> (1 \<le> nx_day_of_year x \<and> nx_day_of_year x \<le> 366))
       (''day_of_year out of range: '' @ str_int (nx_day_of_year x)) @
     when_problem (nx_processing_mode x \<notin> {''static'', ''kinematic''})
       (''unknown processing_mode: '' @ nx_processing_mode x) @
     when_problem (nx_test_station x \<in> set (nx_reference_stations x))
       ''test_station must not be listed as a reference station'' @
     when_problem (card (set (nx_reference_stations x)) \<noteq> length (nx_reference_stations x))
       ''reference_stations contains duplicates'' @
     when_problem (nx_minimum_reference_station_count x < minimum_required)
       (''minimum_reference_station_count '' @ str_int (nx_minimum_reference_station_count x) @
        '' is below the scientifically justified network minimum '' @ str_int minimum_required) @
     when_problem (int (length (nx_reference_stations x)) < nx_minimum_reference_station_count x)
       (''only '' @ str_nat (length (nx_reference_stations x)) @ '' reference stations supplied, minimum is '' @
        str_int (nx_minimum_reference_station_count x)) @
     when_problem (nx_navigation_products x = []) ''at least one navigation product is required'' @
     when_problem (f_le (nx_sampling_interval_seconds x) f_zero) ''sampling_interval_seconds must be positive'' @
     when_problem (nx_coordinate_frame x = []) ''coordinate_frame must be non-empty'' @
     when_problem (nx_qc_profile x = []) ''qc_profile must be non-empty''"

definition assert_valid :: "network_definition \<Rightarrow> unit result" where
  "assert_valid x =
     (let problems = validate_definition x 3
      in if problems = [] then Inr () else Inl (network_blocked (str_join ''; '' problems)))"

definition definition_material :: "network_definition \<Rightarrow> json" where
  "definition_material x =
     JObj [(''experiment_id'', JStr (nx_experiment_id x)), (''research_question'', JStr (nx_research_question x)),
      (''year'', JInt (nx_year x)), (''day_of_year'', JInt (nx_day_of_year x)),
      (''processing_mode'', JStr (nx_processing_mode x)),
      (''reference_stations'', JArr (map JStr (sort (nx_reference_stations x)))),
      (''test_station'', JStr (nx_test_station x)),
      (''navigation_products'', JArr (map JStr (sort (nx_navigation_products x)))),
      (''start_time_utc'', JStr (nx_start_time_utc x)), (''end_time_utc'', JStr (nx_end_time_utc x)),
      (''sampling_interval_seconds'', JFloat (nx_sampling_interval_seconds x)),
      (''coordinate_frame'', JStr (nx_coordinate_frame x)), (''coordinate_epoch'', JStr (nx_coordinate_epoch x)),
      (''qc_profile'', JStr (nx_qc_profile x)),
      (''minimum_reference_station_count'', JInt (nx_minimum_reference_station_count x)),
      (''diagnostic'', JBool (nx_diagnostic x))]"

section \<open>Reading a definition\<close>

text \<open>\<open>str(payload[k])\<close>, \<open>int(payload[k])\<close> and \<open>tuple(str(s) for s in payload[k])\<close>\<close>

definition payload_text :: "json \<Rightarrow> string \<Rightarrow> string result" where
  "payload_text payload k = bind_result (json_key payload k) (\<lambda>v. Inr (py_str v))"

definition payload_int :: "json \<Rightarrow> string \<Rightarrow> int result" where
  "payload_int payload k = bind_result (json_key payload k) py_int"

definition payload_texts :: "json \<Rightarrow> string \<Rightarrow> string list result" where
  "payload_texts payload k = bind_result (json_key payload k) (\<lambda>v. bind_result (json_iter v) (\<lambda>vs. Inr (map py_str vs)))"

definition read_definition :: "json \<Rightarrow> network_definition result" where
  "read_definition payload =
     bind_result (payload_text payload ''experiment_id'') (\<lambda>experiment.
     bind_result (payload_text payload ''research_question'') (\<lambda>question.
     bind_result (payload_int payload ''year'') (\<lambda>year.
     bind_result (payload_int payload ''day_of_year'') (\<lambda>day.
     bind_result (payload_text payload ''processing_mode'') (\<lambda>mode.
     bind_result (payload_texts payload ''reference_stations'') (\<lambda>references.
     bind_result (payload_text payload ''test_station'') (\<lambda>test.
     bind_result (payload_texts payload ''navigation_products'') (\<lambda>products.
     bind_result (payload_text payload ''start_time_utc'') (\<lambda>start_time.
     bind_result (payload_text payload ''end_time_utc'') (\<lambda>end_time.
     bind_result (bind_result (json_key payload ''sampling_interval_seconds'') py_float) (\<lambda>interval.
     bind_result (payload_text payload ''coordinate_frame'') (\<lambda>frame.
     bind_result (json_get payload ''coordinate_epoch'' (JStr [])) (\<lambda>epoch.
     bind_result (payload_text payload ''qc_profile'') (\<lambda>profile.
     bind_result (bind_result (json_get payload ''minimum_reference_station_count'' (JInt 3)) py_int) (\<lambda>minimum.
     bind_result (json_get payload ''software_provenance'' (JStr [])) (\<lambda>provenance.
     bind_result (json_get payload ''diagnostic'' (JBool False)) (\<lambda>diagnostic.
     bind_result (json_get payload ''notes'' (JStr [])) (\<lambda>remarks.
       Inr \<lparr>nx_experiment_id = experiment, nx_research_question = question, nx_year = year,
            nx_day_of_year = day, nx_processing_mode = mode, nx_reference_stations = references,
            nx_test_station = test, nx_navigation_products = products, nx_start_time_utc = start_time,
            nx_end_time_utc = end_time, nx_sampling_interval_seconds = interval,
            nx_coordinate_frame = frame, nx_coordinate_epoch = py_str epoch, nx_qc_profile = profile,
            nx_minimum_reference_station_count = minimum, nx_software_provenance = py_str provenance,
            nx_diagnostic = py_bool diagnostic, nx_notes = py_str remarks\<rparr>))))))))))))))))))"

definition definition_from_dict :: "json \<Rightarrow> network_definition result" where
  "definition_from_dict payload =
     (let malformed = (\<lambda>e. Inl (network_blocked (''malformed experiment definition: '' @ error_text e))) in
      case read_definition payload of
        Inr x \<Rightarrow> Inr x
      | Inl (KeyError m) \<Rightarrow> malformed (KeyError m)
      | Inl (TypeError m) \<Rightarrow> malformed (TypeError m)
      | Inl (ValueError m) \<Rightarrow> malformed (ValueError m)
      | Inl e \<Rightarrow> Inl e)"

section \<open>The plan\<close>

record experiment_plan =
  xp_experiment_id :: string
  xp_status :: string
  xp_admitted_stations :: "string list"
  xp_rejected_stations :: "string list"
  xp_blocked_reasons :: "string list"
  xp_baseline_pairs :: "(string \<times> string) list"
  xp_warnings :: "string list"

definition plan_as_dict :: "experiment_plan \<Rightarrow> dict" where
  "plan_as_dict p =
     [(''experiment_id'', JStr (xp_experiment_id p)), (''status'', JStr (xp_status p)),
      (''admitted_stations'', JArr (map JStr (xp_admitted_stations p))),
      (''rejected_stations'', JArr (map JStr (xp_rejected_stations p))),
      (''blocked_reasons'', JArr (map JStr (xp_blocked_reasons p))),
      (''baseline_pairs'', JArr (map (\<lambda>(a, b). JArr [JStr a, JStr b]) (xp_baseline_pairs p))),
      (''warnings'', JArr (map JStr (xp_warnings p)))]"

section \<open>Lemmas\<close>

lemma when_problem_Nil [simp]: "when_problem b msg = [] \<longleftrightarrow> \<not> b"
  by (simp add: when_problem_def)

text \<open>What an experiment without problems is.\<close>

lemma valid_definition:
  "validate_definition x n = [] \<longleftrightarrow>
     nx_experiment_id x \<noteq> [] \<and> nx_research_question x \<noteq> [] \<and> 1 \<le> nx_day_of_year x \<and> nx_day_of_year x \<le> 366 \<and>
     nx_processing_mode x \<in> {''static'', ''kinematic''} \<and> nx_test_station x \<notin> set (nx_reference_stations x) \<and>
     distinct (nx_reference_stations x) \<and> n \<le> nx_minimum_reference_station_count x \<and>
     nx_minimum_reference_station_count x \<le> int (length (nx_reference_stations x)) \<and>
     nx_navigation_products x \<noteq> [] \<and> \<not> f_le (nx_sampling_interval_seconds x) f_zero \<and>
     nx_coordinate_frame x \<noteq> [] \<and> nx_qc_profile x \<noteq> []"
  using card_distinct [of "nx_reference_stations x"] distinct_card [of "nx_reference_stations x"]
  unfolding validate_definition_def append_is_Nil_conv when_problem_Nil by (auto simp: not_less)

text \<open>
  A definition survives its JSON form (\<open>as_dict\<close>, then \<open>definition_from_dict\<close>), whatever it holds.
\<close>

theorem definition_roundtrip:
  "definition_from_dict (JObj (definition_as_dict x)) = Inr x"
proof -
  have "read_definition (JObj (definition_as_dict x)) = Inr x"
    by (simp add: read_definition_def definition_as_dict_def payload_text_def payload_int_def payload_texts_def json_key_def
        json_get_def obj_index_def obj_get_def)
  then show ?thesis by (simp add: definition_from_dict_def)
qed

end
