(* ===== verification/Py_Calendar.thy ===== *)
theory Py_Calendar
  imports Py_Time
begin

text \<open>
  From an instant back to the calendar: \<open>astimezone(UTC)\<close> and the fields of the result. The year of an
  ordinal is estimated by the mean length of a year, which is at most one too small.
\<close>

definition year_of_ordinal :: "int \<Rightarrow> int" where
  "year_of_ordinal n =
     (let y = (n - 1) * 400 div 146097 + 1 in if days_before_year (y + 1) < n then y + 1 else y)"

function month_day :: "int \<Rightarrow> int \<Rightarrow> int \<Rightarrow> int \<times> int" where
  "month_day y m d = (if d \<le> days_in_month y m \<or> 12 \<le> m then (m, d) else month_day y (m + 1) (d - days_in_month y m))"
  by pat_completeness auto

termination by (relation "measure (\<lambda>(y, m, d). nat (12 - m))") auto

declare month_day.simps [simp del]

definition utc_of_instant :: "int \<Rightarrow> py_datetime" where
  "utc_of_instant i =
     (let n = i div 86400000000; us = i mod 86400000000; y = year_of_ordinal n;
          (m, d) = month_day y 1 (n - days_before_year y)
      in \<lparr>dt_year = y, dt_month = m, dt_day = d, dt_hour = us div 3600000000,
          dt_minute = us div 60000000 mod 60, dt_second = us div 1000000 mod 60,
          dt_microsecond = us mod 1000000, dt_offset = Some 0\<rparr>)"

text \<open>\<open>t.replace(tzinfo=UTC)\<close> of a time without offset, then \<open>astimezone(UTC)\<close>.\<close>

definition to_utc :: "py_datetime \<Rightarrow> int result" where
  "to_utc t =
     (let i = instant t
      in if 86400000000 \<le> i \<and> i < (days_before_year 10000 + 1) * 86400000000
         then Inr i else Inl (OverflowError ''date value out of range''))"

section \<open>Correctness\<close>

text \<open>The estimate is off by less than two years' worth of leap days.\<close>

lemma days_before_year_bounds:
  "146097 * (y - 1) - 699 \<le> 400 * days_before_year y \<and> 400 * days_before_year y \<le> 146097 * (y - 1) + 396"
proof -
  define p where "p = y - 1"
  have d: "4 * (p div 4) = p - p mod 4" "100 * (p div 100) = p - p mod 100" "400 * (p div 400) = p - p mod 400"
    by (simp_all add: minus_mod_eq_mult_div)
  have m: "0 \<le> p mod 4" "p mod 4 \<le> 3" "0 \<le> p mod 100" "p mod 100 \<le> 99" "0 \<le> p mod 400" "p mod 400 \<le> 399"
    using pos_mod_bound [of 4 p] pos_mod_bound [of 100 p] pos_mod_bound [of 400 p] by simp_all
  have "400 * days_before_year y = 146000 * p + 100 * (4 * (p div 4)) - 4 * (100 * (p div 100)) + 400 * (p div 400)"
    by (simp add: days_before_year_def p_def Let_def)
  then have "400 * days_before_year y = 146097 * p - 100 * (p mod 4) + 4 * (p mod 100) - p mod 400"
    unfolding d by simp
  with m show ?thesis unfolding p_def [symmetric] by linarith
qed

lemma days_before_year_less: "days_before_year y < days_before_year (y + 1)"
  by (simp add: days_before_year_Suc)

lemma year_of_ordinal_correct:
  "days_before_year (year_of_ordinal n) < n \<and> n \<le> days_before_year (year_of_ordinal n + 1)"
proof -
  define q where "q = (n - 1) * 400 div 146097"
  have q: "146097 * q \<le> 400 * (n - 1)" "400 * (n - 1) < 146097 * (q + 1)"
    using pos_mod_bound [of 146097 "(n - 1) * 400"] pos_mod_sign [of 146097 "(n - 1) * 400"]
      mult_div_mod_eq [of 146097 "(n - 1) * 400"] unfolding q_def by simp_all
  have "days_before_year (q + 1) < n" using q days_before_year_bounds [of "q + 1"] by simp
  moreover have "n \<le> days_before_year (q + 3)" using q days_before_year_bounds [of "q + 3"] by simp
  ultimately show ?thesis
    unfolding year_of_ordinal_def q_def [symmetric] Let_def by (simp add: add.assoc)
qed

text \<open>The date of an ordinal is a valid one, and its ordinal is the one given.\<close>

lemma month_day_correct:
  assumes "1 \<le> m" "m \<le> 12" "1 \<le> d" "d \<le> days_before_month y 13 - days_before_month y m"
    and "month_day y m d = (m', d')"
  shows "1 \<le> m' \<and> m' \<le> 12 \<and> 1 \<le> d' \<and> d' \<le> days_in_month y m' \<and>
    days_before_month y m' + d' = days_before_month y m + d"
  using assms
proof (induction y m d rule: month_day.induct)
  case (1 y m d)
  show ?case
  proof (cases "d \<le> days_in_month y m \<or> 12 \<le> m")
    case True
    have "d \<le> days_in_month y m"
      using True "1.prems" days_before_month_Suc [of 12 y] by (cases "m = 12") auto
    with True "1.prems" show ?thesis by (simp add: month_day.simps [of y m d])
  next
    case False
    with "1.prems" days_before_month_Suc [of m y]
    have "1 \<le> m' \<and> m' \<le> 12 \<and> 1 \<le> d' \<and> d' \<le> days_in_month y m' \<and>
      days_before_month y m' + d' = days_before_month y (m + 1) + (d - days_in_month y m)"
      by (intro "1.IH") (auto simp: month_day.simps [of y m d])
    with "1.prems" days_before_month_Suc [of m y] show ?thesis by simp
  qed
qed

lemma days_before_1 [simp]: "days_before_month y 1 = 0"
  by (simp add: days_before_month_def)

text \<open>A clock reading from its microseconds.\<close>

lemma clock_split:
  fixes us :: int
  assumes "0 \<le> us" "us < 86400000000"
  shows "((us div 3600000000 * 60 + us div 60000000 mod 60) * 60 + us div 1000000 mod 60) * 1000000 + us mod 1000000 = us"
    and "us div 3600000000 < 24"
proof -
  have a: "us div 60000000 = us div 1000000 div 60" "us div 3600000000 = us div 1000000 div 60 div 60"
    by (simp_all add: zdiv_zmult2_eq [symmetric])
  define s where "s = us div 1000000"
  have "(s div 60 div 60 * 60 + s div 60 mod 60) * 60 + s mod 60 = s" by simp
  then show "((us div 3600000000 * 60 + us div 60000000 mod 60) * 60 + us div 1000000 mod 60) * 1000000 + us mod 1000000 = us"
    unfolding a s_def by simp
  show "us div 3600000000 < 24" using assms by (simp add: div_less_iff_less_mult)
qed

theorem instant_of_utc: "instant (utc_of_instant i) = i"
proof -
  let ?n = "i div 86400000000" and ?us = "i mod 86400000000"
  let ?y = "year_of_ordinal ?n"
  obtain m d where md: "month_day ?y 1 (?n - days_before_year ?y) = (m, d)" by fastforce
  have "days_before_year (?y + 1) = days_before_year ?y + days_before_month ?y 13"
    by (simp add: days_before_year_Suc days_before_13)
  with year_of_ordinal_correct [of ?n] have r: "1 \<le> ?n - days_before_year ?y"
    "?n - days_before_year ?y \<le> days_before_month ?y 13 - days_before_month ?y 1" by simp_all
  from month_day_correct [OF _ _ r md] have o: "days_before_year ?y + (days_before_month ?y m + d) = ?n" by simp
  define n us y where defs: "n = ?n" "us = ?us" "y = ?y"
  have us: "0 \<le> us" "us < 86400000000" by (simp_all add: defs)
  have "instant (utc_of_instant i) = n * 86400000000 +
      (((us div 3600000000 * 60 + us div 60000000 mod 60) * 60 + us div 1000000 mod 60) * 1000000 + us mod 1000000)"
    using o md unfolding utc_of_instant_def instant_def clock_micros_def ordinal_def day_of_year_def Let_def
      defs [symmetric] by simp
  then have "instant (utc_of_instant i) = n * 86400000000 + us" unfolding clock_split(1) [OF us] .
  then show ?thesis unfolding defs by simp
qed

end
