(* ===== verification/Net_Overlap.thy ===== *)
theory Net_Overlap
  imports Net_Models Py_Calendar
begin

text \<open>
  The common observation window of the admitted sessions (\<open>network_rtk/overlap.py\<close>). Times in UTC are
  their instants in microseconds; \<open>fromiso\<close> is \<open>datetime.fromisoformat\<close>. A set of intervals is a set of
  floats, in which the one \<open>NaN\<close> of the JSON decoder is equal to itself.
\<close>

section \<open>Records\<close>

definition OVERLAP_SCHEMA_VERSION :: string where "OVERLAP_SCHEMA_VERSION = ''1.0''"

record station_coverage =
  cv_station_id :: string
  cv_first_epoch :: string
  cv_last_epoch :: string
  cv_sampling_interval_seconds :: pyfloat
  cv_epochs_observed :: "int option"
  cv_expected_epochs_in_common :: "int option"
  cv_coverage_percent_of_common :: "pyfloat option"

definition coverage_as_dict :: "station_coverage \<Rightarrow> dict" where
  "coverage_as_dict c =
     [(''station_id'', JStr (cv_station_id c)), (''first_epoch'', JStr (cv_first_epoch c)),
      (''last_epoch'', JStr (cv_last_epoch c)),
      (''sampling_interval_seconds'', JFloat (cv_sampling_interval_seconds c)),
      (''epochs_observed'', opt_json JInt (cv_epochs_observed c)),
      (''expected_epochs_in_common'', opt_json JInt (cv_expected_epochs_in_common c)),
      (''coverage_percent_of_common'', opt_json JFloat (cv_coverage_percent_of_common c))]"

record overlap_result =
  ov_common_start :: string
  ov_common_end :: string
  ov_common_duration_seconds :: pyfloat
  ov_expected_epochs :: int
  ov_sampling_interval_seconds :: pyfloat
  ov_stations :: "station_coverage list"
  ov_coverage_percent :: pyfloat
  ov_sufficient :: bool
  ov_block_reason :: "string option"

definition overlap_as_dict :: "overlap_result \<Rightarrow> dict" where
  "overlap_as_dict r =
     [(''schema_version'', JStr OVERLAP_SCHEMA_VERSION), (''common_start'', JStr (ov_common_start r)),
      (''common_end'', JStr (ov_common_end r)),
      (''common_duration_seconds'', JFloat (ov_common_duration_seconds r)),
      (''expected_epochs'', JInt (ov_expected_epochs r)),
      (''sampling_interval_seconds'', JFloat (ov_sampling_interval_seconds r)),
      (''stations'', JArr (map (\<lambda>c. JObj (coverage_as_dict c)) (ov_stations r))),
      (''coverage_percent'', JFloat (ov_coverage_percent r)), (''sufficient'', JBool (ov_sufficient r)),
      (''block_reason'', opt_json JStr (ov_block_reason r))]"

section \<open>Windows\<close>

definition parse_utc :: "(string \<Rightarrow> py_datetime result) \<Rightarrow> string \<Rightarrow> int result" where
  "parse_utc fromiso s = bind_result (from_iso fromiso s) to_utc"

text \<open>The window of one session: an absent or empty time and a zero interval all count as missing.\<close>

definition session_window :: "(string \<Rightarrow> py_datetime result) \<Rightarrow> admitted_session \<Rightarrow> (int \<times> int) result" where
  "session_window fromiso row =
     (let first = str_or (as_first_epoch row) []; final = str_or (as_last_epoch row) [] in
      if first = [] \<or> final = [] \<or> as_sampling_interval_seconds row = None \<or>
         as_sampling_interval_seconds row = Some f_zero
      then Inl (network_blocked (as_station_id row @ '' lacks measured time coverage''))
      else
        bind_result (parse_utc fromiso first) (\<lambda>t0.
        bind_result (parse_utc fromiso final) (\<lambda>t1.
          if t1 \<le> t0 then Inl (network_blocked (as_station_id row @ '' has an empty observation window''))
          else Inr (t0, t1))))"

definition sample_intervals :: "admitted_session list \<Rightarrow> pyfloat list" where
  "sample_intervals sessions =
     remdups (concat (map (\<lambda>row. case as_sampling_interval_seconds row of
        None \<Rightarrow> [] | Some x \<Rightarrow> if x = f_zero then [] else [x]) sessions))"

text \<open>\<open>min(100.0, 100.0 * observed / expected)\<close>\<close>

definition coverage_percent :: "int option \<Rightarrow> int \<Rightarrow> pyfloat option result" where
  "coverage_percent observed expected =
     (case observed of
        None \<Rightarrow> Inr None
      | Some n \<Rightarrow>
          if 0 < expected then
            bind_result (int_to_float n) (\<lambda>x.
            bind_result (int_to_float expected) (\<lambda>y.
            bind_result (f_div (f_mul (PFin 100) x) y) (\<lambda>pct.
              Inr (Some (if f_lt pct (PFin 100) then pct else PFin 100)))))
          else Inr None)"

definition coverage_of :: "pyfloat \<Rightarrow> int \<Rightarrow> admitted_session \<Rightarrow> station_coverage result" where
  "coverage_of interval expected row =
     bind_result (coverage_percent (as_epochs_observed row) expected) (\<lambda>pct.
       Inr \<lparr>cv_station_id = as_station_id row, cv_first_epoch = str_or (as_first_epoch row) [],
            cv_last_epoch = str_or (as_last_epoch row) [], cv_sampling_interval_seconds = interval,
            cv_epochs_observed = as_epochs_observed row, cv_expected_epochs_in_common = Some expected,
            cv_coverage_percent_of_common = pct\<rparr>)"

text \<open>\<open>100.0 * expected / expected\<close>\<close>

definition overall_coverage :: "int \<Rightarrow> pyfloat result" where
  "overall_coverage expected = bind_result (int_to_float expected) (\<lambda>x. f_div (f_mul (PFin 100) x) x)"

definition sessions_by_station :: "admitted_session list \<Rightarrow> admitted_session list" where
  "sessions_by_station = sort_by (\<lambda>a b. as_station_id a < as_station_id b)"

text \<open>The window of at least two sessions.\<close>

definition common_window :: "(int \<times> int) list \<Rightarrow> int \<times> int" where
  "common_window ws = (Max (set (map fst ws)), Min (set (map snd ws)))"

definition no_overlap :: "admitted_session list \<Rightarrow> py_error" where
  "no_overlap sessions =
     network_blocked
       (''no positive common observation overlap ('' @
        Max (set (map (\<lambda>s. str_or (as_first_epoch s) []) sessions)) @ '' .. '' @
        Min (set (map (\<lambda>s. str_or (as_last_epoch s) []) sessions)) @ '')'')"

definition overlap_of_window ::
  "pyfloat \<Rightarrow> pyfloat \<Rightarrow> admitted_session list \<Rightarrow> int \<Rightarrow> int \<Rightarrow> pyfloat \<Rightarrow> overlap_result result"
where
  "overlap_of_window minimum_duration minimum_coverage sessions t0 t1 interval =
     (let duration = total_seconds (t1 - t0) in
      bind_result (f_div duration interval) (\<lambda>steps.
      bind_result (f_to_int steps) (\<lambda>n. let expected = n + 1 in
      bind_result (map_result (coverage_of interval expected) (sessions_by_station sessions)) (\<lambda>coverages.
      bind_result (overall_coverage expected) (\<lambda>overall.
        let sufficient = f_le minimum_duration duration \<and> f_le minimum_coverage overall in
        Inr \<lparr>ov_common_start = utc_text (utc_of_instant t0), ov_common_end = utc_text (utc_of_instant t1),
             ov_common_duration_seconds = duration, ov_expected_epochs = expected,
             ov_sampling_interval_seconds = interval, ov_stations = coverages,
             ov_coverage_percent = overall, ov_sufficient = sufficient,
             ov_block_reason =
               (if sufficient then None
                else Some (''common overlap '' @ format_fixed 0 duration @ ''s below minimum '' @
                  format_fixed 0 minimum_duration @ ''s or coverage below threshold; failing closed''))\<rparr>)))))"

definition compute_overlap ::
  "(string \<Rightarrow> py_datetime result) \<Rightarrow> admitted_session list \<Rightarrow> pyfloat \<Rightarrow> pyfloat \<Rightarrow> overlap_result result"
where
  "compute_overlap fromiso sessions minimum_duration minimum_coverage =
     (if length sessions < 2 then Inl (network_blocked ''overlap needs at least two sessions'')
      else
        bind_result (map_result (session_window fromiso) sessions) (\<lambda>ws.
          let (t0, t1) = common_window ws; intervals = sample_intervals sessions in
          if f_le (total_seconds (t1 - t0)) f_zero then Inl (no_overlap sessions)
          else
            (case intervals of
               [interval] \<Rightarrow>
                 if f_le interval f_zero then
                   Inl (network_blocked (''invalid sampling interval '' @ repr_float interval))
                 else overlap_of_window minimum_duration minimum_coverage sessions t0 t1 interval
             | _ \<Rightarrow>
                 Inl (network_blocked (''mixed sampling intervals '' @
                   py_repr (JArr (map JFloat (sort_by f_lt intervals))))))))"

definition assert_sufficient_overlap :: "overlap_result \<Rightarrow> unit result" where
  "assert_sufficient_overlap r =
     (if ov_sufficient r then Inr ()
      else Inl (network_blocked (str_or (ov_block_reason r) ''insufficient overlap'')))"

definition minimum_overlap_seconds :: pyfloat where "minimum_overlap_seconds = PFin 3600"
definition minimum_overlap_percent :: pyfloat where "minimum_overlap_percent = PFin 99"

section \<open>The common window\<close>

lemma round64_nonpos: "r \<le> 0 \<Longrightarrow> f_le (round64 r) f_zero"
proof (cases "r = 0")
  case False
  assume "r \<le> 0"
  with False have "r < 0" by simp
  have v: "0 \<le> (of_int (round_half_even (\<bar>r\<bar> / pow2 u)) * pow2 u :: rat)" for u
    using round_half_even_nonneg [of "\<bar>r\<bar> / pow2 u"] by simp
  show ?thesis
    using False \<open>r < 0\<close> v by (auto simp: round64_def Let_def f_le_def [of PNegInf])
qed (simp add: round64_def)

lemma positive_duration: "\<not> f_le (total_seconds us) f_zero \<Longrightarrow> 0 < us"
  using round64_nonpos [of "of_int us / 1000000"] by (auto simp: total_seconds_def not_less intro: ccontr)

lemma session_window_Inr:
  assumes "session_window fromiso s = Inr (a, b)"
  shows "a < b" and "\<exists>x. as_sampling_interval_seconds s = Some x \<and> x \<noteq> f_zero"
proof -
  have i: "as_sampling_interval_seconds s \<noteq> None" "as_sampling_interval_seconds s \<noteq> Some f_zero"
    using assms unfolding session_window_def Let_def by (metis Inl_Inr_False)+
  then show "\<exists>x. as_sampling_interval_seconds s = Some x \<and> x \<noteq> f_zero" by auto
  show "a < b" using assms unfolding session_window_def Let_def
    by (simp split: if_split_asm) (auto simp: not_le split: if_split_asm)
qed

lemma intervals_agree:
  assumes "sample_intervals sessions = [x]" and "list_all2 (\<lambda>s w. session_window fromiso s = Inr w) sessions ws"
  shows "list_all (\<lambda>s. as_sampling_interval_seconds s = Some x) sessions"
proof -
  have "as_sampling_interval_seconds s = Some x" if s: "s \<in> set sessions" for s
  proof -
    obtain a b where "session_window fromiso s = Inr (a, b)" using list_all2_rows(1) [OF assms(2) s] by auto
    then obtain y where y: "as_sampling_interval_seconds s = Some y" "y \<noteq> f_zero"
      using session_window_Inr(2) by blast
    have "y \<in> set (case as_sampling_interval_seconds s of None \<Rightarrow> [] | Some x \<Rightarrow> if x = f_zero then [] else [x])"
      using y by simp
    then have "y \<in> set (sample_intervals sessions)"
      using s unfolding sample_intervals_def set_remdups set_concat set_map by blast
    with assms(1) y show ?thesis by simp
  qed
  then show ?thesis by (simp add: list_all_iff)
qed

lemma window_contains:
  assumes "list_all2 (\<lambda>s w. session_window fromiso s = Inr w) sessions ws" and "sessions \<noteq> []"
    and "common_window ws = (t0, t1)"
  shows "list_all (\<lambda>s. case session_window fromiso s of Inl _ \<Rightarrow> False | Inr (a, b) \<Rightarrow> a \<le> t0 \<and> t1 \<le> b) sessions"
    and "list_ex (\<lambda>s. case session_window fromiso s of Inl _ \<Rightarrow> False | Inr (a, b) \<Rightarrow> a = t0) sessions"
    and "list_ex (\<lambda>s. case session_window fromiso s of Inl _ \<Rightarrow> False | Inr (a, b) \<Rightarrow> b = t1) sessions"
proof -
  have ws: "ws \<noteq> []" using assms(1,2) by auto
  have t: "t0 = Max (fst ` set ws)" "t1 = Min (snd ` set ws)" using assms(3) by (simp_all add: common_window_def)
  note row = list_all2_rows(1) [OF assms(1)] and win = list_all2_rows(2) [OF assms(1)]
  have bound: "fst w \<le> t0 \<and> t1 \<le> snd w" if "w \<in> set ws" for w using that by (simp add: t)
  show "list_all (\<lambda>s. case session_window fromiso s of Inl _ \<Rightarrow> False | Inr (a, b) \<Rightarrow> a \<le> t0 \<and> t1 \<le> b) sessions"
    unfolding list_all_iff by (auto dest!: row dest: bound)
  have m: "t0 \<in> fst ` set ws" "t1 \<in> snd ` set ws" using ws by (simp_all add: t)
  from m(1) show "list_ex (\<lambda>s. case session_window fromiso s of Inl _ \<Rightarrow> False | Inr (a, b) \<Rightarrow> a = t0) sessions"
    by (auto simp: list_ex_iff dest!: win intro!: bexI)
  from m(2) show "list_ex (\<lambda>s. case session_window fromiso s of Inl _ \<Rightarrow> False | Inr (a, b) \<Rightarrow> b = t1) sessions"
    by (auto simp: list_ex_iff dest!: win intro!: bexI)
qed

text \<open>The expected number of epochs is at least one, and every share of it at most 100 percent.\<close>

lemma f_quot_nonneg:
  assumes "\<not> f_le x f_zero" "\<not> f_le y f_zero" "f_to_int (f_quot x y) = Inr n"
  shows "0 \<le> n"
proof -
  have "(\<exists>r \<ge> 0. f_quot x y = PFin r) \<or> f_quot x y \<in> {PInf, PNegInf, PNan}"
  proof (cases x)
    case (PFin a)
    with assms(1) have "0 < a" by simp
    then have "round64 (a / b) = PInf \<or> (\<exists>v \<ge> 0. round64 (a / b) = PFin v)" if "0 < b" for b
      using that round64_nonneg [of "a / b"] by simp
    moreover have "0 < b" if "y = PFin b" for b using assms(2) that by simp
    ultimately show ?thesis using PFin by (cases y) (simp_all add: f_quot_def, metis)
  next
    case PInf
    then show ?thesis using assms(2) by (cases y) (auto simp: f_quot_def)
  qed (use assms(1) in \<open>auto simp: f_quot_def f_le_def\<close>)
  with assms(3) show ?thesis by auto
qed

lemma coverage_at_most_100:
  "coverage_percent observed expected = Inr (Some pct) \<Longrightarrow> f_le pct (PFin 100)"
  by (auto simp: coverage_percent_def f_le_def f_eq_def split: option.splits if_splits)

text \<open>The share of the window that is compared with the threshold is always the whole.\<close>

lemma overall_coverage_full:
  assumes "1 \<le> n" "n < 2 ^ 40"
  shows "overall_coverage n = Inr (PFin 100)"
proof -
  have "int_to_float n = Inr (PFin (of_int n))" using assms by (intro int_to_float_exact) simp
  moreover have "round64 (100 * of_int n) = PFin (100 * of_int n)"
    using round64_of_int [of "100 * n"] assms by simp
  moreover have "round64 100 = PFin 100" using round64_of_int [of 100] by simp
  ultimately show ?thesis using assms by (simp add: overall_coverage_def f_div_def f_quot_def)
qed

text \<open>What an overlap says of the sessions it was computed from, with the instants of its window.\<close>

definition window_of_sessions ::
  "(string \<Rightarrow> py_datetime result) \<Rightarrow> admitted_session list \<Rightarrow> overlap_result \<Rightarrow> int \<Rightarrow> int \<Rightarrow> bool"
where
  "window_of_sessions fromiso sessions r t0 t1 \<longleftrightarrow>
     t0 < t1 \<and> ov_common_start r = utc_text (utc_of_instant t0) \<and> ov_common_end r = utc_text (utc_of_instant t1) \<and>
     ov_common_duration_seconds r = total_seconds (t1 - t0) \<and>
     list_all (\<lambda>s. case session_window fromiso s of Inl _ \<Rightarrow> False | Inr (a, b) \<Rightarrow> a \<le> t0 \<and> t1 \<le> b) sessions \<and>
     list_ex (\<lambda>s. case session_window fromiso s of Inl _ \<Rightarrow> False | Inr (a, b) \<Rightarrow> a = t0) sessions \<and>
     list_ex (\<lambda>s. case session_window fromiso s of Inl _ \<Rightarrow> False | Inr (a, b) \<Rightarrow> b = t1) sessions"

lemma compute_overlap_Inr:
  assumes "compute_overlap fromiso sessions md mc = Inr r"
  obtains ws t0 t1 x where "2 \<le> length sessions"
    "list_all2 (\<lambda>s w. session_window fromiso s = Inr w) sessions ws" "common_window ws = (t0, t1)"
    "\<not> f_le (total_seconds (t1 - t0)) f_zero" "sample_intervals sessions = [x]" "\<not> f_le x f_zero"
    "overlap_of_window md mc sessions t0 t1 x = Inr r"
proof -
  obtain ws where ws: "map_result (session_window fromiso) sessions = Inr ws" and two: "2 \<le> length sessions"
    using assms by (auto simp: compute_overlap_def Let_def split: if_splits)
  obtain t0 t1 where t: "common_window ws = (t0, t1)" by fastforce
  have d: "\<not> f_le (total_seconds (t1 - t0)) f_zero"
    using assms ws two t by (auto simp: compute_overlap_def Let_def split: if_splits)
  obtain x where x: "sample_intervals sessions = [x]" "\<not> f_le x f_zero" "overlap_of_window md mc sessions t0 t1 x = Inr r"
    using assms ws two t d by (auto simp: compute_overlap_def Let_def split: list.splits if_splits)
  from that [OF two ws [unfolded map_result_Inr_iff] t d x] show thesis .
qed

lemma overlap_of_window_Inr:
  assumes "overlap_of_window md mc sessions t0 t1 x = Inr r"
  obtains n cs where "f_to_int (f_quot (total_seconds (t1 - t0)) x) = Inr n"
    "list_all2 (\<lambda>s c. coverage_of x (n + 1) s = Inr c) (sessions_by_station sessions) cs" "ov_stations r = cs"
    "ov_expected_epochs r = n + 1" "overall_coverage (n + 1) = Inr (ov_coverage_percent r)"
    "ov_common_start r = utc_text (utc_of_instant t0)" "ov_common_end r = utc_text (utc_of_instant t1)"
    "ov_common_duration_seconds r = total_seconds (t1 - t0)" "ov_sampling_interval_seconds r = x"
    "ov_sufficient r = (f_le md (total_seconds (t1 - t0)) \<and> f_le mc (ov_coverage_percent r))"
    "(ov_block_reason r = None) = ov_sufficient r"
  using assms by (auto simp: overlap_of_window_def Let_def f_div_def map_result_Inr_iff split: if_splits intro!: that)

lemma coverages_of_stations:
  assumes "list_all2 (\<lambda>s c. coverage_of x n s = Inr c) sessions cs"
  shows "map cv_station_id cs = map as_station_id sessions"
    and "list_all (\<lambda>c. case cv_coverage_percent_of_common c of None \<Rightarrow> True | Some pct \<Rightarrow> f_le pct (PFin 100)) cs"
  using assms by induction (auto simp: coverage_of_def coverage_at_most_100 split: option.split)

lemma compute_overlap_window:
  assumes "compute_overlap fromiso sessions md mc = Inr r"
  shows "\<exists>t0 t1. window_of_sessions fromiso sessions r t0 t1"
    and "ov_sufficient r = (f_le md (ov_common_duration_seconds r) \<and> f_le mc (ov_coverage_percent r))"
proof -
  from assms obtain ws t0 t1 x where two: "2 \<le> length sessions"
    and ws: "list_all2 (\<lambda>s w. session_window fromiso s = Inr w) sessions ws" "common_window ws = (t0, t1)"
    and d: "\<not> f_le (total_seconds (t1 - t0)) f_zero" and o: "overlap_of_window md mc sessions t0 t1 x = Inr r"
    by (rule compute_overlap_Inr)
  from o have f: "ov_common_start r = utc_text (utc_of_instant t0)" "ov_common_end r = utc_text (utc_of_instant t1)"
    "ov_common_duration_seconds r = total_seconds (t1 - t0)"
    "ov_sufficient r = (f_le md (total_seconds (t1 - t0)) \<and> f_le mc (ov_coverage_percent r))"
    by (rule overlap_of_window_Inr, simp)+
  have ne: "sessions \<noteq> []" using two by auto
  show "\<exists>t0 t1. window_of_sessions fromiso sessions r t0 t1"
    using window_contains [OF ws(1) ne ws(2)] positive_duration [OF d] f
    by (intro exI [of _ t0] exI [of _ t1]) (simp add: window_of_sessions_def)
  show "ov_sufficient r = (f_le md (ov_common_duration_seconds r) \<and> f_le mc (ov_coverage_percent r))"
    using f by simp
qed

text \<open>
  C29. The common window of a network day is real (\<open>compute_overlap\<close>). When it returns, there are at
  least two sessions with one and the same positive sampling interval; the window is not empty, lies
  inside the measured window of every session, and is the largest such, its ends being the start of one
  and the end of one; the stations are listed in order, each with a share of at most 100 percent of the
  at least one expected epochs. It is sufficient exactly when its duration and its coverage reach the
  minima, and says why when it is not. That coverage is always 100 percent, so its minimum never decides.
\<close>

theorem common_window_sound:
  "case compute_overlap fromiso sessions minimum_duration minimum_coverage of
     Inl e \<Rightarrow> True
   | Inr r \<Rightarrow>
       2 \<le> length sessions \<and> (\<exists>t0 t1. window_of_sessions fromiso sessions r t0 t1) \<and>
       f_le (ov_sampling_interval_seconds r) f_zero = False \<and>
       list_all (\<lambda>s. as_sampling_interval_seconds s = Some (ov_sampling_interval_seconds r)) sessions \<and>
       map cv_station_id (ov_stations r) = map as_station_id (sessions_by_station sessions) \<and>
       list_all (\<lambda>c. case cv_coverage_percent_of_common c of None \<Rightarrow> True | Some pct \<Rightarrow> f_le pct (PFin 100))
         (ov_stations r) \<and>
       1 \<le> ov_expected_epochs r \<and>
       ov_sufficient r = (f_le minimum_duration (ov_common_duration_seconds r) \<and>
                          f_le minimum_coverage (ov_coverage_percent r)) \<and>
       (ov_block_reason r = None) = ov_sufficient r \<and>
       (if ov_expected_epochs r < 2 ^ 40 then ov_coverage_percent r = PFin 100 else True)"
proof (cases "compute_overlap fromiso sessions minimum_duration minimum_coverage")
  case (Inr r)
  then obtain ws t0 t1 x where two: "2 \<le> length sessions"
    and ws: "list_all2 (\<lambda>s w. session_window fromiso s = Inr w) sessions ws" "common_window ws = (t0, t1)"
    and d: "\<not> f_le (total_seconds (t1 - t0)) f_zero" and x: "sample_intervals sessions = [x]" "\<not> f_le x f_zero"
    and o: "overlap_of_window minimum_duration minimum_coverage sessions t0 t1 x = Inr r"
    by (rule compute_overlap_Inr)
  from o obtain n cs where n: "f_to_int (f_quot (total_seconds (t1 - t0)) x) = Inr n"
    and cs: "list_all2 (\<lambda>s c. coverage_of x (n + 1) s = Inr c) (sessions_by_station sessions) cs" "ov_stations r = cs"
    and f: "ov_expected_epochs r = n + 1" "overall_coverage (n + 1) = Inr (ov_coverage_percent r)"
      "ov_sampling_interval_seconds r = x" "(ov_block_reason r = None) = ov_sufficient r"
    by (rule overlap_of_window_Inr)
  note w = compute_overlap_window [OF Inr]
  have "0 \<le> n" using f_quot_nonneg [OF d x(2) n] .
  then have full: "n + 1 < 2 ^ 40 \<Longrightarrow> ov_coverage_percent r = PFin 100"
    using overall_coverage_full [of "n + 1"] f(2) by simp
  show ?thesis
    using two w x intervals_agree [OF x(1) ws(1)] coverages_of_stations [OF cs(1)] cs(2) f full \<open>0 \<le> n\<close>
    by (auto simp: Inr)
qed simp

end
