(* ===== verification/Net_Geometry.thy ===== *)
theory Net_Geometry
  imports Net_Models
begin

text \<open>
  The geometry of a network experiment (\<open>network_rtk/geometry.py\<close>). \<open>baseline_length_m\<close> and the loop over
  the stored coordinates are in the package as they are in the discovery, and so are taken from there.
\<close>

section \<open>Records\<close>

definition GEOMETRY_SCHEMA_VERSION :: string where "GEOMETRY_SCHEMA_VERSION = ''1.0''"

record station_geometry =
  sg_station_id :: string
  sg_ecef_x_m :: pyfloat
  sg_ecef_y_m :: pyfloat
  sg_ecef_z_m :: pyfloat
  sg_reference_frame :: string
  sg_coordinate_epoch :: string
  sg_provenance :: string

definition station_geometry_as_dict :: "station_geometry \<Rightarrow> dict" where
  "station_geometry_as_dict g =
     [(''station_id'', JStr (sg_station_id g)), (''ecef_x_m'', JFloat (sg_ecef_x_m g)),
      (''ecef_y_m'', JFloat (sg_ecef_y_m g)), (''ecef_z_m'', JFloat (sg_ecef_z_m g)),
      (''reference_frame'', JStr (sg_reference_frame g)), (''coordinate_epoch'', JStr (sg_coordinate_epoch g)),
      (''provenance'', JStr (sg_provenance g))]"

type_synonym distances = "(string \<times> pyfloat) list"

record experiment_geometry =
  ng_stations :: "station_geometry list"
  ng_baseline_matrix_m :: "(string \<times> distances) list"
  ng_centroid_ecef_m :: ecef
  ng_reference_to_rover_m :: distances
  ng_nearest_reference :: "string option"
  ng_farthest_reference :: "string option"
  ng_mean_reference_distance_m :: "pyfloat option"
  ng_network_spatial_extent_m :: pyfloat
  ng_triangle_area_m2 :: "pyfloat option"
  ng_coordinate_frame :: string
  ng_baseline_count :: nat

definition distances_json :: "distances \<Rightarrow> json" where
  "distances_json ds = JObj (map (\<lambda>(k, x). (k, JFloat x)) ds)"

definition matrix_json :: "(string \<times> distances) list \<Rightarrow> json" where
  "matrix_json m = JObj (map (\<lambda>(k, ds). (k, distances_json ds)) m)"

definition geometry_as_dict :: "experiment_geometry \<Rightarrow> dict" where
  "geometry_as_dict g =
     [(''schema_version'', JStr GEOMETRY_SCHEMA_VERSION), (''coordinate_frame'', JStr (ng_coordinate_frame g)),
      (''stations'', JArr (map (\<lambda>s. JObj (station_geometry_as_dict s)) (ng_stations g))),
      (''baseline_matrix_m'', matrix_json (ng_baseline_matrix_m g)),
      (''centroid_ecef_m'',
         (case ng_centroid_ecef_m g of (x, y, z) \<Rightarrow> JArr [JFloat x, JFloat y, JFloat z])),
      (''reference_to_rover_m'', distances_json (ng_reference_to_rover_m g)),
      (''nearest_reference'', opt_json JStr (ng_nearest_reference g)),
      (''farthest_reference'', opt_json JStr (ng_farthest_reference g)),
      (''mean_reference_distance_m'', opt_json JFloat (ng_mean_reference_distance_m g)),
      (''network_spatial_extent_m'', JFloat (ng_network_spatial_extent_m g)),
      (''triangle_area_m2'', opt_json JFloat (ng_triangle_area_m2 g)),
      (''baseline_count'', JInt (int (ng_baseline_count g)))]"

section \<open>Verified coordinates\<close>

text \<open>A file that cannot be read or decoded raises what the reading raises, which is no \<open>NetworkBlocked\<close>.\<close>

definition load_network_coordinates :: "data_root \<Rightarrow> verified_coordinates result" where
  "load_network_coordinates d =
     (case dd_file d (coordinates_path d) of
        NoFile \<Rightarrow> Inl (network_blocked (''verified coordinates unavailable: '' @ coordinates_path d))
      | Unreadable exc \<Rightarrow> Inl (ValueError exc)
      | Content payload \<Rightarrow>
          bind_result (json_get payload ''stations'' (JObj [])) (\<lambda>stations.
          bind_result (json_items stations) (\<lambda>rows. collect_coords rows [])))"

section \<open>Geometry\<close>

definition coords_of :: "verified_coordinates \<Rightarrow> string \<Rightarrow> ecef" where
  "coords_of verified s =
     (case map_of verified s of Some c \<Rightarrow> (co_x_m c, co_y_m c, co_z_m c) | None \<Rightarrow> (f_zero, f_zero, f_zero))"

definition frame_of :: "verified_coordinates \<Rightarrow> string \<Rightarrow> string" where
  "frame_of verified s = (case map_of verified s of Some c \<Rightarrow> co_reference_frame c | None \<Rightarrow> [])"

definition distance_of :: "verified_coordinates \<Rightarrow> string \<Rightarrow> string \<Rightarrow> pyfloat result" where
  "distance_of verified a b =
     (if a = b then Inr f_zero else baseline_length_m (coords_of verified a) (coords_of verified b))"

definition matrix_row :: "verified_coordinates \<Rightarrow> string list \<Rightarrow> string \<Rightarrow> (string \<times> distances) result" where
  "matrix_row verified stations a =
     bind_result (map_result (\<lambda>b. bind_result (distance_of verified a b) (\<lambda>x. Inr (b, x))) stations)
       (\<lambda>ds. Inr (a, ds))"

definition entry :: "(string \<times> distances) list \<Rightarrow> string \<Rightarrow> string \<Rightarrow> pyfloat" where
  "entry m a b = obj_get (obj_get m a []) b f_zero"

definition mean_of :: "pyfloat list \<Rightarrow> pyfloat result" where
  "mean_of xs = bind_result (int_to_float (int (length xs))) (\<lambda>n. f_div (f_sum xs) n)"

text \<open>\<open>min(d, key=...)\<close> and \<open>max(d, key=...)\<close>: the first key whose value none beats.\<close>

definition nearest_key :: "distances \<Rightarrow> string option" where
  "nearest_key ds =
     (case ds of [] \<Rightarrow> None
      | d # ds \<Rightarrow> Some (fst (foldl (\<lambda>m x. if f_lt (snd x) (snd m) then x else m) d ds)))"

definition farthest_key :: "distances \<Rightarrow> string option" where
  "farthest_key ds =
     (case ds of [] \<Rightarrow> None
      | d # ds \<Rightarrow> Some (fst (foldl (\<lambda>m x. if f_lt (snd m) (snd x) then x else m) d ds)))"

definition triangle_area :: "string list \<Rightarrow> (string \<times> distances) list \<Rightarrow> pyfloat result" where
  "triangle_area refs m =
     (case sort refs of
        [a, b, c] \<Rightarrow>
          (let ab = entry m a b; bc = entry m b c; ca = entry m c a;
               s = f_quot (f_add (f_add ab bc) ca) (PFin 2);
               area = f_mul (f_mul (f_mul s (f_sub s ab)) (f_sub s bc)) (f_sub s ca)
           in if f_lt f_zero area then f_sqrt area else Inr f_zero)
      | _ \<Rightarrow> Inl (ValueError ''not enough values to unpack''))"

definition geometry_of_station :: "verified_coordinates \<Rightarrow> string \<Rightarrow> station_geometry" where
  "geometry_of_station verified s =
     (case coords_of verified s of (x, y, z) \<Rightarrow>
        \<lparr>sg_station_id = s, sg_ecef_x_m = x, sg_ecef_y_m = y, sg_ecef_z_m = z,
         sg_reference_frame = frame_of verified s,
         sg_coordinate_epoch = (case map_of verified s of Some c \<Rightarrow> co_coordinate_epoch c | None \<Rightarrow> []),
         sg_provenance = (case map_of verified s of Some c \<Rightarrow> co_provenance c | None \<Rightarrow> [])\<rparr>)"

definition network_stations :: "string list \<Rightarrow> string \<Rightarrow> string list" where
  "network_stations refs test = sort (remdups (test # refs))"

definition baseline_pairs_count :: "string list \<Rightarrow> nat" where
  "baseline_pairs_count stations = length (concat (map (\<lambda>a. filter (\<lambda>b. a < b) stations) stations))"

definition compute_geometry ::
  "string list \<Rightarrow> string \<Rightarrow> verified_coordinates \<Rightarrow> experiment_geometry result"
where
  "compute_geometry refs test verified =
     (let stations = network_stations refs test;
          missing = filter (\<lambda>s. map_of verified s = None) stations;
          frames = sort (remdups (map (frame_of verified) stations)) in
      if missing \<noteq> [] then Inl (network_blocked (''no verified coordinate for '' @ str_join '', '' missing))
      else if length frames \<noteq> 1 then
        Inl (network_blocked (''mixed coordinate frames '' @ py_repr (JArr (map JStr frames))))
      else
        bind_result (map_result (matrix_row verified stations) stations) (\<lambda>matrix.
        bind_result (mean_of (map (\<lambda>s. fst (coords_of verified s)) stations)) (\<lambda>cx.
        bind_result (mean_of (map (\<lambda>s. fst (snd (coords_of verified s))) stations)) (\<lambda>cy.
        bind_result (mean_of (map (\<lambda>s. snd (snd (coords_of verified s))) stations)) (\<lambda>cz.
        let to_rover = map (\<lambda>r. (r, entry matrix r test)) (remdups (sort refs)) in
        bind_result (if to_rover = [] then Inr None
                     else bind_result (mean_of (map snd to_rover)) (\<lambda>x. Inr (Some x))) (\<lambda>mean_ref.
        bind_result (if length refs = 3 then bind_result (triangle_area refs matrix) (\<lambda>x. Inr (Some x))
                     else Inr None) (\<lambda>triangle.
          Inr \<lparr>ng_stations = map (geometry_of_station verified) stations, ng_baseline_matrix_m = matrix,
               ng_centroid_ecef_m = (cx, cy, cz), ng_reference_to_rover_m = to_rover,
               ng_nearest_reference = nearest_key to_rover, ng_farthest_reference = farthest_key to_rover,
               ng_mean_reference_distance_m = mean_ref,
               ng_network_spatial_extent_m = f_max (concat (map (\<lambda>a. map (entry matrix a) stations) stations)),
               ng_triangle_area_m2 = triangle, ng_coordinate_frame = hd frames,
               ng_baseline_count = baseline_pairs_count stations\<rparr>)))))))"

section \<open>The matrix\<close>

text \<open>A distance does not depend on the direction: rounding is symmetric about zero.\<close>

lemma round64_minus: "round64 (- r) = f_neg (round64 r)"
  by (simp add: round64_def Let_def sgn_minus)

lemma f_neg_twice [simp]: "f_neg (f_neg x) = x"
  by (cases x) simp_all

lemma f_sub_swap: "f_sub a b = f_neg (f_sub b a)"
proof (cases "\<exists>p q. a = PFin p \<and> b = PFin q")
  case True
  then show ?thesis using round64_minus by (auto simp: f_sub_def) (metis minus_diff_eq)
qed (cases a; cases b; simp add: f_sub_def)

lemma f_square_neg: "f_square (f_neg x) = f_square x"
  by (cases x) (simp_all add: f_square_def f_lt.simps)

lemma f_square_swap: "f_square (f_sub a b) = f_square (f_sub b a)"
  by (subst f_sub_swap) (rule f_square_neg)

lemma distance_symmetric: "distance_of verified a b = distance_of verified b a"
proof -
  have "baseline_length_m p q = baseline_length_m q p" for p q
    by (cases p; cases q) (simp add: baseline_length_m_def f_square_swap)
  then show ?thesis by (simp add: distance_of_def)
qed

lemma map_of_rows:
  assumes "list_all2 (\<lambda>s r. \<exists>v. f s = Inr v \<and> r = (s, v)) xs ys" and "s \<in> set xs"
  shows "\<exists>v. f s = Inr v \<and> map_of ys s = Some v"
  using assms by (induction) auto

lemma matrix_entries:
  assumes "map_result (matrix_row verified stations) stations = Inr m" and "a \<in> set stations" "b \<in> set stations"
  shows "distance_of verified a b = Inr (entry m a b)"
proof -
  let ?row = "\<lambda>a. map_result (\<lambda>b. bind_result (distance_of verified a b) (\<lambda>x. Inr (b, x))) stations"
  have "list_all2 (\<lambda>s r. \<exists>v. ?row s = Inr v \<and> r = (s, v)) stations m"
    by (rule list_all2_mono [OF assms(1) [unfolded map_result_Inr_iff]]) (auto simp: matrix_row_def)
  from map_of_rows [OF this assms(2)] obtain ds where ds: "?row a = Inr ds" "map_of m a = Some ds" by auto
  have "list_all2 (\<lambda>s r. \<exists>v. distance_of verified a s = Inr v \<and> r = (s, v)) stations ds"
    by (rule list_all2_mono [OF ds(1) [unfolded map_result_Inr_iff]]) auto
  from map_of_rows [OF this assms(3)] obtain x where "distance_of verified a b = Inr x" "map_of ds b = Some x" by auto
  with ds(2) show ?thesis by (simp add: entry_def obj_get_def)
qed

section \<open>Nearest and farthest\<close>

context weak_order
begin

lemma foldl_least:
  assumes "\<forall>x \<in> set (d # ds). ok (key x)"
  shows "foldl (\<lambda>m x. if lt (key x) (key m) then x else m) d ds \<in> set (d # ds) \<and>
    (\<forall>x \<in> set (d # ds). \<not> lt (key x) (key (foldl (\<lambda>m x. if lt (key x) (key m) then x else m) d ds)))"
  using assms
proof (induction ds arbitrary: d)
  case (Cons y ds)
  define e where "e = (if lt (key y) (key d) then y else d)"
  define m where "m = foldl (\<lambda>m x. if lt (key x) (key m) then x else m) e ds"
  have IH: "m \<in> set (e # ds)" "\<forall>x \<in> set (e # ds). \<not> lt (key x) (key m)"
    using Cons.IH [of e] Cons.prems by (auto simp: e_def m_def)
  have ok: "ok (key m)" "ok (key e)" "ok (key d)" "ok (key y)" using IH(1) Cons.prems by (auto simp: e_def split: if_splits)
  have "\<not> lt (key z) (key m)" if "z = d \<or> z = y" for z
  proof
    assume z: "lt (key z) (key m)"
    have "lt (key z) (key e) \<or> lt (key e) (key m)" using lt_split [of "key z" "key e" "key m"] z ok that by auto
    then have "lt (key z) (key e)" using IH(2) by simp
    then show False using that lt_irrefl lt_trans by (auto simp: e_def split: if_splits)
  qed
  with IH show ?case by (auto simp: m_def e_def split: if_splits)
qed (use lt_irrefl in simp)

end

interpretation fg: weak_order "\<lambda>x y. f_lt y x" "\<lambda>x. x \<noteq> PNan"
proof
  show "\<not> f_lt x x" for x by simp
  show "f_lt z x" if "f_lt y x" "f_lt z y" for x y z using that by (blast intro: f_lt_trans)
  show "f_lt y x \<or> f_lt z y" if "x \<noteq> PNan" "y \<noteq> PNan" "z \<noteq> PNan" "f_lt z x" for x y z
    using f_lt_split [of z y x] that by blast
qed

lemma nearest_key_least:
  assumes "list_all (\<lambda>d. snd d \<noteq> PNan) ds" and "nearest_key ds = Some k"
  shows "\<exists>x. (k, x) \<in> set ds \<and> list_all (\<lambda>d. f_lt (snd d) x = False) ds"
  using assms fl.foldl_least [of "hd ds" "tl ds" snd]
  by (cases ds) (auto simp: nearest_key_def list_all_iff intro!: exI [of _ "snd (foldl _ _ _)"])

lemma farthest_key_greatest:
  assumes "list_all (\<lambda>d. snd d \<noteq> PNan) ds" and "farthest_key ds = Some k"
  shows "\<exists>x. (k, x) \<in> set ds \<and> list_all (\<lambda>d. f_lt x (snd d) = False) ds"
  using assms fg.foldl_least [of "hd ds" "tl ds" snd]
  by (cases ds) (auto simp: farthest_key_def list_all_iff intro!: exI [of _ "snd (foldl _ _ _)"])

lemma pairs_of_sorted:
  assumes "sorted xs" "distinct xs"
  shows "2 * baseline_pairs_count xs = length xs * (length xs - 1)"
  using assms
proof (induction xs)
  case (Cons x xs)
  have "filter (\<lambda>b. x < b) (x # xs) = xs" using Cons.prems by (auto intro!: filter_all simp: less_le)
  moreover have "map (\<lambda>a. filter (\<lambda>b. a < b) (x # xs)) xs = map (\<lambda>a. filter (\<lambda>b. a < b) xs) xs"
    using Cons.prems by (auto simp: not_less)
  ultimately have "baseline_pairs_count (x # xs) = length xs + baseline_pairs_count xs"
    unfolding baseline_pairs_count_def by (simp only: list.map concat.simps length_append)
  with Cons show ?case by (cases xs) (simp_all add: algebra_simps)
qed (simp add: baseline_pairs_count_def)

section \<open>The geometry\<close>

lemma compute_geometry_Inr:
  assumes "compute_geometry refs test verified = Inr g"
  defines "stations \<equiv> network_stations refs test"
  defines "frames \<equiv> sort (remdups (map (frame_of verified) stations))"
  shows "\<forall>s \<in> set stations. map_of verified s \<noteq> None" and "length frames = 1"
    and "map_result (matrix_row verified stations) stations = Inr (ng_baseline_matrix_m g)"
    and "ng_stations g = map (geometry_of_station verified) stations"
    and "ng_reference_to_rover_m g = map (\<lambda>r. (r, entry (ng_baseline_matrix_m g) r test)) (remdups (sort refs))"
    and "ng_nearest_reference g = nearest_key (ng_reference_to_rover_m g)"
    and "ng_farthest_reference g = farthest_key (ng_reference_to_rover_m g)"
    and "ng_coordinate_frame g = hd frames" and "ng_baseline_count g = baseline_pairs_count stations"
proof -
  have m: "filter (\<lambda>s. map_of verified s = None) stations = []"
    using assms(1) by (auto simp: compute_geometry_def Let_def stations_def split: if_splits)
  then show "\<forall>s \<in> set stations. map_of verified s \<noteq> None" by (simp add: filter_empty_conv)
  show f: "length frames = 1"
    using assms(1) m unfolding compute_geometry_def Let_def stations_def [symmetric] frames_def [symmetric]
    by (simp split: if_split_asm)
  show "map_result (matrix_row verified stations) stations = Inr (ng_baseline_matrix_m g)"
    "ng_stations g = map (geometry_of_station verified) stations"
    "ng_reference_to_rover_m g = map (\<lambda>r. (r, entry (ng_baseline_matrix_m g) r test)) (remdups (sort refs))"
    "ng_nearest_reference g = nearest_key (ng_reference_to_rover_m g)"
    "ng_farthest_reference g = farthest_key (ng_reference_to_rover_m g)"
    "ng_coordinate_frame g = hd frames" "ng_baseline_count g = baseline_pairs_count stations"
    using assms(1) m f unfolding compute_geometry_def Let_def stations_def [symmetric] frames_def [symmetric]
    by auto
qed

lemma single_frame:
  assumes "length (sort (remdups (map f xs))) = 1" and "x \<in> set xs"
  shows "f x = hd (sort (remdups (map f xs)))"
proof -
  obtain y where y: "sort (remdups (map f xs)) = [y]" using assms(1) by (auto simp: length_Suc_conv)
  have "f x \<in> set (sort (remdups (map f xs)))" using assms(2) by simp
  then show ?thesis unfolding y by simp
qed

lemma geometry_frames:
  assumes "compute_geometry refs test verified = Inr g"
  shows "list_all (\<lambda>s. case map_of verified s of
      None \<Rightarrow> False
    | Some c \<Rightarrow> co_reference_frame c = ng_coordinate_frame g) (network_stations refs test)"
proof (unfold list_all_iff, rule ballI)
  note g = compute_geometry_Inr [OF assms]
  fix s assume s: "s \<in> set (network_stations refs test)"
  then obtain c where c: "map_of verified s = Some c" using g(1) by auto
  have "frame_of verified s = ng_coordinate_frame g" using single_frame [OF g(2) s] g(8) by simp
  with c show "case map_of verified s of None \<Rightarrow> False | Some c \<Rightarrow> co_reference_frame c = ng_coordinate_frame g"
    by (simp add: frame_of_def)
qed

text \<open>
  C31. The geometry of a network rests on verified coordinates in one frame (\<open>compute_geometry\<close>). When it
  returns, it covers the references and the test station, each with a verified coordinate in the frame
  it names; its matrix holds the distance of every pair, is zero on the diagonal and symmetric; the
  nearest and the farthest reference are references no other one is nearer or farther than (as long as
  no distance is undefined), there is none only without references, and each pair is counted once.
\<close>

theorem geometry_sound:
  "case compute_geometry refs test verified of
     Inl e \<Rightarrow> True
   | Inr g \<Rightarrow>
       map sg_station_id (ng_stations g) = network_stations refs test \<and>
       list_all (\<lambda>s. case map_of verified s of
           None \<Rightarrow> False
         | Some c \<Rightarrow> co_reference_frame c = ng_coordinate_frame g) (network_stations refs test) \<and>
       list_all (\<lambda>a. entry (ng_baseline_matrix_m g) a a = f_zero \<and>
         list_all (\<lambda>b. distance_of verified a b = Inr (entry (ng_baseline_matrix_m g) a b) \<and>
             entry (ng_baseline_matrix_m g) a b = entry (ng_baseline_matrix_m g) b a)
           (network_stations refs test)) (network_stations refs test) \<and>
       (if list_all (\<lambda>d. snd d \<noteq> PNan) (ng_reference_to_rover_m g) then
          (case (ng_nearest_reference g, ng_farthest_reference g) of
             (Some near, Some far) \<Rightarrow>
               near \<in> set refs \<and> far \<in> set refs \<and>
               list_all (\<lambda>r. f_lt (entry (ng_baseline_matrix_m g) r test) (entry (ng_baseline_matrix_m g) near test) = False \<and>
                 f_lt (entry (ng_baseline_matrix_m g) far test) (entry (ng_baseline_matrix_m g) r test) = False) refs
           | _ \<Rightarrow> refs = []) else True) \<and>
       2 * ng_baseline_count g = length (network_stations refs test) * (length (network_stations refs test) - 1)"
proof (cases "compute_geometry refs test verified")
  case (Inr g)
  note g = compute_geometry_Inr [OF Inr]
  let ?m = "ng_baseline_matrix_m g" and ?s = "network_stations refs test"
  let ?d = "\<lambda>r. entry ?m r test"
  have ids: "map sg_station_id (ng_stations g) = ?s"
    unfolding g(4) by (simp add: comp_def geometry_of_station_def case_prod_beta)
  note frames = geometry_frames [OF Inr]
  have dist: "distance_of verified a b = Inr (entry ?m a b)" if "a \<in> set ?s" "b \<in> set ?s" for a b
    using matrix_entries [OF g(3)] that .
  have matrix: "list_all (\<lambda>a. entry ?m a a = f_zero \<and>
      list_all (\<lambda>b. distance_of verified a b = Inr (entry ?m a b) \<and> entry ?m a b = entry ?m b a) ?s) ?s"
  proof (unfold list_all_iff, intro ballI conjI)
    fix a b assume ab: "a \<in> set ?s" "b \<in> set ?s"
    show "distance_of verified a b = Inr (entry ?m a b)" using dist ab .
    then show "entry ?m a b = entry ?m b a" using dist [OF ab(2,1)] by (simp add: distance_symmetric)
  next
    fix a assume "a \<in> set ?s"
    then show "entry ?m a a = f_zero" using dist [of a a] by (simp add: distance_of_def)
  qed
  have ends: "case (ng_nearest_reference g, ng_farthest_reference g) of
      (Some near, Some far) \<Rightarrow> near \<in> set refs \<and> far \<in> set refs \<and>
        list_all (\<lambda>r. f_lt (?d r) (?d near) = False \<and> f_lt (?d far) (?d r) = False) refs
    | _ \<Rightarrow> refs = []" if nan: "list_all (\<lambda>d. snd d \<noteq> PNan) (ng_reference_to_rover_m g)"
  proof (cases "refs = []")
    case False
    then have "sort refs \<noteq> []" by (metis length_sort length_0_conv)
    then obtain near far where k: "ng_nearest_reference g = Some near" "ng_farthest_reference g = Some far"
      unfolding g(5-7) by (cases "remdups (sort refs)") (auto simp: nearest_key_def farthest_key_def)
    from nearest_key_least [OF nan k(1) [unfolded g(6)]] farthest_key_greatest [OF nan k(2) [unfolded g(7)]]
    show ?thesis by (auto simp: k g(5) list_all_iff)
  qed (simp add: g(5-7) nearest_key_def)
  have "2 * ng_baseline_count g = length ?s * (length ?s - 1)"
    unfolding g(9) by (rule pairs_of_sorted) (simp_all add: network_stations_def)
  with ids frames matrix ends show ?thesis by (simp add: Inr)
qed simp

end
