(* ===== verification/Net_Runner.thy ===== *)
theory Net_Runner
  imports Net_Overlap Net_Geometry
begin

text \<open>
  Planning and gating of a network experiment (\<open>network_rtk/runner.py\<close>): the plan, its validation, the
  tests of a run up to the point where RTKLIB would be called, the fingerprint and the reuse of a stored
  manifest. Each test that the code catches as a \<open>NetworkBlocked\<close> is a reason of the plan.
\<close>

section \<open>Planning\<close>

definition ENGINE_VERSION_NET :: string where "ENGINE_VERSION_NET = ''0.1.0''"

record planned_experiment =
  pe_definition :: network_definition
  pe_plan :: experiment_plan
  pe_admission :: admission_summary
  pe_geometry :: "experiment_geometry option"
  pe_overlap :: "overlap_result option"

definition planned_as_dict :: "planned_experiment \<Rightarrow> dict" where
  "planned_as_dict p =
     [(''experiment'', JObj (definition_as_dict (pe_definition p))), (''plan'', JObj (plan_as_dict (pe_plan p))),
      (''admission'', JObj (summary_as_dict (pe_admission p))),
      (''geometry'', opt_json (\<lambda>g. JObj (geometry_as_dict g)) (pe_geometry p)),
      (''overlap'', opt_json (\<lambda>r. JObj (overlap_as_dict r)) (pe_overlap p))]"

text \<open>\<open>except NetworkBlocked\<close>: any other exception goes on.\<close>

definition catch_blocked :: "'a result \<Rightarrow> (string + 'a) result" where
  "catch_blocked r =
     (case r of Inr x \<Rightarrow> Inr (Inr x) | Inl (NetworkBlocked m) \<Rightarrow> Inr (Inl m) | Inl e \<Rightarrow> Inl e)"

definition wanted_stations :: "network_definition \<Rightarrow> string list" where
  "wanted_stations x = nx_reference_stations x @ [nx_test_station x]"

definition missing_stations :: "network_definition \<Rightarrow> admission_summary \<Rightarrow> string list" where
  "missing_stations x m = filter (\<lambda>s. s \<notin> as_station_id ` set (am_admitted m)) (wanted_stations x)"

definition missing_reason :: "network_definition \<Rightarrow> string list \<Rightarrow> string" where
  "missing_reason x missing =
     ''stations without '' @ nx_qc_profile x @ '' ACCEPT: '' @ str_join '', '' missing"

text \<open>The reasons that are known before any coordinate is read.\<close>

definition early_reasons :: "network_definition \<Rightarrow> admission_summary \<Rightarrow> string list" where
  "early_reasons x m =
     validate_definition x 3 @
     when_problem (missing_stations x m \<noteq> [] \<and> \<not> nx_diagnostic x) (missing_reason x (missing_stations x m)) @
     when_problem (int (length (nx_reference_stations x)) < nx_minimum_reference_station_count x)
       ''insufficient reference stations for a network experiment''"

definition experiment_geometry_of :: "data_root \<Rightarrow> network_definition \<Rightarrow> experiment_geometry result" where
  "experiment_geometry_of d x =
     bind_result (load_network_coordinates d) (\<lambda>verified.
       compute_geometry (nx_reference_stations x) (nx_test_station x) verified)"

definition plan_sessions :: "network_definition \<Rightarrow> admission_summary \<Rightarrow> admitted_session list" where
  "plan_sessions x m = filter (\<lambda>row. as_station_id row \<in> set (wanted_stations x)) (am_admitted m)"

definition default_overlap ::
  "(string \<Rightarrow> py_datetime result) \<Rightarrow> admitted_session list \<Rightarrow> overlap_result result"
where
  "default_overlap fromiso sessions = compute_overlap fromiso sessions (PFin 3600) (PFin 99)"

definition overlap_reasons :: "string + overlap_result \<Rightarrow> string list" where
  "overlap_reasons r =
     (case r of
        Inl msg \<Rightarrow> [msg]
      | Inr ov \<Rightarrow> when_problem (\<not> ov_sufficient ov) (case ov_block_reason ov of None \<Rightarrow> ''None'' | Some s \<Rightarrow> s))"

definition geometry_reasons :: "string + experiment_geometry \<Rightarrow> string list" where
  "geometry_reasons g = (case g of Inl msg \<Rightarrow> [msg] | Inr _ \<Rightarrow> [])"

definition to_option :: "'a + 'b \<Rightarrow> 'b option" where
  "to_option r = (case r of Inl _ \<Rightarrow> None | Inr x \<Rightarrow> Some x)"

text \<open>The overlap is computed only when nothing else blocks the plan.\<close>

definition plan_overlap ::
  "(string \<Rightarrow> py_datetime result) \<Rightarrow> network_definition \<Rightarrow> admission_summary \<Rightarrow> string list \<Rightarrow>
   (overlap_result option \<times> string list) result"
where
  "plan_overlap fromiso x m known =
     (if known \<noteq> [] then Inr (None, [])
      else bind_result (catch_blocked (default_overlap fromiso (plan_sessions x m)))
        (\<lambda>r. Inr (to_option r, overlap_reasons r)))"

definition assemble_plan ::
  "network_definition \<Rightarrow> admission_summary \<Rightarrow> string + experiment_geometry \<Rightarrow> overlap_result option \<Rightarrow>
   string list \<Rightarrow> planned_experiment"
where
  "assemble_plan x m g ov late =
     (let blocking = early_reasons x m @ geometry_reasons g @ late @ validate_definition x 3 in
      \<lparr>pe_definition = x,
       pe_plan =
         \<lparr>xp_experiment_id = nx_experiment_id x,
          xp_status = network_status_str (if blocking = [] then NS_PLANNED else NS_BLOCKED),
          xp_admitted_stations = sort (map as_station_id (am_admitted m)),
          xp_rejected_stations = sort (map (\<lambda>e. py_str (obj_get e ''station_id'' JNull)) (am_rejected m)),
          xp_blocked_reasons = am_blocked_reasons m @ blocking,
          xp_baseline_pairs = map (\<lambda>r. (r, nx_test_station x)) (sort (nx_reference_stations x)),
          xp_warnings = []\<rparr>,
       pe_admission = m, pe_geometry = to_option g, pe_overlap = ov\<rparr>)"

definition plan_experiment ::
  "(string \<Rightarrow> py_datetime result) \<Rightarrow> data_root \<Rightarrow> network_definition \<Rightarrow> planned_experiment result"
where
  "plan_experiment fromiso d x =
     bind_result (admit_day d (nx_year x) (nx_day_of_year x) (nx_qc_profile x) (nx_diagnostic x) None) (\<lambda>m.
     bind_result (catch_blocked (experiment_geometry_of d x)) (\<lambda>g.
     bind_result (plan_overlap fromiso x m (early_reasons x m @ geometry_reasons g)) (\<lambda>(ov, late).
       Inr (assemble_plan x m g ov late))))"

definition verdict :: "planned_experiment \<Rightarrow> string" where
  "verdict p = (if xp_status (pe_plan p) = ''PLANNED'' then ''VALIDATED'' else ''BLOCKED'')"

definition CHECKED :: "string list" where
  "CHECKED =
     [''experiment schema'', ''phase4 network_rtk ACCEPT admission'', ''verified coordinates and reference frame'',
      ''common observation overlap from actual epochs'', ''minimum reference station count'',
      ''navigation product presence'']"

definition validate_experiment ::
  "(string \<Rightarrow> py_datetime result) \<Rightarrow> string \<Rightarrow> data_root \<Rightarrow> network_definition \<Rightarrow> dict result"
where
  "validate_experiment fromiso now d x =
     bind_result (plan_experiment fromiso d x) (\<lambda>p.
       Inr (planned_as_dict p @
         [(''validation'', JObj
            [(''verdict'', JStr (verdict p)), (''checked'', JArr (map JStr CHECKED)), (''validated_at'', JStr now)])]))"

section \<open>The tests of a run\<close>

text \<open>
  What a run comes to before it touches RTKLIB: a blocking reason for the manifest, or the geometry, the
  overlap and the navigation files. The dict of the sessions keeps the last of two with the same station.
\<close>

record run_inputs =
  ri_geometry :: experiment_geometry
  ri_overlap :: overlap_result
  ri_navigation :: "string list"

definition by_station_id :: "admission_summary \<Rightarrow> string \<Rightarrow> admitted_session option" where
  "by_station_id m = map_of (rev (map (\<lambda>a. (as_station_id a, a)) (am_admitted m)))"

definition run_sessions_of :: "network_definition \<Rightarrow> admission_summary \<Rightarrow> admitted_session list result" where
  "run_sessions_of x m =
     map_result (\<lambda>s. case by_station_id m s of None \<Rightarrow> Inl (KeyError (repr_str s)) | Some a \<Rightarrow> Inr a)
       (sort (remdups (wanted_stations x)))"

definition resolve_navigation :: "data_root \<Rightarrow> network_definition \<Rightarrow> string list" where
  "resolve_navigation d x =
     filter (is_file d)
       (map (\<lambda>rel. if starts_with ''/'' rel then rel else dd_root d @ ''/'' @ rel) (nx_navigation_products x))"

definition sufficient_overlap ::
  "(string \<Rightarrow> py_datetime result) \<Rightarrow> network_definition \<Rightarrow> admission_summary \<Rightarrow> overlap_result result"
where
  "sufficient_overlap fromiso x m =
     bind_result (run_sessions_of x m) (\<lambda>sessions.
     bind_result (default_overlap fromiso sessions) (\<lambda>ov.
     bind_result (assert_sufficient_overlap ov) (\<lambda>_. Inr ov)))"

definition run_gate ::
  "(string \<Rightarrow> py_datetime result) \<Rightarrow> data_root \<Rightarrow> network_definition \<Rightarrow> (string + run_inputs) result"
where
  "run_gate fromiso d x =
     bind_result (assert_valid x) (\<lambda>_.
     bind_result (admit_day d (nx_year x) (nx_day_of_year x) (nx_qc_profile x) (nx_diagnostic x) None) (\<lambda>m.
     let missing = filter (\<lambda>s. by_station_id m s = None) (wanted_stations x);
         n = length (nx_reference_stations x) in
     if missing \<noteq> [] \<and> \<not> nx_diagnostic x then
       Inr (Inl (BLOCKED_MESSAGE_NET @ '': '' @ missing_reason x missing))
     else if int n < nx_minimum_reference_station_count x then
       Inr (Inl (BLOCKED_MESSAGE_NET @ '': insufficient admitted reference stations ('' @ str_nat n @ '' < '' @
         str_int (nx_minimum_reference_station_count x) @ '')''))
     else
       bind_result (catch_blocked (experiment_geometry_of d x)) (\<lambda>g.
         case g of Inl msg \<Rightarrow> Inr (Inl msg)
         | Inr geometry \<Rightarrow>
             bind_result (catch_blocked (sufficient_overlap fromiso x m)) (\<lambda>r.
               case r of Inl msg \<Rightarrow> Inr (Inl msg)
               | Inr ov \<Rightarrow>
                   if resolve_navigation d x = [] then
                     Inr (Inl (BLOCKED_MESSAGE_NET @ '': navigation product unavailable''))
                   else Inr (Inr \<lparr>ri_geometry = geometry, ri_overlap = ov,
                                 ri_navigation = resolve_navigation d x\<rparr>)))))"

section \<open>Fingerprint, reuse and status\<close>

definition RECORDED_RNX2RTKP_SHA256 :: string where
  "RECORDED_RNX2RTKP_SHA256 = ''b4a96cd0d5ffc00b44dab3a4fda214318c9f69cccee52128aec8bc26ad4f7d21''"

definition experiment_fingerprint ::
  "(bytes \<Rightarrow> string) \<Rightarrow> string \<Rightarrow> network_definition \<Rightarrow> admission_summary \<Rightarrow> experiment_geometry option \<Rightarrow>
   overlap_result option \<Rightarrow> (string \<times> string) list \<Rightarrow> string option \<Rightarrow> string"
where
  "experiment_fingerprint sha implementation x m g ov config_hashes binary =
     json_digest sha (JObj
       [(''engine_version'', JStr ENGINE_VERSION_NET), (''definition'', definition_material x),
        (''admission_fingerprint'', JStr (admission_fingerprint sha m)),
        (''geometry_matrix'', opt_json (\<lambda>g. matrix_json (ng_baseline_matrix_m g)) g),
        (''overlap'', opt_json (\<lambda>r. JObj
           [(''common_start'', JStr (ov_common_start r)), (''common_end'', JStr (ov_common_end r)),
            (''expected_epochs'', JInt (ov_expected_epochs r))]) ov),
        (''rtklib_config_hashes'', JObj (map (\<lambda>(k, h). (k, JStr h)) (sort_key fst config_hashes))),
        (''rtklib_binary_sha256'', opt_json JStr binary),
        (''recorded_rtklib_sha256'', JStr RECORDED_RNX2RTKP_SHA256),
        (''implementation_sha256'', JStr implementation)])"

definition load_cached_experiment :: "file_json \<Rightarrow> string \<Rightarrow> dict option" where
  "load_cached_experiment file fp =
     (case file of
        Content (JObj manifest) \<Rightarrow>
          if obj_get manifest ''experiment_fingerprint'' JNull = JStr fp
          then Some (obj_set manifest ''reused_verified_result'' (JBool True))
          else None
      | _ \<Rightarrow> None)"

definition run_status :: "string list \<Rightarrow> network_status" where
  "run_status outcomes =
     (if set outcomes = {''COMPLETE''} then NS_COMPLETE
      else if ''FAILED_UNEXPECTED'' \<in> set outcomes then NS_FAILED_UNEXPECTED
      else NS_COMPLETE)"

definition baseline_id_for :: "string \<Rightarrow> string \<Rightarrow> string" where
  "baseline_id_for reference test = reference @ ''-to-'' @ test"

section \<open>What a plan without reasons is\<close>

lemma early_reasons_Nil:
  "early_reasons x m = [] \<longleftrightarrow> validate_definition x 3 = [] \<and> (nx_diagnostic x \<or> missing_stations x m = [])"
  using valid_definition [of x 3] by (auto simp: early_reasons_def)

lemma geometry_reasons_Nil: "geometry_reasons g = [] \<longleftrightarrow> (\<exists>x. g = Inr x)"
  by (cases g) (simp_all add: geometry_reasons_def)

lemma overlap_reasons_Nil: "overlap_reasons r = [] \<longleftrightarrow> (\<exists>ov. r = Inr ov \<and> ov_sufficient ov)"
  by (cases r) (simp_all add: overlap_reasons_def)

lemma catch_blocked_Inr: "catch_blocked r = Inr (Inr x) \<longleftrightarrow> r = Inr x"
  by (auto simp: catch_blocked_def split: sum.splits py_error.splits)

lemma catch_blocked_Inl: "catch_blocked r = Inr (Inl m) \<longleftrightarrow> r = Inl (NetworkBlocked m)"
  by (auto simp: catch_blocked_def split: sum.splits py_error.splits)

text \<open>The four tests together, on an admission: what makes a plan \<open>PLANNED\<close>.\<close>

definition plannable ::
  "(string \<Rightarrow> py_datetime result) \<Rightarrow> data_root \<Rightarrow> network_definition \<Rightarrow> admission_summary \<Rightarrow>
   experiment_geometry \<Rightarrow> overlap_result \<Rightarrow> bool"
where
  "plannable fromiso d x m g ov \<longleftrightarrow>
     validate_definition x 3 = [] \<and> (nx_diagnostic x \<or> missing_stations x m = []) \<and>
     experiment_geometry_of d x = Inr g \<and>
     default_overlap fromiso (plan_sessions x m) = Inr ov \<and> ov_sufficient ov"

lemma plan_experiment_Inr:
  assumes "plan_experiment fromiso d x = Inr p"
  defines "m \<equiv> pe_admission p"
  shows "admit_day d (nx_year x) (nx_day_of_year x) (nx_qc_profile x) (nx_diagnostic x) None = Inr m"
    and "xp_status (pe_plan p) = ''PLANNED'' \<longleftrightarrow> (\<exists>g ov. plannable fromiso d x m g ov)"
    and "xp_status (pe_plan p) = ''PLANNED'' \<Longrightarrow>
      \<exists>g ov. pe_geometry p = Some g \<and> pe_overlap p = Some ov \<and> plannable fromiso d x m g ov"
    and "xp_status (pe_plan p) \<noteq> ''PLANNED'' \<Longrightarrow> xp_status (pe_plan p) = ''BLOCKED'' \<and> xp_blocked_reasons (pe_plan p) \<noteq> []"
    and "xp_status (pe_plan p) = ''PLANNED'' \<Longrightarrow> xp_blocked_reasons (pe_plan p) = am_blocked_reasons m"
proof -
  obtain g late where a: "admit_day d (nx_year x) (nx_day_of_year x) (nx_qc_profile x) (nx_diagnostic x) None = Inr m"
    and g: "catch_blocked (experiment_geometry_of d x) = Inr g"
    and l: "plan_overlap fromiso x m (early_reasons x m @ geometry_reasons g) = Inr (pe_overlap p, late)"
    and p: "p = assemble_plan x m g (pe_overlap p) late"
    using assms(1) by (auto simp: plan_experiment_def m_def assemble_plan_def Let_def)
  then show "admit_day d (nx_year x) (nx_day_of_year x) (nx_qc_profile x) (nx_diagnostic x) None = Inr m" by simp
  let ?known = "early_reasons x m @ geometry_reasons g"
  have "pe_geometry p = to_option g \<and>
      xp_status (pe_plan p) = network_status_str (if ?known @ late @ validate_definition x 3 = [] then NS_PLANNED else NS_BLOCKED) \<and>
      xp_blocked_reasons (pe_plan p) = am_blocked_reasons m @ ?known @ late @ validate_definition x 3"
    by (subst (1 2 3) p) (simp add: assemble_plan_def Let_def)
  then have geo: "pe_geometry p = to_option g"
    and st: "xp_status (pe_plan p) = network_status_str (if ?known @ late @ validate_definition x 3 = [] then NS_PLANNED else NS_BLOCKED)"
    and bl: "xp_blocked_reasons (pe_plan p) = am_blocked_reasons m @ ?known @ late @ validate_definition x 3" by blast+
  have planned: "xp_status (pe_plan p) = ''PLANNED'' \<longleftrightarrow> ?known @ late @ validate_definition x 3 = []"
    by (auto simp: st)
  show "xp_status (pe_plan p) \<noteq> ''PLANNED'' \<Longrightarrow> xp_status (pe_plan p) = ''BLOCKED'' \<and> xp_blocked_reasons (pe_plan p) \<noteq> []"
    unfolding planned bl st by auto
  show "xp_status (pe_plan p) = ''PLANNED'' \<Longrightarrow> xp_blocked_reasons (pe_plan p) = am_blocked_reasons m"
    unfolding planned bl by auto
  show fwd: "\<exists>g ov. pe_geometry p = Some g \<and> pe_overlap p = Some ov \<and> plannable fromiso d x m g ov"
    if "xp_status (pe_plan p) = ''PLANNED''"
  proof -
    have k: "?known = []" "late = []" "validate_definition x 3 = []" using that planned by auto
    then obtain gg where gg: "g = Inr gg" by (auto simp: geometry_reasons_Nil)
    obtain r where r: "catch_blocked (default_overlap fromiso (plan_sessions x m)) = Inr r"
      "pe_overlap p = to_option r" "overlap_reasons r = late" using l k(1) by (auto simp: plan_overlap_def)
    then obtain ov where "r = Inr ov" "ov_sufficient ov" using k(2) overlap_reasons_Nil by metis
    with k r gg g geo show ?thesis
      by (auto simp: plannable_def catch_blocked_Inr early_reasons_Nil to_option_def)
  qed
  show "xp_status (pe_plan p) = ''PLANNED'' \<longleftrightarrow> (\<exists>g ov. plannable fromiso d x m g ov)"
  proof
    assume "\<exists>g ov. plannable fromiso d x m g ov"
    then obtain gg ov where pl: "plannable fromiso d x m gg ov" by blast
    then have "g = Inr gg" using g by (auto simp: plannable_def catch_blocked_def)
    moreover have "catch_blocked (default_overlap fromiso (plan_sessions x m)) = Inr (Inr ov)"
      using pl by (simp add: plannable_def catch_blocked_Inr)
    moreover have "early_reasons x m = []" using pl by (auto simp: plannable_def early_reasons_Nil)
    ultimately have "?known = []" "late = []"
      using l pl by (auto simp: plan_overlap_def geometry_reasons_def overlap_reasons_def plannable_def)
    then show "xp_status (pe_plan p) = ''PLANNED''" using planned pl by (simp add: plannable_def)
  qed (use fwd in blast)
qed

lemma missing_stations_Nil:
  assumes "missing_stations x m = []" and "s \<in> set (wanted_stations x)"
  shows "\<exists>a \<in> set (am_admitted m). as_station_id a = s"
  using assms by (auto simp: missing_stations_def filter_empty_conv)

lemma admit_day_status:
  assumes "admit_day d year day profile diagnostic candidates = Inr m" and "a \<in> set (am_admitted m)"
  shows "diagnostic \<or> as_qc_status a = ''ACCEPT''" and "am_blocked_reasons m = []"
proof -
  obtain outcomes where o: "map_result (admit_station d year day profile diagnostic) (day_stations d year day profile candidates) = Inr outcomes"
    and m: "am_admitted m = rights outcomes" "(am_blocked_reasons m = []) = (rights outcomes \<noteq> [])"
    using assms(1) by (auto simp: admit_day_def)
  have "list_all2 (\<lambda>s r. case r of Inl e \<Rightarrow> refusal s e \<and> admitted_of d year day profile diagnostic s = None
      | Inr a \<Rightarrow> admitted_of d year day profile diagnostic s = Some a) (day_stations d year day profile candidates) outcomes"
    by (rule list_all2_mono [OF o [unfolded map_result_Inr_iff]]) (rule admit_station_cases)
  from conjunct1 [OF outcomes_split [OF this]] m assms(2)
  show "diagnostic \<or> as_qc_status a = ''ACCEPT''"
    by (auto simp: map_filter_def dest: admitted_of_status)
  show "am_blocked_reasons m = []" using m assms(2) by auto
qed

lemma window_has_session: "window_of_sessions fromiso sessions r t0 t1 \<Longrightarrow> sessions \<noteq> []"
  by (auto simp: window_of_sessions_def)

text \<open>
  C18. A planned network experiment meets its scientific requirements (\<open>plan_experiment\<close>). A plan is
  \<open>PLANNED\<close> exactly when it has no blocking reason. Then the definition has at least three different
  references and a test station that is none of them; unless it is diagnostic, every one of these
  stations has an admitted session whose quality result is \<open>ACCEPT\<close>; all have verified coordinates, in
  the one frame of the geometry; and the sessions have a common window inside the measured window of
  each, of at least 3600 seconds.
\<close>

theorem planned_experiment_sound:
  "case plan_experiment fromiso d x of
     Inl e \<Rightarrow> True
   | Inr p \<Rightarrow>
       (xp_status (pe_plan p) = ''PLANNED'') = (xp_blocked_reasons (pe_plan p) = []) \<and>
       (if xp_status (pe_plan p) = ''PLANNED'' then
          3 \<le> length (nx_reference_stations x) \<and> distinct (wanted_stations x) \<and>
          (if nx_diagnostic x then True
           else list_all (\<lambda>s. list_ex (\<lambda>a. as_station_id a = s \<and> as_qc_status a = ''ACCEPT'')
                  (am_admitted (pe_admission p))) (wanted_stations x)) \<and>
          (\<exists>verified g. load_network_coordinates d = Inr verified \<and> pe_geometry p = Some g \<and>
             list_all (\<lambda>s. case map_of verified s of
                 None \<Rightarrow> False
               | Some c \<Rightarrow> co_reference_frame c = ng_coordinate_frame g) (wanted_stations x)) \<and>
          (\<exists>ov t0 t1. pe_overlap p = Some ov \<and>
             window_of_sessions fromiso (plan_sessions x (pe_admission p)) ov t0 t1 \<and>
             f_le (PFin 3600) (total_seconds (t1 - t0)))
        else True)"
proof (cases "plan_experiment fromiso d x")
  case (Inr p)
  let ?m = "pe_admission p"
  note p = plan_experiment_Inr [OF Inr]
  show ?thesis
  proof (cases "xp_status (pe_plan p) = ''PLANNED''")
    case False
    with p(4) show ?thesis by (simp add: Inr)
  next
    case True
    from p(3) [OF True] obtain g ov where go: "pe_geometry p = Some g" "pe_overlap p = Some ov"
      and pl: "plannable fromiso d x ?m g ov" by blast
    have v: "distinct (wanted_stations x)" "3 \<le> length (nx_reference_stations x)"
      using pl valid_definition [of x 3] by (auto simp: plannable_def wanted_stations_def)
    obtain verified where ver: "load_network_coordinates d = Inr verified"
      and g: "compute_geometry (nx_reference_stations x) (nx_test_station x) verified = Inr g"
      using pl by (auto simp: plannable_def experiment_geometry_of_def)
    have ov: "compute_overlap fromiso (plan_sessions x ?m) (PFin 3600) (PFin 99) = Inr ov" "ov_sufficient ov"
      using pl by (simp_all add: plannable_def default_overlap_def)
    from compute_overlap_window(1) [OF ov(1)] obtain t0 t1 where
      w: "window_of_sessions fromiso (plan_sessions x ?m) ov t0 t1" by blast
    have long: "f_le (PFin 3600) (total_seconds (t1 - t0))"
      using compute_overlap_window(2) [OF ov(1)] ov(2) w by (simp add: window_of_sessions_def)
    obtain a where "a \<in> set (am_admitted ?m)"
      using window_has_session [OF w] hd_in_set [of "plan_sessions x ?m"] by (auto simp: plan_sessions_def)
    with admit_day_status(2) [OF p(1)] p(5) [OF True] have none: "xp_blocked_reasons (pe_plan p) = []" by simp
    have acc: "list_all (\<lambda>s. list_ex (\<lambda>a. as_station_id a = s \<and> as_qc_status a = ''ACCEPT'') (am_admitted ?m)) (wanted_stations x)"
      if "\<not> nx_diagnostic x"
      using that pl missing_stations_Nil [of x ?m] admit_day_status(1) [OF p(1)]
      by (fastforce simp: plannable_def list_all_iff list_ex_iff)
    have "set (wanted_stations x) = set (network_stations (nx_reference_stations x) (nx_test_station x))"
      by (auto simp: wanted_stations_def network_stations_def)
    then have fr: "list_all (\<lambda>s. case map_of verified s of None \<Rightarrow> False
        | Some c \<Rightarrow> co_reference_frame c = ng_coordinate_frame g) (wanted_stations x)"
      using geometry_frames [OF g] by (simp add: list_all_iff)
    show ?thesis using True none v acc ver go fr w long by (auto simp: Inr)
  qed
qed simp

section \<open>The run and its plan\<close>

text \<open>The sessions of the run are those of the plan, when the admitted stations are listed once and in order.\<close>

lemma by_station_id_None: "by_station_id m s = None \<longleftrightarrow> s \<notin> as_station_id ` set (am_admitted m)"
  by (auto simp: by_station_id_def map_of_eq_None_iff image_image)

lemma by_station_id_Some:
  assumes "distinct (map as_station_id (am_admitted m))" and "a \<in> set (am_admitted m)"
  shows "by_station_id m (as_station_id a) = Some a"
  unfolding by_station_id_def
  by (rule map_of_is_SomeI) (use assms in \<open>simp_all add: rev_map [symmetric] comp_def\<close>)

lemma run_sessions_are_planned:
  assumes "missing_stations x m = []"
    and "sorted (map as_station_id (am_admitted m))" "distinct (map as_station_id (am_admitted m))"
  shows "run_sessions_of x m = Inr (plan_sessions x m)"
proof -
  let ?ps = "plan_sessions x m"
  have ids: "set (map as_station_id ?ps) = set (wanted_stations x)"
    using missing_stations_Nil [OF assms(1)] by (fastforce simp: plan_sessions_def)
  have "sorted (map as_station_id ?ps)" "distinct (map as_station_id ?ps)"
    using assms(2,3) by (simp_all add: plan_sessions_def sorted_filter distinct_map_filter)
  then have eq: "sort (remdups (wanted_stations x)) = map as_station_id ?ps"
    using ids by (intro sorted_distinct_set_unique) simp_all
  have "by_station_id m (as_station_id a) = Some a" if "a \<in> set ?ps" for a
    using that by_station_id_Some [OF assms(3)] by (simp add: plan_sessions_def)
  then show ?thesis
    unfolding run_sessions_of_def eq map_result_Inr_iff
    by (auto simp: list_all2_conv_all_nth)
qed

lemma missing_of_run: "filter (\<lambda>s. by_station_id m s = None) (wanted_stations x) = missing_stations x m"
  by (simp add: missing_stations_def by_station_id_None)

lemma sufficient_overlap_of_plan:
  assumes "run_sessions_of x m = Inr (plan_sessions x m)"
  shows "sufficient_overlap fromiso x m =
    bind_result (default_overlap fromiso (plan_sessions x m)) (\<lambda>ov.
      if ov_sufficient ov then Inr ov
      else Inl (network_blocked (str_or (ov_block_reason ov) ''insufficient overlap'')))"
  by (cases "default_overlap fromiso (plan_sessions x m)")
    (simp_all add: sufficient_overlap_def assms assert_sufficient_overlap_def)

lemma catch_blocked_other: "catch_blocked r = Inl e \<Longrightarrow> r = Inl e"
  by (auto simp: catch_blocked_def split: sum.splits py_error.splits)

definition run_refused :: "(string + run_inputs) result \<Rightarrow> bool" where
  "run_refused r = (case r of Inr (Inl reason) \<Rightarrow> True | _ \<Rightarrow> False)"

text \<open>
  C27. A run follows its plan (\<open>plan_experiment\<close>, \<open>run_experiment\<close> up to RTKLIB). Take an experiment that is
  structurally valid and not diagnostic, on a day whose admitted stations are listed once and in order,
  and let the plan return. If it is \<open>PLANNED\<close>, the run goes on with the very geometry and overlap of the
  plan, provided a navigation product is found, and is blocked for that alone otherwise; if it is
  \<open>BLOCKED\<close>, the run ends as a blocked manifest and raises nothing.
\<close>

theorem run_follows_plan:
  "case plan_experiment fromiso d x of
     Inl e \<Rightarrow> True
   | Inr p \<Rightarrow>
       if validate_definition x 3 = [] \<and> nx_diagnostic x = False \<and>
          sorted (map as_station_id (am_admitted (pe_admission p))) \<and>
          distinct (map as_station_id (am_admitted (pe_admission p)))
       then
         (if xp_status (pe_plan p) = ''PLANNED'' then
            (\<exists>g ov. pe_geometry p = Some g \<and> pe_overlap p = Some ov \<and>
               run_gate fromiso d x =
                 (if resolve_navigation d x = []
                  then Inr (Inl (BLOCKED_MESSAGE_NET @ '': navigation product unavailable''))
                  else Inr (Inr \<lparr>ri_geometry = g, ri_overlap = ov, ri_navigation = resolve_navigation d x\<rparr>)))
          else run_refused (run_gate fromiso d x))
       else True"
proof (cases "plan_experiment fromiso d x")
  case (Inr p)
  let ?m = "pe_admission p"
  note p = plan_experiment_Inr [OF Inr]
  show ?thesis
  proof (cases "validate_definition x 3 = [] \<and> nx_diagnostic x = False \<and>
      sorted (map as_station_id (am_admitted ?m)) \<and> distinct (map as_station_id (am_admitted ?m))")
    case True
    then have v: "validate_definition x 3 = []" "\<not> nx_diagnostic x" and
      so: "sorted (map as_station_id (am_admitted ?m))" "distinct (map as_station_id (am_admitted ?m))" by auto
    have ok: "assert_valid x = Inr ()" "\<not> int (length (nx_reference_stations x)) < nx_minimum_reference_station_count x"
      using v valid_definition [of x 3] by (simp_all add: assert_valid_def)
    have gate: "run_gate fromiso d x =
       (if missing_stations x ?m \<noteq> [] then Inr (Inl (BLOCKED_MESSAGE_NET @ '': '' @ missing_reason x (missing_stations x ?m)))
        else bind_result (catch_blocked (experiment_geometry_of d x)) (\<lambda>g.
          case g of Inl msg \<Rightarrow> Inr (Inl msg)
          | Inr geometry \<Rightarrow>
              bind_result (catch_blocked (sufficient_overlap fromiso x ?m)) (\<lambda>r.
                case r of Inl msg \<Rightarrow> Inr (Inl msg)
                | Inr ov \<Rightarrow>
                    if resolve_navigation d x = [] then
                      Inr (Inl (BLOCKED_MESSAGE_NET @ '': navigation product unavailable''))
                    else Inr (Inr \<lparr>ri_geometry = geometry, ri_overlap = ov, ri_navigation = resolve_navigation d x\<rparr>))))"
      unfolding run_gate_def ok(1) p(1) Let_def using ok(2) v(2) by (simp add: missing_of_run)
    show ?thesis
    proof (cases "xp_status (pe_plan p) = ''PLANNED''")
      case planned: True
      from p(3) [OF planned] obtain g ov where go: "pe_geometry p = Some g" "pe_overlap p = Some ov"
        and pl: "plannable fromiso d x ?m g ov" by blast
      have ms: "missing_stations x ?m = []" using pl v(2) by (simp add: plannable_def)
      have "sufficient_overlap fromiso x ?m = Inr ov"
        unfolding sufficient_overlap_of_plan [OF run_sessions_are_planned [OF ms so]]
        using pl by (simp add: plannable_def)
      then have "run_gate fromiso d x =
          (if resolve_navigation d x = [] then Inr (Inl (BLOCKED_MESSAGE_NET @ '': navigation product unavailable''))
           else Inr (Inr \<lparr>ri_geometry = g, ri_overlap = ov, ri_navigation = resolve_navigation d x\<rparr>))"
        using pl ms unfolding gate by (simp add: plannable_def catch_blocked_def)
      with True planned go show ?thesis by (simp add: Inr)
    next
      case blocked: False
      have "run_refused (run_gate fromiso d x)"
      proof (cases "missing_stations x ?m = []")
        case ms: True
        obtain g where g: "catch_blocked (experiment_geometry_of d x) = Inr g"
          using Inr by (auto simp: plan_experiment_def)
        show ?thesis
        proof (cases g)
          case (Inl msg)
          then show ?thesis using g ms by (simp add: gate run_refused_def)
        next
          case gg: (Inr geometry)
          have e: "early_reasons x ?m = []" using v ms by (simp add: early_reasons_Nil)
          have "\<exists>r. catch_blocked (default_overlap fromiso (plan_sessions x ?m)) = Inr r"
            using Inr g gg e p(1) by (auto simp: plan_experiment_def plan_overlap_def geometry_reasons_def)
          then obtain r where r: "catch_blocked (default_overlap fromiso (plan_sessions x ?m)) = Inr r" by blast
          have "\<exists>msg. catch_blocked (sufficient_overlap fromiso x ?m) = Inr (Inl msg)"
          proof (cases r)
            case (Inl msg)
            then have "default_overlap fromiso (plan_sessions x ?m) = Inl (NetworkBlocked msg)"
              using r by (simp add: catch_blocked_Inl)
            then show ?thesis
              by (simp add: sufficient_overlap_of_plan [OF run_sessions_are_planned [OF ms so]] catch_blocked_def)
          next
            case ro: (Inr ov)
            then have o: "default_overlap fromiso (plan_sessions x ?m) = Inr ov" using r by (simp add: catch_blocked_Inr)
            have "\<not> ov_sufficient ov"
              using blocked p(2) o v ms g gg by (auto simp: plannable_def catch_blocked_Inr)
            then show ?thesis
              by (simp add: sufficient_overlap_of_plan [OF run_sessions_are_planned [OF ms so]] o catch_blocked_def network_blocked_def)
          qed
          then show ?thesis using g gg ms by (auto simp: gate run_refused_def)
        qed
      qed (simp add: gate run_refused_def)
      with True blocked show ?thesis by (simp add: Inr)
    qed
  qed (auto simp: Inr)
qed simp

section \<open>Two gaps\<close>

text \<open>A diagnostic run with a wanted station that was not admitted raises \<open>KeyError\<close>, which nothing catches.\<close>

lemma run_sessions_missing:
  assumes "s \<in> set (wanted_stations x)" and "by_station_id m s = None"
  shows "\<exists>k. run_sessions_of x m = Inl (KeyError k)"
proof (cases "run_sessions_of x m")
  case (Inl e)
  from map_result_Inl [OF Inl [unfolded run_sessions_of_def]] Inl show ?thesis by (auto split: option.splits)
next
  case (Inr as)
  have "s \<in> set (sort (remdups (wanted_stations x)))" using assms(1) by simp
  from list_all2_rows(1) [OF Inr [unfolded run_sessions_of_def map_result_Inr_iff] this] assms(2) show ?thesis by simp
qed

lemma diagnostic_missing_station:
  assumes "validate_definition x 3 = []" "nx_diagnostic x" "experiment_geometry_of d x = Inr g"
    and "admit_day d (nx_year x) (nx_day_of_year x) (nx_qc_profile x) True None = Inr m"
    and "s \<in> set (missing_stations x m)"
  shows "\<exists>k. run_gate fromiso d x = Inl (KeyError k)"
proof -
  have "s \<in> set (wanted_stations x)" "by_station_id m s = None"
    using assms(5) by (auto simp: missing_stations_def by_station_id_None)
  from run_sessions_missing [OF this] obtain k where "run_sessions_of x m = Inl (KeyError k)" by blast
  then have "catch_blocked (sufficient_overlap fromiso x m) = Inl (KeyError k)"
    by (simp add: sufficient_overlap_def catch_blocked_def)
  moreover have "assert_valid x = Inr ()" "\<not> int (length (nx_reference_stations x)) < nx_minimum_reference_station_count x"
    using assms(1) valid_definition [of x 3] by (simp_all add: assert_valid_def)
  moreover have "catch_blocked (experiment_geometry_of d x) = Inr (Inr g)" using assms(3) by (simp add: catch_blocked_def)
  ultimately show ?thesis using assms(2,4) by (simp add: run_gate_def Let_def)
qed

text \<open>A run none of whose baselines could be processed is \<open>COMPLETE\<close>.\<close>

lemma blocked_baselines_complete: "run_status [''BLOCKED'', ''FAILED_RTKLB'', ''FAILED_OUTPUT''] = NS_COMPLETE"
  by (simp add: run_status_def)

end
