(* ===== verification/Exp_Coverage.thy ===== *)
theory Exp_Coverage
  imports Py_Calendar Py_Text "HOL-Library.AList" "HOL-Library.Multiset"
begin

text \<open>
  The coverage matrix of the expansion study (\<open>scientific_expansion/models.py\<close>, \<open>coverage.py\<close>): one cell
  per station and day, joined from the manifest, the table of quality results, the navigation products
  and the days with coordinates. Rows are dicts as the CSV and JSON readers return them.
\<close>

section \<open>Records\<close>

record station_day =
  sd_station_id :: string
  sd_year :: int
  sd_doy :: int
  sd_observation_available :: bool
  sd_observation_path :: string
  sd_observation_sha256 :: string
  sd_qc_classification :: string
  sd_qc_findings :: "string list"
  sd_availability_percent :: pyfloat
  sd_epochs_observed :: int
  sd_navigation_available :: bool
  sd_navigation_product :: string
  sd_coordinate_eligible :: bool
  sd_processable_single_base :: bool
  sd_block_reason :: string

definition STUDY_STATIONS :: "string list" where
  "STUDY_STATIONS =
     [''ABFC00NGA'', ''BKFP00NGA'', ''EKAK00NGA'', ''FUTY00NGA'', ''MGBO00NGA'', ''PHRI00NGA'', ''ULAG00NGA'',
      ''UNEC00NGA'']"

definition COORDINATED_STATIONS :: "string list" where
  "COORDINATED_STATIONS = [''ABFC00NGA'', ''EKAK00NGA'', ''MGBO00NGA'', ''PHRI00NGA'']"

section \<open>Rows\<close>

type_synonym row = "(string \<times> json) list"
type_synonym station_key = "string \<times> int"

text \<open>
  \<open>(str(row["station_id"]), int(str(row["day_of_year"])))\<close>: a missing key and a text that is no number
  pass the row over.
\<close>

definition row_key :: "row \<Rightarrow> station_key option" where
  "row_key r =
     (case (map_of r ''station_id'', map_of r ''day_of_year'') of
        (Some s, Some d) \<Rightarrow>
          (case int_of_text (py_str d) of Inl _ \<Rightarrow> None | Inr doy \<Rightarrow> Some (py_str s, doy))
      | _ \<Rightarrow> None)"

definition qc_table :: "row list \<Rightarrow> (station_key \<times> row) list" where
  "qc_table rows =
     foldl (\<lambda>t r. case row_key r of None \<Rightarrow> t | Some k \<Rightarrow> AList.update k r t) [] rows"

definition observed_table :: "row list \<Rightarrow> (station_key \<times> row) list" where
  "observed_table records =
     foldl (\<lambda>t r. case row_key r of
        None \<Rightarrow> t
      | Some k \<Rightarrow> if fst k \<in> set STUDY_STATIONS then AList.update k r t else t) [] records"

section \<open>Cells\<close>

definition row_text :: "row \<Rightarrow> string \<Rightarrow> string \<Rightarrow> string" where
  "row_text r k dflt = py_str (obj_get r k (JStr dflt))"

text \<open>\<open>_parse_float\<close> and \<open>_parse_int\<close>: no number is zero, but an infinite one raises in the second.\<close>

definition parse_float_or_zero :: "json \<Rightarrow> pyfloat" where
  "parse_float_or_zero v = (case float_of_text (py_str v) of Inr x \<Rightarrow> x | Inl _ \<Rightarrow> f_zero)"

definition parse_int_or_zero :: "json \<Rightarrow> int result" where
  "parse_int_or_zero v =
     (case bind_result (float_of_text (py_str v)) f_to_int of
        Inr i \<Rightarrow> Inr i
      | Inl (TypeError _) \<Rightarrow> Inr 0
      | Inl (ValueError _) \<Rightarrow> Inr 0
      | Inl e \<Rightarrow> Inl e)"

definition reason_if :: "bool \<Rightarrow> string \<Rightarrow> string list" where
  "reason_if b s = (if b then [s] else [])"

definition block_reason :: "string \<Rightarrow> string list \<Rightarrow> string \<Rightarrow> bool \<Rightarrow> string" where
  "block_reason classification findings nav coordinate =
     (if classification = ''ACCEPT'' \<and> nav \<noteq> [] \<and> coordinate then []
      else if classification = ''REJECT'' then ''BLOCKED_QC_REJECT''
      else if classification = ''BLOCKED'' then
        (let reasons =
           reason_if (''NAVIGATION_PRODUCT_MISSING'' \<in> set findings) ''BLOCKED_NAVIGATION'' @
           reason_if (\<not> coordinate) ''BLOCKED_COORDINATE_INTERVAL'' @
           reason_if (''SEVERE_SESSION_TRUNCATION'' \<in> set findings) ''BLOCKED_QC_TRUNCATION'' @
           reason_if (''MAJOR_OBSERVATION_GAP'' \<in> set findings) ''BLOCKED_QC_GAP''
         in str_join '';'' (if reasons = [] then [''BLOCKED_QC''] else reasons))
      else if classification = ''WARN'' then ''BLOCKED_QC_WARN''
      else ''BLOCKED_UNKNOWN_QC_STATE'')"

definition lookup_default :: "('k \<times> 'v) list \<Rightarrow> 'k \<Rightarrow> 'v \<Rightarrow> 'v" where
  "lookup_default t k dflt = (case map_of t k of None \<Rightarrow> dflt | Some v \<Rightarrow> v)"

definition coverage_cell ::
  "(station_key \<times> row) list \<Rightarrow> (int \<times> string) list \<Rightarrow> (string \<times> int list) list \<Rightarrow> int \<Rightarrow>
   station_key \<times> row \<Rightarrow> station_day result"
where
  "coverage_cell qc nav_by_day coordinate_days year entry =
     (case entry of ((station, doy), record) \<Rightarrow>
        let q = lookup_default qc (station, doy) [];
            findings = filter (\<lambda>c. c \<noteq> []) (split_on (CHR '';'') (row_text q ''finding_codes'' []));
            classification =
              (let c = row_text q ''classification'' ''UNKNOWN'' in if c = [] then ''UNKNOWN'' else c);
            nav = lookup_default nav_by_day doy [];
            coordinate = doy \<in> set (lookup_default coordinate_days station []) in
        bind_result (parse_int_or_zero (obj_get q ''epochs_observed'' (JStr []))) (\<lambda>epochs.
          Inr \<lparr>sd_station_id = station, sd_year = year, sd_doy = doy, sd_observation_available = True,
               sd_observation_path = row_text record ''canonical_relative_path'' [],
               sd_observation_sha256 = row_text record ''sha256'' [],
               sd_qc_classification = classification, sd_qc_findings = findings,
               sd_availability_percent = parse_float_or_zero (obj_get q ''availability_percent'' (JStr [])),
               sd_epochs_observed = epochs, sd_navigation_available = (nav \<noteq> []), sd_navigation_product = nav,
               sd_coordinate_eligible = coordinate,
               sd_processable_single_base =
                 (classification = ''ACCEPT'' \<and> nav \<noteq> [] \<and> coordinate \<and> ''FULL_SESSION'' \<in> set findings),
               sd_block_reason = block_reason classification findings nav coordinate\<rparr>))"

definition key_less :: "station_key \<times> 'a \<Rightarrow> station_key \<times> 'a \<Rightarrow> bool" where
  "key_less a b =
     (fst (fst a) < fst (fst b) \<or> fst (fst a) = fst (fst b) \<and> snd (fst a) < snd (fst b))"

definition build_coverage_matrix ::
  "row list \<Rightarrow> row list \<Rightarrow> (int \<times> string) list \<Rightarrow> (string \<times> int list) list \<Rightarrow> int \<Rightarrow> station_day list result"
where
  "build_coverage_matrix records qc_rows nav_by_day coordinate_days year =
     map_result (coverage_cell (qc_table qc_rows) nav_by_day coordinate_days year)
       (sort_by key_less (observed_table records))"

section \<open>Lemmas\<close>

lemma block_reason_Nil:
  "block_reason classification findings nav coordinate = [] \<longleftrightarrow>
     classification = ''ACCEPT'' \<and> nav \<noteq> [] \<and> coordinate"
  by (auto simp: block_reason_def reason_if_def Let_def)

text \<open>An accepted session that lacks only a product or a coordinate is reported as of unknown quality.\<close>

lemma accepted_without_product:
  "block_reason ''ACCEPT'' findings [] coordinate = ''BLOCKED_UNKNOWN_QC_STATE''"
  "block_reason ''ACCEPT'' findings nav False = ''BLOCKED_UNKNOWN_QC_STATE''"
  by (simp_all add: block_reason_def)

lemma cell_fields:
  assumes "coverage_cell qc nav coords year ((station, doy), record) = Inr c"
  shows "sd_station_id c = station" "sd_doy c = doy" "sd_year c = year"
    "sd_navigation_available c = (lookup_default nav doy [] \<noteq> [])"
    "sd_coordinate_eligible c = (doy \<in> set (lookup_default coords station []))"
    "sd_processable_single_base c =
       (sd_qc_classification c = ''ACCEPT'' \<and> sd_navigation_available c \<and> sd_coordinate_eligible c \<and>
        ''FULL_SESSION'' \<in> set (sd_qc_findings c))"
    "sd_block_reason c =
       block_reason (sd_qc_classification c) (sd_qc_findings c) (sd_navigation_product c) (sd_coordinate_eligible c)"
    "sd_navigation_available c = (sd_navigation_product c \<noteq> [])"
    "sd_qc_findings c = filter (\<lambda>x. x \<noteq> [])
       (split_on (CHR '';'') (row_text (lookup_default qc (station, doy) []) ''finding_codes'' []))"
    "sd_qc_classification c =
       (let x = row_text (lookup_default qc (station, doy) []) ''classification'' ''UNKNOWN''
        in if x = [] then ''UNKNOWN'' else x)"
  using assms by (auto simp: coverage_cell_def Let_def)

text \<open>The tables have one entry per key.\<close>

lemma observed_table_keys:
  "distinct (map fst (observed_table records)) \<and>
   fst ` set (observed_table records) =
     {k. fst k \<in> set STUDY_STATIONS \<and> (\<exists>r \<in> set records. row_key r = Some k)}"
proof -
  let ?step = "\<lambda>t r. case row_key r of
        None \<Rightarrow> t
      | Some k \<Rightarrow> if fst k \<in> set STUDY_STATIONS then AList.update k r t else t"
  have "distinct (map fst (foldl ?step t records)) \<and>
      fst ` set (foldl ?step t records) =
        fst ` set t \<union> {k. fst k \<in> set STUDY_STATIONS \<and> (\<exists>r \<in> set records. row_key r = Some k)}"
    if "distinct (map fst t)" for t
    using that
  proof (induction records arbitrary: t)
    case (Cons r rs)
    have "distinct (map fst (?step t r))"
      using Cons.prems by (auto simp: distinct_update split: option.split)
    moreover have "fst ` set (?step t r) =
        fst ` set t \<union> {k. fst k \<in> set STUDY_STATIONS \<and> row_key r = Some k}"
      using dom_update [of _ r t] by (auto split: option.split)
    ultimately show ?case using Cons.IH [of "?step t r"] by auto
  qed simp
  from this [of "[]"] show ?thesis by (simp add: observed_table_def)
qed

interpretation sk: weak_order "key_less :: station_key \<times> 'a \<Rightarrow> station_key \<times> 'a \<Rightarrow> bool" "\<lambda>_. True"
  by unfold_locales (auto simp: key_less_def)

lemma mset_sort_by [simp]: "mset (sort_by lt xs) = mset xs"
proof -
  have ins: "mset (insert_by lt x ys) = add_mset x (mset ys)" for x ys by (induction ys) auto
  have "mset (foldl (\<lambda>acc x. insert_by lt x acc) acc xs) = mset acc + mset xs" for acc
    by (induction xs arbitrary: acc) (auto simp: ins)
  then show ?thesis by (simp add: sort_by_def)
qed

lemma distinct_sort_by: "distinct (map f (sort_by lt xs)) = distinct (map f xs)"
  by (rule mset_eq_imp_distinct_iff) simp

text \<open>The cells of a matrix are the keys of the manifest, in order, each once.\<close>

definition cell_key :: "station_day \<Rightarrow> station_key" where
  "cell_key c = (sd_station_id c, sd_doy c)"

lemma matrix_cells:
  assumes "build_coverage_matrix records qc_rows nav coords year = Inr cells"
  shows "list_all2 (\<lambda>e c. coverage_cell (qc_table qc_rows) nav coords year e = Inr c)
      (sort_by key_less (observed_table records)) cells"
    and "map cell_key cells = map fst (sort_by key_less (observed_table records))"
    and "distinct (map cell_key cells)"
    and "set (map cell_key cells) =
      {k. fst k \<in> set STUDY_STATIONS \<and> (\<exists>r \<in> set records. row_key r = Some k)}"
proof -
  let ?t = "sort_by key_less (observed_table records)"
  show rows: "list_all2 (\<lambda>e c. coverage_cell (qc_table qc_rows) nav coords year e = Inr c) ?t cells"
    using assms by (simp add: build_coverage_matrix_def map_result_Inr_iff)
  then show keys: "map cell_key cells = map fst ?t"
    by (induction) (auto simp: cell_key_def cell_fields)
  show "distinct (map cell_key cells)"
    unfolding keys distinct_sort_by using observed_table_keys by blast
  show "set (map cell_key cells) = {k. fst k \<in> set STUDY_STATIONS \<and> (\<exists>r \<in> set records. row_key r = Some k)}"
    unfolding keys using observed_table_keys [of records] by simp
qed

lemma matrix_cell:
  assumes "build_coverage_matrix records qc_rows nav coords year = Inr cells" and "c \<in> set cells"
  shows "\<exists>record. coverage_cell (qc_table qc_rows) nav coords year ((sd_station_id c, sd_doy c), record) = Inr c"
proof -
  obtain e where e: "coverage_cell (qc_table qc_rows) nav coords year e = Inr c"
    using list_all2_rows(2) [OF matrix_cells(1) [OF assms(1)] assms(2)] by blast
  obtain station doy rc where "e = ((station, doy), rc)" by (cases e) auto
  with e cell_fields(1,2) [of _ _ _ _ station doy rc c] show ?thesis by auto
qed

end
