(* ===== verification/Exp_Catalog.thy ===== *)
theory Exp_Catalog
  imports Exp_Coverage
begin

text \<open>
  Days of the expansion study: their overlap (\<open>scientific_expansion/overlap.py\<close>), the catalog of
  processable days and the choice among them (\<open>catalog.py\<close>).
\<close>

section \<open>Overlap by day\<close>

record overlap_day =
  od_year :: int
  od_doy :: int
  od_stations :: "string list"
  od_station_count :: nat
  od_candidate_experiment_type :: string
  od_full_session_stations :: "string list"

definition classify_overlap :: "nat \<Rightarrow> string" where
  "classify_overlap n =
     (if 4 \<le> n then ''NETWORK_HELD_OUT_CANDIDATE''
      else if n = 3 then ''LIMITED_NETWORK_CANDIDATE''
      else if n = 2 then ''SINGLE_BASE_CANDIDATE''
      else ''NONE'')"

definition full_session :: "station_day \<Rightarrow> bool" where
  "full_session c = (''FULL_SESSION'' \<in> set (sd_qc_findings c))"

text \<open>The days of a list of cells in order, and the cells of a day in the order of the list.\<close>

definition days_of :: "station_day list \<Rightarrow> int list" where
  "days_of cells = sort (remdups (map sd_doy cells))"

definition cells_of :: "station_day list \<Rightarrow> int \<Rightarrow> station_day list" where
  "cells_of cells doy = filter (\<lambda>c. sd_doy c = doy) cells"

definition overlap_of_day :: "station_day list \<Rightarrow> int \<Rightarrow> overlap_day" where
  "overlap_of_day cells doy =
     (let members = sort_key sd_station_id (cells_of cells doy); stations = map sd_station_id members in
      \<lparr>od_year = sd_year (hd members), od_doy = doy, od_stations = stations,
       od_station_count = length stations, od_candidate_experiment_type = classify_overlap (length stations),
       od_full_session_stations = map sd_station_id (filter full_session members)\<rparr>)"

definition overlap_by_day :: "station_day list \<Rightarrow> bool \<Rightarrow> bool \<Rightarrow> overlap_day list" where
  "overlap_by_day cells coordinated_only require_full_session =
     (let kept = filter (\<lambda>c. (coordinated_only \<longrightarrow> sd_station_id c \<in> set COORDINATED_STATIONS) \<and>
                            (require_full_session \<longrightarrow> full_session c)) cells
      in map (overlap_of_day kept) (days_of kept))"

definition count_days_by_overlap :: "overlap_day list \<Rightarrow> (string \<times> nat) list" where
  "count_days_by_overlap days =
     map (\<lambda>n. (''>='' @ str_nat n, length (filter (\<lambda>d. n \<le> od_station_count d) days))) [1..<9]"

section \<open>The catalog\<close>

record processable_day =
  pd_year :: int
  pd_doy :: int
  pd_stations :: "string list"
  pd_station_count :: nat
  pd_nav_product :: string
  pd_single_base_possible :: bool
  pd_single_base_pairs :: "(string \<times> string) list"
  pd_network_possible :: bool
  pd_network_references :: "string list"
  pd_phase6_loocv_possible :: bool
  pd_reason_if_blocked :: string
  pd_priority_score :: pyfloat
  pd_selection_reason :: string

text \<open>\<open>combinations(xs, 2)\<close>\<close>

fun pairs_in_order :: "'a list \<Rightarrow> ('a \<times> 'a) list" where
  "pairs_in_order [] = []"
| "pairs_in_order (x # xs) = map (\<lambda>y. (x, y)) xs @ pairs_in_order xs"

definition accepted_full :: "station_day \<Rightarrow> bool" where
  "accepted_full c = (sd_qc_classification c = ''ACCEPT'' \<and> full_session c)"

definition eligible_cell :: "station_day \<Rightarrow> bool" where
  "eligible_cell c =
     (sd_station_id c \<in> set COORDINATED_STATIONS \<and> accepted_full c \<and> sd_navigation_available c \<and>
      sd_coordinate_eligible c)"

definition blocked_reason :: "nat \<Rightarrow> nat \<Rightarrow> string \<Rightarrow> station_day list \<Rightarrow> string" where
  "blocked_reason raw_count eligible_count nav members =
     (if 2 \<le> eligible_count then []
      else
        let parts =
          reason_if (raw_count < 2) ''INSUFFICIENT_OVERLAP'' @
          reason_if (nav = []) ''BLOCKED_NAVIGATION'' @
          reason_if (length (filter sd_coordinate_eligible members) < 2) ''BLOCKED_COORDINATE_INTERVAL'' @
          reason_if (length (filter accepted_full members) < 2) ''BLOCKED_QC''
        in if parts = [] then ''BLOCKED_UNKNOWN'' else str_join '';'' parts)"

definition raw_count :: "overlap_day list \<Rightarrow> int \<Rightarrow> nat" where
  "raw_count days doy =
     (case map_of (rev (map (\<lambda>d. (od_doy d, od_station_count d)) days)) doy of None \<Rightarrow> 0 | Some n \<Rightarrow> n)"

definition catalog_day ::
  "station_day list \<Rightarrow> overlap_day list \<Rightarrow> (int \<times> string) list \<Rightarrow> int \<Rightarrow> processable_day"
where
  "catalog_day cells overlap_days nav_by_day doy =
     (let members = cells_of cells doy;
          stations = sort (map sd_station_id (filter eligible_cell members));
          n = length stations;
          nav = lookup_default nav_by_day doy []
      in \<lparr>pd_year = sd_year (hd members), pd_doy = doy, pd_stations = stations, pd_station_count = n,
          pd_nav_product = nav, pd_single_base_possible = (2 \<le> n),
          pd_single_base_pairs = pairs_in_order stations, pd_network_possible = (4 \<le> n),
          pd_network_references = (if 4 \<le> n then stations else []), pd_phase6_loocv_possible = (4 \<le> n),
          pd_reason_if_blocked =
            (if 2 \<le> n then [] else blocked_reason (raw_count overlap_days doy) n nav members),
          pd_priority_score = f_zero, pd_selection_reason = []\<rparr>)"

definition build_processable_catalog ::
  "station_day list \<Rightarrow> overlap_day list \<Rightarrow> (int \<times> string) list \<Rightarrow> processable_day list"
where
  "build_processable_catalog cells overlap_days nav_by_day =
     map (catalog_day cells overlap_days nav_by_day) (days_of cells)"

section \<open>The choice of days\<close>

definition WEIGHT_MONTH_SPREAD :: pyfloat where "WEIGHT_MONTH_SPREAD = PFin (3 / 2)"

definition priority_score :: "processable_day \<Rightarrow> pyfloat" where
  "priority_score d =
     (let n = pd_station_count d
      in f_add (PFin (if 4 \<le> n then 4 else if n = 3 then 2 else 1)) (PFin (of_nat n)))"

definition selection_reason :: "processable_day \<Rightarrow> string" where
  "selection_reason d =
     (if 4 \<le> pd_station_count d then ''four-station held-out network/spatial validation candidate''
      else if pd_station_count d = 3 then ''three-station limited network candidate''
      else ''two-station single-base candidate'')"

text \<open>\<open>(date(year, 1, 1) + timedelta(days=doy - 1)).month\<close>\<close>

definition month_of_doy :: "int \<Rightarrow> int \<Rightarrow> int result" where
  "month_of_doy year doy =
     bind_result (new_datetime year 1 1 0 0 0 0 None) (\<lambda>t.
       if 999999999 < \<bar>doy - 1\<bar> then
         Inl (OverflowError (''days='' @ str_int (doy - 1) @ ''; must have magnitude <= 999999999''))
       else
         let n = ordinal t + (doy - 1) in
         if n < 1 \<or> days_before_year 10000 < n then Inl (OverflowError ''date value out of range'')
         else Inr (dt_month (utc_of_instant (n * 86400000000))))"

text \<open>\<open>round(x, 3)\<close>\<close>

definition round3 :: "pyfloat \<Rightarrow> pyfloat" where
  "round3 x = (case x of PFin r \<Rightarrow> round64 (of_int (round_half_even (r * 1000)) / 1000) | y \<Rightarrow> y)"

fun choose_days :: "int \<Rightarrow> (processable_day \<times> pyfloat) list \<Rightarrow> int list \<Rightarrow> processable_day list \<Rightarrow> processable_day list result"
where
  "choose_days max_days [] used chosen = Inr chosen"
| "choose_days max_days ((d, score) # rest) used chosen =
     (if max_days \<le> int (length chosen) then Inr chosen
      else
        bind_result (month_of_doy (pd_year d) (pd_doy d)) (\<lambda>month.
          choose_days max_days rest (month # used)
            (chosen @ [d\<lparr>pd_priority_score :=
                 round3 (f_add score (if month \<in> set used then f_zero else WEIGHT_MONTH_SPREAD)),
               pd_selection_reason := selection_reason d\<rparr>])))"

definition better_day :: "pyfloat \<times> int \<Rightarrow> pyfloat \<times> int \<Rightarrow> bool" where
  "better_day a b = (f_lt (fst b) (fst a) \<or> fst a = fst b \<and> snd a < snd b)"

definition prioritize_days :: "processable_day list \<Rightarrow> int \<Rightarrow> bool \<Rightarrow> processable_day list result" where
  "prioritize_days catalog max_days require_network =
     (let pool = filter (\<lambda>d. pd_single_base_possible d \<and> (pd_network_possible d \<or> \<not> require_network)) catalog;
          pool = (if require_network then filter pd_network_possible pool else pool);
          scored = sort_by (\<lambda>a b. better_day (snd a, pd_doy (fst a)) (snd b, pd_doy (fst b)))
                     (map (\<lambda>d. (d, priority_score d)) pool)
      in bind_result (choose_days max_days scored [] []) (\<lambda>chosen.
           Inr (sort_by (\<lambda>a b. better_day (pd_priority_score a, pd_doy a) (pd_priority_score b, pd_doy b)) chosen)))"

section \<open>What the catalog admits\<close>

lemma set_days_of [simp]: "set (days_of cells) = sd_doy ` set cells"
  by (simp add: days_of_def)

lemma pairs_in_order_length: "2 * length (pairs_in_order xs) = length xs * (length xs - 1)"
proof (induction xs)
  case (Cons x xs)
  then show ?case by (cases xs) (simp_all add: algebra_simps)
qed simp

lemma pairs_in_order_set:
  assumes "sorted xs" "distinct xs"
  shows "(a, b) \<in> set (pairs_in_order xs) \<longleftrightarrow> a \<in> set xs \<and> b \<in> set xs \<and> a < b"
  using assms by (induction xs) (auto simp: less_le)

lemma blocked_reason_Nil: "blocked_reason raw n nav members = [] \<longleftrightarrow> 2 \<le> n"
proof -
  have "str_join '';'' parts \<noteq> []" if "parts \<noteq> []" "[] \<notin> set parts" for parts
    using that by (cases "('';'', parts)" rule: str_join.cases) auto
  then show ?thesis by (auto simp: blocked_reason_def reason_if_def Let_def)
qed

text \<open>What makes a station usable on a day, read off the inputs of the matrix.\<close>

definition usable ::
  "row list \<Rightarrow> row list \<Rightarrow> (int \<times> string) list \<Rightarrow> (string \<times> int list) list \<Rightarrow> int \<Rightarrow> string \<Rightarrow> bool"
where
  "usable records qc_rows nav coords doy station =
     (let q = lookup_default (qc_table qc_rows) (station, doy) [] in
      station \<in> set COORDINATED_STATIONS \<and> list_ex (\<lambda>r. row_key r = Some (station, doy)) records \<and>
      row_text q ''classification'' ''UNKNOWN'' = ''ACCEPT'' \<and>
      ''FULL_SESSION'' \<in> set (split_on (CHR '';'') (row_text q ''finding_codes'' [])) \<and>
      lookup_default nav doy [] \<noteq> [] \<and> doy \<in> set (lookup_default coords station []))"

lemma coordinated_canonical: "s \<in> set COORDINATED_STATIONS \<Longrightarrow> s \<in> set STUDY_STATIONS"
  by (auto simp: COORDINATED_STATIONS_def STUDY_STATIONS_def)

lemma eligible_cell_usable:
  assumes "build_coverage_matrix records qc_rows nav coords year = Inr cells" and "c \<in> set cells"
  shows "eligible_cell c \<longleftrightarrow> usable records qc_rows nav coords (sd_doy c) (sd_station_id c)"
proof -
  obtain rc where cell: "coverage_cell (qc_table qc_rows) nav coords year ((sd_station_id c, sd_doy c), rc) = Inr c"
    using matrix_cell [OF assms] by blast
  have "cell_key c \<in> set (map cell_key cells)" using assms(2) by simp
  then have rec: "list_ex (\<lambda>r. row_key r = Some (sd_station_id c, sd_doy c)) records"
    unfolding matrix_cells(4) [OF assms(1)] by (auto simp: cell_key_def list_ex_iff)
  show ?thesis
    using rec cell_fields(4,5) [OF cell]
    unfolding eligible_cell_def accepted_full_def full_session_def usable_def Let_def
      cell_fields(9) [OF cell] cell_fields(10) [OF cell]
    by auto
qed

lemma usable_is_cell:
  assumes "build_coverage_matrix records qc_rows nav coords year = Inr cells"
    and "usable records qc_rows nav coords doy station"
  shows "\<exists>c \<in> set cells. sd_station_id c = station \<and> sd_doy c = doy"
proof -
  have "(station, doy) \<in> set (map cell_key cells)"
    using assms(2) coordinated_canonical
    unfolding matrix_cells(4) [OF assms(1)] by (auto simp: usable_def Let_def list_ex_iff)
  then show ?thesis by (auto simp: cell_key_def)
qed

lemma catalog_stations:
  assumes "build_coverage_matrix records qc_rows nav coords year = Inr cells"
    and d_def: "d = catalog_day cells ov nav doy"
  shows "sorted (pd_stations d)" "distinct (pd_stations d)"
    "set (pd_stations d) = {s. usable records qc_rows nav coords doy s}"
proof -
  let ?m = "filter eligible_cell (cells_of cells doy)"
  have st: "pd_stations d = sort (map sd_station_id ?m)" by (simp add: d_def catalog_day_def Let_def)
  then show "sorted (pd_stations d)" by simp
  have "inj_on sd_station_id (set ?m)"
  proof (rule inj_onI)
    fix a b assume ab: "a \<in> set ?m" "b \<in> set ?m" "sd_station_id a = sd_station_id b"
    then have "cell_key a = cell_key b" "a \<in> set cells" "b \<in> set cells" by (auto simp: cell_key_def cells_of_def)
    with matrix_cells(3) [OF assms(1)] show "a = b" by (auto simp: distinct_map dest: inj_onD)
  qed
  moreover have "distinct ?m"
    using matrix_cells(3) [OF assms(1)] by (simp add: cells_of_def distinct_map)
  ultimately show "distinct (pd_stations d)" by (simp add: st distinct_map)
  show "set (pd_stations d) = {s. usable records qc_rows nav coords doy s}"
    using eligible_cell_usable [OF assms(1)] usable_is_cell [OF assms(1)]
    by (fastforce simp: st cells_of_def)
qed

text \<open>
  C30. The catalog admits exactly the usable station days (\<open>build_coverage_matrix\<close>,
  \<open>build_processable_catalog\<close>). On every day, its stations are, in order and each once, the stations with
  coordinates that have an observation in the manifest, a quality result of \<open>ACCEPT\<close> over a full session,
  a navigation product, and a coordinate for that day. Single-base experiments need two of them, network
  and leave-one-out experiments four; the pairs are each two of them once; and a day has a blocking reason
  exactly when it has no pair.
\<close>

theorem catalog_admits_exactly:
  "case build_coverage_matrix records qc_rows nav coords year of
     Inl e \<Rightarrow> True
   | Inr cells \<Rightarrow>
       list_all (\<lambda>d.
         sorted (pd_stations d) \<and> distinct (pd_stations d) \<and>
         set (pd_stations d) = {s. usable records qc_rows nav coords (pd_doy d) s} \<and>
         pd_single_base_possible d = (2 \<le> length (pd_stations d)) \<and>
         pd_network_possible d = (4 \<le> length (pd_stations d)) \<and>
         pd_phase6_loocv_possible d = pd_network_possible d \<and>
         set (pd_single_base_pairs d) = {(a, b). a \<in> set (pd_stations d) \<and> b \<in> set (pd_stations d) \<and> a < b} \<and>
         2 * length (pd_single_base_pairs d) = length (pd_stations d) * (length (pd_stations d) - 1) \<and>
         (pd_reason_if_blocked d = []) = pd_single_base_possible d)
       (build_processable_catalog cells overlap_days nav)"
proof (cases "build_coverage_matrix records qc_rows nav coords year")
  case (Inr cells)
  have "let d = catalog_day cells overlap_days nav doy in
      sorted (pd_stations d) \<and> distinct (pd_stations d) \<and>
      set (pd_stations d) = {s. usable records qc_rows nav coords (pd_doy d) s} \<and>
      pd_single_base_possible d = (2 \<le> length (pd_stations d)) \<and>
      pd_network_possible d = (4 \<le> length (pd_stations d)) \<and>
      pd_phase6_loocv_possible d = pd_network_possible d \<and>
      set (pd_single_base_pairs d) = {(a, b). a \<in> set (pd_stations d) \<and> b \<in> set (pd_stations d) \<and> a < b} \<and>
      2 * length (pd_single_base_pairs d) = length (pd_stations d) * (length (pd_stations d) - 1) \<and>
      (pd_reason_if_blocked d = []) = pd_single_base_possible d" for doy
  proof -
    define d where "d = catalog_day cells overlap_days nav doy"
    note st = catalog_stations [OF Inr d_def]
    have f: "pd_doy d = doy" "pd_single_base_possible d = (2 \<le> length (pd_stations d))"
      "pd_network_possible d = (4 \<le> length (pd_stations d))" "pd_phase6_loocv_possible d = pd_network_possible d"
      "pd_single_base_pairs d = pairs_in_order (pd_stations d)"
      "(pd_reason_if_blocked d = []) = pd_single_base_possible d"
      by (simp_all add: d_def catalog_day_def Let_def blocked_reason_Nil)
    show ?thesis
      unfolding Let_def d_def [symmetric] f(5)
      using st f(1-4,6) pairs_in_order_set [OF st(1,2)] pairs_in_order_length [of "pd_stations d"] by auto
  qed
  then show ?thesis by (simp add: Inr build_processable_catalog_def list_all_iff Let_def)
qed simp

section \<open>What the choice prefers\<close>

text \<open>A day without the fields that the choice fills in.\<close>

definition base_day :: "processable_day \<Rightarrow> processable_day" where
  "base_day d = d\<lparr>pd_priority_score := f_zero, pd_selection_reason := []\<rparr>"

lemma round64_not_nan [simp]: "round64 x \<noteq> PNan"
  by (simp add: round64_def Let_def)

lemma f_add_not_nan: "x \<noteq> PNan \<Longrightarrow> f_add x (PFin b) \<noteq> PNan"
  by (cases x) simp_all

lemma round3_not_nan: "x \<noteq> PNan \<Longrightarrow> round3 x \<noteq> PNan"
  by (cases x) (simp_all add: round3_def)

text \<open>The chosen days are the first ones of the scored list, whatever the months.\<close>

lemma choose_days_takes:
  assumes "choose_days k scored used chosen = Inr r" and "list_all (\<lambda>p. snd p \<noteq> PNan) scored"
    and "list_all (\<lambda>d. pd_priority_score d \<noteq> PNan) chosen"
  shows "map base_day r = map base_day chosen @ take (nat k - length chosen) (map (base_day \<circ> fst) scored)"
    and "list_all (\<lambda>d. pd_priority_score d \<noteq> PNan) r"
proof -
  have "map base_day r = map base_day chosen @ take (nat k - length chosen) (map (base_day \<circ> fst) scored) \<and>
    list_all (\<lambda>d. pd_priority_score d \<noteq> PNan) r"
    using assms
  proof (induction k scored used chosen rule: choose_days.induct)
    case (2 k d score rest used chosen)
    show ?case
    proof (cases "k \<le> int (length chosen)")
      case False
      then obtain month where m: "month_of_doy (pd_year d) (pd_doy d) = Inr month" using "2.prems"(1) by auto
      define e where "e = d\<lparr>pd_priority_score :=
          round3 (f_add score (if month \<in> set used then f_zero else WEIGHT_MONTH_SPREAD)),
        pd_selection_reason := selection_reason d\<rparr>"
      have r: "choose_days k rest (month # used) (chosen @ [e]) = Inr r" using "2.prems"(1) False m by (simp add: e_def)
      have e: "base_day e = base_day d" "pd_priority_score e \<noteq> PNan"
        using "2.prems"(2) by (auto simp: e_def base_day_def WEIGHT_MONTH_SPREAD_def intro!: round3_not_nan f_add_not_nan)
      have "nat k - length chosen = Suc (nat k - Suc (length chosen))" using False by simp
      with "2.IH" [OF False, of month, folded e_def] r "2.prems" e show ?thesis by simp
    qed (use "2.prems" in auto)
  qed simp
  then show "map base_day r = map base_day chosen @ take (nat k - length chosen) (map (base_day \<circ> fst) scored)"
    "list_all (\<lambda>d. pd_priority_score d \<noteq> PNan) r" by blast+
qed

interpretation bd: weak_order better_day "\<lambda>p. fst p \<noteq> PNan"
proof
  show "\<not> better_day x x" for x by (simp add: better_day_def)
  show "better_day x z" if "better_day x y" "better_day y z" for x y z
    using that by (auto simp: better_day_def intro: f_lt_trans)
  show "better_day x y \<or> better_day y z" if "fst x \<noteq> PNan" "fst y \<noteq> PNan" "fst z \<noteq> PNan" "better_day x z" for x y z
    using that f_lt_linear [of "fst x" "fst y"] f_lt_linear [of "fst y" "fst z"] f_lt_split [of "fst z" "fst y" "fst x"]
    by (auto simp: better_day_def) (metis f_lt_linear not_less_iff_gr_or_eq)
qed

context weak_order
begin

lemma keyed: "weak_order (\<lambda>a b. lt (f a) (f b)) (\<lambda>a. ok (f a))"
  by unfold_locales (use lt_irrefl lt_trans lt_split in blast)+

lemma sorted_sort_by_key:
  "\<forall>x \<in> set xs. ok (f x) \<Longrightarrow> sorted_wrt (\<lambda>a b. \<not> lt (f b) (f a)) (sort_by (\<lambda>a b. lt (f a) (f b)) xs)"
  by (rule weak_order.sorted_sort_by [OF keyed])

end

definition candidate_days :: "processable_day list \<Rightarrow> bool \<Rightarrow> processable_day list" where
  "candidate_days catalog require_network =
     filter (\<lambda>d. pd_single_base_possible d \<and> (require_network \<longrightarrow> pd_network_possible d)) catalog"

lemma priority_score_not_nan [simp]: "priority_score d \<noteq> PNan"
  by (simp add: priority_score_def Let_def)

lemma base_day_fields [simp]:
  "priority_score (base_day d) = priority_score d" "pd_doy (base_day d) = pd_doy d"
  by (simp_all add: base_day_def priority_score_def)

definition base_key :: "processable_day \<Rightarrow> pyfloat \<times> int" where
  "base_key d = (priority_score d, pd_doy d)"

lemma base_key_base [simp]: "base_key (base_day d) = base_key d"
  by (simp add: base_key_def)

text \<open>
  The choice of days is the best of the candidates by the number of stations (\<open>prioritize_days\<close>). When
  it returns, it has as many days as allowed and available; each is a candidate of the catalog, none of
  the days left out has a better score (more stations, or the same class of score and an earlier day),
  and the chosen ones are in the order of their final scores. The bonus for a new month enters those
  final scores only: it never decides which days are chosen.
\<close>

theorem choice_is_best:
  "case prioritize_days catalog max_days require_network of
     Inl e \<Rightarrow> True
   | Inr chosen \<Rightarrow>
       length chosen = min (nat max_days) (length (candidate_days catalog require_network)) \<and>
       (\<exists>left. mset (map base_day (candidate_days catalog require_network)) = mset (map base_day chosen @ left) \<and>
          list_all (\<lambda>d. list_all (\<lambda>c. better_day (base_key d) (base_key c) = False) chosen) left) \<and>
       sorted_wrt (\<lambda>a b. better_day (pd_priority_score b, pd_doy b) (pd_priority_score a, pd_doy a) = False) chosen"
proof (cases "prioritize_days catalog max_days require_network")
  case (Inr chosen)
  let ?pool = "candidate_days catalog require_network"
  let ?key = "\<lambda>p. (snd p, pd_doy (fst p)) :: pyfloat \<times> int"
  define scored where "scored = sort_by (\<lambda>a b. better_day (?key a) (?key b)) (map (\<lambda>d. (d, priority_score d)) ?pool)"
  have pool: "(if require_network then filter pd_network_possible (filter (\<lambda>d. pd_single_base_possible d \<and>
      (pd_network_possible d \<or> \<not> require_network)) catalog) else filter (\<lambda>d. pd_single_base_possible d \<and>
      (pd_network_possible d \<or> \<not> require_network)) catalog) = ?pool"
    by (auto simp: candidate_days_def conj_commute intro!: filter_cong)
  obtain r where r: "choose_days max_days scored [] [] = Inr r"
    and c: "chosen = sort_by (\<lambda>a b. better_day (pd_priority_score a, pd_doy a) (pd_priority_score b, pd_doy b)) r"
    using Inr unfolding prioritize_days_def Let_def pool scored_def [symmetric] by auto
  have ok: "list_all (\<lambda>p. snd p \<noteq> PNan) scored" by (auto simp: scored_def list_all_iff)
  note t = choose_days_takes [OF r ok, simplified]
  have elems: "snd p = priority_score (fst p)" if "p \<in> set scored" for p using that by (auto simp: scored_def)
  define left where "left = drop (nat max_days) (map (base_day \<circ> fst) scored)"
  have all: "mset (map base_day ?pool) = mset (map base_day r @ left)"
  proof -
    have "mset (map base_day ?pool) = image_mset (base_day \<circ> fst) (mset scored)"
      by (simp add: scored_def multiset.map_comp comp_def)
    also have "\<dots> = mset (map base_day r @ left)" unfolding t(1) left_def append_take_drop_id by simp
    finally show ?thesis .
  qed
  have "sorted_wrt (\<lambda>a b. \<not> better_day (?key b) (?key a)) scored"
    unfolding scored_def by (rule bd.sorted_sort_by_key) auto
  then have "sorted_wrt (\<lambda>a b. \<not> better_day (base_key b) (base_key a)) (map (base_day \<circ> fst) scored)"
    unfolding sorted_wrt_map by (rule sorted_wrt_mono_rel [rotated]) (simp add: base_key_def elems)
  then have "\<forall>b \<in> set (map base_day r). \<forall>d \<in> set left. \<not> better_day (base_key d) (base_key b)"
    unfolding t(1) left_def
    by (metis append_take_drop_id sorted_wrt_append)
  then have best: "list_all (\<lambda>d. list_all (\<lambda>c. better_day (base_key d) (base_key c) = False) chosen) left"
    by (auto simp: list_all_iff c)
  have len: "length chosen = min (nat max_days) (length ?pool)"
    using arg_cong [OF t(1), of length] by (simp add: c scored_def)
  have "sorted_wrt (\<lambda>a b. \<not> better_day (pd_priority_score b, pd_doy b) (pd_priority_score a, pd_doy a)) chosen"
    unfolding c by (rule bd.sorted_sort_by_key) (use t(2) in \<open>auto simp: list_all_iff\<close>)
  moreover have "mset (map base_day ?pool) = mset (map base_day chosen @ left)" using all by (simp add: c)
  ultimately show ?thesis using len best by (auto simp: Inr)
qed simp

end
