(* ===== verification/Api_Archive.thy ===== *)
theory Api_Archive
  imports Qc_Classify "HOL-Library.Multiset"
begin

text \<open>
  The canonical archive of a provider delivery (\<open>apps/api/src/nlgcp_api/phase2_dataset.py\<close>): the inventory
  of the delivered files by their names, and the copy of each distinct one to its canonical path. The
  file system is a map from paths to what is there; \<open>sha\<close> is SHA-256.
\<close>

section \<open>Names\<close>

text \<open>The mark \<open>" (n)"\<close> of a copy in front of a dot: what follows it, and the text without such marks.\<close>

definition copy_mark :: "string \<Rightarrow> string option" where
  "copy_mark s =
     (if starts_with '' ('' s then
        (let r = dropWhile is_digit (drop 2 s)
         in if r \<noteq> drop 2 s \<and> starts_with '').'' r then Some (drop 1 r) else None)
      else None)"

fun has_copy_mark :: "string \<Rightarrow> bool" where
  "has_copy_mark [] = False"
| "has_copy_mark (c # cs) = (copy_mark (c # cs) \<noteq> None \<or> has_copy_mark cs)"

lemma copy_mark_shorter: "copy_mark s = Some r \<Longrightarrow> length r < length s"
  using length_dropWhile_le [of is_digit "drop 2 s"]
  by (cases s) (auto simp: copy_mark_def Let_def split: if_splits)

function strip_copy_marks :: "string \<Rightarrow> string" where
  "strip_copy_marks [] = []"
| "strip_copy_marks (c # cs) =
     (case copy_mark (c # cs) of Some r \<Rightarrow> strip_copy_marks r | None \<Rightarrow> c # strip_copy_marks cs)"
  by pat_completeness auto

termination by (relation "measure length") (auto dest: copy_mark_shorter)

record rinex2_parts =
  r2_marker :: string
  r2_doy :: string
  r2_session :: char
  r2_year :: string
  r2_kind :: char

text \<open>\<open>RINEX2_NAME\<close>, with the end of a text before a final line feed as the pattern has it.\<close>

definition delivery_name :: "string \<Rightarrow> rinex2_parts option" where
  "delivery_name s =
     (let rest = drop 8 s;
          rest = (case copy_mark rest of Some r \<Rightarrow> r | None \<Rightarrow> rest);
          tail = drop 4 rest in
      if 8 \<le> length s \<and> list_all is_alnum (take 4 s) \<and> list_all is_digit (take 3 (drop 4 s)) \<and> is_alnum (s ! 7) \<and>
         4 \<le> length rest \<and> rest ! 0 = CHR ''.'' \<and> list_all is_digit (take 2 (drop 1 rest)) \<and>
         is_ascii_alpha (rest ! 3) \<and>
         tail \<in> set [[], ''.Z'', ''.gz'', [CHR 0x0A], ''.Z'' @ [CHR 0x0A], ''.gz'' @ [CHR 0x0A]]
      then Some \<lparr>r2_marker = take 4 s, r2_doy = take 3 (drop 4 s), r2_session = s ! 7,
                 r2_year = take 2 (drop 1 rest), r2_kind = rest ! 3\<rparr>
      else None)"

text \<open>\<open>STATION_FOLDER\<close>: the station, then the shortest place in front of \<open>" - Nigeria"\<close>.\<close>

definition is_upper_alnum :: "char \<Rightarrow> bool" where
  "is_upper_alnum c = (is_digit c \<or> (let n = of_char c :: nat in 65 \<le> n \<and> n \<le> 90))"

definition folder_end :: "string \<Rightarrow> bool" where
  "folder_end s =
     (let r = dropWhile is_space s in
      r \<noteq> s \<and> r \<noteq> [] \<and> hd r = CHR ''-'' \<and>
      (let t = drop 1 r; u = dropWhile is_space t
       in t \<noteq> u \<and> u \<in> set [''Nigeria'', ''Nigeria'' @ [CHR 0x0A]]))"

definition place_from :: "string \<Rightarrow> string option" where
  "place_from s =
     map_option (\<lambda>n. take n s)
       (find (\<lambda>n. CHR 0x0A \<notin> set (take n s) \<and> folder_end (drop n s)) [1..<length s])"

definition station_folder :: "string \<Rightarrow> (string \<times> string) option" where
  "station_folder s =
     (let rest = drop 9 s; spaces = length (takeWhile is_space rest) in
      if 9 \<le> length s \<and> list_all is_upper_alnum (take 9 s) then
        (case List.map_filter (\<lambda>n. place_from (drop n rest)) (rev [1..<Suc spaces]) of
           [] \<Rightarrow> None
         | p # _ \<Rightarrow> Some (take 9 s, p))
      else None)"

section \<open>The delivery\<close>

record delivery_file =
  df_source_path :: string
  df_source_relative_path :: string
  df_station_id :: string
  df_place_name :: string
  df_year :: int
  df_day_of_year :: int
  df_session :: string
  df_artifact_type :: string
  df_filename :: string
  df_size_bytes :: int
  df_sha256 :: string

definition canonical_relative_path :: "delivery_file \<Rightarrow> string" where
  "canonical_relative_path f =
     str_join ''/''
       [''raw'', ''nignet'', str_int (df_year f), df_station_id f, zero_pad 3 (df_day_of_year f),
        df_artifact_type f, strip_copy_marks (df_filename f)]"

definition artifact_type :: "char \<Rightarrow> string option" where
  "artifact_type kind =
     (let k = ascii_lower kind in
      if k \<in> set ''do'' then Some ''observation''
      else if k \<in> set ''nghlpq'' then Some ''navigation''
      else None)"

text \<open>One regular file of the delivery: the parts of its path below the base, and its bytes.\<close>

definition delivery_entry ::
  "(bytes \<Rightarrow> string) \<Rightarrow> string \<Rightarrow> string list \<times> bytes \<Rightarrow> delivery_file option"
where
  "delivery_entry sha base entry =
     (case entry of (parts, data) \<Rightarrow>
        if length parts < 3 then None
        else
          (case (station_folder (hd parts), delivery_name (last parts)) of
             (Some (station, place), Some name) \<Rightarrow>
               (case artifact_type (r2_kind name) of
                  None \<Rightarrow> None
                | Some artifact \<Rightarrow>
                    Some \<lparr>df_source_path = base @ ''/'' @ str_join ''/'' parts,
                          df_source_relative_path = str_join ''/'' parts, df_station_id = station,
                          df_place_name = place, df_year = 2000 + int (digits_value (r2_year name)),
                          df_day_of_year = int (digits_value (r2_doy name)), df_session = [r2_session name],
                          df_artifact_type = artifact, df_filename = last parts,
                          df_size_bytes = int (length data), df_sha256 = sha data\<rparr>)
           | _ \<Rightarrow> None))"

definition discover_delivery ::
  "(bytes \<Rightarrow> string) \<Rightarrow> string \<Rightarrow> (string list \<times> bytes) list \<Rightarrow> delivery_file list result"
where
  "discover_delivery sha base entries =
     (let unknown = map (\<lambda>e. str_join ''/'' (fst e)) (filter (\<lambda>e. delivery_entry sha base e = None) entries) in
      if unknown \<noteq> [] then
        Inl (Phase2DatasetError (''delivery contains '' @ str_nat (length unknown) @
          '' unclassified files; first: '' @ str_join '', '' (take 5 unknown)))
      else Inr (List.map_filter (delivery_entry sha base) entries))"

section \<open>The archive\<close>

datatype fs_entry = Missing | Directory | Regular bytes bool

text \<open>A regular file with its bytes and whether it is read-only.\<close>

type_synonym file_system = "string \<Rightarrow> fs_entry"

record archive_record =
  ar_source_relative_path :: string
  ar_canonical_relative_path :: string
  ar_station_id :: string
  ar_year :: int
  ar_day_of_year :: int
  ar_artifact_type :: string
  ar_size_bytes :: int
  ar_sha256 :: string

record duplicate_record =
  du_excluded_source_relative_path :: string
  du_retained_source_relative_path :: string
  du_canonical_relative_path :: string
  du_sha256 :: string

record archive_result =
  ax_records :: "archive_record list"
  ax_exact_duplicates :: "duplicate_record list"

text \<open>\<open>_copy_verified_immutable\<close>: the temporary file is gone on every path and replaces the target last.\<close>

definition copy_verified ::
  "(bytes \<Rightarrow> string) \<Rightarrow> delivery_file \<Rightarrow> string \<Rightarrow> file_system \<Rightarrow> file_system \<times> unit result"
where
  "copy_verified sha source target fs =
     (case fs target of
        Regular data ro \<Rightarrow>
          if sha data \<noteq> df_sha256 source then
            (fs, Inl (Phase2DatasetError (''canonical target conflicts with source: '' @ target)))
          else (fs(target := Regular data True), Inr ())
      | Directory \<Rightarrow> (fs, Inl (Phase2DatasetError (''canonical target conflicts with source: '' @ target)))
      | Missing \<Rightarrow>
          (case fs (df_source_path source) of
             Regular data ro \<Rightarrow>
               if sha data \<noteq> df_sha256 source then
                 (fs, Inl (Phase2DatasetError (''copy verification failed for '' @ df_source_path source)))
               else (fs(target := Regular data True), Inr ())
           | Directory \<Rightarrow> (fs, Inl (IsADirectoryError (''Is a directory: '' @ df_source_path source)))
           | Missing \<Rightarrow> (fs, Inl (FileNotFoundError (''No such file or directory: '' @ df_source_path source)))))"

definition candidate_less :: "delivery_file \<Rightarrow> delivery_file \<Rightarrow> bool" where
  "candidate_less a b =
     (let x = has_copy_mark (df_filename a); y = has_copy_mark (df_filename b) in
      \<not> x \<and> y \<or> x = y \<and> df_source_relative_path a < df_source_relative_path b)"

definition record_of :: "string \<Rightarrow> delivery_file \<Rightarrow> archive_record" where
  "record_of target f =
     \<lparr>ar_source_relative_path = df_source_relative_path f, ar_canonical_relative_path = target,
      ar_station_id = df_station_id f, ar_year = df_year f, ar_day_of_year = df_day_of_year f,
      ar_artifact_type = df_artifact_type f, ar_size_bytes = df_size_bytes f, ar_sha256 = df_sha256 f\<rparr>"

definition duplicate_of :: "string \<Rightarrow> delivery_file \<Rightarrow> delivery_file \<Rightarrow> duplicate_record" where
  "duplicate_of target retained excluded =
     \<lparr>du_excluded_source_relative_path = df_source_relative_path excluded,
      du_retained_source_relative_path = df_source_relative_path retained,
      du_canonical_relative_path = target, du_sha256 = df_sha256 retained\<rparr>"

text \<open>With \<open>copy_files\<close> the retained file is copied, otherwise only an existing target is compared.\<close>

definition place_file ::
  "(bytes \<Rightarrow> string) \<Rightarrow> bool \<Rightarrow> delivery_file \<Rightarrow> string \<Rightarrow> string \<Rightarrow> file_system \<Rightarrow> file_system \<times> unit result"
where
  "place_file sha copy_files retained target path fs =
     (if copy_files then copy_verified sha retained path fs
      else
        (fs, case fs path of
               Missing \<Rightarrow> Inr ()
             | Directory \<Rightarrow> Inl (IsADirectoryError (''Is a directory: '' @ path))
             | Regular data ro \<Rightarrow>
                 if sha data \<noteq> df_sha256 retained then
                   Inl (Phase2DatasetError (''canonical checksum mismatch: '' @ target))
                 else Inr ()))"

definition candidates_of :: "delivery_file list \<Rightarrow> string \<Rightarrow> delivery_file list" where
  "candidates_of delivery target = filter (\<lambda>f. canonical_relative_path f = target) delivery"

definition retained_of :: "delivery_file list \<Rightarrow> delivery_file" where
  "retained_of candidates = hd (sort_by candidate_less candidates)"

fun archive_targets ::
  "(bytes \<Rightarrow> string) \<Rightarrow> string \<Rightarrow> bool \<Rightarrow> delivery_file list \<Rightarrow> string list \<Rightarrow> file_system \<Rightarrow>
   file_system \<times> archive_result result"
where
  "archive_targets sha base copy_files delivery [] fs =
     (fs, Inr \<lparr>ax_records = [], ax_exact_duplicates = []\<rparr>)"
| "archive_targets sha base copy_files delivery (t # ts) fs =
     (let candidates = candidates_of delivery t in
      if card (df_sha256 ` set candidates) \<noteq> 1 then
        (fs, Inl (Phase2DatasetError (''canonical path collision with different content at '' @ t @ '': '' @
          str_join '', '' (map df_source_relative_path candidates))))
      else
        (let retained = retained_of candidates in
         case place_file sha copy_files retained t (base @ ''/'' @ t) fs of
           (fs1, Inl e) \<Rightarrow> (fs1, Inl e)
         | (fs1, Inr _) \<Rightarrow>
             (case archive_targets sha base copy_files delivery ts fs1 of
                (fs2, Inl e) \<Rightarrow> (fs2, Inl e)
              | (fs2, Inr r) \<Rightarrow>
                  (fs2, Inr \<lparr>ax_records = record_of t retained # ax_records r,
                            ax_exact_duplicates =
                              map (duplicate_of t retained) (remove1 retained candidates) @
                              ax_exact_duplicates r\<rparr>))))"

definition build_canonical_archive ::
  "(bytes \<Rightarrow> string) \<Rightarrow> string \<Rightarrow> bool \<Rightarrow> delivery_file list \<Rightarrow> file_system \<Rightarrow>
   file_system \<times> archive_result result"
where
  "build_canonical_archive sha base copy_files delivery fs =
     archive_targets sha base copy_files delivery (sort (remdups (map canonical_relative_path delivery))) fs"

section \<open>What a build keeps\<close>

text \<open>An entry after a build: a file keeps its bytes and stays read-only, and a new entry is a file.\<close>

fun entry_kept :: "fs_entry \<Rightarrow> fs_entry \<Rightarrow> bool" where
  "entry_kept Missing e \<longleftrightarrow> e \<noteq> Directory"
| "entry_kept Directory e \<longleftrightarrow> e = Directory"
| "entry_kept (Regular data ro) e \<longleftrightarrow>
     (case e of Regular data' ro' \<Rightarrow> data' = data \<and> ro' \<ge> ro | _ \<Rightarrow> False)"

lemma entry_kept_refl [simp]: "entry_kept e e"
  by (cases e) auto

lemma entry_kept_trans: "entry_kept a b \<Longrightarrow> entry_kept b c \<Longrightarrow> entry_kept a c"
  by (cases a; cases b; cases c) auto

lemma entry_kept_read_only [simp]: "entry_kept (Regular data True) e \<longleftrightarrow> e = Regular data True"
  by (cases e) auto

text \<open>The bytes of a read-only file with a digest, and the bytes at a path.\<close>

definition holds_digest :: "(bytes \<Rightarrow> string) \<Rightarrow> string \<Rightarrow> fs_entry \<Rightarrow> bool" where
  "holds_digest sha digest e = (case e of Regular data ro \<Rightarrow> ro \<and> sha data = digest | _ \<Rightarrow> False)"

fun bytes_at :: "fs_entry \<Rightarrow> bytes option" where
  "bytes_at (Regular data ro) = Some data"
| "bytes_at _ = None"

lemma holds_digest_iff: "holds_digest sha d e \<longleftrightarrow> (\<exists>data. e = Regular data True \<and> sha data = d)"
  by (cases e) (auto simp: holds_digest_def)

lemma copy_verified_keeps:
  "copy_verified sha f path fs = (fs', r) \<Longrightarrow> entry_kept (fs p) (fs' p)"
  by (auto simp: copy_verified_def split: fs_entry.splits if_splits)

lemma place_file_keeps:
  "place_file sha c f t path fs = (fs', r) \<Longrightarrow> entry_kept (fs p) (fs' p)"
  by (auto simp: place_file_def copy_verified_keeps split: if_splits)

text \<open>A copy that returns: the target holds the digest, and a new one holds the bytes of the source.\<close>

lemma copy_verified_places:
  assumes "copy_verified sha f path fs = (fs', Inr u)"
  shows "holds_digest sha (df_sha256 f) (fs' path)"
    and "fs path = Missing \<Longrightarrow> bytes_at (fs' path) = bytes_at (fs (df_source_path f))"
  using assms by (auto simp: copy_verified_def holds_digest_iff split: fs_entry.splits if_splits)

text \<open>Where the target holds the digest already, both passes leave the file system alone.\<close>

lemma place_file_settled:
  "holds_digest sha (df_sha256 f) (fs path) \<Longrightarrow> place_file sha c f t path fs = (fs, Inr ())"
  by (auto simp: place_file_def copy_verified_def holds_digest_iff fun_upd_idem)

section \<open>The manifest\<close>

definition record_as_dict :: "archive_record \<Rightarrow> (string \<times> json) list" where
  "record_as_dict r =
     [(''source_relative_path'', JStr (ar_source_relative_path r)),
      (''canonical_relative_path'', JStr (ar_canonical_relative_path r)),
      (''station_id'', JStr (ar_station_id r)), (''year'', JInt (ar_year r)),
      (''day_of_year'', JInt (ar_day_of_year r)), (''artifact_type'', JStr (ar_artifact_type r)),
      (''size_bytes'', JInt (ar_size_bytes r)), (''sha256'', JStr (ar_sha256 r))]"

definition duplicate_as_dict :: "duplicate_record \<Rightarrow> (string \<times> json) list" where
  "duplicate_as_dict r =
     [(''excluded_source_relative_path'', JStr (du_excluded_source_relative_path r)),
      (''retained_source_relative_path'', JStr (du_retained_source_relative_path r)),
      (''canonical_relative_path'', JStr (du_canonical_relative_path r)), (''sha256'', JStr (du_sha256 r))]"

definition archive_manifest :: "archive_result \<Rightarrow> json" where
  "archive_manifest r =
     JObj [(''schema_version'', JStr ''1.0''),
      (''source_collection'', JStr ''00-deliveries/osgof-2024/batch-001''),
      (''canonical_collection'', JStr ''raw/nignet/2024''),
      (''policy'', JStr ''byte-preserving verified copies; exact duplicates excluded''),
      (''records'', JArr (map (\<lambda>x. JObj (record_as_dict x)) (ax_records r))),
      (''exact_duplicates'', JArr (map (\<lambda>x. JObj (duplicate_as_dict x)) (ax_exact_duplicates r)))]"

section \<open>Lemmas of a build\<close>

lemma archive_targets_cons_Inr:
  assumes "archive_targets sha base c delivery (t # ts) fs = (fs2, Inr r)"
  obtains fs1 q where
    "card (df_sha256 ` set (candidates_of delivery t)) = 1"
    "place_file sha c (retained_of (candidates_of delivery t)) t (base @ ''/'' @ t) fs = (fs1, Inr ())"
    "archive_targets sha base c delivery ts fs1 = (fs2, Inr q)"
    "r = \<lparr>ax_records = record_of t (retained_of (candidates_of delivery t)) # ax_records q,
          ax_exact_duplicates =
            map (duplicate_of t (retained_of (candidates_of delivery t)))
              (remove1 (retained_of (candidates_of delivery t)) (candidates_of delivery t)) @
            ax_exact_duplicates q\<rparr>"
  using assms by (auto simp: Let_def split: if_splits prod.splits sum.splits)

lemma archive_targets_keeps:
  "archive_targets sha base c delivery ts fs = (fs', r) \<Longrightarrow> entry_kept (fs p) (fs' p)"
proof (induction ts arbitrary: fs fs' r)
  case (Cons t ts)
  obtain fs1 q where p: "place_file sha c (retained_of (candidates_of delivery t)) t (base @ ''/'' @ t) fs = (fs1, q)"
    by fastforce
  obtain fs2 q2 where a: "archive_targets sha base c delivery ts fs1 = (fs2, q2)" by fastforce
  have "fs' = fs \<or> fs' = fs1 \<or> fs' = fs2"
    using Cons.prems p a by (auto simp: Let_def split: if_splits sum.splits)
  then show ?case using place_file_keeps [OF p] Cons.IH [OF a] entry_kept_trans by (metis entry_kept_refl)
qed auto

lemma retained_in: "t \<in> canonical_relative_path ` set delivery \<Longrightarrow> retained_of (candidates_of delivery t) \<in> set (candidates_of delivery t)"
proof -
  assume "t \<in> canonical_relative_path ` set delivery"
  then have "candidates_of delivery t \<noteq> []" by (auto simp: candidates_of_def filter_empty_conv)
  then have "retained_of (candidates_of delivery t) \<in> set (sort_by candidate_less (candidates_of delivery t))"
    unfolding retained_of_def by (intro hd_in_set) simp
  then show ?thesis by simp
qed

lemma one_digest:
  "card (df_sha256 ` set fs) = 1 \<Longrightarrow> f \<in> set fs \<Longrightarrow> g \<in> set fs \<Longrightarrow> df_sha256 f = df_sha256 g"
  by (metis card_1_singletonE image_eqI singletonD)



lemma holds_digest_kept: "entry_kept a b \<Longrightarrow> holds_digest sha d a \<Longrightarrow> b = a"
  by (metis entry_kept_read_only holds_digest_iff)




text \<open>A file system that kept every file of a finished build is left alone by the next one.\<close>

lemma archive_targets_settled:
  "archive_targets sha base True delivery ts fs = (fs', Inr r) \<Longrightarrow> (\<And>p. entry_kept (fs' p) (gs p)) \<Longrightarrow>
   archive_targets sha base c delivery ts gs = (gs, Inr r)"
proof (induction ts arbitrary: fs r)
  case (Cons t ts)
  let ?cs = "candidates_of delivery t" let ?g = "retained_of ?cs" let ?path = "base @ ''/'' @ t"
  obtain fs1 q where 1: "card (df_sha256 ` set ?cs) = 1"
    and p: "place_file sha True ?g t ?path fs = (fs1, Inr ())"
    and a: "archive_targets sha base True delivery ts fs1 = (fs', Inr q)"
    and r: "r = \<lparr>ax_records = record_of t ?g # ax_records q,
          ax_exact_duplicates = map (duplicate_of t ?g) (remove1 ?g ?cs) @ ax_exact_duplicates q\<rparr>"
    using Cons.prems(1) by (rule archive_targets_cons_Inr)
  have h: "holds_digest sha (df_sha256 ?g) (fs1 ?path)"
    using p copy_verified_places(1) by (simp add: place_file_def)
  have "gs ?path = fs1 ?path"
    using h holds_digest_kept [OF entry_kept_trans [OF archive_targets_keeps [OF a] Cons.prems(2)]] by metis
  then have "place_file sha c ?g t ?path gs = (gs, Inr ())" using h place_file_settled by metis
  then show ?case using 1 r Cons.IH [OF a Cons.prems(2)] by (simp add: Let_def)
qed simp



text \<open>A file of the delivery whose source still has the bytes that were inventoried.\<close>

definition source_intact :: "(bytes \<Rightarrow> string) \<Rightarrow> file_system \<Rightarrow> delivery_file \<Rightarrow> bool" where
  "source_intact sha fs f = (case fs (df_source_path f) of Regular data ro \<Rightarrow> sha data = df_sha256 f | _ \<Rightarrow> False)"

definition target_free :: "string \<Rightarrow> file_system \<Rightarrow> string \<Rightarrow> bool" where
  "target_free base fs t \<longleftrightarrow> fs (base @ ''/'' @ t) = Missing"

lemma source_intact_kept: "entry_kept (fs (df_source_path f)) (fs' (df_source_path f)) \<Longrightarrow> source_intact sha fs f \<Longrightarrow> source_intact sha fs' f"
  by (auto simp: source_intact_def split: fs_entry.splits)

lemma copy_to_free:
  assumes "source_intact sha fs f" "fs path = Missing"
  obtains data where "copy_verified sha f path fs = (fs(path := Regular data True), Inr ())"
  using assms by (auto simp: copy_verified_def source_intact_def split: fs_entry.splits)

lemma archive_targets_collide:
  "(\<And>f. f \<in> set delivery \<Longrightarrow> source_intact sha fs f) \<Longrightarrow> (\<And>t. t \<in> set ts \<Longrightarrow> target_free base fs t) \<Longrightarrow>
   distinct ts \<Longrightarrow> set ts \<subseteq> canonical_relative_path ` set delivery \<Longrightarrow>
   isl (snd (archive_targets sha base True delivery ts fs)) \<longleftrightarrow>
     (\<exists>t \<in> set ts. card (df_sha256 ` set (candidates_of delivery t)) \<noteq> 1)"
proof (induction ts arbitrary: fs)
  case (Cons t ts)
  let ?cs = "candidates_of delivery t" let ?g = "retained_of ?cs" let ?path = "base @ ''/'' @ t"
  show ?case
  proof (cases "card (df_sha256 ` set ?cs) = 1")
    case True
    have "?g \<in> set delivery" using retained_in [of t delivery] Cons.prems(4) by (simp add: candidates_of_def)
    then obtain data where c: "copy_verified sha ?g ?path fs = (fs(?path := Regular data True), Inr ())"
      using copy_to_free Cons.prems(1,2) by (metis target_free_def list.set_intros(1))
    let ?fs1 = "fs(?path := Regular data True)"
    have i1: "source_intact sha ?fs1 f" if "f \<in> set delivery" for f
      by (rule source_intact_kept [of fs f ?fs1 sha]) (rule copy_verified_keeps [OF c], rule Cons.prems(1) [OF that])
    have i2: "target_free base ?fs1 s" if "s \<in> set ts" for s
      using that Cons.prems(2) [of s] Cons.prems(3) by (auto simp: target_free_def)
    have "isl (snd (archive_targets sha base True delivery ts ?fs1)) \<longleftrightarrow>
      (\<exists>t \<in> set ts. card (df_sha256 ` set (candidates_of delivery t)) \<noteq> 1)"
      by (rule Cons.IH [OF i1 i2]) (use Cons.prems(3,4) in simp_all)
    moreover have "isl (snd (archive_targets sha base True delivery (t # ts) fs)) =
      isl (snd (archive_targets sha base True delivery ts ?fs1))"
      using True c by (auto simp: Let_def place_file_def split: prod.splits sum.splits)
    ultimately show ?thesis using True by simp
  qed (simp add: Let_def)
qed simp

lemma one_digest_iff:
  "fs \<noteq> [] \<Longrightarrow> card (df_sha256 ` set fs) = 1 \<longleftrightarrow> (\<forall>f \<in> set fs. \<forall>g \<in> set fs. df_sha256 f = df_sha256 g)"
proof
  assume n: "fs \<noteq> []" and e: "\<forall>f \<in> set fs. \<forall>g \<in> set fs. df_sha256 f = df_sha256 g"
  have "df_sha256 (hd fs) \<in> df_sha256 ` set fs" using n by simp
  moreover have "df_sha256 f = df_sha256 (hd fs)" if "f \<in> set fs" for f using e that n hd_in_set by blast
  ultimately have "df_sha256 ` set fs = {df_sha256 (hd fs)}" by auto
  then show "card (df_sha256 ` set fs) = 1" by simp
qed (use one_digest in blast)

text \<open>Two files for one canonical path, with a digest that is the length.\<close>

definition two_deliveries :: "delivery_file list" where
  "two_deliveries =
     List.map_filter (delivery_entry (\<lambda>b. str_nat (length b)) ''/in'')
       [([''ABUZ00NGA Zaria - Nigeria'', ''2024'', ''abuz0010.24d.Z''], [1, 2]),
        ([''ABUZ00NGA Zaria - Nigeria'', ''2024'', ''abuz0010 (1).24d.Z''], [1, 2, 3])]"

section \<open>Properties\<close>


text \<open>
  C32. The build is idempotent: on the archive it made, and on every later file system that kept its files,
  the same delivery gives the same records and duplicates, in the copying pass and in the pass that only
  verifies, and neither changes the file system.
\<close>

theorem archive_build_settles:
  "case build_canonical_archive sha base True delivery fs of
     (fs', Inl e) \<Rightarrow> True
   | (fs', Inr a) \<Rightarrow>
       (\<forall>copy gs. if \<forall>p. entry_kept (fs' p) (gs p)
          then build_canonical_archive sha base copy delivery gs = (gs, Inr a) else True)"
  using archive_targets_settled unfolding build_canonical_archive_def
  by (fastforce split: prod.splits sum.splits)

text \<open>
  An intact delivery into an empty place is refused exactly when it is ambiguous: when every source
  still has the inventoried bytes and no canonical path is taken, the build raises if and only if two
  delivered files share a canonical path and differ in digest.
\<close>

theorem archive_refuses_exactly_collisions:
  assumes "list_all (source_intact sha fs) delivery"
    and "list_all (\<lambda>f. target_free base fs (canonical_relative_path f)) delivery"
  shows "isl (snd (build_canonical_archive sha base True delivery fs)) \<longleftrightarrow>
    (\<exists>f \<in> set delivery. \<exists>g \<in> set delivery.
       canonical_relative_path f = canonical_relative_path g \<and> df_sha256 f \<noteq> df_sha256 g)"
proof -
  have "candidates_of delivery t \<noteq> []" if "t \<in> canonical_relative_path ` set delivery" for t
    using that by (auto simp: candidates_of_def filter_empty_conv)
  then have "card (df_sha256 ` set (candidates_of delivery t)) \<noteq> 1 \<longleftrightarrow>
      (\<exists>f \<in> set (candidates_of delivery t). \<exists>g \<in> set (candidates_of delivery t). df_sha256 f \<noteq> df_sha256 g)"
    if "t \<in> canonical_relative_path ` set delivery" for t
    using one_digest_iff that by blast
  then have "(\<exists>t \<in> canonical_relative_path ` set delivery. card (df_sha256 ` set (candidates_of delivery t)) \<noteq> 1) \<longleftrightarrow>
    (\<exists>t \<in> canonical_relative_path ` set delivery.
       \<exists>f \<in> set (candidates_of delivery t). \<exists>g \<in> set (candidates_of delivery t). df_sha256 f \<noteq> df_sha256 g)"
    by simp
  also have "\<dots> \<longleftrightarrow> (\<exists>f \<in> set delivery. \<exists>g \<in> set delivery.
       canonical_relative_path f = canonical_relative_path g \<and> df_sha256 f \<noteq> df_sha256 g)"
    by (auto simp: candidates_of_def) metis
  finally show ?thesis
    using archive_targets_collide [of delivery sha fs "sort (remdups (map canonical_relative_path delivery))" base] assms
    by (auto simp: build_canonical_archive_def list_all_iff)
qed

theorem archive_refuses_exactly_collisions_witness:
  "isl (snd (build_canonical_archive (\<lambda>b. str_nat (length b)) ''/data'' True two_deliveries
     (\<lambda>p. if p = ''/in/ABUZ00NGA Zaria - Nigeria/2024/abuz0010.24d.Z'' then Regular [1, 2] True
          else if p = ''/in/ABUZ00NGA Zaria - Nigeria/2024/abuz0010 (1).24d.Z'' then Regular [1, 2, 3] True
          else Missing)))"
  by (subst archive_refuses_exactly_collisions) code_simp+

end
