(* ===== verification/Qc_Epoch.thy ===== *)
theory Qc_Epoch
  imports Qc_Rinex
begin

text \<open>
  The epoch line of a RINEX 2 file as the format lays it out, and its reading by \<open>parse_rinex2_epoch\<close>:
  every date, every time of day to a tenth of a microsecond and every flag come back, and where they do
  not is said exactly.
\<close>

section \<open>Rendering\<close>

text \<open>A number in \<open>n\<close> columns with leading zeros, and in two columns with a blank for the leading zero.\<close>

fun fixed :: "nat \<Rightarrow> nat \<Rightarrow> string" where
  "fixed 0 k = []"
| "fixed (Suc n) k = fixed n (k div 10) @ [digit_char (k mod 10)]"

definition two_columns :: "bool \<Rightarrow> nat \<Rightarrow> string" where
  "two_columns blank k = (if blank \<and> k < 10 then [CHR '' '', digit_char k] else fixed 2 k)"

text \<open>
  \<open>1X,I2.2,4(1X,I2),F11.7,2X,I1,I3\<close> and the satellite list: \<open>ticks\<close> are the tenths of microseconds
  after the whole second, \<open>n\<close> the number of satellites.
\<close>

definition epoch_line :: "bool \<Rightarrow> py_datetime \<Rightarrow> nat \<Rightarrow> nat \<Rightarrow> nat \<Rightarrow> string \<Rightarrow> string" where
  "epoch_line blank t ticks flag n satellites =
     CHR '' '' # fixed 2 (nat (dt_year t mod 100)) @
     CHR '' '' # two_columns blank (nat (dt_month t)) @
     CHR '' '' # two_columns blank (nat (dt_day t)) @
     CHR '' '' # two_columns blank (nat (dt_hour t)) @
     CHR '' '' # two_columns blank (nat (dt_minute t)) @
     CHR '' '' # two_columns blank (nat (dt_second t)) @ CHR ''.'' # fixed 7 ticks @
     '' '' @ '' '' @ digit_char flag # CHR '' '' # two_columns blank n @ satellites"

section \<open>Digits\<close>

lemma digit_char_facts [simp]:
  assumes "k < 10"
  shows "is_digit (digit_char k)" "digit_value (digit_char k) = k" "\<not> is_space (digit_char k)"
proof -
  have "of_char (digit_char k) = (48 + k :: nat)" using assms by (simp add: digit_char_def)
  then show "is_digit (digit_char k)" "digit_value (digit_char k) = k" "\<not> is_space (digit_char k)"
    using assms by (simp_all add: is_digit_def digit_value_def is_space_def Let_def)
qed

lemma digit_not:
  assumes "is_digit c"
  shows "c \<noteq> CHR ''_''" "c \<noteq> CHR ''-''" "c \<noteq> CHR ''+''" "c \<noteq> CHR ''.''" "\<not> is_space c"
    "ascii_upper c = c" "c \<noteq> CHR ''I''" "c \<noteq> CHR ''N''"
  using assms by (auto simp: is_digit_def is_space_def ascii_upper_def Let_def)

lemma length_fixed [simp]: "length (fixed n k) = n"
  by (induction n arbitrary: k) simp_all

lemma fixed_digits: "list_all is_digit (fixed n k)"
  by (induction n arbitrary: k) simp_all

lemma digits_value_snoc: "digits_value (ds @ [d]) = 10 * digits_value ds + digit_value d"
  by (simp add: digits_value_def)

lemma digits_value_fixed: "digits_value (ds @ fixed n k) = digits_value ds * 10 ^ n + k mod 10 ^ n"
proof (induction n arbitrary: k)
  case (Suc n)
  have "k mod 10 ^ Suc n = 10 * (k div 10 mod 10 ^ n) + k mod 10"
    by (simp add: mod_mult2_eq)
  then show ?case
    using Suc [of "k div 10"]
    by (simp add: digits_value_snoc algebra_simps flip: append_assoc)
qed simp

lemma take_digits_append:
  assumes "list_all is_digit ds" and "r = [] \<or> hd r \<noteq> CHR ''_'' \<and> \<not> is_digit (hd r)"
  shows "take_digits (ds @ r) = (ds, r)"
  using assms
proof (induction ds)
  case Nil
  then show ?case by (cases r) auto
next
  case (Cons c ds)
  have IH: "take_digits (ds @ r) = (ds, r)" using Cons by simp
  show ?case
  proof (cases "ds @ r")
    case Nil
    then show ?thesis using Cons.prems by simp
  next
    case (Cons d es)
    have "d \<noteq> CHR ''_''"
      using Cons Cons.prems digit_not(1) by (cases ds) auto
    then show ?thesis using Cons IH Cons.prems by simp
  qed
qed

lemma strip_digits:
  assumes "list_all is_digit ds"
  shows "str_strip ds = ds" "ds \<noteq> [] \<Longrightarrow> str_strip (CHR '' '' # ds) = ds"
proof -
  have no: "list_all (\<lambda>c. \<not> is_space c) ds" using assms digit_not(5) by (auto simp: list_all_iff)
  have drop: "dropWhile is_space xs = xs" if "list_all (\<lambda>c. \<not> is_space c) xs" for xs
    using that by (cases xs) auto
  have space: "is_space (CHR '' '')" by (simp add: is_space_def)
  show "str_strip ds = ds" using no drop by (simp add: str_strip_def list_all_rev)
  show "str_strip (CHR '' '' # ds) = ds" using no drop space by (simp add: str_strip_def list_all_rev)
qed

lemma int_of_digits:
  assumes "list_all is_digit ds" "ds \<noteq> []" "length ds \<le> 4300" "str_strip s = ds"
  shows "int_of_text s = Inr (int (digits_value ds))"
proof -
  have "split_sign ds = (False, ds)" using assms(1,2) digit_not(2,3) by (cases ds) auto
  then show ?thesis
    using assms take_digits_append [OF assms(1), of "[]"] by (simp add: int_of_text_def)
qed

lemma strip_blanks:
  assumes "list_all is_space bs" "body \<noteq> []" "\<not> is_space (hd body)" "\<not> is_space (last body)"
  shows "str_strip (bs @ body) = body"
proof -
  have "dropWhile is_space (bs @ body) = body"
    using assms by (cases body) (auto simp: list_all_iff dropWhile_append2)
  moreover have "dropWhile is_space (rev body) = rev body"
    using assms by (cases "rev body") (auto simp: hd_rev [symmetric])
  ultimately show ?thesis by (simp add: str_strip_def)
qed

lemma two_columns_split:
  assumes "k < 100"
  obtains bs ds where "two_columns blank k = bs @ ds" "list_all is_space bs" "list_all is_digit ds" "ds \<noteq> []"
    "digits_value ds = k"
proof (cases "blank \<and> k < 10")
  case True
  then show thesis
    by (intro that [of "['' '' ! 0]" "[digit_char k]"])
      (simp_all add: two_columns_def is_space_def digits_value_def)
next
  case False
  then show thesis
    using assms fixed_digits [of 2 k] digits_value_fixed [of "[]" 2 k] length_fixed [of 2 k]
    by (intro that [of "[]" "fixed 2 k"]) (auto simp: two_columns_def digits_value_def simp del: length_fixed)
qed

lemma two_columns_length [simp]: "length (two_columns blank k) = 2"
  by (simp add: two_columns_def)

lemma digits_ends:
  assumes "list_all is_digit ds" "ds \<noteq> []"
  shows "\<not> is_space (hd ds)" "\<not> is_space (last ds)"
  using assms digit_not(5) by (auto simp: list_all_iff)

lemma two_columns_int:
  assumes "k < 100"
  shows "int_of_text (two_columns blank k) = Inr (int k)" "all_digits (str_strip (two_columns blank k))"
proof -
  obtain bs ds where k: "two_columns blank k = bs @ ds" "list_all is_space bs" "list_all is_digit ds" "ds \<noteq> []"
    "digits_value ds = k" by (rule two_columns_split [OF assms])
  have strip: "str_strip (bs @ ds) = ds" using k digits_ends [OF k(3,4)] by (intro strip_blanks)
  have "length ds \<le> length (two_columns blank k)" by (simp only: k(1) length_append)
  then have "length ds \<le> 4300" by simp
  from int_of_digits [OF k(3,4) this strip] k(1,5)
  show "int_of_text (two_columns blank k) = Inr (int k)" by simp
  show "all_digits (str_strip (two_columns blank k))" using k strip by (simp add: all_digits_def)
qed

lemma fixed_two: "k < 100 \<Longrightarrow> int_of_text (fixed 2 k) = Inr (int k)" "all_digits (fixed (Suc n) k)"
  using two_columns_int(1) [of k False] fixed_digits [of "Suc n" k]
  by (simp_all add: two_columns_def all_digits_def)

lemma float_of_digits:
  assumes ip: "list_all is_digit ip" "ip \<noteq> []" and fp: "list_all is_digit fp" "fp \<noteq> []" and bs: "list_all is_space bs"
  shows "float_of_text (bs @ ip @ CHR ''.'' # fp) =
    Inr (round64 (of_nat (digits_value (ip @ fp)) * pow10 (- int (length fp))))"
proof -
  let ?body = "ip @ CHR ''.'' # fp"
  obtain c cs where c: "ip = c # cs" "is_digit c" using ip by (cases ip) auto
  have strip: "str_strip (bs @ ?body) = ?body"
    using digits_ends [OF ip] digits_ends [OF fp] ip fp by (intro strip_blanks [OF bs]) auto
  have sign: "split_sign ?body = (False, ?body)" using c digit_not(2,3) by simp
  have "str_upper ?body \<notin> {''INF'', ''INFINITY'', ''NAN''}"
    using c digit_not(6,7,8) [of c] by (simp add: str_upper_def)
  moreover have "take_digits ?body = (ip, CHR ''.'' # fp)"
    using ip by (intro take_digits_append) (auto simp: is_digit_def)
  moreover have "take_digits fp = (fp, [])" using take_digits_append [OF fp(1), of "[]"] by simp
  ultimately have "unsigned_float ?body = Some (decimal_value ip fp 0)"
    using ip(2) by (simp add: unsigned_float_def exponent_part_def)
  then show ?thesis by (simp add: float_of_text_def strip sign decimal_value_def)
qed

lemma seconds_float:
  assumes "s < 100" and "q < 10000000"
  shows "float_of_text (CHR '' '' # two_columns blank s @ CHR ''.'' # fixed 7 q) =
    Inr (round64 (of_nat s + of_nat q / 10000000))"
proof -
  obtain bs ds where k: "two_columns blank s = bs @ ds" "list_all is_space bs" "list_all is_digit ds" "ds \<noteq> []"
    "digits_value ds = s" by (rule two_columns_split [OF assms(1)])
  have blanks: "list_all is_space (CHR '' '' # bs)" using k(2) by (simp add: is_space_def)
  have "fixed 7 q \<noteq> []" using length_fixed [of 7 q] by (metis length_0_conv zero_neq_numeral)
  then have "float_of_text ((CHR '' '' # bs) @ ds @ CHR ''.'' # fixed 7 q) =
      Inr (round64 (of_nat (digits_value (ds @ fixed 7 q)) * pow10 (- int 7)))"
    using float_of_digits [OF k(3,4) fixed_digits _ blanks, of 7 q] by (simp only: length_fixed) simp
  moreover have "of_nat (digits_value (ds @ fixed 7 q)) * pow10 (- int 7) = (of_nat s + of_nat q / 10000000 :: rat)"
    using assms(2) by (simp add: digits_value_fixed k(5) pow10_def add_divide_distrib)
  ultimately show ?thesis using k(1) by simp
qed

section \<open>Seconds\<close>

text \<open>
  Whole seconds and tenths of a microsecond survive the three roundings: the microseconds are the
  nearest ones, a tie being left open.
\<close>

lemma split_seconds_exact:
  assumes "s < 60" and "q < 10000000" and "q mod 10 \<noteq> 5"
  shows "split_seconds (round64 (of_nat s + of_nat q / 10000000)) = Inr (int s, int ((q + 5) div 10))"
proof -
  define x :: rat where "x = of_nat s + of_nat q / 10000000"
  have "rat_of_nat s \<le> of_nat 59" "rat_of_nat q \<le> of_nat 9999999"
    using assms(1,2) unfolding of_nat_le_iff by simp_all
  then have s: "of_nat s \<le> (59 :: rat)" and q: "of_nat q \<le> (9999999 :: rat)" by simp_all
  have x: "0 \<le> x" "x < 2 ^ 6" using s q by (simp_all add: x_def)
  obtain v where v: "round64 x = PFin v" "\<bar>v - x\<bar> \<le> 1 / 2 ^ 48"
    using round64_error [OF x] by auto
  have near: "v - x \<le> 1 / 281474976710656" "x - v \<le> 1 / 281474976710656"
    using abs_le_D1 [OF v(2)] abs_le_D2 [OF v(2)] by simp_all
  have floor: "of_nat s \<le> v" "v < of_nat s + 1"
  proof -
    show "of_nat s \<le> v"
    proof (cases "q = 0")
      case True
      then have "round64 x = PFin (of_nat s)" using round64_of_int [of "int s"] assms(1) by (simp add: x_def)
      then show ?thesis using v(1) by simp
    next
      case False
      then have "rat_of_nat 1 \<le> of_nat q" unfolding of_nat_le_iff by simp
      then have "of_nat s + 1 / 10000000 \<le> x" by (simp add: x_def)
      then show ?thesis using near(2) by linarith
    qed
    have "x \<le> of_nat s + 9999999 / 10000000" using q by (simp add: x_def)
    then show "v < of_nat s + 1" using near(1) by linarith
  qed
  then have "\<lfloor>v\<rfloor> = int s" by (simp add: floor_eq_iff)
  moreover have "0 \<le> v" using floor(1) of_nat_0_le_iff [of s] by linarith
  ultimately have whole: "f_to_int (PFin v) = Inr (int s)" by (simp add: rat_trunc_def)
  have float_s: "int_to_float (int s) = Inr (PFin (of_nat s))" using int_to_float_exact [of "int s"] assms(1) by simp
  obtain w where w: "round64 (v - of_nat s) = PFin w" "\<bar>w - (v - of_nat s)\<bar> \<le> 1 / 2 ^ 54"
    using round64_error [of "v - of_nat s" 0] floor by auto
  have wnear: "w - (v - of_nat s) \<le> 1 / 18014398509481984" "(v - of_nat s) - w \<le> 1 / 18014398509481984"
    using abs_le_D1 [OF w(2)] abs_le_D2 [OF w(2)] by simp_all
  have w0: "0 \<le> w" using round64_nonneg [of "v - of_nat s"] floor w(1) by auto
  have "w < 2" using wnear(1) floor(2) by linarith
  with w0 have "0 \<le> w * 1000000" "w * 1000000 < 2 ^ 21" by simp_all
  then obtain m where m: "round64 (w * 1000000) = PFin m" "\<bar>m - w * 1000000\<bar> \<le> 1 / 2 ^ 33"
    using round64_error [of "w * 1000000" 21] by auto
  have mnear: "m - w * 1000000 \<le> 1 / 8589934592" "w * 1000000 - m \<le> 1 / 8589934592"
    using abs_le_D1 [OF m(2)] abs_le_D2 [OF m(2)] by simp_all
  define k where "k = (q + 5) div 10"
  have k10: "10 * k \<le> q + 4" "q \<le> 10 * k + 4" using assms(3) by (simp_all add: k_def) presburger+
  then have "rat_of_nat (10 * k) \<le> of_nat (q + 4)" "rat_of_nat q \<le> of_nat (10 * k + 4)"
    by (simp_all only: of_nat_le_iff)
  then have k: "10 * rat_of_nat k \<le> of_nat q + 4" "rat_of_nat q \<le> 10 * of_nat k + 4" by simp_all
  have "\<bar>m - of_int (int k)\<bar> < 1 / 2"
  proof -
    have "m - of_nat k < 1 / 2" "of_nat k - m < 1 / 2" using near wnear mnear k unfolding x_def by linarith+
    then show ?thesis by linarith
  qed
  then have "round_half_even m = int k" by (rule round_half_even_near)
  then show ?thesis
    using v(1) w(1) m(1) whole float_s
    by (simp add: split_seconds_def f_sub_def f_round_def k_def flip: x_def)
qed

section \<open>The columns\<close>

lemma epoch_slices:
  assumes "length y = 2" "length mo = 2" "length d = 2" "length h = 2" "length mi = 2" "length x = 10" "length c = 2"
    and l: "l = CHR '' '' # y @ CHR '' '' # mo @ CHR '' '' # d @ CHR '' '' # h @ CHR '' '' # mi @
      CHR '' '' # x @ '' '' @ '' '' @ f # CHR '' '' # c @ r"
  shows "slice 1 3 l = y" "slice 4 6 l = mo" "slice 7 9 l = d" "slice 10 12 l = h" "slice 13 15 l = mi"
    "slice 15 26 l = CHR '' '' # x" "slice 28 29 l = [f]" "l ! 28 = f" "slice 30 32 l = c" "32 \<le> length l"
    "list_all (\<lambda>i. l ! i = CHR '' '') [0, 3, 6, 9, 12, 26, 27, 29]"
proof -
  have two: "\<exists>a b. xs = [a, b]" if "length xs = 2" for xs :: string
    using that by (cases xs; cases "tl xs") auto
  obtain y1 y2 mo1 mo2 d1 d2 h1 h2 mi1 mi2 c1 c2 where
    "y = [y1, y2]" "mo = [mo1, mo2]" "d = [d1, d2]" "h = [h1, h2]" "mi = [mi1, mi2]" "c = [c1, c2]"
    using two assms by metis
  with assms(6) show "slice 1 3 l = y" "slice 4 6 l = mo" "slice 7 9 l = d" "slice 10 12 l = h" "slice 13 15 l = mi"
    "slice 15 26 l = CHR '' '' # x" "slice 28 29 l = [f]" "l ! 28 = f" "slice 30 32 l = c" "32 \<le> length l"
    "list_all (\<lambda>i. l ! i = CHR '' '') [0, 3, 6, 9, 12, 26, 27, 29]"
    by (simp_all add: l slice_def nth_append)
qed

section \<open>The round trip\<close>

lemma epoch_line_read:
  assumes date: "1980 \<le> dt_year t" "dt_year t \<le> 2079" "1 \<le> dt_month t" "dt_month t \<le> 12" "1 \<le> dt_day t"
      "dt_day t \<le> days_in_month (dt_year t) (dt_month t)"
    and time: "0 \<le> dt_hour t" "dt_hour t < 24" "0 \<le> dt_minute t" "dt_minute t < 60" "0 \<le> dt_second t"
      "dt_second t < 60" "dt_offset t = Some 0"
    and line: "ticks < 10000000" "ticks mod 10 \<noteq> 5" "flag < 10" "n < 100"
  shows "epoch_shape (epoch_line blank t ticks flag n satellites)"
    and "rinex2_fields (epoch_line blank t ticks flag n satellites) =
      bind_result (new_datetime (dt_year t) (dt_month t) (dt_day t) (dt_hour t) (dt_minute t) (dt_second t)
        (int ((ticks + 5) div 10)) (Some 0)) (\<lambda>u. Inr (u, int flag))"
proof -
  let ?l = "epoch_line blank t ticks flag n satellites"
  let ?x = "two_columns blank (nat (dt_second t)) @ CHR ''.'' # fixed 7 ticks"
  have day: "dt_day t < 100" using date by (auto simp: days_in_month_def split: if_splits)
  have l: "?l = CHR '' '' # fixed 2 (nat (dt_year t mod 100)) @ CHR '' '' # two_columns blank (nat (dt_month t)) @
      CHR '' '' # two_columns blank (nat (dt_day t)) @ CHR '' '' # two_columns blank (nat (dt_hour t)) @
      CHR '' '' # two_columns blank (nat (dt_minute t)) @ CHR '' '' # ?x @ '' '' @ '' '' @ digit_char flag #
      CHR '' '' # two_columns blank n @ satellites"
    by (simp only: epoch_line_def append_assoc append_Cons)
  have len: "length ?x = 10" by simp
  note cols = epoch_slices [OF length_fixed two_columns_length two_columns_length two_columns_length
      two_columns_length len two_columns_length l]
  have flag: "int_of_text [digit_char flag] = Inr (int flag)"
    using line(3) int_of_digits [of "[digit_char flag]" "[digit_char flag]"] strip_digits(1) [of "[digit_char flag]"]
    by (simp add: digits_value_def)
  show "epoch_shape ?l"
    unfolding epoch_shape_def cols(1,7,9)
  proof (intro conjI)
    show "all_digits (fixed 2 (nat (dt_year t mod 100)))" by (simp only: numeral_2_eq_2 fixed_two(2))
    show "all_digits [digit_char flag]" using line(3) by (simp add: all_digits_def)
    show "all_digits (str_strip (two_columns blank n))" using line(4) by (rule two_columns_int(2))
  qed (rule cols(10,11))+
  have yy: "int_of_text (fixed 2 (nat (dt_year t mod 100))) = Inr (dt_year t mod 100)" by (simp add: fixed_two(1))
  show "rinex2_fields ?l =
      bind_result (new_datetime (dt_year t) (dt_month t) (dt_day t) (dt_hour t) (dt_minute t) (dt_second t)
        (int ((ticks + 5) div 10)) (Some 0)) (\<lambda>u. Inr (u, int flag))"
  proof -
    have year: "(if dt_year t mod 100 < 80 then dt_year t mod 100 + 2000 else dt_year t mod 100 + 1900) = dt_year t"
      using date(1,2) by presburger
    have small: "nat (dt_month t) < 100" "nat (dt_day t) < 100" "nat (dt_hour t) < 100" "nat (dt_minute t) < 100"
      "nat (dt_second t) < 60" "nat (dt_second t) < 100"
      using date(4) day time by simp_all
    have int: "int (nat (dt_month t)) = dt_month t" "int (nat (dt_day t)) = dt_day t" "int (nat (dt_hour t)) = dt_hour t"
      "int (nat (dt_minute t)) = dt_minute t" "int (nat (dt_second t)) = dt_second t"
      using date(3,5) time by simp_all
    show ?thesis
      unfolding rinex2_fields_def cols(1-6,8) yy flag two_columns_int(1) [OF small(1)] two_columns_int(1) [OF small(2)]
        two_columns_int(1) [OF small(3)] two_columns_int(1) [OF small(4)] seconds_float [OF small(6) line(1)]
        bind_result_simps split_seconds_exact [OF small(5) line(1,2)] prod.case int year
      by simp
  qed
qed

text \<open>
  C33. An epoch line gives back its date. Of every line in the columns of the format, for a date from
  1980 to 2079, a second of the day with its tenths of microseconds, a flag and a number of satellites,
  with blanks or zeros in front of one-digit fields, \<open>parse_rinex2_epoch\<close> returns exactly that date and
  time in UTC, at the nearest microsecond, and that flag; only where the nearest microsecond is the next
  whole second (from 0.9999996 on) is a well-formed line refused as if it were no epoch line. The tie of
  half a microsecond is left out: there the binary value of the text decides.
\<close>

theorem epoch_line_roundtrip:
  assumes date: "1980 \<le> dt_year t" "dt_year t \<le> 2079" "1 \<le> dt_month t" "dt_month t \<le> 12" "1 \<le> dt_day t"
      "dt_day t \<le> days_in_month (dt_year t) (dt_month t)"
    and time: "0 \<le> dt_hour t" "dt_hour t < 24" "0 \<le> dt_minute t" "dt_minute t < 60" "0 \<le> dt_second t"
      "dt_second t < 60" "dt_offset t = Some 0"
    and line: "ticks < 10000000" "ticks mod 10 \<noteq> 5" "flag < 10" "n < 100"
  shows "parse_rinex2_epoch (epoch_line blank t ticks flag n satellites) =
    Inr (if ticks < 9999996 then Some (t\<lparr>dt_microsecond := int ((ticks + 5) div 10)\<rparr>, int flag) else None)"
proof -
  have us: "int ((ticks + 5) div 10) \<le> 999999 \<longleftrightarrow> ticks < 9999996"
  proof -
    have "(ticks + 5) div 10 < 1000000 \<longleftrightarrow> ticks + 5 < 1000000 * 10" by (rule div_less_iff_less_mult) simp
    moreover have "ticks \<noteq> 9999995" using line(2) by auto
    ultimately show ?thesis by linarith
  qed
  have small: "int ((ticks + 5) div 10) \<le> 1000000" using line(1) by linarith
  have day: "dt_day t < 100" using date by (auto simp: days_in_month_def split: if_splits)
  have new: "new_datetime (dt_year t) (dt_month t) (dt_day t) (dt_hour t) (dt_minute t) (dt_second t)
      (int ((ticks + 5) div 10)) (Some 0) =
    (if ticks < 9999996 then Inr (t\<lparr>dt_microsecond := int ((ticks + 5) div 10)\<rparr>)
     else Inl (ValueError ''microsecond must be in 0..999999''))"
    using date time day us small by (simp add: new_datetime_def c_int_def) linarith
  show ?thesis unfolding parse_rinex2_epoch_def epoch_line_read(2) [OF assms] new
    using epoch_line_read(1) [OF assms] by (simp add: on_value_error_def)
qed

lemma epoch_line_roundtrip_witness:
  "let t = \<lparr>dt_year = 2024, dt_month = 2, dt_day = 29, dt_hour = 9, dt_minute = 5, dt_second = 59,
      dt_microsecond = 0, dt_offset = Some 0\<rparr>
   in parse_rinex2_epoch (epoch_line True t 1234567 0 7 ''G05'') = Inr (Some (t\<lparr>dt_microsecond := 123457\<rparr>, 0)) \<and>
      parse_rinex2_epoch (epoch_line False t 9999996 1 12 []) = Inr None"
proof -
  let ?t = "\<lparr>dt_year = 2024, dt_month = 2, dt_day = 29, dt_hour = 9, dt_minute = 5, dt_second = 59,
      dt_microsecond = 0, dt_offset = Some 0\<rparr>"
  have "29 \<le> days_in_month 2024 2" by (simp add: days_in_month_def is_leap_def)
  then show ?thesis
    using epoch_line_roundtrip [of ?t 1234567 0 7 True "''G05''"] epoch_line_roundtrip [of ?t 9999996 1 12 False "[]"]
    by simp
qed

end
