(* ===== verification/Spec2Isabelle.thy ===== *)
theory Spec2Isabelle
  imports Rtcm_Parse Hybrid_Properties Ntrip_Properties Ntrip_Probe Gen_Properties Net_Runner Exp_Catalog
    Api_Archive Qc_Epoch
begin

text \<open>
  The correction path of the Nigeria Localised GNSS Correction Platform, from the delivered observation
  files to the correction that a rover gets. Seven research packages are modelled: \<open>rtcm_replay\<close>
  (recorded RTCM 3 streams), \<open>hybrid_decision_engine\<close> (which correction, if any), \<open>ntrip_ingestion\<close> (the
  live client), \<open>rtcm_generation\<close> (synthetic correction frames), \<open>gnss_qc\<close> (analysis and classification
  of observation sessions, with its batch), \<open>network_rtk\<close> (admission, planning and run gate of network
  experiments) and \<open>scientific_expansion\<close> (coverage and catalog of processable days); and of \<open>apps/api\<close>
  the canonical archive of a delivery. Paths below are under \<open>src/research/\<close>, where not said otherwise.

  \<^bold>\<open>The parts and how they interact.\<close> Bytes arrive over NTRIP (\<open>client.py\<close>) or from an admitted file
  (\<open>rtcm_replay/admission.py\<close>). A framer turns them into frames and checks CRC-24Q; live frames are
  written to a capture, indexed and, if the checksum holds, buffered for the consumer; recorded frames
  become a timeline, a plan, and are handed to a consumer by the replay controller. The decision engine
  reads quality results and coordinates, ranks single bases, tests the network and the VRS gate, and
  decides; its decision goes through a payload to the replay handoff, which binds it to a source. A
  finished capture is admitted as a replay source through the bridge. The generator encodes frames for
  an approved request only and checks them with the parser of the replay. Delivered files are copied,
  verified, to their canonical paths. Quality control verifies such a file, converts and analyses it,
  turns the measurements into findings and stores the worst severity as the result of the session; the
  discovery of the decision engine and the admission of network experiments read that stored result back,
  and that they read what was written is proved. An experiment is planned from admitted sessions, their geometry and common window, and a run passes the tests that
  its plan foresaw. The coverage matrix joins manifest, quality table, products and coordinates; the
  catalog lists the days with processable pairs, and some of them are chosen.

  \<^bold>\<open>Shared layer.\<close> \<open>Nlgcp_Prelude\<close>: exceptions, results, decimal and hexadecimal texts, weak orders.
  \<open>Py_Float\<close>, \<open>Py_Json\<close>, \<open>Py_Convert\<close>, \<open>Py_Text\<close>, \<open>Py_Time\<close>: binary64 numbers with the rounding of every
  operation, JSON values, the conversions and their exceptions, canonical JSON text, string methods,
  calendar and instants. \<open>Py_Calendar\<close>: days and dates. The rounding error of a float is bounded there
  once (\<open>round64_error\<close>).

  \<^bold>\<open>Replay.\<close>
  \<^item> \<open>Rtcm_Models\<close>, \<open>Rtcm_Parse\<close>: \<open>models.py\<close>, its parsers and \<open>as_dict\<close> methods, \<open>provenance.py\<close>.
  \<^item> \<open>Crc24q\<close>: \<open>crc.py\<close>; linearity and burst detection, stated as the locale \<open>checksum24\<close>.
  \<^item> \<open>Rtcm_Framing\<close>, \<open>Rtcm_Scan\<close>, \<open>Rtcm_Encode\<close>: \<open>framing.py\<close>, its reference description \<open>scan\<close> which
    the loop of the code is proved to compute, and the fixture encoder, which the parser inverts.
  \<^item> \<open>Rtcm_Streaming\<close>: \<open>ntrip_ingestion/framing.py\<close>; the locale \<open>chunk_consumer\<close> says that the cutting of
    the wire into reads does not matter.
  \<^item> \<open>Bounded_Buffer\<close>: \<open>buffer.py\<close>, with its users' contract as the locale \<open>bounded_queue\<close>.
  \<^item> \<open>Rtcm_Timing\<close>, \<open>Rtcm_Checkpoint\<close>, \<open>Rtcm_Replay\<close>, \<open>Rtcm_Replay_Run\<close>, \<open>Rtcm_Replay_Out\<close>, \<open>Rtcm_Pipeline\<close>:
    \<open>timing.py\<close>, \<open>checkpoint.py\<close>, \<open>clock.py\<close>, \<open>replay.py\<close>; the invariant and the termination of a run,
    pausing, resuming and checkpoints, and the whole way from bytes to the consumer.
  \<^item> \<open>Rtcm_Admission\<close>: \<open>inventory.py\<close>, \<open>admission.py\<close>, \<open>handoff.py\<close>, \<open>metrics.py\<close>, \<open>subjects.py\<close>, \<open>fixtures.py\<close>.

  \<^bold>\<open>Decision.\<close>
  \<^item> \<open>Hybrid_Models\<close>, \<open>Hybrid_Policy\<close>, \<open>Hybrid_Discovery\<close>: \<open>models.py\<close>, \<open>policy.py\<close>, \<open>discovery.py\<close>.
  \<^item> \<open>Hybrid_Gates\<close>: \<open>network.py\<close>, \<open>single_base.py\<close>, \<open>vrs.py\<close>, \<open>integrity.py\<close>.
  \<^item> \<open>Hybrid_Decision\<close>, \<open>Hybrid_Properties\<close>: \<open>provenance.py\<close>, \<open>decision.py\<close>; every route is an instance of
    the locale \<open>correction_route\<close>, and the mode decided refines a priority specification.

  \<^bold>\<open>Live ingestion.\<close>
  \<^item> \<open>Ntrip_Models\<close>, \<open>Ntrip_Auth\<close>, \<open>Ntrip_Handshake\<close>, \<open>Ntrip_Sourcetable\<close>: \<open>models.py\<close>, \<open>auth.py\<close>,
    \<open>backoff.py\<close> and \<open>handshake.py\<close>, \<open>sourcetable.py\<close> and \<open>admission.py\<close>.
  \<^item> \<open>Ntrip_Delivery\<close>: \<open>timing.py\<close>, \<open>provenance.py\<close>, \<open>subjects.py\<close>, \<open>publisher.py\<close>, \<open>bridge.py\<close>, \<open>status.py\<close>.
  \<^item> \<open>Ntrip_Capture\<close>: \<open>capture.py\<close>; a directory is the list of its files by name.
  \<^item> \<open>Ntrip_Client\<close>, \<open>Ntrip_Live\<close>, \<open>Ntrip_Probe\<close>: \<open>client.py\<close>; a capture may fetch the source table
    first, on the same client, with its states and metrics. \<open>Ntrip_Live_Run\<close> proves the invariant of the
    loops of a capture (lifecycle, evidence, metrics) step by step, \<open>Ntrip_Live_Close\<close> what the fetch
    before them and the closing after them add, \<open>Ntrip_Properties\<close> what follows of a whole capture.

  \<^bold>\<open>Generation.\<close>
  \<^item> \<open>Gen_Bits\<close>: \<open>bitstream.py\<close>, \<open>fields.py\<close>. \<open>Gen_Models\<close>: \<open>models.py\<close>, \<open>registry.py\<close>, \<open>provenance.py\<close>,
    \<open>handoff.py\<close>. \<open>Gen_Engine\<close>: \<open>admission.py\<close>, \<open>framing.py\<close>, \<open>encoder.py\<close>, \<open>generator.py\<close>, \<open>validation.py\<close>,
    \<open>lab.py\<close>. \<open>Gen_Properties\<close>: the generator fails closed, and what it makes is transportable.

  \<^bold>\<open>Quality control.\<close>
  \<^item> \<open>Qc_Models\<close>: \<open>models.py\<close>, \<open>profiles.py\<close>. \<open>Qc_Classify\<close>: \<open>classify.py\<close> and the identity and products of
    \<open>dataset.py\<close>; the exact conditions of an accepted session.
  \<^item> \<open>Qc_Rinex\<close>, \<open>Qc_Session\<close>: \<open>rinex.py\<close>, with the timestamp parsers of \<open>apps/api\<close>; what the measurements
    of a session and its acceptance say of the file. \<open>Qc_Epoch\<close>: the epoch line as the format lays it
    out, which the parser reads back.
  \<^item> \<open>Qc_Engine\<close>, \<open>Qc_Batch\<close>: \<open>engine.py\<close>; stored results, their reuse, failures, and their two readers.

  \<^bold>\<open>Network experiments.\<close> \<open>Net_Admission\<close>, \<open>Net_Models\<close>, \<open>Net_Overlap\<close>, \<open>Net_Geometry\<close>, \<open>Net_Runner\<close>:
  \<open>admission.py\<close>, \<open>models.py\<close>, \<open>overlap.py\<close>, \<open>geometry.py\<close> and, up to the baselines, \<open>runner.py\<close>.

  \<^bold>\<open>Expansion study.\<close> \<open>Exp_Coverage\<close>, \<open>Exp_Catalog\<close>: \<open>coverage.py\<close>, \<open>overlap.py\<close>, \<open>catalog.py\<close>; the catalog
  is described from the rows that the coverage matrix is made of.

  \<^bold>\<open>Archive.\<close> \<open>Api_Archive\<close>: delivery, archive and manifest of \<open>apps/api/src/nlgcp_api/phase2_dataset.py\<close>.
  The file system is a map from paths to files; the directories above a target can be made, and a
  delivery lists its files as separate objects.

  \<^bold>\<open>Loops and fuel.\<close> Loops over data are structural or have a measure: the body of a session by its
  remaining lines, the reading of a source table by the bytes that its limit still allows. The run of the replay controller
  takes fuel, and \<open>remaining events + 2\<close> is proved to be enough. The loops of the live client may wait
  for as long as the caster keeps them waiting, so they return \<open>None\<close> when the fuel is used up; a
  capture is proved to end with any fuel above the number of clock readings before the time budget is
  spent, and a probe with one turn per byte of its limit, whatever the clock says.

  \<^bold>\<open>Parameters.\<close> SHA-256 (\<open>sha\<close>), the clocks, the content of files and directories, the consumer of a
  replay, the outcomes of the network (\<open>world\<close>: the n-th dial, send, receive and reading of each
  clock), the UTF-8 decoder of a source table (\<open>decode\<close>), the JSON decoder, \<open>datetime.fromisoformat\<close>
  (\<open>fromiso\<close>), the observed size of a file, the converters and stored files of quality control
  (\<open>qc_env\<close>), the git commit and made-up identifiers are arguments. Nothing is assumed of them beyond what a property states.

  \<^bold>\<open>Conventions.\<close> A Python exception is \<open>Inl\<close> of \<open>py_error\<close>; a method of an object takes and returns the
  object, also when it raises. Text is ASCII, or Latin-1 where a head is decoded as such. A float is the
  rational it denotes, negative zero is zero, squares and roots are correctly rounded, and the order
  of a sort with a not-a-number key is left as the sort leaves it. \<open>urlsplit\<close> is modelled for scheme,
  host and port. \<open>request_shutdown\<close> comes from another thread: its flag may be set at any
  reading of the client (\<open>world\<close>), and the \<open>STOPPED\<close> that it records is interleaved with the states
  of the capture (\<open>with_requests\<close>); the socket that it closes is seen as the next outcome of the network.

  \<^bold>\<open>Not modelled.\<close> The report renderers, the test server, the wall clocks and socket wrappers: input and
  output without state of their own. The baselines of \<open>network_rtk\<close> and the package \<open>single_base_rtk\<close>,
  which drive RTKLIB, an external program; the numerical packages \<open>atmospheric_spatial_model\<close>,
  \<open>vrs_generator\<close> and \<open>scientific_validation\<close>; the file scans, downloads and aggregates of \<open>gnss_qc\<close> and
  \<open>scientific_expansion\<close>; \<open>resolve_data_root\<close>, \<open>plan_dataset\<close> and \<open>git_provenance\<close>; the rest of
  \<open>apps/api\<close>, with the session analysis of the Phase 2 inventory, which quality control replaces; the
  database migrations and the scripts. The manifest lists them.
\<close>

end
